(* ===== verification/Go_Base.thy ===== *)
theory Go_Base
  imports Main "HOL-Library.AList" "HOL-Library.Signed_Division" "HOL-Library.Multiset"
begin

text \<open>
  The prelude: what every component of the development takes from the Go language and from the
  standard packages \<^verbatim>\<open>strings\<close>, \<^verbatim>\<open>strconv\<close> and \<^verbatim>\<open>fmt\<close>.

  \<^item> 64-bit signed integers (\<^verbatim>\<open>int\<close> on amd64 and \<^verbatim>\<open>int64\<close>) are
    \<^typ>\<open>int\<close> with the two's complement wrap-around written out (\<open>wrap64\<close>); division
    and remainder truncate towards zero.
  \<^item> Go strings are byte strings, here \<^typ>\<open>string\<close>; case conversion and white space are
    those of ASCII bytes, which is all the identifiers, tokens and status words of the platform
    use. On other code points Go's \<^verbatim>\<open>ToUpper\<close> and \<^verbatim>\<open>TrimSpace\<close> are
    Unicode aware; here such bytes are left alone.
  \<^item> A Go map is an association list with distinct keys (\<open>gm_get\<close>, \<open>gm_set\<close>,
    \<open>gm_del\<close>, invariant \<open>gm_ok\<close>). The iteration order of a Go map is unspecified, so
    code that ranges over one takes the order as a parameter, any function that permutes its
    argument (\<open>permutes_list\<close>).
  \<^item> A wall clock reading is a record \<open>gotime\<close> of its civil fields and its Unix time.
\<close>

named_theorems go_simps \<open>defining equations of the Go run-time functions\<close>

section \<open>Machine integers\<close>

definition wrap64 :: "int \<Rightarrow> int" where
  "wrap64 x = (x + 2 ^ 63) mod 2 ^ 64 - 2 ^ 63"

definition int64_ok :: "int \<Rightarrow> bool" where
  "int64_ok x \<longleftrightarrow> - (2 ^ 63) \<le> x \<and> x < 2 ^ 63"

definition i64_add :: "int \<Rightarrow> int \<Rightarrow> int" where
  "i64_add a b = wrap64 (a + b)"

definition i64_sub :: "int \<Rightarrow> int \<Rightarrow> int" where
  "i64_sub a b = wrap64 (a - b)"

definition i64_mul :: "int \<Rightarrow> int \<Rightarrow> int" where
  "i64_mul a b = wrap64 (a * b)"

definition i64_neg :: "int \<Rightarrow> int" where
  "i64_neg a = wrap64 (- a)"

text \<open>Go's \<^verbatim>\<open>/\<close> and \<^verbatim>\<open>%\<close>; a zero divisor panics, so callers test it first.\<close>

definition i64_div :: "int \<Rightarrow> int \<Rightarrow> int" where
  "i64_div a b = wrap64 (a sdiv b)"

definition i64_rem :: "int \<Rightarrow> int \<Rightarrow> int" where
  "i64_rem a b = a smod b"

section \<open>Strings\<close>

definition is_space :: "char \<Rightarrow> bool" where
  "is_space c \<longleftrightarrow> (let n = (of_char c :: nat) in (9 \<le> n \<and> n \<le> 13) \<or> n = 32)"

definition upper_char :: "char \<Rightarrow> char" where
  "upper_char c = (let n = (of_char c :: nat) in
     if 97 \<le> n \<and> n \<le> 122 then char_of (n - 32) else c)"

definition lower_char :: "char \<Rightarrow> char" where
  "lower_char c = (let n = (of_char c :: nat) in
     if 65 \<le> n \<and> n \<le> 90 then char_of (n + 32) else c)"

definition ToUpper :: "string \<Rightarrow> string" where
  "ToUpper s = map upper_char s"

definition ToLower :: "string \<Rightarrow> string" where
  "ToLower s = map lower_char s"

definition trim_by :: "(char \<Rightarrow> bool) \<Rightarrow> string \<Rightarrow> string" where
  "trim_by p s = rev (dropWhile p (rev (dropWhile p s)))"

definition TrimSpace :: "string \<Rightarrow> string" where
  "TrimSpace s = trim_by is_space s"

text \<open>\<^verbatim>\<open>strings.Trim\<close> with a one-byte cutset, and \<^verbatim>\<open>strings.TrimRight\<close>.\<close>

definition TrimChar :: "string \<Rightarrow> char \<Rightarrow> string" where
  "TrimChar s c = trim_by (\<lambda>d. d = c) s"

definition TrimRightChar :: "string \<Rightarrow> char \<Rightarrow> string" where
  "TrimRightChar s c = rev (dropWhile (\<lambda>d. d = c) (rev s))"

definition HasPrefix :: "string \<Rightarrow> string \<Rightarrow> bool" where
  "HasPrefix s p \<longleftrightarrow> take (length p) s = p"

definition HasSuffix :: "string \<Rightarrow> string \<Rightarrow> bool" where
  "HasSuffix s p \<longleftrightarrow> length p \<le> length s \<and> drop (length s - length p) s = p"

definition TrimPrefix :: "string \<Rightarrow> string \<Rightarrow> string" where
  "TrimPrefix s p = (if HasPrefix s p then drop (length p) s else s)"

fun Contains :: "string \<Rightarrow> string \<Rightarrow> bool" where
  "Contains [] p = (p = [])"
| "Contains (c # s) p = (HasPrefix (c # s) p \<or> Contains s p)"

text \<open>\<^verbatim>\<open>strings.ReplaceAll(s, string(c), "")\<close> and \<^verbatim>\<open>strings.EqualFold\<close>.\<close>

definition RemoveChar :: "string \<Rightarrow> char \<Rightarrow> string" where
  "RemoveChar s c = filter (\<lambda>d. d \<noteq> c) s"

definition EqualFold :: "string \<Rightarrow> string \<Rightarrow> bool" where
  "EqualFold s t \<longleftrightarrow> ToLower s = ToLower t"

text \<open>\<^verbatim>\<open>strings.Split\<close> with a one-byte separator: never empty, and the pieces hold no separator.\<close>

fun SplitChar :: "string \<Rightarrow> char \<Rightarrow> string list" where
  "SplitChar [] sep = [[]]"
| "SplitChar (c # s) sep =
     (if c = sep then [] # SplitChar s sep
      else (case SplitChar s sep of [] \<Rightarrow> [[c]] | w # ws \<Rightarrow> (c # w) # ws))"

text \<open>A search loop that returns at its first hit.\<close>

fun first_some :: "'a option list \<Rightarrow> 'a option" where
  "first_some [] = None"
| "first_some (Some x # xs) = Some x"
| "first_some (None # xs) = first_some xs"

text \<open>\<^verbatim>\<open>strings.Split\<close> with a separator that is not empty; \<open>acc\<close> is the current piece.\<close>

function split_from :: "string \<Rightarrow> string \<Rightarrow> string \<Rightarrow> string list" where
  "split_from sep acc s =
     (if sep = [] \<or> s = [] then [acc]
      else if HasPrefix s sep then acc # split_from sep [] (drop (length sep) s)
      else split_from sep (acc @ [hd s]) (tl s))"
  by pat_completeness auto
termination
  by (relation "measure (\<lambda>(sep, acc, s). length s)") auto

declare split_from.simps [simp del]

definition Split :: "string \<Rightarrow> string \<Rightarrow> string list" where
  "Split s sep = split_from sep [] s"

section \<open>Decimal numbers\<close>

definition digit_char :: "nat \<Rightarrow> char" where
  "digit_char d = char_of (48 + d)"

definition is_digit :: "char \<Rightarrow> bool" where
  "is_digit c \<longleftrightarrow> (let n = (of_char c :: nat) in 48 \<le> n \<and> n \<le> 57)"

definition digit_val :: "char \<Rightarrow> nat" where
  "digit_val c = of_char c - 48"

fun show_nat :: "nat \<Rightarrow> string" where
  "show_nat n = (if n < 10 then [digit_char n] else show_nat (n div 10) @ [digit_char (n mod 10)])"

declare show_nat.simps [simp del]

definition show_int :: "int \<Rightarrow> string" where
  "show_int i = (if i < 0 then CHR ''-'' # show_nat (nat (- i)) else show_nat (nat i))"

definition read_digits :: "string \<Rightarrow> nat" where
  "read_digits s = foldl (\<lambda>a c. 10 * a + digit_val c) 0 s"

text \<open>
  \<^verbatim>\<open>strconv.ParseInt(s, 10, 64)\<close> and \<^verbatim>\<open>strconv.Atoi\<close>: an optional sign, then at
  least one digit and nothing else, and a value that fits in 64 bits.
\<close>

definition parse_signed :: "bool \<Rightarrow> string \<Rightarrow> int option" where
  "parse_signed neg ds =
     (if ds = [] \<or> \<not> list_all is_digit ds then None
      else let v = (if neg then - int (read_digits ds) else int (read_digits ds)) in
        if int64_ok v then Some v else None)"

definition ParseInt :: "string \<Rightarrow> int option" where
  "ParseInt s = (case s of
      [] \<Rightarrow> None
    | c # ds \<Rightarrow> if c = CHR ''-'' then parse_signed True ds
                else if c = CHR ''+'' then parse_signed False ds
                else parse_signed False s)"

text \<open>The number that they return next to an error: zero, or the nearest bound when the value is too large.\<close>

definition clamp64 :: "int \<Rightarrow> int" where
  "clamp64 v = max (- (2 ^ 63)) (min (2 ^ 63 - 1) v)"

definition clamp_signed :: "bool \<Rightarrow> string \<Rightarrow> int" where
  "clamp_signed neg ds =
     (if ds = [] \<or> \<not> list_all is_digit ds then 0
      else clamp64 (if neg then - int (read_digits ds) else int (read_digits ds)))"

definition ParseInt_value :: "string \<Rightarrow> int" where
  "ParseInt_value s = (case s of
      [] \<Rightarrow> 0
    | c # ds \<Rightarrow> if c = CHR ''-'' then clamp_signed True ds
                else if c = CHR ''+'' then clamp_signed False ds
                else clamp_signed False s)"

definition pad2 :: "nat \<Rightarrow> string" where
  "pad2 n = (if n < 10 then CHR ''0'' # show_nat n else show_nat n)"

definition pad4 :: "nat \<Rightarrow> string" where
  "pad4 n = replicate (4 - length (show_nat n)) (CHR ''0'') @ show_nat n"

section \<open>Clock readings\<close>

record gotime =
  t_year :: nat
  t_month :: nat
  t_day :: nat
  t_hour :: nat
  t_min :: nat
  t_sec :: nat
  t_unix_micro :: int
  t_zone :: string

text \<open>The zero \<^verbatim>\<open>time.Time\<close>, midnight of 1 January of the year 1 in UTC.\<close>

definition zero_time :: gotime where
  "zero_time = \<lparr>t_year = 1, t_month = 1, t_day = 1, t_hour = 0, t_min = 0, t_sec = 0,
     t_unix_micro = - 62135596800000000, t_zone = ''Z''\<rparr>"

definition IsZero :: "gotime \<Rightarrow> bool" where
  "IsZero t \<longleftrightarrow> t_unix_micro t = t_unix_micro zero_time"

definition gotime_ok :: "gotime \<Rightarrow> bool" where
  "gotime_ok t \<longleftrightarrow> t_year t < 10000 \<and> 1 \<le> t_month t \<and> t_month t \<le> 12 \<and> 1 \<le> t_day t \<and>
     t_day t \<le> 31 \<and> t_hour t < 24 \<and> t_min t < 60 \<and> t_sec t < 60"

text \<open>The layouts \<^verbatim>\<open>20060102150405\<close> and \<^verbatim>\<open>020106150405\<close> of \<^verbatim>\<open>time.Format\<close>.\<close>

definition fmt_ymdhms :: "gotime \<Rightarrow> string" where
  "fmt_ymdhms t = pad4 (t_year t) @ pad2 (t_month t) @ pad2 (t_day t) @ pad2 (t_hour t) @
     pad2 (t_min t) @ pad2 (t_sec t)"

definition fmt_dmyhms :: "gotime \<Rightarrow> string" where
  "fmt_dmyhms t = pad2 (t_day t) @ pad2 (t_month t) @ pad2 (t_year t mod 100) @ pad2 (t_hour t) @
     pad2 (t_min t) @ pad2 (t_sec t)"

text \<open>\<^verbatim>\<open>time.RFC3339\<close>; the record carries the rendering of its zone.\<close>

definition fmt_rfc3339 :: "gotime \<Rightarrow> string" where
  "fmt_rfc3339 t = pad4 (t_year t) @ ''-'' @ pad2 (t_month t) @ ''-'' @ pad2 (t_day t) @ ''T'' @
     pad2 (t_hour t) @ '':'' @ pad2 (t_min t) @ '':'' @ pad2 (t_sec t) @ t_zone t"

text \<open>\<^verbatim>\<open>b.Sub(a).Milliseconds()\<close>.\<close>

definition millis_between :: "gotime \<Rightarrow> gotime \<Rightarrow> int" where
  "millis_between a b = i64_div (i64_sub (t_unix_micro b) (t_unix_micro a)) 1000"

section \<open>Maps\<close>

type_synonym ('k, 'v) gomap = "('k \<times> 'v) list"

definition gm_get :: "('k, 'v) gomap \<Rightarrow> 'k \<Rightarrow> 'v option" where
  "gm_get m k = map_of m k"

definition gm_set :: "'k \<Rightarrow> 'v \<Rightarrow> ('k, 'v) gomap \<Rightarrow> ('k, 'v) gomap" where
  "gm_set k v m = AList.update k v m"

definition gm_del :: "'k \<Rightarrow> ('k, 'v) gomap \<Rightarrow> ('k, 'v) gomap" where
  "gm_del k m = AList.delete k m"

definition gm_ok :: "('k, 'v) gomap \<Rightarrow> bool" where
  "gm_ok m \<longleftrightarrow> distinct (map fst m)"

definition permutes_list :: "('a list \<Rightarrow> 'a list) \<Rightarrow> bool" where
  "permutes_list ord \<longleftrightarrow> (\<forall>xs. mset (ord xs) = mset xs)"

section \<open>Lemmas\<close>

subsection \<open>Integers\<close>

lemma wrap64_id [simp]: "int64_ok x \<Longrightarrow> wrap64 x = x"
  by (simp add: wrap64_def int64_ok_def)

lemma int64_ok_wrap64 [simp]: "int64_ok (wrap64 x)"
  by (simp add: wrap64_def int64_ok_def)

lemma int64_ok_ops [simp]:
  "int64_ok (i64_add a b)" "int64_ok (i64_sub a b)" "int64_ok (i64_mul a b)" "int64_ok (i64_neg a)"
  "int64_ok (i64_div a b)"
  by (simp_all add: i64_add_def i64_sub_def i64_mul_def i64_neg_def i64_div_def)

lemma wrap64_eq_diff: "\<exists>k. wrap64 x = x - k * 2 ^ 64"
  unfolding wrap64_def by (rule exI [of _ "(x + 2 ^ 63) div 2 ^ 64"]) (simp add: minus_mult_div_eq_mod [symmetric])

text \<open>Truncating division of a nonnegative by a positive number is the Euclidean one.\<close>

lemma i64_div_nonneg:
  assumes "0 \<le> a" and "0 < b" and "int64_ok a"
  shows "i64_div a b = a div b"
proof -
  have "a sdiv b = a div b" using assms by (simp add: signed_divide_int_def sgn_if)
  moreover have "0 \<le> a div b" and "a div b \<le> a"
    using assms zdiv_mono2 [of a 1 b] by (simp_all add: pos_imp_zdiv_nonneg_iff)
  ultimately show ?thesis using assms(3) by (simp add: i64_div_def int64_ok_def)
qed

lemma i64_rem_nonneg: "0 \<le> a \<Longrightarrow> 0 < b \<Longrightarrow> i64_rem a b = a mod b"
  by (simp add: i64_rem_def signed_modulo_int_def signed_divide_int_def sgn_if minus_div_mult_eq_mod)


subsection \<open>Strings\<close>

lemma of_char_less_256 [simp]: "(of_char c :: nat) < 256"
  using of_char_mod_256 [of c, where ?'a = nat] mod_less_divisor [of 256 "of_char c :: nat"] by simp

lemma of_char_char_of_small: "n < 256 \<Longrightarrow> (of_char (char_of n) :: nat) = n"
  by simp

lemma upper_char_idem [simp]: "upper_char (upper_char c) = upper_char c"
proof -
  have "(of_char c - 32 :: nat) mod 256 = of_char c - 32"
    by (simp add: less_imp_diff_less)
  then show ?thesis by (auto simp: upper_char_def Let_def)
qed

lemma is_space_upper_char [simp]: "is_space (upper_char c) = is_space c"
  by (auto simp: upper_char_def is_space_def Let_def)

lemma ToUpper_idem [simp]: "ToUpper (ToUpper s) = ToUpper s"
  by (simp add: ToUpper_def)

lemma length_ToUpper [simp]: "length (ToUpper s) = length s"
  by (simp add: ToUpper_def)

lemma ToUpper_append [simp]: "ToUpper (s @ t) = ToUpper s @ ToUpper t"
  by (simp add: ToUpper_def)

lemma ToUpper_eq_Nil [simp]: "ToUpper s = [] \<longleftrightarrow> s = []" "[] = ToUpper s \<longleftrightarrow> s = []"
  by (auto simp: ToUpper_def)

lemma ToUpper_Nil [simp]: "ToUpper [] = []"
  by (simp add: ToUpper_def)

lemma dropWhile_idem: "dropWhile p (dropWhile p s) = dropWhile p s"
  by (induction s) auto

lemma dropWhile_snoc_keep: "dropWhile p s \<noteq> [] \<Longrightarrow> dropWhile p (s @ t) = dropWhile p s @ t"
  by (induction s) auto

lemma dropWhile_rev_stable: "dropWhile p s = s \<Longrightarrow> dropWhile p (rev (dropWhile p (rev s))) = rev (dropWhile p (rev s))"
proof (cases s)
  case Nil
  then show ?thesis by simp
next
  case (Cons c cs)
  assume "dropWhile p s = s"
  with Cons have "\<not> p c" by (auto dest: arg_cong [where f = length] simp: le_imp_less_Suc length_dropWhile_le split: if_splits)
      (metis impossible_Cons length_dropWhile_le)
  then have "dropWhile p (rev cs @ [c]) \<noteq> []" by simp
  then have "last (dropWhile p (rev cs @ [c])) = c"
    by (metis (mono_tags, lifting) dropWhile_append last_snoc dropWhile_eq_Nil_conv last_appendR list.distinct(1) \<open>\<not> p c\<close> dropWhile.simps(2) append_Nil)
  then show ?thesis using Cons \<open>\<not> p c\<close> \<open>dropWhile p (rev cs @ [c]) \<noteq> []\<close>
    by (metis dropWhile_eq_self_iff hd_rev rev.simps(2) rev_is_Nil_conv)
qed

lemma trim_by_idem [simp]: "trim_by p (trim_by p s) = trim_by p s"
  unfolding trim_by_def
  by (simp add: dropWhile_idem dropWhile_rev_stable)

lemma TrimSpace_idem [simp]: "TrimSpace (TrimSpace s) = TrimSpace s"
  by (simp add: TrimSpace_def)

lemma TrimSpace_Nil [simp]: "TrimSpace [] = []"
  by (simp add: TrimSpace_def trim_by_def)

lemma dropWhile_map_upper: "dropWhile is_space (map upper_char s) = map upper_char (dropWhile is_space s)"
  by (simp add: dropWhile_map comp_def)

lemma TrimSpace_ToUpper [simp]: "TrimSpace (ToUpper s) = ToUpper (TrimSpace s)"
  by (simp add: TrimSpace_def trim_by_def ToUpper_def rev_map dropWhile_map_upper)

lemma HasPrefix_append [simp]: "HasPrefix (p @ s) p"
  by (simp add: HasPrefix_def)

lemma HasPrefix_iff: "HasPrefix s p \<longleftrightarrow> (\<exists>t. s = p @ t)"
  by (metis HasPrefix_def append_eq_conv_conj append_take_drop_id)

lemma Contains_iff: "Contains s p \<longleftrightarrow> (\<exists>u v. s = u @ p @ v)"
proof (induction s)
  case (Cons c s)
  show ?case
  proof
    assume "Contains (c # s) p"
    then consider "HasPrefix (c # s) p" | "Contains s p" by auto
    then show "\<exists>u v. c # s = u @ p @ v"
    proof cases
      case 1
      then obtain v where "c # s = [] @ p @ v" by (auto simp: HasPrefix_iff)
      then show ?thesis by blast
    next
      case 2
      with Cons obtain u v where "s = u @ p @ v" by blast
      then have "c # s = (c # u) @ p @ v" by simp
      then show ?thesis by blast
    qed
  next
    assume "\<exists>u v. c # s = u @ p @ v"
    then obtain u v where uv: "c # s = u @ p @ v" by blast
    show "Contains (c # s) p"
    proof (cases u)
      case Nil
      with uv have "HasPrefix (c # s) p" by (auto simp: HasPrefix_iff)
      then show ?thesis by simp
    next
      case (Cons d u')
      with uv have "s = u' @ p @ v" by simp
      with Cons.IH show ?thesis by auto
    qed
  qed
qed simp

lemma RemoveChar_idem [simp]: "RemoveChar (RemoveChar s c) c = RemoveChar s c"
  by (simp add: RemoveChar_def)

lemma SplitChar_not_Nil [simp]: "SplitChar s sep \<noteq> []"
  by (induction s) (auto split: list.splits)

lemma SplitChar_no_sep: "w \<in> set (SplitChar s sep) \<Longrightarrow> sep \<notin> set w"
  by (induction s arbitrary: w) (auto split: if_splits list.splits)

subsection \<open>Decimal numbers\<close>

lemma digit_char_simps [simp]:
  "d < 10 \<Longrightarrow> digit_val (digit_char d) = d" "d < 10 \<Longrightarrow> is_digit (digit_char d)"
  by (simp_all add: digit_val_def digit_char_def is_digit_def Let_def)

lemma show_nat_not_Nil [simp]: "show_nat n \<noteq> []"
  by (subst show_nat.simps) simp

lemma show_nat_digits [simp]: "list_all is_digit (show_nat n)"
proof (induction n rule: show_nat.induct)
  case (1 n)
  then show ?case by (subst show_nat.simps) simp
qed

lemma read_digits_snoc [simp]: "read_digits (s @ [c]) = 10 * read_digits s + digit_val c"
  by (simp add: read_digits_def)

lemma read_digits_show_nat [simp]: "read_digits (show_nat n) = n"
proof (induction n rule: show_nat.induct)
  case (1 n)
  show ?case
  proof (cases "n < 10")
    case True
    then show ?thesis by (subst show_nat.simps) (simp add: read_digits_def)
  next
    case False
    with 1 show ?thesis by (subst show_nat.simps) simp
  qed
qed

lemma show_nat_inject [simp]: "show_nat m = show_nat n \<longleftrightarrow> m = n"
  by (metis read_digits_show_nat)

lemma is_digit_sign: "\<not> is_digit (CHR ''-'')" "\<not> is_digit (CHR ''+'')"
  by (simp_all add: is_digit_def)

lemma show_nat_hd_digit: "show_nat n = c # cs \<Longrightarrow> is_digit c"
  by (metis list.pred_inject(2) show_nat_digits)

lemma ParseInt_show_int: "int64_ok i \<Longrightarrow> ParseInt (show_int i) = Some i"
proof (cases "i < 0")
  case True
  assume "int64_ok i"
  with True show ?thesis by (simp add: show_int_def ParseInt_def parse_signed_def)
next
  case False
  assume ok: "int64_ok i"
  obtain c cs where s: "show_nat (nat i) = c # cs" by (metis list.exhaust show_nat_not_Nil)
  then have "is_digit c" by (rule show_nat_hd_digit)
  then have "c \<noteq> CHR ''-''" "c \<noteq> CHR ''+''" using is_digit_sign by auto
  then have "ParseInt (show_nat (nat i)) = parse_signed False (show_nat (nat i))"
    by (simp add: ParseInt_def s)
  also have "\<dots> = Some i" using ok False by (simp add: parse_signed_def)
  finally show ?thesis using False by (simp add: show_int_def)
qed

lemma show_int_inject: "show_int a = show_int b \<longleftrightarrow> a = b"
proof
  assume eq: "show_int a = show_int b"
  have minus: "show_nat n \<noteq> CHR ''-'' # s" for n s
    using show_nat_hd_digit is_digit_sign(1) by blast
  show "a = b"
  proof (cases "a < 0"; cases "b < 0")
    assume "\<not> a < 0" and "\<not> b < 0"
    with eq show ?thesis by (simp add: show_int_def)
  next
    assume "a < 0" and "b < 0"
    with eq show ?thesis by (simp add: show_int_def)
  next
    assume "a < 0" and "\<not> b < 0"
    with eq minus show ?thesis by (metis show_int_def)
  next
    assume "\<not> a < 0" and "b < 0"
    with eq minus show ?thesis by (metis show_int_def)
  qed
qed simp

lemma length_pad2: "n < 100 \<Longrightarrow> length (pad2 n) = 2"
proof -
  assume "n < 100"
  then have "n div 10 < 10" by simp
  then show ?thesis by (simp add: pad2_def show_nat.simps [of n] show_nat.simps [of "n div 10"])
qed

lemma length_fmt_dmyhms: "gotime_ok t \<Longrightarrow> length (fmt_dmyhms t) = 12"
  by (simp add: gotime_ok_def fmt_dmyhms_def length_pad2)

subsection \<open>Maps\<close>

lemma gm_get_set: "gm_get (gm_set k v m) k' = (if k' = k then Some v else gm_get m k')"
  by (simp add: gm_get_def gm_set_def update_conv)

lemma gm_get_del: "gm_get (gm_del k m) k' = (if k' = k then None else gm_get m k')"
  by (simp add: gm_get_def gm_del_def delete_conv)

lemma gm_get_Nil [simp]: "gm_get [] k = None"
  by (simp add: gm_get_def)

lemma gm_ok_Nil [simp]: "gm_ok []"
  by (simp add: gm_ok_def)

lemma gm_ok_set [simp]: "gm_ok m \<Longrightarrow> gm_ok (gm_set k v m)"
  by (simp add: gm_ok_def gm_set_def distinct_update)

lemma gm_ok_del [simp]: "gm_ok m \<Longrightarrow> gm_ok (gm_del k m)"
  by (simp add: gm_ok_def gm_del_def distinct_delete)

lemma gm_get_mem: "gm_get m k = Some v \<Longrightarrow> (k, v) \<in> set m"
  by (simp add: gm_get_def map_of_SomeD)

lemma gm_get_iff_mem: "gm_ok m \<Longrightarrow> gm_get m k = Some v \<longleftrightarrow> (k, v) \<in> set m"
  by (simp add: gm_get_def gm_ok_def)

lemmas gm_simps = gm_get_set gm_get_del

lemma permutes_list_set: "permutes_list ord \<Longrightarrow> set (ord xs) = set xs"
  unfolding permutes_list_def by (metis set_mset_mset)

lemma permutes_list_length: "permutes_list ord \<Longrightarrow> length (ord xs) = length xs"
  unfolding permutes_list_def by (metis size_mset)

lemma permutes_list_distinct: "permutes_list ord \<Longrightarrow> distinct (ord xs) \<longleftrightarrow> distinct xs"
  using mset_eq_imp_distinct_iff [of "ord xs" xs] by (simp add: permutes_list_def)

lemma permutes_list_id [simp]: "permutes_list (\<lambda>xs. xs)"
  by (simp add: permutes_list_def)

lemma permutes_list_rev [simp]: "permutes_list rev"
  by (simp add: permutes_list_def)

end
