(* ===== verification/Go_Float.thy ===== *)
theory Go_Float
  imports Complex_Main Go_Base
begin

text \<open>
  Go's \<^verbatim>\<open>float64\<close>: IEEE 754 binary64 with round to nearest, ties to even, as on amd64
  (where the compiler does not fuse operations). A finite value is the rational number it denotes,
  every operation is the exact rational operation followed by \<open>rnd\<close>, and overflow gives an
  infinity. The two zeros are identified: no code modelled here divides by an expression that can
  be a negative zero. \<open>f64_ok\<close> says that a value is one that binary64 can hold; the results of
  all operations are.

  The lemmas show what the components rely on: \<open>rnd\<close> is monotone and exact on representable
  numbers (in particular on the integers up to \<open>2 ^ 53\<close>), so that guards and bounds on prices
  survive the rounding of the arithmetic between them.
\<close>

section \<open>Values and rounding\<close>

datatype f64 = Fin rat | PInf | NInf | NaN

fun log2_nat :: "nat \<Rightarrow> nat" where
  "log2_nat n = (if n < 2 then 0 else Suc (log2_nat (n div 2)))"

declare log2_nat.simps [simp del]

definition pow2 :: "int \<Rightarrow> rat" where
  "pow2 e = 2 powi e"

text \<open>The exponent of a positive rational: \<open>pow2 (ilog2 x) \<le> x < pow2 (ilog2 x + 1)\<close>.\<close>

definition ilog2 :: "rat \<Rightarrow> int" where
  "ilog2 x = (let (p, q) = quotient_of x;
                  e = int (log2_nat (nat p)) - int (log2_nat (nat q)) in
     if pow2 e \<le> x then e else e - 1)"

definition round_even :: "rat \<Rightarrow> int" where
  "round_even x = (let f = \<lfloor>x\<rfloor>; d = x - of_int f in
     if d < 1 / 2 then f else if 1 / 2 < d then f + 1 else if even f then f else f + 1)"

text \<open>The distance between neighbouring binary64 numbers in the binade of \<open>x\<close>.\<close>

definition quantum :: "rat \<Rightarrow> rat" where
  "quantum x = pow2 (max (ilog2 \<bar>x\<bar>) (- 1022) - 52)"

definition rnd_rat :: "rat \<Rightarrow> rat" where
  "rnd_rat x = (if x = 0 then 0 else of_int (round_even (x / quantum x)) * quantum x)"

definition rnd :: "rat \<Rightarrow> f64" where
  "rnd x = (let y = rnd_rat x in
     if y \<noteq> 0 \<and> 1024 \<le> ilog2 \<bar>y\<bar> then (if 0 < y then PInf else NInf) else Fin y)"

definition f64_ok :: "f64 \<Rightarrow> bool" where
  "f64_ok x \<longleftrightarrow> (case x of Fin a \<Rightarrow> rnd a = Fin a | _ \<Rightarrow> True)"

section \<open>Operations\<close>

definition itof :: "int \<Rightarrow> f64" where
  "itof n = rnd (of_int n)"

fun fneg :: "f64 \<Rightarrow> f64" where
  "fneg (Fin a) = Fin (- a)"
| "fneg PInf = NInf"
| "fneg NInf = PInf"
| "fneg NaN = NaN"

fun fabs :: "f64 \<Rightarrow> f64" where
  "fabs (Fin a) = Fin \<bar>a\<bar>"
| "fabs PInf = PInf"
| "fabs NInf = PInf"
| "fabs NaN = NaN"

fun fadd :: "f64 \<Rightarrow> f64 \<Rightarrow> f64" where
  "fadd (Fin a) (Fin b) = rnd (a + b)"
| "fadd NaN _ = NaN"
| "fadd _ NaN = NaN"
| "fadd PInf NInf = NaN"
| "fadd NInf PInf = NaN"
| "fadd PInf _ = PInf"
| "fadd _ PInf = PInf"
| "fadd NInf _ = NInf"
| "fadd _ NInf = NInf"

definition fsub :: "f64 \<Rightarrow> f64 \<Rightarrow> f64" where
  "fsub x y = fadd x (fneg y)"

definition signed_inf :: "rat \<Rightarrow> f64" where
  "signed_inf s = (if 0 < s then PInf else if s < 0 then NInf else NaN)"

fun fmul :: "f64 \<Rightarrow> f64 \<Rightarrow> f64" where
  "fmul (Fin a) (Fin b) = rnd (a * b)"
| "fmul NaN _ = NaN"
| "fmul _ NaN = NaN"
| "fmul PInf (Fin b) = signed_inf b"
| "fmul NInf (Fin b) = signed_inf (- b)"
| "fmul (Fin a) PInf = signed_inf a"
| "fmul (Fin a) NInf = signed_inf (- a)"
| "fmul PInf PInf = PInf"
| "fmul NInf NInf = PInf"
| "fmul PInf NInf = NInf"
| "fmul NInf PInf = NInf"

fun fdiv :: "f64 \<Rightarrow> f64 \<Rightarrow> f64" where
  "fdiv (Fin a) (Fin b) = (if b = 0 then signed_inf a else rnd (a / b))"
| "fdiv NaN _ = NaN"
| "fdiv _ NaN = NaN"
| "fdiv (Fin a) PInf = Fin 0"
| "fdiv (Fin a) NInf = Fin 0"
| "fdiv PInf (Fin b) = (if b = 0 then PInf else signed_inf b)"
| "fdiv NInf (Fin b) = (if b = 0 then NInf else signed_inf (- b))"
| "fdiv PInf _ = NaN"
| "fdiv NInf _ = NaN"

fun flt :: "f64 \<Rightarrow> f64 \<Rightarrow> bool" where
  "flt (Fin a) (Fin b) = (a < b)"
| "flt NInf (Fin _) = True"
| "flt NInf PInf = True"
| "flt (Fin _) PInf = True"
| "flt _ _ = False"

fun feq :: "f64 \<Rightarrow> f64 \<Rightarrow> bool" where
  "feq (Fin a) (Fin b) = (a = b)"
| "feq PInf PInf = True"
| "feq NInf NInf = True"
| "feq _ _ = False"

definition fle :: "f64 \<Rightarrow> f64 \<Rightarrow> bool" where
  "fle x y \<longleftrightarrow> flt x y \<or> feq x y"

text \<open>\<^verbatim>\<open>math.Max\<close>, \<^verbatim>\<open>math.Round\<close> (half away from zero), \<^verbatim>\<open>math.Ceil\<close>.\<close>

definition fmax :: "f64 \<Rightarrow> f64 \<Rightarrow> f64" where
  "fmax x y = (if x = PInf \<or> y = PInf then PInf else if x = NaN \<or> y = NaN then NaN
     else if flt y x then x else y)"

definition round_away :: "rat \<Rightarrow> int" where
  "round_away a = (if 0 \<le> a then \<lfloor>a + 1 / 2\<rfloor> else - \<lfloor>- a + 1 / 2\<rfloor>)"

fun fround :: "f64 \<Rightarrow> f64" where
  "fround (Fin a) = Fin (of_int (round_away a))"
| "fround x = x"

fun fceil :: "f64 \<Rightarrow> f64" where
  "fceil (Fin a) = Fin (of_int \<lceil>a\<rceil>)"
| "fceil x = x"

text \<open>
  The conversion \<^verbatim>\<open>int64(x)\<close> truncates; out of range, Go leaves the result to the
  implementation, and amd64 gives the smallest integer.
\<close>

definition trunc_rat :: "rat \<Rightarrow> int" where
  "trunc_rat a = (if 0 \<le> a then \<lfloor>a\<rfloor> else \<lceil>a\<rceil>)"

fun ftoi :: "f64 \<Rightarrow> int" where
  "ftoi (Fin a) = (if int64_ok (trunc_rat a) then trunc_rat a else - (2 ^ 63))"
| "ftoi x = - (2 ^ 63)"

text \<open>The verbs \<^verbatim>\<open>%.0f\<close> and \<^verbatim>\<open>%.2f\<close> of \<^verbatim>\<open>fmt\<close>.\<close>

definition fmt_fixed :: "nat \<Rightarrow> rat \<Rightarrow> string" where
  "fmt_fixed k a = (let n = nat (round_even (\<bar>a\<bar> * 10 ^ k)); w = n div 10 ^ k; r = n mod 10 ^ k in
     (if a < 0 then ''-'' else '''') @ show_nat w @
     (if k = 0 then ''''
      else CHR ''.'' # replicate (k - length (show_nat r)) (CHR ''0'') @ show_nat r))"

fun fmt_f :: "nat \<Rightarrow> f64 \<Rightarrow> string" where
  "fmt_f k (Fin a) = fmt_fixed k a"
| "fmt_f k PInf = ''+Inf''"
| "fmt_f k NInf = ''-Inf''"
| "fmt_f k NaN = ''NaN''"

section \<open>Rounding is monotone\<close>

lemma log2_nat_bounds: "0 < n \<Longrightarrow> 2 ^ log2_nat n \<le> n \<and> n < 2 ^ Suc (log2_nat n)"
proof (induction n rule: log2_nat.induct)
  case (1 n)
  show ?case
  proof (cases "n < 2")
    case True
    with "1.prems" show ?thesis by (subst (1 2) log2_nat.simps) auto
  next
    case False
    then have "2 ^ log2_nat (n div 2) \<le> n div 2" and "n div 2 < 2 ^ Suc (log2_nat (n div 2))"
      using "1.IH" by auto
    with False show ?thesis by (subst (1 2) log2_nat.simps) auto
  qed
qed

lemma pow2_pos [simp]: "0 < pow2 e"
  by (simp add: pow2_def)

lemma pow2_nonneg [simp]: "0 \<le> pow2 e"
  by (simp add: less_imp_le)

lemma pow2_neq_0 [simp]: "pow2 e \<noteq> 0"
  using pow2_pos [of e] by linarith

lemma pow2_add: "pow2 (a + b) = pow2 a * pow2 b"
  by (simp add: pow2_def power_int_add)

lemma pow2_diff: "pow2 (a - b) = pow2 a / pow2 b"
  by (simp add: pow2_def power_int_diff)

lemma pow2_less_iff [simp]: "pow2 a < pow2 b \<longleftrightarrow> a < b"
proof -
  have less: "pow2 c < pow2 d" if "c < d" for c d
    using that by (simp add: pow2_def power_int_strict_increasing)
  then show ?thesis by (metis linorder_neqE not_less_iff_gr_or_eq)
qed

lemma pow2_le_iff [simp]: "pow2 a \<le> pow2 b \<longleftrightarrow> a \<le> b"
  by (simp flip: not_less)

lemma pow2_of_nat: "pow2 (int n) = 2 ^ n"
  by (simp add: pow2_def)

lemma pow2_0 [simp]: "pow2 0 = 1"
  by (simp add: pow2_def)

lemma ilog2_bounds:
  assumes "0 < x"
  shows "pow2 (ilog2 x) \<le> x" and "x < pow2 (ilog2 x + 1)"
proof -
  obtain p q where pq: "quotient_of x = (p, q)" by force
  then have q: "0 < q" and x: "x = of_int p / of_int q"
    by (auto simp: quotient_of_denom_pos quotient_of_div)
  with assms have p: "0 < p" by (simp add: zero_less_divide_iff)
  define a b where "a = log2_nat (nat p)" and "b = log2_nat (nat q)"
  have "2 ^ a \<le> nat p" "nat p < 2 ^ Suc a" "2 ^ b \<le> nat q" "nat q < 2 ^ Suc b"
    using log2_nat_bounds [of "nat p"] log2_nat_bounds [of "nat q"] p q by (simp_all add: a_def b_def)
  then have "int (2 ^ a) \<le> p" "p < int (2 ^ Suc a)" "int (2 ^ b) \<le> q" "q < int (2 ^ Suc b)"
    using p q by linarith+
  then have bnds: "pow2 (int a) \<le> of_int p" "of_int p < pow2 (int a + 1)"
      "pow2 (int b) \<le> of_int q" "of_int q < pow2 (int b + 1)"
    using pow2_of_nat [of a] pow2_of_nat [of b] pow2_of_nat [of "Suc a"] pow2_of_nat [of "Suc b"]
    by (metis (no_types, lifting) of_int_le_iff of_int_less_iff of_int_of_nat_eq of_nat_power of_nat_numeral of_nat_Suc add.commute)+
  have lo: "pow2 (int a - int b - 1) \<le> x"
  proof -
    have "pow2 (int a - int b - 1) = pow2 (int a) / pow2 (int b + 1)"
      by (simp add: pow2_diff pow2_add)
    also have "\<dots> \<le> x" unfolding x using bnds p q by (intro frac_le) auto
    finally show ?thesis .
  qed
  have hi: "x < pow2 (int a - int b + 1)"
  proof -
    have "x < pow2 (int a + 1) / pow2 (int b)"
      unfolding x using bnds p q by (intro frac_less) auto
    also have "\<dots> = pow2 (int a - int b + 1)" by (simp add: pow2_diff pow2_add)
    finally show ?thesis .
  qed
  have "ilog2 x = (if pow2 (int a - int b) \<le> x then int a - int b else int a - int b - 1)"
    by (simp add: ilog2_def pq a_def b_def Let_def)
  then show "pow2 (ilog2 x) \<le> x" and "x < pow2 (ilog2 x + 1)"
    using lo hi by auto
qed

lemma ilog2_mono: "0 < x \<Longrightarrow> x \<le> y \<Longrightarrow> ilog2 x \<le> ilog2 y"
proof -
  assume "0 < x" "x \<le> y"
  then have "pow2 (ilog2 x) < pow2 (ilog2 y + 1)"
    using ilog2_bounds(1) [of x] ilog2_bounds(2) [of y] by linarith
  then show ?thesis by simp
qed

lemma ilog2_pow2 [simp]: "ilog2 (pow2 e) = e"
proof -
  have "ilog2 (pow2 e) \<le> e" and "e < ilog2 (pow2 e) + 1"
    using ilog2_bounds [of "pow2 e"] by simp_all
  then show ?thesis by simp
qed

lemma round_even_of_int [simp]: "round_even (of_int n) = n"
  by (simp add: round_even_def)

lemma round_even_near: "\<bar>of_int (round_even x) - x\<bar> \<le> 1 / 2"
  using floor_correct [of x] unfolding round_even_def Let_def by (simp add: abs_le_iff)

lemma round_even_unique: "\<bar>of_int m - x\<bar> < 1 / 2 \<Longrightarrow> round_even x = m"
proof -
  assume "\<bar>of_int m - x\<bar> < 1 / 2"
  then have "\<bar>of_int m - of_int (round_even x) :: rat\<bar> < 1" using round_even_near [of x] by linarith
  then have "\<bar>of_int (m - round_even x) :: rat\<bar> < 1" by simp
  then show ?thesis by linarith
qed

lemma round_even_mono: "x \<le> y \<Longrightarrow> round_even x \<le> round_even y"
proof (cases "\<lfloor>x\<rfloor> = \<lfloor>y\<rfloor>")
  case True
  assume "x \<le> y"
  with True show ?thesis unfolding round_even_def Let_def by auto
next
  case False
  assume "x \<le> y"
  then have "\<lfloor>x\<rfloor> \<le> \<lfloor>y\<rfloor>" by (rule floor_mono)
  with False have "\<lfloor>x\<rfloor> + 1 \<le> \<lfloor>y\<rfloor>" by simp
  moreover have "round_even x \<le> \<lfloor>x\<rfloor> + 1" and "\<lfloor>y\<rfloor> \<le> round_even y"
    unfolding round_even_def Let_def by auto
  ultimately show ?thesis by linarith
qed

lemma round_even_ge: "of_int n \<le> x \<Longrightarrow> n \<le> round_even x"
  using round_even_mono [of "of_int n" x] by simp

lemma round_even_le: "x \<le> of_int n \<Longrightarrow> round_even x \<le> n"
  using round_even_mono [of x "of_int n"] by simp

lemma round_even_minus: "round_even (- x) = - round_even x"
proof (cases "of_int \<lfloor>x\<rfloor> = x")
  case True
  then obtain n where "x = of_int n" by metis
  then have "- x = of_int (- n)" by simp
  then show ?thesis using \<open>x = of_int n\<close> by (simp only: round_even_of_int)
next
  case False
  then have f: "\<lfloor>- x\<rfloor> = - \<lfloor>x\<rfloor> - 1"
    by (metis ceiling_altdef ceiling_def minus_diff_eq diff_minus_eq_add uminus_add_conv_diff add.commute minus_equation_iff)
  show ?thesis unfolding round_even_def Let_def f by auto
qed

lemma quantum_pos [simp]: "0 < quantum x"
  by (simp add: quantum_def)

lemma quantum_neq_0 [simp]: "quantum x \<noteq> 0"
  using quantum_pos [of x] by linarith

lemma quantum_minus [simp]: "quantum (- x) = quantum x"
  by (simp add: quantum_def)

lemma rnd_rat_0 [simp]: "rnd_rat 0 = 0"
  by (simp add: rnd_rat_def)

lemma rnd_rat_minus: "rnd_rat (- x) = - rnd_rat x"
  by (simp add: rnd_rat_def round_even_minus)

lemma rnd_rat_nonneg: "0 \<le> x \<Longrightarrow> 0 \<le> rnd_rat x"
  using round_even_ge [of 0 "x / quantum x"] divide_nonneg_pos [OF _ quantum_pos, of x x]
  by (simp add: rnd_rat_def less_imp_le)

text \<open>A rounded number stays within its binade, ends included.\<close>

lemma rnd_rat_le_pow2:
  assumes "0 < x"
  shows "rnd_rat x \<le> pow2 (max (ilog2 x) (- 1022) + 1)"
proof -
  let ?e = "max (ilog2 x) (- 1022)"
  have q: "quantum x = pow2 (?e - 52)" using assms by (simp add: quantum_def)
  have "x \<le> pow2 (?e + 1)"
  proof -
    have "x < pow2 (ilog2 x + 1)" using assms by (rule ilog2_bounds(2))
    also have "\<dots> \<le> pow2 (?e + 1)" by simp
    finally show ?thesis by simp
  qed
  also have "pow2 (?e + 1) = of_int (2 ^ 53) * pow2 (?e - 52)"
    using pow2_add [of 53 "?e - 52"] by (simp add: pow2_def algebra_simps)
  finally have "x / quantum x \<le> of_int (2 ^ 53)" using q by (simp add: divide_le_eq)
  then have "round_even (x / quantum x) \<le> 2 ^ 53" by (rule round_even_le)
  then have "rnd_rat x \<le> of_int (2 ^ 53) * pow2 (?e - 52)"
    using assms q by (simp add: rnd_rat_def mult_right_mono del: of_int_power)
  also have "\<dots> = pow2 (?e + 1)" using pow2_add [of 53 "?e - 52"] by (simp add: pow2_def algebra_simps)
  finally show ?thesis .
qed

lemma rnd_rat_ge_pow2:
  assumes "0 < x" and "- 1022 \<le> ilog2 x"
  shows "pow2 (ilog2 x) \<le> rnd_rat x"
proof -
  have q: "quantum x = pow2 (ilog2 x - 52)" using assms by (simp add: quantum_def)
  have "pow2 (ilog2 x) = of_int (2 ^ 52) * pow2 (ilog2 x - 52)"
    using pow2_add [of 52 "ilog2 x - 52"] by (simp add: pow2_def)
  then have eq: "of_int (2 ^ 52) = pow2 (ilog2 x) / quantum x" using q by (simp add: field_simps)
  have "pow2 (ilog2 x) \<le> x" using assms(1) by (rule ilog2_bounds(1))
  then have "of_int (2 ^ 52) \<le> x / quantum x" unfolding eq
    by (rule divide_right_mono) (simp add: less_imp_le)
  then have "2 ^ 52 \<le> round_even (x / quantum x)" by (rule round_even_ge)
  then have "of_int (2 ^ 52) * quantum x \<le> rnd_rat x"
    using assms(1) by (simp add: rnd_rat_def mult_right_mono del: of_int_power)
  then show ?thesis unfolding eq by simp
qed

lemma rnd_rat_mono_pos:
  assumes "0 < x" and "x \<le> y"
  shows "rnd_rat x \<le> rnd_rat y"
proof -
  let ?e = "\<lambda>z. max (ilog2 z) (- 1022)"
  have y: "0 < y" using assms by simp
  have "?e x \<le> ?e y" using ilog2_mono [OF assms] by auto
  then consider "?e x = ?e y" | "?e x < ?e y" by linarith
  then show ?thesis
  proof cases
    case 1
    then have "quantum x = quantum y" using assms(1) y by (simp add: quantum_def)
    then show ?thesis
      using assms y round_even_mono [OF divide_right_mono, of x y "quantum x"]
      by (simp add: rnd_rat_def mult_right_mono less_imp_le)
  next
    case 2
    then have ey: "- 1022 \<le> ilog2 y" and "?e x + 1 \<le> ilog2 y" by linarith+
    have "rnd_rat x \<le> pow2 (?e x + 1)" using assms(1) by (rule rnd_rat_le_pow2)
    also have "\<dots> \<le> pow2 (ilog2 y)" using \<open>?e x + 1 \<le> ilog2 y\<close> by simp
    also have "\<dots> \<le> rnd_rat y" using y ey by (rule rnd_rat_ge_pow2)
    finally show ?thesis .
  qed
qed

lemma rnd_rat_mono: "x \<le> y \<Longrightarrow> rnd_rat x \<le> rnd_rat y"
proof -
  assume le: "x \<le> y"
  consider "0 < x" | "x \<le> 0" "0 \<le> y" | "y < 0" by linarith
  then show ?thesis
  proof cases
    case 1
    then show ?thesis using le by (rule rnd_rat_mono_pos)
  next
    case 2
    then show ?thesis using rnd_rat_nonneg [of y] rnd_rat_nonneg [of "- x"] by (simp add: rnd_rat_minus)
  next
    case 3
    then show ?thesis using le rnd_rat_mono_pos [of "- y" "- x"] by (simp add: rnd_rat_minus)
  qed
qed

section \<open>Exact results\<close>

lemma rnd_rat_exact: "x / quantum x = of_int m \<Longrightarrow> rnd_rat x = x"
proof -
  assume m: "x / quantum x = of_int m"
  then have "of_int m * quantum x = x" by (simp add: field_simps)
  then show ?thesis by (simp add: rnd_rat_def m)
qed

lemma pow2_nat_int: "0 \<le> k \<Longrightarrow> pow2 k = of_int (2 ^ nat k)"
  using pow2_of_nat [of "nat k"] by simp

text \<open>A multiple of a quantum that is no larger than its own quantum is representable.\<close>

lemma rnd_rat_multiple:
  assumes "x = of_int m * pow2 k" and "quantum x \<le> pow2 k"
  shows "rnd_rat x = x"
proof -
  define j where "j = max (ilog2 \<bar>x\<bar>) (- 1022) - 52"
  have q: "quantum x = pow2 j" by (simp add: quantum_def j_def)
  with assms(2) have "0 \<le> k - j" by simp
  then have "x / quantum x = of_int (m * 2 ^ nat (k - j))"
    using assms(1) q pow2_nat_int [of "k - j"] pow2_diff [of k j]
    by (simp flip: times_divide_eq_right)
  then show ?thesis by (rule rnd_rat_exact)
qed

lemma rnd_rat_idem [simp]: "rnd_rat (rnd_rat x) = rnd_rat x"
proof -
  have pos: "rnd_rat (rnd_rat x) = rnd_rat x" if x: "0 < x" for x
  proof -
    define e z where "e = max (ilog2 x) (- 1022)" and "z = rnd_rat x"
    have z: "z = of_int (round_even (x / quantum x)) * pow2 (e - 52)"
      using x by (simp add: z_def rnd_rat_def e_def quantum_def)
    have zle: "z \<le> pow2 (e + 1)" using rnd_rat_le_pow2 [OF x] by (simp add: z_def e_def)
    consider "z = 0" | "z = pow2 (e + 1)" | "0 < z" "z < pow2 (e + 1)"
      using zle rnd_rat_nonneg [of x] x by (force simp: z_def)
    then have "rnd_rat z = z"
    proof cases
      case 2
      have "quantum z \<le> pow2 (e + 1)" by (simp add: quantum_def 2 e_def)
      with 2 show ?thesis using rnd_rat_multiple [of z 1 "e + 1"] by simp
    next
      case 3
      have "pow2 (ilog2 z) < pow2 (e + 1)" using ilog2_bounds(1) [OF 3(1)] 3(2) by linarith
      then have "ilog2 z \<le> e" by simp
      then have "quantum z \<le> pow2 (e - 52)" using 3 by (simp add: quantum_def e_def)
      with z show ?thesis by (rule rnd_rat_multiple)
    qed simp
    then show ?thesis by (simp add: z_def)
  qed
  show ?thesis
  proof (cases "0 < x \<or> x = 0")
    case True
    then show ?thesis using pos by auto
  next
    case False
    then show ?thesis using pos [of "- x"] by (simp add: rnd_rat_minus)
  qed
qed

lemma rnd_Fin_rnd_rat: "rnd x = Fin y \<Longrightarrow> y = rnd_rat x"
  by (auto simp: rnd_def Let_def split: if_splits)

lemma f64_ok_rnd [simp]: "f64_ok (rnd x)"
proof (cases "rnd x")
  case (Fin y)
  then have "y = rnd_rat x" by (rule rnd_Fin_rnd_rat)
  with Fin have "rnd y = Fin y" by (simp add: rnd_def)
  with Fin show ?thesis by (simp add: f64_ok_def)
qed (simp_all add: f64_ok_def)

lemma rnd_minus: "rnd (- x) = fneg (rnd x)"
  by (simp add: rnd_def rnd_rat_minus Let_def)

text \<open>Integers of at most 53 bits are exact.\<close>

lemma rnd_rat_pow2_53: "rnd_rat (2 ^ 53) = 2 ^ 53"
proof -
  have p: "(2 ^ 53 :: rat) = pow2 53" using pow2_nat_int [of 53] by simp
  have "quantum (pow2 53) \<le> pow2 53" by (simp add: quantum_def)
  then show ?thesis unfolding p using rnd_rat_multiple [of "pow2 53" 1 53] by simp
qed

lemma rnd_rat_int:
  assumes "\<bar>n\<bar> \<le> 2 ^ 53"
  shows "rnd_rat (of_int n) = of_int n"
proof -
  consider "n = 0" | "n = 2 ^ 53" | "n = - (2 ^ 53)" | "n \<noteq> 0" "\<bar>n\<bar> < 2 ^ 53"
    using assms by linarith
  then show ?thesis
  proof cases
    case 2
    then show ?thesis using rnd_rat_pow2_53 by simp
  next
    case 3
    then show ?thesis using rnd_rat_pow2_53 rnd_rat_minus [of "2 ^ 53"] by simp
  next
    case 4
    have "(of_int \<bar>n\<bar> :: rat) < of_int (2 ^ 53)" using 4(2) by (simp only: of_int_less_iff)
    then have n: "0 < \<bar>of_int n :: rat\<bar>" "\<bar>of_int n\<bar> < pow2 53"
      using 4(1) pow2_nat_int [of 53] by simp_all
    have "pow2 (ilog2 \<bar>of_int n\<bar>) < pow2 53" using ilog2_bounds(1) [OF n(1)] n(2) by linarith
    then have "quantum (of_int n) \<le> pow2 0" unfolding quantum_def pow2_le_iff by simp
    then show ?thesis using rnd_rat_multiple [of "of_int n" n 0] by simp
  qed simp
qed

lemma itof_exact:
  assumes "\<bar>n\<bar> \<le> 2 ^ 53"
  shows "itof n = Fin (of_int n)"
proof -
  have "ilog2 \<bar>of_int n\<bar> < 1024" if "n \<noteq> 0"
  proof -
    have "(of_int \<bar>n\<bar> :: rat) \<le> of_int (2 ^ 53)" using assms by (simp only: of_int_le_iff)
    then have "\<bar>of_int n\<bar> \<le> pow2 53" using pow2_nat_int [of 53] by simp
    moreover have "pow2 (ilog2 \<bar>of_int n\<bar>) \<le> \<bar>of_int n\<bar>" using that by (intro ilog2_bounds(1)) simp
    ultimately have "pow2 (ilog2 \<bar>of_int n\<bar>) \<le> pow2 53" by (rule order_trans [rotated])
    then show ?thesis by (simp only: pow2_le_iff)
  qed
  then show ?thesis using rnd_rat_int [OF assms] by (auto simp: itof_def rnd_def Let_def)
qed

lemma rnd_int: "\<bar>n\<bar> \<le> 2 ^ 53 \<Longrightarrow> rnd (of_int n) = Fin (of_int n)"
  using itof_exact [of n] by (simp add: itof_def)

text \<open>Rounding a given number: its exponent and its rounded significand determine the result.\<close>

lemma ilog2_unique:
  assumes "pow2 e \<le> x" "x < pow2 (e + 1)"
  shows "ilog2 x = e"
proof -
  have "0 < x" using assms(1) pow2_pos [of e] by linarith
  then have "pow2 (ilog2 x) < pow2 (e + 1)" and "pow2 e < pow2 (ilog2 x + 1)"
    using ilog2_bounds [of x] assms by linarith+
  then show ?thesis by simp
qed

lemma rnd_eval:
  assumes "pow2 e \<le> x" "x < pow2 (e + 1)" "- 1022 \<le> e" "e \<le> 1022" "round_even (x / pow2 (e - 52)) = m"
  shows "rnd x = Fin (of_int m * pow2 (e - 52))"
proof -
  have e: "ilog2 x = e" using assms(1,2) by (rule ilog2_unique)
  have x: "0 < x" using assms(1) pow2_pos [of e] by linarith
  have q: "quantum x = pow2 (e - 52)" using x e assms(3) by (simp add: quantum_def)
  have y: "rnd_rat x = of_int m * pow2 (e - 52)" using x q assms(5) by (simp add: rnd_rat_def)
  have "pow2 e \<le> rnd_rat x" using rnd_rat_ge_pow2 [OF x] e assms(3) by simp
  then have pos: "0 < rnd_rat x" using pow2_pos [of e] by linarith
  have "rnd_rat x \<le> pow2 (e + 1)" using rnd_rat_le_pow2 [OF x] e assms(3) by simp
  then have "pow2 (ilog2 (rnd_rat x)) \<le> pow2 (e + 1)" using ilog2_bounds(1) [OF pos] by linarith
  then have "ilog2 (rnd_rat x) < 1024" using assms(4) by simp
  then show ?thesis using pos y by (simp add: rnd_def Let_def)
qed

section \<open>Order\<close>

lemma fle_refl [simp]: "fle (Fin a) (Fin a)"
  by (simp add: fle_def)

lemma fle_Fin [simp]: "fle (Fin a) (Fin b) \<longleftrightarrow> a \<le> b"
  by (auto simp: fle_def)

lemma fle_PInf [simp]: "x \<noteq> NaN \<Longrightarrow> fle x PInf"
  by (cases x) (auto simp: fle_def)

lemma rnd_not_NaN [simp]: "rnd x \<noteq> NaN"
  by (simp add: rnd_def Let_def)

lemma rnd_lower:
  assumes "f64_ok (Fin a)" and "a \<le> x"
  shows "fle (Fin a) (rnd x)"
proof -
  have a: "rnd a = Fin a" using assms(1) by (simp add: f64_ok_def)
  then have ra: "rnd_rat a = a" by (metis rnd_Fin_rnd_rat)
  have le: "a \<le> rnd_rat x" using rnd_rat_mono [OF assms(2)] ra by simp
  show ?thesis
  proof (cases "rnd x")
    case NInf
    then have neg: "rnd_rat x < 0" and big: "1024 \<le> ilog2 \<bar>rnd_rat x\<bar>"
      by (auto simp: rnd_def Let_def split: if_splits)
    then have "\<bar>rnd_rat x\<bar> \<le> \<bar>a\<bar>" "a \<noteq> 0" using le by auto
    then have "1024 \<le> ilog2 \<bar>a\<bar>" using ilog2_mono [of "\<bar>rnd_rat x\<bar>" "\<bar>a\<bar>"] neg big by simp
    with a \<open>a \<noteq> 0\<close> ra show ?thesis by (auto simp: rnd_def Let_def split: if_splits)
  next
    case (Fin y)
    then show ?thesis using le rnd_Fin_rnd_rat [OF Fin] by simp
  qed (simp_all add: fle_def)
qed

lemma f64_ok_Fin_int: "\<bar>n\<bar> \<le> 2 ^ 53 \<Longrightarrow> f64_ok (Fin (of_int n))"
  using itof_exact [of n] f64_ok_rnd [of "of_int n"] by (simp add: itof_def)

lemma f64_ok_0 [simp]: "f64_ok (Fin 0)"
  using f64_ok_Fin_int [of 0] by simp

lemma f64_ok_1 [simp]: "f64_ok (Fin 1)"
  using f64_ok_Fin_int [of 1] by simp

lemma round_away_ge: "of_int n \<le> a \<Longrightarrow> 0 \<le> n \<Longrightarrow> n \<le> round_away a"
  unfolding round_away_def by (auto simp: le_floor_iff)

lemma rnd_upper:
  assumes "f64_ok (Fin a)" and "x \<le> a"
  shows "fle (rnd x) (Fin a)"
proof -
  have "f64_ok (Fin (- a))" using assms(1) by (simp add: f64_ok_def rnd_minus)
  then have "fle (Fin (- a)) (fneg (rnd x))" using rnd_lower [of "- a" "- x"] assms(2) by (simp add: rnd_minus)
  then show ?thesis by (cases "rnd x") (auto simp: fle_def)
qed

lemma rnd_between:
  assumes "f64_ok (Fin a)" "f64_ok (Fin b)" "a \<le> x" "x \<le> b"
  obtains y where "rnd x = Fin y" "a \<le> y" "y \<le> b"
proof -
  have "fle (Fin a) (rnd x)" "fle (rnd x) (Fin b)" using assms by (simp_all add: rnd_lower rnd_upper)
  then show ?thesis using that by (cases "rnd x") (auto simp: fle_def)
qed

lemma round_away_le: "0 \<le> a \<Longrightarrow> a \<le> of_int n \<Longrightarrow> round_away a \<le> n"
  unfolding round_away_def by (simp add: floor_le_iff)

end
