(* ===== verification/Trading_Models.thy ===== *)
theory Trading_Models
  imports Go_Float
begin

text \<open>
  The data of the trading package of the execution gateway
  (\<^verbatim>\<open>internal/trading/models.go\<close>, \<^verbatim>\<open>interfaces.go\<close> and the error values of
  \<^verbatim>\<open>lifecycle.go\<close>): a Go struct is a record whose fields carry a prefix and the Go
  name, a nullable pointer is an option. Go errors are values of \<open>goerr\<close>; \<open>GoWrap\<close> is an
  error wrapped by \<^verbatim>\<open>fmt.Errorf("...%w", err)\<close> and \<open>GoPanic\<close> a run-time panic that
  unwinds the operation.
\<close>

section \<open>Errors\<close>

record BuildPendingFillError =
  pf_IntentID :: string
  pf_BrokerOrderID :: string
  pf_Status :: string
  pf_FilledQty :: int
  pf_PendingQty :: int

datatype goerr =
    GoErr string
  | GoWrap string goerr
  | PendingFillErr BuildPendingFillError
  | GoPanic string

definition NewBuildPendingFillError :: "string \<Rightarrow> string \<Rightarrow> string \<Rightarrow> int \<Rightarrow> int \<Rightarrow> BuildPendingFillError" where
  "NewBuildPendingFillError intentID brokerOrderID status filledQty pendingQty =
     \<lparr>pf_IntentID = intentID, pf_BrokerOrderID = TrimSpace brokerOrderID,
      pf_Status = ToUpper (TrimSpace status), pf_FilledQty = filledQty, pf_PendingQty = pendingQty\<rparr>"

definition BuildPendingFillError_Error :: "BuildPendingFillError \<Rightarrow> string" where
  "BuildPendingFillError_Error e =
     ''build order not fully filled: intent_id='' @ pf_IntentID e @ '' broker_order_id='' @
     pf_BrokerOrderID e @ '' status='' @ pf_Status e @ '' filled_qty='' @ show_int (pf_FilledQty e) @
     '' pending_qty='' @ show_int (pf_PendingQty e)"

fun Error :: "goerr \<Rightarrow> string" where
  "Error (GoErr m) = m"
| "Error (GoWrap m e) = m @ Error e"
| "Error (PendingFillErr p) = BuildPendingFillError_Error p"
| "Error (GoPanic m) = m"

text \<open>\<^verbatim>\<open>errors.As\<close> looks through the chain of wrapped errors.\<close>

fun IsBuildPendingFill :: "goerr \<Rightarrow> bool" where
  "IsBuildPendingFill (GoErr m) = False"
| "IsBuildPendingFill (GoWrap m e) = IsBuildPendingFill e"
| "IsBuildPendingFill (PendingFillErr p) = True"
| "IsBuildPendingFill (GoPanic m) = False"

section \<open>Market data\<close>

record OptionChainRow =
  row_Strike :: f64
  row_CEToken :: int
  row_PEToken :: int
  row_CELtp :: f64
  row_PELtp :: f64
  row_CEDelta :: f64
  row_PEDelta :: f64
  row_CEGamma :: f64
  row_PEGamma :: f64
  row_CETheta :: f64
  row_PETheta :: f64
  row_CEVega :: f64
  row_PEVega :: f64
  row_CEIV :: f64
  row_PEIV :: f64
  row_IsATM :: bool
  row_CESymbol :: string
  row_PESymbol :: string

record OptionChainSnapshot =
  ch_Symbol :: string
  ch_SyntheticFuture :: f64
  ch_SyntheticSpot :: f64
  ch_FutureLtp :: f64
  ch_ATM :: f64
  ch_Expiry :: string
  ch_AvailableExpiries :: "string list"
  ch_LotSize :: int
  ch_Chain :: "OptionChainRow list"

section \<open>Requests and responses\<close>

record DeployStraddleRequest =
  rq_UserID :: string
  rq_BrokerName :: string
  rq_AccountID :: string
  rq_ExchangeSegment :: string
  rq_Symbol :: string
  rq_Lots :: int
  rq_DeltaNeutral :: bool
  rq_ProductType :: string
  rq_TargetExpiry :: string
  rq_Strike :: int
  rq_CEToken :: int
  rq_PEToken :: int
  rq_LotSize :: int
  rq_CEStrikePrice :: int
  rq_PEStrikePrice :: int
  rq_OrderLotsPerCall :: int

record CustomStraddleRequest =
  cq_UserID :: string
  cq_BrokerName :: string
  cq_AccountID :: string
  cq_ExchangeSegment :: string
  cq_Symbol :: string
  cq_Lots :: int
  cq_CEStrikePrice :: int
  cq_PEStrikePrice :: int
  cq_DeltaNeutral :: bool
  cq_ProductType :: string
  cq_OrderLotsPerCall :: int
  cq_HedgeMonitorInterval :: f64
  cq_SlMonitorInterval :: f64
  cq_RollMonitorInterval :: f64

record ConfigBuildRequest =
  cb_UserID :: string
  cb_BrokerName :: string
  cb_AccountID :: string
  cb_ExchangeSegment :: string
  cb_Symbol :: string
  cb_Size :: int
  cb_Lots :: int
  cb_EntryTime :: string
  cb_ExitTime :: string
  cb_Idv :: f64
  cb_IdvDivisor :: f64
  cb_StraddleFilter :: f64
  cb_SlBps :: f64
  cb_BuyBuffer :: f64
  cb_SellBuffer :: f64
  cb_HedgeDiv :: f64
  cb_StraddleDiv :: f64
  cb_RollStraddleDiv :: f64
  cb_SlStartTime :: string
  cb_HedgeStartTime :: string
  cb_RollStartTime :: string
  cb_OrderLotsPerCall :: int
  cb_TargetExpiry :: string

record DeployStraddleResponse =
  rp_Success :: bool
  rp_TradeUID :: string
  rp_Status :: string
  rp_Message :: string
  rp_Symbol :: string
  rp_Expiry :: string
  rp_Strike :: f64
  rp_CEToken :: int
  rp_PEToken :: int
  rp_CEQty :: int
  rp_PEQty :: int
  rp_CELtp :: f64
  rp_PELtp :: f64
  rp_NetDelta :: f64
  rp_LotSize :: int
  rp_Lots :: int
  rp_DurationMS :: int
  rp_CreatedAt :: string
  rp_Error :: string

section \<open>Trades, intents and snapshots\<close>

record MonitorConfig =
  mc_BuyBuffer :: f64
  mc_SellBuffer :: f64
  mc_SLPointsPerLot :: f64
  mc_HedgeThresholdDelta :: f64
  mc_StraddleStopPrice :: f64
  mc_OrderLotsPerCall :: int
  mc_PollIntervalSec :: int

record StoredTrade =
  tr_TradeUID :: string
  tr_UserID :: string
  tr_BrokerName :: string
  tr_AccountID :: string
  tr_Symbol :: string
  tr_Expiry :: string
  tr_Strike :: f64
  tr_ProductType :: string
  tr_ExchangeSegment :: string
  tr_CEToken :: int
  tr_PEToken :: int
  tr_CEQty :: int
  tr_PEQty :: int
  tr_CELtp :: f64
  tr_PELtp :: f64
  tr_NetDelta :: f64
  tr_Status :: string
  tr_Mode :: string
  tr_Underlying :: f64
  tr_LotSize :: int
  tr_Lots :: int
  tr_CreatedAt :: gotime
  tr_LastUpdateTime :: gotime
  tr_Config :: MonitorConfig

record OrderIntent =
  it_IntentID :: string
  it_TradeUID :: string
  it_Token :: int
  it_Symbol :: string
  it_ExchangeSegment :: string
  it_Side :: string
  it_Quantity :: int
  it_OrderType :: string
  it_LimitPrice :: "f64 option"
  it_ProductType :: string
  it_LegType :: string
  it_Phase :: string
  it_OrderUID :: string
  it_BrokerName :: string
  it_AccountID :: string
  it_ExpectedPrice :: f64

record StoredIntent =
  si_ReceivedAt :: gotime
  si_Intent :: OrderIntent

record TradeLegSnapshot =
  ls_Token :: int
  ls_Strike :: f64
  ls_OptionType :: string
  ls_Action :: string
  ls_Quantity :: int
  ls_EntryPrice :: f64
  ls_LTP :: f64
  ls_PNL :: f64
  ls_IV :: f64
  ls_Delta :: f64
  ls_Gamma :: f64
  ls_Theta :: f64
  ls_Vega :: f64

record TradeSnapshot =
  ts_TradeUID :: string
  ts_Timestamp :: gotime
  ts_Status :: string
  ts_Symbol :: string
  ts_Expiry :: string
  ts_Strike :: f64
  ts_Underlying :: f64
  ts_TotalPNL :: f64
  ts_RealizedPNL :: f64
  ts_UnrealizedPNL :: f64
  ts_NetDelta :: f64
  ts_NetGamma :: f64
  ts_NetTheta :: f64
  ts_NetVega :: f64
  ts_LivePositions :: "TradeLegSnapshot list"

text \<open>A channel that only signals by being closed is the flag that it is closed.\<close>

record RuntimeTrade =
  rt_Trade :: StoredTrade
  rt_Snapshot :: TradeSnapshot
  rt_StopClosed :: bool
  rt_DoneClosed :: bool

section \<open>Interfaces\<close>

record ExecutionResult =
  res_IntentID :: string
  res_BrokerOrderID :: string
  res_Status :: string
  res_FilledQty :: int
  res_PendingQty :: int
  res_FillPrice :: f64
  res_EventReason :: string
  res_LatencyMS :: int
  res_RawRequest :: string
  res_RawResponse :: string

text \<open>
  \<^verbatim>\<open>Executor\<close>, \<^verbatim>\<open>SnapshotProvider\<close> and \<^verbatim>\<open>LotSizeProvider\<close>
  reach brokers and services over the network; \<open>'b\<close> is the state of that outside world.
\<close>

type_synonym 'b executor = "OrderIntent \<Rightarrow> 'b \<Rightarrow> (goerr + ExecutionResult) \<times> 'b"
type_synonym 'b snapshot_provider = "string \<Rightarrow> string \<Rightarrow> 'b \<Rightarrow> (goerr + OptionChainSnapshot) \<times> 'b"
type_synonym 'b lotsize_provider = "string \<Rightarrow> string \<Rightarrow> 'b \<Rightarrow> (goerr + int) \<times> 'b"
type_synonym 'b broker_factory = "string \<Rightarrow> string \<Rightarrow> string \<Rightarrow> 'b \<Rightarrow> (goerr + 'b executor) \<times> 'b"

section \<open>Zero values\<close>

definition zero_MonitorConfig :: MonitorConfig where
  "zero_MonitorConfig = \<lparr>mc_BuyBuffer = Fin 0, mc_SellBuffer = Fin 0, mc_SLPointsPerLot = Fin 0,
     mc_HedgeThresholdDelta = Fin 0, mc_StraddleStopPrice = Fin 0, mc_OrderLotsPerCall = 0,
     mc_PollIntervalSec = 0\<rparr>"

definition zero_StoredTrade :: StoredTrade where
  "zero_StoredTrade = \<lparr>tr_TradeUID = '''', tr_UserID = '''', tr_BrokerName = '''', tr_AccountID = '''',
     tr_Symbol = '''', tr_Expiry = '''', tr_Strike = Fin 0, tr_ProductType = '''',
     tr_ExchangeSegment = '''', tr_CEToken = 0, tr_PEToken = 0, tr_CEQty = 0, tr_PEQty = 0,
     tr_CELtp = Fin 0, tr_PELtp = Fin 0, tr_NetDelta = Fin 0, tr_Status = '''', tr_Mode = '''',
     tr_Underlying = Fin 0, tr_LotSize = 0, tr_Lots = 0, tr_CreatedAt = zero_time,
     tr_LastUpdateTime = zero_time, tr_Config = zero_MonitorConfig\<rparr>"

definition zero_TradeSnapshot :: TradeSnapshot where
  "zero_TradeSnapshot = \<lparr>ts_TradeUID = '''', ts_Timestamp = zero_time, ts_Status = '''', ts_Symbol = '''',
     ts_Expiry = '''', ts_Strike = Fin 0, ts_Underlying = Fin 0, ts_TotalPNL = Fin 0,
     ts_RealizedPNL = Fin 0, ts_UnrealizedPNL = Fin 0, ts_NetDelta = Fin 0, ts_NetGamma = Fin 0,
     ts_NetTheta = Fin 0, ts_NetVega = Fin 0, ts_LivePositions = []\<rparr>"

definition zero_OrderIntent :: OrderIntent where
  "zero_OrderIntent = \<lparr>it_IntentID = '''', it_TradeUID = '''', it_Token = 0, it_Symbol = '''',
     it_ExchangeSegment = '''', it_Side = '''', it_Quantity = 0, it_OrderType = '''',
     it_LimitPrice = None, it_ProductType = '''', it_LegType = '''', it_Phase = '''',
     it_OrderUID = '''', it_BrokerName = '''', it_AccountID = '''', it_ExpectedPrice = Fin 0\<rparr>"

end
