(* ===== verification/Trading_Helpers.thy ===== *)
theory Trading_Helpers
  imports Trading_Models
begin

text \<open>
  The pure helpers of the trading package: \<^verbatim>\<open>helpers.go\<close> (symbols, identifiers, row
  lookup, lot and order size tables), \<^verbatim>\<open>hedge_mapping.go\<close>, the status classification
  of \<^verbatim>\<open>lifecycle.go\<close> and the broker registry of \<^verbatim>\<open>registry.go\<close>.

  Shown here: the lookups return the first matching row and fail only when there is none; a hedge
  always moves the position's delta against its sign; the registry, an instance of the locale
  \<open>provider_registry\<close>, finds a provider under every spelling of its name; short order
  identifiers are at most 20 bytes and are distinct for the suffixes 0 to 9, while every suffix
  from 100 to 199 is cut to the same identifier.
\<close>

section \<open>helpers.go\<close>

definition NormalizeSymbol :: "string \<Rightarrow> string" where
  "NormalizeSymbol s = ToUpper (TrimSpace s)"

definition SymbolCode :: "string \<Rightarrow> string" where
  "SymbolCode symbol = (let s = NormalizeSymbol symbol in
     if s = ''NIFTY'' then ''NIF''
     else if s = ''BANKNIFTY'' then ''BNF''
     else if s = ''FINNIFTY'' then ''FNF''
     else if s = ''MIDCPNIFTY'' then ''MID''
     else if s = ''SENSEX'' then ''SNX''
     else if s = ''BANKEX'' then ''BKX''
     else if 3 \<le> length s then take 3 s else s)"

definition ResolveExchangeSegment :: "string \<Rightarrow> string \<Rightarrow> string" where
  "ResolveExchangeSegment symbol requested = (let req = ToUpper (TrimSpace requested) in
     if req \<noteq> '''' then req
     else if NormalizeSymbol symbol \<in> {''SENSEX'', ''BANKEX''} then ''BSEFO'' else ''NSEFO'')"

definition BuildTradeUID :: "string \<Rightarrow> string \<Rightarrow> string \<Rightarrow> string \<Rightarrow> string \<Rightarrow> f64 \<Rightarrow> gotime \<Rightarrow> string" where
  "BuildTradeUID userID brokerName accountID symbol expiry strike ts =
     (let cleanExpiry = ToUpper (RemoveChar (TrimSpace expiry) (CHR ''-'')) in
      ''TRD_'' @ ToUpper (TrimSpace userID) @ ''_'' @ ToUpper (TrimSpace brokerName) @ ''_'' @
      ToUpper (TrimSpace accountID) @ ''_'' @ ToUpper (TrimSpace symbol) @ ''_'' @ cleanExpiry @ ''_'' @
      fmt_f 0 strike @ ''_'' @ fmt_ymdhms ts)"

definition BuildShortOrderUID :: "string \<Rightarrow> string \<Rightarrow> gotime \<Rightarrow> int \<Rightarrow> string" where
  "BuildShortOrderUID symbol leg ts suffix =
     (let base = SymbolCode symbol @ fmt_dmyhms ts @ ToUpper leg;
          base' = (if 0 < suffix then base @ ''_'' @ show_int suffix else base) in
      if 20 < length base' then take 20 base' else base')"

definition FindATMRow :: "OptionChainSnapshot \<Rightarrow> goerr + OptionChainRow" where
  "FindATMRow chain = (case find (\<lambda>row. row_IsATM row \<or> feq (row_Strike row) (ch_ATM chain)) (ch_Chain chain) of
      Some row \<Rightarrow> Inr row | None \<Rightarrow> Inl (GoErr ''ATM row not found''))"

definition FindRowByStrike :: "OptionChainSnapshot \<Rightarrow> int \<Rightarrow> goerr + OptionChainRow" where
  "FindRowByStrike chain strike = (case find (\<lambda>row. ftoi (fround (row_Strike row)) = strike) (ch_Chain chain) of
      Some row \<Rightarrow> Inr row
    | None \<Rightarrow> Inl (GoErr (''strike '' @ show_int strike @ '' not found in chain'')))"

definition GetFallbackLotSize :: "string \<Rightarrow> int" where
  "GetFallbackLotSize symbol = (let s = NormalizeSymbol symbol in
     if s = ''NIFTY'' then 25
     else if s = ''BANKNIFTY'' then 15
     else if s = ''FINNIFTY'' then 25
     else if s = ''MIDCPNIFTY'' then 50
     else if s = ''SENSEX'' then 10
     else if s = ''BANKEX'' then 15
     else 1)"

definition MaxOrderQtyForSymbol :: "string \<Rightarrow> int" where
  "MaxOrderQtyForSymbol symbol = (let s = NormalizeSymbol symbol in
     if Contains s ''SENSEX'' then 5000
     else if Contains s ''BANKEX'' then 4000
     else 1800)"

section \<open>hedge\_mapping.go\<close>

definition hedgeSidesFromNetDelta :: "f64 \<Rightarrow> string \<times> string \<times> bool" where
  "hedgeSidesFromNetDelta netDelta =
     (if flt (fabs netDelta) (Fin 1) then ('''', '''', False)
      else if flt netDelta (Fin 0) then (''BUY'', ''SELL'', True)
      else (''SELL'', ''BUY'', True))"

section \<open>lifecycle.go\<close>

definition TradeStatusPendingFill :: string where
  "TradeStatusPendingFill = ''PENDING_FILL''"

definition TradeStatusFailed :: string where
  "TradeStatusFailed = ''FAILED''"

definition TradeStatusActive :: string where
  "TradeStatusActive = ''ACTIVE''"

lemmas status_defs [go_simps] = TradeStatusPendingFill_def TradeStatusFailed_def TradeStatusActive_def

definition buildFailureStatusFromError :: "goerr \<Rightarrow> string" where
  "buildFailureStatusFromError err =
     (if IsBuildPendingFill err then TradeStatusPendingFill else TradeStatusFailed)"

definition isBuildCompleteStatus :: "string \<Rightarrow> bool" where
  "isBuildCompleteStatus status \<longleftrightarrow> ToUpper (TrimSpace status) \<in> {''FILLED'', ''SUCCESS''}"

definition isBuildRetryableTerminalStatus :: "string \<Rightarrow> bool" where
  "isBuildRetryableTerminalStatus status \<longleftrightarrow>
     ToUpper (TrimSpace status) \<in> {''REJECTED'', ''CANCELLED'', ''CANCELED''}"

record BuildOrderLifecycleCounts =
  lc_Total :: int
  lc_Filled :: int
  lc_Pending :: int
  lc_TerminalFail :: int
  lc_Unknown :: int

definition deriveTradeStatusFromBuildCounts :: "BuildOrderLifecycleCounts \<Rightarrow> string" where
  "deriveTradeStatusFromBuildCounts c =
     (if lc_Total c \<le> 0 then TradeStatusFailed
      else if lc_Filled c = lc_Total c then TradeStatusActive
      else if 0 < lc_Pending c then TradeStatusPendingFill
      else if 0 < lc_Filled c \<and> lc_Filled c < lc_Total c then TradeStatusPendingFill
      else if lc_TerminalFail c = lc_Total c then TradeStatusFailed
      else if 0 < lc_Unknown c then TradeStatusPendingFill
      else TradeStatusFailed)"

section \<open>registry.go\<close>

text \<open>\<^verbatim>\<open>DefaultBrokerFactory\<close>; a nil provider is \<^const>\<open>None\<close>.\<close>

type_synonym 'b provider = "string \<Rightarrow> string \<Rightarrow> 'b \<Rightarrow> (goerr + 'b executor) \<times> 'b"

record 'b DefaultBrokerFactory =
  bf_providers :: "(string, 'b provider) gomap"

definition NewDefaultBrokerFactory :: "'b DefaultBrokerFactory" where
  "NewDefaultBrokerFactory = \<lparr>bf_providers = []\<rparr>"

definition Register :: "string \<Rightarrow> 'b provider option \<Rightarrow> 'b DefaultBrokerFactory \<Rightarrow> 'b DefaultBrokerFactory" where
  "Register brokerName provider f = (case provider of
      None \<Rightarrow> f
    | Some p \<Rightarrow> f\<lparr>bf_providers := gm_set (ToUpper (TrimSpace brokerName)) p (bf_providers f)\<rparr>)"

definition GetExecutor :: "'b DefaultBrokerFactory \<Rightarrow> 'b broker_factory" where
  "GetExecutor f userID brokerName accountID b =
     (let name = ToUpper (TrimSpace brokerName) in
      if name = '''' then (Inl (GoErr ''brokerName is required''), b)
      else (case gm_get (bf_providers f) name of
          None \<Rightarrow> (Inl (GoErr (''unsupported broker '' @ brokerName)), b)
        | Some provider \<Rightarrow> provider userID accountID b))"

section \<open>Lemmas\<close>

lemma NormalizeSymbol_idem [simp]: "NormalizeSymbol (NormalizeSymbol s) = NormalizeSymbol s"
  by (simp add: NormalizeSymbol_def)

lemma FindATMRow_Inr:
  "FindATMRow chain = Inr row \<Longrightarrow>
     row \<in> set (ch_Chain chain) \<and> (row_IsATM row \<or> feq (row_Strike row) (ch_ATM chain))"
  by (auto simp: FindATMRow_def find_Some_iff split: option.splits)

lemma FindRowByStrike_Inr:
  "FindRowByStrike chain k = Inr row \<Longrightarrow>
     row \<in> set (ch_Chain chain) \<and> ftoi (fround (row_Strike row)) = k"
  by (auto simp: FindRowByStrike_def find_Some_iff split: option.splits)

lemma GetFallbackLotSize_pos: "0 < GetFallbackLotSize s" "int64_ok (GetFallbackLotSize s)"
  by (simp_all add: GetFallbackLotSize_def Let_def int64_ok_def)

lemma MaxOrderQtyForSymbol_bounds: "1800 \<le> MaxOrderQtyForSymbol s \<and> MaxOrderQtyForSymbol s \<le> 5000"
  by (simp add: MaxOrderQtyForSymbol_def Let_def)

lemma length_SymbolCode: "length (SymbolCode s) \<le> 3"
  by (auto simp: SymbolCode_def Let_def)

lemma length_BuildShortOrderUID: "length (BuildShortOrderUID s leg t n) \<le> 20"
  by (simp add: BuildShortOrderUID_def Let_def)

lemma take_20_suffix:
  assumes "length (a :: string) = 3" "length b = 12" "length c = 3"
  shows "take 20 (a @ b @ c @ ''_'' @ w) = a @ b @ c @ ''_'' @ take 1 w"
  using assms by simp

lemma show_int_three_digits:
  assumes "100 \<le> n" "n < 1000"
  shows "take 1 (show_int n) = [digit_char (nat n div 100)]" and "length (show_int n) = 3"
proof -
  have "nat n div 10 div 10 < 10" "\<not> nat n div 10 < 10" "\<not> nat n < 10" using assms by auto
  then have *: "show_int n = [digit_char (nat n div 10 div 10), digit_char (nat n div 10 mod 10), digit_char (nat n mod 10)]"
    using assms by (simp add: show_int_def show_nat.simps [of "nat n"] show_nat.simps [of "nat n div 10"]
        show_nat.simps [of "nat n div 10 div 10"])
  then show "take 1 (show_int n) = [digit_char (nat n div 100)]" and "length (show_int n) = 3"
    by (simp_all flip: div_mult2_eq)
qed

lemma digit_char_inject: "m < 10 \<Longrightarrow> n < 10 \<Longrightarrow> digit_char m = digit_char n \<longleftrightarrow> m = n"
  using digit_char_simps by (metis digit_val_def)

lemma show_int_digit: "0 \<le> n \<Longrightarrow> n < 10 \<Longrightarrow> show_int n = [digit_char (nat n)]"
  by (simp add: show_int_def show_nat.simps [of "nat n"])

lemma ToUpper_TrimSpace_idem [simp]: "ToUpper (TrimSpace (ToUpper (TrimSpace s))) = ToUpper (TrimSpace s)"
  by simp

section \<open>Properties\<close>

definition side_sign :: "string \<Rightarrow> rat" where
  "side_sign side = (if side = ''BUY'' then 1 else if side = ''SELL'' then - 1 else 0)"

text \<open>
  A hedge reduces the exposure it reacts to. When the net delta is at least one in absolute
  value the two legs get opposite sides, and, with the call's delta and the put's delta having
  their usual signs, the delta the hedge adds has the sign opposite to the net delta.
\<close>

theorem hedge_opposes_net_delta:
  assumes "hedgeSidesFromNetDelta (Fin d) = (ceSide, peSide, True)" and "0 < dce" and "dpe < 0"
  shows "1 \<le> \<bar>d\<bar> \<and> (side_sign ceSide * dce + side_sign peSide * dpe) * d < 0 \<and>
    side_sign ceSide = - side_sign peSide"
  using assms by (auto simp: hedgeSidesFromNetDelta_def side_sign_def mult_less_0_iff split: if_splits)

theorem hedge_opposes_net_delta_witness:
  "1 \<le> \<bar>- 30 :: rat\<bar> \<and> (side_sign ''BUY'' * (1 / 2) + side_sign ''SELL'' * (- 1 / 2)) * (- 30) < 0 \<and>
    side_sign ''BUY'' = - side_sign ''SELL''"
  by (rule hedge_opposes_net_delta) (simp_all add: hedgeSidesFromNetDelta_def)

section \<open>Registries\<close>

text \<open>A table of providers under names that are compared after normalization.\<close>

locale provider_registry =
  fixes reg :: "string \<Rightarrow> 'p \<Rightarrow> 's \<Rightarrow> 's" and lookup :: "'s \<Rightarrow> string \<Rightarrow> 'p option" and norm :: "string \<Rightarrow> string"
  assumes lookup_reg: "lookup (reg n p s) m = (if norm m = norm n then Some p else lookup s m)"
    and norm_idem: "norm (norm n) = norm n"
begin

lemma lookup_spelling: "norm m = norm n \<Longrightarrow> lookup (reg n p s) m = Some p"
  by (simp add: lookup_reg)

lemma lookup_norm: "lookup (reg n p s) (norm n) = Some p"
  by (simp add: lookup_reg norm_idem)

lemma last_registration: "norm m = norm n \<Longrightarrow> lookup (reg m q (reg n p s)) k = lookup (reg m q s) k"
  by (simp add: lookup_reg)

lemma other_names: "norm m \<noteq> norm n \<Longrightarrow> lookup (reg n p s) m = lookup s m"
  by (simp add: lookup_reg)

lemma registrations_commute: "norm m \<noteq> norm n \<Longrightarrow> lookup (reg m q (reg n p s)) k = lookup (reg n p (reg m q s)) k"
  by (simp add: lookup_reg)

end

definition broker_key :: "string \<Rightarrow> string" where
  "broker_key n = ToUpper (TrimSpace n)"

definition find_provider :: "'b DefaultBrokerFactory \<Rightarrow> string \<Rightarrow> 'b provider option" where
  "find_provider f n = gm_get (bf_providers f) (broker_key n)"

interpretation brokers: provider_registry "\<lambda>n p f. Register n (Some p) f" find_provider broker_key
  by unfold_locales (auto simp: Register_def find_provider_def broker_key_def gm_simps)

lemma GetExecutor_lookup:
  "broker_key n \<noteq> '''' \<Longrightarrow> GetExecutor f u n a b = (case find_provider f n of
     None \<Rightarrow> (Inl (GoErr (''unsupported broker '' @ n)), b) | Some p \<Rightarrow> p u a b)"
  by (simp add: GetExecutor_def find_provider_def broker_key_def Let_def)

text \<open>
  A registered broker is found under every spelling of its name: letter case and surrounding
  blanks do not matter, the latest registration counts, and registering one broker does not change
  what another name gives.
\<close>

theorem registry_ignores_spelling:
  assumes "broker_key m \<noteq> ''''"
  shows "GetExecutor (Register n (Some p) f) u m a b =
    (if broker_key m = broker_key n then p u a b else GetExecutor f u m a b)"
  using assms by (simp add: GetExecutor_lookup brokers.lookup_reg)

theorem registry_ignores_spelling_witness:
  "GetExecutor (Register '' sim'' (Some (\<lambda>u a b. (Inl (GoErr a), b))) NewDefaultBrokerFactory) ''U'' ''SIM'' ''A'' () = (Inl (GoErr ''A''), ())"
proof -
  have "broker_key ''SIM'' = ''SIM''" "broker_key '' sim'' = ''SIM''" by code_simp+
  then show ?thesis
    using registry_ignores_spelling [of "''SIM''" "'' sim''" "\<lambda>u a b. (Inl (GoErr a), b)" NewDefaultBrokerFactory "''U''" "''A''" "()"] by simp
qed

section \<open>Short order identifiers\<close>

lemma short_uid_parts:
  assumes "length (SymbolCode symbol) = 3" and "length leg = 3" and "gotime_ok t" and "0 < n"
  shows "BuildShortOrderUID symbol leg t n = SymbolCode symbol @ fmt_dmyhms t @ ToUpper leg @ ''_'' @ take 1 (show_int n)"
proof -
  have l: "length (ToUpper leg) = 3" "length (fmt_dmyhms t) = 12" using assms by (simp_all add: ToUpper_def length_fmt_dmyhms)
  let ?b = "SymbolCode symbol @ fmt_dmyhms t @ ToUpper leg @ ''_'' @ show_int n"
  have tk: "take 20 ?b = SymbolCode symbol @ fmt_dmyhms t @ ToUpper leg @ ''_'' @ take 1 (show_int n)"
    by (rule take_20_suffix) (use assms(1) l in simp_all)
  have "(if 20 < length ?b then take 20 ?b else ?b) = take 20 ?b" by simp
  moreover have "BuildShortOrderUID symbol leg t n = (if 20 < length ?b then take 20 ?b else ?b)"
    using assms(4) by (simp only: BuildShortOrderUID_def Let_def if_True append_assoc)
  ultimately show ?thesis using tk by (simp only:)
qed

lemma short_uid_zero:
  assumes "length (SymbolCode symbol) = 3" and "length leg = 3" and "gotime_ok t"
  shows "BuildShortOrderUID symbol leg t 0 = SymbolCode symbol @ fmt_dmyhms t @ ToUpper leg"
  using assms by (simp add: BuildShortOrderUID_def Let_def ToUpper_def length_fmt_dmyhms)

text \<open>
  Short order identifiers have at most 20 bytes, and within one second the suffixes 0 to 9 of
  one leg give ten different ones.
\<close>

theorem short_uid_suffixes_distinct:
  assumes "length (SymbolCode symbol) = 3" and "length leg = 3" and "gotime_ok t"
    and "0 \<le> m" and "m < 10" and "0 \<le> n" and "n < 10"
  shows "length (BuildShortOrderUID symbol leg t m) \<le> 20 \<and>
    (BuildShortOrderUID symbol leg t m = BuildShortOrderUID symbol leg t n \<longleftrightarrow> m = n)"
proof -
  have d: "take 1 (show_int k) = [digit_char (nat k)]" if "0 \<le> k" "k < 10" for k using that by (simp add: show_int_digit)
  have "BuildShortOrderUID symbol leg t m = BuildShortOrderUID symbol leg t n \<longleftrightarrow> m = n"
    using assms d [of m] d [of n] short_uid_parts [OF assms(1-3), of m] short_uid_parts [OF assms(1-3), of n] short_uid_zero [OF assms(1-3)]
    by (cases "m = 0"; cases "n = 0") (auto simp: digit_char_inject)
  then show ?thesis by (simp add: length_BuildShortOrderUID)
qed

text \<open>
  The identifiers that the square-off builds with suffixes from 100 on are cut off after the
  first digit: all of 100 to 199 give one and the same, so that two square-off orders of the same
  leg type and second share their order identifier.
\<close>

theorem short_uid_suffixes_collide:
  assumes "length (SymbolCode symbol) = 3" and "length leg = 3" and "gotime_ok t"
    and "100 \<le> m" and "m < 200" and "100 \<le> n" and "n < 200"
  shows "BuildShortOrderUID symbol leg t m = BuildShortOrderUID symbol leg t n"
proof -
  have "take 1 (show_int k) = [digit_char 1]" if "100 \<le> k" "k < 200" for k
  proof -
    have "nat k div 100 = 1" using that by auto
    then show ?thesis using show_int_three_digits(1) [of k] that by simp
  qed
  then show ?thesis using assms short_uid_parts [OF assms(1-3)] by simp
qed

definition noon :: gotime where
  "noon = \<lparr>t_year = 2025, t_month = 1, t_day = 2, t_hour = 12, t_min = 0, t_sec = 0, t_unix_micro = 0, t_zone = ''Z''\<rparr>"

lemma noon_ok: "gotime_ok noon"
  by (simp add: gotime_ok_def noon_def)

lemma nifty_code: "length (SymbolCode ''NIFTY'') = 3"
  by (simp add: SymbolCode_def NormalizeSymbol_def ToUpper_def TrimSpace_def trim_by_def is_space_def upper_char_def Let_def)

theorem short_uid_suffixes_distinct_witness:
  "length (BuildShortOrderUID ''NIFTY'' ''HCE'' noon 0) \<le> 20 \<and> BuildShortOrderUID ''NIFTY'' ''HCE'' noon 0 \<noteq> BuildShortOrderUID ''NIFTY'' ''HCE'' noon 7"
  using short_uid_suffixes_distinct [OF nifty_code _ noon_ok, of "''HCE''" 0 7] by simp

theorem short_uid_suffixes_collide_witness:
  "BuildShortOrderUID ''NIFTY'' ''SCE'' noon 100 = BuildShortOrderUID ''NIFTY'' ''SCE'' noon 101"
  by (rule short_uid_suffixes_collide [OF nifty_code _ noon_ok]) simp_all

end
