(* ===== verification/Trading_Chunker.thy ===== *)
theory Trading_Chunker
  imports Trading_Helpers
begin

text \<open>
  The order chunker, \<^verbatim>\<open>internal/trading/chunker.go\<close>: each leg's lots are spread over
  seven chunks, each chunk is cut into orders of a bounded number of lots, and the legs' orders are
  interleaved within a chunk.

  Shown here: the generated orders cover every leg exactly, each order has a positive quantity
  within the freeze limit, identifiers are unique, there are at most seven chunks and none is
  empty, and valid legs always produce a result.
\<close>

section \<open>Data\<close>

record LegData =
  lg_Token :: int
  lg_Symbol :: string
  lg_OptionType :: string
  lg_Action :: string
  lg_TotalLots :: int
  lg_LotSize :: int
  lg_ExpectedPrice :: f64
  lg_ExchangeSegment :: string

record ExecOrder =
  eo_UID :: string
  eo_Token :: int
  eo_Symbol :: string
  eo_OptionType :: string
  eo_Action :: string
  eo_Quantity :: int
  eo_ExpectedPrice :: f64
  eo_LimitPrice :: f64
  eo_ExchangeSegment :: string

section \<open>Operations\<close>

definition minInt :: "int \<Rightarrow> int \<Rightarrow> int" where
  "minInt a b = (if a < b then a else b)"

definition maxInt :: "int \<Rightarrow> int \<Rightarrow> int" where
  "maxInt a b = (if a > b then a else b)"

definition order_uid :: "string \<Rightarrow> int \<Rightarrow> nat \<Rightarrow> string" where
  "order_uid prefix tsNow counter = prefix @ ''_'' @ show_int (i64_add tsNow (int counter))"

definition chunk_order :: "string \<Rightarrow> int \<Rightarrow> LegData \<Rightarrow> int \<Rightarrow> nat \<Rightarrow> ExecOrder" where
  "chunk_order prefix tsNow leg qty counter =
     \<lparr>eo_UID = order_uid prefix tsNow counter, eo_Token = lg_Token leg, eo_Symbol = lg_Symbol leg,
      eo_OptionType = lg_OptionType leg, eo_Action = lg_Action leg, eo_Quantity = qty,
      eo_ExpectedPrice = lg_ExpectedPrice leg, eo_LimitPrice = Fin 0,
      eo_ExchangeSegment = lg_ExchangeSegment leg\<rparr>"

text \<open>The orders of one chunk of one leg; the counter numbers the orders of the whole call.\<close>

definition chunk_orders :: "string \<Rightarrow> int \<Rightarrow> int \<Rightarrow> LegData \<Rightarrow> int \<Rightarrow> nat \<Rightarrow> goerr + (ExecOrder list \<times> nat)" where
  "chunk_orders prefix tsNow minLots leg lots counter =
     (if lots = 0 then Inr ([], counter) else
      let nFull = nat (i64_div lots minLots); remLots = i64_rem lots minLots;
          qty = i64_mul minLots (lg_LotSize leg); rqty = i64_mul remLots (lg_LotSize leg);
          full = map (chunk_order prefix tsNow leg qty) [counter..<counter + nFull] in
      if 0 < nFull \<and> qty \<le> 0 then
        Inl (GoErr (''invalid generated quantity for token '' @ show_int (lg_Token leg)))
      else if 0 < remLots then
        (if rqty \<le> 0 then
           Inl (GoErr (''invalid remainder quantity for token '' @ show_int (lg_Token leg)))
         else Inr (full @ [chunk_order prefix tsNow leg rqty (counter + nFull)], Suc (counter + nFull)))
      else Inr (full, counter + nFull))"

definition lots_this_chunk :: "int \<Rightarrow> int \<Rightarrow> int \<Rightarrow> int" where
  "lots_this_chunk lotsBase lotsRem c = (if c < lotsRem then i64_add lotsBase 1 else lotsBase)"

fun fill_chunks :: "string \<Rightarrow> int \<Rightarrow> int \<Rightarrow> LegData \<Rightarrow> int \<Rightarrow> int \<Rightarrow> int list \<Rightarrow> nat \<Rightarrow> goerr + (ExecOrder list list \<times> nat)" where
  "fill_chunks prefix tsNow minLots leg lotsBase lotsRem [] counter = Inr ([], counter)"
| "fill_chunks prefix tsNow minLots leg lotsBase lotsRem (c # cs) counter =
     (case chunk_orders prefix tsNow minLots leg (lots_this_chunk lotsBase lotsRem c) counter of
        Inl e \<Rightarrow> Inl e
      | Inr (os, counter') \<Rightarrow>
          (case fill_chunks prefix tsNow minLots leg lotsBase lotsRem cs counter' of
             Inl e \<Rightarrow> Inl e
           | Inr (oss, counter'') \<Rightarrow> Inr (os # oss, counter'')))"

definition chunkDivisor :: int where
  "chunkDivisor = 7"

definition chunk_leg :: "string \<Rightarrow> int \<Rightarrow> int \<Rightarrow> LegData \<Rightarrow> nat \<Rightarrow> goerr + (ExecOrder list list \<times> nat)" where
  "chunk_leg prefix tsNow minLots leg counter =
     (if lg_Token leg \<le> 0 then Inl (GoErr (''invalid leg token: '' @ show_int (lg_Token leg)))
      else if lg_LotSize leg \<le> 0 then
        Inl (GoErr (''invalid leg lot size for token '' @ show_int (lg_Token leg) @ '': '' @ show_int (lg_LotSize leg)))
      else if lg_TotalLots leg < 0 then
        Inl (GoErr (''invalid total lots for token '' @ show_int (lg_Token leg) @ '': '' @ show_int (lg_TotalLots leg)))
      else if lg_TotalLots leg = 0 then Inr (replicate 7 [], counter)
      else fill_chunks prefix tsNow minLots leg (i64_div (lg_TotalLots leg) chunkDivisor)
             (i64_rem (lg_TotalLots leg) chunkDivisor) [0..6] counter)"

fun chunk_legs :: "string \<Rightarrow> int \<Rightarrow> int \<Rightarrow> LegData list \<Rightarrow> nat \<Rightarrow> goerr + ExecOrder list list list" where
  "chunk_legs prefix tsNow minLots [] counter = Inr []"
| "chunk_legs prefix tsNow minLots (leg # legs) counter =
     (case chunk_leg prefix tsNow minLots leg counter of
        Inl e \<Rightarrow> Inl e
      | Inr (chunks, counter') \<Rightarrow>
          (case chunk_legs prefix tsNow minLots legs counter' of
             Inl e \<Rightarrow> Inl e
           | Inr legChunks \<Rightarrow> Inr (chunks # legChunks)))"

text \<open>Round robin over the legs' orders of one chunk.\<close>

definition interleave :: "nat \<Rightarrow> ExecOrder list list \<Rightarrow> ExecOrder list" where
  "interleave maxOrders cols =
     concat (map (\<lambda>i. concat (map (\<lambda>col. if i < length col then [col ! i] else []) cols)) [0..<maxOrders])"

definition max_orders :: "ExecOrder list list \<Rightarrow> nat" where
  "max_orders cols = foldl (\<lambda>m col. if m < length col then length col else m) 0 cols"

definition interleaved_chunk :: "ExecOrder list list list \<Rightarrow> nat \<Rightarrow> ExecOrder list" where
  "interleaved_chunk legChunks c =
     (let cols = map (\<lambda>lc. lc ! c) legChunks in interleave (max_orders cols) cols)"

definition lots_per_order :: "int \<Rightarrow> int \<Rightarrow> int \<Rightarrow> int \<Rightarrow> int" where
  "lots_per_order lotSize baseLots maxOrderQty orderLotsPerCall =
     (let maxLotsPerOrder = maxInt 1 (i64_div maxOrderQty lotSize);
          raw = (if 0 < orderLotsPerCall then orderLotsPerCall
                 else if 0 < baseLots then ftoi (fceil (fdiv (itof baseLots) (Fin 100))) else 1);
          m = minInt raw maxLotsPerOrder in
      if m \<le> 0 then 1 else m)"

definition GenerateChunkedOrders :: "gotime \<Rightarrow> string \<Rightarrow> LegData list \<Rightarrow> int \<Rightarrow> int \<Rightarrow> int \<Rightarrow> goerr + ExecOrder list list" where
  "GenerateChunkedOrders now tradeUIDPrefix legs baseLots maxOrderQty orderLotsPerCall =
     (if legs = [] then Inr [] else
      let lotSizeForCalc = lg_LotSize (hd legs) in
      if lotSizeForCalc \<le> 0 then
        Inl (GoErr (''invalid lot size for chunking: '' @ show_int lotSizeForCalc))
      else if maxOrderQty \<le> 0 then Inl (GoErr (''invalid max order qty: '' @ show_int maxOrderQty))
      else
        (case chunk_legs tradeUIDPrefix (t_unix_micro now)
                (lots_per_order lotSizeForCalc baseLots maxOrderQty orderLotsPerCall) legs 0 of
           Inl e \<Rightarrow> Inl e
         | Inr legChunks \<Rightarrow>
             Inr (filter (\<lambda>ch. ch \<noteq> []) (map (interleaved_chunk legChunks) [0..<7]))))"

section \<open>What it means for orders to cover a leg\<close>

definition from_leg :: "LegData \<Rightarrow> ExecOrder \<Rightarrow> bool" where
  "from_leg leg ord \<longleftrightarrow> eo_Token ord = lg_Token leg \<and> eo_Symbol ord = lg_Symbol leg \<and>
     eo_OptionType ord = lg_OptionType leg \<and> eo_Action ord = lg_Action leg \<and>
     eo_ExpectedPrice ord = lg_ExpectedPrice leg \<and> eo_ExchangeSegment ord = lg_ExchangeSegment leg"

definition covers :: "string \<Rightarrow> int \<Rightarrow> int \<Rightarrow> LegData \<Rightarrow> nat \<Rightarrow> nat \<Rightarrow> int \<Rightarrow> ExecOrder list \<Rightarrow> bool" where
  "covers p ts m leg k k' q os \<longleftrightarrow> k \<le> k' \<and> map eo_UID os = map (order_uid p ts) [k..<k'] \<and>
     (\<forall>ord\<in>set os. from_leg leg ord \<and> 0 < eo_Quantity ord \<and> eo_Quantity ord \<le> m * lg_LotSize leg) \<and>
     sum_list (map eo_Quantity os) = q"

lemma covers_Nil: "covers p ts m leg k k 0 []"
  by (simp add: covers_def)

lemma covers_append:
  "covers p ts m leg k k' q os \<Longrightarrow> covers p ts m leg k' k'' q' os' \<Longrightarrow> covers p ts m leg k k'' (q + q') (os @ os')"
proof -
  assume a: "covers p ts m leg k k' q os" "covers p ts m leg k' k'' q' os'"
  then have "[k..<k''] = [k..<k'] @ [k'..<k'']"
    using upt_add_eq_append [of k k' "k'' - k'"] by (simp add: covers_def)
  with a show ?thesis by (auto simp: covers_def)
qed

lemma covers_full:
  assumes "0 < n \<Longrightarrow> 0 < qty" and "qty \<le> m * lg_LotSize leg"
  shows "covers p ts m leg k (k + n) (int n * qty) (map (chunk_order p ts leg qty) [k..<k + n])"
proof -
  have "sum_list (map eo_Quantity (map (chunk_order p ts leg qty) [k..<k + n])) = int n * qty"
    by (induction n) (simp_all add: chunk_order_def algebra_simps)
  then show ?thesis using assms by (auto simp: covers_def chunk_order_def from_leg_def)
qed

text \<open>No product of a chunk overflows when the whole leg does not.\<close>

lemma chunk_products:
  assumes "0 < m" "0 \<le> lots" "0 < sz" "lots * sz < 2 ^ 63"
  shows "i64_mul (lots mod m) sz = lots mod m * sz" "0 < lots div m \<Longrightarrow> i64_mul m sz = m * sz"
proof -
  have exact: "i64_mul x sz = x * sz" if "0 \<le> x" "x \<le> lots" for x
  proof -
    have "0 \<le> x * sz" "x * sz \<le> lots * sz" using that assms(3) by (simp_all add: mult_right_mono)
    then show ?thesis using assms(4) by (simp add: i64_mul_def int64_ok_def del: mult_le_cancel_right)
  qed
  show "i64_mul (lots mod m) sz = lots mod m * sz" using assms(1,2) by (intro exact) (simp_all add: zmod_le_nonneg_dividend)
  show "i64_mul m sz = m * sz" if "0 < lots div m"
    using that assms(1) by (intro exact) (simp_all add: pos_imp_zdiv_pos_iff)
qed

lemma chunk_orders_covers:
  assumes m: "0 < m" and lots: "0 \<le> lots" "int64_ok lots" and ls: "0 < lg_LotSize leg"
    and small: "lots * lg_LotSize leg < 2 ^ 63"
  shows "\<exists>os k'. chunk_orders p ts m leg lots k = Inr (os, k') \<and> covers p ts m leg k k' (lots * lg_LotSize leg) os"
proof (cases "lots = 0")
  case True
  then show ?thesis by (auto simp: chunk_orders_def covers_Nil)
next
  case False
  define n r where "n = nat (lots div m)" and "r = lots mod m"
  have dv: "i64_div lots m = lots div m" and rm: "i64_rem lots m = r"
    using assms by (simp_all add: i64_div_nonneg i64_rem_nonneg r_def)
  have eq: "lots = int n * m + r" and r: "0 \<le> r" "r < m"
    using m lots by (simp_all add: n_def r_def pos_imp_zdiv_nonneg_iff)
  note prods = chunk_products [OF m lots(1) ls small]
  have rq: "i64_mul r (lg_LotSize leg) = r * lg_LotSize leg" using prods(1) by (simp add: r_def)
  have q: "i64_mul m (lg_LotSize leg) = m * lg_LotSize leg" if "0 < n" using prods(2) that by (simp add: n_def)
  let ?full = "map (chunk_order p ts leg (i64_mul m (lg_LotSize leg))) [k..<k + n]"
  have full: "covers p ts m leg k (k + n) (int n * (m * lg_LotSize leg)) ?full"
  proof (cases "n = 0")
    case False
    then show ?thesis using q m ls covers_full [of n "m * lg_LotSize leg" m leg p ts k] by simp
  qed (simp add: covers_Nil)
  show ?thesis
  proof (cases "0 < r")
    case True
    have "covers p ts m leg (k + n) (Suc (k + n)) (r * lg_LotSize leg)
        [chunk_order p ts leg (r * lg_LotSize leg) (k + n)]"
      using covers_full [of 1 "r * lg_LotSize leg" m leg p ts "k + n"] True r ls
      by (simp add: mult_right_mono)
    with full have "covers p ts m leg k (Suc (k + n)) (int n * (m * lg_LotSize leg) + r * lg_LotSize leg)
        (?full @ [chunk_order p ts leg (r * lg_LotSize leg) (k + n)])" by (rule covers_append)
    moreover have "int n * (m * lg_LotSize leg) + r * lg_LotSize leg = lots * lg_LotSize leg"
      using eq by (simp add: algebra_simps)
    ultimately show ?thesis
      using False True q m ls by (auto simp: chunk_orders_def Let_def dv rm rq n_def [symmetric] zero_less_mult_iff mult_le_0_iff)
  next
    case False
    with r eq have "lots = int n * m" by simp
    then have tot: "int n * (m * lg_LotSize leg) = lots * lg_LotSize leg" by simp
    have "0 < m * lg_LotSize leg" using m ls by simp
    then have "chunk_orders p ts m leg lots k = Inr (?full, k + n)"
      using \<open>lots \<noteq> 0\<close> False q by (auto simp: chunk_orders_def Let_def dv rm n_def [symmetric])
    then show ?thesis using full unfolding tot by blast
  qed
qed

text \<open>The lots of the chunks add up to the lots of the leg.\<close>

lemma fill_chunks_covers:
  assumes m: "0 < m" and ls: "0 < lg_LotSize leg"
    and lots: "\<And>c. c \<in> set cs \<Longrightarrow> 0 \<le> lots_this_chunk b r c \<and> int64_ok (lots_this_chunk b r c) \<and>
      lots_this_chunk b r c * lg_LotSize leg < 2 ^ 63"
  shows "\<exists>oss k'. fill_chunks p ts m leg b r cs k = Inr (oss, k') \<and> length oss = length cs \<and>
    covers p ts m leg k k' (sum_list (map (lots_this_chunk b r) cs) * lg_LotSize leg) (concat oss)"
  using lots
proof (induction cs arbitrary: k)
  case (Cons c cs)
  from Cons.prems [of c] obtain os k1 where 1: "chunk_orders p ts m leg (lots_this_chunk b r c) k = Inr (os, k1)"
      "covers p ts m leg k k1 (lots_this_chunk b r c * lg_LotSize leg) os"
    using chunk_orders_covers [OF m _ _ ls] by fastforce
  from Cons.IH [of k1] Cons.prems obtain oss k2 where 2: "fill_chunks p ts m leg b r cs k1 = Inr (oss, k2)"
      "length oss = length cs"
      "covers p ts m leg k1 k2 (sum_list (map (lots_this_chunk b r) cs) * lg_LotSize leg) (concat oss)"
    by fastforce
  from covers_append [OF 1(2) 2(3)] 1(1) 2(1,2) show ?case by (simp add: algebra_simps)
qed (simp add: covers_Nil)

lemma lots_this_chunk_sum:
  assumes "0 \<le> n" "int64_ok n"
  shows "sum_list (map (lots_this_chunk (i64_div n 7) (i64_rem n 7)) [0..6]) = n"
    and "0 \<le> lots_this_chunk (i64_div n 7) (i64_rem n 7) c \<and> lots_this_chunk (i64_div n 7) (i64_rem n 7) c \<le> n \<or> 7 \<le> c \<or> c < 0"
proof -
  have d: "i64_div n 7 = n div 7" and r: "i64_rem n 7 = n mod 7"
    using assms by (simp_all add: i64_div_nonneg i64_rem_nonneg)
  have ok: "i64_add (n div 7) 1 = n div 7 + 1"
    using assms by (simp add: i64_add_def int64_ok_def)
  have l: "[0..6::int] = [0,1,2,3,4,5,6]" by (simp add: upto.simps)
  have m: "n mod 7 = 0 \<or> n mod 7 = 1 \<or> n mod 7 = 2 \<or> n mod 7 = 3 \<or> n mod 7 = 4 \<or> n mod 7 = 5 \<or> n mod 7 = 6"
    by presburger
  show "sum_list (map (lots_this_chunk (i64_div n 7) (i64_rem n 7)) [0..6]) = n"
    using m by (auto simp: lots_this_chunk_def d r ok l) presburger+
  show "0 \<le> lots_this_chunk (i64_div n 7) (i64_rem n 7) c \<and> lots_this_chunk (i64_div n 7) (i64_rem n 7) c \<le> n \<or> 7 \<le> c \<or> c < 0"
    using assms(1) by (auto simp: lots_this_chunk_def d r ok)
qed


definition leg_ok :: "LegData \<Rightarrow> bool" where
  "leg_ok leg \<longleftrightarrow> 0 < lg_Token leg \<and> 0 < lg_LotSize leg \<and> 0 \<le> lg_TotalLots leg \<and> int64_ok (lg_TotalLots leg) \<and>
     lg_TotalLots leg * lg_LotSize leg < 2 ^ 63"

lemma chunk_leg_covers:
  assumes "0 < m" and ok: "leg_ok leg"
  shows "\<exists>oss k'. chunk_leg p ts m leg k = Inr (oss, k') \<and> length oss = 7 \<and>
    covers p ts m leg k k' (lg_TotalLots leg * lg_LotSize leg) (concat oss)"
proof (cases "lg_TotalLots leg = 0")
  case True
  then show ?thesis using ok by (auto simp: chunk_leg_def leg_ok_def covers_Nil)
next
  case False
  define n where "n = lg_TotalLots leg"
  note sums = lots_this_chunk_sum [of n]
  have n: "0 < n" "int64_ok n" "n * lg_LotSize leg < 2 ^ 63" "0 < lg_LotSize leg"
    using False ok by (auto simp: n_def leg_ok_def)
  have chunks: "0 \<le> lots_this_chunk (i64_div n 7) (i64_rem n 7) c \<and>
      int64_ok (lots_this_chunk (i64_div n 7) (i64_rem n 7) c) \<and>
      lots_this_chunk (i64_div n 7) (i64_rem n 7) c * lg_LotSize leg < 2 ^ 63"
    if "c \<in> set [0..6]" for c
  proof -
    have c: "0 \<le> lots_this_chunk (i64_div n 7) (i64_rem n 7) c" "lots_this_chunk (i64_div n 7) (i64_rem n 7) c \<le> n"
      using sums(2) [of c] that n by auto
    have "lots_this_chunk (i64_div n 7) (i64_rem n 7) c * lg_LotSize leg \<le> n * lg_LotSize leg"
      using c n by (intro mult_right_mono) auto
    then show ?thesis using c n unfolding int64_ok_def by linarith
  qed
  have sum: "sum_list (map (lots_this_chunk (i64_div n 7) (i64_rem n 7)) [0..6]) = n" using sums(1) n by simp
  have len: "length [0..6::int] = 7" by simp
  have "chunk_leg p ts m leg k = fill_chunks p ts m leg (i64_div n 7) (i64_rem n 7) [0..6] k"
    using False ok by (simp add: chunk_leg_def leg_ok_def n_def chunkDivisor_def)
  then show ?thesis
    using fill_chunks_covers [OF assms(1) n(4) chunks, where cs = "[0..6]", of p ts k] unfolding sum len by (simp add: n_def)
qed

definition leg_covered :: "string \<Rightarrow> int \<Rightarrow> int \<Rightarrow> LegData \<Rightarrow> ExecOrder list list \<Rightarrow> bool" where
  "leg_covered p ts m leg lc \<longleftrightarrow> length lc = 7 \<and>
     (\<exists>k k'. covers p ts m leg k k' (lg_TotalLots leg * lg_LotSize leg) (concat lc))"

lemma chunk_legs_covers:
  assumes "0 < m" and "list_all leg_ok legs"
  shows "\<exists>lcs k'. chunk_legs p ts m legs k = Inr lcs \<and> k \<le> k' \<and>
    map eo_UID (concat (concat lcs)) = map (order_uid p ts) [k..<k'] \<and> list_all2 (leg_covered p ts m) legs lcs"
  using assms(2)
proof (induction legs arbitrary: k)
  case (Cons leg legs)
  from chunk_leg_covers [OF assms(1), of leg p ts k] Cons.prems
  obtain oss k1 where 1: "chunk_leg p ts m leg k = Inr (oss, k1)" "length oss = 7"
    "covers p ts m leg k k1 (lg_TotalLots leg * lg_LotSize leg) (concat oss)" by auto
  from Cons.IH [of k1] Cons.prems obtain lcs k2 where 2: "chunk_legs p ts m legs k1 = Inr lcs" "k1 \<le> k2"
      "map eo_UID (concat (concat lcs)) = map (order_uid p ts) [k1..<k2]" "list_all2 (leg_covered p ts m) legs lcs"
    by auto
  have "[k..<k2] = [k..<k1] @ [k1..<k2]"
    using 1(3) 2(2) upt_add_eq_append [of k k1 "k2 - k1"] by (simp add: covers_def)
  moreover have "leg_covered p ts m leg oss" using 1 by (auto simp: leg_covered_def)
  ultimately show ?case using 1 2
    by (intro exI [of _ "oss # lcs"] exI [of _ k2]) (simp add: covers_def)
qed auto

section \<open>Interleaving keeps the orders\<close>

lemma mset_concat_map_append:
  "mset (concat (map (\<lambda>i. f i @ g i) xs)) = mset (concat (map f xs)) + mset (concat (map g xs))"
  by (induction xs) simp_all

lemma concat_pick_prefix:
  "concat (map (\<lambda>i. if i < length col then [col ! i] else []) [0..<n]) = take n col"
  by (induction n) (auto simp: take_Suc_conv_app_nth)

lemma mset_interleave:
  "(\<And>col. col \<in> set cols \<Longrightarrow> length col \<le> n) \<Longrightarrow> mset (interleave n cols) = mset (concat cols)"
proof (induction cols)
  case (Cons col cols)
  then have "mset (interleave n cols) = mset (concat cols)" and "take n col = col" by auto
  then show ?case
    by (simp add: interleave_def mset_concat_map_append concat_pick_prefix)
qed (simp add: interleave_def)

lemma foldl_max_ge: "(m :: nat) \<le> foldl (\<lambda>m col. if m < length col then length col else m) m cols"
  by (induction cols arbitrary: m) (auto intro: order_trans less_imp_le)

lemma max_orders_ge: "col \<in> set cols \<Longrightarrow> length col \<le> max_orders cols"
proof -
  have "length col \<le> foldl (\<lambda>m col. if m < length col then length col else m) m cols" if "col \<in> set cols" for m
    using that
  proof (induction cols arbitrary: m)
    case (Cons c cols)
    then show ?case using foldl_max_ge [of "if m < length c then length c else m" cols] by fastforce
  qed simp
  then show "col \<in> set cols \<Longrightarrow> length col \<le> max_orders cols" by (simp add: max_orders_def)
qed

lemma mset_interleaved_chunk: "mset (interleaved_chunk lcs c) = mset (concat (map (\<lambda>lc. lc ! c) lcs))"
  unfolding interleaved_chunk_def Let_def by (rule mset_interleave) (rule max_orders_ge)

lemma concat_filter_not_Nil: "concat (filter (\<lambda>x. x \<noteq> []) xss) = concat xss"
  by (induction xss) auto

lemma mset_concat_map_cong: "(\<And>c. mset (f c) = mset (g c)) \<Longrightarrow> mset (concat (map f xs)) = mset (concat (map g xs))"
  by (induction xs) simp_all

lemma mset_all_chunks:
  "(\<And>lc. lc \<in> set lcs \<Longrightarrow> length lc = 7) \<Longrightarrow>
    mset (concat (filter (\<lambda>ch. ch \<noteq> []) (map (interleaved_chunk lcs) [0..<7]))) = mset (concat (concat lcs))"
proof -
  assume len: "\<And>lc. lc \<in> set lcs \<Longrightarrow> length lc = 7"
  have "mset (concat (map (\<lambda>c. concat (map (\<lambda>lc. lc ! c) lcs)) [0..<7])) = mset (concat (concat lcs))"
    using len
  proof (induction lcs)
    case (Cons lc lcs)
    have "map ((!) lc) [0..<7] = lc" using Cons.prems [of lc] by (metis list.set_intros(1) map_nth)
    then show ?case using Cons by (simp add: mset_concat_map_append)
  qed simp
  then show ?thesis
    using mset_concat_map_cong [where f = "interleaved_chunk lcs" and xs = "[0..<7]", OF mset_interleaved_chunk] by (simp add: concat_filter_not_Nil)
qed

section \<open>The whole call\<close>

lemma lots_per_order_bounds:
  assumes "0 < lotSize" "0 < maxq" "int64_ok maxq"
  shows "0 < lots_per_order lotSize base maxq per" and "lots_per_order lotSize base maxq per \<le> max 1 (maxq div lotSize)"
proof -
  have "i64_div maxq lotSize = maxq div lotSize" using assms by (simp add: i64_div_nonneg)
  then show "0 < lots_per_order lotSize base maxq per" and "lots_per_order lotSize base maxq per \<le> max 1 (maxq div lotSize)"
    by (auto simp: lots_per_order_def Let_def minInt_def maxInt_def)
qed

lemma GenerateChunkedOrders_covers:
  assumes "legs \<noteq> []" "list_all leg_ok legs" "0 < maxq" "int64_ok maxq"
    and m_def: "m = lots_per_order (lg_LotSize (hd legs)) base maxq per"
  shows "\<exists>chunks lcs n. GenerateChunkedOrders now p legs base maxq per = Inr chunks \<and>
    mset (concat chunks) = mset (concat (concat lcs)) \<and> list_all2 (leg_covered p (t_unix_micro now) m) legs lcs \<and>
    map eo_UID (concat (concat lcs)) = map (order_uid p (t_unix_micro now)) [0..<n]"
proof -
  have ls: "0 < lg_LotSize (hd legs)" using assms by (cases legs) (auto simp: leg_ok_def)
  then have "0 < m" using lots_per_order_bounds assms by simp
  from chunk_legs_covers [OF this assms(2), of p "t_unix_micro now" 0] obtain lcs n where
    l: "chunk_legs p (t_unix_micro now) m legs 0 = Inr lcs"
      "map eo_UID (concat (concat lcs)) = map (order_uid p (t_unix_micro now)) [0..<n]"
      "list_all2 (leg_covered p (t_unix_micro now) m) legs lcs" by auto
  have "length lc = 7" if "lc \<in> set lcs" for lc
    using l(3) that by (auto simp: list_all2_conv_all_nth in_set_conv_nth leg_covered_def)
  note chunks = mset_all_chunks [OF this]
  show ?thesis
    using assms(1,3) ls l chunks by (intro exI [of _ "filter (\<lambda>ch. ch \<noteq> []) (map (interleaved_chunk lcs) [0..<7])"] exI [of _ lcs] exI [of _ n])
      (auto simp: GenerateChunkedOrders_def m_def Let_def)
qed

lemma covered_order:
  assumes "list_all2 (leg_covered p ts m) legs lcs" "ord \<in> set (concat (concat lcs))"
  shows "\<exists>leg\<in>set legs. from_leg leg ord \<and> 0 < eo_Quantity ord \<and> eo_Quantity ord \<le> m * lg_LotSize leg"
  using assms
proof (induction legs lcs rule: list_all2_induct)
  case (Cons leg legs lc lcs)
  then show ?case by (fastforce simp: leg_covered_def covers_def)
qed simp

lemma covered_sum:
  assumes "list_all2 (leg_covered p ts m) legs lcs" "distinct (map lg_Token legs)" "leg \<in> set legs"
  shows "sum_list (map eo_Quantity (filter (\<lambda>ord. eo_Token ord = lg_Token leg) (concat (concat lcs)))) =
    lg_TotalLots leg * lg_LotSize leg"
  using assms
proof (induction legs lcs rule: list_all2_induct)
  case (Cons l legs lc lcs)
  obtain k k' where cov: "covers p ts m l k k' (lg_TotalLots l * lg_LotSize l) (concat lc)"
    using Cons(1) by (auto simp: leg_covered_def)
  then have tok: "eo_Token ord = lg_Token l" if "ord \<in> set (concat lc)" for ord
    using that by (auto simp: covers_def from_leg_def)
  have rest: "eo_Token ord \<in> lg_Token ` set legs" if "ord \<in> set (concat (concat lcs))" for ord
    using covered_order [OF Cons(2) that] by (auto simp: from_leg_def)
  show ?case
  proof (cases "leg = l")
    case True
    have "filter (\<lambda>ord. eo_Token ord = lg_Token leg) (concat (concat lcs)) = []"
      unfolding filter_empty_conv
    proof
      fix ord assume "ord \<in> set (concat (concat lcs))"
      then have "eo_Token ord \<in> lg_Token ` set legs" by (rule rest)
      with Cons.prems True show "eo_Token ord \<noteq> lg_Token leg" by auto
    qed
    moreover have "filter (\<lambda>ord. eo_Token ord = lg_Token leg) (concat lc) = concat lc"
      using tok True by (simp add: filter_id_conv)
    ultimately show ?thesis using cov True by (simp add: covers_def)
  next
    case False
    then have "leg \<in> set legs" "lg_Token leg \<noteq> lg_Token l" using Cons.prems by (auto simp: image_iff)
    then have "filter (\<lambda>ord. eo_Token ord = lg_Token leg) (concat lc) = []"
      using tok by (auto simp: filter_empty_conv)
    then show ?thesis using Cons(3) Cons.prems \<open>leg \<in> set legs\<close> by simp
  qed
qed simp

lemma order_uid_inject:
  assumes "int a < 2 ^ 64" "int b < 2 ^ 64"
  shows "order_uid p ts a = order_uid p ts b \<longleftrightarrow> a = b"
proof -
  have "a = b" if "i64_add ts (int a) = i64_add ts (int b)"
  proof -
    have "(ts + int a + 2 ^ 63) mod 2 ^ 64 = (ts + int b + 2 ^ 63) mod 2 ^ 64"
      using that by (simp add: i64_add_def wrap64_def)
    then have "(2 ^ 64 :: int) dvd int a - int b"
      by (metis (no_types, opaque_lifting) add_diff_cancel_left add_diff_cancel_right mod_eq_dvd_iff)
    then have "int a - int b \<noteq> 0 \<Longrightarrow> \<bar>2 ^ 64\<bar> \<le> \<bar>int a - int b\<bar>" by (rule dvd_imp_le_int [rotated])
    then show "a = b" using assms by linarith
  qed
  then show ?thesis by (auto simp: order_uid_def show_int_inject)
qed


section \<open>Properties\<close>

lemma chunk_legs_tokens: "chunk_legs p ts m legs k = Inr lcs \<Longrightarrow> leg \<in> set legs \<Longrightarrow> 0 < lg_Token leg"
  by (induction legs arbitrary: k lcs) (auto simp: chunk_leg_def split: sum.splits if_splits)

lemma generated_tokens:
  "GenerateChunkedOrders now p legs base maxq per = Inr chunks \<Longrightarrow> leg \<in> set legs \<Longrightarrow> 0 < lg_Token leg"
  by (auto simp: GenerateChunkedOrders_def Let_def split: if_splits sum.splits dest: chunk_legs_tokens)

lemma generated_quantities:
  assumes "legs \<noteq> []" and "list_all leg_ok legs" and "distinct (map lg_Token legs)"
    and "0 < maxOrderQty" and "int64_ok maxOrderQty"
  shows "\<exists>chunks. GenerateChunkedOrders now prefix legs baseLots maxOrderQty perCall = Inr chunks \<and>
    list_all (\<lambda>leg. sum_list (map eo_Quantity (filter (\<lambda>ord. eo_Token ord = lg_Token leg) (concat chunks))) =
       lg_TotalLots leg * lg_LotSize leg) legs"
proof -
  from GenerateChunkedOrders_covers [OF assms(1,2,4,5) refl, of now prefix baseLots perCall]
  obtain chunks lcs where g: "GenerateChunkedOrders now prefix legs baseLots maxOrderQty perCall = Inr chunks"
    and ms: "mset (concat chunks) = mset (concat (concat lcs))"
    and cov: "list_all2 (leg_covered prefix (t_unix_micro now) (lots_per_order (lg_LotSize (hd legs)) baseLots maxOrderQty perCall)) legs lcs"
    by blast
  have "sum_list (map eo_Quantity (filter (\<lambda>ord. eo_Token ord = lg_Token leg) (concat chunks))) =
      lg_TotalLots leg * lg_LotSize leg" if "leg \<in> set legs" for leg
  proof -
    have "mset (map eo_Quantity (filter (\<lambda>ord. eo_Token ord = lg_Token leg) (concat chunks))) =
        mset (map eo_Quantity (filter (\<lambda>ord. eo_Token ord = lg_Token leg) (concat (concat lcs))))"
      by (simp add: mset_filter ms)
    then show ?thesis using covered_sum [OF cov assms(3) that] by (metis sum_mset_sum_list)
  qed
  with g show ?thesis by (auto simp: list_all_iff)
qed

text \<open>
  C7. The chunker neither loses nor duplicates lots. For legs with positive tokens and lot sizes
  and quantities that fit in 64 bits, it succeeds, and the quantities of the orders generated for
  a leg's token add up to the leg's lots times its lot size.
\<close>

theorem chunks_cover_legs:
  assumes "legs \<noteq> []" and "list_all leg_ok legs" and "distinct (map lg_Token legs)"
    and "0 < maxOrderQty" and "int64_ok maxOrderQty"
  shows "\<exists>chunks. GenerateChunkedOrders now prefix legs baseLots maxOrderQty perCall = Inr chunks \<and>
    list_all (\<lambda>leg. sum_list (map eo_Quantity (filter (\<lambda>ord. eo_Token ord = lg_Token leg) (concat chunks))) =
       lg_TotalLots leg * lg_LotSize leg) legs"
  using assms by (rule generated_quantities)

lemma generated_orders:
  assumes "legs \<noteq> []" and "list_all leg_ok legs" and "list_all (\<lambda>leg. lg_LotSize leg = lotSize) legs"
    and "0 < maxOrderQty" and "int64_ok maxOrderQty"
    and "GenerateChunkedOrders now prefix legs baseLots maxOrderQty perCall = Inr chunks"
    and "ord \<in> set (concat chunks)"
  shows "0 < eo_Quantity ord \<and> eo_Quantity ord \<le> max lotSize maxOrderQty \<and> (\<exists>leg\<in>set legs. from_leg leg ord)"
proof -
  define m where "m = lots_per_order (lg_LotSize (hd legs)) baseLots maxOrderQty perCall"
  from GenerateChunkedOrders_covers [OF assms(1,2,4,5) m_def, of now prefix]
  obtain lcs where ms: "mset (concat chunks) = mset (concat (concat lcs))"
    and cov: "list_all2 (leg_covered prefix (t_unix_micro now) m) legs lcs"
    using assms(6) by auto
  have "ord \<in> set (concat (concat lcs))" using assms(7) mset_eq_setD [OF ms] by (simp only:)
  from covered_order [OF cov this] obtain leg where leg: "leg \<in> set legs" "from_leg leg ord"
    "0 < eo_Quantity ord" "eo_Quantity ord \<le> m * lg_LotSize leg" by blast
  have hd: "lg_LotSize (hd legs) = lotSize" and ls: "lg_LotSize leg = lotSize" "0 < lotSize"
    using assms(1,2,3) leg(1) by (cases legs; auto simp: list_all_iff leg_ok_def)+
  have "m * lotSize \<le> max 1 (maxOrderQty div lotSize) * lotSize"
    using lots_per_order_bounds(2) [of lotSize maxOrderQty baseLots perCall] assms(4,5) ls
    unfolding m_def hd by (intro mult_right_mono) auto
  also have "\<dots> \<le> max lotSize maxOrderQty"
  proof -
    have "maxOrderQty div lotSize * lotSize \<le> maxOrderQty"
      using ls by (simp flip: minus_mod_eq_div_mult)
    then show ?thesis by (cases "1 \<le> maxOrderQty div lotSize") auto
  qed
  finally show ?thesis using leg ls by auto
qed

text \<open>
  No order breaks the exchange's freeze quantity. Every generated order copies the token, side,
  symbol and price of one of the legs, has a positive quantity, and, when all legs share the lot
  size, a quantity of at most the maximum order quantity, or one lot where a lot is larger.
\<close>

theorem chunk_order_limits:
  assumes "legs \<noteq> []" and "list_all leg_ok legs" and "list_all (\<lambda>leg. lg_LotSize leg = lotSize) legs"
    and "0 < maxOrderQty" and "int64_ok maxOrderQty"
    and "GenerateChunkedOrders now prefix legs baseLots maxOrderQty perCall = Inr chunks"
    and "ord \<in> set (concat chunks)"
  shows "0 < eo_Quantity ord \<and> eo_Quantity ord \<le> max lotSize maxOrderQty \<and> (\<exists>leg\<in>set legs. from_leg leg ord)"
  using assms by (rule generated_orders)

lemma generated_uids_distinct:
  assumes "legs \<noteq> []" and "list_all leg_ok legs" and "0 < maxOrderQty" and "int64_ok maxOrderQty"
    and "GenerateChunkedOrders now prefix legs baseLots maxOrderQty perCall = Inr chunks"
    and "int (length (concat chunks)) \<le> 2 ^ 64"
  shows "distinct (map eo_UID (concat chunks))"
proof -
  from GenerateChunkedOrders_covers [OF assms(1,2,3,4) refl, of now prefix baseLots perCall]
  obtain lcs n where ms: "mset (concat chunks) = mset (concat (concat lcs))"
    and uids: "map eo_UID (concat (concat lcs)) = map (order_uid prefix (t_unix_micro now)) [0..<n]"
    using assms(5) by auto
  have "n = length (concat (concat lcs))" using arg_cong [OF uids, of length] by simp
  also have "\<dots> = length (concat chunks)" using arg_cong [OF ms, of size] by (metis size_mset)
  finally have n: "int n \<le> 2 ^ 64" using assms(6) by simp
  have "inj_on (order_uid prefix (t_unix_micro now)) (set [0..<n])"
    using n by (intro inj_onI) (subst (asm) order_uid_inject; simp)
  then have "distinct (map eo_UID (concat (concat lcs)))" unfolding uids by (simp add: distinct_map)
  moreover have "mset (map eo_UID (concat chunks)) = mset (map eo_UID (concat (concat lcs)))"
    using ms by (simp only: mset_map)
  ultimately show ?thesis using mset_eq_imp_distinct_iff by blast
qed

text \<open>
  No two orders of a call share an identifier, so each of them has its own row in the order
  table, where the identifier is the unique key.
\<close>

theorem chunk_uids_distinct:
  assumes "legs \<noteq> []" and "list_all leg_ok legs" and "0 < maxOrderQty" and "int64_ok maxOrderQty"
    and "GenerateChunkedOrders now prefix legs baseLots maxOrderQty perCall = Inr chunks"
    and "int (length (concat chunks)) \<le> 2 ^ 64"
  shows "distinct (map eo_UID (concat chunks))"
  using assms by (rule generated_uids_distinct)

text \<open>A call yields at most seven chunks and none of them is empty.\<close>

theorem chunk_count:
  assumes "GenerateChunkedOrders now prefix legs baseLots maxOrderQty perCall = Inr chunks"
  shows "length chunks \<le> 7 \<and> [] \<notin> set chunks"
proof -
  have "length (filter (\<lambda>ch. ch \<noteq> []) (map f [0..<7])) \<le> 7" for f :: "nat \<Rightarrow> ExecOrder list"
    by (rule order_trans [OF length_filter_le]) simp
  with assms show ?thesis by (auto simp: GenerateChunkedOrders_def Let_def split: if_splits sum.splits)
qed

section \<open>Witnesses\<close>

definition sample_time :: gotime where
  "sample_time = \<lparr>t_year = 2025, t_month = 1, t_day = 2, t_hour = 9, t_min = 30, t_sec = 15,
     t_unix_micro = 1735790415000000, t_zone = ''+05:30''\<rparr>"

definition sample_leg :: "int \<Rightarrow> string \<Rightarrow> int \<Rightarrow> LegData" where
  "sample_leg token opt lots = \<lparr>lg_Token = token, lg_Symbol = ''NIFTY'', lg_OptionType = opt,
     lg_Action = ''SELL'', lg_TotalLots = lots, lg_LotSize = 75, lg_ExpectedPrice = Fin 120,
     lg_ExchangeSegment = ''NSEFO''\<rparr>"

lemma leg_ok_sample [simp]:
  "leg_ok (sample_leg token opt lots) \<longleftrightarrow> 0 < token \<and> 0 \<le> lots \<and> lots * 75 < 2 ^ 63"
  by (auto simp: leg_ok_def sample_leg_def int64_ok_def)

lemma sample_legs_ok:
  "list_all leg_ok [sample_leg 101 ''CE'' 30, sample_leg 102 ''PE'' 2]"
  by simp

theorem chunks_cover_legs_witness:
  "\<exists>chunks. GenerateChunkedOrders sample_time ''BUI'' [sample_leg 101 ''CE'' 30, sample_leg 102 ''PE'' 2] 30 1800 0 = Inr chunks \<and>
    list_all (\<lambda>leg. sum_list (map eo_Quantity (filter (\<lambda>ord. eo_Token ord = lg_Token leg) (concat chunks))) =
       lg_TotalLots leg * lg_LotSize leg) [sample_leg 101 ''CE'' 30, sample_leg 102 ''PE'' 2]"
  by (rule chunks_cover_legs [OF _ sample_legs_ok]) (simp_all add: sample_leg_def int64_ok_def)

definition sample_orders :: "ExecOrder list" where
  "sample_orders = [chunk_order ''BUI'' 1735790415000000 (sample_leg 101 ''CE'' 2) 75 0,
     chunk_order ''BUI'' 1735790415000000 (sample_leg 102 ''PE'' 1) 75 2,
     chunk_order ''BUI'' 1735790415000000 (sample_leg 101 ''CE'' 2) 75 1]"

lemma sample_call:
  "GenerateChunkedOrders sample_time ''BUI'' [sample_leg 101 ''CE'' 2, sample_leg 102 ''PE'' 1] 1 1800 1 =
     Inr [take 2 sample_orders, drop 2 sample_orders]"
proof -
  have "[0..6::int] = [0, 1, 2, 3, 4, 5, 6]" by (simp add: upto.simps)
  moreover have "[0..<7] = [0, 1, 2, 3, 4, 5, 6]" by (simp add: upt_conv_Cons)
  ultimately show ?thesis
    by (simp add: GenerateChunkedOrders_def Let_def chunk_leg_def chunk_orders_def lots_this_chunk_def
        lots_per_order_def minInt_def maxInt_def chunkDivisor_def sample_leg_def sample_orders_def
        sample_time_def i64_div_nonneg i64_rem_nonneg i64_mul_def i64_add_def int64_ok_def
        interleaved_chunk_def interleave_def max_orders_def upt_conv_Cons numeral_2_eq_2)
qed

lemma sample_call_ok: "list_all leg_ok [sample_leg 101 ''CE'' 2, sample_leg 102 ''PE'' 1]"
  by simp

theorem chunk_order_limits_witness:
  "0 < eo_Quantity (hd sample_orders) \<and> eo_Quantity (hd sample_orders) \<le> max 75 1800 \<and>
    (\<exists>leg\<in>set [sample_leg 101 ''CE'' 2, sample_leg 102 ''PE'' 1]. from_leg leg (hd sample_orders))"
  by (rule chunk_order_limits [OF _ sample_call_ok _ _ _ sample_call])
    (simp_all add: sample_leg_def int64_ok_def sample_orders_def)

theorem chunk_uids_distinct_witness: "distinct (map eo_UID (concat [take 2 sample_orders, drop 2 sample_orders]))"
  by (rule chunk_uids_distinct [OF _ sample_call_ok _ _ sample_call]) (simp_all add: int64_ok_def sample_orders_def)

theorem chunk_count_witness:
  "length [take 2 sample_orders, drop 2 sample_orders] \<le> 7 \<and> [] \<notin> set [take 2 sample_orders, drop 2 sample_orders]"
  by (rule chunk_count [OF sample_call])

end
