(* ===== verification/Go_Json.thy ===== *)
theory Go_Json
  imports Trading_Models
begin

text \<open>
  JSON documents as \<^verbatim>\<open>encoding/json\<close> reads and writes them, and the encoding of an
  \<^verbatim>\<open>OrderIntent\<close> by its struct tags. A number is its exact value: Go prints a
  \<^verbatim>\<open>float64\<close> in the shortest decimal form that reads back to the same value, which the
  exact value stands for, and fails on NaN and infinities. Decoding into a struct goes field by
  field; a field that is absent or has another type is left at its zero value.

  Shown here: an intent that is encoded and decoded again is unchanged.
\<close>

section \<open>Documents\<close>

datatype json =
    JNull
  | JBool bool
  | JNum rat
  | JStr string
  | JArr "json list"
  | JObj "(string \<times> json) list"

text \<open>The last of several members with one name counts.\<close>

definition json_get :: "(string \<times> json) list \<Rightarrow> string \<Rightarrow> json option" where
  "json_get m k = map_of (rev m) k"

definition json_members :: "json \<Rightarrow> (string \<times> json) list" where
  "json_members j = (case j of JObj m \<Rightarrow> m | _ \<Rightarrow> [])"

definition dec_string :: "(string \<times> json) list \<Rightarrow> string \<Rightarrow> string" where
  "dec_string m k = (case json_get m k of Some (JStr s) \<Rightarrow> s | _ \<Rightarrow> '''')"

definition dec_bool :: "(string \<times> json) list \<Rightarrow> string \<Rightarrow> bool" where
  "dec_bool m k = (case json_get m k of Some (JBool b) \<Rightarrow> b | _ \<Rightarrow> False)"

definition rat_is_int :: "rat \<Rightarrow> bool" where
  "rat_is_int r \<longleftrightarrow> of_int \<lfloor>r\<rfloor> = r"

definition dec_int :: "(string \<times> json) list \<Rightarrow> string \<Rightarrow> int" where
  "dec_int m k = (case json_get m k of
      Some (JNum r) \<Rightarrow> if rat_is_int r \<and> int64_ok \<lfloor>r\<rfloor> then \<lfloor>r\<rfloor> else 0
    | _ \<Rightarrow> 0)"

text \<open>A number too large for \<^verbatim>\<open>float64\<close> is a decoding error.\<close>

definition num_f64 :: "rat \<Rightarrow> f64 option" where
  "num_f64 r = (case rnd r of Fin a \<Rightarrow> Some (Fin a) | _ \<Rightarrow> None)"

definition dec_float_opt :: "(string \<times> json) list \<Rightarrow> string \<Rightarrow> f64 option" where
  "dec_float_opt m k = (case json_get m k of Some (JNum r) \<Rightarrow> num_f64 r | _ \<Rightarrow> None)"

definition dec_float :: "(string \<times> json) list \<Rightarrow> string \<Rightarrow> f64" where
  "dec_float m k = (case dec_float_opt m k of Some x \<Rightarrow> x | None \<Rightarrow> Fin 0)"

fun enc_float :: "f64 \<Rightarrow> json option" where
  "enc_float (Fin a) = Some (JNum a)"
| "enc_float PInf = None"
| "enc_float NInf = None"
| "enc_float NaN = None"

section \<open>Order intents\<close>

definition intent_json :: "OrderIntent \<Rightarrow> json option" where
  "intent_json it =
     (case (case it_LimitPrice it of None \<Rightarrow> Some []
            | Some p \<Rightarrow> map_option (\<lambda>j. [(''limit_price'', j)]) (enc_float p)) of
        None \<Rightarrow> None
      | Some lp \<Rightarrow>
          (case enc_float (it_ExpectedPrice it) of
             None \<Rightarrow> None
           | Some ep \<Rightarrow> Some (JObj
               ([(''intent_id'', JStr (it_IntentID it)), (''trade_uid'', JStr (it_TradeUID it)),
                 (''token'', JNum (of_int (it_Token it))), (''symbol'', JStr (it_Symbol it))] @
                (if it_ExchangeSegment it = '''' then [] else [(''exchange_segment'', JStr (it_ExchangeSegment it))]) @
                [(''side'', JStr (it_Side it)), (''quantity'', JNum (of_int (it_Quantity it))),
                 (''order_type'', JStr (it_OrderType it))] @ lp @
                [(''product_type'', JStr (it_ProductType it)), (''leg_type'', JStr (it_LegType it)),
                 (''phase'', JStr (it_Phase it)), (''order_uid'', JStr (it_OrderUID it)),
                 (''broker_name'', JStr (it_BrokerName it)), (''account_id'', JStr (it_AccountID it)),
                 (''expected_price'', ep)]))))"

definition intent_of_json :: "json \<Rightarrow> OrderIntent" where
  "intent_of_json j = (let m = json_members j in
     \<lparr>it_IntentID = dec_string m ''intent_id'', it_TradeUID = dec_string m ''trade_uid'',
      it_Token = dec_int m ''token'', it_Symbol = dec_string m ''symbol'',
      it_ExchangeSegment = dec_string m ''exchange_segment'', it_Side = dec_string m ''side'',
      it_Quantity = dec_int m ''quantity'', it_OrderType = dec_string m ''order_type'',
      it_LimitPrice = dec_float_opt m ''limit_price'', it_ProductType = dec_string m ''product_type'',
      it_LegType = dec_string m ''leg_type'', it_Phase = dec_string m ''phase'',
      it_OrderUID = dec_string m ''order_uid'', it_BrokerName = dec_string m ''broker_name'',
      it_AccountID = dec_string m ''account_id'', it_ExpectedPrice = dec_float m ''expected_price''\<rparr>)"

text \<open>The values an intent's Go type allows: 64-bit integers and finite binary64 prices.\<close>

definition fin64 :: "f64 \<Rightarrow> bool" where
  "fin64 x \<longleftrightarrow> f64_ok x \<and> (\<exists>a. x = Fin a)"

definition intent_ok :: "OrderIntent \<Rightarrow> bool" where
  "intent_ok it \<longleftrightarrow> int64_ok (it_Token it) \<and> int64_ok (it_Quantity it) \<and> fin64 (it_ExpectedPrice it) \<and>
     (case it_LimitPrice it of None \<Rightarrow> True | Some p \<Rightarrow> fin64 p)"

section \<open>Lemmas\<close>

lemma num_f64_exact: "f64_ok (Fin a) \<Longrightarrow> num_f64 a = Some (Fin a)"
  by (simp add: num_f64_def f64_ok_def)

lemma rat_is_int_of_int [simp]: "rat_is_int (of_int n)"
  by (simp add: rat_is_int_def)

lemma intent_ok_json: "intent_ok it \<Longrightarrow> \<exists>j. intent_json it = Some j"
  by (auto simp: intent_ok_def fin64_def intent_json_def split: option.splits)

lemma intent_json_get:
  assumes "intent_json it = Some j"
  shows "\<exists>m. j = JObj m \<and> json_get m ''phase'' = Some (JStr (it_Phase it)) \<and>
    json_get m ''leg_type'' = Some (JStr (it_LegType it)) \<and> json_get m ''symbol'' = Some (JStr (it_Symbol it)) \<and>
    json_get m ''token'' = Some (JNum (of_int (it_Token it)))"
  using assms by (auto simp: intent_json_def json_get_def split: option.splits if_splits)

section \<open>Properties\<close>

text \<open>
  An order intent survives the database: for values that the Go types can hold and finite
  prices, encoding an intent as JSON succeeds, and decoding the document gives the intent back.
\<close>

theorem intent_json_roundtrip:
  assumes "intent_ok it"
  shows "\<exists>j. intent_json it = Some j \<and> intent_of_json j = it"
proof -
  obtain j where j: "intent_json it = Some j" using intent_ok_json [OF assms] by blast
  obtain e where e: "it_ExpectedPrice it = Fin e" "num_f64 e = Some (Fin e)"
    using assms by (auto simp: intent_ok_def fin64_def num_f64_exact)
  have i: "int64_ok (it_Token it)" "int64_ok (it_Quantity it)" using assms by (auto simp: intent_ok_def)
  note dec = json_members_def dec_string_def dec_int_def dec_float_def dec_float_opt_def json_get_def
  show ?thesis
  proof (cases "it_LimitPrice it")
    case None
    then have "intent_of_json j = it" using j e i
      by (cases it) (auto simp: intent_json_def intent_of_json_def Let_def dec)
    with j show ?thesis by blast
  next
    case (Some p)
    then obtain l where l: "p = Fin l" "num_f64 l = Some (Fin l)"
      using assms by (auto simp: intent_ok_def fin64_def num_f64_exact)
    with Some have "intent_of_json j = it" using j e i
      by (cases it) (auto simp: intent_json_def intent_of_json_def Let_def dec)
    with j show ?thesis by blast
  qed
qed

definition sample_intent :: OrderIntent where
  "sample_intent = zero_OrderIntent\<lparr>it_IntentID := ''BUI_1'', it_Token := 101, it_Quantity := 75,
     it_LimitPrice := Some (Fin 118), it_ExpectedPrice := Fin 120\<rparr>"

theorem intent_json_roundtrip_witness:
  "\<exists>j. intent_json sample_intent = Some j \<and> intent_of_json j = sample_intent"
proof (rule intent_json_roundtrip)
  have "fin64 (Fin 118)" "fin64 (Fin 120)"
    using f64_ok_Fin_int [of 118] f64_ok_Fin_int [of 120] by (simp_all add: fin64_def)
  then show "intent_ok sample_intent"
    by (simp add: intent_ok_def sample_intent_def zero_OrderIntent_def int64_ok_def)
qed

end
