(* ===== verification/Go_Time.thy ===== *)
theory Go_Time
  imports Go_Base
begin

text \<open>
  \<^verbatim>\<open>time.Parse\<close> for the layouts that the platform uses, and the formatting of a calendar
  day. A layout is the list of its elements; a word such as \<^verbatim>\<open>JAN\<close> is not an element of
  Go's layout language (only \<^verbatim>\<open>Jan\<close> is), so it is literal text. The platform only uses the
  calendar day of what it parses, so the time of day and the zone are checked and dropped.

  Shown here: a day that is printed as \<^verbatim>\<open>2006-01-02\<close> is parsed back.
\<close>

datatype caldate = CalDate (cd_year: nat) (cd_month: nat) (cd_day: nat)

datatype chunk =
    LongYear
  | Year2
  | ZeroMonth
  | MonthName
  | ZeroDay
  | Day
  | Hour
  | ZeroMinute
  | ZeroSecond
  | ColonTZ
  | Lit string

type_synonym layout = "chunk list"

record tparts =
  tp_year :: nat
  tp_month :: "nat option"
  tp_day :: "nat option"

definition getnum :: "bool \<Rightarrow> string \<Rightarrow> (nat \<times> string) option" where
  "getnum fixed s = (case s of
      [] \<Rightarrow> None
    | [a] \<Rightarrow> if is_digit a \<and> \<not> fixed then Some (digit_val a, []) else None
    | a # b # r \<Rightarrow>
        if \<not> is_digit a then None
        else if is_digit b then Some (10 * digit_val a + digit_val b, r)
        else if fixed then None else Some (digit_val a, b # r))"

definition short_months :: "string list" where
  "short_months = [''Jan'', ''Feb'', ''Mar'', ''Apr'', ''May'', ''Jun'', ''Jul'', ''Aug'', ''Sep'', ''Oct'', ''Nov'', ''Dec'']"

fun lookup_month :: "nat \<Rightarrow> string list \<Rightarrow> string \<Rightarrow> (nat \<times> string) option" where
  "lookup_month n [] s = None"
| "lookup_month n (m # ms) s =
     (if length m \<le> length s \<and> EqualFold (take (length m) s) m then Some (n, drop (length m) s) else lookup_month (Suc n) ms s)"

text \<open>A fraction after the seconds is accepted although the layouts have none.\<close>

definition skip_fraction :: "string \<Rightarrow> string" where
  "skip_fraction s = (case s of
      a # b # r \<Rightarrow> if (a = CHR ''.'' \<or> a = CHR '','') \<and> is_digit b then dropWhile is_digit r else s
    | _ \<Rightarrow> s)"

definition parse_zone :: "string \<Rightarrow> string option" where
  "parse_zone s = (case s of
      [] \<Rightarrow> None
    | z # r \<Rightarrow>
        if z = CHR ''Z'' then Some r
        else if length s < 6 \<or> s ! 3 \<noteq> CHR '':'' \<or> (z \<noteq> CHR ''+'' \<and> z \<noteq> CHR ''-'') then None
        else (case (getnum True (take 2 r), getnum True (take 2 (drop 4 s))) of
            (Some (h, _), Some (m, _)) \<Rightarrow> if h \<le> 24 \<and> m \<le> 60 then Some (drop 6 s) else None
          | _ \<Rightarrow> None))"

definition bounded :: "nat \<Rightarrow> (nat \<times> string) option \<Rightarrow> string option" where
  "bounded n r = (case r of Some (v, s) \<Rightarrow> if v < n then Some s else None | None \<Rightarrow> None)"

fun parse_chunk :: "chunk \<Rightarrow> tparts \<Rightarrow> string \<Rightarrow> (tparts \<times> string) option" where
  "parse_chunk LongYear p s =
     (if length s < 4 \<or> \<not> list_all is_digit (take 4 s) then None else Some (p\<lparr>tp_year := read_digits (take 4 s)\<rparr>, drop 4 s))"
| "parse_chunk Year2 p s =
     (if length s < 2 \<or> \<not> list_all is_digit (take 2 s) then None
      else let y = read_digits (take 2 s) in Some (p\<lparr>tp_year := (if 69 \<le> y then 1900 + y else 2000 + y)\<rparr>, drop 2 s))"
| "parse_chunk ZeroMonth p s = (case getnum True s of
      Some (m, r) \<Rightarrow> if m = 0 \<or> 12 < m then None else Some (p\<lparr>tp_month := Some m\<rparr>, r) | None \<Rightarrow> None)"
| "parse_chunk MonthName p s = (case lookup_month 1 short_months s of
      Some (m, r) \<Rightarrow> Some (p\<lparr>tp_month := Some m\<rparr>, r) | None \<Rightarrow> None)"
| "parse_chunk ZeroDay p s = (case getnum True s of Some (d, r) \<Rightarrow> Some (p\<lparr>tp_day := Some d\<rparr>, r) | None \<Rightarrow> None)"
| "parse_chunk Day p s = (case getnum False s of Some (d, r) \<Rightarrow> Some (p\<lparr>tp_day := Some d\<rparr>, r) | None \<Rightarrow> None)"
| "parse_chunk Hour p s = map_option (\<lambda>r. (p, r)) (bounded 24 (getnum False s))"
| "parse_chunk ZeroMinute p s = map_option (\<lambda>r. (p, r)) (bounded 60 (getnum True s))"
| "parse_chunk ZeroSecond p s = map_option (\<lambda>r. (p, skip_fraction r)) (bounded 60 (getnum True s))"
| "parse_chunk ColonTZ p s = map_option (\<lambda>r. (p, r)) (parse_zone s)"
| "parse_chunk (Lit t) p s = (if HasPrefix s t then Some (p, drop (length t) s) else None)"

definition leap :: "nat \<Rightarrow> bool" where
  "leap y \<longleftrightarrow> y mod 4 = 0 \<and> (y mod 100 \<noteq> 0 \<or> y mod 400 = 0)"

definition days_in :: "nat \<Rightarrow> nat \<Rightarrow> nat" where
  "days_in m y = (if m = 2 then (if leap y then 29 else 28) else if m \<in> {4, 6, 9, 11} then 30 else 31)"

fun parse_layout :: "layout \<Rightarrow> tparts \<Rightarrow> string \<Rightarrow> tparts option" where
  "parse_layout [] p s = (if s = [] then Some p else None)"
| "parse_layout (c # cs) p s = (case parse_chunk c p s of None \<Rightarrow> None | Some (p', r) \<Rightarrow> parse_layout cs p' r)"

definition date_of :: "tparts \<Rightarrow> caldate option" where
  "date_of p =
     (let m = (case tp_month p of Some m \<Rightarrow> m | None \<Rightarrow> 1); d = (case tp_day p of Some d \<Rightarrow> d | None \<Rightarrow> 1) in
      if d < 1 \<or> days_in m (tp_year p) < d then None else Some (CalDate (tp_year p) m d))"

definition time_Parse :: "layout \<Rightarrow> string \<Rightarrow> caldate option" where
  "time_Parse l s = (case parse_layout l \<lparr>tp_year = 0, tp_month = None, tp_day = None\<rparr> s of None \<Rightarrow> None | Some p \<Rightarrow> date_of p)"

definition L_date :: layout where
  "L_date = [LongYear, Lit ''-'', ZeroMonth, Lit ''-'', ZeroDay]"

definition L_datetime :: layout where
  "L_datetime = L_date @ [Lit ''T'', Hour, Lit '':'', ZeroMinute, Lit '':'', ZeroSecond]"

definition L_RFC3339 :: layout where
  "L_RFC3339 = L_datetime @ [ColonTZ]"

definition fmt_date :: "caldate \<Rightarrow> string" where
  "fmt_date t = pad4 (cd_year t) @ ''-'' @ pad2 (cd_month t) @ ''-'' @ pad2 (cd_day t)"

definition date_ok :: "caldate \<Rightarrow> bool" where
  "date_ok t \<longleftrightarrow> cd_year t < 10000 \<and> 1 \<le> cd_month t \<and> cd_month t \<le> 12 \<and> 1 \<le> cd_day t \<and> cd_day t \<le> days_in (cd_month t) (cd_year t)"

section \<open>The order of days\<close>

instantiation caldate :: linorder
begin

definition less_eq_caldate :: "caldate \<Rightarrow> caldate \<Rightarrow> bool" where
  "less_eq_caldate a b \<longleftrightarrow> cd_year a < cd_year b \<or>
     (cd_year a = cd_year b \<and> (cd_month a < cd_month b \<or> (cd_month a = cd_month b \<and> cd_day a \<le> cd_day b)))"

definition less_caldate :: "caldate \<Rightarrow> caldate \<Rightarrow> bool" where
  "less_caldate a b \<longleftrightarrow> a \<le> b \<and> a \<noteq> b"

instance
proof
  fix x y z :: caldate
  show "(x < y) = (x \<le> y \<and> \<not> y \<le> x)" by (cases x; cases y) (auto simp: less_eq_caldate_def less_caldate_def)
  show "x \<le> x" by (simp add: less_eq_caldate_def)
  show "x \<le> y \<Longrightarrow> y \<le> z \<Longrightarrow> x \<le> z" by (auto simp: less_eq_caldate_def)
  show "x \<le> y \<Longrightarrow> y \<le> x \<Longrightarrow> x = y" by (cases x; cases y) (auto simp: less_eq_caldate_def)
  show "x \<le> y \<or> y \<le> x" by (auto simp: less_eq_caldate_def)
qed

end

section \<open>Lemmas\<close>

lemma pad2_digits: "n < 100 \<Longrightarrow> pad2 n = [digit_char (n div 10), digit_char (n mod 10)]"
proof -
  assume "n < 100"
  moreover have "digit_char 0 = CHR ''0''" by code_simp
  ultimately show ?thesis by (auto simp: pad2_def show_nat.simps [of n] show_nat.simps [of "n div 10"])
qed

lemma getnum_pad2 [simp]: "n < 100 \<Longrightarrow> getnum fixed (pad2 n @ r) = Some (n, r)"
  by (simp add: pad2_digits getnum_def)

lemma read_digits_zeros: "read_digits (replicate k (CHR ''0'') @ s) = read_digits s"
  by (induction k) (simp_all add: read_digits_def digit_val_def)

lemma length_show_nat_le: "n < 10 ^ Suc k \<Longrightarrow> length (show_nat n) \<le> Suc k"
proof (induction k arbitrary: n)
  case (Suc k)
  show ?case
  proof (cases "n < 10")
    case False
    have "n div 10 < 10 ^ Suc k" using Suc.prems by (simp add: less_mult_imp_div_less)
    then show ?thesis using Suc.IH False by (simp add: show_nat.simps [of n])
  qed (simp add: show_nat.simps [of n])
qed (simp add: show_nat.simps)

lemma pad4_facts:
  assumes "n < 10000"
  shows "length (pad4 n) = 4" "list_all is_digit (pad4 n)" "read_digits (pad4 n) = n"
proof -
  have "length (show_nat n) \<le> 4" using length_show_nat_le [of n 3] assms by simp
  then show "length (pad4 n) = 4" by (simp add: pad4_def)
  have "is_digit (CHR ''0'')" by (simp add: is_digit_def)
  then show "list_all is_digit (pad4 n)" using show_nat_digits [of n] by (auto simp: pad4_def list_all_iff)
  show "read_digits (pad4 n) = n" by (simp add: pad4_def read_digits_zeros)
qed

lemma days_in_le: "days_in m y \<le> 31"
  by (simp add: days_in_def)

lemma HasPrefix_Lit [simp]: "HasPrefix (t @ s) t"
  by (simp add: HasPrefix_def)

lemma HasPrefix_Cons [simp]: "HasPrefix (c # s) [c]"
  by (simp add: HasPrefix_def)

lemma time_Parse_fmt_date: "date_ok t \<Longrightarrow> time_Parse L_date (fmt_date t) = Some t"
proof -
  assume ok: "date_ok t"
  then have y: "cd_year t < 10000" and m: "cd_month t < 100" "cd_month t \<noteq> 0" "cd_month t \<le> 12" and d: "cd_day t < 100"
    using days_in_le [of "cd_month t" "cd_year t"] by (auto simp: date_ok_def)
  have "getnum True (pad2 (cd_day t)) = Some (cd_day t, [])" using getnum_pad2 [OF d, of True "[]"] by simp
  then show ?thesis using ok y m d pad4_facts [OF y]
    by (simp add: time_Parse_def L_date_def fmt_date_def date_of_def date_ok_def)
qed

end
