(* ===== verification/Trade_Json.thy ===== *)
theory Trade_Json
  imports Go_Json Go_Time
begin

text \<open>
  A trade as the document of the \<^verbatim>\<open>config\<close> column: \<^verbatim>\<open>json.Marshal\<close> and \<^verbatim>\<open>json.Unmarshal\<close> on
  \<^verbatim>\<open>StoredTrade\<close> and \<^verbatim>\<open>MonitorConfig\<close> by their struct tags (\<^verbatim>\<open>models.go\<close>), with the text form of
  \<^verbatim>\<open>time.Time\<close>, which is \<^verbatim>\<open>RFC3339Nano\<close>. The clock is read to the microsecond. Encoding fails on a
  price that is not finite and on a year above 9999. Decoding goes through the members in the order
  of the document and matches names without regard to case; a member of the wrong type is skipped, and one
  that is not a time where a time is expected ends the decoding, so that what follows is left at zero. Strings
  are UTF-8, which \<^verbatim>\<open>json.Marshal\<close> copies; the platform's strings come out of decoded requests and are.

  Shown here: a time, a configuration and a trade that are encoded are decoded to what they were.
\<close>

section \<open>Times\<close>

definition pad6 :: "nat \<Rightarrow> string" where
  "pad6 n = replicate (6 - length (show_nat n)) (CHR ''0'') @ show_nat n"

definition trim_zeros :: "string \<Rightarrow> string" where
  "trim_zeros s = rev (dropWhile (\<lambda>c. c = CHR ''0'') (rev s))"

definition sub_second :: "gotime \<Rightarrow> nat" where
  "sub_second t = nat (t_unix_micro t mod 1000000)"

text \<open>The layout \<^verbatim>\<open>2006-01-02T15:04:05.999999999Z07:00\<close>: a fraction of zero is left out, and so are trailing zeros.\<close>

definition fmt_fraction :: "nat \<Rightarrow> string" where
  "fmt_fraction n = (if n = 0 then [] else CHR ''.'' # trim_zeros (pad6 n))"

definition fmt_rfc3339nano :: "gotime \<Rightarrow> string" where
  "fmt_rfc3339nano t = pad4 (t_year t) @ ''-'' @ pad2 (t_month t) @ ''-'' @ pad2 (t_day t) @ ''T'' @
     pad2 (t_hour t) @ '':'' @ pad2 (t_min t) @ '':'' @ pad2 (t_sec t) @ fmt_fraction (sub_second t) @ t_zone t"

definition time_json :: "gotime \<Rightarrow> json option" where
  "time_json t = (if t_year t < 10000 then Some (JStr (fmt_rfc3339nano t)) else None)"

text \<open>The offset of a zone in seconds.\<close>

definition zone_seconds :: "string \<Rightarrow> int option" where
  "zone_seconds z =
     (if z = ''Z'' then Some 0
      else if length z \<noteq> 6 \<or> (z ! 0 \<noteq> CHR ''+'' \<and> z ! 0 \<noteq> CHR ''-'') \<or> z ! 3 \<noteq> CHR '':'' \<or>
        \<not> list_all is_digit [z ! 1, z ! 2, z ! 4, z ! 5] then None
      else let h = read_digits [z ! 1, z ! 2]; m = read_digits [z ! 4, z ! 5]; s = int (3600 * h + 60 * m) in
        if 24 \<le> h \<or> 60 \<le> m then None else Some (if z ! 0 = CHR ''-'' then - s else s))"

text \<open>Days since the first of January 1970, from the civil date.\<close>

definition civil_days :: "nat \<Rightarrow> nat \<Rightarrow> nat \<Rightarrow> int" where
  "civil_days y m d = (let p = int y - 1 in
     365 * p + p div 4 - p div 100 + p div 400 + int (sum_list (map (\<lambda>i. days_in i y) [1..<m])) + int d - 719163)"

definition civil_seconds :: "nat \<Rightarrow> nat \<Rightarrow> nat \<Rightarrow> nat \<Rightarrow> nat \<Rightarrow> nat \<Rightarrow> int" where
  "civil_seconds y m d h mi s = 86400 * civil_days y m d + int (3600 * h + 60 * mi + s)"

definition num_at :: "nat \<Rightarrow> nat \<Rightarrow> string \<Rightarrow> nat" where
  "num_at i n s = read_digits (take n (drop i s))"

definition digits_at :: "nat \<Rightarrow> nat \<Rightarrow> string \<Rightarrow> bool" where
  "digits_at i n s \<longleftrightarrow> list_all is_digit (take n (drop i s))"

definition rfc3339_shape :: "string \<Rightarrow> bool" where
  "rfc3339_shape s \<longleftrightarrow> 20 \<le> length s \<and> digits_at 0 4 s \<and> s ! 4 = CHR ''-'' \<and> digits_at 5 2 s \<and> s ! 7 = CHR ''-'' \<and> digits_at 8 2 s \<and>
     s ! 10 = CHR ''T'' \<and> digits_at 11 2 s \<and> s ! 13 = CHR '':'' \<and> digits_at 14 2 s \<and> s ! 16 = CHR '':'' \<and> digits_at 17 2 s"

definition read_fraction :: "string \<Rightarrow> nat" where
  "read_fraction ds = read_digits (take 6 (ds @ ''000000''))"

text \<open>What follows the seconds: a fraction, if there is a point and a digit, and the zone.\<close>

definition split_fraction :: "string \<Rightarrow> nat \<times> string" where
  "split_fraction s = (case s of
      p # c # r \<Rightarrow> if p = CHR ''.'' \<and> is_digit c then (read_fraction (takeWhile is_digit (c # r)), dropWhile is_digit (c # r)) else (0, s)
    | _ \<Rightarrow> (0, s))"

definition time_of_string :: "string \<Rightarrow> gotime option" where
  "time_of_string s =
     (let y = num_at 0 4 s; mo = num_at 5 2 s; d = num_at 8 2 s; h = num_at 11 2 s; mi = num_at 14 2 s; sec = num_at 17 2 s;
          (frac, z) = split_fraction (drop 19 s) in
      if \<not> rfc3339_shape s \<or> mo < 1 \<or> 12 < mo \<or> d < 1 \<or> days_in mo y < d \<or> 24 \<le> h \<or> 60 \<le> mi \<or> 60 \<le> sec then None
      else (case zone_seconds z of
          None \<Rightarrow> None
        | Some off \<Rightarrow> Some \<lparr>t_year = y, t_month = mo, t_day = d, t_hour = h, t_min = mi, t_sec = sec,
            t_unix_micro = 1000000 * (civil_seconds y mo d h mi sec - off) + int frac,
            t_zone = (if off = 0 then ''Z'' else z)\<rparr>))"

text \<open>A null leaves the time as it is, at zero.\<close>

definition time_of_json :: "json \<Rightarrow> gotime option" where
  "time_of_json j = (case j of JStr s \<Rightarrow> time_of_string s | JNull \<Rightarrow> Some zero_time | _ \<Rightarrow> None)"

text \<open>A clock reading: its fields are those of its instant in its zone.\<close>

definition time_ok :: "gotime \<Rightarrow> bool" where
  "time_ok t \<longleftrightarrow> t_year t < 10000 \<and> 1 \<le> t_month t \<and> t_month t \<le> 12 \<and> 1 \<le> t_day t \<and> t_day t \<le> days_in (t_month t) (t_year t) \<and>
     t_hour t < 24 \<and> t_min t < 60 \<and> t_sec t < 60 \<and>
     (case zone_seconds (t_zone t) of
        None \<Rightarrow> False
      | Some off \<Rightarrow> (off = 0 \<longrightarrow> t_zone t = ''Z'') \<and>
          t_unix_micro t div 1000000 = civil_seconds (t_year t) (t_month t) (t_day t) (t_hour t) (t_min t) (t_sec t) - off)"

section \<open>Trades\<close>

text \<open>An object, if every member can be encoded.\<close>

definition json_obj :: "(string \<times> json option) list \<Rightarrow> json option" where
  "json_obj ms = map_option JObj (those (map (\<lambda>(k, v). map_option (Pair k) v) ms))"

definition config_json :: "MonitorConfig \<Rightarrow> json option" where
  "config_json c = json_obj
     [(''buy_buffer'', enc_float (mc_BuyBuffer c)), (''sell_buffer'', enc_float (mc_SellBuffer c)),
      (''sl_points_per_lot'', enc_float (mc_SLPointsPerLot c)), (''hedge_threshold_delta'', enc_float (mc_HedgeThresholdDelta c)),
      (''straddle_stop_price'', enc_float (mc_StraddleStopPrice c)),
      (''order_lots_per_call'', Some (JNum (of_int (mc_OrderLotsPerCall c)))),
      (''poll_interval_sec'', Some (JNum (of_int (mc_PollIntervalSec c))))]"

definition trade_json :: "StoredTrade \<Rightarrow> json option" where
  "trade_json tr = json_obj
     ([(''trade_uid'', Some (JStr (tr_TradeUID tr))), (''user_id'', Some (JStr (tr_UserID tr))),
       (''broker_name'', Some (JStr (tr_BrokerName tr))), (''account_id'', Some (JStr (tr_AccountID tr))),
       (''symbol'', Some (JStr (tr_Symbol tr))), (''expiry'', Some (JStr (tr_Expiry tr))),
       (''strike'', enc_float (tr_Strike tr)), (''product_type'', Some (JStr (tr_ProductType tr)))] @
      (if tr_ExchangeSegment tr = '''' then [] else [(''exchange_segment'', Some (JStr (tr_ExchangeSegment tr)))]) @
      [(''ce_token'', Some (JNum (of_int (tr_CEToken tr)))), (''pe_token'', Some (JNum (of_int (tr_PEToken tr)))),
       (''ce_quantity'', Some (JNum (of_int (tr_CEQty tr)))), (''pe_quantity'', Some (JNum (of_int (tr_PEQty tr)))),
       (''ce_entry_price'', enc_float (tr_CELtp tr)), (''pe_entry_price'', enc_float (tr_PELtp tr)),
       (''net_delta'', enc_float (tr_NetDelta tr)), (''status'', Some (JStr (tr_Status tr)))] @
      (if tr_Mode tr = '''' then [] else [(''mode'', Some (JStr (tr_Mode tr)))]) @
      (if tr_Underlying tr = Fin 0 then [] else [(''underlying'', enc_float (tr_Underlying tr))]) @
      [(''lot_size'', Some (JNum (of_int (tr_LotSize tr)))), (''lots'', Some (JNum (of_int (tr_Lots tr)))),
       (''created_at'', time_json (tr_CreatedAt tr)), (''last_update_time'', time_json (tr_LastUpdateTime tr)),
       (''config'', config_json (tr_Config tr))])"

definition config_of_json :: "(string \<times> json) list \<Rightarrow> MonitorConfig" where
  "config_of_json m =
     \<lparr>mc_BuyBuffer = dec_float m ''buy_buffer'', mc_SellBuffer = dec_float m ''sell_buffer'',
      mc_SLPointsPerLot = dec_float m ''sl_points_per_lot'', mc_HedgeThresholdDelta = dec_float m ''hedge_threshold_delta'',
      mc_StraddleStopPrice = dec_float m ''straddle_stop_price'', mc_OrderLotsPerCall = dec_int m ''order_lots_per_call'',
      mc_PollIntervalSec = dec_int m ''poll_interval_sec''\<rparr>"

definition dec_time :: "(string \<times> json) list \<Rightarrow> string \<Rightarrow> gotime" where
  "dec_time m k = (case Option.bind (json_get m k) time_of_json of Some t \<Rightarrow> t | None \<Rightarrow> zero_time)"

definition lower_keys :: "(string \<times> json) list \<Rightarrow> (string \<times> json) list" where
  "lower_keys m = map (\<lambda>(k, v). (ToLower k, v)) m"

definition dec_members :: "(string \<times> json) list \<Rightarrow> string \<Rightarrow> (string \<times> json) list" where
  "dec_members m k = (case json_get m k of Some j \<Rightarrow> lower_keys (json_members j) | None \<Rightarrow> [])"

text \<open>The members that are read: those before a member for a time that is none.\<close>

definition read_members :: "(string \<times> json) list \<Rightarrow> (string \<times> json) list" where
  "read_members m = takeWhile (\<lambda>(k, v). k \<in> {''created_at'', ''last_update_time''} \<longrightarrow> time_of_json v \<noteq> None) (lower_keys m)"

definition trade_of_json :: "json \<Rightarrow> StoredTrade" where
  "trade_of_json j = (let m = read_members (json_members j) in
     \<lparr>tr_TradeUID = dec_string m ''trade_uid'', tr_UserID = dec_string m ''user_id'', tr_BrokerName = dec_string m ''broker_name'',
      tr_AccountID = dec_string m ''account_id'', tr_Symbol = dec_string m ''symbol'', tr_Expiry = dec_string m ''expiry'',
      tr_Strike = dec_float m ''strike'', tr_ProductType = dec_string m ''product_type'',
      tr_ExchangeSegment = dec_string m ''exchange_segment'', tr_CEToken = dec_int m ''ce_token'', tr_PEToken = dec_int m ''pe_token'',
      tr_CEQty = dec_int m ''ce_quantity'', tr_PEQty = dec_int m ''pe_quantity'', tr_CELtp = dec_float m ''ce_entry_price'',
      tr_PELtp = dec_float m ''pe_entry_price'', tr_NetDelta = dec_float m ''net_delta'', tr_Status = dec_string m ''status'',
      tr_Mode = dec_string m ''mode'', tr_Underlying = dec_float m ''underlying'', tr_LotSize = dec_int m ''lot_size'',
      tr_Lots = dec_int m ''lots'', tr_CreatedAt = dec_time m ''created_at'', tr_LastUpdateTime = dec_time m ''last_update_time'',
      tr_Config = config_of_json (dec_members m ''config'')\<rparr>)"

text \<open>The values that the Go types hold and that JSON can carry.\<close>

definition config_ok :: "MonitorConfig \<Rightarrow> bool" where
  "config_ok c \<longleftrightarrow> list_all fin64 [mc_BuyBuffer c, mc_SellBuffer c, mc_SLPointsPerLot c, mc_HedgeThresholdDelta c, mc_StraddleStopPrice c] \<and>
     int64_ok (mc_OrderLotsPerCall c) \<and> int64_ok (mc_PollIntervalSec c)"

definition trade_ok :: "StoredTrade \<Rightarrow> bool" where
  "trade_ok tr \<longleftrightarrow> list_all fin64 [tr_Strike tr, tr_CELtp tr, tr_PELtp tr, tr_NetDelta tr, tr_Underlying tr] \<and>
     list_all int64_ok [tr_CEToken tr, tr_PEToken tr, tr_CEQty tr, tr_PEQty tr, tr_LotSize tr, tr_Lots tr] \<and>
     time_ok (tr_CreatedAt tr) \<and> time_ok (tr_LastUpdateTime tr) \<and> config_ok (tr_Config tr)"

section \<open>Decoding what was encoded\<close>

lemma pad2_read:
  assumes "n < 100"
  shows "length (pad2 n) = 2" "list_all is_digit (pad2 n)" "read_digits (pad2 n) = n"
  using assms by (simp_all add: pad2_digits read_digits_def)

lemma pad6_facts:
  assumes "n < 1000000"
  shows "length (pad6 n) = 6" "list_all is_digit (pad6 n)" "read_digits (pad6 n) = n"
proof -
  have "length (show_nat n) \<le> 6" using length_show_nat_le [of n 5] assms by simp
  then show "length (pad6 n) = 6" by (simp add: pad6_def)
  have "is_digit (CHR ''0'')" by (simp add: is_digit_def)
  then show "list_all is_digit (pad6 n)" using show_nat_digits [of n] by (auto simp: pad6_def list_all_iff)
  show "read_digits (pad6 n) = n" by (simp add: pad6_def read_digits_zeros)
qed

lemma takeWhile_replicate: "takeWhile (\<lambda>c. c = x) s = replicate (length (takeWhile (\<lambda>c. c = x) s)) x"
  by (induction s) auto

lemma trim_zeros_append: "\<exists>k. s = trim_zeros s @ replicate k (CHR ''0'')"
proof -
  let ?P = "\<lambda>c. c = CHR ''0''"
  have "rev (rev s) = rev (takeWhile ?P (rev s) @ dropWhile ?P (rev s))" by (subst takeWhile_dropWhile_id) (rule refl)
  then have "s = trim_zeros s @ rev (takeWhile ?P (rev s))" unfolding rev_append rev_rev_ident trim_zeros_def .
  moreover have "rev (takeWhile ?P (rev s)) = replicate (length (takeWhile ?P (rev s))) (CHR ''0'')"
    by (subst takeWhile_replicate) simp
  ultimately show ?thesis by metis
qed

lemma read_fraction_trim: "length s = 6 \<Longrightarrow> read_fraction (trim_zeros s) = read_digits s"
proof -
  assume l: "length s = 6"
  obtain k where k: "s = trim_zeros s @ replicate k (CHR ''0'')" using trim_zeros_append by blast
  have "length s = length (trim_zeros s) + k" using arg_cong [OF k, of length] by simp
  then have "k = 6 - length (trim_zeros s)" using l by simp
  moreover have "take n (''000000'') = replicate n (CHR ''0'')" if "n \<le> 6" for n
  proof -
    have "''000000'' = replicate 6 (CHR ''0'')" by (simp add: numeral_eq_Suc)
    then show ?thesis using that by simp
  qed
  ultimately have "take 6 (trim_zeros s @ ''000000'') = trim_zeros s @ replicate k (CHR ''0'')"
    using l \<open>length s = length (trim_zeros s) + k\<close> by simp
  then show ?thesis unfolding read_fraction_def using k by simp
qed

lemma trim_zeros_digits:
  assumes "n \<noteq> 0" "n < 1000000"
  shows "trim_zeros (pad6 n) \<noteq> []" "list_all is_digit (trim_zeros (pad6 n))"
proof -
  obtain k where k: "pad6 n = trim_zeros (pad6 n) @ replicate k (CHR ''0'')" using trim_zeros_append by blast
  show "list_all is_digit (trim_zeros (pad6 n))" using pad6_facts(2) [OF assms(2)] k by (metis list_all_append)
  show "trim_zeros (pad6 n) \<noteq> []"
  proof
    assume "trim_zeros (pad6 n) = []"
    then have "read_digits (pad6 n) = read_digits []" using k read_digits_zeros [of k "[]"] by simp
    then show False using pad6_facts(3) [OF assms(2)] assms(1) by (simp add: read_digits_def)
  qed
qed

lemma zone_hd: "zone_seconds z = Some off \<Longrightarrow> \<exists>c r. z = c # r \<and> \<not> is_digit c \<and> c \<noteq> CHR ''.''"
proof -
  assume "zone_seconds z = Some off"
  moreover have "\<not> is_digit (CHR ''Z'')" "\<not> is_digit (CHR ''+'')" "\<not> is_digit (CHR ''-'')" by (simp_all add: is_digit_def)
  ultimately show ?thesis by (cases z) (auto simp: zone_seconds_def split: if_splits)
qed

lemma split_fmt_fraction:
  assumes "n < 1000000" "zone_seconds z = Some off"
  shows "split_fraction (fmt_fraction n @ z) = (n, z)"
proof -
  obtain c r where z: "z = c # r" "\<not> is_digit c" "c \<noteq> CHR ''.''" using zone_hd [OF assms(2)] by blast
  show ?thesis
  proof (cases "n = 0")
    case True
    then show ?thesis using z by (cases r) (simp_all add: fmt_fraction_def split_fraction_def)
  next
    case False
    note d = trim_zeros_digits [OF False assms(1)]
    then obtain a b where ab: "trim_zeros (pad6 n) = a # b" "is_digit a" "list_all is_digit b" by (cases "trim_zeros (pad6 n)") auto
    have "takeWhile is_digit (trim_zeros (pad6 n) @ z) = trim_zeros (pad6 n)" "dropWhile is_digit (trim_zeros (pad6 n) @ z) = z"
      using d(2) z by (simp_all add: list_all_iff takeWhile_append dropWhile_append)
    moreover have "read_fraction (trim_zeros (pad6 n)) = n" using read_fraction_trim pad6_facts [OF assms(1)] by simp
    moreover obtain c' r' where "b @ z = c' # r'" using z by (cases b) auto
    ultimately show ?thesis using False ab by (simp add: fmt_fraction_def split_fraction_def)
  qed
qed

lemma length_four: "length s = 4 \<Longrightarrow> \<exists>a b c d. s = [a, b, c, d]"
  by (auto simp: length_Suc_conv numeral_eq_Suc)

lemma sub_second_less: "sub_second t < 1000000"
  by (simp add: sub_second_def nat_less_iff)

lemma time_of_fmt:
  assumes "time_ok t"
  shows "time_of_string (fmt_rfc3339nano t) = Some t"
proof -
  let ?rest = "fmt_fraction (sub_second t) @ t_zone t"
  obtain off where off: "zone_seconds (t_zone t) = Some off" "off = 0 \<longrightarrow> t_zone t = ''Z''"
    "t_unix_micro t div 1000000 = civil_seconds (t_year t) (t_month t) (t_day t) (t_hour t) (t_min t) (t_sec t) - off"
    using assms by (auto simp: time_ok_def split: option.splits)
  have b: "t_year t < 10000" "t_month t < 100" "t_day t < 100" "t_hour t < 100" "t_min t < 100" "t_sec t < 100"
    using assms days_in_le [of "t_month t" "t_year t"] by (auto simp: time_ok_def)
  note y = pad4_facts [OF b(1)]
  obtain a1 a2 a3 a4 where y4: "pad4 (t_year t) = [a1, a2, a3, a4]" using length_four [OF y(1)] by blast
  have split: "split_fraction ?rest = (sub_second t, t_zone t)" by (rule split_fmt_fraction [OF sub_second_less off(1)])
  obtain c r where "t_zone t = c # r" using zone_hd [OF off(1)] by blast
  then have len: "1 \<le> length ?rest" by simp
  have s: "fmt_rfc3339nano t = [a1, a2, a3, a4, CHR ''-'', digit_char (t_month t div 10), digit_char (t_month t mod 10), CHR ''-'',
     digit_char (t_day t div 10), digit_char (t_day t mod 10), CHR ''T'', digit_char (t_hour t div 10), digit_char (t_hour t mod 10), CHR '':'',
     digit_char (t_min t div 10), digit_char (t_min t mod 10), CHR '':'', digit_char (t_sec t div 10), digit_char (t_sec t mod 10)] @ ?rest"
    by (simp add: fmt_rfc3339nano_def y4 pad2_digits b)
  have shape: "rfc3339_shape (fmt_rfc3339nano t)" using len y b
    by (simp add: s rfc3339_shape_def digits_at_def y4)
  have nums: "num_at 0 4 (fmt_rfc3339nano t) = t_year t" "num_at 5 2 (fmt_rfc3339nano t) = t_month t" "num_at 8 2 (fmt_rfc3339nano t) = t_day t"
    "num_at 11 2 (fmt_rfc3339nano t) = t_hour t" "num_at 14 2 (fmt_rfc3339nano t) = t_min t" "num_at 17 2 (fmt_rfc3339nano t) = t_sec t"
    using y b by (simp_all add: s num_at_def y4 read_digits_def)
  have dr: "drop 19 (fmt_rfc3339nano t) = ?rest" by (simp add: s)
  have u: "1000000 * (civil_seconds (t_year t) (t_month t) (t_day t) (t_hour t) (t_min t) (t_sec t) - off) + int (sub_second t) = t_unix_micro t"
    unfolding off(3) [symmetric] by (simp add: sub_second_def)
  have z: "(if off = 0 then ''Z'' else t_zone t) = t_zone t" using off(2) by simp
  have "time_of_string (fmt_rfc3339nano t) = Some \<lparr>t_year = t_year t, t_month = t_month t, t_day = t_day t, t_hour = t_hour t,
      t_min = t_min t, t_sec = t_sec t, t_unix_micro = t_unix_micro t, t_zone = t_zone t\<rparr>"
    unfolding time_of_string_def nums dr split Let_def prod.case off(1) option.case u z using assms shape by (simp add: time_ok_def)
  then show ?thesis by simp
qed

lemma time_of_json_enc: "time_ok t \<Longrightarrow> \<exists>s. time_json t = Some (JStr s) \<and> time_of_json (JStr s) = Some t"
  by (simp add: time_json_def time_of_json_def time_of_fmt) (simp add: time_ok_def)

text \<open>The names of the members are in lower case.\<close>

lemma lower_trade_keys:
  "map ToLower [''trade_uid'', ''user_id'', ''broker_name'', ''account_id'', ''symbol'', ''expiry'', ''strike'', ''product_type'',
     ''exchange_segment'', ''ce_token'', ''pe_token'', ''ce_quantity'', ''pe_quantity'', ''ce_entry_price'', ''pe_entry_price'',
     ''net_delta'', ''status'', ''mode'', ''underlying'', ''lot_size'', ''lots'', ''created_at'', ''last_update_time'', ''config'',
     ''buy_buffer'', ''sell_buffer'', ''sl_points_per_lot'', ''hedge_threshold_delta'', ''straddle_stop_price'',
     ''order_lots_per_call'', ''poll_interval_sec''] =
   [''trade_uid'', ''user_id'', ''broker_name'', ''account_id'', ''symbol'', ''expiry'', ''strike'', ''product_type'',
     ''exchange_segment'', ''ce_token'', ''pe_token'', ''ce_quantity'', ''pe_quantity'', ''ce_entry_price'', ''pe_entry_price'',
     ''net_delta'', ''status'', ''mode'', ''underlying'', ''lot_size'', ''lots'', ''created_at'', ''last_update_time'', ''config'',
     ''buy_buffer'', ''sell_buffer'', ''sl_points_per_lot'', ''hedge_threshold_delta'', ''straddle_stop_price'',
     ''order_lots_per_call'', ''poll_interval_sec'']"
  by code_simp

lemma fin64_enc: "fin64 x \<Longrightarrow> \<exists>a. x = Fin a \<and> enc_float x = Some (JNum a) \<and> num_f64 a = Some x"
  by (auto simp: fin64_def num_f64_exact)

lemma those_map_Some: "(\<forall>x \<in> set xs. f x = Some (g x)) \<Longrightarrow> those (map f xs) = Some (map g xs)"
  by (induction xs) auto

lemma json_obj_all: "list_all (\<lambda>(k, v). v \<noteq> None) ms \<Longrightarrow> json_obj ms = Some (JObj (map (\<lambda>(k, v). (k, the v)) ms))"
  unfolding json_obj_def by (subst those_map_Some [where g = "\<lambda>(k, v). (k, the v)"]) (auto simp: list_all_iff)

lemma json_get_append: "json_get (a @ b) k = (case json_get b k of Some v \<Rightarrow> Some v | None \<Rightarrow> json_get a k)"
  by (simp add: json_get_def map_add_def split: option.split)

lemma json_get_Cons: "json_get ((k', v) # b) k = (case json_get b k of Some w \<Rightarrow> Some w | None \<Rightarrow> if k = k' then Some v else None)"
  by (auto simp: json_get_def map_add_def split: option.split)

lemma json_get_Nil: "json_get [] k = None"
  by (simp add: json_get_def)

lemma json_get_opt: "json_get (if c then [] else [(k', v)]) k = (if \<not> c \<and> k = k' then Some v else None)"
  by (simp add: json_get_Nil json_get_Cons)

lemmas json_lookup = json_get_append json_get_Cons json_get_Nil json_get_opt

lemma lower_keys_id: "list_all (\<lambda>(k, v). ToLower k = k) m \<Longrightarrow> lower_keys m = m"
  by (simp add: lower_keys_def list_all_iff map_idI split_beta)

definition config_doc :: "MonitorConfig \<Rightarrow> (string \<times> json) list" where
  "config_doc c =
     [(''buy_buffer'', the (enc_float (mc_BuyBuffer c))), (''sell_buffer'', the (enc_float (mc_SellBuffer c))),
      (''sl_points_per_lot'', the (enc_float (mc_SLPointsPerLot c))), (''hedge_threshold_delta'', the (enc_float (mc_HedgeThresholdDelta c))),
      (''straddle_stop_price'', the (enc_float (mc_StraddleStopPrice c))),
      (''order_lots_per_call'', JNum (of_int (mc_OrderLotsPerCall c))), (''poll_interval_sec'', JNum (of_int (mc_PollIntervalSec c)))]"

lemma fin64_some: "fin64 x \<Longrightarrow> \<exists>y. enc_float x = Some y"
  by (auto simp: fin64_def)

lemma dec_enc_float: "fin64 x \<Longrightarrow> json_get m k = Some (the (enc_float x)) \<Longrightarrow> dec_float m k = x"
  by (auto simp: fin64_def num_f64_exact dec_float_def dec_float_opt_def)

lemma dec_enc_int: "int64_ok n \<Longrightarrow> json_get m k = Some (JNum (of_int n)) \<Longrightarrow> dec_int m k = n"
  by (simp add: dec_int_def)

lemma dec_enc_string: "json_get m k = Some (JStr s) \<Longrightarrow> dec_string m k = s"
  by (simp add: dec_string_def)

lemma dec_enc_time: "time_ok t \<Longrightarrow> json_get m k = Some (the (time_json t)) \<Longrightarrow> dec_time m k = t"
  using time_of_json_enc [of t] by (auto simp: dec_time_def)

lemma config_json_doc: "config_ok c \<Longrightarrow> config_json c = Some (JObj (config_doc c))"
  unfolding config_json_def by (subst json_obj_all) (auto simp: config_ok_def config_doc_def fin64_some)

lemma config_doc_lower: "lower_keys (config_doc c) = config_doc c"
  by (rule lower_keys_id) (use lower_trade_keys in \<open>simp add: config_doc_def\<close>)

lemma config_roundtrip:
  assumes "config_ok c"
  shows "config_of_json (config_doc c) = c"
proof -
  note d = dec_enc_float [of "mc_BuyBuffer c"] dec_enc_float [of "mc_SellBuffer c"] dec_enc_float [of "mc_SLPointsPerLot c"]
    dec_enc_float [of "mc_HedgeThresholdDelta c"] dec_enc_float [of "mc_StraddleStopPrice c"]
    dec_enc_int [of "mc_OrderLotsPerCall c"] dec_enc_int [of "mc_PollIntervalSec c"]
  have "dec_float (config_doc c) ''buy_buffer'' = mc_BuyBuffer c" "dec_float (config_doc c) ''sell_buffer'' = mc_SellBuffer c"
    "dec_float (config_doc c) ''sl_points_per_lot'' = mc_SLPointsPerLot c" "dec_float (config_doc c) ''hedge_threshold_delta'' = mc_HedgeThresholdDelta c"
    "dec_float (config_doc c) ''straddle_stop_price'' = mc_StraddleStopPrice c" "dec_int (config_doc c) ''order_lots_per_call'' = mc_OrderLotsPerCall c"
    "dec_int (config_doc c) ''poll_interval_sec'' = mc_PollIntervalSec c"
    using assms by (auto simp: config_ok_def config_doc_def json_lookup intro!: d)
  then show ?thesis by (simp add: config_of_json_def)
qed

definition trade_doc :: "StoredTrade \<Rightarrow> (string \<times> json) list" where
  "trade_doc tr =
     [(''trade_uid'', JStr (tr_TradeUID tr)), (''user_id'', JStr (tr_UserID tr)), (''broker_name'', JStr (tr_BrokerName tr)),
      (''account_id'', JStr (tr_AccountID tr)), (''symbol'', JStr (tr_Symbol tr)), (''expiry'', JStr (tr_Expiry tr)),
      (''strike'', the (enc_float (tr_Strike tr))), (''product_type'', JStr (tr_ProductType tr))] @
     (if tr_ExchangeSegment tr = '''' then [] else [(''exchange_segment'', JStr (tr_ExchangeSegment tr))]) @
     [(''ce_token'', JNum (of_int (tr_CEToken tr))), (''pe_token'', JNum (of_int (tr_PEToken tr))),
      (''ce_quantity'', JNum (of_int (tr_CEQty tr))), (''pe_quantity'', JNum (of_int (tr_PEQty tr))),
      (''ce_entry_price'', the (enc_float (tr_CELtp tr))), (''pe_entry_price'', the (enc_float (tr_PELtp tr))),
      (''net_delta'', the (enc_float (tr_NetDelta tr))), (''status'', JStr (tr_Status tr))] @
     (if tr_Mode tr = '''' then [] else [(''mode'', JStr (tr_Mode tr))]) @
     (if tr_Underlying tr = Fin 0 then [] else [(''underlying'', the (enc_float (tr_Underlying tr)))]) @
     [(''lot_size'', JNum (of_int (tr_LotSize tr))), (''lots'', JNum (of_int (tr_Lots tr))),
      (''created_at'', the (time_json (tr_CreatedAt tr))), (''last_update_time'', the (time_json (tr_LastUpdateTime tr))),
      (''config'', JObj (config_doc (tr_Config tr)))]"

lemma time_json_some: "time_ok t \<Longrightarrow> \<exists>y. time_json t = Some y"
  by (simp add: time_ok_def time_json_def)

lemma trade_json_doc: "trade_ok tr \<Longrightarrow> trade_json tr = Some (JObj (trade_doc tr))"
  unfolding trade_json_def
  by (subst json_obj_all) (auto simp: trade_ok_def trade_doc_def fin64_some time_json_some config_json_doc)

lemma trade_doc_lower: "lower_keys (trade_doc tr) = trade_doc tr"
  by (rule lower_keys_id) (use lower_trade_keys in \<open>simp add: trade_doc_def\<close>)

lemma trade_doc_read: "trade_ok tr \<Longrightarrow> read_members (trade_doc tr) = trade_doc tr"
  unfolding read_members_def trade_doc_lower takeWhile_eq_all_conv
  using time_of_json_enc [of "tr_CreatedAt tr"] time_of_json_enc [of "tr_LastUpdateTime tr"]
  by (auto simp: trade_doc_def trade_ok_def)

lemma trade_doc_get:
  "json_get (trade_doc tr) ''trade_uid'' = Some (JStr (tr_TradeUID tr))" "json_get (trade_doc tr) ''user_id'' = Some (JStr (tr_UserID tr))"
  "json_get (trade_doc tr) ''broker_name'' = Some (JStr (tr_BrokerName tr))" "json_get (trade_doc tr) ''account_id'' = Some (JStr (tr_AccountID tr))"
  "json_get (trade_doc tr) ''symbol'' = Some (JStr (tr_Symbol tr))" "json_get (trade_doc tr) ''expiry'' = Some (JStr (tr_Expiry tr))"
  "json_get (trade_doc tr) ''strike'' = Some (the (enc_float (tr_Strike tr)))" "json_get (trade_doc tr) ''product_type'' = Some (JStr (tr_ProductType tr))"
  "json_get (trade_doc tr) ''exchange_segment'' = (if tr_ExchangeSegment tr = '''' then None else Some (JStr (tr_ExchangeSegment tr)))"
  "json_get (trade_doc tr) ''ce_token'' = Some (JNum (of_int (tr_CEToken tr)))" "json_get (trade_doc tr) ''pe_token'' = Some (JNum (of_int (tr_PEToken tr)))"
  "json_get (trade_doc tr) ''ce_quantity'' = Some (JNum (of_int (tr_CEQty tr)))" "json_get (trade_doc tr) ''pe_quantity'' = Some (JNum (of_int (tr_PEQty tr)))"
  "json_get (trade_doc tr) ''ce_entry_price'' = Some (the (enc_float (tr_CELtp tr)))" "json_get (trade_doc tr) ''pe_entry_price'' = Some (the (enc_float (tr_PELtp tr)))"
  "json_get (trade_doc tr) ''net_delta'' = Some (the (enc_float (tr_NetDelta tr)))" "json_get (trade_doc tr) ''status'' = Some (JStr (tr_Status tr))"
  "json_get (trade_doc tr) ''mode'' = (if tr_Mode tr = '''' then None else Some (JStr (tr_Mode tr)))"
  "json_get (trade_doc tr) ''underlying'' = (if tr_Underlying tr = Fin 0 then None else Some (the (enc_float (tr_Underlying tr))))"
  "json_get (trade_doc tr) ''lot_size'' = Some (JNum (of_int (tr_LotSize tr)))" "json_get (trade_doc tr) ''lots'' = Some (JNum (of_int (tr_Lots tr)))"
  "json_get (trade_doc tr) ''created_at'' = Some (the (time_json (tr_CreatedAt tr)))"
  "json_get (trade_doc tr) ''last_update_time'' = Some (the (time_json (tr_LastUpdateTime tr)))"
  "json_get (trade_doc tr) ''config'' = Some (JObj (config_doc (tr_Config tr)))"
  by (simp_all add: trade_doc_def json_lookup)

lemma dec_opt_string: "json_get m k = (if s = '''' then None else Some (JStr s)) \<Longrightarrow> dec_string m k = s"
  by (simp add: dec_string_def split: if_splits)

lemma dec_opt_float: "fin64 x \<Longrightarrow> json_get m k = (if x = Fin 0 then None else Some (the (enc_float x))) \<Longrightarrow> dec_float m k = x"
  by (auto simp: fin64_def num_f64_exact dec_float_def dec_float_opt_def split: if_splits)

lemma trade_doc_config: "config_ok (tr_Config tr) \<Longrightarrow> config_of_json (dec_members (trade_doc tr) ''config'') = tr_Config tr"
  by (simp add: dec_members_def trade_doc_get json_members_def config_doc_lower config_roundtrip)

text \<open>
  A trade is read back from its document as it was: for finite prices, integers of Go's types and
  clock readings, encoding succeeds and decoding gives the trade.
\<close>

lemma trade_roundtrip:
  assumes "trade_ok tr"
  shows "\<exists>j. trade_json tr = Some j \<and> trade_of_json j = tr"
proof -
  note g = trade_doc_get [of tr]
  note s = dec_enc_string [OF g(1)] dec_enc_string [OF g(2)] dec_enc_string [OF g(3)] dec_enc_string [OF g(4)] dec_enc_string [OF g(5)]
    dec_enc_string [OF g(6)] dec_enc_string [OF g(8)] dec_enc_string [OF g(17)] dec_opt_string [OF g(9)] dec_opt_string [OF g(18)]
  note f = dec_enc_float [OF _ g(7)] dec_enc_float [OF _ g(14)] dec_enc_float [OF _ g(15)] dec_enc_float [OF _ g(16)] dec_opt_float [OF _ g(19)]
  note i = dec_enc_int [OF _ g(10)] dec_enc_int [OF _ g(11)] dec_enc_int [OF _ g(12)] dec_enc_int [OF _ g(13)] dec_enc_int [OF _ g(20)] dec_enc_int [OF _ g(21)]
  note t = dec_enc_time [OF _ g(22)] dec_enc_time [OF _ g(23)]
  have "trade_of_json (JObj (trade_doc tr)) = tr" using assms
    by (simp add: trade_of_json_def Let_def json_members_def trade_doc_read s f i t trade_doc_config trade_ok_def)
  then show ?thesis using trade_json_doc [OF assms] by blast
qed

text \<open>The identifier comes first in the document and is read whatever the rest of it is.\<close>

lemma those_Some_map: "those (map f xs) = Some ys \<Longrightarrow> ys = map (\<lambda>x. the (f x)) xs"
  by (induction xs arbitrary: ys) (auto split: option.splits)

lemma json_obj_Some: "json_obj ms = Some j \<Longrightarrow> j = JObj (map (\<lambda>(k, v). (k, the v)) ms)"
proof -
  assume "json_obj ms = Some j"
  then obtain ys where ys: "those (map (\<lambda>(k, v). map_option (Pair k) v) ms) = Some ys" "j = JObj ys" by (auto simp: json_obj_def)
  have "\<forall>m\<in>set ms. snd m \<noteq> None" using ys(1) by (induction ms arbitrary: ys) (auto split: option.splits)
  then show ?thesis using those_Some_map [OF ys(1)] ys(2) by (auto intro!: map_cong)
qed

lemma json_get_first: "\<forall>e\<in>set l. fst e \<noteq> k \<Longrightarrow> json_get ((k, v) # l) k = Some v"
proof -
  assume "\<forall>e\<in>set l. fst e \<noteq> k"
  then have "json_get l k = None" by (auto simp: json_get_def map_of_eq_None_iff)
  then show ?thesis by (simp add: json_get_Cons)
qed

lemma trade_json_uid:
  assumes "trade_json tr = Some j"
  shows "tr_TradeUID (trade_of_json j) = tr_TradeUID tr"
proof -
  obtain ms where ms: "j = JObj ((''trade_uid'', JStr (tr_TradeUID tr)) # ms)" "\<forall>e\<in>set (lower_keys ms). fst e \<noteq> ''trade_uid''"
    using json_obj_Some [OF assms [unfolded trade_json_def]] lower_trade_keys by (simp add: lower_keys_def if_distrib [of "map _"])
  define P where "P = (\<lambda>(k, v :: json). k \<in> {''created_at'', ''last_update_time''} \<longrightarrow> time_of_json v \<noteq> None)"
  have "read_members (json_members j) = (''trade_uid'', JStr (tr_TradeUID tr)) # takeWhile P (lower_keys ms)"
    using lower_trade_keys by (simp add: ms(1) read_members_def json_members_def lower_keys_def P_def)
  moreover have "\<forall>e\<in>set (takeWhile P (lower_keys ms)). fst e \<noteq> ''trade_uid''" using ms(2) by (auto dest: set_takeWhileD)
  ultimately have "dec_string (read_members (json_members j)) ''trade_uid'' = tr_TradeUID tr" using json_get_first by (simp add: dec_enc_string)
  then show ?thesis by (simp add: trade_of_json_def Let_def)
qed

end
