(* ===== verification/Trading_Store.thy ===== *)
theory Trading_Store
  imports Trade_Json
begin

text \<open>
  The two implementations of the \<^verbatim>\<open>Store\<close> interface: \<^verbatim>\<open>MemoryStore\<close>
  (\<^verbatim>\<open>service.go\<close>), whose mutex makes every method atomic, and
  \<^verbatim>\<open>PostgresBackedStore\<close> (\<^verbatim>\<open>store\_postgres.go\<close>), which writes through to
  PostgreSQL and reads the database only on a miss.

  The database is the three tables the statements touch. Statement number \<open>n\<close> runs at the
  database's clock reading \<open>db_now n\<close> and fails, with no effect, when \<open>db_fault n\<close>; both
  are arbitrary, so that what is shown here holds whatever the connection does. A query that returns rows
  may also break off while they are read, after the \<open>db_cut n\<close> rows that came through: the loops over
  \<^verbatim>\<open>rows.Next()\<close> end then as at the last row, since none of them asks \<^verbatim>\<open>rows.Err()\<close>. The JSON columns
  hold documents, which are written and read by \<open>Trade_Json\<close> and \<open>Go_Json\<close>. A value of the
  interface type is \<open>store\<close>, one constructor per implementing type.

  The locale \<open>trade_store\<close> is the contract that the service relies on: what was saved is what
  is loaded, the other operations keep it, intents are appended in order. It is interpreted on both
  implementations and on the interface type. The order table keeps its identifiers unique, and a
  trade that is written without a fault is read back unchanged after a restart.
\<close>

section \<open>MemoryStore\<close>

record MemoryStore =
  ms_trades :: "(string, StoredTrade) gomap"
  ms_intents :: "(string, StoredIntent list) gomap"
  ms_snapshots :: "(string, TradeSnapshot) gomap"
  ms_runtimes :: "(string, RuntimeTrade) gomap"

definition NewMemoryStore :: MemoryStore where
  "NewMemoryStore = \<lparr>ms_trades = [], ms_intents = [], ms_snapshots = [], ms_runtimes = []\<rparr>"

definition Mem_SaveTrade :: "StoredTrade \<Rightarrow> MemoryStore \<Rightarrow> MemoryStore" where
  "Mem_SaveTrade tr s = s\<lparr>ms_trades := gm_set (tr_TradeUID tr) tr (ms_trades s)\<rparr>"

definition Mem_LoadTrade :: "string \<Rightarrow> MemoryStore \<Rightarrow> StoredTrade option" where
  "Mem_LoadTrade tradeUID s = gm_get (ms_trades s) tradeUID"

type_synonym trade_order = "(string \<times> StoredTrade) list \<Rightarrow> (string \<times> StoredTrade) list"

definition Mem_AllTrades :: "trade_order \<Rightarrow> MemoryStore \<Rightarrow> StoredTrade list" where
  "Mem_AllTrades ord s = map snd (ord (ms_trades s))"

definition Mem_UpdateTrade :: "StoredTrade \<Rightarrow> MemoryStore \<Rightarrow> MemoryStore" where
  "Mem_UpdateTrade tr s = s\<lparr>ms_trades := gm_set (tr_TradeUID tr) tr (ms_trades s)\<rparr>"

definition Mem_LoadIntents :: "string \<Rightarrow> MemoryStore \<Rightarrow> StoredIntent list" where
  "Mem_LoadIntents tradeUID s = (case gm_get (ms_intents s) tradeUID of None \<Rightarrow> [] | Some l \<Rightarrow> l)"

definition Mem_AppendIntent :: "gotime \<Rightarrow> string \<Rightarrow> OrderIntent \<Rightarrow> MemoryStore \<Rightarrow> MemoryStore" where
  "Mem_AppendIntent now tradeUID it s =
     s\<lparr>ms_intents := gm_set tradeUID
         (Mem_LoadIntents tradeUID s @ [\<lparr>si_ReceivedAt = now, si_Intent = it\<rparr>]) (ms_intents s)\<rparr>"

definition Mem_SaveSnapshot :: "TradeSnapshot \<Rightarrow> MemoryStore \<Rightarrow> MemoryStore" where
  "Mem_SaveSnapshot snapshot s = s\<lparr>ms_snapshots := gm_set (ts_TradeUID snapshot) snapshot (ms_snapshots s)\<rparr>"

definition Mem_LoadSnapshot :: "string \<Rightarrow> MemoryStore \<Rightarrow> TradeSnapshot option" where
  "Mem_LoadSnapshot tradeUID s = gm_get (ms_snapshots s) tradeUID"

definition Mem_SaveRuntime :: "RuntimeTrade \<Rightarrow> MemoryStore \<Rightarrow> MemoryStore" where
  "Mem_SaveRuntime rt s = s\<lparr>ms_runtimes := gm_set (tr_TradeUID (rt_Trade rt)) rt (ms_runtimes s)\<rparr>"

definition Mem_LoadRuntime :: "string \<Rightarrow> MemoryStore \<Rightarrow> RuntimeTrade option" where
  "Mem_LoadRuntime tradeUID s = gm_get (ms_runtimes s) tradeUID"

definition Mem_DeleteRuntime :: "string \<Rightarrow> MemoryStore \<Rightarrow> MemoryStore" where
  "Mem_DeleteRuntime tradeUID s = s\<lparr>ms_runtimes := gm_del tradeUID (ms_runtimes s)\<rparr>"

lemmas mem_defs = Mem_SaveTrade_def Mem_LoadTrade_def Mem_UpdateTrade_def Mem_LoadIntents_def
  Mem_AppendIntent_def Mem_SaveSnapshot_def Mem_LoadSnapshot_def Mem_SaveRuntime_def
  Mem_LoadRuntime_def Mem_DeleteRuntime_def

section \<open>The database\<close>

record trade_row =
  td_trade_uid :: string
  td_user_id :: string
  td_broker_name :: string
  td_account_id :: string
  td_symbol :: string
  td_status :: string
  td_config :: "json option"
  td_created_at :: gotime

record order_row =
  od_id :: int
  od_intent_id :: string
  od_order_uid :: string
  od_trade_uid :: string
  od_broker_order_id :: string
  od_broker_name :: string
  od_account_id :: string
  od_side :: string
  od_quantity :: int
  od_order_type :: string
  od_limit_price :: "f64 option"
  od_status :: string
  od_filled_qty :: int
  od_pending_qty :: int
  od_avg_fill_price :: f64
  od_raw_broker_request :: "json option"
  od_created_at :: gotime
  od_updated_at :: gotime

record order_event =
  ev_order_id :: int
  ev_status :: string
  ev_reason_text :: string
  ev_event_timestamp :: gotime
  ev_raw_broker_response :: string

record database =
  db_trades :: "trade_row list"
  db_orders :: "order_row list"
  db_events :: "order_event list"
  db_next_id :: int
  db_tick :: nat
  db_fault :: "nat \<Rightarrow> bool"
  db_cut :: "nat \<Rightarrow> nat option"
  db_now :: "nat \<Rightarrow> gotime"

text \<open>One statement: it takes its turn and its effect happens unless the statement fails.\<close>

definition db_next :: "database \<Rightarrow> database" where
  "db_next d = d\<lparr>db_tick := Suc (db_tick d)\<rparr>"

definition db_failed :: "database \<Rightarrow> bool" where
  "db_failed d = db_fault d (db_tick d)"

definition db_time :: "database \<Rightarrow> gotime" where
  "db_time d = db_now d (db_tick d)"

text \<open>The rows that a loop over the result of a query sees.\<close>

definition db_read :: "database \<Rightarrow> 'r list \<Rightarrow> 'r list" where
  "db_read d rows = (case db_cut d (db_tick d) of None \<Rightarrow> rows | Some n \<Rightarrow> take n rows)"

definition read_whole :: "database \<Rightarrow> bool" where
  "read_whole d \<longleftrightarrow> db_cut d (db_tick d) = None"

lemma db_read_take: "\<exists>n. db_read d rows = take n rows"
  unfolding db_read_def by (cases "db_cut d (db_tick d)") (auto intro: exI [of _ "length rows"])

fun upsert_row :: "trade_row \<Rightarrow> trade_row list \<Rightarrow> trade_row list" where
  "upsert_row r [] = [r]"
| "upsert_row r (x # xs) =
     (if td_trade_uid x = td_trade_uid r then r\<lparr>td_created_at := td_created_at x\<rparr> # xs else x # upsert_row r xs)"

text \<open>The empty string, which a failed \<^verbatim>\<open>json.Marshal\<close> leaves, is not valid JSON for the column.\<close>

definition sql_upsert_trade :: "StoredTrade \<Rightarrow> gotime \<Rightarrow> database \<Rightarrow> database" where
  "sql_upsert_trade tr createdAt d =
     (if db_failed d then db_next d
      else case trade_json tr of
        None \<Rightarrow> db_next d
      | Some raw \<Rightarrow> (db_next d)\<lparr>db_trades := upsert_row
          \<lparr>td_trade_uid = tr_TradeUID tr, td_user_id = tr_UserID tr, td_broker_name = tr_BrokerName tr,
           td_account_id = tr_AccountID tr, td_symbol = tr_Symbol tr, td_status = tr_Status tr,
           td_config = Some raw, td_created_at = createdAt\<rparr> (db_trades d)\<rparr>)"

definition order_known :: "string \<Rightarrow> database \<Rightarrow> bool" where
  "order_known intentID d \<longleftrightarrow> list_ex (\<lambda>o'. od_intent_id o' = intentID) (db_orders d)"

text \<open>\<^verbatim>\<open>ON CONFLICT (intent\_id) DO NOTHING\<close>; the serial column advances even then.\<close>

definition sql_insert_order :: "string \<Rightarrow> OrderIntent \<Rightarrow> database \<Rightarrow> database" where
  "sql_insert_order tradeUID it d =
     (if db_failed d then db_next d
      else case intent_json it of
        None \<Rightarrow> db_next d
      | Some raw \<Rightarrow>
          let d' = (db_next d)\<lparr>db_next_id := db_next_id d + 1\<rparr> in
          if order_known (it_IntentID it) d then d'
          else d'\<lparr>db_orders := db_orders d @
            [\<lparr>od_id = db_next_id d, od_intent_id = it_IntentID it,
              od_order_uid = (if it_OrderUID it = '''' then it_IntentID it else it_OrderUID it),
              od_trade_uid = tradeUID, od_broker_order_id = '''', od_broker_name = it_BrokerName it,
              od_account_id = it_AccountID it, od_side = it_Side it, od_quantity = it_Quantity it,
              od_order_type = it_OrderType it, od_limit_price = it_LimitPrice it, od_status = ''CREATED'',
              od_filled_qty = 0, od_pending_qty = 0, od_avg_fill_price = Fin 0,
              od_raw_broker_request = Some raw, od_created_at = db_time d, od_updated_at = db_time d\<rparr>]\<rparr>)"

text \<open>
  \<^verbatim>\<open>UPDATE orders SET ... WHERE intent\_id = $1 RETURNING id\<close>; no row is an error of
  \<^verbatim>\<open>Scan\<close>.
\<close>

definition sql_update_order :: "string \<Rightarrow> (order_row \<Rightarrow> order_row) \<Rightarrow> database \<Rightarrow> int option \<times> database" where
  "sql_update_order intentID upd d =
     (if db_failed d then (None, db_next d)
      else case find (\<lambda>r. od_intent_id r = intentID) (db_orders d) of
        None \<Rightarrow> (None, db_next d)
      | Some r \<Rightarrow> (Some (od_id r),
          (db_next d)\<lparr>db_orders := map (\<lambda>x. if od_intent_id x = intentID
             then (upd x)\<lparr>od_updated_at := db_time d\<rparr> else x) (db_orders d)\<rparr>))"

definition sql_insert_event :: "int \<Rightarrow> string \<Rightarrow> string \<Rightarrow> string \<Rightarrow> database \<Rightarrow> database" where
  "sql_insert_event orderID status reason rawResponse d =
     (if db_failed d then db_next d
      else (db_next d)\<lparr>db_events := db_events d @
        [\<lparr>ev_order_id = orderID, ev_status = status, ev_reason_text = reason,
          ev_event_timestamp = db_time d, ev_raw_broker_response = rawResponse\<rparr>]\<rparr>)"

section \<open>PostgresBackedStore\<close>

record PostgresBackedStore =
  ps_mem :: MemoryStore
  ps_db :: "database option"

definition NewPostgresBackedStore :: "database option \<Rightarrow> PostgresBackedStore" where
  "NewPostgresBackedStore db = \<lparr>ps_mem = NewMemoryStore, ps_db = db\<rparr>"

definition upsertTrade :: "gotime \<Rightarrow> StoredTrade \<Rightarrow> PostgresBackedStore \<Rightarrow> PostgresBackedStore" where
  "upsertTrade now tr s = (case ps_db s of
      None \<Rightarrow> s
    | Some d \<Rightarrow>
        let createdAt = (if IsZero (tr_CreatedAt tr) then now else tr_CreatedAt tr) in
        s\<lparr>ps_db := Some (sql_upsert_trade tr createdAt d)\<rparr>)"

definition Pg_SaveTrade :: "gotime \<Rightarrow> StoredTrade \<Rightarrow> PostgresBackedStore \<Rightarrow> PostgresBackedStore" where
  "Pg_SaveTrade now tr s = upsertTrade now tr (s\<lparr>ps_mem := Mem_SaveTrade tr (ps_mem s)\<rparr>)"

definition Pg_UpdateTrade :: "gotime \<Rightarrow> StoredTrade \<Rightarrow> PostgresBackedStore \<Rightarrow> PostgresBackedStore" where
  "Pg_UpdateTrade now tr s = upsertTrade now tr (s\<lparr>ps_mem := Mem_UpdateTrade tr (ps_mem s)\<rparr>)"

definition hydrateStoredTradeFromDB ::
  "string \<Rightarrow> string \<Rightarrow> string \<Rightarrow> string \<Rightarrow> string \<Rightarrow> string \<Rightarrow> json option \<Rightarrow> gotime \<Rightarrow> StoredTrade" where
  "hydrateStoredTradeFromDB tradeUID userID brokerName accountID symbol status rawConfig createdAt =
     (let tr = (case rawConfig of Some j \<Rightarrow> trade_of_json j | None \<Rightarrow> zero_StoredTrade);
          tr = (if tr_TradeUID tr = '''' then tr\<lparr>tr_TradeUID := tradeUID\<rparr> else tr);
          tr = (if tr_UserID tr = '''' then tr\<lparr>tr_UserID := userID\<rparr> else tr);
          tr = (if tr_BrokerName tr = '''' then tr\<lparr>tr_BrokerName := brokerName\<rparr> else tr);
          tr = (if tr_AccountID tr = '''' then tr\<lparr>tr_AccountID := accountID\<rparr> else tr);
          tr = (if tr_Symbol tr = '''' then tr\<lparr>tr_Symbol := symbol\<rparr> else tr);
          tr = (if tr_Status tr = '''' then tr\<lparr>tr_Status := status\<rparr> else tr) in
      if IsZero (tr_CreatedAt tr) then tr\<lparr>tr_CreatedAt := createdAt\<rparr> else tr)"

definition hydrate_row :: "trade_row \<Rightarrow> StoredTrade" where
  "hydrate_row r = hydrateStoredTradeFromDB (td_trade_uid r) (td_user_id r) (td_broker_name r)
     (td_account_id r) (td_symbol r) (td_status r) (td_config r) (td_created_at r)"

definition loadTradeFromDB :: "string \<Rightarrow> PostgresBackedStore \<Rightarrow> StoredTrade option \<times> PostgresBackedStore" where
  "loadTradeFromDB tradeUID s = (case ps_db s of
      None \<Rightarrow> (None, s)
    | Some d \<Rightarrow>
        (if db_failed d then None
         else map_option hydrate_row (find (\<lambda>r. td_trade_uid r = tradeUID) (db_trades d)),
         s\<lparr>ps_db := Some (db_next d)\<rparr>))"

definition Pg_LoadTrade :: "string \<Rightarrow> PostgresBackedStore \<Rightarrow> StoredTrade option \<times> PostgresBackedStore" where
  "Pg_LoadTrade tradeUID s = (case Mem_LoadTrade tradeUID (ps_mem s) of
      Some tr \<Rightarrow> (Some tr, s)
    | None \<Rightarrow>
        (case loadTradeFromDB tradeUID s of
           (Some tr, s') \<Rightarrow> (Some tr, s'\<lparr>ps_mem := Mem_SaveTrade tr (ps_mem s')\<rparr>)
         | (None, s') \<Rightarrow> (None, s')))"

definition loadTradesFromDB :: "PostgresBackedStore \<Rightarrow> StoredTrade list \<times> PostgresBackedStore" where
  "loadTradesFromDB s = (case ps_db s of
      None \<Rightarrow> ([], s)
    | Some d \<Rightarrow>
        (if db_failed d then []
         else map hydrate_row (db_read d (take 200 (sort_key (\<lambda>r. - t_unix_micro (td_created_at r)) (db_trades d)))),
         s\<lparr>ps_db := Some (db_next d)\<rparr>))"

definition Pg_AllTrades :: "trade_order \<Rightarrow> PostgresBackedStore \<Rightarrow> StoredTrade list \<times> PostgresBackedStore" where
  "Pg_AllTrades ord s = (let memTrades = Mem_AllTrades ord (ps_mem s) in
     if memTrades \<noteq> [] then (memTrades, s)
     else (case loadTradesFromDB s of (dbTrades, s') \<Rightarrow>
       (dbTrades, s'\<lparr>ps_mem := fold Mem_SaveTrade dbTrades (ps_mem s')\<rparr>)))"

definition insertOrderIntent :: "string \<Rightarrow> OrderIntent \<Rightarrow> PostgresBackedStore \<Rightarrow> PostgresBackedStore" where
  "insertOrderIntent tradeUID it s = (case ps_db s of
      None \<Rightarrow> s
    | Some d \<Rightarrow> s\<lparr>ps_db := Some (sql_insert_order tradeUID it d)\<rparr>)"

definition Pg_AppendIntent :: "gotime \<Rightarrow> string \<Rightarrow> OrderIntent \<Rightarrow> PostgresBackedStore \<Rightarrow> PostgresBackedStore" where
  "Pg_AppendIntent now tradeUID it s =
     insertOrderIntent tradeUID it (s\<lparr>ps_mem := Mem_AppendIntent now tradeUID it (ps_mem s)\<rparr>)"

text \<open>An order row as an intent: the stored document, its gaps filled from the columns.\<close>

definition intent_of_row :: "string \<Rightarrow> order_row \<Rightarrow> StoredIntent" where
  "intent_of_row tradeUID r =
     (let it = (case od_raw_broker_request r of Some j \<Rightarrow> intent_of_json j | None \<Rightarrow> zero_OrderIntent);
          it = (if it_IntentID it = '''' then it\<lparr>it_IntentID := od_intent_id r\<rparr> else it);
          it = (if it_OrderUID it = '''' then it\<lparr>it_OrderUID := od_order_uid r\<rparr> else it);
          it = (if it_TradeUID it = '''' then it\<lparr>it_TradeUID := tradeUID\<rparr> else it);
          it = (if it_BrokerName it = '''' then it\<lparr>it_BrokerName := od_broker_name r\<rparr> else it);
          it = (if it_AccountID it = '''' then it\<lparr>it_AccountID := od_account_id r\<rparr> else it);
          it = (if it_Side it = '''' then it\<lparr>it_Side := od_side r\<rparr> else it);
          it = (if it_Quantity it = 0 then it\<lparr>it_Quantity := od_quantity r\<rparr> else it);
          it = (if it_OrderType it = '''' then it\<lparr>it_OrderType := od_order_type r\<rparr> else it);
          it = (if it_LimitPrice it = None then it\<lparr>it_LimitPrice := od_limit_price r\<rparr> else it) in
      \<lparr>si_ReceivedAt = zero_time, si_Intent = it\<rparr>)"

definition loadIntentsFromDB :: "string \<Rightarrow> PostgresBackedStore \<Rightarrow> StoredIntent list \<times> PostgresBackedStore" where
  "loadIntentsFromDB tradeUID s = (case ps_db s of
      None \<Rightarrow> ([], s)
    | Some d \<Rightarrow>
        (if db_failed d then []
         else map (intent_of_row tradeUID)
           (db_read d (sort_key (\<lambda>r. t_unix_micro (od_created_at r)) (filter (\<lambda>r. od_trade_uid r = tradeUID) (db_orders d)))),
         s\<lparr>ps_db := Some (db_next d)\<rparr>))"

definition Pg_LoadIntents :: "gotime \<Rightarrow> string \<Rightarrow> PostgresBackedStore \<Rightarrow> StoredIntent list \<times> PostgresBackedStore" where
  "Pg_LoadIntents now tradeUID s = (let memIntents = Mem_LoadIntents tradeUID (ps_mem s) in
     if memIntents \<noteq> [] then (memIntents, s)
     else (case loadIntentsFromDB tradeUID s of (dbIntents, s') \<Rightarrow>
       (dbIntents, s'\<lparr>ps_mem := fold (\<lambda>si. Mem_AppendIntent now tradeUID (si_Intent si)) dbIntents (ps_mem s')\<rparr>)))"

definition default_status :: "string \<Rightarrow> string" where
  "default_status status = (if status = '''' then ''SUBMITTED'' else status)"

definition MarkOrderSubmitted :: "string \<Rightarrow> string \<Rightarrow> string \<Rightarrow> string \<Rightarrow> PostgresBackedStore \<Rightarrow> PostgresBackedStore" where
  "MarkOrderSubmitted intentID brokerOrderID status rawResponse s = (case ps_db s of
      None \<Rightarrow> s
    | Some d \<Rightarrow>
        let status = default_status status in
        (case sql_update_order intentID (\<lambda>r. r\<lparr>od_broker_order_id := brokerOrderID, od_status := status\<rparr>) d of
           (None, d') \<Rightarrow> s\<lparr>ps_db := Some d'\<rparr>
         | (Some orderID, d') \<Rightarrow>
             s\<lparr>ps_db := Some (sql_insert_event orderID status ''BROKER_RESPONSE'' rawResponse d')\<rparr>))"

definition MarkOrderExecution ::
  "string \<Rightarrow> string \<Rightarrow> string \<Rightarrow> int \<Rightarrow> int \<Rightarrow> f64 \<Rightarrow> string \<Rightarrow> PostgresBackedStore \<Rightarrow> PostgresBackedStore" where
  "MarkOrderExecution intentID brokerOrderID status filledQty pendingQty fillPrice rawResponse s = (case ps_db s of
      None \<Rightarrow> s
    | Some d \<Rightarrow>
        let status = default_status status in
        (case sql_update_order intentID (\<lambda>r. r\<lparr>od_broker_order_id := brokerOrderID, od_status := status,
             od_filled_qty := filledQty, od_pending_qty := pendingQty, od_avg_fill_price := fillPrice\<rparr>) d of
           (None, d') \<Rightarrow> s\<lparr>ps_db := Some d'\<rparr>
         | (Some orderID, d') \<Rightarrow>
             s\<lparr>ps_db := Some (sql_insert_event orderID status ''BROKER_EXECUTION'' rawResponse d')\<rparr>))"

section \<open>The interface type\<close>

datatype store = MemStore MemoryStore | PgStore PostgresBackedStore

text \<open>The methods that only delegate to the memory store in both implementations.\<close>

definition store_mem :: "store \<Rightarrow> MemoryStore" where
  "store_mem s = (case s of MemStore m \<Rightarrow> m | PgStore p \<Rightarrow> ps_mem p)"

definition store_upd :: "(MemoryStore \<Rightarrow> MemoryStore) \<Rightarrow> store \<Rightarrow> store" where
  "store_upd f s = (case s of MemStore m \<Rightarrow> MemStore (f m) | PgStore p \<Rightarrow> PgStore (p\<lparr>ps_mem := f (ps_mem p)\<rparr>))"

definition SaveTrade :: "gotime \<Rightarrow> StoredTrade \<Rightarrow> store \<Rightarrow> store" where
  "SaveTrade now tr s = (case s of MemStore m \<Rightarrow> MemStore (Mem_SaveTrade tr m) | PgStore p \<Rightarrow> PgStore (Pg_SaveTrade now tr p))"

definition UpdateTrade :: "gotime \<Rightarrow> StoredTrade \<Rightarrow> store \<Rightarrow> store" where
  "UpdateTrade now tr s = (case s of MemStore m \<Rightarrow> MemStore (Mem_UpdateTrade tr m) | PgStore p \<Rightarrow> PgStore (Pg_UpdateTrade now tr p))"

definition LoadTrade :: "string \<Rightarrow> store \<Rightarrow> StoredTrade option \<times> store" where
  "LoadTrade tradeUID s = (case s of
      MemStore m \<Rightarrow> (Mem_LoadTrade tradeUID m, s)
    | PgStore p \<Rightarrow> (case Pg_LoadTrade tradeUID p of (r, p') \<Rightarrow> (r, PgStore p')))"

definition AllTrades :: "trade_order \<Rightarrow> store \<Rightarrow> StoredTrade list \<times> store" where
  "AllTrades ord s = (case s of
      MemStore m \<Rightarrow> (Mem_AllTrades ord m, s)
    | PgStore p \<Rightarrow> (case Pg_AllTrades ord p of (r, p') \<Rightarrow> (r, PgStore p')))"

definition AppendIntent :: "gotime \<Rightarrow> string \<Rightarrow> OrderIntent \<Rightarrow> store \<Rightarrow> store" where
  "AppendIntent now tradeUID it s = (case s of
      MemStore m \<Rightarrow> MemStore (Mem_AppendIntent now tradeUID it m)
    | PgStore p \<Rightarrow> PgStore (Pg_AppendIntent now tradeUID it p))"

definition LoadIntents :: "gotime \<Rightarrow> string \<Rightarrow> store \<Rightarrow> StoredIntent list \<times> store" where
  "LoadIntents now tradeUID s = (case s of
      MemStore m \<Rightarrow> (Mem_LoadIntents tradeUID m, s)
    | PgStore p \<Rightarrow> (case Pg_LoadIntents now tradeUID p of (r, p') \<Rightarrow> (r, PgStore p')))"

definition SaveSnapshot :: "TradeSnapshot \<Rightarrow> store \<Rightarrow> store" where
  "SaveSnapshot snapshot s = store_upd (Mem_SaveSnapshot snapshot) s"

definition LoadSnapshot :: "string \<Rightarrow> store \<Rightarrow> TradeSnapshot option" where
  "LoadSnapshot tradeUID s = Mem_LoadSnapshot tradeUID (store_mem s)"

definition SaveRuntime :: "RuntimeTrade \<Rightarrow> store \<Rightarrow> store" where
  "SaveRuntime rt s = store_upd (Mem_SaveRuntime rt) s"

definition LoadRuntime :: "string \<Rightarrow> store \<Rightarrow> RuntimeTrade option" where
  "LoadRuntime tradeUID s = Mem_LoadRuntime tradeUID (store_mem s)"

definition DeleteRuntime :: "string \<Rightarrow> store \<Rightarrow> store" where
  "DeleteRuntime tradeUID s = store_upd (Mem_DeleteRuntime tradeUID) s"

text \<open>
  The service asks the dynamic type of its store for \<^verbatim>\<open>MarkOrderExecution\<close>, which only
  the PostgreSQL store has; the second choice, \<^verbatim>\<open>MarkOrderSubmitted\<close>, is then never taken.
\<close>

definition mark_execution :: "string \<Rightarrow> ExecutionResult \<Rightarrow> store \<Rightarrow> store" where
  "mark_execution intentID res s = (case s of
      MemStore m \<Rightarrow> s
    | PgStore p \<Rightarrow> PgStore (MarkOrderExecution intentID (res_BrokerOrderID res) (res_Status res)
        (res_FilledQty res) (res_PendingQty res) (res_FillPrice res) (res_RawResponse res) p))"

section \<open>Invariants\<close>

text \<open>
  \<open>db_ok\<close>: intent identifiers, row numbers and trade identifiers are unique, the sequence is
  ahead of every row number, and a trade's document carries the identifier of its row or none.
\<close>

definition db_ok :: "database \<Rightarrow> bool" where
  "db_ok d \<longleftrightarrow> distinct (map od_intent_id (db_orders d)) \<and> distinct (map od_id (db_orders d)) \<and>
     (\<forall>r\<in>set (db_orders d). od_id r < db_next_id d) \<and> distinct (map td_trade_uid (db_trades d)) \<and>
     (\<forall>r\<in>set (db_trades d). case td_config r of Some j \<Rightarrow> tr_TradeUID (trade_of_json j) \<in> {td_trade_uid r, ''''} | None \<Rightarrow> True)"

definition mem_ok :: "MemoryStore \<Rightarrow> bool" where
  "mem_ok m \<longleftrightarrow> gm_ok (ms_trades m) \<and> gm_ok (ms_intents m) \<and> gm_ok (ms_snapshots m) \<and> gm_ok (ms_runtimes m) \<and>
     (\<forall>u tr. gm_get (ms_trades m) u = Some tr \<longrightarrow> tr_TradeUID tr = u) \<and>
     (\<forall>u sn. gm_get (ms_snapshots m) u = Some sn \<longrightarrow> ts_TradeUID sn = u) \<and>
     (\<forall>u rt. gm_get (ms_runtimes m) u = Some rt \<longrightarrow> tr_TradeUID (rt_Trade rt) = u)"

definition store_ok :: "store \<Rightarrow> bool" where
  "store_ok s \<longleftrightarrow> mem_ok (store_mem s) \<and>
     (case s of PgStore p \<Rightarrow> (case ps_db p of Some d \<Rightarrow> db_ok d | None \<Rightarrow> True) | MemStore _ \<Rightarrow> True)"

lemma mem_ok_New [simp]: "mem_ok NewMemoryStore"
  by (simp add: mem_ok_def NewMemoryStore_def)

lemma mem_ok_ops [simp]:
  assumes "mem_ok m"
  shows "mem_ok (Mem_SaveTrade tr m)" "mem_ok (Mem_UpdateTrade tr m)" "mem_ok (Mem_AppendIntent now u it m)"
    "mem_ok (Mem_SaveSnapshot sn m)" "mem_ok (Mem_SaveRuntime rt m)" "mem_ok (Mem_DeleteRuntime u m)"
  using assms by (auto simp: mem_ok_def mem_defs gm_simps split: if_splits)

lemma mem_ok_fold_save: "mem_ok m \<Longrightarrow> mem_ok (fold Mem_SaveTrade trs m)"
  by (induction trs arbitrary: m) simp_all

lemma mem_ok_fold_append: "mem_ok m \<Longrightarrow> mem_ok (fold (\<lambda>si. Mem_AppendIntent now u (si_Intent si)) sis m)"
  by (induction sis arbitrary: m) simp_all

lemma db_ok_next [simp]: "db_ok (db_next d) = db_ok d"
  by (simp add: db_ok_def db_next_def)

lemma upsert_row_uids:
  "td_trade_uid ` set (upsert_row r rows) = insert (td_trade_uid r) (td_trade_uid ` set rows)"
  by (induction rows) auto

lemma distinct_upsert_row: "distinct (map td_trade_uid rows) \<Longrightarrow> distinct (map td_trade_uid (upsert_row r rows))"
  by (induction rows) (use upsert_row_uids in auto)

lemma set_upsert_row: "x \<in> set (upsert_row r rows) \<Longrightarrow> x \<in> set rows \<or> (\<exists>c. x = r\<lparr>td_created_at := c\<rparr>) \<or> x = r"
  by (induction rows) (auto split: if_splits)

lemma db_ok_upsert [simp]: "db_ok d \<Longrightarrow> db_ok (sql_upsert_trade tr createdAt d)"
  by (simp add: sql_upsert_trade_def split: option.split)
    (auto simp: db_ok_def db_next_def distinct_upsert_row trade_json_uid dest!: set_upsert_row)

lemma db_ok_insert_order [simp]: "db_ok d \<Longrightarrow> db_ok (sql_insert_order tradeUID it d)"
  unfolding sql_insert_order_def Let_def
  by (auto simp: db_ok_def db_next_def order_known_def list_ex_iff less_Suc_eq split: option.split)

lemma db_ok_insert_event [simp]: "db_ok d \<Longrightarrow> db_ok (sql_insert_event i st re raw d)"
  by (simp add: sql_insert_event_def) (simp add: db_ok_def db_next_def)

lemma db_ok_update_order:
  assumes "db_ok d" and "\<And>x. od_intent_id (upd x) = od_intent_id x" and "\<And>x. od_id (upd x) = od_id x"
  shows "db_ok (snd (sql_update_order intentID upd d))"
proof -
  let ?f = "\<lambda>x. if od_intent_id x = intentID then (upd x)\<lparr>od_updated_at := db_time d\<rparr> else x"
  have "map od_intent_id (map ?f rows) = map od_intent_id rows" "map od_id (map ?f rows) = map od_id rows" for rows
    using assms by auto
  then show ?thesis using assms(1) assms(3)
    by (auto simp: sql_update_order_def db_ok_def db_next_def simp del: map_map split: option.split)
qed

lemma pg_mem_simps [simp]:
  "ps_mem (upsertTrade now tr p) = ps_mem p"
  "ps_mem (insertOrderIntent u it p) = ps_mem p"
  "ps_mem (MarkOrderSubmitted i b st raw p) = ps_mem p"
  "ps_mem (MarkOrderExecution i b st fq pq fp raw p) = ps_mem p"
  "ps_mem (snd (loadTradeFromDB u p)) = ps_mem p"
  "ps_mem (snd (loadTradesFromDB p)) = ps_mem p"
  "ps_mem (snd (loadIntentsFromDB u p)) = ps_mem p"
  by (simp_all add: upsertTrade_def insertOrderIntent_def MarkOrderSubmitted_def MarkOrderExecution_def
      loadTradeFromDB_def loadTradesFromDB_def loadIntentsFromDB_def Let_def split: option.split prod.split)

lemmas store_defs = SaveTrade_def UpdateTrade_def LoadTrade_def AppendIntent_def SaveSnapshot_def
  LoadSnapshot_def SaveRuntime_def LoadRuntime_def DeleteRuntime_def mark_execution_def store_mem_def store_upd_def

lemma store_ok_trades [simp]:
  assumes "store_ok s"
  shows "store_ok (SaveTrade now tr s)" "store_ok (UpdateTrade now tr s)"
  using assms by (auto simp: store_ok_def store_defs Pg_SaveTrade_def Pg_UpdateTrade_def
      upsertTrade_def Let_def split: store.splits option.splits)

lemma store_ok_intents [simp]: "store_ok s \<Longrightarrow> store_ok (AppendIntent now u it s)"
  by (auto simp: store_ok_def store_defs Pg_AppendIntent_def insertOrderIntent_def split: store.splits option.splits)

lemma store_ok_mem [simp]:
  assumes "store_ok s"
  shows "store_ok (SaveSnapshot sn s)" "store_ok (SaveRuntime rt s)" "store_ok (DeleteRuntime u s)"
  using assms by (auto simp: store_ok_def store_defs split: store.splits option.splits)

lemma store_ok_mark [simp]: "store_ok s \<Longrightarrow> store_ok (mark_execution i res s)"
proof (cases s)
  case (PgStore p)
  assume ok: "store_ok s"
  show ?thesis
  proof (cases "ps_db p")
    case (Some d)
    then have d: "db_ok d" using ok PgStore by (simp add: store_ok_def)
    show ?thesis
      using ok PgStore Some db_ok_update_order [OF d]
      by (fastforce simp: store_ok_def store_mem_def mark_execution_def MarkOrderExecution_def Let_def
          split: prod.split option.split dest: arg_cong [where f = snd])
  qed (use ok PgStore in \<open>simp add: store_ok_def store_mem_def mark_execution_def MarkOrderExecution_def\<close>)
qed (simp add: mark_execution_def)

lemma store_ok_load: "store_ok s \<Longrightarrow> store_ok (snd (LoadTrade u s))"
  by (auto simp: store_ok_def LoadTrade_def store_mem_def Pg_LoadTrade_def loadTradeFromDB_def
      split: store.splits option.splits prod.splits)

lemma store_ok_all: "store_ok s \<Longrightarrow> store_ok (snd (AllTrades ord s))"
  by (auto simp: store_ok_def AllTrades_def store_mem_def Pg_AllTrades_def loadTradesFromDB_def Let_def
      mem_ok_fold_save split: store.splits option.splits prod.splits)

lemma store_ok_load_intents: "store_ok s \<Longrightarrow> store_ok (snd (LoadIntents now u s))"
  by (auto simp: store_ok_def LoadIntents_def store_mem_def Pg_LoadIntents_def loadIntentsFromDB_def Let_def
      mem_ok_fold_append split: store.splits option.splits prod.splits)

section \<open>The contract of a store\<close>

text \<open>
  \<open>trades\<close> and \<open>intents\<close> are the abstract state: what the store answers for a trade it has
  seen, and the sequence of intents appended for a trade.
\<close>

locale trade_store =
  fixes save :: "gotime \<Rightarrow> StoredTrade \<Rightarrow> 's \<Rightarrow> 's"
    and update :: "gotime \<Rightarrow> StoredTrade \<Rightarrow> 's \<Rightarrow> 's"
    and load :: "string \<Rightarrow> 's \<Rightarrow> StoredTrade option \<times> 's"
    and append :: "gotime \<Rightarrow> string \<Rightarrow> OrderIntent \<Rightarrow> 's \<Rightarrow> 's"
    and trades :: "'s \<Rightarrow> string \<Rightarrow> StoredTrade option"
    and intents :: "'s \<Rightarrow> string \<Rightarrow> OrderIntent list"
  assumes trades_save: "trades (save now tr s) = (trades s)(tr_TradeUID tr \<mapsto> tr)"
    and trades_update: "trades (update now tr s) = (trades s)(tr_TradeUID tr \<mapsto> tr)"
    and trades_append: "trades (append now u it s) = trades s"
    and load_hit: "trades s u = Some tr \<Longrightarrow> load u s = (Some tr, s)"
    and load_miss: "trades s u = None \<Longrightarrow> load u s = (None, s') \<Longrightarrow> trades s' = trades s"
    and load_fetch: "trades s u = None \<Longrightarrow> load u s = (Some tr, s') \<Longrightarrow> trades s' = (trades s)(tr_TradeUID tr \<mapsto> tr)"
    and intents_save: "intents (save now tr s) = intents s"
    and intents_update: "intents (update now tr s) = intents s"
    and intents_append: "intents (append now u it s) = (intents s)(u := intents s u @ [it])"
    and intents_load: "intents (snd (load u s)) = intents s"
begin

lemma load_after_update: "load (tr_TradeUID tr) (update now tr s) = (Some tr, update now tr s)"
  by (rule load_hit) (simp add: trades_update)

lemma load_after_save: "load (tr_TradeUID tr) (save now tr s) = (Some tr, save now tr s)"
  by (rule load_hit) (simp add: trades_save)

lemma load_other_update:
  "u \<noteq> tr_TradeUID tr \<Longrightarrow> trades s u = Some x \<Longrightarrow> load u (update now tr s) = (Some x, update now tr s)"
  by (rule load_hit) (simp add: trades_update)

lemma appends: "trades (fold (append now u) its s) = trades s"
  "intents (fold (append now u) its s) = (intents s)(u := intents s u @ its)"
  by (induction its arbitrary: s) (simp_all add: trades_append intents_append fun_upd_def fun_eq_iff)

lemma load_keeps: "trades s u' = Some x \<Longrightarrow> u' \<noteq> u \<Longrightarrow> load u s = (None, s') \<Longrightarrow> trades s' u' = Some x"
  using load_miss [of s u s'] load_hit [of s u] by (cases "trades s u") auto

end

definition mem_trades :: "MemoryStore \<Rightarrow> string \<Rightarrow> StoredTrade option" where
  "mem_trades m = gm_get (ms_trades m)"

definition mem_intents :: "MemoryStore \<Rightarrow> string \<Rightarrow> OrderIntent list" where
  "mem_intents m u = map si_Intent (Mem_LoadIntents u m)"

lemmas mem_view_defs = mem_trades_def mem_intents_def

interpretation mem: trade_store "\<lambda>_. Mem_SaveTrade" "\<lambda>_. Mem_UpdateTrade" "\<lambda>u m. (Mem_LoadTrade u m, m)"
  Mem_AppendIntent mem_trades mem_intents
  by unfold_locales (auto simp: mem_view_defs mem_defs gm_simps fun_eq_iff)

lemma pg_mem_views:
  "ps_mem (Pg_SaveTrade now tr p) = Mem_SaveTrade tr (ps_mem p)"
  "ps_mem (Pg_UpdateTrade now tr p) = Mem_UpdateTrade tr (ps_mem p)"
  "ps_mem (Pg_AppendIntent now u it p) = Mem_AppendIntent now u it (ps_mem p)"
  by (simp_all add: Pg_SaveTrade_def Pg_UpdateTrade_def Pg_AppendIntent_def)

lemma Pg_LoadTrade_mem:
  "ps_mem (snd (Pg_LoadTrade u p)) = (case (Mem_LoadTrade u (ps_mem p), fst (Pg_LoadTrade u p)) of
     (None, Some tr) \<Rightarrow> Mem_SaveTrade tr (ps_mem p) | _ \<Rightarrow> ps_mem p)"
proof (cases "Mem_LoadTrade u (ps_mem p)")
  case None
  obtain r s' where l: "loadTradeFromDB u p = (r, s')" by force
  then have "ps_mem s' = ps_mem p" using pg_mem_simps(5) [of u p] by simp
  with None l show ?thesis by (cases r) (simp_all add: Pg_LoadTrade_def)
qed (simp add: Pg_LoadTrade_def)

interpretation pg: trade_store Pg_SaveTrade Pg_UpdateTrade Pg_LoadTrade Pg_AppendIntent
  "\<lambda>p. mem_trades (ps_mem p)" "\<lambda>p. mem_intents (ps_mem p)"
proof (unfold_locales, goal_cases)
  case (4 p u tr)
  then show ?case by (simp add: Pg_LoadTrade_def mem_view_defs Mem_LoadTrade_def)
next
  case (5 p u p')
  then show ?case using Pg_LoadTrade_mem [of u p] by (simp add: mem_view_defs Mem_LoadTrade_def)
next
  case (6 p u tr p')
  then show ?case using Pg_LoadTrade_mem [of u p] mem.trades_save by (simp add: mem_trades_def Mem_LoadTrade_def)
next
  case (10 u p)
  show ?case by (simp add: Pg_LoadTrade_mem mem.intents_save split: option.split)
qed (simp_all add: pg_mem_views mem.trades_save mem.trades_update mem.trades_append mem.intents_save
  mem.intents_update mem.intents_append)

definition store_trades :: "store \<Rightarrow> string \<Rightarrow> StoredTrade option" where
  "store_trades s = mem_trades (store_mem s)"

definition store_intents :: "store \<Rightarrow> string \<Rightarrow> OrderIntent list" where
  "store_intents s = mem_intents (store_mem s)"

interpretation st: trade_store SaveTrade UpdateTrade LoadTrade AppendIntent store_trades store_intents
proof (unfold_locales, goal_cases)
  case (4 s u tr)
  then show ?case using pg.load_hit by (auto simp: LoadTrade_def store_trades_def store_mem_def mem_view_defs
        Mem_LoadTrade_def split: store.splits)
next
  case (5 s u s')
  then show ?case using pg.load_miss [of _ u]
    by (auto simp: LoadTrade_def store_trades_def store_mem_def split: store.splits prod.splits)
next
  case (6 s u tr s')
  then show ?case using pg.load_fetch [of _ u tr]
    by (auto simp: LoadTrade_def store_trades_def store_mem_def mem_view_defs Mem_LoadTrade_def
        split: store.splits prod.splits)
next
  case (10 u s)
  then show ?case using pg.intents_load [of u]
    by (auto simp: LoadTrade_def store_intents_def store_mem_def split: store.splits prod.splits) (metis snd_conv)
qed (auto simp: SaveTrade_def UpdateTrade_def AppendIntent_def store_trades_def store_intents_def store_mem_def
  mem.trades_save mem.trades_update mem.trades_append mem.intents_save mem.intents_update mem.intents_append
  pg.trades_save pg.trades_update pg.trades_append pg.intents_save pg.intents_update pg.intents_append
  split: store.splits)

text \<open>The operations that the contract does not name leave its view alone.\<close>

lemma store_views_other [simp]:
  "store_trades (SaveSnapshot sn s) = store_trades s" "store_trades (SaveRuntime rt s) = store_trades s"
  "store_trades (DeleteRuntime u s) = store_trades s" "store_trades (mark_execution i res s) = store_trades s"
  "store_intents (SaveSnapshot sn s) = store_intents s" "store_intents (SaveRuntime rt s) = store_intents s"
  "store_intents (DeleteRuntime u s) = store_intents s" "store_intents (mark_execution i res s) = store_intents s"
  by (auto simp: store_trades_def store_intents_def store_defs mem_view_defs mem_defs fun_eq_iff split: store.splits)

lemmas store_views [simp] = st.trades_save st.trades_update st.trades_append st.intents_save st.intents_update
  st.intents_append

lemma LoadRuntime_ops [simp]:
  "LoadRuntime u (SaveTrade now tr s) = LoadRuntime u s"
  "LoadRuntime u (UpdateTrade now tr s) = LoadRuntime u s"
  "LoadRuntime u (AppendIntent now v it s) = LoadRuntime u s"
  "LoadRuntime u (SaveSnapshot sn s) = LoadRuntime u s"
  "LoadRuntime u (mark_execution i res s) = LoadRuntime u s"
  "LoadRuntime u (SaveRuntime rt s) = (if u = tr_TradeUID (rt_Trade rt) then Some rt else LoadRuntime u s)"
  "LoadRuntime u (DeleteRuntime v s) = (if u = v then None else LoadRuntime u s)"
  by (auto simp: store_defs pg_mem_views mem_defs gm_simps split: store.splits)

lemma LoadRuntime_load [simp]: "LoadRuntime v (snd (LoadTrade u s)) = LoadRuntime v s"
proof (cases s)
  case (PgStore p)
  have "ms_runtimes (ps_mem (snd (Pg_LoadTrade u p))) = ms_runtimes (ps_mem p)"
    by (simp add: Pg_LoadTrade_mem Mem_SaveTrade_def split: option.split)
  then show ?thesis using PgStore
    by (auto simp: LoadRuntime_def LoadTrade_def store_mem_def Mem_LoadRuntime_def split: prod.split)
qed (simp add: LoadTrade_def)

section \<open>Sequences of calls\<close>

datatype store_call =
    CSave gotime StoredTrade
  | CUpdate gotime StoredTrade
  | CLoad string
  | CAppend gotime string OrderIntent
  | CSnapshot TradeSnapshot
  | CSaveRuntime RuntimeTrade
  | CDeleteRuntime string
  | CMark string ExecutionResult
  | CAll trade_order
  | CLoadIntents gotime string

fun run_call :: "store_call \<Rightarrow> store \<Rightarrow> store" where
  "run_call (CSave now tr) s = SaveTrade now tr s"
| "run_call (CUpdate now tr) s = UpdateTrade now tr s"
| "run_call (CLoad u) s = snd (LoadTrade u s)"
| "run_call (CAppend now u it) s = AppendIntent now u it s"
| "run_call (CSnapshot sn) s = SaveSnapshot sn s"
| "run_call (CSaveRuntime rt) s = SaveRuntime rt s"
| "run_call (CDeleteRuntime u) s = DeleteRuntime u s"
| "run_call (CMark i res) s = mark_execution i res s"
| "run_call (CAll ord) s = snd (AllTrades ord s)"
| "run_call (CLoadIntents now u) s = snd (LoadIntents now u s)"

fun writes_trade :: "string \<Rightarrow> store_call \<Rightarrow> bool" where
  "writes_trade u (CSave now tr) = (tr_TradeUID tr = u)"
| "writes_trade u (CUpdate now tr) = (tr_TradeUID tr = u)"
| "writes_trade u _ = False"

text \<open>A range over a map visits every entry once.\<close>

fun call_ok :: "store_call \<Rightarrow> bool" where
  "call_ok (CAll ord) = permutes_list ord"
| "call_ok _ = True"

lemma hydrate_row_uid:
  "db_ok d \<Longrightarrow> r \<in> set (db_trades d) \<Longrightarrow> tr_TradeUID (hydrate_row r) = td_trade_uid r"
  by (auto simp: db_ok_def hydrate_row_def hydrateStoredTradeFromDB_def Let_def zero_StoredTrade_def
      split: option.splits)

lemma LoadTrade_uid:
  assumes "store_ok s" and "LoadTrade u s = (Some tr, s')"
  shows "tr_TradeUID tr = u"
proof (cases "store_trades s u")
  case (Some x)
  then have "tr = x" using assms(2) st.load_hit by fastforce
  then show ?thesis using Some assms(1) by (auto simp: store_trades_def mem_trades_def store_ok_def mem_ok_def)
next
  case None
  then obtain p d r where "s = PgStore p" "ps_db p = Some d" "find (\<lambda>r. td_trade_uid r = u) (db_trades d) = Some r"
      "tr = hydrate_row r"
    using assms(2) by (auto simp: LoadTrade_def Pg_LoadTrade_def loadTradeFromDB_def store_trades_def mem_trades_def
        store_mem_def Mem_LoadTrade_def split: store.splits option.splits prod.splits if_splits)
  then show ?thesis using assms(1) hydrate_row_uid [of d r]
    by (auto simp: store_ok_def find_Some_iff)
qed

lemma run_call_ok: "store_ok s \<Longrightarrow> store_ok (run_call c s)"
  by (cases c) (simp_all add: store_ok_load store_ok_all store_ok_load_intents)

lemma AllTrades_hit:
  assumes "permutes_list ord" "store_trades s u = Some tr"
  shows "snd (AllTrades ord s) = s"
proof -
  have "ms_trades (store_mem s) \<noteq> []" using assms(2) by (auto simp: store_trades_def mem_trades_def gm_get_def)
  then have "ord (ms_trades (store_mem s)) \<noteq> []" using permutes_list_length [OF assms(1)] by (metis length_0_conv)
  then show ?thesis by (auto simp: AllTrades_def Pg_AllTrades_def Mem_AllTrades_def store_mem_def split: store.splits)
qed

lemma store_trades_load_intents: "store_trades (snd (LoadIntents now u s)) = store_trades s"
proof -
  have f: "ms_trades (fold (\<lambda>si. Mem_AppendIntent now u (si_Intent si)) sis m) = ms_trades m" for sis m
    by (induction sis arbitrary: m) (simp_all add: mem_defs)
  show ?thesis
    by (auto simp: f store_trades_def mem_trades_def store_mem_def LoadIntents_def Pg_LoadIntents_def loadIntentsFromDB_def Let_def
        split: store.splits option.splits prod.splits if_splits)
qed

lemma run_call_keeps:
  assumes "store_ok s" "store_trades s u = Some tr" "\<not> writes_trade u c" "call_ok c"
  shows "store_trades (run_call c s) u = Some tr"
proof (cases c)
  case (CLoad v)
  show ?thesis
  proof (cases "v = u \<or> store_trades s v \<noteq> None")
    case True
    then show ?thesis using CLoad assms(2) st.load_hit [of s v] by auto
  next
    case False
    obtain r s' where l: "LoadTrade v s = (r, s')" by force
    then show ?thesis
      using CLoad False assms(2) st.load_miss [of s v s'] st.load_fetch [of s v _ s'] LoadTrade_uid [OF assms(1)]
      by (cases r) auto
  qed
qed (use assms in \<open>auto simp: AllTrades_hit store_trades_load_intents\<close>)

section \<open>Properties\<close>

text \<open>
  C12. Every operation of either store keeps its invariant, \<^verbatim>\<open>AllTrades\<close> and \<^verbatim>\<open>LoadIntents\<close>, which fill the
  memory from the database, included: one entry per key, entries filed under their own identifier, unique
  intent identifiers and row numbers in the order table, whichever statements the database fails and
  wherever it breaks off a result.
\<close>

theorem store_invariant:
  assumes "store_ok s"
  shows "store_ok (fold run_call cs s)"
  using assms by (induction cs arbitrary: s) (simp_all add: run_call_ok)

text \<open>
  C13. The last write wins. Once a trade is stored, any sequence of other calls that does not write
  it again leaves it as it was, for the memory store and for the PostgreSQL store with arbitrary
  statement failures, and loading returns it. The other calls are all the methods of the store; those that
  read the database into the memory, \<^verbatim>\<open>LoadTrade\<close> and \<^verbatim>\<open>AllTrades\<close>, do not bring an older row back.
\<close>

theorem store_last_write_wins:
  assumes "store_ok s" and "\<forall>c\<in>set cs. \<not> writes_trade (tr_TradeUID tr) c \<and> call_ok c"
  shows "fst (LoadTrade (tr_TradeUID tr) (fold run_call cs (UpdateTrade now tr s))) = Some tr"
proof -
  have "store_trades (fold run_call cs s') u = Some tr" if "store_ok s'" "store_trades s' u = Some tr"
    "\<forall>c\<in>set cs. \<not> writes_trade u c \<and> call_ok c" for s' u
    using that by (induction cs arbitrary: s') (auto simp: run_call_ok run_call_keeps)
  from this [of "UpdateTrade now tr s" "tr_TradeUID tr"] assms
  have "store_trades (fold run_call cs (UpdateTrade now tr s)) (tr_TradeUID tr) = Some tr" by simp
  then show ?thesis by (simp add: st.load_hit)
qed

lemma find_upsert_row:
  "find (\<lambda>x. td_trade_uid x = td_trade_uid r) (upsert_row r rows) = Some r \<or>
   (\<exists>c. find (\<lambda>x. td_trade_uid x = td_trade_uid r) (upsert_row r rows) = Some (r\<lparr>td_created_at := c\<rparr>))"
  by (induction rows) auto

lemma hydrate_written:
  assumes "trade_ok tr" "trade_json tr = Some j" "\<not> IsZero (tr_CreatedAt tr)"
  shows "hydrateStoredTradeFromDB (tr_TradeUID tr) (tr_UserID tr) (tr_BrokerName tr)
     (tr_AccountID tr) (tr_Symbol tr) (tr_Status tr) (Some j) c = tr"
proof -
  have "trade_of_json j = tr" using trade_roundtrip [OF assms(1)] assms(2) by simp
  then show ?thesis using assms(3) by (simp add: hydrateStoredTradeFromDB_def Let_def)
qed

text \<open>
  A written trade survives a restart. When the statement that writes it and the one that reads
  it do not fail, its prices are finite and its times are clock readings, a new process that opens the
  same database loads the same trade, out of the document of its row.
\<close>

theorem trade_survives_restart:
  assumes "ps_db p = Some d" and "\<not> db_failed d" and "trade_ok tr" and "\<not> IsZero (tr_CreatedAt tr)"
    and "ps_db (Pg_UpdateTrade now tr p) = Some d'" and "\<not> db_failed d'"
  shows "fst (Pg_LoadTrade (tr_TradeUID tr) (NewPostgresBackedStore (Some d'))) = Some tr"
proof -
  obtain j where j: "trade_json tr = Some j" using trade_roundtrip [OF assms(3)] by blast
  define row where "row = \<lparr>td_trade_uid = tr_TradeUID tr, td_user_id = tr_UserID tr, td_broker_name = tr_BrokerName tr,
    td_account_id = tr_AccountID tr, td_symbol = tr_Symbol tr, td_status = tr_Status tr,
    td_config = Some j, td_created_at = tr_CreatedAt tr\<rparr>"
  have "db_trades d' = upsert_row row (db_trades d)"
    using assms j by (auto simp: Pg_UpdateTrade_def upsertTrade_def sql_upsert_trade_def row_def db_next_def)
  moreover have "hydrate_row row = tr" "hydrate_row (row\<lparr>td_created_at := c\<rparr>) = tr" for c
    using hydrate_written [OF assms(3) j assms(4)] by (simp_all add: row_def hydrate_row_def)
  moreover have "td_trade_uid row = tr_TradeUID tr" by (simp add: row_def)
  ultimately show ?thesis
    using assms(6) find_upsert_row [of row "db_trades d"]
    by (auto simp: Pg_LoadTrade_def NewPostgresBackedStore_def NewMemoryStore_def Mem_LoadTrade_def loadTradeFromDB_def)
qed

section \<open>Witnesses\<close>

definition empty_db :: "(nat \<Rightarrow> bool) \<Rightarrow> (nat \<Rightarrow> gotime) \<Rightarrow> database" where
  "empty_db fault clock = \<lparr>db_trades = [], db_orders = [], db_events = [], db_next_id = 1, db_tick = 0,
     db_fault = fault, db_cut = (\<lambda>_. None), db_now = clock\<rparr>"

definition day_time :: gotime where
  "day_time = \<lparr>t_year = 2025, t_month = 1, t_day = 2, t_hour = 9, t_min = 30, t_sec = 15,
     t_unix_micro = 1735790415000000, t_zone = ''+05:30''\<rparr>"

definition plain_trade :: "string \<Rightarrow> StoredTrade" where
  "plain_trade uid = zero_StoredTrade\<lparr>tr_TradeUID := uid, tr_Status := ''ACTIVE'', tr_CreatedAt := day_time\<rparr>"

definition pg_start :: store where
  "pg_start = PgStore (NewPostgresBackedStore (Some (empty_db (\<lambda>n. n = 1) (\<lambda>_. day_time))))"

lemma pg_start_ok: "store_ok pg_start"
  by (simp add: store_ok_def pg_start_def store_mem_def NewPostgresBackedStore_def db_ok_def empty_db_def)

theorem store_invariant_witness:
  "store_ok (fold run_call [CAll rev, CSave day_time (plain_trade ''T1''), CLoad ''T2'', CLoadIntents day_time ''T1''] pg_start)"
  by (rule store_invariant [OF pg_start_ok])

theorem store_last_write_wins_witness:
  "fst (LoadTrade (tr_TradeUID (plain_trade ''T1'')) (fold run_call [CUpdate day_time (plain_trade ''T2''), CLoad ''T3'', CAll rev]
     (UpdateTrade day_time (plain_trade ''T1'') pg_start))) = Some (plain_trade ''T1'')"
  by (rule store_last_write_wins [OF pg_start_ok]) (simp add: plain_trade_def)

lemma day_time_ok: "time_ok day_time" "\<not> IsZero day_time" "time_ok zero_time"
proof -
  have z: "zone_seconds ''+05:30'' = Some 19800" "zone_seconds ''Z'' = Some 0" by code_simp+
  show "time_ok day_time" by (simp add: time_ok_def day_time_def z civil_seconds_def civil_days_def days_in_def Let_def)
  show "time_ok zero_time" by (simp add: time_ok_def zero_time_def z civil_seconds_def civil_days_def days_in_def Let_def)
  show "\<not> IsZero day_time" by (simp add: IsZero_def day_time_def zero_time_def)
qed

lemma plain_trade_ok: "trade_ok (plain_trade u)"
proof -
  have "fin64 (Fin 0)" using f64_ok_Fin_int [of 0] by (simp add: fin64_def)
  then show ?thesis using day_time_ok
    by (simp add: trade_ok_def config_ok_def plain_trade_def zero_StoredTrade_def zero_MonitorConfig_def int64_ok_def)
qed

theorem trade_survives_restart_witness:
  "fst (Pg_LoadTrade (tr_TradeUID (plain_trade ''T1'')) (NewPostgresBackedStore
     (Some (sql_upsert_trade (plain_trade ''T1'') day_time (empty_db (\<lambda>n. 5 < n) (\<lambda>_. day_time)))))) =
   Some (plain_trade ''T1'')"
proof (rule trade_survives_restart [where now = day_time and d = "empty_db (\<lambda>n. 5 < n) (\<lambda>_. day_time)"
      and p = "NewPostgresBackedStore (Some (empty_db (\<lambda>n. 5 < n) (\<lambda>_. day_time)))"])
  have c: "tr_CreatedAt (plain_trade ''T1'') = day_time" by (simp add: plain_trade_def)
  show "trade_ok (plain_trade ''T1'')" by (rule plain_trade_ok)
  show "\<not> IsZero (tr_CreatedAt (plain_trade ''T1''))" by (simp add: c day_time_ok)
  show "ps_db (Pg_UpdateTrade day_time (plain_trade ''T1'') (NewPostgresBackedStore (Some (empty_db (\<lambda>n. 5 < n) (\<lambda>_. day_time))))) =
    Some (sql_upsert_trade (plain_trade ''T1'') day_time (empty_db (\<lambda>n. 5 < n) (\<lambda>_. day_time)))"
    by (simp add: Pg_UpdateTrade_def upsertTrade_def c NewPostgresBackedStore_def)
  show "\<not> db_failed (sql_upsert_trade (plain_trade ''T1'') day_time (empty_db (\<lambda>n. 5 < n) (\<lambda>_. day_time)))"
    by (simp add: sql_upsert_trade_def db_failed_def empty_db_def db_next_def split: option.split)
qed (simp_all add: NewPostgresBackedStore_def db_failed_def empty_db_def)

end
