(* ===== verification/Trading_Build.thy ===== *)
theory Trading_Build
  imports Trading_Chunker Trading_Store
begin

text \<open>
  The build executor of \<^verbatim>\<open>service.go\<close>: \<^verbatim>\<open>Service\<close>, its clock and outside
  world, and \<^verbatim>\<open>executeBuild\<close>, which sends the orders of each chunk in turn, retries
  what the broker rejected up to three times with a larger price buffer, and stops at the first
  order that is neither filled nor rejected.

  Every order that is sent is first appended to the trade's intents. To speak about what the broker
  sees, \<open>logged\<close> wraps an executor so that it records each intent with its result; the model
  runs unchanged on the wrapped executor. Shown here: success means that each order was filled
  exactly once; an order is sent again only after an error or a rejection, at most three times; a
  pending result is the last thing sent; limit prices are never below one tick.
\<close>

section \<open>Service and world\<close>

record 'b service =
  sv_DefaultClientID :: string
  sv_BrokerFactory :: "'b broker_factory option"
  sv_Snapshot :: "'b snapshot_provider"
  sv_LotSize :: "'b lotsize_provider"
  sv_clock :: "nat \<Rightarrow> gotime"
  sv_getenv :: "string \<Rightarrow> string"

record 'b world =
  w_store :: store
  w_ext :: 'b
  w_tick :: nat

definition NewService ::
  "string \<Rightarrow> 'b broker_factory option \<Rightarrow> 'b snapshot_provider \<Rightarrow> 'b lotsize_provider \<Rightarrow> (nat \<Rightarrow> gotime) \<Rightarrow>
   (string \<Rightarrow> string) \<Rightarrow> 'b service" where
  "NewService clientID bf sp lsp clock env =
     \<lparr>sv_DefaultClientID = clientID, sv_BrokerFactory = bf, sv_Snapshot = sp, sv_LotSize = lsp,
      sv_clock = clock, sv_getenv = env\<rparr>"

definition time_Now :: "'b service \<Rightarrow> 'b world \<Rightarrow> gotime \<times> 'b world" where
  "time_Now svc w = (sv_clock svc (w_tick w), w\<lparr>w_tick := Suc (w_tick w)\<rparr>)"

text \<open>A call of a store method that reads the clock, and one that does not.\<close>

definition st_now :: "'b service \<Rightarrow> (gotime \<Rightarrow> store \<Rightarrow> store) \<Rightarrow> 'b world \<Rightarrow> 'b world" where
  "st_now svc f w = w\<lparr>w_store := f (sv_clock svc (w_tick w)) (w_store w), w_tick := Suc (w_tick w)\<rparr>"

definition st_do :: "(store \<Rightarrow> store) \<Rightarrow> 'b world \<Rightarrow> 'b world" where
  "st_do f w = w\<lparr>w_store := f (w_store w)\<rparr>"

definition st_load :: "string \<Rightarrow> 'b world \<Rightarrow> StoredTrade option \<times> 'b world" where
  "st_load u w = (case LoadTrade u (w_store w) of (r, s) \<Rightarrow> (r, w\<lparr>w_store := s\<rparr>))"

text \<open>A call that leaves the process.\<close>

definition ext_call :: "('b \<Rightarrow> 'r \<times> 'b) \<Rightarrow> 'b world \<Rightarrow> 'r \<times> 'b world" where
  "ext_call f w = (case f (w_ext w) of (r, b) \<Rightarrow> (r, w\<lparr>w_ext := b\<rparr>))"

section \<open>executeBuild\<close>

text \<open>The constant \<^verbatim>\<open>0.05\<close>, one tick, in binary64.\<close>

definition F005 :: f64 where
  "F005 = Fin (3602879701896397 / 72057594037927936)"

definition build_limit :: "f64 \<Rightarrow> f64 \<Rightarrow> nat \<Rightarrow> f64" where
  "build_limit expected sellBuffer retryIter =
     (let bufferMultiplier = itof (int retryIter + 1);
          limit = fmax F005 (fsub expected (fmul sellBuffer bufferMultiplier)) in
      fmul (fround (fdiv limit F005)) F005)"

definition build_intent :: "StoredTrade \<Rightarrow> ExecOrder \<Rightarrow> OrderIntent" where
  "build_intent trade order =
     \<lparr>it_IntentID = eo_UID order, it_TradeUID = tr_TradeUID trade, it_Token = eo_Token order,
      it_Symbol = eo_Symbol order, it_ExchangeSegment = tr_ExchangeSegment trade,
      it_Side = eo_Action order, it_Quantity = eo_Quantity order, it_OrderType = ''LIMIT'',
      it_LimitPrice = Some (eo_LimitPrice order), it_ProductType = tr_ProductType trade,
      it_LegType = eo_OptionType order, it_Phase = ''BUILD'', it_OrderUID = eo_UID order,
      it_BrokerName = tr_BrokerName trade, it_AccountID = tr_AccountID trade,
      it_ExpectedPrice = eo_ExpectedPrice order\<rparr>"

text \<open>One pass over the orders of a chunk; the result is the orders to retry.\<close>

fun build_pass :: "'b service \<Rightarrow> 'b executor \<Rightarrow> StoredTrade \<Rightarrow> f64 \<Rightarrow> nat \<Rightarrow> ExecOrder list \<Rightarrow> 'b world \<Rightarrow>
    (goerr + ExecOrder list) \<times> 'b world" where
  "build_pass svc executor trade sellBuffer retryIter [] w = (Inr [], w)"
| "build_pass svc executor trade sellBuffer retryIter (o1 # os) w =
     (if eo_Quantity o1 \<le> 0 then
        (Inl (GoErr (''invalid build quantity for token '' @ show_int (eo_Token o1) @ '': '' @ show_int (eo_Quantity o1))), w)
      else
        let order = o1\<lparr>eo_LimitPrice := build_limit (eo_ExpectedPrice o1) sellBuffer retryIter\<rparr>;
            it = build_intent trade order;
            w1 = st_now svc (\<lambda>now. AppendIntent now (tr_TradeUID trade) it) w in
        (case ext_call (executor it) w1 of
           (Inl err, w2) \<Rightarrow>
             (case build_pass svc executor trade sellBuffer retryIter os w2 of
                (Inl e, w3) \<Rightarrow> (Inl e, w3)
              | (Inr nextRetry, w3) \<Rightarrow> (Inr (order # nextRetry), w3))
         | (Inr res, w2) \<Rightarrow>
             let w2' = st_do (mark_execution (it_IntentID it) res) w2 in
             if res_Status res \<in> {''FILLED'', ''SUCCESS''} then
               build_pass svc executor trade sellBuffer retryIter os w2'
             else if res_Status res \<in> {''REJECTED'', ''CANCELLED''} then
               (case build_pass svc executor trade sellBuffer retryIter os w2' of
                  (Inl e, w3) \<Rightarrow> (Inl e, w3)
                | (Inr nextRetry, w3) \<Rightarrow> (Inr (order # nextRetry), w3))
             else
               (Inl (PendingFillErr (NewBuildPendingFillError (it_IntentID it) (res_BrokerOrderID res)
                  (res_Status res) (res_FilledQty res) (res_PendingQty res))), w2')))"

definition maxChunkRetries :: nat where
  "maxChunkRetries = 3"

text \<open>The retry loop; \<open>left\<close> is the number of iterations that remain.\<close>

fun build_retries :: "'b service \<Rightarrow> 'b executor \<Rightarrow> StoredTrade \<Rightarrow> f64 \<Rightarrow> nat \<Rightarrow> ExecOrder list \<Rightarrow> 'b world \<Rightarrow>
    (goerr + ExecOrder list) \<times> 'b world" where
  "build_retries svc executor trade sellBuffer 0 orders w = (Inr orders, w)"
| "build_retries svc executor trade sellBuffer (Suc left) orders w =
     (if orders = [] then (Inr [], w)
      else (case build_pass svc executor trade sellBuffer (maxChunkRetries - Suc left) orders w of
          (Inl e, w') \<Rightarrow> (Inl e, w')
        | (Inr nextRetry, w') \<Rightarrow> build_retries svc executor trade sellBuffer left nextRetry w'))"

fun build_chunks :: "'b service \<Rightarrow> 'b executor \<Rightarrow> StoredTrade \<Rightarrow> f64 \<Rightarrow> nat \<Rightarrow> ExecOrder list list \<Rightarrow> 'b world \<Rightarrow>
    (goerr + unit) \<times> 'b world" where
  "build_chunks svc executor trade sellBuffer chunkIdx [] w = (Inr (), w)"
| "build_chunks svc executor trade sellBuffer chunkIdx (chunk # chunks) w =
     (case build_retries svc executor trade sellBuffer maxChunkRetries chunk w of
        (Inl e, w') \<Rightarrow> (Inl e, w')
      | (Inr left, w') \<Rightarrow>
          if left \<noteq> [] then (Inl (GoErr (''build chunk '' @ show_nat (Suc chunkIdx) @ '' failed after retries'')), w')
          else build_chunks svc executor trade sellBuffer (Suc chunkIdx) chunks w')"

definition executeBuild :: "'b service \<Rightarrow> 'b executor \<Rightarrow> StoredTrade \<Rightarrow> ExecOrder list list \<Rightarrow> 'b world \<Rightarrow>
    (goerr + unit) \<times> 'b world" where
  "executeBuild svc executor trade chunks w =
     (let sellBuffer = (if fle (mc_SellBuffer (tr_Config trade)) (Fin 0) then Fin 2 else mc_SellBuffer (tr_Config trade)) in
      build_chunks svc executor trade sellBuffer 0 chunks w)"

section \<open>What the broker sees\<close>

type_synonym exec_log = "(OrderIntent \<times> (goerr + ExecutionResult)) list"

definition logged :: "'b executor \<Rightarrow> ('b \<times> exec_log) executor" where
  "logged ex it b = (case ex it (fst b) of (r, b') \<Rightarrow> (r, (b', snd b @ [(it, r)])))"

abbreviation w_log :: "('b \<times> exec_log) world \<Rightarrow> exec_log" where
  "w_log w \<equiv> snd (w_ext w)"

fun filled_result :: "goerr + ExecutionResult \<Rightarrow> bool" where
  "filled_result (Inl e) = False"
| "filled_result (Inr res) = (res_Status res \<in> {''FILLED'', ''SUCCESS''})"

text \<open>An error, or a result that says the order is dead: the outcomes after which an order is sent again.\<close>

fun dead_result :: "goerr + ExecutionResult \<Rightarrow> bool" where
  "dead_result (Inl e) = True"
| "dead_result (Inr res) = (res_Status res \<in> {''REJECTED'', ''CANCELLED''})"

definition pending_result :: "goerr + ExecutionResult \<Rightarrow> bool" where
  "pending_result r \<longleftrightarrow> \<not> filled_result r \<and> \<not> dead_result r"

definition sent_for :: "string \<Rightarrow> exec_log \<Rightarrow> exec_log" where
  "sent_for uid l = filter (\<lambda>e. it_IntentID (fst e) = uid) l"

section \<open>The log of a build\<close>


definition log_ids :: "exec_log \<Rightarrow> string list" where
  "log_ids l = map (\<lambda>e. it_IntentID (fst e)) l"

definition no_pending :: "exec_log \<Rightarrow> bool" where
  "no_pending l \<longleftrightarrow> list_all (\<lambda>e. \<not> pending_result (snd e)) l"

text \<open>The log of a run that ended in an error: only a pending result, and only as the last entry, stops it.\<close>

definition stopped_log :: "goerr \<Rightarrow> exec_log \<Rightarrow> bool" where
  "stopped_log e l \<longleftrightarrow>
     (if IsBuildPendingFill e then l \<noteq> [] \<and> pending_result (snd (last l)) \<and> no_pending (butlast l) else no_pending l)"

lemma log_simps [simp]:
  "log_ids [] = []" "log_ids (e # l) = it_IntentID (fst e) # log_ids l" "log_ids (l @ l') = log_ids l @ log_ids l'"
  "no_pending []" "no_pending (e # l) \<longleftrightarrow> \<not> pending_result (snd e) \<and> no_pending l"
  "no_pending (l @ l') \<longleftrightarrow> no_pending l \<and> no_pending l'"
  "sent_for u [] = []" "sent_for u (l @ l') = sent_for u l @ sent_for u l'"
  "sent_for u (e # l) = (if it_IntentID (fst e) = u then e # sent_for u l else sent_for u l)"
  by (simp_all add: log_ids_def no_pending_def sent_for_def)

lemma stopped_log_append: "no_pending l \<Longrightarrow> stopped_log e l' \<Longrightarrow> stopped_log e (l @ l')"
  by (auto simp: stopped_log_def butlast_append)

lemma sent_for_other: "u \<notin> set (log_ids l) \<Longrightarrow> sent_for u l = []"
  by (induction l) auto

lemma sent_for_distinct:
  "distinct (log_ids l) \<Longrightarrow> u \<in> set (log_ids l) \<Longrightarrow> \<exists>e\<in>set l. it_IntentID (fst e) = u \<and> sent_for u l = [e]"
  by (induction l) (auto simp: sent_for_other)

lemma ext_logged:
  "ext_call (logged ex it) w = (r, w') \<Longrightarrow> w_log w' = w_log w @ [(it, r)] \<and> w_store w' = w_store w \<and> w_tick w' = w_tick w"
  by (auto simp: ext_call_def logged_def split: prod.splits)

lemma w_ext_st [simp]: "w_ext (st_now svc g w) = w_ext w" "w_ext (st_do f w) = w_ext w"
  by (simp_all add: st_now_def st_do_def)

lemma build_intent_id [simp]: "it_IntentID (build_intent trade ord) = eo_UID ord"
  by (simp add: build_intent_def)

text \<open>What a pass over the orders does, for its three kinds of outcome.\<close>

definition pass_log :: "ExecOrder list \<Rightarrow> goerr + ExecOrder list \<Rightarrow> exec_log \<Rightarrow> bool" where
  "pass_log os r l \<longleftrightarrow> (case r of
      Inr next' \<Rightarrow> log_ids l = map eo_UID os \<and> no_pending l \<and>
        map eo_UID next' = log_ids (filter (\<lambda>e. dead_result (snd e)) l)
    | Inl e \<Rightarrow> log_ids l = map eo_UID (take (length l) os) \<and> stopped_log e l)"

lemma pass_log_Cons:
  "\<not> pending_result r1 \<Longrightarrow> it_IntentID it = eo_UID o1 \<Longrightarrow> pass_log os r l \<Longrightarrow>
    pass_log (o1 # os) (case r of Inl e \<Rightarrow> Inl e | Inr n \<Rightarrow> Inr (if dead_result r1 then o1\<lparr>eo_LimitPrice := p\<rparr> # n else n)) ((it, r1) # l)"
  using stopped_log_append [of "[(it, r1)]"] by (auto simp: pass_log_def split: sum.splits)

lemma build_pass_log:
  "build_pass svc (logged ex) trade sb k os w = (r, w') \<Longrightarrow> \<exists>l. w_log w' = w_log w @ l \<and> pass_log os r l"
proof (induction os arbitrary: w r w')
  case Nil
  then show ?case by (auto simp: pass_log_def)
next
  case (Cons o1 os)
  show ?case
  proof (cases "eo_Quantity o1 \<le> 0")
    case True
    then show ?thesis using Cons.prems by (auto simp: pass_log_def stopped_log_def)
  next
    case False
    define p where "p = build_limit (eo_ExpectedPrice o1) sb k"
    define it where "it = build_intent trade (o1\<lparr>eo_LimitPrice := p\<rparr>)"
    define w1 where "w1 = st_now svc (\<lambda>now. AppendIntent now (tr_TradeUID trade) it) w"
    obtain r1 w2 where x: "ext_call (logged ex it) w1 = (r1, w2)" by force
    then have l2: "w_log w2 = w_log w @ [(it, r1)]" using ext_logged [OF x] by (simp add: w1_def)
    have id: "it_IntentID it = eo_UID o1" by (simp add: it_def)
    note step = Cons.prems [unfolded build_pass.simps Let_def, folded p_def, folded it_def, folded w1_def, unfolded x]
    define w2' where "w2' = (case r1 of Inl _ \<Rightarrow> w2 | Inr res \<Rightarrow> st_do (mark_execution (it_IntentID it) res) w2)"
    have l2': "w_log w2' = w_log w @ [(it, r1)]" using l2 by (simp add: w2'_def split: sum.split)
    show ?thesis
    proof (cases "pending_result r1")
      case True
      then obtain res where res: "r1 = Inr res" "res_Status res \<notin> {''FILLED'', ''SUCCESS''}" "res_Status res \<notin> {''REJECTED'', ''CANCELLED''}"
        by (cases r1) (auto simp: pending_result_def)
      then have "r = Inl (PendingFillErr (NewBuildPendingFillError (it_IntentID it) (res_BrokerOrderID res)
            (res_Status res) (res_FilledQty res) (res_PendingQty res))) \<and> w' = w2'"
        using step False by (simp add: w2'_def)
      then show ?thesis using l2' True id by (auto simp: pass_log_def stopped_log_def)
    next
      case np: False
      obtain r3 w3 where y: "build_pass svc (logged ex) trade sb k os w2' = (r3, w3)" by force
      from Cons.IH [OF this] obtain l where l: "w_log w3 = w_log w2' @ l" "pass_log os r3 l" by blast
      have "r = (case r3 of Inl e \<Rightarrow> Inl e | Inr n \<Rightarrow> Inr (if dead_result r1 then o1\<lparr>eo_LimitPrice := p\<rparr> # n else n)) \<and> w' = w3"
        using step False np y
        by (cases r1; cases r3) (auto simp: pending_result_def w2'_def split: if_splits)
      then show ?thesis using pass_log_Cons [OF np id l(2)] l(1) l2' by auto
    qed
  qed
qed


text \<open>
  The discipline of retries for one order: all its results but the last are dead, and there are at
  most \<open>n\<close> of them.
\<close>

definition retry_ok :: "nat \<Rightarrow> exec_log \<Rightarrow> bool" where
  "retry_ok n l \<longleftrightarrow> length l \<le> n \<and> list_all (\<lambda>e. dead_result (snd e)) (butlast l)"

definition filled_last :: "exec_log \<Rightarrow> bool" where
  "filled_last l \<longleftrightarrow> l \<noteq> [] \<and> filled_result (snd (last l))"

lemma retry_ok_Nil [simp]: "retry_ok n []"
  by (simp add: retry_ok_def)

lemma retry_ok_single [simp]: "retry_ok n [e] \<longleftrightarrow> 0 < n"
  by (auto simp: retry_ok_def)

lemma retry_ok_Cons: "dead_result (snd e) \<Longrightarrow> retry_ok n l \<Longrightarrow> retry_ok (Suc n) (e # l)"
  by (auto simp: retry_ok_def)

lemma retry_ok_mono: "retry_ok m l \<Longrightarrow> m \<le> n \<Longrightarrow> retry_ok n l"
  by (auto simp: retry_ok_def)

definition run_log :: "nat \<Rightarrow> ExecOrder list \<Rightarrow> goerr + ExecOrder list \<Rightarrow> exec_log \<Rightarrow> bool" where
  "run_log n os r l \<longleftrightarrow> set (log_ids l) \<subseteq> eo_UID ` set os \<and> (\<forall>u. retry_ok n (sent_for u l)) \<and>
     (case r of
        Inl e \<Rightarrow> stopped_log e l
      | Inr left' \<Rightarrow> no_pending l \<and> set (map eo_UID left') \<subseteq> eo_UID ` set os \<and>
          (\<forall>u\<in>eo_UID ` set os - eo_UID ` set left'. filled_last (sent_for u l)))"

lemma pass_log_dead:
  assumes "pass_log os (Inr next') l" "distinct (map eo_UID os)"
  shows "distinct (map eo_UID next')" "eo_UID ` set next' \<subseteq> eo_UID ` set os"
    and "u \<in> eo_UID ` set next' \<Longrightarrow> \<exists>e. sent_for u l = [e] \<and> dead_result (snd e)"
    and "u \<in> eo_UID ` set os \<Longrightarrow> u \<notin> eo_UID ` set next' \<Longrightarrow> \<exists>e. sent_for u l = [e] \<and> filled_result (snd e)"
proof -
  have l: "log_ids l = map eo_UID os" "no_pending l" and n: "map eo_UID next' = log_ids (filter (\<lambda>e. dead_result (snd e)) l)"
    using assms(1) by (simp_all add: pass_log_def)
  have dl: "distinct (log_ids l)" using l assms(2) by simp
  show "distinct (map eo_UID next')" using dl unfolding n log_ids_def by (rule distinct_map_filter)
  have sub: "set (map eo_UID next') \<subseteq> set (log_ids l)" unfolding n by (auto simp: log_ids_def)
  then show "eo_UID ` set next' \<subseteq> eo_UID ` set os" using l by simp
  have mem: "u \<in> set (map eo_UID next') \<longleftrightarrow> (\<exists>e\<in>set l. dead_result (snd e) \<and> it_IntentID (fst e) = u)" for u
    unfolding n by (auto simp: log_ids_def)
  have uniq: "e = e'" if "e \<in> set l" "e' \<in> set l" "it_IntentID (fst e) = it_IntentID (fst e')" for e e'
    using dl that by (auto simp: log_ids_def distinct_map inj_on_def)
  show "\<exists>e. sent_for u l = [e] \<and> dead_result (snd e)" if "u \<in> eo_UID ` set next'"
    using that mem [of u] sub sent_for_distinct [OF dl, of u] uniq by (metis image_set subsetD)
  show "\<exists>e. sent_for u l = [e] \<and> filled_result (snd e)" if "u \<in> eo_UID ` set os" "u \<notin> eo_UID ` set next'"
  proof -
    have "u \<in> set (log_ids l)" using that(1) l by simp
    then obtain e where e: "e \<in> set l" "it_IntentID (fst e) = u" "sent_for u l = [e]"
      using sent_for_distinct [OF dl] by blast
    have "\<not> dead_result (snd e)" using mem [of u] that(2) e by auto
    then show ?thesis using l(2) e by (auto simp: no_pending_def list_all_iff pending_result_def)
  qed
qed

text \<open>A pass that ended with an error is a run; a pass that left orders and a run of these make one run.\<close>

lemma run_log_stop:
  assumes "pass_log os (Inl e) l" "distinct (map eo_UID os)"
  shows "run_log (Suc n) os (Inl e) l"
proof -
  have ids: "distinct (log_ids l)" "set (log_ids l) \<subseteq> eo_UID ` set os"
    using assms by (auto simp: pass_log_def simp flip: take_map dest: in_set_takeD)
  then have "retry_ok (Suc n) (sent_for u l)" for u
    using sent_for_distinct [of l u] sent_for_other [of u l] by (cases "u \<in> set (log_ids l)") auto
  then show ?thesis using ids(2) assms(1) by (simp add: run_log_def pass_log_def)
qed

lemma run_log_pass:
  assumes "pass_log os (Inr next') l1" "distinct (map eo_UID os)" "run_log n next' r l2"
  shows "run_log (Suc n) os r (l1 @ l2)"
proof -
  note d = pass_log_dead [OF assms(1,2)]
  have ids2: "set (log_ids l2) \<subseteq> eo_UID ` set next'" and ok2: "retry_ok n (sent_for u l2)" for u
    using assms(3) by (simp_all add: run_log_def)
  have ids: "log_ids l1 = map eo_UID os" "no_pending l1" using assms(1) by (simp_all add: pass_log_def)
  have late: "sent_for u l2 = []" if "u \<notin> eo_UID ` set next'" for u using that ids2 by (intro sent_for_other) auto
  have ok: "retry_ok (Suc n) (sent_for u (l1 @ l2))" for u
  proof (cases "u \<in> eo_UID ` set next'")
    case True
    then show ?thesis using d(3) ok2 [of u] retry_ok_Cons by fastforce
  next
    case False
    then show ?thesis using late [of u] d(4) [of u] ids sent_for_other [of u l1] by (cases "u \<in> eo_UID ` set os") auto
  qed
  have fl: "filled_last (sent_for u (l1 @ l2))" if "u \<in> eo_UID ` set os" "r = Inr left'" "u \<notin> eo_UID ` set left'" for u left'
    using that assms(3) late [of u] d(4) [OF that(1)] by (cases "u \<in> eo_UID ` set next'") (auto simp: run_log_def filled_last_def)
  have sub: "set (log_ids (l1 @ l2)) \<subseteq> eo_UID ` set os" using ids ids2 d(2) by auto
  show ?thesis
  proof (cases r)
    case (Inl e)
    then have "stopped_log e (l1 @ l2)" using assms(3) by (intro stopped_log_append [OF ids(2)]) (simp add: run_log_def)
    then show ?thesis using Inl ok sub by (simp add: run_log_def)
  next
    case (Inr left')
    then have "no_pending (l1 @ l2)" "eo_UID ` set left' \<subseteq> eo_UID ` set next'" using assms(3) ids(2) by (simp_all add: run_log_def)
    then show ?thesis using Inr ok sub fl order_trans [OF _ d(2)] by (simp add: run_log_def)
  qed
qed

lemma build_retries_log:
  "distinct (map eo_UID os) \<Longrightarrow> build_retries svc (logged ex) trade sb n os w = (r, w') \<Longrightarrow>
    \<exists>l. w_log w' = w_log w @ l \<and> run_log n os r l"
proof (induction n arbitrary: os w)
  case 0
  then show ?case by (auto simp: run_log_def intro!: exI [of _ "[]"])
next
  case (Suc n)
  show ?case
  proof (cases "os = []")
    case True
    then show ?thesis using Suc.prems by (auto simp: run_log_def)
  next
    case False
    obtain r1 w1 where p: "build_pass svc (logged ex) trade sb (maxChunkRetries - Suc n) os w = (r1, w1)" by force
    from build_pass_log [OF p] obtain l1 where l1: "w_log w1 = w_log w @ l1" "pass_log os r1 l1" by blast
    show ?thesis
    proof (cases r1)
      case (Inl e)
      then have "r = Inl e \<and> w' = w1" using Suc.prems False p by simp
      then show ?thesis using l1 Inl run_log_stop [OF _ Suc.prems(1)] by blast
    next
      case (Inr next')
      then have "build_retries svc (logged ex) trade sb n next' w1 = (r, w')" using Suc.prems False p by simp
      from Suc.IH [OF pass_log_dead(1) [OF l1(2) [unfolded Inr] Suc.prems(1)] this]
      obtain l2 where "w_log w' = w_log w1 @ l2" "run_log n next' r l2" by blast
      with l1 Inr run_log_pass [OF _ Suc.prems(1)] show ?thesis by (intro exI [of _ "l1 @ l2"]) simp
    qed
  qed
qed

definition build_log :: "ExecOrder list \<Rightarrow> goerr + unit \<Rightarrow> exec_log \<Rightarrow> bool" where
  "build_log os r l \<longleftrightarrow> set (log_ids l) \<subseteq> eo_UID ` set os \<and> (\<forall>u. retry_ok maxChunkRetries (sent_for u l)) \<and>
     (case r of
        Inl e \<Rightarrow> stopped_log e l
      | Inr _ \<Rightarrow> no_pending l \<and> (\<forall>u\<in>eo_UID ` set os. filled_last (sent_for u l)))"

lemma build_log_append:
  assumes "run_log maxChunkRetries chunk (Inr []) l1" "build_log os r l2" "eo_UID ` set chunk \<inter> eo_UID ` set os = {}"
  shows "build_log (chunk @ os) r (l1 @ l2)"
proof -
  have i1: "set (log_ids l1) \<subseteq> eo_UID ` set chunk" and i2: "set (log_ids l2) \<subseteq> eo_UID ` set os"
    using assms(1,2) by (simp_all add: run_log_def build_log_def)
  have s: "sent_for u l1 = [] \<or> sent_for u l2 = []" for u
    using sent_for_other [of u l1] sent_for_other [of u l2] i1 i2 assms(3) by blast
  have ok: "retry_ok maxChunkRetries (sent_for u (l1 @ l2))" for u
    using s [of u] assms(1,2) by (auto simp: run_log_def build_log_def)
  have fl: "filled_last (sent_for u (l1 @ l2))" if "r = Inr v" "u \<in> eo_UID ` set (chunk @ os)" for u v
    using that s [of u] assms(1,2) by (auto simp: run_log_def build_log_def filled_last_def)
  have sub: "set (log_ids (l1 @ l2)) \<subseteq> eo_UID ` set (chunk @ os)" using i1 i2 by (auto simp: image_Un)
  have np: "no_pending l1" using assms(1) by (simp add: run_log_def)
  show ?thesis
  proof (cases r)
    case (Inl e)
    then have "stopped_log e (l1 @ l2)" using assms(2) by (intro stopped_log_append [OF np]) (simp add: build_log_def)
    then show ?thesis using Inl ok sub by (simp add: build_log_def)
  next
    case (Inr v)
    then have "no_pending (l1 @ l2)" using assms(2) np by (simp add: build_log_def)
    then show ?thesis using Inr ok sub fl by (simp add: build_log_def)
  qed
qed

lemma build_chunks_log:
  "distinct (map eo_UID (concat chunks)) \<Longrightarrow> build_chunks svc (logged ex) trade sb i chunks w = (r, w') \<Longrightarrow>
    \<exists>l. w_log w' = w_log w @ l \<and> build_log (concat chunks) r l"
proof (induction chunks arbitrary: i w)
  case Nil
  then show ?case by (auto simp: build_log_def)
next
  case (Cons chunk chunks)
  obtain r1 w1 where p: "build_retries svc (logged ex) trade sb maxChunkRetries chunk w = (r1, w1)" by force
  have dc: "distinct (map eo_UID chunk)" "distinct (map eo_UID (concat chunks))"
    and dj: "eo_UID ` set chunk \<inter> eo_UID ` set (concat chunks) = {}" using Cons.prems(1) by auto
  from build_retries_log [OF dc(1) p] obtain l1 where l1: "w_log w1 = w_log w @ l1" "run_log maxChunkRetries chunk r1 l1" by blast
  consider (err) e where "r1 = Inl e" | (left) left' where "r1 = Inr left'" "left' \<noteq> []" | (finished) "r1 = Inr []"
    by (cases r1) auto
  then show ?case
  proof cases
    case err
    then show ?thesis using Cons.prems p l1 by (intro exI [of _ l1]) (auto simp: run_log_def build_log_def)
  next
    case left
    then show ?thesis using Cons.prems p l1
      by (intro exI [of _ l1]) (auto simp: run_log_def build_log_def stopped_log_def)
  next
    case finished
    then have "build_chunks svc (logged ex) trade sb (Suc i) chunks w1 = (r, w')" using Cons.prems p by simp
    from Cons.IH [OF dc(2) this] obtain l2 where "w_log w' = w_log w1 @ l2" "build_log (concat chunks) r l2" by blast
    with build_log_append [OF l1(2) [unfolded finished] _ dj] l1 show ?thesis by (intro exI [of _ "l1 @ l2"]) simp
  qed
qed

lemma executeBuild_log:
  "distinct (map eo_UID (concat chunks)) \<Longrightarrow> executeBuild svc (logged ex) trade chunks w = (r, w') \<Longrightarrow>
    \<exists>l. w_log w' = w_log w @ l \<and> build_log (concat chunks) r l"
  unfolding executeBuild_def Let_def by (rule build_chunks_log)

text \<open>How a run ends, whatever the identifiers of its orders are.\<close>

definition ended_log :: "goerr + 'r \<Rightarrow> exec_log \<Rightarrow> bool" where
  "ended_log r l \<longleftrightarrow> (case r of Inl e \<Rightarrow> stopped_log e l | Inr _ \<Rightarrow> no_pending l)"

lemma ended_log_append: "no_pending l \<Longrightarrow> ended_log r l' \<Longrightarrow> ended_log r (l @ l')"
  by (auto simp: ended_log_def stopped_log_append split: sum.splits)

lemma build_retries_ends:
  "build_retries svc (logged ex) trade sb n os w = (r, w') \<Longrightarrow> \<exists>l. w_log w' = w_log w @ l \<and> ended_log r l"
proof (induction n arbitrary: os w)
  case (Suc n)
  show ?case
  proof (cases "os = []")
    case False
    obtain r1 w1 where p: "build_pass svc (logged ex) trade sb (maxChunkRetries - Suc n) os w = (r1, w1)" by force
    from build_pass_log [OF p] obtain l1 where l1: "w_log w1 = w_log w @ l1" "pass_log os r1 l1" by blast
    then have l1: "w_log w1 = w_log w @ l1" "ended_log r1 l1" by (simp_all add: pass_log_def ended_log_def split: sum.splits)
    show ?thesis
    proof (cases r1)
      case (Inl e)
      then show ?thesis using Suc.prems False p l1 by (auto simp: ended_log_def)
    next
      case (Inr next')
      then obtain l2 where "w_log w' = w_log w1 @ l2" "ended_log r l2" using Suc.IH [of next' w1] Suc.prems False p by auto
      then show ?thesis using l1 Inr ended_log_append [of l1 r l2] by (auto simp: ended_log_def)
    qed
  qed (use Suc.prems in \<open>auto simp: ended_log_def\<close>)
qed (auto simp: ended_log_def)

lemma build_chunks_ends:
  "build_chunks svc (logged ex) trade sb i chunks w = (r, w') \<Longrightarrow> \<exists>l. w_log w' = w_log w @ l \<and> ended_log r l"
proof (induction chunks arbitrary: i w)
  case (Cons chunk chunks)
  obtain r1 w1 where p: "build_retries svc (logged ex) trade sb maxChunkRetries chunk w = (r1, w1)" by force
  from build_retries_ends [OF p] obtain l1 where l1: "w_log w1 = w_log w @ l1" "ended_log r1 l1" by blast
  show ?case
  proof (cases "r1 = Inr []")
    case True
    then obtain l2 where "w_log w' = w_log w1 @ l2" "ended_log r l2" using Cons.IH [of "Suc i" w1] Cons.prems p by auto
    then show ?thesis using l1 True ended_log_append [of l1 r l2] by (auto simp: ended_log_def)
  next
    case False
    then show ?thesis using Cons.prems p l1 by (cases r1) (auto simp: ended_log_def stopped_log_def split: if_splits)
  qed
qed (auto simp: ended_log_def)

lemma executeBuild_ends:
  "executeBuild svc (logged ex) trade chunks w = (r, w') \<Longrightarrow> \<exists>l. w_log w' = w_log w @ l \<and> ended_log r l"
  unfolding executeBuild_def Let_def by (rule build_chunks_ends)

section \<open>The trail of a build in the store\<close>


definition base_order :: "ExecOrder \<Rightarrow> ExecOrder" where
  "base_order ord = ord\<lparr>eo_LimitPrice := Fin 0\<rparr>"

text \<open>An intent sent for one of the orders \<open>os\<close>, priced for one of the three attempts.\<close>

definition sent_from :: "StoredTrade \<Rightarrow> f64 \<Rightarrow> ExecOrder set \<Rightarrow> OrderIntent \<Rightarrow> bool" where
  "sent_from trade sb os it \<longleftrightarrow> (\<exists>ord\<in>os. \<exists>k<maxChunkRetries. 0 < eo_Quantity ord \<and>
     it = build_intent trade (ord\<lparr>eo_LimitPrice := build_limit (eo_ExpectedPrice ord) sb k\<rparr>))"

text \<open>
  What a stretch of a build does to the world: the log grows, every entry comes from an order, the
  trade's intents grow by exactly what was sent, and the rest of the store is as before.
\<close>

definition trail :: "StoredTrade \<Rightarrow> f64 \<Rightarrow> ExecOrder set \<Rightarrow> ('b \<times> exec_log) world \<Rightarrow> ('b \<times> exec_log) world \<Rightarrow> bool" where
  "trail trade sb os w w' \<longleftrightarrow> (\<exists>l. w_log w' = w_log w @ l \<and> (\<forall>e\<in>set l. sent_from trade sb os (fst e)) \<and>
     store_intents (w_store w') = (store_intents (w_store w))
       (tr_TradeUID trade := store_intents (w_store w) (tr_TradeUID trade) @ map fst l)) \<and>
     store_trades (w_store w') = store_trades (w_store w) \<and>
     (\<forall>u. LoadRuntime u (w_store w') = LoadRuntime u (w_store w)) \<and>
     (store_ok (w_store w) \<longrightarrow> store_ok (w_store w'))"

lemma trail_refl [simp]: "trail trade sb os w w"
  by (simp add: trail_def)

lemma trail_trans: "trail trade sb os w w' \<Longrightarrow> trail trade sb os w' w'' \<Longrightarrow> trail trade sb os w w''"
proof -
  assume a: "trail trade sb os w w'" and b: "trail trade sb os w' w''"
  let ?u = "tr_TradeUID trade"
  from a obtain l where l: "w_log w' = w_log w @ l" "\<forall>e\<in>set l. sent_from trade sb os (fst e)"
    "store_intents (w_store w') = (store_intents (w_store w))(?u := store_intents (w_store w) ?u @ map fst l)"
    by (auto simp: trail_def)
  from b obtain l' where l': "w_log w'' = w_log w' @ l'" "\<forall>e\<in>set l'. sent_from trade sb os (fst e)"
    "store_intents (w_store w'') = (store_intents (w_store w'))(?u := store_intents (w_store w') ?u @ map fst l')"
    by (auto simp: trail_def)
  have "\<exists>l. w_log w'' = w_log w @ l \<and> (\<forall>e\<in>set l. sent_from trade sb os (fst e)) \<and>
      store_intents (w_store w'') = (store_intents (w_store w))(?u := store_intents (w_store w) ?u @ map fst l)"
    using l l' by (intro exI [of _ "l @ l'"]) auto
  then show ?thesis using a b by (simp add: trail_def)
qed

lemma trail_send:
  assumes "ext_call (logged ex it) (st_now svc (\<lambda>now. AppendIntent now (tr_TradeUID trade) it) w) = (r, w2)"
    and "sent_from trade sb os it"
  shows "trail trade sb os w w2" and "trail trade sb os w (st_do (mark_execution i res) w2)"
  using ext_logged [OF assms(1)] assms(2) by (auto simp: trail_def st_now_def st_do_def)

lemma base_order_upd: "base_order o1 = base_order o2 \<Longrightarrow> o1\<lparr>eo_LimitPrice := p\<rparr> = o2\<lparr>eo_LimitPrice := p\<rparr>"
  by (cases o1; cases o2) (simp add: base_order_def)

lemma base_order_fields:
  "base_order o1 = base_order o2 \<Longrightarrow> eo_ExpectedPrice o1 = eo_ExpectedPrice o2 \<and> eo_Quantity o1 = eo_Quantity o2 \<and>
     eo_UID o1 = eo_UID o2"
  by (cases o1; cases o2) (simp add: base_order_def)

lemma sent_from_base:
  assumes "base_order o1 \<in> base_order ` os" "0 < eo_Quantity o1" "k < maxChunkRetries"
  shows "sent_from trade sb os (build_intent trade (o1\<lparr>eo_LimitPrice := build_limit (eo_ExpectedPrice o1) sb k\<rparr>))"
proof -
  obtain o2 where "o2 \<in> os" and eq: "base_order o1 = base_order o2" using assms(1) by auto
  moreover have "o1\<lparr>eo_LimitPrice := p\<rparr> = o2\<lparr>eo_LimitPrice := p\<rparr>" for p by (rule base_order_upd [OF eq])
  ultimately show ?thesis using assms(2,3) base_order_fields [OF eq] by (auto simp: sent_from_def)
qed

lemma base_order_limit [simp]: "base_order (ord\<lparr>eo_LimitPrice := p\<rparr>) = base_order ord"
  by (simp add: base_order_def)

lemma build_pass_trail:
  "build_pass svc (logged ex) trade sb k orders w = (r, w') \<Longrightarrow> k < maxChunkRetries \<Longrightarrow>
    base_order ` set orders \<subseteq> base_order ` os \<Longrightarrow>
    trail trade sb os w w' \<and> (\<forall>next'. r = Inr next' \<longrightarrow> base_order ` set next' \<subseteq> base_order ` os)"
proof (induction orders arbitrary: w r w')
  case (Cons o1 orders)
  show ?case
  proof (cases "eo_Quantity o1 \<le> 0")
    case True
    then show ?thesis using Cons.prems by auto
  next
    case False
    define o2 where "o2 = o1\<lparr>eo_LimitPrice := build_limit (eo_ExpectedPrice o1) sb k\<rparr>"
    define it where "it = build_intent trade o2"
    define w1 where "w1 = st_now svc (\<lambda>now. AppendIntent now (tr_TradeUID trade) it) w"
    obtain r1 w2 where x: "ext_call (logged ex it) w1 = (r1, w2)" by force
    have "sent_from trade sb os it"
      unfolding it_def o2_def using Cons.prems False by (intro sent_from_base) auto
    note sent = trail_send [OF x [unfolded w1_def] this]
    define w2' where "w2' = (case r1 of Inl _ \<Rightarrow> w2 | Inr res \<Rightarrow> st_do (mark_execution (it_IntentID it) res) w2)"
    have t2: "trail trade sb os w w2'" using sent by (simp add: w2'_def split: sum.split)
    obtain r3 w3 where y: "build_pass svc (logged ex) trade sb k orders w2' = (r3, w3)" by force
    from Cons.IH [OF y Cons.prems(2)] Cons.prems(3)
    have t3: "trail trade sb os w2' w3" "\<forall>next'. r3 = Inr next' \<longrightarrow> base_order ` set next' \<subseteq> base_order ` os" by auto
    have o2: "base_order o2 \<in> base_order ` os" using Cons.prems(3) by (auto simp: o2_def)
    note step = Cons.prems(1) [unfolded build_pass.simps Let_def, folded o2_def, folded it_def, folded w1_def, unfolded x]
    have "w' = w2' \<and> (\<exists>e. r = Inl e) \<or> w' = w3 \<and> (\<forall>next'. r = Inr next' \<longrightarrow> (\<exists>n. r3 = Inr n \<and> set next' \<subseteq> insert o2 (set n)))"
      using step False y by (cases r1; cases r3) (auto simp: w2'_def split: if_splits)
    then show ?thesis using t2 t3 o2 trail_trans [OF t2 t3(1)] by blast
  qed
qed auto

lemma build_retries_trail:
  "build_retries svc (logged ex) trade sb n orders w = (r, w') \<Longrightarrow> n \<le> maxChunkRetries \<Longrightarrow>
    base_order ` set orders \<subseteq> base_order ` os \<Longrightarrow> trail trade sb os w w'"
proof (induction n arbitrary: orders w)
  case (Suc n)
  show ?case
  proof (cases "orders = []")
    case False
    obtain r1 w1 where p: "build_pass svc (logged ex) trade sb (maxChunkRetries - Suc n) orders w = (r1, w1)" by force
    have t: "trail trade sb os w w1" "\<forall>next'. r1 = Inr next' \<longrightarrow> base_order ` set next' \<subseteq> base_order ` os"
      using build_pass_trail [OF p _ Suc.prems(3)] Suc.prems(2) by auto
    show ?thesis
    proof (cases r1)
      case (Inl e)
      then show ?thesis using t Suc.prems p False by auto
    next
      case (Inr next')
      then have "trail trade sb os w1 w'" using Suc.IH [of next' w1] Suc.prems t p False by auto
      then show ?thesis using t(1) by (rule trail_trans [rotated])
    qed
  qed (use Suc.prems in auto)
qed simp

lemma build_chunks_trail:
  "build_chunks svc (logged ex) trade sb i chunks w = (r, w') \<Longrightarrow> set (concat chunks) \<subseteq> os \<Longrightarrow> trail trade sb os w w'"
proof (induction chunks arbitrary: i w)
  case (Cons chunk chunks)
  obtain r1 w1 where p: "build_retries svc (logged ex) trade sb maxChunkRetries chunk w = (r1, w1)" by force
  have t: "trail trade sb os w w1" using build_retries_trail [OF p, of os] Cons.prems(2) by auto
  show ?case
  proof (cases "r1 = Inr []")
    case True
    then have "trail trade sb os w1 w'" using Cons.IH [of "Suc i" w1] Cons.prems p by auto
    then show ?thesis using t by (rule trail_trans [rotated])
  next
    case False
    then show ?thesis using t Cons.prems p by (cases r1) auto
  qed
qed simp

lemma F005_is_rounded: "rnd (1 / 20) = F005"
  using rnd_eval [of "- 5" "1 / 20", OF _ _ _ _ round_even_unique [of 7205759403792794]]
  by (simp add: pow2_def F005_def power_int_def power_divide)

lemma F005_rnd: "f64_ok F005"
  using f64_ok_rnd [of "1 / 20"] by (simp only: F005_is_rounded)

lemma fmax_lower: "y \<noteq> NaN \<Longrightarrow> fle (Fin a) (fmax (Fin a) y)"
  by (cases y) (auto simp: fmax_def fle_def)

lemma fle_Fin_cases: "fle (Fin a) y \<Longrightarrow> y = PInf \<or> (\<exists>b. y = Fin b \<and> a \<le> b)"
  by (cases y) (auto simp: fle_def)

lemma tick_rounding_lower:
  assumes "fle F005 x"
  shows "fle F005 (fmul (fround (fdiv x F005)) F005)"
proof -
  define t :: rat where "t = 3602879701896397 / 72057594037927936"
  have t: "F005 = Fin t" "0 < t" by (simp_all add: F005_def t_def)
  have ok: "f64_ok (Fin t)" using F005_rnd t by simp
  from fle_Fin_cases [OF assms [unfolded t]] show ?thesis
  proof
    assume "x = PInf"
    then show ?thesis using t(2) by (simp add: t(1) signed_inf_def)
  next
    assume "\<exists>b. x = Fin b \<and> t \<le> b"
    then obtain b where b: "x = Fin b" "t \<le> b" by blast
    then have "1 \<le> b / t" using t by simp
    then have "fle (Fin 1) (rnd (b / t))" by (rule rnd_lower [OF f64_ok_1])
    then consider "rnd (b / t) = PInf" | c where "rnd (b / t) = Fin c" "1 \<le> c" using fle_Fin_cases by blast
    then show ?thesis
    proof cases
      case 1
      then show ?thesis using b t(2) by (simp add: t(1) signed_inf_def)
    next
      case 2
      then have "1 \<le> round_away c" by (intro round_away_ge) simp_all
      then have "t * 1 \<le> t * of_int (round_away c)" using t by (intro mult_left_mono) simp_all
      then have "fle (Fin t) (rnd (of_int (round_away c) * t))" by (intro rnd_lower [OF ok]) (simp add: mult.commute)
      then show ?thesis using 2 b t(2) by (simp add: t(1))
    qed
  qed
qed

lemma fmul_Fin_not_NaN: "fmul (Fin a) (Fin b) \<noteq> NaN"
  by simp

lemma build_limit_lower:
  assumes "k < maxChunkRetries"
  shows "fle F005 (build_limit (Fin p) (Fin b) k)"
proof -
  have "itof (int k + 1) = Fin (of_int (int k + 1))"
    using assms by (intro itof_exact) (auto simp: maxChunkRetries_def)
  then have "fsub (Fin p) (fmul (Fin b) (itof (int k + 1))) \<noteq> NaN"
    by (cases "rnd (b * of_int (int k + 1))") (auto simp: fsub_def)
  then have "fle F005 (fmax F005 (fsub (Fin p) (fmul (Fin b) (itof (int k + 1)))))"
    unfolding F005_def by (rule fmax_lower)
  then show ?thesis unfolding build_limit_def Let_def by (rule tick_rounding_lower)
qed

lemma executeBuild_trail:
  "executeBuild svc (logged ex) trade chunks w = (r, w') \<Longrightarrow>
    \<exists>sb. trail trade sb (set (concat chunks)) w w' \<and> (sb = Fin 2 \<or> sb = mc_SellBuffer (tr_Config trade))"
  unfolding executeBuild_def Let_def using build_chunks_trail [of svc ex trade _ 0 chunks w r w', OF _ subset_refl]
  by (auto split: if_splits)

section \<open>Properties\<close>

text \<open>
  C4. A build that succeeds has filled every order exactly once: for each order, the broker answered
  the last time it was sent with a fill, and every earlier attempt ended in an error or a rejection,
  at most two of them.
\<close>

theorem build_success_fills:
  assumes "distinct (map eo_UID (concat chunks))"
    and "executeBuild svc (logged ex) trade chunks w = (Inr (), w')" and "w_log w = []"
    and "ord \<in> set (concat chunks)"
  shows "\<exists>tries it r. sent_for (eo_UID ord) (w_log w') = tries @ [(it, r)] \<and> filled_result r \<and>
    length tries \<le> 2 \<and> list_all (\<lambda>e. dead_result (snd e)) tries"
proof -
  from executeBuild_log [OF assms(1,2)] obtain l where l: "w_log w' = l" "build_log (concat chunks) (Inr ()) l"
    using assms(3) by auto
  let ?s = "sent_for (eo_UID ord) l"
  have "filled_last ?s" and "retry_ok 3 ?s"
    using l(2) assms(4) by (auto simp: build_log_def maxChunkRetries_def)
  then have "?s = butlast ?s @ [(fst (last ?s), snd (last ?s))]" "filled_result (snd (last ?s))"
    "length (butlast ?s) \<le> 2" "list_all (\<lambda>e. dead_result (snd e)) (butlast ?s)"
    by (auto simp: filled_last_def retry_ok_def)
  then show ?thesis using l(1) by blast
qed

text \<open>
  C5. No duplicate live orders, whatever the outcome of a build: an order is sent at most three
  times, and it is sent again only after the previous attempt ended in an error or was reported
  rejected or cancelled.
\<close>

theorem build_no_duplicate_orders:
  assumes "distinct (map eo_UID (concat chunks))"
    and "executeBuild svc (logged ex) trade chunks w = (r, w')" and "w_log w = []"
  shows "length (sent_for uid (w_log w')) \<le> 3 \<and> list_all (\<lambda>e. dead_result (snd e)) (butlast (sent_for uid (w_log w')))"
  using executeBuild_log [OF assms(1,2)] assms(3) by (auto simp: build_log_def retry_ok_def maxChunkRetries_def)

text \<open>
  C8. An order that is accepted but not filled stops the build at once: the build reports a pending
  fill exactly when some result was neither a fill nor a rejection, and then that result is the last
  thing the broker was asked for.
\<close>

theorem build_stops_at_pending:
  assumes "distinct (map eo_UID (concat chunks))"
    and "executeBuild svc (logged ex) trade chunks w = (r, w')" and "w_log w = []"
  shows "((\<exists>e. r = Inl e \<and> IsBuildPendingFill e) \<longleftrightarrow> (\<exists>x\<in>set (w_log w'). pending_result (snd x))) \<and>
    list_all (\<lambda>x. \<not> pending_result (snd x)) (butlast (w_log w'))"
proof -
  from executeBuild_log [OF assms(1,2)] obtain l where l: "w_log w' = l" "build_log (concat chunks) r l"
    using assms(3) by auto
  show ?thesis
  proof (cases "\<exists>e. r = Inl e \<and> IsBuildPendingFill e")
    case True
    then have "l \<noteq> []" "pending_result (snd (last l))" "no_pending (butlast l)"
      using l(2) by (auto simp: build_log_def stopped_log_def)
    then show ?thesis using l(1) True by (auto simp: no_pending_def list_all_iff intro!: bexI [of _ "last l"])
  next
    case False
    then have "no_pending l" using l(2) by (auto simp: build_log_def stopped_log_def split: sum.splits if_splits)
    then show ?thesis using l(1) False by (auto simp: no_pending_def list_all_iff dest: in_set_butlastD)
  qed
qed

text \<open>
  The trade's intents are a complete record of what was sent, in order, and every intent sent is
  a limit order with a positive quantity and a price of at least one tick (0.05).
\<close>

theorem build_intents_recorded:
  assumes "executeBuild svc (logged ex) trade chunks w = (r, w')" and "w_log w = []"
    and "store_intents (w_store w) (tr_TradeUID trade) = []"
    and "mc_SellBuffer (tr_Config trade) = Fin b" and "\<forall>ord\<in>set (concat chunks). \<exists>p. eo_ExpectedPrice ord = Fin p"
  shows "store_intents (w_store w') (tr_TradeUID trade) = map fst (w_log w') \<and>
    list_all (\<lambda>it. 0 < it_Quantity it \<and> it_OrderType it = ''LIMIT'' \<and>
       (\<exists>p. it_LimitPrice it = Some p \<and> fle F005 p)) (map fst (w_log w'))"
proof -
  from executeBuild_trail [OF assms(1)] obtain sb where t: "trail trade sb (set (concat chunks)) w w'"
    and sb: "\<exists>c. sb = Fin c" using assms(4) by auto
  from t obtain l where l: "w_log w' = l" "store_intents (w_store w') (tr_TradeUID trade) = map fst l"
    "\<forall>e\<in>set l. sent_from trade sb (set (concat chunks)) (fst e)"
    using assms(2,3) by (auto simp: trail_def)
  have "0 < it_Quantity it \<and> it_OrderType it = ''LIMIT'' \<and> (\<exists>p. it_LimitPrice it = Some p \<and> fle F005 p)"
    if "it \<in> set (map fst l)" for it
  proof -
    have "sent_from trade sb (set (concat chunks)) it" using l(3) that by auto
    then obtain ord k where o: "ord \<in> set (concat chunks)" "k < maxChunkRetries" "0 < eo_Quantity ord"
      "it = build_intent trade (ord\<lparr>eo_LimitPrice := build_limit (eo_ExpectedPrice ord) sb k\<rparr>)"
      unfolding sent_from_def by blast
    then have "fle F005 (build_limit (eo_ExpectedPrice ord) sb k)"
      using assms(5) sb build_limit_lower by metis
    then show ?thesis using o by (simp add: build_intent_def)
  qed
  with l show ?thesis by (simp only: list_all_iff) blast
qed

section \<open>Witnesses\<close>

definition fill_exec :: "unit executor" where
  "fill_exec it b = (Inr \<lparr>res_IntentID = it_IntentID it, res_BrokerOrderID = ''B1'', res_Status = ''FILLED'',
     res_FilledQty = it_Quantity it, res_PendingQty = 0, res_FillPrice = it_ExpectedPrice it,
     res_EventReason = '''', res_LatencyMS = 0, res_RawRequest = '''', res_RawResponse = ''''\<rparr>, b)"

definition open_exec :: "unit executor" where
  "open_exec it b = (Inr \<lparr>res_IntentID = it_IntentID it, res_BrokerOrderID = ''B1'', res_Status = ''OPEN'',
     res_FilledQty = 0, res_PendingQty = it_Quantity it, res_FillPrice = Fin 0,
     res_EventReason = '''', res_LatencyMS = 0, res_RawRequest = '''', res_RawResponse = ''''\<rparr>, b)"

definition demo_service :: "'b service" where
  "demo_service = NewService ''DEMO'' None (\<lambda>_ _ b. (Inl (GoErr ''down''), b)) (\<lambda>_ _ b. (Inl (GoErr ''down''), b))
     (\<lambda>_. day_time) (\<lambda>_. '''')"

definition demo_world :: "(unit \<times> exec_log) world" where
  "demo_world = \<lparr>w_store = MemStore NewMemoryStore, w_ext = ((), []), w_tick = 0\<rparr>"

definition demo_orders :: "ExecOrder list" where
  "demo_orders = [chunk_order ''BUI'' 7 (sample_leg 101 ''CE'' 1) 75 0, chunk_order ''BUI'' 7 (sample_leg 102 ''PE'' 1) 75 1]"

lemma demo_distinct: "distinct (map eo_UID (concat [demo_orders]))"
  by (simp add: demo_orders_def chunk_order_def order_uid_inject)

lemma demo_run:
  "executeBuild demo_service (logged fill_exec) (plain_trade ''T1'') [demo_orders] demo_world =
     (Inr (), snd (executeBuild demo_service (logged fill_exec) (plain_trade ''T1'') [demo_orders] demo_world))"
  by (simp add: executeBuild_def demo_orders_def maxChunkRetries_def numeral_3_eq_3 chunk_order_def ext_call_def
      logged_def fill_exec_def Let_def)

theorem build_success_fills_witness:
  "\<exists>tries it r. sent_for (eo_UID (hd demo_orders))
      (w_log (snd (executeBuild demo_service (logged fill_exec) (plain_trade ''T1'') [demo_orders] demo_world))) = tries @ [(it, r)] \<and>
    filled_result r \<and> length tries \<le> 2 \<and> list_all (\<lambda>e. dead_result (snd e)) tries"
  by (rule build_success_fills [OF demo_distinct demo_run]) (simp_all add: demo_world_def demo_orders_def)

theorem build_no_duplicate_orders_witness:
  "length (sent_for ''BUI_7'' (w_log (snd (executeBuild demo_service (logged open_exec) (plain_trade ''T1'') [demo_orders] demo_world)))) \<le> 3 \<and>
   list_all (\<lambda>e. dead_result (snd e)) (butlast (sent_for ''BUI_7''
     (w_log (snd (executeBuild demo_service (logged open_exec) (plain_trade ''T1'') [demo_orders] demo_world)))))"
  by (rule build_no_duplicate_orders [OF demo_distinct surjective_pairing]) (simp add: demo_world_def)

theorem build_stops_at_pending_witness:
  "((\<exists>e. fst (executeBuild demo_service (logged open_exec) (plain_trade ''T1'') [demo_orders] demo_world) = Inl e \<and> IsBuildPendingFill e) \<longleftrightarrow>
     (\<exists>x\<in>set (w_log (snd (executeBuild demo_service (logged open_exec) (plain_trade ''T1'') [demo_orders] demo_world))). pending_result (snd x))) \<and>
   list_all (\<lambda>x. \<not> pending_result (snd x))
     (butlast (w_log (snd (executeBuild demo_service (logged open_exec) (plain_trade ''T1'') [demo_orders] demo_world))))"
  by (rule build_stops_at_pending [OF demo_distinct surjective_pairing]) (simp add: demo_world_def)

theorem build_intents_recorded_witness:
  "store_intents (w_store (snd (executeBuild demo_service (logged fill_exec) (plain_trade ''T1'') [demo_orders] demo_world)))
      (tr_TradeUID (plain_trade ''T1'')) =
     map fst (w_log (snd (executeBuild demo_service (logged fill_exec) (plain_trade ''T1'') [demo_orders] demo_world))) \<and>
   list_all (\<lambda>it. 0 < it_Quantity it \<and> it_OrderType it = ''LIMIT'' \<and> (\<exists>p. it_LimitPrice it = Some p \<and> fle F005 p))
     (map fst (w_log (snd (executeBuild demo_service (logged fill_exec) (plain_trade ''T1'') [demo_orders] demo_world))))"
  by (rule build_intents_recorded [OF demo_run])
    (simp_all add: demo_world_def store_intents_def mem_intents_def store_mem_def Mem_LoadIntents_def NewMemoryStore_def
      plain_trade_def zero_StoredTrade_def zero_MonitorConfig_def demo_orders_def chunk_order_def sample_leg_def)

end
