(* ===== verification/Trading_Deploy.thy ===== *)
theory Trading_Deploy
  imports Trading_Build
begin

text \<open>
  \<^verbatim>\<open>Service.DeployStraddle\<close> of \<^verbatim>\<open>service.go\<close> with the runtime it starts
  (\<^verbatim>\<open>runtime.go\<close>): request defaults, choice of the two option rows, tokens, lot size and
  quantities, the stored trade, the two legs, the build and the final status. One definition per
  stage, composed in the order of the code; a failed stage ends the call with its error.

  Shown here: a straddle that is reported as deployed is stored \<^verbatim>\<open>ACTIVE\<close>, watched by a
  runtime, and every order of both legs was filled exactly once, for the full quantity; a build that
  fails leaves the trade \<^verbatim>\<open>FAILED\<close>, or \<^verbatim>\<open>PENDING\_FILL\<close> when an order is still
  open; a request for more than one lot, or without live prices, sends nothing.
\<close>

section \<open>The request\<close>

definition normalize_request :: "string \<Rightarrow> DeployStraddleRequest \<Rightarrow> DeployStraddleRequest" where
  "normalize_request defaultClientID req =
     (let req = req\<lparr>rq_Symbol := NormalizeSymbol (rq_Symbol req), rq_UserID := TrimSpace (rq_UserID req),
            rq_BrokerName := ToUpper (TrimSpace (rq_BrokerName req)), rq_AccountID := TrimSpace (rq_AccountID req),
            rq_ProductType := ToUpper (TrimSpace (rq_ProductType req)),
            rq_ExchangeSegment := ToUpper (TrimSpace (rq_ExchangeSegment req)),
            rq_TargetExpiry := TrimSpace (rq_TargetExpiry req)\<rparr>;
          req = (if rq_UserID req = '''' then req\<lparr>rq_UserID := ''U001''\<rparr> else req);
          req = (if rq_BrokerName req = '''' then req\<lparr>rq_BrokerName := ''XTS''\<rparr> else req);
          req = (if rq_AccountID req = ''''
                 then req\<lparr>rq_AccountID := (if rq_BrokerName req = ''GREEKSOFT'' then ''HRITIK'' else defaultClientID)\<rparr>
                 else req);
          req = (if rq_ProductType req = ''''
                 then req\<lparr>rq_ProductType := (if rq_BrokerName req = ''GREEKSOFT'' then ''NRML'' else ''MIS'')\<rparr>
                 else req) in
      if rq_Lots req \<le> 0 then req\<lparr>rq_Lots := 1\<rparr> else req)"

definition deploy_segment :: "DeployStraddleRequest \<Rightarrow> string" where
  "deploy_segment req = (let exchangeSegment = ResolveExchangeSegment (rq_Symbol req) (rq_ExchangeSegment req) in
     if exchangeSegment = '''' then ''NSEFO'' else exchangeSegment)"

section \<open>Rows, tokens and sizes\<close>

definition select_rows :: "DeployStraddleRequest \<Rightarrow> OptionChainSnapshot \<Rightarrow> goerr + (OptionChainRow \<times> OptionChainRow \<times> f64)" where
  "select_rows req chain =
     (if 0 < rq_CEStrikePrice req \<or> 0 < rq_PEStrikePrice req then
        if rq_CEStrikePrice req \<le> 0 \<or> rq_PEStrikePrice req \<le> 0 then
          Inl (GoErr ''both ceStrikePrice and peStrikePrice are required'')
        else
          (case FindRowByStrike chain (rq_CEStrikePrice req) of
             Inl err \<Rightarrow> Inl (GoWrap ''CE strike lookup failed: '' err)
           | Inr ceRow \<Rightarrow>
               (case FindRowByStrike chain (rq_PEStrikePrice req) of
                  Inl err \<Rightarrow> Inl (GoWrap ''PE strike lookup failed: '' err)
                | Inr peRow \<Rightarrow> Inr (ceRow, peRow, fdiv (fadd (row_Strike ceRow) (row_Strike peRow)) (Fin 2))))
      else
        (case FindATMRow chain of
           Inl err \<Rightarrow> Inl err
         | Inr atmRow \<Rightarrow> Inr (atmRow, atmRow, row_Strike atmRow)))"

definition select_tokens :: "DeployStraddleRequest \<Rightarrow> OptionChainRow \<Rightarrow> OptionChainRow \<Rightarrow> goerr + (int \<times> int)" where
  "select_tokens req ceRow peRow =
     (let ceToken = (if rq_CEToken req = 0 then row_CEToken ceRow else rq_CEToken req);
          peToken = (if rq_PEToken req = 0 then row_PEToken peRow else rq_PEToken req) in
      if ceToken = 0 \<or> peToken = 0 then Inl (GoErr ''CE/PE tokens not available'') else Inr (ceToken, peToken))"

definition prices_missing :: "OptionChainRow \<Rightarrow> OptionChainRow \<Rightarrow> bool" where
  "prices_missing ceRow peRow \<longleftrightarrow> fle (row_CELtp ceRow) (Fin 0) \<or> fle (row_PELtp peRow) (Fin 0)"

definition ltp_error :: "string \<Rightarrow> string \<Rightarrow> DeployStraddleRequest \<Rightarrow> OptionChainSnapshot \<Rightarrow> f64 \<Rightarrow> OptionChainRow \<Rightarrow> OptionChainRow \<Rightarrow> goerr" where
  "ltp_error what refusing req chain strike ceRow peRow =
     GoErr (what @ rq_Symbol req @ '' expiry='' @ ch_Expiry chain @ '' strike='' @ fmt_f 0 strike @
       '': ce_ltp='' @ fmt_f 2 (row_CELtp ceRow) @ '' pe_ltp='' @ fmt_f 2 (row_PELtp peRow) @ refusing)"

definition resolve_lot_size :: "'b service \<Rightarrow> DeployStraddleRequest \<Rightarrow> OptionChainSnapshot \<Rightarrow> 'b world \<Rightarrow> int \<times> 'b world" where
  "resolve_lot_size svc req chain w =
     (let lotSize = rq_LotSize req;
          lotSize = (if lotSize = 0 \<and> 0 < ch_LotSize chain then ch_LotSize chain else lotSize);
          (lotSize, w) = (if lotSize = 0
             then (case ext_call (sv_LotSize svc (rq_Symbol req) (ch_Expiry chain)) w of
                 (Inr ls, w') \<Rightarrow> (if 0 < ls then ls else lotSize, w')
               | (Inl _, w') \<Rightarrow> (lotSize, w'))
             else (lotSize, w)) in
      (if lotSize = 0 then GetFallbackLotSize (rq_Symbol req) else lotSize, w))"

definition check_lots :: "DeployStraddleRequest \<Rightarrow> int \<Rightarrow> goerr + DeployStraddleRequest" where
  "check_lots req lotSize =
     (if lotSize \<le> 0 then Inl (GoErr (''invalid lot size for symbol '' @ rq_Symbol req))
      else if rq_Lots req \<le> 0 then Inl (GoErr (''invalid lots: '' @ show_int (rq_Lots req)))
      else if 1 < rq_Lots req then
        Inl (GoErr (''refusing unsafe test deployment: lots='' @ show_int (rq_Lots req) @ ''; use lots=1 for UI/demo straddle test''))
      else
        let req = (if rq_OrderLotsPerCall req \<le> 0 then req\<lparr>rq_OrderLotsPerCall := 1\<rparr> else req) in
        Inr (if rq_Lots req < rq_OrderLotsPerCall req then req\<lparr>rq_OrderLotsPerCall := rq_Lots req\<rparr> else req))"

text \<open>The lots of the two legs and the net delta, with the delta-neutral adjustment.\<close>

definition size_legs :: "DeployStraddleRequest \<Rightarrow> int \<Rightarrow> OptionChainRow \<Rightarrow> OptionChainRow \<Rightarrow> int \<times> int \<times> f64" where
  "size_legs req lotSize ceRow peRow =
     (let ceDelta = row_CEDelta ceRow; peDelta = row_PEDelta peRow in
      if rq_DeltaNeutral req \<and> \<not> feq ceDelta (Fin 0) \<and> \<not> feq peDelta (Fin 0) then
        let targetContracts = i64_mul (rq_Lots req) lotSize;
            ratio = fabs (fdiv ceDelta peDelta);
            peContracts = ftoi (fround (itof targetContracts));
            ceContracts = ftoi (fround (fmul (itof targetContracts) ratio));
            ceContracts = (if ceContracts < lotSize then lotSize else ceContracts);
            peContracts = (if peContracts < lotSize then lotSize else peContracts);
            ceLots = maxInt 1 (i64_div ceContracts lotSize);
            peLots = maxInt 1 (i64_div peContracts lotSize) in
        (ceLots, peLots, fadd (fmul (itof (i64_mul ceLots lotSize)) ceDelta) (fmul (itof (i64_mul peLots lotSize)) peDelta))
      else (rq_Lots req, rq_Lots req, Fin 0))"

definition chooseUnderlying :: "OptionChainSnapshot \<Rightarrow> f64" where
  "chooseUnderlying chain =
     (if \<not> feq (ch_SyntheticSpot chain) (Fin 0) then ch_SyntheticSpot chain
      else if \<not> feq (ch_SyntheticFuture chain) (Fin 0) then ch_SyntheticFuture chain
      else if \<not> feq (ch_FutureLtp chain) (Fin 0) then ch_FutureLtp chain
      else Fin 0)"

section \<open>Planning a deployment\<close>

text \<open>What the stages up to the stored trade have established.\<close>

record deploy_plan =
  dp_req :: DeployStraddleRequest
  dp_chain :: OptionChainSnapshot
  dp_ceRow :: OptionChainRow
  dp_peRow :: OptionChainRow
  dp_strike :: f64
  dp_ceToken :: int
  dp_peToken :: int
  dp_lotSize :: int
  dp_ceLots :: int
  dp_peLots :: int
  dp_netDelta :: f64

definition plan_sizes :: "'b service \<Rightarrow> DeployStraddleRequest \<Rightarrow> OptionChainSnapshot \<Rightarrow> 'b world \<Rightarrow> (goerr + deploy_plan) \<times> 'b world" where
  "plan_sizes svc req chain w =
     (case select_rows req chain of
        Inl e \<Rightarrow> (Inl e, w)
      | Inr (ceRow, peRow, strike) \<Rightarrow>
          (case select_tokens req ceRow peRow of
             Inl e \<Rightarrow> (Inl e, w)
           | Inr (ceToken, peToken) \<Rightarrow>
               if prices_missing ceRow peRow then
                 (Inl (ltp_error ''invalid option LTP for '' ''; refusing to place fallback 0.05 order'' req chain strike ceRow peRow), w)
               else
                 (case resolve_lot_size svc req chain w of
                    (lotSize, w) \<Rightarrow>
                      (case check_lots req lotSize of
                         Inl e \<Rightarrow> (Inl e, w)
                       | Inr req \<Rightarrow>
                           (case size_legs req lotSize ceRow peRow of
                              (ceLots, peLots, netDelta) \<Rightarrow>
                                let ceQty = i64_mul ceLots lotSize; peQty = i64_mul peLots lotSize in
                                if ceQty \<le> 0 \<or> peQty \<le> 0 then
                                  (Inl (GoErr (''computed invalid quantities ce='' @ show_int ceQty @ '' pe='' @ show_int peQty)), w)
                                else if prices_missing ceRow peRow then
                                  (Inl (ltp_error ''invalid live option price for '' ''; refusing to create 0.05 fallback orders'' req chain strike ceRow peRow), w)
                                else
                                  (Inr \<lparr>dp_req = req, dp_chain = chain, dp_ceRow = ceRow, dp_peRow = peRow,
                                     dp_strike = strike, dp_ceToken = ceToken, dp_peToken = peToken,
                                     dp_lotSize = lotSize, dp_ceLots = ceLots, dp_peLots = peLots,
                                     dp_netDelta = netDelta\<rparr>, w))))))"

definition deploy_trade :: "deploy_plan \<Rightarrow> gotime \<Rightarrow> StoredTrade" where
  "deploy_trade dp now =
     (let req = dp_req dp in
      \<lparr>tr_TradeUID = BuildTradeUID (rq_UserID req) (rq_BrokerName req) (rq_AccountID req) (rq_Symbol req)
         (ch_Expiry (dp_chain dp)) (dp_strike dp) now,
       tr_UserID = rq_UserID req, tr_BrokerName = rq_BrokerName req, tr_AccountID = rq_AccountID req,
       tr_Symbol = rq_Symbol req, tr_Expiry = ch_Expiry (dp_chain dp), tr_Strike = dp_strike dp,
       tr_ProductType = rq_ProductType req, tr_ExchangeSegment = deploy_segment req,
       tr_CEToken = dp_ceToken dp, tr_PEToken = dp_peToken dp,
       tr_CEQty = i64_mul (dp_ceLots dp) (dp_lotSize dp), tr_PEQty = i64_mul (dp_peLots dp) (dp_lotSize dp),
       tr_CELtp = row_CELtp (dp_ceRow dp), tr_PELtp = row_PELtp (dp_peRow dp), tr_NetDelta = dp_netDelta dp,
       tr_Status = ''BUILDING'', tr_Mode = rq_BrokerName req, tr_Underlying = chooseUnderlying (dp_chain dp),
       tr_LotSize = dp_lotSize dp, tr_Lots = rq_Lots req, tr_CreatedAt = now, tr_LastUpdateTime = now,
       tr_Config = \<lparr>mc_BuyBuffer = Fin 2, mc_SellBuffer = Fin 2, mc_SLPointsPerLot = Fin 0,
         mc_HedgeThresholdDelta = Fin 0, mc_StraddleStopPrice = Fin 0,
         mc_OrderLotsPerCall = rq_OrderLotsPerCall req, mc_PollIntervalSec = 1\<rparr>\<rparr>)"

definition deploy_legs :: "deploy_plan \<Rightarrow> LegData list" where
  "deploy_legs dp =
     (if 0 < dp_ceLots dp then
        [\<lparr>lg_Token = dp_ceToken dp, lg_Symbol = rq_Symbol (dp_req dp), lg_OptionType = ''CE'', lg_Action = ''SELL'',
          lg_TotalLots = dp_ceLots dp, lg_LotSize = dp_lotSize dp, lg_ExpectedPrice = row_CELtp (dp_ceRow dp),
          lg_ExchangeSegment = deploy_segment (dp_req dp)\<rparr>] else []) @
     (if 0 < dp_peLots dp then
        [\<lparr>lg_Token = dp_peToken dp, lg_Symbol = rq_Symbol (dp_req dp), lg_OptionType = ''PE'', lg_Action = ''SELL'',
          lg_TotalLots = dp_peLots dp, lg_LotSize = dp_lotSize dp, lg_ExpectedPrice = row_PELtp (dp_peRow dp),
          lg_ExchangeSegment = deploy_segment (dp_req dp)\<rparr>] else [])"

section \<open>runtime.go\<close>

definition startRuntime :: "StoredTrade \<Rightarrow> 'b world \<Rightarrow> 'b world" where
  "startRuntime trade w = (case LoadRuntime (tr_TradeUID trade) (w_store w) of
      Some _ \<Rightarrow> w
    | None \<Rightarrow> st_do (SaveRuntime \<lparr>rt_Trade = trade,
        rt_Snapshot = zero_TradeSnapshot\<lparr>ts_TradeUID := tr_TradeUID trade\<rparr>,
        rt_StopClosed = False, rt_DoneClosed = False\<rparr>) w)"

section \<open>DeployStraddle\<close>

definition deploy_response :: "deploy_plan \<Rightarrow> StoredTrade \<Rightarrow> int \<Rightarrow> gotime \<Rightarrow> DeployStraddleResponse" where
  "deploy_response dp trade durationMS created =
     \<lparr>rp_Success = True, rp_TradeUID = tr_TradeUID trade, rp_Status = tr_Status trade,
      rp_Message = ''Straddle deployment initiated via '' @ rq_BrokerName (dp_req dp),
      rp_Symbol = rq_Symbol (dp_req dp), rp_Expiry = ch_Expiry (dp_chain dp), rp_Strike = dp_strike dp,
      rp_CEToken = dp_ceToken dp, rp_PEToken = dp_peToken dp, rp_CEQty = tr_CEQty trade, rp_PEQty = tr_PEQty trade,
      rp_CELtp = row_CELtp (dp_ceRow dp), rp_PELtp = row_PELtp (dp_peRow dp), rp_NetDelta = dp_netDelta dp,
      rp_LotSize = dp_lotSize dp, rp_Lots = rq_Lots (dp_req dp), rp_DurationMS = durationMS,
      rp_CreatedAt = fmt_rfc3339 created, rp_Error = ''''\<rparr>"

text \<open>The three stages from the stored trade to the response: store it, and after the build record its outcome.\<close>

definition store_building :: "'b service \<Rightarrow> deploy_plan \<Rightarrow> 'b world \<Rightarrow> StoredTrade \<times> 'b world" where
  "store_building svc dp w =
     (let (now, w) = time_Now svc w; trade = deploy_trade dp now in
      (trade, st_now svc (\<lambda>t. SaveTrade t trade) w))"

definition deploy_failed :: "'b service \<Rightarrow> StoredTrade \<Rightarrow> goerr \<Rightarrow> 'b world \<Rightarrow> 'b world" where
  "deploy_failed svc trade err w =
     (let (t, w) = time_Now svc w;
          failed = trade\<lparr>tr_Status := buildFailureStatusFromError err, tr_LastUpdateTime := t\<rparr> in
      st_now svc (\<lambda>t. UpdateTrade t failed) w)"

definition deploy_active :: "'b service \<Rightarrow> gotime \<Rightarrow> deploy_plan \<Rightarrow> StoredTrade \<Rightarrow> 'b world \<Rightarrow> DeployStraddleResponse \<times> 'b world" where
  "deploy_active svc start dp trade w =
     (let (t, w) = time_Now svc w;
          active = trade\<lparr>tr_Status := ''ACTIVE'', tr_LastUpdateTime := t\<rparr>;
          w = startRuntime active (st_now svc (\<lambda>t. UpdateTrade t active) w);
          (finish, w) = time_Now svc w;
          (created, w) = time_Now svc w in
      (deploy_response dp active (millis_between start finish) created, w))"

definition plan_chunks :: "gotime \<Rightarrow> StoredTrade \<Rightarrow> deploy_plan \<Rightarrow> goerr + ExecOrder list list" where
  "plan_chunks now trade dp = GenerateChunkedOrders now (''BUI_'' @ tr_TradeUID trade) (deploy_legs dp) (rq_Lots (dp_req dp))
     (MaxOrderQtyForSymbol (rq_Symbol (dp_req dp))) (rq_OrderLotsPerCall (dp_req dp))"

definition deploy_execute :: "'b service \<Rightarrow> 'b executor \<Rightarrow> gotime \<Rightarrow> deploy_plan \<Rightarrow> 'b world \<Rightarrow> (goerr + DeployStraddleResponse) \<times> 'b world" where
  "deploy_execute svc executor start dp w =
     (case store_building svc dp w of (trade, w) \<Rightarrow>
       (case time_Now svc w of (chunkNow, w) \<Rightarrow>
         (case plan_chunks chunkNow trade dp of
            Inl e \<Rightarrow> (Inl e, w)
          | Inr chunks \<Rightarrow>
              (case executeBuild svc executor trade chunks w of
                 (Inl err, w) \<Rightarrow> (Inl err, deploy_failed svc trade err w)
               | (Inr _, w) \<Rightarrow> (case deploy_active svc start dp trade w of (resp, w) \<Rightarrow> (Inr resp, w))))))"

definition DeployStraddle :: "'b service \<Rightarrow> DeployStraddleRequest \<Rightarrow> 'b world \<Rightarrow> (goerr + DeployStraddleResponse) \<times> 'b world" where
  "DeployStraddle svc req w =
     (let (start, w) = time_Now svc w; req = normalize_request (sv_DefaultClientID svc) req in
      if rq_Symbol req = '''' then (Inl (GoErr ''symbol is required''), w)
      else (case sv_BrokerFactory svc of
          None \<Rightarrow> (Inl (GoPanic ''nil pointer dereference''), w)
        | Some factory \<Rightarrow>
            (case ext_call (factory (rq_UserID req) (rq_BrokerName req) (rq_AccountID req)) w of
               (Inl e, w) \<Rightarrow> (Inl (GoWrap ''failed to get executor: '' e), w)
             | (Inr executor, w) \<Rightarrow>
                 (case ext_call (sv_Snapshot svc (rq_Symbol req) (rq_TargetExpiry req)) w of
                    (Inl e, w) \<Rightarrow> (Inl (GoWrap ''failed to fetch option chain: '' e), w)
                  | (Inr chain, w) \<Rightarrow>
                      (case plan_sizes svc req chain w of
                         (Inl e, w) \<Rightarrow> (Inl e, w)
                       | (Inr dp, w) \<Rightarrow> deploy_execute svc executor start dp w)))))"

end
