(* ===== verification/Go_Fmt.thy ===== *)
theory Go_Fmt
  imports Go_Json
begin

text \<open>
  The parts of \<^verbatim>\<open>fmt\<close> that the platform applies to decoded JSON: the verb
  \<^verbatim>\<open>%v\<close> and \<^verbatim>\<open>Sscanf\<close> with \<^verbatim>\<open>%f\<close>.
\<close>

section \<open>The shortest decimal form of a float\<close>

text \<open>The decimal exponent of a positive number.\<close>

definition dec_exp :: "rat \<Rightarrow> int" where
  "dec_exp x = (let (p, q) = quotient_of x; e = int (length (show_int p)) - int (length (show_int q)) in
     if 10 powi e \<le> x then e else e - 1)"

definition dec_digits :: "rat \<Rightarrow> nat \<Rightarrow> int" where
  "dec_digits x n = round_even (x / 10 powi (dec_exp x - int n + 1))"

text \<open>The fewest digits that read back to the same binary64 number; seventeen always do.\<close>

definition shortest_len :: "rat \<Rightarrow> nat" where
  "shortest_len x = (case find (\<lambda>n. rnd (of_int (dec_digits x n) * 10 powi (dec_exp x - int n + 1)) = Fin x) [1..<17] of
      Some n \<Rightarrow> n | None \<Rightarrow> 17)"

definition trim_zeros :: "string \<Rightarrow> string" where
  "trim_zeros s = (case TrimRightChar s (CHR ''0'') of [] \<Rightarrow> ''0'' | t \<Rightarrow> t)"

definition fmt_g_pos :: "rat \<Rightarrow> string" where
  "fmt_g_pos x =
     (let n = shortest_len x; d = dec_digits x n; e = (if d = 10 ^ n then dec_exp x + 1 else dec_exp x);
          ds = trim_zeros (show_int d); k = length ds in
      if e < - 4 \<or> 6 \<le> e then
        hd ds # (if 1 < k then CHR ''.'' # tl ds else []) @ ''e'' @ (if e < 0 then ''-'' else ''+'') @ pad2 (nat \<bar>e\<bar>)
      else if e < 0 then ''0.'' @ replicate (nat (- e) - 1) (CHR ''0'') @ ds
      else if k \<le> nat e + 1 then ds @ replicate (nat e + 1 - k) (CHR ''0'')
      else take (nat e + 1) ds @ ''.'' @ drop (nat e + 1) ds)"

fun fmt_g :: "f64 \<Rightarrow> string" where
  "fmt_g (Fin a) = (if a = 0 then ''0'' else if a < 0 then CHR ''-'' # fmt_g_pos (- a) else fmt_g_pos a)"
| "fmt_g PInf = ''+Inf''"
| "fmt_g NInf = ''-Inf''"
| "fmt_g NaN = ''NaN''"

section \<open>Values\<close>

fun join :: "string \<Rightarrow> string list \<Rightarrow> string" where
  "join sep [] = []"
| "join sep [s] = s"
| "join sep (s # t # ss) = s @ sep @ join sep (t # ss)"

text \<open>Maps print in the order of their keys.\<close>

fun str_le :: "string \<Rightarrow> string \<Rightarrow> bool" where
  "str_le [] t = True"
| "str_le (c # s) [] = False"
| "str_le (c # s) (d # t) = ((of_char c :: nat) < of_char d \<or> (c = d \<and> str_le s t))"

fun insert_key :: "string \<times> string \<Rightarrow> (string \<times> string) list \<Rightarrow> (string \<times> string) list" where
  "insert_key e [] = [e]"
| "insert_key e (x # xs) = (if fst e = fst x then e # xs else if str_le (fst e) (fst x) then e # x # xs else x # insert_key e xs)"

fun fmt_v :: "json \<Rightarrow> string" where
  "fmt_v JNull = ''<nil>''"
| "fmt_v (JBool b) = (if b then ''true'' else ''false'')"
| "fmt_v (JNum r) = fmt_g (rnd r)"
| "fmt_v (JStr s) = s"
| "fmt_v (JArr l) = ''['' @ join '' '' (map fmt_v l) @ '']''"
| "fmt_v (JObj m) = ''map['' @ join '' '' (map (\<lambda>e. fst e @ '':'' @ snd e) (fold insert_key (map (\<lambda>e. (fst e, fmt_v (snd e))) m) [])) @ '']''"

section \<open>Scanning a float\<close>

fun digits_prefix :: "string \<Rightarrow> string \<times> string" where
  "digits_prefix [] = ([], [])"
| "digits_prefix (c # s) = (if is_digit c then (case digits_prefix s of (d, r) \<Rightarrow> (c # d, r)) else ([], c # s))"

definition scan_sign :: "string \<Rightarrow> bool \<times> string" where
  "scan_sign s = (case s of
      c # r \<Rightarrow> if c = CHR ''-'' then (True, r) else if c = CHR ''+'' then (False, r) else (False, s)
    | [] \<Rightarrow> (False, s))"

text \<open>
  \<^verbatim>\<open>fmt.Sscanf(x, "%f", &f)\<close> on a decimal number with an optional fraction and exponent;
  text that does not start with a number leaves zero. (The hexadecimal forms and the words for NaN
  and infinity that Go also accepts are left out.)
\<close>

definition scan_float :: "string \<Rightarrow> f64" where
  "scan_float x =
     (let (neg, s) = scan_sign (dropWhile is_space x);
          (ip, s) = digits_prefix s;
          (fp, s) = (case s of c # r \<Rightarrow> if c = CHR ''.'' then digits_prefix r else ([], s) | [] \<Rightarrow> ([], s));
          (eneg, ep) = (case s of c # r \<Rightarrow>
              if c = CHR ''e'' \<or> c = CHR ''E'' then (case scan_sign r of (en, r') \<Rightarrow> (en, fst (digits_prefix r'))) else (False, [])
            | [] \<Rightarrow> (False, []));
          m = (of_nat (read_digits (ip @ fp)) :: rat) / 10 ^ length fp;
          v = (if eneg then m / 10 ^ read_digits ep else m * 10 ^ read_digits ep) in
      if ip = [] \<and> fp = [] then Fin 0 else rnd (if neg then - v else v))"

section \<open>Parsing a float\<close>

text \<open>
  \<^verbatim>\<open>strconv.ParseFloat\<close> takes the whole text: a decimal number with an optional fraction and
  exponent, or a word for infinity or NaN. A number out of range is an error, as is anything else.
  (Hexadecimal floats are left out.)
\<close>

definition parse_exp :: "string \<Rightarrow> int option" where
  "parse_exp s = (case s of
      [] \<Rightarrow> Some 0
    | c # r \<Rightarrow>
        if c = CHR ''e'' \<or> c = CHR ''E'' then
          (case scan_sign r of (neg, r') \<Rightarrow>
             (case digits_prefix r' of (d, rest) \<Rightarrow>
                if d = [] \<or> rest \<noteq> [] then None else Some ((if neg then - 1 else 1) * int (read_digits d))))
        else None)"

text \<open>The value, and whether it is in range; on a range error Go returns an infinity with the error.\<close>

definition parse_num :: "string \<Rightarrow> (f64 \<times> bool) option" where
  "parse_num x =
     (let (neg, s) = scan_sign x; w = ToLower s in
      if w \<in> {''inf'', ''infinity''} then Some (if neg then NInf else PInf, True)
      else if ToLower x = ''nan'' then Some (NaN, True)
      else
        let (ip, s) = digits_prefix s;
            (fp, s) = (case s of c # r \<Rightarrow> if c = CHR ''.'' then digits_prefix r else ([], s) | [] \<Rightarrow> ([], s)) in
        if ip = [] \<and> fp = [] then None
        else (case parse_exp s of
            None \<Rightarrow> None
          | Some e \<Rightarrow>
              let v = rnd ((if neg then - 1 else 1) * (of_nat (read_digits (ip @ fp)) / 10 ^ length fp * 10 powi e)) in
              Some (v, case v of Fin _ \<Rightarrow> True | _ \<Rightarrow> False)))"

definition ParseFloat :: "string \<Rightarrow> f64 option" where
  "ParseFloat x = (case parse_num x of Some (v, True) \<Rightarrow> Some v | _ \<Rightarrow> None)"

text \<open>What is left when the error is ignored.\<close>

definition ParseFloat_value :: "string \<Rightarrow> f64" where
  "ParseFloat_value x = (case parse_num x of Some (v, _) \<Rightarrow> v | None \<Rightarrow> Fin 0)"

section \<open>Escaping of URLs\<close>

definition hex_char :: "nat \<Rightarrow> char" where
  "hex_char n = (if n < 10 then char_of (48 + n) else char_of (55 + n))"

definition percent :: "char \<Rightarrow> string" where
  "percent c = [CHR ''%'', hex_char (of_char c div 16), hex_char (of_char c mod 16)]"

definition unreserved :: "char \<Rightarrow> bool" where
  "unreserved c \<longleftrightarrow> (let n = (of_char c :: nat) in
     (97 \<le> n \<and> n \<le> 122) \<or> (65 \<le> n \<and> n \<le> 90) \<or> (48 \<le> n \<and> n \<le> 57)) \<or> c \<in> set ''-_.~''"

definition QueryEscape :: "string \<Rightarrow> string" where
  "QueryEscape s = concat (map (\<lambda>c. if unreserved c then [c] else if c = CHR '' '' then ''+'' else percent c) s)"

definition PathEscape :: "string \<Rightarrow> string" where
  "PathEscape s = concat (map (\<lambda>c. if unreserved c \<or> c \<in> set ''$&+:=@'' then [c] else percent c) s)"

end
