(* ===== verification/Trading_Positions.thy ===== *)
theory Trading_Positions
  imports Trading_Helpers Trading_Store Go_Fmt
begin

text \<open>
  The read side of the order table: \<^verbatim>\<open>execution\_summary.go\<close>,
  \<^verbatim>\<open>squareoff\_plan.go\<close> and \<^verbatim>\<open>lifecycle\_refresh.go\<close>. Rows are enriched
  from the stored JSON intent, classified, and netted per instrument; the plan handler gives the
  opposite orders, the refresh handler derives the trade status from the build orders.

  A handler's result is its HTTP error (status code and message) or the response it encodes. Maps
  are ranged over in an arbitrary order \<open>ord\<close>.
  The theorems are in the theory of proofs that follows.
\<close>

section \<open>Members of a decoded document\<close>

fun firstStringFromMap :: "(string \<times> json) list \<Rightarrow> string list \<Rightarrow> string" where
  "firstStringFromMap m [] = ''''"
| "firstStringFromMap m (k # ks) = (case json_get m k of Some v \<Rightarrow> TrimSpace (fmt_v v) | None \<Rightarrow> firstStringFromMap m ks)"

text \<open>A decoded number is a \<^verbatim>\<open>float64\<close>; other types fall through to the next key.\<close>

fun firstFloatFromMap :: "(string \<times> json) list \<Rightarrow> string list \<Rightarrow> f64" where
  "firstFloatFromMap m [] = Fin 0"
| "firstFloatFromMap m (k # ks) = (case json_get m k of
      Some (JNum r) \<Rightarrow> rnd r
    | Some (JStr x) \<Rightarrow> scan_float x
    | _ \<Rightarrow> firstFloatFromMap m ks)"

section \<open>execution\_summary.go\<close>

record ExecutionOrderSummary =
  os_ID :: int
  os_TradeUID :: string
  os_IntentID :: string
  os_OrderUID :: string
  os_BrokerOrderID :: string
  os_BrokerName :: string
  os_AccountID :: string
  os_Symbol :: string
  os_Phase :: string
  os_LegType :: string
  os_Token :: int
  os_Side :: string
  os_Quantity :: int
  os_Status :: string
  os_FilledQty :: int
  os_PendingQty :: int
  os_AvgFillPrice :: f64
  os_Lifecycle :: string
  os_CreatedAt :: string
  os_UpdatedAt :: string

record ExecutionNetPosition =
  xp_Symbol :: string
  xp_LegType :: string
  xp_Token :: int
  xp_NetQuantity :: int
  xp_AvgPrice :: f64

record ExecutionSummaryResponse =
  xs_Success :: bool
  xs_TradeUID :: string
  xs_TradeStatus :: string
  xs_BrokerName :: string
  xs_AccountID :: string
  xs_Symbol :: string
  xs_Orders :: "ExecutionOrderSummary list"
  xs_GroupedOrders :: "(string, ExecutionOrderSummary list) gomap"
  xs_Positions :: "ExecutionNetPosition list"
  xs_Counts :: "(string, int) gomap"

definition zero_ExecutionOrderSummary :: ExecutionOrderSummary where
  "zero_ExecutionOrderSummary = \<lparr>os_ID = 0, os_TradeUID = '''', os_IntentID = '''', os_OrderUID = '''',
     os_BrokerOrderID = '''', os_BrokerName = '''', os_AccountID = '''', os_Symbol = '''', os_Phase = '''',
     os_LegType = '''', os_Token = 0, os_Side = '''', os_Quantity = 0, os_Status = '''', os_FilledQty = 0,
     os_PendingQty = 0, os_AvgFillPrice = Fin 0, os_Lifecycle = '''', os_CreatedAt = '''', os_UpdatedAt = ''''\<rparr>"

text \<open>The document is JSON by the column's type; only an object or null decodes into a map.\<close>

definition enrichOrderFromRawIntent :: "json option \<Rightarrow> ExecutionOrderSummary \<Rightarrow> ExecutionOrderSummary" where
  "enrichOrderFromRawIntent raw ord = (case raw of
      None \<Rightarrow> ord
    | Some j \<Rightarrow>
        (case j of
           JObj _ \<Rightarrow> let m = json_members j in
             ord\<lparr>os_Phase := firstStringFromMap m [''phase'', ''Phase''],
                 os_LegType := firstStringFromMap m [''leg_type'', ''LegType''],
                 os_Symbol := firstStringFromMap m [''symbol'', ''Symbol''],
                 os_Token := ftoi (firstFloatFromMap m [''token'', ''Token''])\<rparr>
         | JNull \<Rightarrow> ord\<lparr>os_Phase := '''', os_LegType := '''', os_Symbol := '''', os_Token := 0\<rparr>
         | _ \<Rightarrow> ord))"

definition inferOrderPhase :: "string \<Rightarrow> string \<Rightarrow> string" where
  "inferOrderPhase intentID orderUID =
     (let s = ToUpper (intentID @ ''_'' @ orderUID) in
      if Contains s ''HEDGE'' \<or> Contains s ''_HCE'' \<or> Contains s ''_HPE'' then ''HEDGE''
      else if Contains s ''SQF'' \<or> Contains s ''SQUARE'' \<or> Contains s ''_SCE'' \<or> Contains s ''_SPE'' then ''SQUAREOFF''
      else if Contains s ''PSQF'' \<or> Contains s ''PARTIAL'' then ''PARTIAL_SQUAREOFF''
      else if Contains s ''BUI'' \<or> Contains s ''BUILD'' then ''BUILD''
      else ''UNKNOWN'')"

definition classifyOrderLifecycle :: "string \<Rightarrow> string" where
  "classifyOrderLifecycle status =
     (let s = ToUpper (TrimSpace status) in
      if s = ''FILLED'' \<or> s = ''SUCCESS'' then ''FILLED_OK''
      else if s = ''OPEN'' \<or> s = ''SUBMITTED'' \<or> s = ''PARTIALLY_FILLED'' then ''NOT_FILLED_YET''
      else if s = ''REJECTED'' \<or> s = ''CANCELLED'' \<or> s = ''CANCELED'' then ''TERMINAL_FAIL''
      else ''UNKNOWN'')"

definition absInt64 :: "int \<Rightarrow> int" where
  "absInt64 v = (if v < 0 then i64_neg v else v)"

definition position_key :: "string \<Rightarrow> string \<Rightarrow> int \<Rightarrow> string" where
  "position_key symbol legType token = symbol @ ''|'' @ legType @ ''|'' @ show_int token"

text \<open>\<^verbatim>\<open>ORDER BY created\_at ASC, id ASC\<close>.\<close>

definition order_rows :: "(order_row \<Rightarrow> bool) \<Rightarrow> database \<Rightarrow> order_row list" where
  "order_rows P d = sort_key (\<lambda>r. t_unix_micro (od_created_at r)) (sort_key od_id (filter P (db_orders d)))"

definition summary_order :: "string \<Rightarrow> order_row \<Rightarrow> ExecutionOrderSummary" where
  "summary_order respSymbol r =
     (let o' = enrichOrderFromRawIntent (od_raw_broker_request r)
            (zero_ExecutionOrderSummary\<lparr>os_ID := od_id r, os_TradeUID := od_trade_uid r, os_IntentID := od_intent_id r,
              os_OrderUID := od_order_uid r, os_BrokerOrderID := od_broker_order_id r, os_BrokerName := od_broker_name r,
              os_AccountID := od_account_id r, os_Side := od_side r, os_Quantity := od_quantity r, os_Status := od_status r,
              os_FilledQty := od_filled_qty r, os_PendingQty := od_pending_qty r, os_AvgFillPrice := od_avg_fill_price r,
              os_CreatedAt := fmt_rfc3339 (od_created_at r), os_UpdatedAt := fmt_rfc3339 (od_updated_at r)\<rparr>);
          o' = (if os_Symbol o' = '''' then o'\<lparr>os_Symbol := respSymbol\<rparr> else o');
          o' = (if os_Phase o' = '''' then o'\<lparr>os_Phase := inferOrderPhase (os_IntentID o') (os_OrderUID o')\<rparr> else o');
          o' = (if os_Phase o' = '''' then o'\<lparr>os_Phase := ''UNKNOWN''\<rparr> else o') in
      o'\<lparr>os_Lifecycle := classifyOrderLifecycle (os_Status o')\<rparr>)"

definition gm_get_or :: "'v \<Rightarrow> ('k, 'v) gomap \<Rightarrow> 'k \<Rightarrow> 'v" where
  "gm_get_or z m k = (case gm_get m k of Some v \<Rightarrow> v | None \<Rightarrow> z)"

definition summary_position :: "ExecutionOrderSummary \<Rightarrow> (string, ExecutionNetPosition) gomap \<Rightarrow> (string, ExecutionNetPosition) gomap" where
  "summary_position o' pm =
     (if 0 < os_FilledQty o' \<and> (os_Status o' = ''FILLED'' \<or> os_Status o' = ''SUCCESS'') then
        let key = position_key (os_Symbol o') (os_LegType o') (os_Token o');
            pos = gm_get_or \<lparr>xp_Symbol = os_Symbol o', xp_LegType = os_LegType o', xp_Token = os_Token o',
                     xp_NetQuantity = 0, xp_AvgPrice = Fin 0\<rparr> pm key;
            signedQty = (if ToUpper (os_Side o') = ''SELL'' then i64_neg (os_FilledQty o') else os_FilledQty o');
            oldAbs = absInt64 (xp_NetQuantity pos);
            newAbs = i64_add oldAbs (absInt64 signedQty);
            pos = (if 0 < newAbs then pos\<lparr>xp_AvgPrice := fdiv (fadd (fmul (xp_AvgPrice pos) (itof oldAbs))
                     (fmul (os_AvgFillPrice o') (itof (absInt64 signedQty)))) (itof newAbs)\<rparr> else pos) in
        gm_set key (pos\<lparr>xp_NetQuantity := i64_add (xp_NetQuantity pos) signedQty\<rparr>) pm
      else pm)"

record summary_state =
  ss_orders :: "ExecutionOrderSummary list"
  ss_grouped :: "(string, ExecutionOrderSummary list) gomap"
  ss_counts :: "(string, int) gomap"
  ss_positions :: "(string, ExecutionNetPosition) gomap"

definition summary_row :: "string \<Rightarrow> summary_state \<Rightarrow> order_row \<Rightarrow> summary_state" where
  "summary_row respSymbol st r =
     (let o' = summary_order respSymbol r in
      \<lparr>ss_orders = ss_orders st @ [o'],
       ss_grouped = gm_set (os_Phase o') (gm_get_or [] (ss_grouped st) (os_Phase o') @ [o']) (ss_grouped st),
       ss_counts = gm_set (os_Lifecycle o') (i64_add (gm_get_or 0 (ss_counts st) (os_Lifecycle o')) 1) (ss_counts st),
       ss_positions = summary_position o' (ss_positions st)\<rparr>)"

section \<open>HTTP\<close>

record http_request =
  hr_Method :: string
  hr_Path :: string
  hr_Query :: "(string \<times> string) list"
  hr_Body :: "json option"

type_synonym http_error = "nat \<times> string"

definition query_get :: "http_request \<Rightarrow> string \<Rightarrow> string" where
  "query_get r k = (case map_of (hr_Query r) k of Some v \<Rightarrow> v | None \<Rightarrow> '''')"

definition dbFromHandlerStore :: "store \<Rightarrow> database option" where
  "dbFromHandlerStore s = (case s of PgStore p \<Rightarrow> ps_db p | MemStore _ \<Rightarrow> None)"

definition put_db :: "database \<Rightarrow> store \<Rightarrow> store" where
  "put_db d s = (case s of PgStore p \<Rightarrow> PgStore (p\<lparr>ps_db := Some d\<rparr>) | MemStore m \<Rightarrow> MemStore m)"

text \<open>
  A query whose error is an HTTP error; the text of the database's message is not modelled. Its rows are read
  by a loop over \<^verbatim>\<open>rows.Next()\<close>, which sees those that came through. An aggregate query has one row.
\<close>

definition sql_rows :: "(order_row \<Rightarrow> bool) \<Rightarrow> database \<Rightarrow> order_row list option \<times> database" where
  "sql_rows P d = (if db_failed d then None else Some (db_read d (order_rows P d)), db_next d)"

definition sql_aggregate :: "(order_row list \<Rightarrow> 'c) \<Rightarrow> (order_row \<Rightarrow> bool) \<Rightarrow> database \<Rightarrow> 'c option \<times> database" where
  "sql_aggregate f P d = (if db_failed d then None else Some (f (order_rows P d)), db_next d)"

definition sql_trade_row :: "string \<Rightarrow> database \<Rightarrow> trade_row option \<times> database" where
  "sql_trade_row uid d = (if db_failed d then None else find (\<lambda>r. td_trade_uid r = uid) (db_trades d), db_next d)"

type_synonym xp_order = "(string \<times> ExecutionNetPosition) list \<Rightarrow> (string \<times> ExecutionNetPosition) list"

definition ExecutionSummary :: "xp_order \<Rightarrow> http_request \<Rightarrow> store \<Rightarrow> (http_error + ExecutionSummaryResponse) \<times> store" where
  "ExecutionSummary ord r s =
     (if hr_Method r \<noteq> ''GET'' then (Inl (405, ''method not allowed''), s)
      else let tradeUID = TrimSpace (query_get r ''trade_uid'') in
      if tradeUID = '''' then (Inl (400, ''trade_uid is required''), s)
      else (case dbFromHandlerStore s of
          None \<Rightarrow> (Inl (500, ''postgres store is not available''), s)
        | Some d \<Rightarrow>
            (case sql_trade_row tradeUID d of (tr, d1) \<Rightarrow>
              (case sql_rows (\<lambda>x. od_trade_uid x = tradeUID) d1 of
                 (None, d2) \<Rightarrow> (Inl (500, ''query failed''), put_db d2 s)
               | (Some rows, d2) \<Rightarrow>
                   let symbol = (case tr of Some t \<Rightarrow> td_symbol t | None \<Rightarrow> '''');
                       st = foldl (summary_row symbol) \<lparr>ss_orders = [], ss_grouped = [], ss_counts = [], ss_positions = []\<rparr> rows in
                   (Inr \<lparr>xs_Success = True, xs_TradeUID = tradeUID,
                      xs_TradeStatus = (case tr of Some t \<Rightarrow> td_status t | None \<Rightarrow> ''''),
                      xs_BrokerName = (case tr of Some t \<Rightarrow> td_broker_name t | None \<Rightarrow> ''''),
                      xs_AccountID = (case tr of Some t \<Rightarrow> td_account_id t | None \<Rightarrow> ''''),
                      xs_Symbol = symbol, xs_Orders = ss_orders st, xs_GroupedOrders = ss_grouped st,
                      xs_Positions = filter (\<lambda>p. xp_NetQuantity p \<noteq> 0) (map snd (ord (ss_positions st))),
                      xs_Counts = ss_counts st\<rparr>, put_db d2 s)))))"

section \<open>Netting of filled orders\<close>

text \<open>
  The accumulator of \<^verbatim>\<open>squareoff\_intents.go\<close> (\<^verbatim>\<open>sqfNetPosition\<close>) and of
  \<^verbatim>\<open>squareoff\_plan.go\<close>.
\<close>

record sqfNetPosition =
  np_Symbol :: string
  np_LegType :: string
  np_Token :: int
  np_NetQty :: int
  np_AvgPrice :: f64
  np_AbsQtySeen :: int

definition filled_row :: "string \<Rightarrow> order_row \<Rightarrow> bool" where
  "filled_row uid r \<longleftrightarrow> od_trade_uid r = uid \<and> 0 < od_filled_qty r \<and> (od_status r = ''FILLED'' \<or> od_status r = ''SUCCESS'')"

definition enriched_row :: "string \<Rightarrow> order_row \<Rightarrow> ExecutionOrderSummary" where
  "enriched_row symbol r =
     (let o' = enrichOrderFromRawIntent (od_raw_broker_request r)
            (zero_ExecutionOrderSummary\<lparr>os_IntentID := od_intent_id r, os_OrderUID := od_order_uid r, os_Side := od_side r,
              os_FilledQty := od_filled_qty r, os_AvgFillPrice := od_avg_fill_price r, os_Symbol := symbol\<rparr>) in
      if os_Symbol o' = '''' then o'\<lparr>os_Symbol := symbol\<rparr> else o')"

definition row_key :: "string \<Rightarrow> order_row \<Rightarrow> string" where
  "row_key symbol r = (let o' = enriched_row symbol r in position_key (os_Symbol o') (os_LegType o') (os_Token o'))"

definition add_position :: "bool \<Rightarrow> string \<Rightarrow> bool \<Rightarrow> (string, sqfNetPosition) gomap \<Rightarrow> order_row \<Rightarrow> (string, sqfNetPosition) gomap" where
  "add_position sell symbol priceFirst pm r =
     (let o' = enriched_row symbol r; key = row_key symbol r;
          pos = gm_get_or \<lparr>np_Symbol = os_Symbol o', np_LegType = os_LegType o', np_Token = os_Token o',
                   np_NetQty = 0, np_AvgPrice = Fin 0, np_AbsQtySeen = 0\<rparr> pm key;
          signedQty = (if sell then i64_neg (od_filled_qty r) else od_filled_qty r);
          absQty = absInt64 signedQty;
          value = (if priceFirst then fmul (od_avg_fill_price r) (itof absQty) else fmul (itof absQty) (od_avg_fill_price r)) in
      gm_set key (pos\<lparr>np_NetQty := i64_add (np_NetQty pos) signedQty, np_AvgPrice := fadd (np_AvgPrice pos) value,
        np_AbsQtySeen := i64_add (np_AbsQtySeen pos) absQty\<rparr>) pm)"

text \<open>The square-off trims the side and skips rows without a token; the plan does neither.\<close>

definition sqf_add :: "string \<Rightarrow> (string, sqfNetPosition) gomap \<Rightarrow> order_row \<Rightarrow> (string, sqfNetPosition) gomap" where
  "sqf_add symbol pm r =
     (if od_filled_qty r \<le> 0 \<or> os_Token (enriched_row symbol r) \<le> 0 then pm
      else add_position (ToUpper (TrimSpace (od_side r)) = ''SELL'') symbol True pm r)"

definition plan_add :: "string \<Rightarrow> (string, sqfNetPosition) gomap \<Rightarrow> order_row \<Rightarrow> (string, sqfNetPosition) gomap" where
  "plan_add symbol pm r =
     (if od_filled_qty r \<le> 0 then pm else add_position (ToUpper (od_side r) = ''SELL'') symbol False pm r)"

section \<open>squareoff\_plan.go\<close>

record SquareOffPlanLeg =
  pl_Symbol :: string
  pl_LegType :: string
  pl_Token :: int
  pl_NetQuantity :: int
  pl_AvgPrice :: f64
  pl_SquareOffSide :: string
  pl_SquareOffQuantity :: int
  pl_LotSize :: int
  pl_Lots :: int
  pl_QuantityWarning :: string

record SquareOffPlanResponse =
  sp_Success :: bool
  sp_TradeUID :: string
  sp_TradeStatus :: string
  sp_BrokerName :: string
  sp_AccountID :: string
  sp_Symbol :: string
  sp_LotSize :: int
  sp_Legs :: "SquareOffPlanLeg list"
  sp_Message :: string

fun genericFloat :: "json \<Rightarrow> f64" where
  "genericFloat (JNum r) = rnd r"
| "genericFloat (JStr x) = scan_float x"
| "genericFloat _ = Fin 0"

definition fallback_plan_lot :: "string \<Rightarrow> int" where
  "fallback_plan_lot symbol = (let s = ToUpper (TrimSpace symbol) in
     if s = ''NIFTY'' then 65 else if s = ''BANKNIFTY'' then 35 else if s = ''FINNIFTY'' then 65
     else if s = ''MIDCPNIFTY'' then 120 else if s = ''SENSEX'' then 20 else 0)"

definition lotSizeFromTradeConfig :: "json option \<Rightarrow> string \<Rightarrow> int" where
  "lotSizeFromTradeConfig rawConfig symbol = (case rawConfig of
      Some j \<Rightarrow>
        (case filter (flt (Fin 0)) (map genericFloat (List.map_filter (json_get (json_members j)) [''lot_size'', ''LotSize'', ''lotsize''])) of
           f # _ \<Rightarrow> ftoi (fround f)
         | [] \<Rightarrow> fallback_plan_lot symbol)
    | None \<Rightarrow> fallback_plan_lot symbol)"

definition plan_leg :: "int \<Rightarrow> sqfNetPosition \<Rightarrow> SquareOffPlanLeg" where
  "plan_leg lotSize a =
     (let closeQty = absInt64 (np_NetQty a) in
      \<lparr>pl_Symbol = np_Symbol a, pl_LegType = np_LegType a, pl_Token = np_Token a, pl_NetQuantity = np_NetQty a,
       pl_AvgPrice = (if 0 < np_AbsQtySeen a then fdiv (np_AvgPrice a) (itof (np_AbsQtySeen a)) else Fin 0),
       pl_SquareOffSide = (if np_NetQty a < 0 then ''BUY'' else ''SELL''), pl_SquareOffQuantity = closeQty,
       pl_LotSize = lotSize, pl_Lots = (if 0 < lotSize then i64_div closeQty lotSize else 0),
       pl_QuantityWarning = (if 0 < lotSize then
          (if i64_rem closeQty lotSize \<noteq> 0 then ''quantity '' @ show_int closeQty @ '' is not an exact multiple of lot_size '' @ show_int lotSize
           else '''') else ''lot_size unavailable'')\<rparr>)"

type_synonym np_order = "(string \<times> sqfNetPosition) list \<Rightarrow> (string \<times> sqfNetPosition) list"

definition SquareOffPlan :: "np_order \<Rightarrow> http_request \<Rightarrow> store \<Rightarrow> (http_error + SquareOffPlanResponse) \<times> store" where
  "SquareOffPlan ord r s =
     (if hr_Method r \<noteq> ''GET'' then (Inl (405, ''method not allowed''), s)
      else let tradeUID = TrimSpace (query_get r ''trade_uid'') in
      if tradeUID = '''' then (Inl (400, ''trade_uid is required''), s)
      else (case dbFromHandlerStore s of
          None \<Rightarrow> (Inl (500, ''postgres store is not available''), s)
        | Some d \<Rightarrow>
            (case sql_trade_row tradeUID d of (tr, d1) \<Rightarrow>
              let symbol = (case tr of Some t \<Rightarrow> td_symbol t | None \<Rightarrow> '''');
                  lotSize = lotSizeFromTradeConfig (case tr of Some t \<Rightarrow> td_config t | None \<Rightarrow> None) symbol in
              (case sql_rows (filled_row tradeUID) d1 of
                 (None, d2) \<Rightarrow> (Inl (500, ''query failed''), put_db d2 s)
               | (Some rows, d2) \<Rightarrow>
                   let acc = foldl (plan_add symbol) [] rows;
                       legs = map (plan_leg lotSize) (filter (\<lambda>a. np_NetQty a \<noteq> 0) (map snd (ord acc))) in
                   (Inr \<lparr>sp_Success = True, sp_TradeUID = tradeUID,
                      sp_TradeStatus = (case tr of Some t \<Rightarrow> td_status t | None \<Rightarrow> ''''),
                      sp_BrokerName = (case tr of Some t \<Rightarrow> td_broker_name t | None \<Rightarrow> ''''),
                      sp_AccountID = (case tr of Some t \<Rightarrow> td_account_id t | None \<Rightarrow> ''''),
                      sp_Symbol = symbol, sp_LotSize = lotSize, sp_Legs = legs,
                      sp_Message = (if legs = [] then ''No filled net position found for this trade. Nothing to square off yet.''
                        else ''Square-off plan generated from filled order quantities.'')\<rparr>, put_db d2 s)))))"

section \<open>lifecycle\_refresh.go\<close>

record RefreshTradeLifecycleResponse =
  rl_Success :: bool
  rl_TradeUID :: string
  rl_OldStatus :: string
  rl_NewStatus :: string
  rl_Counts :: BuildOrderLifecycleCounts
  rl_Changed :: bool
  rl_Message :: string

text \<open>
  A build order by its identifiers (in \<^verbatim>\<open>LIKE 'BUI\_%'\<close> the underscore stands for any
  character) or by the phase of its document, compared in upper case.
\<close>

definition like_bui :: "string \<Rightarrow> bool" where
  "like_bui s \<longleftrightarrow> HasPrefix s ''BUI'' \<and> 4 \<le> length s"

definition json_phase_build :: "json option \<Rightarrow> bool" where
  "json_phase_build raw = (case raw of
      Some j \<Rightarrow> list_ex (\<lambda>e. ToUpper (fst e) = ''PHASE'' \<and> (case snd e of JStr v \<Rightarrow> ToUpper v = ''BUILD'' | _ \<Rightarrow> False)) (json_members j)
    | None \<Rightarrow> False)"

definition build_order_row :: "string \<Rightarrow> order_row \<Rightarrow> bool" where
  "build_order_row uid r \<longleftrightarrow> od_trade_uid r = uid \<and>
     (like_bui (od_intent_id r) \<or> like_bui (od_order_uid r) \<or> json_phase_build (od_raw_broker_request r))"

definition lifecycle_counts :: "order_row list \<Rightarrow> BuildOrderLifecycleCounts" where
  "lifecycle_counts rows =
     \<lparr>lc_Total = int (length rows),
      lc_Filled = int (length (filter (\<lambda>r. od_status r \<in> {''FILLED'', ''SUCCESS''} \<and> od_quantity r \<le> od_filled_qty r \<and> 0 < od_quantity r) rows)),
      lc_Pending = int (length (filter (\<lambda>r. od_status r \<in> {''OPEN'', ''SUBMITTED'', ''PARTIALLY_FILLED''} \<and> od_filled_qty r < od_quantity r) rows)),
      lc_TerminalFail = int (length (filter (\<lambda>r. od_status r \<in> {''REJECTED'', ''CANCELLED'', ''CANCELED''}) rows)),
      lc_Unknown = int (length (filter (\<lambda>r. od_status r \<notin> {''FILLED'', ''SUCCESS'', ''OPEN'', ''SUBMITTED'', ''PARTIALLY_FILLED'',
         ''REJECTED'', ''CANCELLED'', ''CANCELED''}) rows))\<rparr>"

definition sql_set_status :: "string \<Rightarrow> string \<Rightarrow> database \<Rightarrow> database" where
  "sql_set_status uid status d =
     (db_next d)\<lparr>db_trades := map (\<lambda>r. if td_trade_uid r = uid then r\<lparr>td_status := status\<rparr> else r) (db_trades d)\<rparr>"

definition RefreshTradeLifecycle :: "http_request \<Rightarrow> store \<Rightarrow> (http_error + RefreshTradeLifecycleResponse) \<times> store" where
  "RefreshTradeLifecycle r s =
     (if hr_Method r \<noteq> ''POST'' \<and> hr_Method r \<noteq> ''GET'' then (Inl (405, ''method not allowed''), s)
      else let tradeUID = TrimSpace (query_get r ''trade_uid'') in
      if tradeUID = '''' then (Inl (400, ''trade_uid is required''), s)
      else (case dbFromHandlerStore s of
          None \<Rightarrow> (Inl (500, ''postgres store is not available''), s)
        | Some d \<Rightarrow>
            (case sql_trade_row tradeUID d of
               (None, d1) \<Rightarrow> (Inl (404, ''trade not found or status query failed''), put_db d1 s)
             | (Some tr, d1) \<Rightarrow>
                 (case sql_aggregate lifecycle_counts (build_order_row tradeUID) d1 of
                    (None, d2) \<Rightarrow> (Inl (500, ''count query failed''), put_db d2 s)
                  | (Some counts, d2) \<Rightarrow>
                      let newStatus = deriveTradeStatusFromBuildCounts counts in
                      if db_failed d2 then (Inl (500, ''trade update failed''), put_db (db_next d2) s)
                      else (Inr \<lparr>rl_Success = True, rl_TradeUID = tradeUID, rl_OldStatus = td_status tr, rl_NewStatus = newStatus,
                             rl_Counts = counts, rl_Changed = (TrimSpace (td_status tr) \<noteq> TrimSpace newStatus),
                             rl_Message = ''trade lifecycle refreshed from build order rows''\<rparr>,
                            put_db (sql_set_status tradeUID newStatus d2) s)))))"

end
