(* ===== verification/Trading_Actions.thy ===== *)
theory Trading_Actions
  imports Trading_Deploy Trading_Positions
begin

text \<open>
  What can be done with a deployed trade: the square-off (\<^verbatim>\<open>squareoff\_intents.go\<close> and
  \<^verbatim>\<open>SquareOff\<close> in \<^verbatim>\<open>service.go\<close>), the partial square-off, the hedge
  (\<^verbatim>\<open>ManualHedge\<close>, and \<^verbatim>\<open>ManualHedgeBrokerOrder\<close> of
  \<^verbatim>\<open>manual\_hedge\_broker.go\<close>), the direct square-off of
  \<^verbatim>\<open>service\_actions.go\<close>, the monitor cycle of \<^verbatim>\<open>service.go\<close>, the tick
  of \<^verbatim>\<open>runtime.go\<close> and the mock executor of \<^verbatim>\<open>executor.go\<close>.

  Logging has no effect on the state and is left out. Closing a channel that is closed already is a
  run-time panic and so a branch of the model.
\<close>

section \<open>Square-off intents\<close>

definition sqf_price :: "sqfNetPosition \<Rightarrow> f64" where
  "sqf_price pos =
     (if 0 < np_AbsQtySeen pos then
        let expectedPrice = fdiv (np_AvgPrice pos) (itof (np_AbsQtySeen pos)) in
        if fle expectedPrice (Fin 0) then F005 else expectedPrice
      else F005)"

definition sqf_leg_code :: "string \<Rightarrow> string" where
  "sqf_leg_code legType = (if EqualFold legType ''CE'' then ''SCE'' else if EqualFold legType ''PE'' then ''SPE'' else ''SQF'')"

definition sqf_intent :: "StoredTrade \<Rightarrow> gotime \<Rightarrow> int \<Rightarrow> sqfNetPosition \<Rightarrow> OrderIntent" where
  "sqf_intent tr now cnt pos =
     (let expectedPrice = sqf_price pos; legCode = sqf_leg_code (np_LegType pos);
          limitPrice = (if fle expectedPrice (Fin 0) then F005 else expectedPrice) in
      \<lparr>it_IntentID = BuildShortOrderUID (tr_Symbol tr) legCode now cnt, it_TradeUID = tr_TradeUID tr,
       it_Token = np_Token pos, it_Symbol = tr_Symbol tr, it_ExchangeSegment = tr_ExchangeSegment tr,
       it_Side = (if np_NetQty pos < 0 then ''BUY'' else ''SELL''), it_Quantity = absInt64 (np_NetQty pos),
       it_OrderType = ''LIMIT'', it_LimitPrice = Some limitPrice, it_ProductType = tr_ProductType tr,
       it_LegType = np_LegType pos, it_Phase = ''SQF'',
       it_OrderUID = BuildShortOrderUID (tr_Symbol tr) legCode now (i64_add cnt 100),
       it_BrokerName = tr_BrokerName tr, it_AccountID = tr_AccountID tr, it_ExpectedPrice = expectedPrice\<rparr>)"

text \<open>The loop over the positions; \<open>cnt\<close> counts the intents that were created.\<close>

fun sqf_emit :: "'b service \<Rightarrow> StoredTrade \<Rightarrow> gotime \<Rightarrow> int \<Rightarrow> sqfNetPosition list \<Rightarrow> 'b world \<Rightarrow> OrderIntent list \<times> 'b world" where
  "sqf_emit svc tr now cnt [] w = ([], w)"
| "sqf_emit svc tr now cnt (pos # ps) w =
     (if np_NetQty pos = 0 \<or> absInt64 (np_NetQty pos) \<le> 0 then sqf_emit svc tr now cnt ps w
      else
        let it = sqf_intent tr now cnt pos;
            w1 = st_now svc (\<lambda>t. AppendIntent t (tr_TradeUID tr) it) w in
        (case sqf_emit svc tr now (i64_add cnt 1) ps w1 of (created, w2) \<Rightarrow> (it # created, w2)))"

definition createSQFIntentsFromFilledNetPosition ::
  "np_order \<Rightarrow> 'b service \<Rightarrow> StoredTrade \<Rightarrow> 'b world \<Rightarrow> (goerr + OrderIntent list) \<times> 'b world" where
  "createSQFIntentsFromFilledNetPosition ord svc tr w = (case dbFromHandlerStore (w_store w) of
      None \<Rightarrow> (Inl (GoErr ''postgres-backed store is required for square-off intent creation''), w)
    | Some d \<Rightarrow>
        (case sql_rows (filled_row (tr_TradeUID tr)) d of
           (None, d') \<Rightarrow> (Inl (GoWrap ''query filled orders for square-off: '' (GoErr ''database error'')), st_do (put_db d') w)
         | (Some rows, d') \<Rightarrow>
             let positions = foldl (sqf_add (tr_Symbol tr)) [] rows;
                 (now, w1) = time_Now svc (st_do (put_db d') w) in
             (case sqf_emit svc tr now 0 (map snd (ord positions)) w1 of (created, w2) \<Rightarrow>
               if created = [] then (Inl (GoErr ''no filled net position found for square-off''), w2)
               else (Inr created, w2))))"

section \<open>SquareOff\<close>

text \<open>\<^verbatim>\<open>close(rt.StopCh)\<close> through the pointer that the map holds.\<close>

definition CloseStop :: "string \<Rightarrow> MemoryStore \<Rightarrow> MemoryStore" where
  "CloseStop tradeUID m = (case gm_get (ms_runtimes m) tradeUID of
      Some rt \<Rightarrow> m\<lparr>ms_runtimes := gm_set tradeUID (rt\<lparr>rt_StopClosed := True\<rparr>) (ms_runtimes m)\<rparr>
    | None \<Rightarrow> m)"

definition stop_runtime :: "string \<Rightarrow> 'b world \<Rightarrow> (goerr + unit) \<times> 'b world" where
  "stop_runtime tradeUID w = (case LoadRuntime tradeUID (w_store w) of
      None \<Rightarrow> (Inr (), w)
    | Some rt \<Rightarrow>
        if rt_StopClosed rt then (Inl (GoPanic ''close of closed channel''), w)
        else (Inr (), st_do (DeleteRuntime tradeUID) (st_do (store_upd (CloseStop tradeUID)) w)))"

fun sqf_send :: "'b executor \<Rightarrow> OrderIntent list \<Rightarrow> 'b world \<Rightarrow> (goerr + bool) \<times> 'b world" where
  "sqf_send executor [] w = (Inr True, w)"
| "sqf_send executor (it # its) w =
     (case ext_call (executor it) w of
        (Inl err, w1) \<Rightarrow> (Inl (GoWrap (''sqf '' @ it_LegType it @ '' failed: '') err), w1)
      | (Inr res, w1) \<Rightarrow>
          let w2 = st_do (mark_execution (it_IntentID it) res) w1 in
          (case sqf_send executor its w2 of
             (Inl e, w3) \<Rightarrow> (Inl e, w3)
           | (Inr allFilled, w3) \<Rightarrow> (Inr (allFilled \<and> (res_Status res = ''FILLED'' \<or> res_Status res = ''SUCCESS'')), w3)))"

definition sqf_enabled :: "'b service \<Rightarrow> StoredTrade \<Rightarrow> bool" where
  "sqf_enabled svc tr \<longleftrightarrow> sv_getenv svc ''ENABLE_LIVE_SQF_EXECUTION'' = ''1'' \<or> tr_BrokerName tr = ''SIM'' \<or> tr_BrokerName tr = ''sim''"

text \<open>A trade gets a new status and the time of the change, in memory and in the store.\<close>

definition set_status :: "'b service \<Rightarrow> string \<Rightarrow> StoredTrade \<Rightarrow> 'b world \<Rightarrow> StoredTrade \<times> 'b world" where
  "set_status svc status tr w =
     (let (t, w1) = time_Now svc w; tr' = tr\<lparr>tr_Status := status, tr_LastUpdateTime := t\<rparr> in
      (tr', st_now svc (\<lambda>t. UpdateTrade t tr') w1))"

definition sqf_execute :: "'b service \<Rightarrow> StoredTrade \<Rightarrow> OrderIntent list \<Rightarrow> 'b world \<Rightarrow> (goerr + unit) \<times> 'b world" where
  "sqf_execute svc tr sqfIntents w =
     (if \<not> sqf_enabled svc tr then (Inr (), w)
      else (case sv_BrokerFactory svc of
          None \<Rightarrow> (Inl (GoErr ''broker factory is nil; cannot execute SQF broker orders''), w)
        | Some factory \<Rightarrow>
            (case ext_call (factory (tr_UserID tr) (tr_BrokerName tr) (tr_AccountID tr)) w of
               (Inl err, w1) \<Rightarrow> (Inl err, w1)
             | (Inr executor, w1) \<Rightarrow>
                 (case sqf_send executor sqfIntents w1 of
                    (Inl err, w2) \<Rightarrow> (Inl err, w2)
                  | (Inr allFilled, w2) \<Rightarrow> (Inr (), if allFilled then snd (set_status svc ''CLOSED'' tr w2) else w2)))))"

definition SquareOff :: "np_order \<Rightarrow> 'b service \<Rightarrow> string \<Rightarrow> 'b world \<Rightarrow> (goerr + unit) \<times> 'b world" where
  "SquareOff ord svc tradeUID w = (case st_load tradeUID w of
      (None, w) \<Rightarrow> (Inl (GoErr ''trade not found''), w)
    | (Some tr, w) \<Rightarrow>
        if tr_Status tr = TradeStatusPendingFill
        then (Inl (GoErr (''cannot square off '' @ tradeUID @ '' while trade is PENDING_FILL'')), w)
        else (case createSQFIntentsFromFilledNetPosition ord svc tr w of
            (Inl err, w) \<Rightarrow> (Inl err, w)
          | (Inr sqfIntents, w) \<Rightarrow>
              (case set_status svc ''SQUARING_OFF'' tr w of (tr, w) \<Rightarrow>
                (case stop_runtime tradeUID w of
                   (Inl p, w) \<Rightarrow> (Inl p, w)
                 | (Inr _, w) \<Rightarrow>
                     if sqfIntents = [] then (Inl (GoErr (''no SQF intents created for '' @ tradeUID)), w)
                     else sqf_execute svc tr sqfIntents w))))"

section \<open>PartialSquareOff\<close>

definition scaled_qty :: "f64 \<Rightarrow> int \<Rightarrow> int" where
  "scaled_qty scale qty = ftoi (fround (fmul (itof qty) scale))"

definition PartialSquareOff :: "'b service \<Rightarrow> string \<Rightarrow> f64 \<Rightarrow> 'b world \<Rightarrow> (goerr + unit) \<times> 'b world" where
  "PartialSquareOff svc tradeUID percentage w = (case st_load tradeUID w of
      (None, w) \<Rightarrow> (Inl (GoErr ''trade not found''), w)
    | (Some tr, w) \<Rightarrow>
        if fle percentage (Fin 0) \<or> flt (Fin 100) percentage then (Inl (GoErr ''invalid percentage''), w)
        else
          let scale = fdiv (fsub (Fin 100) percentage) (Fin 100);
              tr = tr\<lparr>tr_CEQty := scaled_qty scale (tr_CEQty tr), tr_PEQty := scaled_qty scale (tr_PEQty tr)\<rparr> in
          (Inr (), snd (set_status svc ''PARTIAL'' tr w)))"

section \<open>ManualHedge\<close>

definition hedge_intent :: "StoredTrade \<Rightarrow> string \<Rightarrow> string \<Rightarrow> int \<Rightarrow> string \<Rightarrow> string \<Rightarrow> string \<Rightarrow> int \<Rightarrow> f64 \<Rightarrow> f64 \<Rightarrow> OrderIntent" where
  "hedge_intent tr tradeUID intentID token orderUID side legType qty expected limit =
     zero_OrderIntent\<lparr>it_IntentID := intentID, it_TradeUID := tradeUID, it_Token := token, it_Side := side, it_Quantity := qty,
       it_OrderType := ''LIMIT'', it_ProductType := tr_ProductType tr, it_ExchangeSegment := tr_ExchangeSegment tr,
       it_LegType := legType, it_Phase := ''HEDGE'', it_OrderUID := orderUID, it_BrokerName := tr_BrokerName tr,
       it_AccountID := tr_AccountID tr, it_ExpectedPrice := expected, it_LimitPrice := Some limit\<rparr>"

text \<open>The two intents; each identifier has a clock reading of its own.\<close>

definition hedge_intents :: "'b service \<Rightarrow> StoredTrade \<Rightarrow> string \<Rightarrow> string \<Rightarrow> string \<Rightarrow> OptionChainRow \<Rightarrow> int \<Rightarrow> 'b world \<Rightarrow>
    (OrderIntent \<times> OrderIntent) \<times> 'b world" where
  "hedge_intents svc tr tradeUID ceSide peSide atmRow qty w =
     (let (t1, w) = time_Now svc w; (t2, w) = time_Now svc w; (t3, w) = time_Now svc w; (t4, w) = time_Now svc w;
          ceLimit = fmax F005 (fsub (row_CELtp atmRow) (Fin 2)); peLimit = fmax F005 (fsub (row_PELtp atmRow) (Fin 2)) in
      ((hedge_intent tr tradeUID (BuildShortOrderUID (tr_Symbol tr) ''HCE'' t1 0) (row_CEToken atmRow)
          (BuildShortOrderUID (tr_Symbol tr) ''HCE'' t2 1) ceSide ''CE'' qty (row_CELtp atmRow) ceLimit,
        hedge_intent tr tradeUID (BuildShortOrderUID (tr_Symbol tr) ''HPE'' t3 0) (row_PEToken atmRow)
          (BuildShortOrderUID (tr_Symbol tr) ''HPE'' t4 1) peSide ''PE'' qty (row_PELtp atmRow) peLimit), w))"

definition hedge_send :: "'b executor \<Rightarrow> OrderIntent \<Rightarrow> string \<Rightarrow> 'b world \<Rightarrow> (goerr + ExecutionResult) \<times> 'b world" where
  "hedge_send executor it msg w = (case ext_call (executor it) w of
      (Inl err, w1) \<Rightarrow> (Inl (GoWrap msg err), w1)
    | (Inr res, w1) \<Rightarrow> (Inr res, st_do (mark_execution (it_IntentID it) res) w1))"

definition hedge_execute :: "'b service \<Rightarrow> 'b executor \<Rightarrow> StoredTrade \<Rightarrow> string \<Rightarrow> string \<Rightarrow> string \<Rightarrow> OptionChainRow \<Rightarrow> int \<Rightarrow> 'b world \<Rightarrow>
    (goerr + unit) \<times> 'b world" where
  "hedge_execute svc executor tr tradeUID ceSide peSide atmRow qty w =
     (case hedge_intents svc tr tradeUID ceSide peSide atmRow qty w of ((ceIntent, peIntent), w) \<Rightarrow>
       let w = st_now svc (\<lambda>t. AppendIntent t tradeUID ceIntent) w;
           w = st_now svc (\<lambda>t. AppendIntent t tradeUID peIntent) w in
       (case hedge_send executor ceIntent ''hedge CE failed: '' w of
          (Inl e, w) \<Rightarrow> (Inl e, w)
        | (Inr _, w) \<Rightarrow>
            (case hedge_send executor peIntent ''hedge PE failed: '' w of
               (Inl e, w) \<Rightarrow> (Inl e, w)
             | (Inr _, w) \<Rightarrow> (Inr (), w))))"

definition hedge_qty :: "StoredTrade \<Rightarrow> int" where
  "hedge_qty tr = (if tr_LotSize tr \<le> 0 then GetFallbackLotSize (tr_Symbol tr) else tr_LotSize tr)"

definition ManualHedge :: "'b service \<Rightarrow> string \<Rightarrow> 'b world \<Rightarrow> (goerr + unit) \<times> 'b world" where
  "ManualHedge svc tradeUID w = (case st_load tradeUID w of
      (None, w) \<Rightarrow> (Inl (GoErr ''trade not found''), w)
    | (Some tr, w) \<Rightarrow>
        (case LoadSnapshot tradeUID (w_store w) of
           None \<Rightarrow> (Inl (GoErr ''snapshot not found''), w)
         | Some snap \<Rightarrow>
             (case hedgeSidesFromNetDelta (ts_NetDelta snap) of (ceSide, peSide, shouldHedge) \<Rightarrow>
               if \<not> shouldHedge then (Inr (), w)
               else (case sv_BrokerFactory svc of
                   None \<Rightarrow> (Inl (GoPanic ''nil pointer dereference''), w)
                 | Some factory \<Rightarrow>
                     (case ext_call (factory (tr_UserID tr) (tr_BrokerName tr) (tr_AccountID tr)) w of
                        (Inl err, w) \<Rightarrow> (Inl err, w)
                      | (Inr executor, w) \<Rightarrow>
                          (case ext_call (sv_Snapshot svc (tr_Symbol tr) (tr_Expiry tr)) w of
                             (Inl err, w) \<Rightarrow> (Inl err, w)
                           | (Inr chain, w) \<Rightarrow>
                               (case FindATMRow chain of
                                  Inl err \<Rightarrow> (Inl err, w)
                                | Inr atmRow \<Rightarrow>
                                    if hedge_qty tr \<le> 0 then (Inl (GoErr (''invalid hedge quantity for symbol '' @ tr_Symbol tr)), w)
                                    else hedge_execute svc executor tr tradeUID ceSide peSide atmRow (hedge_qty tr) w)))))))"

section \<open>manual\_hedge\_broker.go\<close>

record ManualHedgeBrokerRequest =
  mh_Direction :: string
  mh_CESide :: string
  mh_PESide :: string
  mh_CEQuantity :: int
  mh_PEQuantity :: int
  mh_CELimitPrice :: f64
  mh_PELimitPrice :: f64

definition normalizeManualHedgeSide :: "string \<Rightarrow> string" where
  "normalizeManualHedgeSide side = (let side = ToUpper (TrimSpace side) in
     if side \<in> {''BUY'', ''B''} then ''BUY'' else if side \<in> {''SELL'', ''S''} then ''SELL'' else '''')"

definition defaultManualHedgeSides :: "string \<Rightarrow> goerr + (string \<times> string)" where
  "defaultManualHedgeSides direction = (let direction = ToUpper (TrimSpace direction) in
     if direction \<in> {''NEGATIVE_DELTA'', ''NEGATIVE'', ''SHORT_DELTA''} then Inr (''BUY'', ''SELL'')
     else if direction \<in> {''POSITIVE_DELTA'', ''POSITIVE'', ''LONG_DELTA''} then Inr (''SELL'', ''BUY'')
     else Inl (GoErr ''manual hedge requires direction NEGATIVE_DELTA or POSITIVE_DELTA when explicit sides are not supplied''))"

definition defaultManualHedgeQty :: "StoredTrade \<Rightarrow> string \<Rightarrow> int \<Rightarrow> int" where
  "defaultManualHedgeQty tr leg requested =
     (if 0 < requested then requested
      else if leg = ''CE'' \<and> 0 < tr_CEQty tr then tr_CEQty tr
      else if leg = ''PE'' \<and> 0 < tr_PEQty tr then tr_PEQty tr
      else if 0 < tr_LotSize tr then tr_LotSize tr
      else if 0 < GetFallbackLotSize (tr_Symbol tr) then GetFallbackLotSize (tr_Symbol tr) else 0)"

definition defaultManualHedgePrice :: "f64 \<Rightarrow> f64 \<Rightarrow> f64" where
  "defaultManualHedgePrice entry requested =
     (if flt (Fin 0) requested then requested else if flt (Fin 0) entry then entry else F005)"

definition defaultManualHedgeProduct :: "string \<Rightarrow> string" where
  "defaultManualHedgeProduct product = (let product = TrimSpace product in if product = '''' then ''NRML'' else product)"

definition defaultManualHedgeExchangeSegment :: "string \<Rightarrow> string" where
  "defaultManualHedgeExchangeSegment segment = (let segment = TrimSpace segment in if segment = '''' then ''NSEFO'' else segment)"

definition manualHedgeBrokerExecutionEnabled :: "'b service \<Rightarrow> StoredTrade \<Rightarrow> bool" where
  "manualHedgeBrokerExecutionEnabled svc tr \<longleftrightarrow>
     EqualFold (tr_BrokerName tr) ''SIM'' \<or> sv_getenv svc ''ENABLE_MANUAL_BROKER_ACTIONS'' = ''1''"

definition manual_sides :: "ManualHedgeBrokerRequest \<Rightarrow> goerr + (string \<times> string)" where
  "manual_sides req =
     (let ceSide = normalizeManualHedgeSide (mh_CESide req); peSide = normalizeManualHedgeSide (mh_PESide req) in
      if ceSide = '''' \<or> peSide = '''' then
        (case defaultManualHedgeSides (mh_Direction req) of
           Inl err \<Rightarrow> Inl err
         | Inr (defCE, defPE) \<Rightarrow> Inr (if ceSide = '''' then defCE else ceSide, if peSide = '''' then defPE else peSide))
      else Inr (ceSide, peSide))"

definition manual_intent :: "StoredTrade \<Rightarrow> string \<Rightarrow> gotime \<Rightarrow> string \<Rightarrow> string \<Rightarrow> int \<Rightarrow> int \<Rightarrow> string \<Rightarrow> int \<Rightarrow> f64 \<Rightarrow> OrderIntent" where
  "manual_intent tr tradeUID now legType code suffix token side qty price =
     \<lparr>it_IntentID = BuildShortOrderUID (tr_Symbol tr) code now suffix, it_TradeUID = tradeUID, it_Token = token,
      it_Symbol = tr_Symbol tr, it_ExchangeSegment = defaultManualHedgeExchangeSegment (tr_ExchangeSegment tr),
      it_Side = side, it_Quantity = qty, it_OrderType = ''LIMIT'', it_LimitPrice = Some price,
      it_ProductType = defaultManualHedgeProduct (tr_ProductType tr), it_LegType = legType, it_Phase = ''HEDGE'',
      it_OrderUID = BuildShortOrderUID (tr_Symbol tr) code now (suffix + 1), it_BrokerName = tr_BrokerName tr,
      it_AccountID = tr_AccountID tr, it_ExpectedPrice = price\<rparr>"

definition zero_ExecutionResult :: ExecutionResult where
  "zero_ExecutionResult = \<lparr>res_IntentID = '''', res_BrokerOrderID = '''', res_Status = '''', res_FilledQty = 0, res_PendingQty = 0,
     res_FillPrice = Fin 0, res_EventReason = '''', res_LatencyMS = 0, res_RawRequest = '''', res_RawResponse = ''''\<rparr>"

definition dry_run_result :: "OrderIntent \<Rightarrow> ExecutionResult" where
  "dry_run_result it = zero_ExecutionResult\<lparr>res_IntentID := it_IntentID it, res_Status := ''DRY_RUN'',
     res_EventReason := ''MANUAL_BROKER_ACTIONS_DISABLED'',
     res_RawResponse := ''set ENABLE_MANUAL_BROKER_ACTIONS=1 to execute non-SIM manual hedge broker orders''\<rparr>"

text \<open>The results that came before an error are returned with it.\<close>

fun manual_send :: "'b executor \<Rightarrow> OrderIntent list \<Rightarrow> 'b world \<Rightarrow> (ExecutionResult list \<times> goerr option) \<times> 'b world" where
  "manual_send executor [] w = (([], None), w)"
| "manual_send executor (it # its) w =
     (case hedge_send executor it (''manual hedge '' @ it_LegType it @ '' failed: '') w of
        (Inl e, w) \<Rightarrow> (([], Some e), w)
      | (Inr res, w) \<Rightarrow> (case manual_send executor its w of ((rs, e), w) \<Rightarrow> ((res # rs, e), w)))"

type_synonym manual_outcome = "ExecutionResult list \<times> bool \<times> goerr option"

definition manual_execute :: "'b service \<Rightarrow> StoredTrade \<Rightarrow> OrderIntent list \<Rightarrow> 'b world \<Rightarrow> manual_outcome \<times> 'b world" where
  "manual_execute svc tr its w =
     (if \<not> manualHedgeBrokerExecutionEnabled svc tr then ((map dry_run_result its, True, None), w)
      else (case sv_BrokerFactory svc of
          None \<Rightarrow> (([], False, Some (GoErr ''broker factory is nil'')), w)
        | Some factory \<Rightarrow>
            (case ext_call (factory (tr_UserID tr) (tr_BrokerName tr) (tr_AccountID tr)) w of
               (Inl err, w) \<Rightarrow> (([], False, Some err), w)
             | (Inr executor, w) \<Rightarrow> (case manual_send executor its w of ((rs, e), w) \<Rightarrow> ((rs, False, e), w)))))"

definition ManualHedgeBrokerOrder :: "'b service \<Rightarrow> string \<Rightarrow> ManualHedgeBrokerRequest \<Rightarrow> 'b world \<Rightarrow> manual_outcome \<times> 'b world" where
  "ManualHedgeBrokerOrder svc tradeUID req w = (case st_load tradeUID w of
      (None, w) \<Rightarrow> (([], False, Some (GoErr ''trade not found'')), w)
    | (Some tr, w) \<Rightarrow>
        (case manual_sides req of
           Inl err \<Rightarrow> (([], False, Some err), w)
         | Inr (ceSide, peSide) \<Rightarrow>
             let ceQty = defaultManualHedgeQty tr ''CE'' (mh_CEQuantity req);
                 peQty = defaultManualHedgeQty tr ''PE'' (mh_PEQuantity req) in
             if ceQty \<le> 0 \<or> peQty \<le> 0 then
               (([], False, Some (GoErr (''invalid hedge quantity ce='' @ show_int ceQty @ '' pe='' @ show_int peQty))), w)
             else if tr_CEToken tr \<le> 0 \<or> tr_PEToken tr \<le> 0 then
               (([], False, Some (GoErr (''missing CE/PE tokens for trade '' @ tradeUID))), w)
             else
               (case time_Now svc w of (now, w) \<Rightarrow>
                 let ceIntent = manual_intent tr tradeUID now ''CE'' ''HCE'' 0 (tr_CEToken tr) ceSide ceQty
                       (defaultManualHedgePrice (tr_CELtp tr) (mh_CELimitPrice req));
                     peIntent = manual_intent tr tradeUID now ''PE'' ''HPE'' 2 (tr_PEToken tr) peSide peQty
                       (defaultManualHedgePrice (tr_PELtp tr) (mh_PELimitPrice req));
                     w = st_now svc (\<lambda>t. AppendIntent t tradeUID ceIntent) w;
                     w = st_now svc (\<lambda>t. AppendIntent t tradeUID peIntent) w in
                 manual_execute svc tr [ceIntent, peIntent] w)))"

section \<open>service\_actions.go\<close>

text \<open>
  \<^verbatim>\<open>ManualSquareOff\<close> reads the asks of a row, which \<^verbatim>\<open>OptionChainRow\<close> does not
  have; they are arguments. The two goroutines call the executor in either order (\<open>peFirst\<close>) and
  the results are collected in that order.
\<close>

definition manual_sqf_intent :: "StoredTrade \<Rightarrow> string \<Rightarrow> string \<Rightarrow> gotime \<Rightarrow> int \<Rightarrow> int \<Rightarrow> f64 \<Rightarrow> OrderIntent" where
  "manual_sqf_intent trade tradeUID legType now token qty price =
     zero_OrderIntent\<lparr>it_IntentID := ''INT_SQF_'' @ tradeUID @ ''_'' @ legType @ ''_'' @ show_int (t_unix_micro now div 1000),
       it_TradeUID := tradeUID, it_Token := token, it_Symbol := tr_Symbol trade, it_ExchangeSegment := tr_ExchangeSegment trade,
       it_Side := ''BUY'', it_Quantity := qty, it_OrderType := ''LIMIT'', it_LimitPrice := Some price,
       it_ProductType := tr_ProductType trade, it_LegType := legType, it_Phase := ''MANUAL_SQF'',
       it_BrokerName := tr_BrokerName trade, it_AccountID := tr_AccountID trade\<rparr>"

fun run_all :: "'b executor \<Rightarrow> OrderIntent list \<Rightarrow> 'b world \<Rightarrow> ExecutionResult list \<times> 'b world" where
  "run_all executor [] w = ([], w)"
| "run_all executor (it # its) w =
     (case ext_call (executor it) w of (r, w) \<Rightarrow>
       let res = (case r of Inr res \<Rightarrow> res
             | Inl err \<Rightarrow> zero_ExecutionResult\<lparr>res_IntentID := it_IntentID it, res_Status := ''FAILED'', res_EventReason := Error err\<rparr>) in
       (case run_all executor its w of (rs, w) \<Rightarrow> (res # rs, w)))"

definition ManualSquareOff :: "(OptionChainRow \<Rightarrow> f64) \<Rightarrow> (OptionChainRow \<Rightarrow> f64) \<Rightarrow> bool \<Rightarrow> 'b service \<Rightarrow> string \<Rightarrow> 'b world \<Rightarrow>
    (goerr + ExecutionResult list) \<times> 'b world" where
  "ManualSquareOff CEAsk PEAsk peFirst svc tradeUID w = (case st_load tradeUID w of
      (None, w) \<Rightarrow> (Inl (GoErr (''trade '' @ tradeUID @ '' not found for manual square-off'')), w)
    | (Some trade, w) \<Rightarrow>
        (case sv_BrokerFactory svc of
           None \<Rightarrow> (Inl (GoPanic ''nil pointer dereference''), w)
         | Some factory \<Rightarrow>
             (case ext_call (factory (tr_UserID trade) (tr_BrokerName trade) (tr_AccountID trade)) w of
                (Inl err, w) \<Rightarrow> (Inl (GoWrap (''could not get executor for broker '' @ tr_BrokerName trade @ '': '') err), w)
              | (Inr executor, w) \<Rightarrow>
                  (case ext_call (sv_Snapshot svc (tr_Symbol trade) (tr_Expiry trade)) w of
                     (Inl err, w) \<Rightarrow> (Inl (GoWrap ''failed to fetch option chain for square-off pricing: '' err), w)
                   | (Inr chain, w) \<Rightarrow>
                       (case find (\<lambda>row. feq (row_Strike row) (tr_Strike trade)) (ch_Chain chain) of
                          None \<Rightarrow> (Inl (GoErr (''could not find strike '' @ fmt_f 2 (tr_Strike trade) @
                              '' in live option chain for '' @ tr_Symbol trade)), w)
                        | Some row \<Rightarrow>
                            let (t1, w) = time_Now svc w; (t2, w) = time_Now svc w;
                                ceIntent = manual_sqf_intent trade tradeUID ''CE'' t1 (tr_CEToken trade) (tr_CEQty trade) (fadd (CEAsk row) F005);
                                peIntent = manual_sqf_intent trade tradeUID ''PE'' t2 (tr_PEToken trade) (tr_PEQty trade) (fadd (PEAsk row) F005);
                                (results, w) = run_all executor (if peFirst then [peIntent, ceIntent] else [ceIntent, peIntent]) w in
                            (Inr results, w))))))"

section \<open>The monitor\<close>

text \<open>The loop over the rows keeps the last row that matches.\<close>

definition last_row :: "(OptionChainRow \<Rightarrow> bool) \<Rightarrow> OptionChainRow list \<Rightarrow> OptionChainRow option" where
  "last_row P rows = foldl (\<lambda>acc row. if P row then Some row else acc) None rows"

definition weighted :: "f64 \<Rightarrow> int \<Rightarrow> f64 \<Rightarrow> int \<Rightarrow> f64" where
  "weighted a qa b qb = fadd (fmul a (itof qa)) (fmul b (itof qb))"

definition leg_pnl :: "f64 \<Rightarrow> f64 \<Rightarrow> int \<Rightarrow> f64" where
  "leg_pnl entry ltp qty = fmul (fsub entry ltp) (itof qty)"

definition monitor_snapshot :: "StoredTrade \<Rightarrow> OptionChainSnapshot \<Rightarrow> OptionChainRow \<Rightarrow> OptionChainRow \<Rightarrow> gotime \<Rightarrow> TradeSnapshot" where
  "monitor_snapshot trade chain ceRow peRow now =
     (let cePNL = leg_pnl (tr_CELtp trade) (row_CELtp ceRow) (tr_CEQty trade);
          pePNL = leg_pnl (tr_PELtp trade) (row_PELtp peRow) (tr_PEQty trade);
          totalPNL = fadd cePNL pePNL in
      \<lparr>ts_TradeUID = tr_TradeUID trade, ts_Timestamp = now, ts_Status = tr_Status trade, ts_Symbol = tr_Symbol trade,
       ts_Expiry = tr_Expiry trade, ts_Strike = tr_Strike trade, ts_Underlying = chooseUnderlying chain, ts_TotalPNL = totalPNL,
       ts_RealizedPNL = Fin 0, ts_UnrealizedPNL = totalPNL,
       ts_NetDelta = weighted (row_CEDelta ceRow) (tr_CEQty trade) (row_PEDelta peRow) (tr_PEQty trade),
       ts_NetGamma = weighted (row_CEGamma ceRow) (tr_CEQty trade) (row_PEGamma peRow) (tr_PEQty trade),
       ts_NetTheta = weighted (row_CETheta ceRow) (tr_CEQty trade) (row_PETheta peRow) (tr_PEQty trade),
       ts_NetVega = weighted (row_CEVega ceRow) (tr_CEQty trade) (row_PEVega peRow) (tr_PEQty trade),
       ts_LivePositions =
        [\<lparr>ls_Token = tr_CEToken trade, ls_Strike = row_Strike ceRow, ls_OptionType = ''CE'', ls_Action = ''SELL'', ls_Quantity = tr_CEQty trade,
          ls_EntryPrice = tr_CELtp trade, ls_LTP = row_CELtp ceRow, ls_PNL = cePNL, ls_IV = row_CEIV ceRow, ls_Delta = row_CEDelta ceRow,
          ls_Gamma = row_CEGamma ceRow, ls_Theta = row_CETheta ceRow, ls_Vega = row_CEVega ceRow\<rparr>,
         \<lparr>ls_Token = tr_PEToken trade, ls_Strike = row_Strike peRow, ls_OptionType = ''PE'', ls_Action = ''SELL'', ls_Quantity = tr_PEQty trade,
          ls_EntryPrice = tr_PELtp trade, ls_LTP = row_PELtp peRow, ls_PNL = pePNL, ls_IV = row_PEIV peRow, ls_Delta = row_PEDelta peRow,
          ls_Gamma = row_PEGamma peRow, ls_Theta = row_PETheta peRow, ls_Vega = row_PEVega peRow\<rparr>]\<rparr>)"

definition sl_threshold :: "StoredTrade \<Rightarrow> f64" where
  "sl_threshold trade =
     (let totalLotsOpen = fdiv (itof (i64_add (tr_CEQty trade) (tr_PEQty trade))) (fmul (Fin 2) (itof (maxInt 1 (tr_LotSize trade)))) in
      fmul (fneg (mc_SLPointsPerLot (tr_Config trade))) totalLotsOpen)"

definition runMonitorCycle :: "'b service \<Rightarrow> string \<Rightarrow> 'b world \<Rightarrow> (goerr + unit) \<times> 'b world" where
  "runMonitorCycle svc tradeUID w = (case st_load tradeUID w of
      (None, w) \<Rightarrow> (Inr (), w)
    | (Some trade, w) \<Rightarrow>
        if tr_Status trade = ''CLOSED'' \<or> tr_Status trade = ''FAILED'' \<or> tr_Status trade = ''PENDING_FILL'' then (Inr (), w)
        else (case ext_call (sv_Snapshot svc (tr_Symbol trade) (tr_Expiry trade)) w of
            (Inl err, w) \<Rightarrow> (Inr (), w)
          | (Inr chain, w) \<Rightarrow>
              (case (last_row (\<lambda>row. row_CEToken row = tr_CEToken trade) (ch_Chain chain),
                     last_row (\<lambda>row. row_PEToken row = tr_PEToken trade) (ch_Chain chain)) of
                 (Some ceRow, Some peRow) \<Rightarrow>
                   (case time_Now svc w of (now, w) \<Rightarrow>
                     let snapshot = monitor_snapshot trade chain ceRow peRow now; w = st_do (SaveSnapshot snapshot) w in
                     if flt (Fin 0) (mc_SLPointsPerLot (tr_Config trade)) \<and> fle (ts_TotalPNL snapshot) (sl_threshold trade) then
                       (case set_status svc ''CLOSED_SL'' trade w of (_, w) \<Rightarrow> stop_runtime tradeUID w)
                     else (Inr (), w))
               | _ \<Rightarrow> (Inr (), w))))"

text \<open>One tick of \<^verbatim>\<open>runMonitor\<close>: the runtime gets the latest snapshot, through its pointer; the rest is logging.\<close>

definition tickRuntime :: "RuntimeTrade \<Rightarrow> store \<Rightarrow> RuntimeTrade" where
  "tickRuntime rt s = (case LoadSnapshot (tr_TradeUID (rt_Trade rt)) s of
      None \<Rightarrow> rt
    | Some snap \<Rightarrow> rt\<lparr>rt_Snapshot := snap\<rparr>)"

definition monitor_interval_sec :: "RuntimeTrade \<Rightarrow> int" where
  "monitor_interval_sec rt = (let interval = wrap64 (mc_PollIntervalSec (tr_Config (rt_Trade rt)) * 10 ^ 9) in
     if interval \<le> 0 then 60 * 10 ^ 9 else interval)"

text \<open>
  The goroutine \<^verbatim>\<open>runMonitor\<close>: \<^verbatim>\<open>select\<close> takes a tick, with the store as it then is, or the closed stop
  channel. The result is the runtime and whether the goroutine has returned.
\<close>

datatype monitor_event =
    MonitorTick store
  | MonitorStop

fun runMonitor :: "monitor_event list \<Rightarrow> RuntimeTrade \<Rightarrow> RuntimeTrade \<times> bool" where
  "runMonitor [] rt = (rt, False)"
| "runMonitor (MonitorStop # es) rt = (rt, True)"
| "runMonitor (MonitorTick s # es) rt = runMonitor es (tickRuntime rt s)"

section \<open>executor.go\<close>

text \<open>
  \<open>done\<close>: the context ended first; \<open>oid\<close> is the random number of the order, \<open>latency\<close>
  the measured time.
\<close>

definition MockExecutor_ExecuteOrderIntent :: "bool \<Rightarrow> int \<Rightarrow> int \<Rightarrow> OrderIntent \<Rightarrow> goerr + ExecutionResult" where
  "MockExecutor_ExecuteOrderIntent ctxDone oid latency it =
     (if ctxDone then Inl (GoErr ''context canceled'')
      else
        let fillPrice = (case it_LimitPrice it of
              Some p \<Rightarrow> if flt (Fin 0) p then p else it_ExpectedPrice it
            | None \<Rightarrow> it_ExpectedPrice it);
            fillPrice = (if fle fillPrice (Fin 0) then Fin 1 else fillPrice) in
        Inr (zero_ExecutionResult\<lparr>res_IntentID := it_IntentID it, res_BrokerOrderID := ''MOCK-'' @ show_int oid,
          res_Status := ''FILLED'', res_FilledQty := it_Quantity it, res_FillPrice := fillPrice,
          res_EventReason := ''UAT_MOCK'', res_LatencyMS := latency\<rparr>))"

end
