(* ===== verification/Trading_Deploy_Proofs.thy ===== *)
theory Trading_Deploy_Proofs
  imports Trading_Deploy
begin

text \<open>
  What \<^verbatim>\<open>DeployStraddle\<close> guarantees. The service runs with a logging broker
  (\<open>logged_service\<close>): the stages before the build leave the store and the log alone
  (\<open>quiet\<close>), a plan that is reached satisfies \<open>plan_ok\<close>, and the results on
  \<^verbatim>\<open>executeBuild\<close> and on the chunker give the filled quantities of each leg.
\<close>

section \<open>The service with a logging broker\<close>

definition logged_service :: "'b service \<Rightarrow> ('b \<times> exec_log) service" where
  "logged_service svc = \<lparr>sv_DefaultClientID = sv_DefaultClientID svc,
     sv_BrokerFactory = map_option (\<lambda>f u bn a (b, l). case f u bn a b of
         (Inl e, b') \<Rightarrow> (Inl e, (b', l)) | (Inr ex, b') \<Rightarrow> (Inr (logged ex), (b', l))) (sv_BrokerFactory svc),
     sv_Snapshot = (\<lambda>s x (b, l). case sv_Snapshot svc s x b of (r, b') \<Rightarrow> (r, (b', l))),
     sv_LotSize = (\<lambda>s x (b, l). case sv_LotSize svc s x b of (r, b') \<Rightarrow> (r, (b', l))),
     sv_clock = sv_clock svc, sv_getenv = sv_getenv svc\<rparr>"

definition quiet :: "('b \<times> exec_log) world \<Rightarrow> ('b \<times> exec_log) world \<Rightarrow> bool" where
  "quiet w w' \<longleftrightarrow> w_log w' = w_log w \<and> w_store w' = w_store w"

lemma quiet_refl [simp]: "quiet w w"
  by (simp add: quiet_def)

lemma quiet_trans: "quiet w w' \<Longrightarrow> quiet w' w'' \<Longrightarrow> quiet w w''"
  by (simp add: quiet_def)

lemma time_Now_quiet: "time_Now svc w = (t, w') \<Longrightarrow> quiet w w'"
  by (auto simp: time_Now_def quiet_def)

lemma ext_snapshot_quiet: "ext_call (sv_Snapshot (logged_service svc) s x) w = (r, w') \<Longrightarrow> quiet w w'"
  by (auto simp: ext_call_def logged_service_def quiet_def split: prod.splits)

lemma ext_lotsize_quiet: "ext_call (sv_LotSize (logged_service svc) s x) w = (r, w') \<Longrightarrow> quiet w w'"
  by (auto simp: ext_call_def logged_service_def quiet_def split: prod.splits)

lemma ext_factory_quiet:
  assumes "sv_BrokerFactory (logged_service svc) = Some f" "ext_call (f u bn a) w = (r, w')"
  shows "quiet w w' \<and> (\<forall>ex. r = Inr ex \<longrightarrow> (\<exists>ex0. ex = logged ex0))"
  using assms by (auto simp: ext_call_def logged_service_def quiet_def split: prod.splits sum.splits)

lemma resolve_lot_size_quiet: "resolve_lot_size (logged_service svc) req chain w = (ls, w') \<Longrightarrow> quiet w w'"
  by (auto simp: resolve_lot_size_def Let_def split: if_splits prod.splits sum.splits dest: ext_lotsize_quiet)

text \<open>What a plan guarantees.\<close>

definition plan_ok :: "deploy_plan \<Rightarrow> bool" where
  "plan_ok dp \<longleftrightarrow> rq_Lots (dp_req dp) = 1 \<and> 0 < dp_lotSize dp \<and>
     \<not> prices_missing (dp_ceRow dp) (dp_peRow dp) \<and>
     (dp_ceLots dp, dp_peLots dp, dp_netDelta dp) = size_legs (dp_req dp) (dp_lotSize dp) (dp_ceRow dp) (dp_peRow dp)"

lemma check_lots_Inr: "check_lots req ls = Inr req' \<Longrightarrow> rq_Lots req' = 1 \<and> rq_Lots req = 1 \<and> 0 < ls \<and> rq_Symbol req' = rq_Symbol req"
  by (auto simp: check_lots_def Let_def split: if_splits)

lemma plan_sizes_quiet: "plan_sizes (logged_service svc) req chain w = (r, w') \<Longrightarrow> quiet w w'"
  by (auto simp: plan_sizes_def Let_def split: sum.splits prod.splits if_splits dest: resolve_lot_size_quiet)

lemma plan_sizes_ok:
  "plan_sizes svc req chain w = (Inr dp, w') \<Longrightarrow> plan_ok dp \<and> rq_Lots req = 1"
  by (auto simp: plan_sizes_def plan_ok_def Let_def split: sum.splits prod.splits if_splits dest!: check_lots_Inr)

lemma maxInt_eq: "maxInt a b = max a b"
  by (auto simp: maxInt_def)

lemma size_legs_bounds:
  assumes "size_legs req ls ce pe = (cl, pl, nd)" "rq_Lots req = 1" "0 < ls" "int64_ok ls"
  shows "1 \<le> cl \<and> cl * ls < 2 ^ 63 \<and> 1 \<le> pl \<and> pl * ls < 2 ^ 63"
proof -
  have step: "1 \<le> maxInt 1 (i64_div c ls) \<and> maxInt 1 (i64_div c ls) * ls < 2 ^ 63" if "ls \<le> c" "int64_ok c" for c
  proof -
    have d: "i64_div c ls = c div ls" using that assms by (intro i64_div_nonneg) auto
    have "c div ls * ls \<le> c" using assms(3) by (simp flip: minus_mod_eq_div_mult)
    moreover have "c < 2 ^ 63" "ls < 2 ^ 63" using that assms(4) by (simp_all add: int64_ok_def)
    ultimately have "max 1 (c div ls) * ls < 2 ^ 63" by (auto simp: max_def)
    then show ?thesis by (simp add: d maxInt_eq)
  qed
  have ftoi_ok: "int64_ok (ftoi x)" for x by (cases x) (auto simp: int64_ok_def)
  show ?thesis
  proof (cases "rq_DeltaNeutral req \<and> \<not> feq (row_CEDelta ce) (Fin 0) \<and> \<not> feq (row_PEDelta pe) (Fin 0)")
    case True
    let ?c = "ftoi (fround (fmul (itof (i64_mul (rq_Lots req) ls)) (fabs (fdiv (row_CEDelta ce) (row_PEDelta pe)))))"
    let ?p = "ftoi (fround (itof (i64_mul (rq_Lots req) ls)))"
    have "cl = maxInt 1 (i64_div (if ?c < ls then ls else ?c) ls)" "pl = maxInt 1 (i64_div (if ?p < ls then ls else ?p) ls)"
      using assms(1) True by (auto simp: size_legs_def Let_def)
    then show ?thesis using step [of "if ?c < ls then ls else ?c"] step [of "if ?p < ls then ls else ?p"] ftoi_ok assms(4) by auto
  next
    case False
    then show ?thesis using assms by (auto simp: size_legs_def Let_def int64_ok_def)
  qed
qed

section \<open>Filled quantities\<close>

lemma count_log_ids: "count (mset (log_ids l)) u = length (sent_for u l)"
  by (induction l) auto

lemma sent_for_filter: "sent_for u (filter P l) = filter P (sent_for u l)"
  by (induction l) auto

definition filled_entries :: "exec_log \<Rightarrow> exec_log" where
  "filled_entries l = filter (\<lambda>e. filled_result (snd e)) l"

lemma dead_not_filled: "dead_result r \<Longrightarrow> \<not> filled_result r"
  by (cases r) auto

lemma filled_once:
  assumes "retry_ok n l" "filled_last l"
  shows "filled_entries l = [last l]"
proof -
  have l: "l = butlast l @ [last l]" using assms(2) by (simp add: filled_last_def)
  have "filter (\<lambda>e. filled_result (snd e)) (butlast l) = []"
    using assms(1) by (auto simp: retry_ok_def filter_empty_conv list_all_iff dest: dead_not_filled)
  then have "filled_entries (butlast l @ [last l]) = [last l]"
    using assms(2) by (simp add: filled_entries_def filled_last_def del: append_butlast_last_id)
  then show ?thesis using l by simp
qed

lemma filled_entries_ids:
  assumes "build_log os (Inr ()) l"
  shows "distinct (log_ids (filled_entries l))" "set (log_ids (filled_entries l)) = eo_UID ` set os"
proof -
  have one: "length (sent_for u (filled_entries l)) = 1" if "u \<in> eo_UID ` set os" for u
    using assms that filled_once [of maxChunkRetries "sent_for u l"]
    by (auto simp: build_log_def sent_for_filter filled_entries_def)
  have none: "length (sent_for u (filled_entries l)) = 0" if "u \<notin> eo_UID ` set os" for u
  proof -
    have "sent_for u l = []" using assms that by (intro sent_for_other) (auto simp: build_log_def)
    then show ?thesis by (simp add: sent_for_filter filled_entries_def)
  qed
  have cnt: "count (mset (log_ids (filled_entries l))) u = (if u \<in> eo_UID ` set os then 1 else 0)" for u
    using one [of u] none [of u] by (auto simp only: count_log_ids split: if_splits)
  then show s: "set (log_ids (filled_entries l)) = eo_UID ` set os"
    by (metis (mono_tags, opaque_lifting) count_mset_0_iff subsetI subset_antisym zero_neq_one)
  then show "distinct (log_ids (filled_entries l))"
    unfolding distinct_count_atmost_1 using cnt by simp
qed

definition filled_qty :: "int \<Rightarrow> exec_log \<Rightarrow> int" where
  "filled_qty token l = sum_list (map (\<lambda>e. it_Quantity (fst e)) (filter (\<lambda>e. it_Token (fst e) = token) (filled_entries l)))"

lemma sum_by_key:
  assumes "distinct (map key xs)" "\<And>x. x \<in> set xs \<Longrightarrow> f x = g (key x)"
  shows "sum_list (map f xs) = (\<Sum>u\<in>key ` set xs. g u)"
proof -
  have "map f xs = map g (map key xs)" using assms(2) by simp
  then have "sum_list (map f xs) = sum_list (map g (map key xs))" by (simp only:)
  also have "\<dots> = (\<Sum>u\<in>set (map key xs). g u)" by (rule sum_list_distinct_conv_sum_set [OF assms(1)])
  finally show ?thesis by simp
qed

lemma filled_qty_orders:
  assumes log: "build_log os (Inr ()) l" and d: "distinct (map eo_UID os)"
    and sent: "\<forall>e\<in>set l. sent_from trade sb (set os) (fst e)"
  shows "filled_qty token l = sum_list (map eo_Quantity (filter (\<lambda>ord. eo_Token ord = token) os))"
proof -
  define g where "g u = (case find (\<lambda>ord. eo_UID ord = u) os of
      Some ord \<Rightarrow> if eo_Token ord = token then eo_Quantity ord else 0 | None \<Rightarrow> 0)" for u
  have g: "g (eo_UID ord) = (if eo_Token ord = token then eo_Quantity ord else 0)" if mem: "ord \<in> set os" for ord
  proof -
    have "find (\<lambda>x. eo_UID x = eo_UID ord) os \<noteq> None" using mem by (auto simp: find_None_iff)
    then obtain o' where o': "find (\<lambda>x. eo_UID x = eo_UID ord) os = Some o'" by blast
    then have "o' \<in> set os" "eo_UID o' = eo_UID ord" by (auto simp: find_Some_iff)
    then have "o' = ord" using d mem by (auto simp: distinct_map inj_on_def)
    then show ?thesis using o' by (simp add: g_def)
  qed
  have e: "(if it_Token (fst e) = token then it_Quantity (fst e) else 0) = g (it_IntentID (fst e))"
    if "e \<in> set (filled_entries l)" for e
  proof -
    have "sent_from trade sb (set os) (fst e)" using that sent by (auto simp: filled_entries_def)
    then show ?thesis using g by (auto simp: sent_from_def build_intent_def)
  qed
  have ids: "(\<lambda>e. it_IntentID (fst e)) ` set (filled_entries l) = eo_UID ` set os"
    using filled_entries_ids(2) [OF log] by (simp add: log_ids_def)
  have "filled_qty token l = sum_list (map (\<lambda>e. if it_Token (fst e) = token then it_Quantity (fst e) else 0) (filled_entries l))"
    unfolding filled_qty_def by (rule sum_list_map_filter')
  also have "\<dots> = (\<Sum>u\<in>eo_UID ` set os. g u)"
    unfolding ids [symmetric] using filled_entries_ids(1) [OF log] e by (intro sum_by_key) (simp_all add: log_ids_def)
  also have "\<dots> = sum_list (map (\<lambda>ord. if eo_Token ord = token then eo_Quantity ord else 0) os)"
    using d g by (intro sum_by_key [symmetric]) simp_all
  also have "\<dots> = sum_list (map eo_Quantity (filter (\<lambda>ord. eo_Token ord = token) os))"
    by (rule sum_list_map_filter' [symmetric])
  finally show ?thesis .
qed

section \<open>From plan to outcome\<close>

definition ce_leg :: "deploy_plan \<Rightarrow> LegData" where
  "ce_leg dp = \<lparr>lg_Token = dp_ceToken dp, lg_Symbol = rq_Symbol (dp_req dp), lg_OptionType = ''CE'', lg_Action = ''SELL'',
     lg_TotalLots = dp_ceLots dp, lg_LotSize = dp_lotSize dp, lg_ExpectedPrice = row_CELtp (dp_ceRow dp),
     lg_ExchangeSegment = deploy_segment (dp_req dp)\<rparr>"

definition pe_leg :: "deploy_plan \<Rightarrow> LegData" where
  "pe_leg dp = \<lparr>lg_Token = dp_peToken dp, lg_Symbol = rq_Symbol (dp_req dp), lg_OptionType = ''PE'', lg_Action = ''SELL'',
     lg_TotalLots = dp_peLots dp, lg_LotSize = dp_lotSize dp, lg_ExpectedPrice = row_PELtp (dp_peRow dp),
     lg_ExchangeSegment = deploy_segment (dp_req dp)\<rparr>"

lemma plan_bounds:
  assumes "plan_ok dp" "int64_ok (dp_lotSize dp)"
  shows "1 \<le> dp_ceLots dp" "dp_ceLots dp * dp_lotSize dp < 2 ^ 63" "1 \<le> dp_peLots dp" "dp_peLots dp * dp_lotSize dp < 2 ^ 63"
    "0 < dp_lotSize dp"
  using assms size_legs_bounds [of "dp_req dp" "dp_lotSize dp" "dp_ceRow dp" "dp_peRow dp" "dp_ceLots dp" "dp_peLots dp" "dp_netDelta dp"]
  by (auto simp: plan_ok_def)

lemma lots_small: "1 \<le> n \<Longrightarrow> n * ls < 2 ^ 63 \<Longrightarrow> 0 < ls \<Longrightarrow> int64_ok n \<and> int64_ok (n * ls) \<and> 0 < n * ls" for n ls :: int
proof -
  assume a: "1 \<le> n" "n * ls < 2 ^ 63" "0 < ls"
  then have "n * 1 \<le> n * ls" by (intro mult_left_mono) auto
  moreover have "0 < n * ls" using a by simp
  ultimately show ?thesis using a(1,2) unfolding int64_ok_def by linarith
qed

lemma deploy_legs_eq:
  assumes "plan_ok dp" "int64_ok (dp_lotSize dp)"
  shows "deploy_legs dp = [ce_leg dp, pe_leg dp]"
  using plan_bounds [OF assms] by (simp add: deploy_legs_def ce_leg_def pe_leg_def)

lemma plan_legs_ok:
  assumes "plan_ok dp" "int64_ok (dp_lotSize dp)" "plan_chunks now trade dp = Inr chunks"
  shows "list_all leg_ok (deploy_legs dp)"
proof -
  note b = plan_bounds [OF assms(1,2)]
  note tok = generated_tokens [OF assms(3) [unfolded plan_chunks_def]]
  have t: "0 < dp_ceToken dp" "0 < dp_peToken dp"
    using tok [of "ce_leg dp"] tok [of "pe_leg dp"]
    by (simp_all add: deploy_legs_eq [OF assms(1,2)]) (simp_all add: ce_leg_def pe_leg_def)
  have "int64_ok (dp_ceLots dp)" "int64_ok (dp_peLots dp)"
    using lots_small [OF b(1,2,5)] lots_small [OF b(3,4,5)] by blast+
  with t b have "leg_ok (ce_leg dp)" "leg_ok (pe_leg dp)"
    unfolding leg_ok_def ce_leg_def pe_leg_def LegData.simps by linarith+
  then show ?thesis by (simp add: deploy_legs_eq [OF assms(1,2)])
qed

lemma sum_list_split:
  "sum_list (map f xs) = sum_list (map f (filter P xs)) + sum_list (map f (filter (\<lambda>x. \<not> P x) xs))" for f :: "'a \<Rightarrow> int"
  by (induction xs) simp_all

lemma max_qty_ok: "0 < MaxOrderQtyForSymbol s" "int64_ok (MaxOrderQtyForSymbol s)"
  using MaxOrderQtyForSymbol_bounds [of s] by (auto simp: int64_ok_def)

text \<open>The orders of a plan: distinct identifiers, quantities that add up per leg.\<close>

lemma plan_chunk_facts:
  assumes "plan_ok dp" "int64_ok (dp_lotSize dp)" "plan_chunks now trade dp = Inr chunks" "dp_ceToken dp \<noteq> dp_peToken dp"
  shows "sum_list (map eo_Quantity (filter (\<lambda>ord. eo_Token ord = dp_ceToken dp) (concat chunks))) = dp_ceLots dp * dp_lotSize dp"
    and "sum_list (map eo_Quantity (filter (\<lambda>ord. eo_Token ord = dp_peToken dp) (concat chunks))) = dp_peLots dp * dp_lotSize dp"
    and "\<And>ord. ord \<in> set (concat chunks) \<Longrightarrow> 0 < eo_Quantity ord \<and> (from_leg (ce_leg dp) ord \<or> from_leg (pe_leg dp) ord)"
    and "distinct (map eo_UID (concat chunks))"
proof -
  note legs = deploy_legs_eq [OF assms(1,2)]
  note ok = plan_legs_ok [OF assms(1-3)]
  have ne: "deploy_legs dp \<noteq> []" and dt: "distinct (map lg_Token (deploy_legs dp))"
    using assms(4) by (simp_all add: legs ce_leg_def pe_leg_def)
  have q: "list_all (\<lambda>leg. sum_list (map eo_Quantity (filter (\<lambda>ord. eo_Token ord = lg_Token leg) (concat chunks))) =
      lg_TotalLots leg * lg_LotSize leg) (deploy_legs dp)"
  proof -
    from generated_quantities [OF ne ok dt max_qty_ok] obtain chunks' where
      "plan_chunks now trade dp = Inr chunks'"
      "list_all (\<lambda>leg. sum_list (map eo_Quantity (filter (\<lambda>ord. eo_Token ord = lg_Token leg) (concat chunks'))) =
         lg_TotalLots leg * lg_LotSize leg) (deploy_legs dp)"
      unfolding plan_chunks_def by blast
    then show ?thesis using assms(3) by simp
  qed
  then show ce: "sum_list (map eo_Quantity (filter (\<lambda>ord. eo_Token ord = dp_ceToken dp) (concat chunks))) = dp_ceLots dp * dp_lotSize dp"
    and pe: "sum_list (map eo_Quantity (filter (\<lambda>ord. eo_Token ord = dp_peToken dp) (concat chunks))) = dp_peLots dp * dp_lotSize dp"
    by (simp_all add: legs ce_leg_def pe_leg_def)
  have same: "list_all (\<lambda>leg. lg_LotSize leg = dp_lotSize dp) (deploy_legs dp)"
    by (simp add: legs ce_leg_def pe_leg_def)
  show ords: "0 < eo_Quantity ord \<and> (from_leg (ce_leg dp) ord \<or> from_leg (pe_leg dp) ord)" if "ord \<in> set (concat chunks)" for ord
    using generated_orders [OF ne ok same max_qty_ok assms(3) [unfolded plan_chunks_def] that] by (auto simp: legs)
  have "int (length xs) \<le> sum_list (map eo_Quantity xs)" if "\<And>ord. ord \<in> set xs \<Longrightarrow> 0 < eo_Quantity ord" for xs
    using that by (induction xs) force+
  then have "int (length (concat chunks)) \<le> sum_list (map eo_Quantity (concat chunks))" using ords by blast
  also have "\<dots> = sum_list (map eo_Quantity (filter (\<lambda>ord. eo_Token ord = dp_ceToken dp) (concat chunks))) +
      sum_list (map eo_Quantity (filter (\<lambda>ord. eo_Token ord \<noteq> dp_ceToken dp) (concat chunks)))"
    by (rule sum_list_split)
  also have "filter (\<lambda>ord. eo_Token ord \<noteq> dp_ceToken dp) (concat chunks) = filter (\<lambda>ord. eo_Token ord = dp_peToken dp) (concat chunks)"
    using ords assms(4) by (intro filter_cong refl) (auto simp: from_leg_def ce_leg_def pe_leg_def)
  finally have "int (length (concat chunks)) \<le> 2 ^ 64"
    using ce pe plan_bounds [OF assms(1,2)] by simp
  then show "distinct (map eo_UID (concat chunks))"
    by (rule generated_uids_distinct [OF ne ok max_qty_ok assms(3) [unfolded plan_chunks_def]])
qed

lemma i64_mul_lots: "1 \<le> n \<Longrightarrow> n * ls < 2 ^ 63 \<Longrightarrow> 0 < ls \<Longrightarrow> i64_mul n ls = n * ls"
  using lots_small [of n ls] by (simp add: i64_mul_def)

lemma deploy_trade_simps [simp]:
  "tr_CEQty (deploy_trade dp now) = i64_mul (dp_ceLots dp) (dp_lotSize dp)"
  "tr_PEQty (deploy_trade dp now) = i64_mul (dp_peLots dp) (dp_lotSize dp)"
  "tr_CEToken (deploy_trade dp now) = dp_ceToken dp" "tr_PEToken (deploy_trade dp now) = dp_peToken dp"
  "mc_SellBuffer (tr_Config (deploy_trade dp now)) = Fin 2" "tr_Status (deploy_trade dp now) = ''BUILDING''"
  by (simp_all add: deploy_trade_def Let_def)

text \<open>What the stages around the build do to the log and to the store.\<close>

lemma store_building_facts:
  assumes "store_building svc dp w = (trade, w1)"
  shows "trade = deploy_trade dp (sv_clock svc (w_tick w))" and "w_ext w1 = w_ext w"
    and "store_trades (w_store w1) = (store_trades (w_store w))(tr_TradeUID trade \<mapsto> trade)"
    and "store_intents (w_store w1) = store_intents (w_store w)"
    and "store_ok (w_store w) \<Longrightarrow> store_ok (w_store w1)"
    and "LoadRuntime u (w_store w1) = LoadRuntime u (w_store w)"
  using assms by (auto simp: store_building_def time_Now_def st_now_def Let_def)

lemma deploy_failed_facts:
  "w_ext (deploy_failed svc trade err w) = w_ext w"
  "\<exists>t. store_trades (w_store (deploy_failed svc trade err w)) = (store_trades (w_store w))(tr_TradeUID trade \<mapsto>
     trade\<lparr>tr_Status := buildFailureStatusFromError err, tr_LastUpdateTime := t\<rparr>)"
  "store_intents (w_store (deploy_failed svc trade err w)) = store_intents (w_store w)"
  "LoadRuntime u (w_store (deploy_failed svc trade err w)) = LoadRuntime u (w_store w)"
  by (auto simp: deploy_failed_def time_Now_def st_now_def)

lemma startRuntime_facts:
  "w_ext (startRuntime tr w) = w_ext w" "store_trades (w_store (startRuntime tr w)) = store_trades (w_store w)"
  "store_intents (w_store (startRuntime tr w)) = store_intents (w_store w)"
  "LoadRuntime (tr_TradeUID tr) (w_store (startRuntime tr w)) \<noteq> None"
  by (auto simp: startRuntime_def st_do_def split: option.split)

lemma startRuntime_watched: "u = tr_TradeUID tr \<Longrightarrow> \<exists>y. LoadRuntime u (w_store (startRuntime tr w)) = Some y"
  using startRuntime_facts(4) by auto

lemma deploy_active_facts:
  assumes "deploy_active svc start dp trade w = (resp, w')"
  shows "w_ext w' = w_ext w"
    and "\<exists>t d c. resp = deploy_response dp (trade\<lparr>tr_Status := ''ACTIVE'', tr_LastUpdateTime := t\<rparr>) d c \<and>
      store_trades (w_store w') = (store_trades (w_store w))(tr_TradeUID trade \<mapsto> trade\<lparr>tr_Status := ''ACTIVE'', tr_LastUpdateTime := t\<rparr>)"
    and "store_intents (w_store w') = store_intents (w_store w)"
    and "LoadRuntime (tr_TradeUID trade) (w_store w') \<noteq> None"
proof -
  define active where "active = trade\<lparr>tr_Status := ''ACTIVE'', tr_LastUpdateTime := sv_clock svc (w_tick w)\<rparr>"
  define w1 where "w1 = startRuntime active (st_now svc (\<lambda>t. UpdateTrade t active) (snd (time_Now svc w)))"
  have uid: "tr_TradeUID active = tr_TradeUID trade" by (simp add: active_def)
  have resp: "resp = deploy_response dp active (millis_between start (sv_clock svc (w_tick w1))) (sv_clock svc (Suc (w_tick w1)))"
    and w': "w' = w1\<lparr>w_tick := Suc (Suc (w_tick w1))\<rparr>"
    using assms by (auto simp: deploy_active_def time_Now_def Let_def active_def w1_def)
  show "w_ext w' = w_ext w" and "store_intents (w_store w') = store_intents (w_store w)"
    and "LoadRuntime (tr_TradeUID trade) (w_store w') \<noteq> None"
    using startRuntime_facts(4) [of active] by (simp_all add: w' w1_def startRuntime_facts(1,3) time_Now_def st_now_def uid)
  have "store_trades (w_store w') = (store_trades (w_store w))(tr_TradeUID trade \<mapsto> active)"
    by (simp add: w' w1_def startRuntime_facts(2) time_Now_def st_now_def uid)
  then show "\<exists>t d c. resp = deploy_response dp (trade\<lparr>tr_Status := ''ACTIVE'', tr_LastUpdateTime := t\<rparr>) d c \<and>
      store_trades (w_store w') = (store_trades (w_store w))(tr_TradeUID trade \<mapsto> trade\<lparr>tr_Status := ''ACTIVE'', tr_LastUpdateTime := t\<rparr>)"
    using resp unfolding active_def by blast
qed

lemma deploy_execute_cases:
  assumes "deploy_execute svc ex start dp w = (r, w')"
  obtains (unchunked) trade w1 now e where "store_building svc dp w = (trade, w1)" "plan_chunks now trade dp = Inl e"
      "r = Inl e" "w_ext w' = w_ext w1" "w_store w' = w_store w1"
  | (failed) trade w1 now chunks e w2 where "store_building svc dp w = (trade, w1)" "plan_chunks now trade dp = Inr chunks"
      "executeBuild svc ex trade chunks (snd (time_Now svc w1)) = (Inl e, w2)" "r = Inl e" "w' = deploy_failed svc trade e w2"
  | (built) trade w1 now chunks w2 resp where "store_building svc dp w = (trade, w1)" "plan_chunks now trade dp = Inr chunks"
      "executeBuild svc ex trade chunks (snd (time_Now svc w1)) = (Inr (), w2)"
      "deploy_active svc start dp trade w2 = (resp, w')" "r = Inr resp"
proof -
  obtain trade w1 where 1: "store_building svc dp w = (trade, w1)" by force
  obtain now w1' where 2: "time_Now svc w1 = (now, w1')" by force
  then have e: "w_ext w1' = w_ext w1" "w_store w1' = w_store w1" by (auto simp: time_Now_def)
  show thesis
  proof (cases "plan_chunks now trade dp")
    case (Inl e)
    then show ?thesis using assms 1 2 e unchunked [OF 1 Inl] by (auto simp: deploy_execute_def)
  next
    case chunks: (Inr chunks)
    obtain r2 w2 where x: "executeBuild svc ex trade chunks w1' = (r2, w2)" by force
    show ?thesis
    proof (cases r2)
      case (Inl err)
      then show ?thesis using assms 1 2 chunks x failed [OF 1 chunks] by (auto simp: deploy_execute_def)
    next
      case (Inr u)
      obtain resp w3 where "deploy_active svc start dp trade w2 = (resp, w3)" by force
      then show ?thesis using assms 1 2 chunks x Inr built [OF 1 chunks] by (auto simp: deploy_execute_def)
    qed
  qed
qed

lemma DeployStraddle_cases:
  assumes "DeployStraddle (logged_service svc) req w = (r, w')"
  obtains (early) e where "r = Inl e" "quiet w w'"
  | (planned) ex start dp chain req' w1 w2 where "quiet w w2" "plan_sizes (logged_service svc) req' chain w1 = (Inr dp, w2)"
      "req' = normalize_request (sv_DefaultClientID svc) req"
      "deploy_execute (logged_service svc) (logged ex) start dp w2 = (r, w')"
proof -
  let ?svc = "logged_service svc"
  define req' where "req' = normalize_request (sv_DefaultClientID svc) req"
  have id: "sv_DefaultClientID ?svc = sv_DefaultClientID svc" by (simp add: logged_service_def)
  obtain start w1 where 1: "time_Now ?svc w = (start, w1)" by force
  note q1 = time_Now_quiet [OF 1]
  show thesis
  proof (cases "rq_Symbol req' = '''' \<or> sv_BrokerFactory ?svc = None")
    case True
    then show ?thesis using assms 1 q1 early by (auto simp: DeployStraddle_def id req'_def Let_def split: if_splits)
  next
    case False
    then obtain f where f: "sv_BrokerFactory ?svc = Some f" and sym: "rq_Symbol req' \<noteq> ''''" by auto
    obtain r2 w2 where 2: "ext_call (f (rq_UserID req') (rq_BrokerName req') (rq_AccountID req')) w1 = (r2, w2)" by force
    note q2 = ext_factory_quiet [OF f 2]
    show ?thesis
    proof (cases r2)
      case (Inl e)
      then show ?thesis using assms 1 2 f sym q1 q2 quiet_trans early
        by (auto simp: DeployStraddle_def id req'_def [symmetric])
    next
      case ex: (Inr ex)
      then obtain ex0 where ex0: "ex = logged ex0" using q2 by blast
      obtain r3 w3 where 3: "ext_call (sv_Snapshot ?svc (rq_Symbol req') (rq_TargetExpiry req')) w2 = (r3, w3)" by force
      note q3 = quiet_trans [OF quiet_trans [OF q1 conjunct1 [OF q2]] ext_snapshot_quiet [OF 3]]
      show ?thesis
      proof (cases r3)
        case (Inl e)
        then show ?thesis using assms 1 2 3 f sym ex q3 early
          by (auto simp: DeployStraddle_def id req'_def [symmetric])
      next
        case chain: (Inr chain)
        obtain r4 w4 where 4: "plan_sizes ?svc req' chain w3 = (r4, w4)" by force
        note q4 = quiet_trans [OF q3 plan_sizes_quiet [OF 4]]
        show ?thesis
        proof (cases r4)
          case (Inl e)
          then show ?thesis using assms 1 2 3 4 f sym ex chain q4 early
            by (auto simp: DeployStraddle_def id req'_def [symmetric])
        next
          case (Inr dp)
          then have "deploy_execute ?svc (logged ex0) start dp w4 = (r, w')"
            using assms 1 2 3 4 f sym ex chain ex0 by (auto simp: DeployStraddle_def id req'_def [symmetric])
          then show ?thesis using planned [OF q4 _ req'_def] 4 Inr by blast
        qed
      qed
    qed
  qed
qed

section \<open>Properties\<close>

lemma build_outcome:
  assumes "plan_ok dp" "int64_ok (dp_lotSize dp)" "plan_chunks now trade dp = Inr chunks" "dp_ceToken dp \<noteq> dp_peToken dp"
    and "executeBuild svc (logged ex) trade chunks w = (Inr (), w')" "w_log w = []"
  shows "filled_qty (dp_ceToken dp) (w_log w') = dp_ceLots dp * dp_lotSize dp"
    "filled_qty (dp_peToken dp) (w_log w') = dp_peLots dp * dp_lotSize dp"
proof -
  note f = plan_chunk_facts [OF assms(1-4)]
  from executeBuild_log [OF f(4) assms(5)] assms(6) have log: "build_log (concat chunks) (Inr ()) (w_log w')" by auto
  from executeBuild_trail [OF assms(5)] obtain sb where "trail trade sb (set (concat chunks)) w w'" by blast
  then have sent: "\<forall>e\<in>set (w_log w'). sent_from trade sb (set (concat chunks)) (fst e)"
    using assms(6) by (auto simp: trail_def)
  show "filled_qty (dp_ceToken dp) (w_log w') = dp_ceLots dp * dp_lotSize dp"
    "filled_qty (dp_peToken dp) (w_log w') = dp_peLots dp * dp_lotSize dp"
    using filled_qty_orders [OF log f(4) sent] f(1,2) by simp_all
qed

lemma plan_sizes_req:
  assumes "plan_sizes svc req chain w = (Inr dp, w')"
  shows "rq_UserID (dp_req dp) = rq_UserID req \<and> rq_AccountID (dp_req dp) = rq_AccountID req \<and> rq_Symbol (dp_req dp) = rq_Symbol req"
proof -
  have "rq_UserID r' = rq_UserID r \<and> rq_AccountID r' = rq_AccountID r \<and> rq_Symbol r' = rq_Symbol r" if "check_lots r n = Inr r'" for r r' n
    using that by (auto simp: check_lots_def Let_def split: if_splits)
  then show ?thesis using assms by (auto simp: plan_sizes_def Let_def split: sum.splits prod.splits if_splits)
qed

text \<open>A deployed trade is stored with what the broker filled, for the user, account and symbol of the request.\<close>

lemma deployed_is_filled:
  assumes "DeployStraddle (logged_service svc) req w = (Inr resp, w')" and "w_log w = []"
    and "int64_ok (rp_LotSize resp)" and "rp_CEToken resp \<noteq> rp_PEToken resp"
  shows "\<exists>tr. store_trades (w_store w') (rp_TradeUID resp) = Some tr \<and> tr_Status tr = ''ACTIVE'' \<and>
    LoadRuntime (rp_TradeUID resp) (w_store w') \<noteq> None \<and> 0 < tr_CEQty tr \<and> 0 < tr_PEQty tr \<and>
    filled_qty (tr_CEToken tr) (w_log w') = tr_CEQty tr \<and> filled_qty (tr_PEToken tr) (w_log w') = tr_PEQty tr \<and>
    tr_UserID tr = rq_UserID (normalize_request (sv_DefaultClientID svc) req) \<and> tr_AccountID tr = rq_AccountID (normalize_request (sv_DefaultClientID svc) req) \<and>
    tr_Symbol tr = rq_Symbol (normalize_request (sv_DefaultClientID svc) req)"
  using assms(1)
proof (cases rule: DeployStraddle_cases)
  case (planned ex start dp chain req' w1 w2)
  have ok: "plan_ok dp" using plan_sizes_ok [OF planned(2)] by simp
  have q: "w_log w2 = []" using planned(1) assms(2) by (simp add: quiet_def)
  from planned(4) show ?thesis
  proof (cases rule: deploy_execute_cases)
    case (built trade w3 now chunks w4 resp')
    note sb = store_building_facts [OF built(1)] and act = deploy_active_facts [OF built(4)]
    from act(2) obtain t d c where resp: "resp = deploy_response dp (trade\<lparr>tr_Status := ''ACTIVE'', tr_LastUpdateTime := t\<rparr>) d c"
      and tr: "store_trades (w_store w') (tr_TradeUID trade) = Some (trade\<lparr>tr_Status := ''ACTIVE'', tr_LastUpdateTime := t\<rparr>)"
      using built(5) by auto
    have ls: "int64_ok (dp_lotSize dp)" "dp_ceToken dp \<noteq> dp_peToken dp" using assms(3,4) resp by (simp_all add: deploy_response_def)
    have "w_log (snd (time_Now (logged_service svc) w3)) = []" using q sb(2) by (simp add: time_Now_def)
    note filled = build_outcome [OF ok ls(1) built(2) ls(2) built(3) this]
    note b = plan_bounds [OF ok ls(1)]
    have qty: "tr_CEQty trade = dp_ceLots dp * dp_lotSize dp" "tr_PEQty trade = dp_peLots dp * dp_lotSize dp"
      using b by (simp_all add: sb(1) i64_mul_lots)
    show ?thesis
      using tr filled qty b act(1,4) resp plan_sizes_req [OF planned(2)] by (auto simp: deploy_response_def sb(1) planned(3) deploy_trade_def Let_def)
  qed simp_all
qed simp

text \<open>
  C1. A straddle that is reported as deployed really is: the trade is stored as ACTIVE under the
  reported identifier, a monitor is registered for it, and the quantities that the broker filled on
  the call and on the put are exactly the quantities stored with the trade. The filled quantity is that of the orders
  reported \<^verbatim>\<open>FILLED\<close> or \<^verbatim>\<open>SUCCESS\<close>, counted per instrument, which is what the code goes by; the call and the
  put are different instruments, and the lot size is an \<^verbatim>\<open>int\<close>.
\<close>

theorem deploy_success:
  assumes "DeployStraddle (logged_service svc) req w = (Inr resp, w')" and "w_log w = []"
    and "int64_ok (rp_LotSize resp)" and "rp_CEToken resp \<noteq> rp_PEToken resp"
  shows "\<exists>tr. store_trades (w_store w') (rp_TradeUID resp) = Some tr \<and> tr_Status tr = ''ACTIVE'' \<and>
    LoadRuntime (rp_TradeUID resp) (w_store w') \<noteq> None \<and> 0 < tr_CEQty tr \<and> 0 < tr_PEQty tr \<and>
    filled_qty (tr_CEToken tr) (w_log w') = tr_CEQty tr \<and> filled_qty (tr_PEToken tr) (w_log w') = tr_PEQty tr"
  using deployed_is_filled [OF assms] by blast

text \<open>The trade of a deployment: every order that was sent is one of its orders, and it is the one that was asked for.\<close>

definition trade_of_request :: "'b service \<Rightarrow> DeployStraddleRequest \<Rightarrow> exec_log \<Rightarrow> StoredTrade \<Rightarrow> bool" where
  "trade_of_request svc req l tr \<longleftrightarrow> list_all (\<lambda>e. it_TradeUID (fst e) = tr_TradeUID tr) l \<and>
     (let rq = normalize_request (sv_DefaultClientID svc) req in
      tr_UserID tr = rq_UserID rq \<and> tr_AccountID tr = rq_AccountID rq \<and> tr_Symbol tr = rq_Symbol rq)"

lemma failed_build_log:
  assumes "executeBuild svc (logged ex) trade chunks w = (Inl e, w')" "w_log w = []" "w_log w' \<noteq> []"
  shows "IsBuildPendingFill e \<longleftrightarrow> pending_result (snd (last (w_log w')))" "list_all (\<lambda>x. \<not> pending_result (snd x)) (butlast (w_log w'))"
    "list_all (\<lambda>x. it_TradeUID (fst x) = tr_TradeUID trade) (w_log w')"
proof -
  from executeBuild_ends [OF assms(1)] have e: "stopped_log e (w_log w')" using assms(2) by (auto simp: ended_log_def)
  show "IsBuildPendingFill e \<longleftrightarrow> pending_result (snd (last (w_log w')))" "list_all (\<lambda>x. \<not> pending_result (snd x)) (butlast (w_log w'))"
    using e assms(3) by (auto simp: stopped_log_def no_pending_def list_all_iff dest: in_set_butlastD split: if_splits)
  from executeBuild_trail [OF assms(1)] obtain sb where "\<forall>x\<in>set (w_log w'). sent_from trade sb (set (concat chunks)) (fst x)"
    using assms(2) by (auto simp: trail_def)
  then show "list_all (\<lambda>x. it_TradeUID (fst x) = tr_TradeUID trade) (w_log w')"
    by (auto simp: list_all_iff sent_from_def build_intent_def)
qed

lemma failed_deployment_status:
  assumes "DeployStraddle (logged_service svc) req w = (Inl e, w')" and "w_log w = []" and "w_log w' \<noteq> []"
  shows "\<exists>tr. store_trades (w_store w') (tr_TradeUID tr) = Some tr \<and> trade_of_request svc req (w_log w') tr \<and>
    tr_Status tr = (if pending_result (snd (last (w_log w'))) then ''PENDING_FILL'' else ''FAILED'') \<and>
    list_all (\<lambda>x. \<not> pending_result (snd x)) (butlast (w_log w')) \<and>
    LoadRuntime (tr_TradeUID tr) (w_store w') = LoadRuntime (tr_TradeUID tr) (w_store w)"
  using assms(1)
proof (cases rule: DeployStraddle_cases)
  case (early e)
  then show ?thesis using assms(2,3) by (simp add: quiet_def)
next
  case (planned ex start dp chain req' w1 w2)
  from planned(4) show ?thesis
  proof (cases rule: deploy_execute_cases)
    case (unchunked trade w3 now e)
    then show ?thesis using store_building_facts(2) [OF unchunked(1)] planned(1) assms(2,3) by (simp add: quiet_def)
  next
    case (failed trade w3 now chunks e' w4)
    note sb = store_building_facts [OF failed(1)]
    from executeBuild_trail [OF failed(3)] have rt: "LoadRuntime u (w_store w4) = LoadRuntime u (w_store w)" for u
      using sb(6) planned(1) by (auto simp: trail_def time_Now_def quiet_def)
    have ext: "w_log w' = w_log w4" by (simp add: failed(5) deploy_failed_facts(1))
    have "w_log (snd (time_Now (logged_service svc) w3)) = []" using planned(1) assms(2) sb(2) by (simp add: time_Now_def quiet_def)
    note fl = failed_build_log [OF failed(3) this assms(3) [unfolded ext]]
    from deploy_failed_facts(2) [of "logged_service svc" trade e' w4] obtain t where
      st: "store_trades (w_store w') (tr_TradeUID trade) = Some (trade\<lparr>tr_Status := buildFailureStatusFromError e', tr_LastUpdateTime := t\<rparr>)"
      using failed(5) by auto
    have "tr_UserID trade = rq_UserID req' \<and> tr_AccountID trade = rq_AccountID req' \<and> tr_Symbol trade = rq_Symbol req'"
      using plan_sizes_req [OF planned(2)] by (simp add: sb(1) deploy_trade_def Let_def)
    then have tor: "trade_of_request svc req (w_log w') (trade\<lparr>tr_Status := buildFailureStatusFromError e', tr_LastUpdateTime := t\<rparr>)"
      using fl(3) by (simp add: trade_of_request_def ext planned(3) Let_def)
    have run: "LoadRuntime u (w_store w') = LoadRuntime u (w_store w)" for u by (simp add: failed(5) deploy_failed_facts(4) rt)
    show ?thesis using st tor fl(1,2) run
      by (intro exI [of _ "trade\<lparr>tr_Status := buildFailureStatusFromError e', tr_LastUpdateTime := t\<rparr>"])
        (simp add: ext buildFailureStatusFromError_def status_defs)
  qed simp
qed

lemma chunk_order_from_leg [simp]: "from_leg leg (chunk_order p ts leg q k)"
  by (simp add: from_leg_def chunk_order_def)

lemma fill_chunks_shape:
  "fill_chunks p ts m leg b r cs k = Inr (oss, k') \<Longrightarrow> length oss = length cs \<and> (\<forall>ord\<in>set (concat oss). from_leg leg ord)"
proof (induction cs arbitrary: k oss)
  case (Cons c cs)
  from Cons.prems obtain os k1 oss1 where 1: "chunk_orders p ts m leg (lots_this_chunk b r c) k = Inr (os, k1)"
      "fill_chunks p ts m leg b r cs k1 = Inr (oss1, k')" "oss = os # oss1"
    by (auto split: sum.splits prod.splits)
  have "\<forall>ord\<in>set os. from_leg leg ord"
    using 1(1) by (auto simp: chunk_orders_def Let_def split: if_splits)
  then show ?case using Cons.IH [OF 1(2)] 1(3) by auto
qed simp

lemma chunk_leg_shape:
  "chunk_leg p ts m leg k = Inr (oss, k') \<Longrightarrow> length oss = 7 \<and> (\<forall>ord\<in>set (concat oss). from_leg leg ord)"
  by (auto simp: chunk_leg_def split: if_splits dest!: fill_chunks_shape)

lemma chunk_legs_shape:
  "chunk_legs p ts m legs k = Inr lcs \<Longrightarrow>
    (\<forall>lc\<in>set lcs. length lc = 7) \<and> (\<forall>ord\<in>set (concat (concat lcs)). \<exists>leg\<in>set legs. from_leg leg ord)"
proof (induction legs arbitrary: k lcs)
  case (Cons leg legs)
  from Cons.prems obtain oss k1 lcs1 where "chunk_leg p ts m leg k = Inr (oss, k1)"
      "chunk_legs p ts m legs k1 = Inr lcs1" "lcs = oss # lcs1"
    by (auto split: sum.splits prod.splits)
  then show ?case using chunk_leg_shape [of p ts m leg k oss k1] Cons.IH [of k1 lcs1] by fastforce
qed simp

lemma generated_from_leg:
  assumes "GenerateChunkedOrders now p legs base maxq per = Inr chunks" "ord \<in> set (concat chunks)"
  shows "\<exists>leg\<in>set legs. from_leg leg ord"
proof (cases "legs = []")
  case False
  then obtain m lcs where l: "chunk_legs p (t_unix_micro now) m legs 0 = Inr lcs"
      "chunks = filter (\<lambda>ch. ch \<noteq> []) (map (interleaved_chunk lcs) [0..<7])"
    using assms(1) by (auto simp: GenerateChunkedOrders_def Let_def split: if_splits sum.splits)
  note shape = chunk_legs_shape [OF l(1)]
  then have "mset (concat chunks) = mset (concat (concat lcs))" unfolding l(2) by (intro mset_all_chunks) blast
  then have "set (concat chunks) = set (concat (concat lcs))" by (rule mset_eq_setD)
  then show ?thesis using assms(2) shape by blast
qed (use assms in \<open>simp add: GenerateChunkedOrders_def\<close>)

lemma sent_intent_fields:
  assumes "plan_ok dp" "plan_chunks now trade dp = Inr chunks" "sent_from trade sb (set (concat chunks)) it"
  shows "it_Side it = ''SELL'' \<and> it_Phase it = ''BUILD'' \<and> \<not> fle (it_ExpectedPrice it) (Fin 0)"
proof -
  from assms(3) obtain ord k where o: "ord \<in> set (concat chunks)"
      "it = build_intent trade (ord\<lparr>eo_LimitPrice := build_limit (eo_ExpectedPrice ord) sb k\<rparr>)"
    unfolding sent_from_def by blast
  obtain leg where leg: "leg \<in> set (deploy_legs dp)" "from_leg leg ord"
    using generated_from_leg [OF assms(2) [unfolded plan_chunks_def] o(1)] by blast
  have "lg_Action leg = ''SELL''" "\<not> fle (lg_ExpectedPrice leg) (Fin 0)"
    using leg(1) assms(1) by (auto simp: deploy_legs_def plan_ok_def prices_missing_def split: if_splits)
  then show ?thesis using leg(2) o(2) by (simp add: build_intent_def from_leg_def)
qed

lemma executeBuild_sent:
  assumes "plan_ok dp" "plan_chunks now trade dp = Inr chunks" "w_log w = []"
    and "executeBuild svc (logged ex) trade chunks w = (r, w')"
  shows "list_all (\<lambda>e. it_Side (fst e) = ''SELL'' \<and> it_Phase (fst e) = ''BUILD'' \<and> \<not> fle (it_ExpectedPrice (fst e)) (Fin 0)) (w_log w')"
proof -
  from executeBuild_trail [OF assms(4)] obtain sb where "trail trade sb (set (concat chunks)) w w'" by blast
  then have "\<forall>e\<in>set (w_log w'). sent_from trade sb (set (concat chunks)) (fst e)" using assms(3) by (auto simp: trail_def)
  then show ?thesis using sent_intent_fields [OF assms(1,2)] unfolding list_all_iff by blast
qed

text \<open>
  C10. A deployment that fails after it reached the broker never looks active. The trade that all its orders
  belong to, for the user, account and symbol of the normalised request, is stored as PENDING_FILL when the broker's
  answer to the last order was neither a fill nor a rejection, a cancellation or an error, so that the order may
  still be open, and as FAILED otherwise; no earlier answer was of that kind, and no monitor is started.
\<close>

theorem deploy_failure_status:
  assumes "DeployStraddle (logged_service svc) req w = (Inl e, w')" and "w_log w = []" and "w_log w' \<noteq> []"
  shows "\<exists>tr. store_trades (w_store w') (tr_TradeUID tr) = Some tr \<and> trade_of_request svc req (w_log w') tr \<and>
    tr_Status tr = (if pending_result (snd (last (w_log w'))) then ''PENDING_FILL'' else ''FAILED'') \<and>
    list_all (\<lambda>x. \<not> pending_result (snd x)) (butlast (w_log w')) \<and>
    LoadRuntime (tr_TradeUID tr) (w_store w') = LoadRuntime (tr_TradeUID tr) (w_store w)"
  by (rule failed_deployment_status [OF assms])

text \<open>
  C9. Nothing is sent without live prices, and only a single lot is ever deployed: whenever an
  order reaches the broker, the normalised request asks for exactly one lot, and every intent sent
  is a sell order of the build phase whose expected price is not zero or negative.
\<close>

theorem deploy_sends_only_priced_single_lot:
  assumes "DeployStraddle (logged_service svc) req w = (r, w')" and "w_log w = []" and "w_log w' \<noteq> []"
  shows "rq_Lots (normalize_request (sv_DefaultClientID svc) req) = 1 \<and>
    list_all (\<lambda>e. it_Side (fst e) = ''SELL'' \<and> it_Phase (fst e) = ''BUILD'' \<and> \<not> fle (it_ExpectedPrice (fst e)) (Fin 0)) (w_log w')"
  using assms(1)
proof (cases rule: DeployStraddle_cases)
  case (early e)
  then show ?thesis using assms(2,3) by (simp add: quiet_def)
next
  case (planned ex start dp chain req' w1 w2)
  have ok: "plan_ok dp" "rq_Lots req' = 1" using plan_sizes_ok [OF planned(2)] by simp_all
  have l2: "w_log w2 = []" using planned(1) assms(2) by (simp add: quiet_def)
  have "list_all (\<lambda>e. it_Side (fst e) = ''SELL'' \<and> it_Phase (fst e) = ''BUILD'' \<and> \<not> fle (it_ExpectedPrice (fst e)) (Fin 0)) (w_log w')"
    using planned(4)
  proof (cases rule: deploy_execute_cases)
    case (unchunked trade w3 now e)
    then show ?thesis using store_building_facts(2) [OF unchunked(1)] l2 by simp
  next
    case (failed trade w3 now chunks e' w4)
    have "w_log (snd (time_Now (logged_service svc) w3)) = []"
      using l2 store_building_facts(2) [OF failed(1)] by (simp add: time_Now_def)
    from executeBuild_sent [OF ok(1) failed(2) this failed(3)] show ?thesis
      using failed(5) by (simp add: deploy_failed_facts)
  next
    case (built trade w3 now chunks w4 resp)
    have "w_log (snd (time_Now (logged_service svc) w3)) = []"
      using l2 store_building_facts(2) [OF built(1)] by (simp add: time_Now_def)
    from executeBuild_sent [OF ok(1) built(2) this built(3)] show ?thesis
      using deploy_active_facts(1) [OF built(4)] by simp
  qed
  then show ?thesis using ok planned(3) by simp
qed

section \<open>Witnesses\<close>

definition demo_row :: OptionChainRow where
  "demo_row = \<lparr>row_Strike = Fin 24000, row_CEToken = 101, row_PEToken = 102, row_CELtp = Fin 120, row_PELtp = Fin 110,
     row_CEDelta = Fin (1 / 2), row_PEDelta = Fin (- 1 / 2), row_CEGamma = Fin 0, row_PEGamma = Fin 0, row_CETheta = Fin 0,
     row_PETheta = Fin 0, row_CEVega = Fin 0, row_PEVega = Fin 0, row_CEIV = Fin 0, row_PEIV = Fin 0, row_IsATM = True,
     row_CESymbol = '''', row_PESymbol = ''''\<rparr>"

definition demo_chain :: OptionChainSnapshot where
  "demo_chain = \<lparr>ch_Symbol = ''NIFTY'', ch_SyntheticFuture = Fin 24010, ch_SyntheticSpot = Fin 24000, ch_FutureLtp = Fin 24010,
     ch_ATM = Fin 24000, ch_Expiry = ''2025-01-30'', ch_AvailableExpiries = [], ch_LotSize = 75, ch_Chain = [demo_row]\<rparr>"

definition demo_broker :: "unit executor \<Rightarrow> unit service" where
  "demo_broker ex = NewService ''DEMO'' (Some (\<lambda>_ _ _ b. (Inr ex, b))) (\<lambda>_ _ b. (Inr demo_chain, b))
     (\<lambda>_ _ b. (Inl (GoErr ''down''), b)) (\<lambda>_. day_time) (\<lambda>_. '''')"

definition demo_request :: DeployStraddleRequest where
  "demo_request = \<lparr>rq_UserID = ''U001'', rq_BrokerName = ''SIM'', rq_AccountID = ''A1'', rq_ExchangeSegment = ''NSEFO'', rq_Symbol = ''NIFTY'',
     rq_Lots = 1, rq_DeltaNeutral = False, rq_ProductType = ''NRML'', rq_TargetExpiry = '''', rq_Strike = 0, rq_CEToken = 0, rq_PEToken = 0,
     rq_LotSize = 0, rq_CEStrikePrice = 0, rq_PEStrikePrice = 0, rq_OrderLotsPerCall = 1\<rparr>"

lemma one_lot_chunks:
  assumes "lg_TotalLots a = 1" "lg_LotSize a = 75" "0 < lg_Token a" "lg_TotalLots b = 1" "lg_LotSize b = 75" "0 < lg_Token b" "75 \<le> q" "int64_ok q"
  shows "GenerateChunkedOrders now p [a, b] 1 q 1 =
    Inr [[chunk_order p (t_unix_micro now) a 75 0, chunk_order p (t_unix_micro now) b 75 1]]"
proof -
  have u: "[0..6::int] = [0, 1, 2, 3, 4, 5, 6]" by (simp add: upto.simps)
  have "0 < q div 75" using assms by (simp add: pos_imp_zdiv_pos_iff)
  then have m: "lots_per_order 75 1 q 1 = 1"
    using assms by (auto simp: lots_per_order_def Let_def minInt_def maxInt_def i64_div_nonneg int64_ok_def)
  have "chunk_leg p ts 1 leg k = Inr ([chunk_order p ts leg 75 k] # replicate 6 [], Suc k)"
    if "lg_TotalLots leg = 1" "lg_LotSize leg = 75" "0 < lg_Token leg" for leg k ts
    using that by (simp add: chunk_leg_def chunk_orders_def lots_this_chunk_def chunkDivisor_def u Let_def
        i64_div_nonneg i64_rem_nonneg i64_mul_def i64_add_def int64_ok_def eval_nat_numeral)
  then show ?thesis using assms m
    by (simp add: GenerateChunkedOrders_def Let_def interleaved_chunk_def interleave_def max_orders_def upt_conv_Cons eval_nat_numeral)
qed

lemma demo_normalized:
  "normalize_request c demo_request = demo_request\<lparr>rq_UserID := ''U001''\<rparr>"
  by (simp add: normalize_request_def demo_request_def NormalizeSymbol_def ToUpper_def TrimSpace_def trim_by_def is_space_def
      upper_char_def Let_def)

definition demo_plan :: deploy_plan where
  "demo_plan = \<lparr>dp_req = demo_request\<lparr>rq_UserID := ''U001'', rq_OrderLotsPerCall := 1\<rparr>, dp_chain = demo_chain,
     dp_ceRow = demo_row, dp_peRow = demo_row, dp_strike = Fin 24000, dp_ceToken = 101, dp_peToken = 102,
     dp_lotSize = 75, dp_ceLots = 1, dp_peLots = 1, dp_netDelta = Fin 0\<rparr>"

lemma demo_plan_sizes: "plan_sizes svc (demo_request\<lparr>rq_UserID := ''U001''\<rparr>) demo_chain w = (Inr demo_plan, w)"
  by (simp add: plan_sizes_def select_rows_def FindATMRow_def select_tokens_def prices_missing_def resolve_lot_size_def
      check_lots_def size_legs_def demo_request_def demo_chain_def demo_row_def demo_plan_def Let_def i64_mul_def int64_ok_def fle_def)

lemma demo_factory:
  "\<exists>f. sv_BrokerFactory (logged_service (demo_broker ex)) = Some f \<and> (\<forall>u b a w. ext_call (f u b a) w = (Inr (logged ex), w))"
proof -
  have w: "(w :: (unit \<times> exec_log) world)\<lparr>w_ext := ((), l)\<rparr> = w" if "w_ext w = ((), l)" for w l
    using that by (cases w) simp
  show ?thesis by (auto simp: logged_service_def demo_broker_def NewService_def ext_call_def w split: prod.split)
qed

lemma demo_snapshot: "ext_call (sv_Snapshot (logged_service (demo_broker ex)) s x) w = (Inr demo_chain, w)"
  by (cases w) (auto simp: logged_service_def demo_broker_def NewService_def ext_call_def split: prod.split)

lemma demo_clock: "time_Now (logged_service (demo_broker ex)) w = (day_time, w\<lparr>w_tick := Suc (w_tick w)\<rparr>)"
  by (simp add: time_Now_def logged_service_def demo_broker_def NewService_def)

lemma demo_deploy:
  "DeployStraddle (logged_service (demo_broker ex)) demo_request w =
     deploy_execute (logged_service (demo_broker ex)) (logged ex) day_time demo_plan (w\<lparr>w_tick := Suc (w_tick w)\<rparr>)"
proof -
  obtain f where f: "sv_BrokerFactory (logged_service (demo_broker ex)) = Some f" "\<And>u b a w. ext_call (f u b a) w = (Inr (logged ex), w)"
    using demo_factory [of ex] by blast
  have "rq_Symbol demo_request \<noteq> ''''" by (simp add: demo_request_def)
  then show ?thesis by (simp add: DeployStraddle_def demo_normalized demo_clock f demo_snapshot demo_plan_sizes)
qed

lemma demo_chunks:
  "\<exists>a b k. plan_chunks now trade demo_plan = Inr [[chunk_order k (t_unix_micro now) a 75 0, chunk_order k (t_unix_micro now) b 75 1]]"
proof -
  have legs: "deploy_legs demo_plan = [ce_leg demo_plan, pe_leg demo_plan]"
    by (simp add: deploy_legs_def demo_plan_def ce_leg_def pe_leg_def)
  have "rq_Lots (dp_req demo_plan) = 1" "rq_OrderLotsPerCall (dp_req demo_plan) = 1"
    by (simp_all add: demo_plan_def demo_request_def)
  then show ?thesis
    using one_lot_chunks [of "ce_leg demo_plan" "pe_leg demo_plan" "MaxOrderQtyForSymbol (rq_Symbol (dp_req demo_plan))" now "''BUI_'' @ tr_TradeUID trade"]
      MaxOrderQtyForSymbol_bounds [of "rq_Symbol (dp_req demo_plan)"] max_qty_ok
    unfolding plan_chunks_def legs by (auto simp: ce_leg_def pe_leg_def demo_plan_def)
qed

lemma demo_fills: "executeBuild svc (logged fill_exec) trade [[chunk_order k ts a 75 0, chunk_order k ts b 75 1]] w =
    (Inr (), snd (executeBuild svc (logged fill_exec) trade [[chunk_order k ts a 75 0, chunk_order k ts b 75 1]] w))"
  by (simp add: executeBuild_def maxChunkRetries_def numeral_3_eq_3 chunk_order_def ext_call_def
      logged_def fill_exec_def Let_def)

lemma demo_opens: "\<exists>e. executeBuild svc (logged open_exec) trade [[chunk_order k ts a 75 0, chunk_order k ts b 75 1]] w = (Inl (PendingFillErr e),
    snd (executeBuild svc (logged open_exec) trade [[chunk_order k ts a 75 0, chunk_order k ts b 75 1]] w))
   \<and> w_log (snd (executeBuild svc (logged open_exec) trade [[chunk_order k ts a 75 0, chunk_order k ts b 75 1]] w)) \<noteq> []"
  by (simp add: executeBuild_def maxChunkRetries_def numeral_3_eq_3 chunk_order_def ext_call_def
      logged_def open_exec_def Let_def st_do_def)

lemma demo_success:
  "\<exists>resp w'. DeployStraddle (logged_service (demo_broker fill_exec)) demo_request demo_world = (Inr resp, w') \<and>
    rp_LotSize resp = 75 \<and> rp_CEToken resp = 101 \<and> rp_PEToken resp = 102"
proof -
  let ?svc = "logged_service (demo_broker fill_exec)"
  obtain trade w1 where 1: "store_building ?svc demo_plan (demo_world\<lparr>w_tick := Suc (w_tick demo_world)\<rparr>) = (trade, w1)" by force
  obtain a b k where 2: "plan_chunks day_time trade demo_plan =
      Inr [[chunk_order k (t_unix_micro day_time) a 75 0, chunk_order k (t_unix_micro day_time) b 75 1]]"
    using demo_chunks by blast
  obtain w2 where 3: "executeBuild ?svc (logged fill_exec) trade
      [[chunk_order k (t_unix_micro day_time) a 75 0, chunk_order k (t_unix_micro day_time) b 75 1]] (w1\<lparr>w_tick := Suc (w_tick w1)\<rparr>) = (Inr (), w2)"
    using demo_fills by blast
  obtain resp w3 where 4: "deploy_active ?svc day_time demo_plan trade w2 = (resp, w3)" by force
  then have "rp_LotSize resp = 75 \<and> rp_CEToken resp = 101 \<and> rp_PEToken resp = 102"
    using deploy_active_facts(2) [OF 4] by (auto simp: deploy_response_def demo_plan_def)
  then show ?thesis unfolding demo_deploy deploy_execute_def by (simp add: 1 2 3 4 demo_clock del: One_nat_def)
qed

lemma demo_pending:
  "\<exists>e w'. DeployStraddle (logged_service (demo_broker open_exec)) demo_request demo_world = (Inl (PendingFillErr e), w') \<and> w_log w' \<noteq> []"
proof -
  let ?svc = "logged_service (demo_broker open_exec)"
  obtain trade w1 where 1: "store_building ?svc demo_plan (demo_world\<lparr>w_tick := Suc (w_tick demo_world)\<rparr>) = (trade, w1)" by force
  obtain a b k where 2: "plan_chunks day_time trade demo_plan =
      Inr [[chunk_order k (t_unix_micro day_time) a 75 0, chunk_order k (t_unix_micro day_time) b 75 1]]"
    using demo_chunks by blast
  obtain e w2 where 3: "executeBuild ?svc (logged open_exec) trade
      [[chunk_order k (t_unix_micro day_time) a 75 0, chunk_order k (t_unix_micro day_time) b 75 1]] (w1\<lparr>w_tick := Suc (w_tick w1)\<rparr>) =
      (Inl (PendingFillErr e), w2)" "w_log w2 \<noteq> []"
    using demo_opens by blast
  then show ?thesis unfolding demo_deploy deploy_execute_def by (simp add: 1 2 3 demo_clock deploy_failed_facts del: One_nat_def)
qed

theorem deploy_success_witness:
  "\<exists>resp w' tr. DeployStraddle (logged_service (demo_broker fill_exec)) demo_request demo_world = (Inr resp, w') \<and>
    store_trades (w_store w') (rp_TradeUID resp) = Some tr \<and> tr_Status tr = ''ACTIVE'' \<and>
    LoadRuntime (rp_TradeUID resp) (w_store w') \<noteq> None \<and> 0 < tr_CEQty tr \<and> 0 < tr_PEQty tr \<and>
    filled_qty (tr_CEToken tr) (w_log w') = tr_CEQty tr \<and> filled_qty (tr_PEToken tr) (w_log w') = tr_PEQty tr"
proof -
  obtain resp w' where d: "DeployStraddle (logged_service (demo_broker fill_exec)) demo_request demo_world = (Inr resp, w')"
    and f: "rp_LotSize resp = 75" "rp_CEToken resp = 101" "rp_PEToken resp = 102" using demo_success by blast
  show ?thesis using deploy_success [OF d] d f by (fastforce simp: demo_world_def int64_ok_def)
qed

theorem deploy_failure_status_witness:
  "\<exists>e w' tr. DeployStraddle (logged_service (demo_broker open_exec)) demo_request demo_world = (Inl e, w') \<and>
    store_trades (w_store w') (tr_TradeUID tr) = Some tr \<and> trade_of_request (demo_broker open_exec) demo_request (w_log w') tr \<and>
    tr_Status tr = (if pending_result (snd (last (w_log w'))) then ''PENDING_FILL'' else ''FAILED'')"
proof -
  obtain e w' where d: "DeployStraddle (logged_service (demo_broker open_exec)) demo_request demo_world = (Inl (PendingFillErr e), w')"
    "w_log w' \<noteq> []" using demo_pending by blast
  have "w_log demo_world = []" by (simp add: demo_world_def)
  from deploy_failure_status [OF d(1) this d(2)] d(1) show ?thesis by blast
qed

theorem deploy_sends_only_priced_single_lot_witness:
  "\<exists>r w'. DeployStraddle (logged_service (demo_broker open_exec)) demo_request demo_world = (r, w') \<and> w_log w' \<noteq> [] \<and>
    rq_Lots (normalize_request (sv_DefaultClientID (demo_broker open_exec)) demo_request) = 1 \<and>
    list_all (\<lambda>e. it_Side (fst e) = ''SELL'' \<and> it_Phase (fst e) = ''BUILD'' \<and> \<not> fle (it_ExpectedPrice (fst e)) (Fin 0)) (w_log w')"
proof -
  obtain e w' where d: "DeployStraddle (logged_service (demo_broker open_exec)) demo_request demo_world = (Inl (PendingFillErr e), w')"
    "w_log w' \<noteq> []" using demo_pending by blast
  have "w_log demo_world = []" by (simp add: demo_world_def)
  from deploy_sends_only_priced_single_lot [OF d(1) this d(2)] d show ?thesis by blast
qed

end
