(* ===== verification/Trading_Positions_Proofs.thy ===== *)
theory Trading_Positions_Proofs
  imports Trading_Positions
begin

text \<open>
  Netting of filled orders and the two handlers that rest on it. For every instrument the position
  that the fold over the order rows accumulates is the sum of the signed fills of its rows, as long
  as the total filled quantity is below \<open>2 ^ 63\<close>; the order of the rows and the order in
  which the map of positions is ranged over do not matter. The square-off plan then closes the
  position exactly. The status refresh is characterised over the rows of the order table.
\<close>

section \<open>Netting is exact\<close>

definition signed_fill :: "(order_row \<Rightarrow> bool) \<Rightarrow> order_row \<Rightarrow> int" where
  "signed_fill sell r = (if sell r then - od_filled_qty r else od_filled_qty r)"

text \<open>The position of an instrument by the rows that are used: bought minus sold.\<close>

definition net_fill :: "(order_row \<Rightarrow> bool) \<Rightarrow> string \<Rightarrow> (order_row \<Rightarrow> bool) \<Rightarrow> order_row list \<Rightarrow> string \<Rightarrow> int" where
  "net_fill sell symbol used rows k = sum_list (map (signed_fill sell) (filter (\<lambda>r. used r \<and> row_key symbol r = k) rows))"

definition net_step :: "(order_row \<Rightarrow> bool) \<Rightarrow> string \<Rightarrow> (order_row \<Rightarrow> bool) \<Rightarrow> bool \<Rightarrow> (string, sqfNetPosition) gomap \<Rightarrow> order_row \<Rightarrow>
    (string, sqfNetPosition) gomap" where
  "net_step sell symbol used pf pm r = (if used r then add_position (sell r) symbol pf pm r else pm)"

lemma net_fill_bound:
  assumes "\<forall>r\<in>set rows. used r \<longrightarrow> 0 < od_filled_qty r"
  shows "\<bar>net_fill sell symbol used rows k\<bar> \<le> sum_list (map od_filled_qty (filter used rows))"
  using assms
proof (induction rows)
  case (Cons r rows)
  then have IH: "\<bar>net_fill sell symbol used rows k\<bar> \<le> sum_list (map od_filled_qty (filter used rows))" by simp
  have "net_fill sell symbol used (r # rows) k =
      (if used r \<and> row_key symbol r = k then signed_fill sell r else 0) + net_fill sell symbol used rows k"
    by (simp add: net_fill_def)
  then show ?case using IH Cons.prems by (auto simp: signed_fill_def)
qed (simp add: net_fill_def)

lemma fills_nonneg:
  "\<forall>r\<in>set rows. used r \<longrightarrow> 0 < od_filled_qty r \<Longrightarrow> 0 \<le> sum_list (map od_filled_qty (filter used rows))"
  by (induction rows) auto

lemma i64_neg_small: "\<bar>v\<bar> < 2 ^ 63 \<Longrightarrow> i64_neg v = - v"
  unfolding i64_neg_def by (rule wrap64_id) (auto simp: int64_ok_def)

lemma absInt64_small: "\<bar>v\<bar> < 2 ^ 63 \<Longrightarrow> absInt64 v = \<bar>v\<bar>"
  by (auto simp: absInt64_def i64_neg_small)

lemma i64_add_small: "\<bar>a + b\<bar> < 2 ^ 63 \<Longrightarrow> i64_add a b = a + b"
  unfolding i64_add_def by (rule wrap64_id) (auto simp: int64_ok_def)

lemma add_position_keys:
  "gm_ok pm \<Longrightarrow> gm_ok (add_position sl symbol pf pm r)"
  "gm_get (add_position sl symbol pf pm r) k = None \<longleftrightarrow> k \<noteq> row_key symbol r \<and> gm_get pm k = None"
  by (simp_all add: add_position_def Let_def gm_simps)

lemma add_position_net:
  assumes "gm_get (add_position sl symbol pf pm r) k = Some p"
    and "\<bar>od_filled_qty r\<bar> < 2 ^ 63"
    and "\<And>p'. gm_get pm k = Some p' \<Longrightarrow> np_NetQty p' = n" and "gm_get pm k = None \<Longrightarrow> n = 0"
    and "k = row_key symbol r \<Longrightarrow> \<bar>n + (if sl then - od_filled_qty r else od_filled_qty r)\<bar> < 2 ^ 63"
  shows "np_NetQty p = (if k = row_key symbol r then n + (if sl then - od_filled_qty r else od_filled_qty r) else n)"
proof (cases "k = row_key symbol r")
  case True
  define q where "q = (if sl then - od_filled_qty r else od_filled_qty r)"
  have sq: "(if sl then i64_neg (od_filled_qty r) else od_filled_qty r) = q"
    using assms(2) by (simp add: q_def i64_neg_small)
  have "np_NetQty (gm_get_or \<lparr>np_Symbol = s, np_LegType = l, np_Token = t, np_NetQty = 0, np_AvgPrice = Fin 0, np_AbsQtySeen = 0\<rparr> pm k) = n" for s l t
    using assms(3,4) by (cases "gm_get pm k") (simp_all add: gm_get_or_def)
  moreover have "i64_add n q = n + q" using assms(5) True by (intro i64_add_small) (simp add: q_def)
  ultimately show ?thesis using assms(1) True by (auto simp: add_position_def Let_def gm_simps sq q_def)
next
  case False
  then show ?thesis using assms(1,3) by (simp add: add_position_def Let_def gm_simps)
qed

lemma net_fill_snoc:
  "used r \<Longrightarrow> net_fill sell symbol used (rows @ [r]) k = net_fill sell symbol used rows k + (if row_key symbol r = k then signed_fill sell r else 0)"
  by (simp add: net_fill_def)

lemma net_fill_none: "\<forall>r\<in>set rows. used r \<longrightarrow> row_key symbol r \<noteq> k \<Longrightarrow> net_fill sell symbol used rows k = 0"
  by (simp add: net_fill_def filter_False)

lemma net_fold:
  assumes "\<forall>r\<in>set rows. used r \<longrightarrow> 0 < od_filled_qty r"
    and "sum_list (map od_filled_qty (filter used rows)) < 2 ^ 63"
  shows "gm_ok (foldl (net_step sell symbol used pf) [] rows) \<and>
    (\<forall>k. (gm_get (foldl (net_step sell symbol used pf) [] rows) k = None \<longleftrightarrow> (\<forall>r\<in>set rows. used r \<longrightarrow> row_key symbol r \<noteq> k)) \<and>
      (\<forall>p. gm_get (foldl (net_step sell symbol used pf) [] rows) k = Some p \<longrightarrow> np_NetQty p = net_fill sell symbol used rows k))"
  using assms
proof (induction rows rule: rev_induct)
  case (snoc r rows)
  let ?pm = "foldl (net_step sell symbol used pf) [] rows"
  have pos: "\<forall>r\<in>set rows. used r \<longrightarrow> 0 < od_filled_qty r" using snoc.prems(1) by simp
  have nn: "0 \<le> (if used r then od_filled_qty r else 0)" using snoc.prems(1) by auto
  then have tot: "sum_list (map od_filled_qty (filter used rows)) < 2 ^ 63" using snoc.prems(2) by (simp split: if_splits)
  note IH = snoc.IH [OF pos tot]
  show ?case
  proof (cases "used r")
    case False
    then show ?thesis using IH by (simp add: net_step_def net_fill_def)
  next
    case True
    let ?pm' = "add_position (sell r) symbol pf ?pm r"
    have q: "\<bar>od_filled_qty r\<bar> < 2 ^ 63"
      using True snoc.prems fills_nonneg [OF pos] by auto
    note snocn = net_fill_snoc [of used r sell symbol rows, OF True]
    have bnd: "\<bar>net_fill sell symbol used (rows @ [r]) k\<bar> < 2 ^ 63" for k
      using net_fill_bound [OF snoc.prems(1), of sell symbol k] snoc.prems(2) by linarith
    have "np_NetQty p = net_fill sell symbol used (rows @ [r]) k" if "gm_get ?pm' k = Some p" for k p
    proof -
      have "np_NetQty p = (if k = row_key symbol r then net_fill sell symbol used rows k + (if sell r then - od_filled_qty r else od_filled_qty r)
          else net_fill sell symbol used rows k)"
      proof (rule add_position_net [OF that q])
        show "\<And>p'. gm_get ?pm k = Some p' \<Longrightarrow> np_NetQty p' = net_fill sell symbol used rows k" using IH by blast
        show "gm_get ?pm k = None \<Longrightarrow> net_fill sell symbol used rows k = 0" using IH by (intro net_fill_none) blast
        show "k = row_key symbol r \<Longrightarrow>
            \<bar>net_fill sell symbol used rows k + (if sell r then - od_filled_qty r else od_filled_qty r)\<bar> < 2 ^ 63"
          using bnd [of k] unfolding snocn signed_fill_def by simp
      qed
      then show ?thesis unfolding snocn signed_fill_def by (auto split: if_splits)
    qed
    moreover have "gm_ok ?pm'" using IH by (simp add: add_position_keys)
    moreover have "gm_get ?pm' k = None \<longleftrightarrow> (\<forall>r'\<in>set (rows @ [r]). used r' \<longrightarrow> row_key symbol r' \<noteq> k)" for k
      using IH True by (auto simp: add_position_keys)
    moreover have "foldl (net_step sell symbol used pf) [] (rows @ [r]) = ?pm'"
      using True by (simp add: net_step_def [of sell symbol used pf ?pm])
    ultimately show ?thesis by simp
  qed
qed (simp add: net_fill_def)

lemma mset_order_rows: "mset (order_rows P d) = filter_mset P (mset (db_orders d))"
  by (simp add: order_rows_def mset_filter)

lemma net_fill_mset: "mset xs = mset ys \<Longrightarrow> net_fill sell symbol used xs k = net_fill sell symbol used ys k"
proof -
  assume "mset xs = mset ys"
  then have "mset (map (signed_fill sell) (filter (\<lambda>r. used r \<and> row_key symbol r = k) xs)) =
      mset (map (signed_fill sell) (filter (\<lambda>r. used r \<and> row_key symbol r = k) ys))"
    by (simp add: mset_filter)
  then show ?thesis unfolding net_fill_def by (metis sum_mset_sum_list)
qed

text \<open>Which positions are left open, in any order of the map.\<close>

definition open_positions :: "np_order \<Rightarrow> (string, sqfNetPosition) gomap \<Rightarrow> (string \<times> sqfNetPosition) list" where
  "open_positions ord pm = filter (\<lambda>e. np_NetQty (snd e) \<noteq> 0) (ord pm)"

lemma open_positions_spec:
  assumes "\<forall>r\<in>set rows. used r \<longrightarrow> 0 < od_filled_qty r" and "sum_list (map od_filled_qty (filter used rows)) < 2 ^ 63"
    and "permutes_list ord"
    and ps_def: "ps = open_positions ord (foldl (net_step sell symbol used pf) [] rows)"
  shows "distinct (map fst ps)" and "set (map fst ps) = {k. net_fill sell symbol used rows k \<noteq> 0}"
    and "\<forall>e\<in>set ps. np_NetQty (snd e) = net_fill sell symbol used rows (fst e)"
proof -
  let ?pm = "foldl (net_step sell symbol used pf) [] rows"
  note f = net_fold [OF assms(1,2), of sell symbol pf]
  have ms: "mset (ord ?pm) = mset ?pm" using assms(3) by (simp add: permutes_list_def)
  have "distinct (map fst (ord ?pm))"
    using f ms mset_eq_imp_distinct_iff [of "map fst (ord ?pm)" "map fst ?pm"] by (simp add: gm_ok_def)
  then show "distinct (map fst ps)" unfolding ps_def open_positions_def by (rule distinct_map_filter)
  have mem: "(k, p) \<in> set (ord ?pm) \<longleftrightarrow> gm_get ?pm k = Some p" for k p
    using f mset_eq_setD [OF ms] by (simp add: gm_get_iff_mem)
  then show nets: "\<forall>e\<in>set ps. np_NetQty (snd e) = net_fill sell symbol used rows (fst e)"
    using f unfolding ps_def open_positions_def by auto
  have "k \<in> set (map fst ps)" if "net_fill sell symbol used rows k \<noteq> 0" for k
  proof -
    have "gm_get ?pm k \<noteq> None"
    proof
      assume "gm_get ?pm k = None"
      then have "filter (\<lambda>r. used r \<and> row_key symbol r = k) rows = []" using f by (auto simp: filter_empty_conv)
      then show False using that by (simp add: net_fill_def)
    qed
    then obtain p where p: "gm_get ?pm k = Some p" by blast
    then have "np_NetQty p \<noteq> 0" using f that by simp
    then have "(k, p) \<in> set ps" using p mem unfolding ps_def open_positions_def by simp
    then show ?thesis by force
  qed
  moreover have "net_fill sell symbol used rows k \<noteq> 0" if mem: "k \<in> set (map fst ps)" for k
  proof -
    obtain e where e: "e \<in> set ps" "k = fst e" using mem unfolding set_map by blast
    then have "np_NetQty (snd e) \<noteq> 0" by (simp add: ps_def open_positions_def)
    then show ?thesis using nets e by simp
  qed
  ultimately show "set (map fst ps) = {k. net_fill sell symbol used rows k \<noteq> 0}" by blast
qed

definition np_key :: "sqfNetPosition \<Rightarrow> string" where
  "np_key p = position_key (np_Symbol p) (np_LegType p) (np_Token p)"

lemma add_position_key:
  assumes "\<And>k p. gm_get pm k = Some p \<Longrightarrow> np_key p = k"
    and "gm_get (add_position sl symbol pf pm r) k = Some p"
  shows "np_key p = k"
proof (cases "gm_get pm (row_key symbol r)")
  case None
  then show ?thesis using assms
    by (auto simp: add_position_def Let_def gm_simps np_key_def row_key_def gm_get_or_def split: if_splits)
next
  case (Some q)
  then have "np_key q = row_key symbol r" by (rule assms(1))
  then show ?thesis using assms Some
    by (auto simp: add_position_def Let_def gm_simps np_key_def gm_get_or_def split: if_splits)
qed

lemma net_fold_key: "gm_get (foldl (net_step sell symbol used pf) [] rows) k = Some p \<Longrightarrow> np_key p = k"
proof (induction rows arbitrary: k p rule: rev_induct)
  case (snoc r rows)
  show ?case
  proof (cases "used r")
    case True
    then show ?thesis using snoc.prems add_position_key [OF snoc.IH] by (simp add: net_step_def [of sell symbol used pf "foldl _ _ _"])
  next
    case False
    then show ?thesis using snoc by (simp add: net_step_def [of sell symbol used pf "foldl _ _ _"])
  qed
qed simp

text \<open>The open positions of a fold over rows: one per instrument with a net fill, with that fill.\<close>

lemma open_nets:
  assumes "\<forall>r\<in>set rows. used r \<longrightarrow> 0 < od_filled_qty r" and "sum_list (map od_filled_qty (filter used rows)) < 2 ^ 63"
    and "permutes_list ord"
    and ps_def: "ps = filter (\<lambda>a. np_NetQty a \<noteq> 0) (map snd (ord (foldl (net_step sell symbol used pf) [] rows)))"
  shows "distinct (map np_key ps)" and "np_key ` set ps = {k. net_fill sell symbol used rows k \<noteq> 0}"
    and "\<forall>p\<in>set ps. np_NetQty p = net_fill sell symbol used rows (np_key p)"
    and "\<forall>p\<in>set ps. \<bar>np_NetQty p\<bar> < 2 ^ 63"
proof -
  let ?pm = "foldl (net_step sell symbol used pf) [] rows"
  let ?es = "open_positions ord ?pm"
  note op = open_positions_spec [OF assms(1-3) refl, of sell symbol pf]
  have ps: "ps = map snd ?es" by (simp add: ps_def open_positions_def filter_map o_def)
  have smem: "set (ord ?pm) = set ?pm" using assms(3) by (metis permutes_list_def set_mset_mset)
  then have key: "np_key (snd e) = fst e" if "e \<in> set ?es" for e
  proof -
    have "(fst e, snd e) \<in> set ?pm" using that smem by (simp add: open_positions_def)
    moreover have "gm_ok ?pm" using net_fold [OF assms(1,2), of sell symbol pf] by blast
    ultimately show ?thesis using net_fold_key [of sell symbol used pf rows "fst e" "snd e"] by (simp add: gm_get_iff_mem)
  qed
  have keys: "map np_key ps = map fst ?es" unfolding ps using key by simp
  show "distinct (map np_key ps)" using op(1) keys by simp
  show "np_key ` set ps = {k. net_fill sell symbol used rows k \<noteq> 0}" using op(2) keys by (metis set_map)
  show n: "\<forall>p\<in>set ps. np_NetQty p = net_fill sell symbol used rows (np_key p)"
    using op(3) key unfolding ps by auto
  show "\<forall>p\<in>set ps. \<bar>np_NetQty p\<bar> < 2 ^ 63"
  proof
    fix p assume "p \<in> set ps"
    then show "\<bar>np_NetQty p\<bar> < 2 ^ 63" using n net_fill_bound [OF assms(1), of sell symbol "np_key p"] assms(2) by simp
  qed
qed

lemma net_step_plan: "plan_add symbol = net_step (\<lambda>r. ToUpper (od_side r) = ''SELL'') symbol (\<lambda>r. 0 < od_filled_qty r) False"
  by (auto simp: plan_add_def net_step_def fun_eq_iff)

definition plan_leg_key :: "SquareOffPlanLeg \<Rightarrow> string" where
  "plan_leg_key l = position_key (pl_Symbol l) (pl_LegType l) (pl_Token l)"

definition plan_leg_signed :: "SquareOffPlanLeg \<Rightarrow> int" where
  "plan_leg_signed l = (if pl_SquareOffSide l = ''SELL'' then - pl_SquareOffQuantity l else pl_SquareOffQuantity l)"

lemma plan_leg_simps [simp]: "plan_leg_key (plan_leg n p) = np_key p" "pl_SquareOffQuantity (plan_leg n p) = absInt64 (np_NetQty p)"
  by (simp_all add: plan_leg_key_def plan_leg_def np_key_def Let_def)

lemma plan_leg_signed_eq: "\<bar>np_NetQty p\<bar> < 2 ^ 63 \<Longrightarrow> np_NetQty p \<noteq> 0 \<Longrightarrow> plan_leg_signed (plan_leg n p) = - np_NetQty p"
  by (auto simp: plan_leg_signed_def plan_leg_def Let_def absInt64_small)

text \<open>The rows of a query in any order: sums over them are sums over the table.\<close>

lemma order_rows_net: "net_fill sell symbol used (order_rows P d) k = net_fill sell symbol used (filter P (db_orders d)) k"
  by (rule net_fill_mset) (simp add: mset_order_rows mset_filter)

lemma order_rows_total:
  "sum_list (map f (filter used (order_rows P d))) = sum_list (map f (filter used (filter P (db_orders d))))" for f :: "order_row \<Rightarrow> int"
proof -
  have "mset (map f (filter used (order_rows P d))) = mset (map f (filter used (filter P (db_orders d))))"
    by (simp only: mset_map mset_filter mset_order_rows)
  then show ?thesis by (metis sum_mset_sum_list)
qed

lemma order_rows_set: "set (order_rows P d) = set (filter P (db_orders d))"
  by (metis mset_order_rows mset_filter set_mset_mset)

definition filled_total :: "string \<Rightarrow> database \<Rightarrow> int" where
  "filled_total uid d = sum_list (map od_filled_qty (filter (filled_row uid) (db_orders d)))"

lemma db_next_simps [simp]: "db_orders (db_next d) = db_orders d" "db_trades (db_next d) = db_trades d"
  "db_cut (db_next d) = db_cut d" "db_tick (db_next d) = Suc (db_tick d)"
  by (simp_all add: db_next_def)

lemma order_rows_db_next [simp]: "order_rows P (db_next d) = order_rows P d"
  by (simp add: order_rows_def)

text \<open>
  The filled orders of a trade as the statement that comes next reads them: all of them, unless the result
  breaks off, and then the first of them by time.
\<close>

definition delivered :: "string \<Rightarrow> database \<Rightarrow> order_row list" where
  "delivered uid d = db_read d (order_rows (filled_row uid) d)"

lemma delivered_filled: "r \<in> set (delivered uid d) \<Longrightarrow> filled_row uid r"
proof -
  assume r: "r \<in> set (delivered uid d)"
  obtain n where "delivered uid d = take n (order_rows (filled_row uid) d)" using db_read_take unfolding delivered_def by blast
  then have "r \<in> set (order_rows (filled_row uid) d)" using r by (metis in_set_takeD)
  then show ?thesis by (simp add: order_rows_set)
qed

lemma sum_filter_take: "\<forall>x\<in>set xs. 0 \<le> f x \<Longrightarrow> sum_list (map f (filter P (take n xs))) \<le> sum_list (map f xs)" for f :: "'a \<Rightarrow> int"
  by (induction xs arbitrary: n) (auto simp: take_Cons split: nat.split intro!: add_mono add_increasing sum_list_nonneg)

lemma delivered_total: "sum_list (map od_filled_qty (filter P (delivered uid d))) \<le> filled_total uid d"
proof -
  obtain n where n: "delivered uid d = take n (order_rows (filled_row uid) d)" using db_read_take unfolding delivered_def by blast
  have "\<forall>x\<in>set (order_rows (filled_row uid) d). 0 \<le> od_filled_qty x" by (simp add: order_rows_set filled_row_def)
  then have "sum_list (map od_filled_qty (filter P (delivered uid d))) \<le> sum_list (map od_filled_qty (filter (\<lambda>_. True) (order_rows (filled_row uid) d)))"
    unfolding n by (simp add: sum_filter_take)
  then show ?thesis unfolding order_rows_total filled_total_def by simp
qed

lemma delivered_whole:
  "read_whole d \<Longrightarrow> net_fill sell symbol used (delivered uid d) = net_fill sell symbol used (filter (filled_row uid) (db_orders d))"
  by (rule ext) (simp add: read_whole_def delivered_def db_read_def order_rows_net)

text \<open>The bought less the sold quantity of each instrument over some filled orders.\<close>

definition plan_net :: "string \<Rightarrow> order_row list \<Rightarrow> string \<Rightarrow> int" where
  "plan_net symbol rows = net_fill (\<lambda>r. ToUpper (od_side r) = ''SELL'') symbol (\<lambda>_. True) rows"

text \<open>
  C15. The square-off plan closes the filled position exactly. Whatever order the map is ranged over,
  when the query succeeds the plan has one leg per instrument whose bought and sold fills differ, none for the others, and
  each leg's order brings its instrument to zero. The fills are those of the rows that the query delivers, which are
  all filled orders of the trade unless the result breaks off while it is read.
\<close>

theorem squareoff_plan_closes:
  assumes "hr_Method r = ''GET''" and "uid = TrimSpace (query_get r ''trade_uid'')" and "uid \<noteq> ''''"
    and "dbFromHandlerStore s = Some d" and "\<not> db_failed (db_next d)" and "permutes_list ord"
    and "filled_total uid d < 2 ^ 63"
  shows "\<exists>resp s'. SquareOffPlan ord r s = (Inr resp, s') \<and> sp_TradeUID resp = uid \<and>
    distinct (map plan_leg_key (sp_Legs resp)) \<and>
    plan_leg_key ` set (sp_Legs resp) = {k. plan_net (sp_Symbol resp) (delivered uid (db_next d)) k \<noteq> 0} \<and>
    (\<forall>l\<in>set (sp_Legs resp). plan_net (sp_Symbol resp) (delivered uid (db_next d)) (plan_leg_key l) + plan_leg_signed l = 0 \<and>
      0 < pl_SquareOffQuantity l) \<and>
    (read_whole (db_next d) \<longrightarrow>
      plan_net (sp_Symbol resp) (delivered uid (db_next d)) = plan_net (sp_Symbol resp) (filter (filled_row uid) (db_orders d)))"
proof -
  define tr where "tr = fst (sql_trade_row uid d)"
  define symbol where "symbol = (case tr of Some t \<Rightarrow> td_symbol t | None \<Rightarrow> '''')"
  define n where "n = lotSizeFromTradeConfig (case tr of Some t \<Rightarrow> td_config t | None \<Rightarrow> None) symbol"
  let ?rows = "delivered uid (db_next d)"
  let ?used = "\<lambda>r::order_row. 0 < od_filled_qty r"
  define ps where "ps = filter (\<lambda>a. np_NetQty a \<noteq> 0) (map snd (ord (foldl (plan_add symbol) [] ?rows)))"
  have tot: "sum_list (map od_filled_qty (filter ?used ?rows)) < 2 ^ 63"
    using assms(7) delivered_total [of ?used uid "db_next d"] by (simp add: filled_total_def)
  have net: "net_fill (\<lambda>r. ToUpper (od_side r) = ''SELL'') symbol ?used ?rows k = plan_net symbol ?rows k" for k
  proof -
    have "filter (\<lambda>r. 0 < od_filled_qty r \<and> row_key symbol r = k) ?rows = filter (\<lambda>r. True \<and> row_key symbol r = k) ?rows"
      by (rule filter_cong) (auto simp: filled_row_def dest: delivered_filled)
    then show ?thesis unfolding plan_net_def net_fill_def by simp
  qed
  have pos: "\<forall>r\<in>set ?rows. ?used r \<longrightarrow> 0 < od_filled_qty r" by simp
  note op = open_nets [OF pos tot assms(6) ps_def [unfolded net_step_plan], unfolded net]
  have nz: "\<forall>p\<in>set ps. np_NetQty p \<noteq> 0" by (simp add: ps_def)
  have keys: "map plan_leg_key (map (plan_leg n) ps) = map np_key ps" by simp
  have run: "\<exists>resp s'. SquareOffPlan ord r s = (Inr resp, s') \<and> sp_TradeUID resp = uid \<and> sp_Symbol resp = symbol \<and>
      sp_Legs resp = map (plan_leg n) ps"
    using assms(1-5) by (simp add: SquareOffPlan_def Let_def sql_trade_row_def sql_rows_def tr_def symbol_def n_def ps_def delivered_def)
  have "plan_net symbol ?rows (np_key p) + plan_leg_signed (plan_leg n p) = 0 \<and> 0 < pl_SquareOffQuantity (plan_leg n p)"
    if "p \<in> set ps" for p
    using that op(3,4) nz by (simp add: plan_leg_signed_eq absInt64_small)
  then have fin: "\<forall>l\<in>set (map (plan_leg n) ps). plan_net symbol ?rows (plan_leg_key l) + plan_leg_signed l = 0 \<and> 0 < pl_SquareOffQuantity l"
    by simp
  have "plan_leg_key ` set (map (plan_leg n) ps) = {k. plan_net symbol ?rows k \<noteq> 0}"
    using op(2) by (simp add: image_image)
  moreover have "read_whole (db_next d) \<longrightarrow> plan_net symbol ?rows = plan_net symbol (filter (filled_row uid) (db_orders d))"
    using delivered_whole [of "db_next d"] by (simp add: plan_net_def)
  ultimately show ?thesis using run fin op(1) keys by metis
qed

section \<open>The status refresh\<close>

definition completely_filled :: "order_row \<Rightarrow> bool" where
  "completely_filled r \<longleftrightarrow> od_status r \<in> {''FILLED'', ''SUCCESS''} \<and> od_quantity r \<le> od_filled_qty r \<and> 0 < od_quantity r"

definition still_working :: "order_row \<Rightarrow> bool" where
  "still_working r \<longleftrightarrow> od_status r \<in> {''OPEN'', ''SUBMITTED'', ''PARTIALLY_FILLED''} \<and> od_filled_qty r < od_quantity r"

definition status_unknown :: "order_row \<Rightarrow> bool" where
  "status_unknown r \<longleftrightarrow> od_status r \<notin> {''FILLED'', ''SUCCESS'', ''OPEN'', ''SUBMITTED'', ''PARTIALLY_FILLED'',
     ''REJECTED'', ''CANCELLED'', ''CANCELED''}"

lemma filter_length_all: "length (filter P xs) = length xs \<longleftrightarrow> (\<forall>x\<in>set xs. P x)"
proof
  assume "length (filter P xs) = length xs"
  then have "filter P xs = xs" by (induction xs) (auto split: if_splits, metis Suc_n_not_le_n length_filter_le)
  then show "\<forall>x\<in>set xs. P x" by (metis filter_id_conv)
qed simp

lemma lifecycle_counts_rows:
  "lc_Total (lifecycle_counts rows) = int (length rows)"
  "lc_Filled (lifecycle_counts rows) = int (length (filter completely_filled rows))"
  "lc_Pending (lifecycle_counts rows) = int (length (filter still_working rows))"
  "lc_TerminalFail (lifecycle_counts rows) = int (length (filter (\<lambda>r. od_status r \<in> {''REJECTED'', ''CANCELLED'', ''CANCELED''}) rows))"
  "lc_Unknown (lifecycle_counts rows) = int (length (filter status_unknown rows))"
  by (simp_all add: lifecycle_counts_def completely_filled_def [abs_def] still_working_def [abs_def] status_unknown_def [abs_def])

definition refreshed_status :: "order_row list \<Rightarrow> string" where
  "refreshed_status rows =
     (if rows \<noteq> [] \<and> list_all completely_filled rows then ''ACTIVE''
      else if list_ex (\<lambda>r. completely_filled r \<or> still_working r \<or> status_unknown r) rows then ''PENDING_FILL''
      else ''FAILED'')"

lemma status_table:
  assumes "D \<Longrightarrow> \<not> (F \<or> W \<or> U)" and "E \<Longrightarrow> \<not> (F \<or> W \<or> U)"
  shows "(if E then f else if A then a else if W then p else if F \<and> \<not> A then p else if D then f else if U then p else f) =
    (if \<not> E \<and> A then a else if F \<or> W \<or> U then p else f)"
  using assms by auto

lemma refreshed_status_counts: "deriveTradeStatusFromBuildCounts (lifecycle_counts rows) = refreshed_status rows"
proof -
  let ?t = "\<lambda>r::order_row. od_status r \<in> {''REJECTED'', ''CANCELLED'', ''CANCELED''}"
  let ?f = "filter completely_filled rows" and ?p = "filter still_working rows" and ?u = "filter status_unknown rows"
  have all: "int (length (filter P rows)) = int (length rows) \<longleftrightarrow> (\<forall>r\<in>set rows. P r)" for P
    by (simp add: filter_length_all)
  have some: "0 < int (length (filter P rows)) \<longleftrightarrow> (\<exists>r\<in>set rows. P r)" for P by (auto simp: filter_empty_conv)
  have less: "int (length ?f) < int (length rows) \<longleftrightarrow> \<not> (\<forall>r\<in>set rows. completely_filled r)"
    using length_filter_le [of completely_filled rows] all [of completely_filled] by linarith
  have none: "int (length rows) \<le> 0 \<longleftrightarrow> rows = []" by simp
  have dis: "\<forall>r\<in>set rows. ?t r \<Longrightarrow> \<not> (\<exists>r\<in>set rows. completely_filled r \<or> still_working r \<or> status_unknown r)"
    by (auto simp: completely_filled_def still_working_def status_unknown_def)
  show ?thesis
    unfolding deriveTradeStatusFromBuildCounts_def lifecycle_counts_rows refreshed_status_def TradeStatusFailed_def
      TradeStatusActive_def TradeStatusPendingFill_def all some less none list_all_iff list_ex_iff bex_disj_distrib
    by (rule status_table) (use dis in \<open>simp_all add: bex_disj_distrib\<close>)
qed

lemma refreshed_status_mset: "mset xs = mset ys \<Longrightarrow> refreshed_status xs = refreshed_status ys"
  unfolding refreshed_status_def list_all_iff list_ex_iff using mset_eq_setD [of xs ys] by (cases xs; cases ys) simp_all

lemma dbFrom_put_db: "dbFromHandlerStore s = Some d \<Longrightarrow> dbFromHandlerStore (put_db d' s) = Some d'"
  by (auto simp: dbFromHandlerStore_def put_db_def split: store.splits)

lemma put_db_mem: "store_mem (put_db d s) = store_mem s"
  by (simp add: put_db_def store_mem_def split: store.split)

lemma refresh_run:
  assumes "hr_Method r = ''POST'' \<or> hr_Method r = ''GET''" and "uid = TrimSpace (query_get r ''trade_uid'')" and "uid \<noteq> ''''"
    and "dbFromHandlerStore s = Some d" and "find (\<lambda>x. td_trade_uid x = uid) (db_trades d) = Some row"
    and "\<not> db_failed d" and "\<not> db_failed (db_next d)" and "\<not> db_failed (db_next (db_next d))"
    and st: "st = refreshed_status (filter (build_order_row uid) (db_orders d))"
  shows "\<exists>resp. RefreshTradeLifecycle r s = (Inr resp, put_db (sql_set_status uid st (db_next (db_next d))) s) \<and> rl_NewStatus resp = st \<and>
    rl_OldStatus resp = td_status row"
proof -
  have "st = deriveTradeStatusFromBuildCounts (lifecycle_counts (order_rows (build_order_row uid) d))"
    unfolding st refreshed_status_counts by (rule refreshed_status_mset) (simp add: mset_order_rows mset_filter)
  then show ?thesis using assms(1-8)
    by (auto simp: RefreshTradeLifecycle_def Let_def sql_trade_row_def sql_aggregate_def)
qed

text \<open>
  The refreshed status of a trade is \<^verbatim>\<open>ACTIVE\<close> exactly when it has build orders and
  every one of them is completely filled, \<^verbatim>\<open>PENDING\_FILL\<close> when one is filled, still
  working or in a status the handler does not know, and \<^verbatim>\<open>FAILED\<close> otherwise; the status
  column of the trade gets that value, the other trades and the orders stay as they were.
\<close>

theorem refresh_sets_derived_status:
  assumes "hr_Method r = ''POST'' \<or> hr_Method r = ''GET''" and "uid = TrimSpace (query_get r ''trade_uid'')" and "uid \<noteq> ''''"
    and "dbFromHandlerStore s = Some d" and "find (\<lambda>x. td_trade_uid x = uid) (db_trades d) = Some row"
    and "\<not> db_failed d" and "\<not> db_failed (db_next d)" and "\<not> db_failed (db_next (db_next d))"
  shows "\<exists>resp s' d'. RefreshTradeLifecycle r s = (Inr resp, s') \<and> dbFromHandlerStore s' = Some d' \<and>
    rl_NewStatus resp = refreshed_status (filter (build_order_row uid) (db_orders d)) \<and>
    map td_status (filter (\<lambda>x. td_trade_uid x = uid) (db_trades d')) =
      map (\<lambda>_. rl_NewStatus resp) (filter (\<lambda>x. td_trade_uid x = uid) (db_trades d)) \<and>
    filter (\<lambda>x. td_trade_uid x \<noteq> uid) (db_trades d') = filter (\<lambda>x. td_trade_uid x \<noteq> uid) (db_trades d) \<and>
    db_orders d' = db_orders d"
proof -
  define st where "st = refreshed_status (filter (build_order_row uid) (db_orders d))"
  let ?d' = "sql_set_status uid st (db_next (db_next d))"
  have "map td_status (filter (\<lambda>x. td_trade_uid x = uid) (map (\<lambda>x. if td_trade_uid x = uid then x\<lparr>td_status := st\<rparr> else x) l)) =
      map (\<lambda>_. st) (filter (\<lambda>x. td_trade_uid x = uid) l)" for l by (induction l) auto
  moreover have "filter (\<lambda>x. td_trade_uid x \<noteq> uid) (map (\<lambda>x. if td_trade_uid x = uid then x\<lparr>td_status := st\<rparr> else x) l) =
      filter (\<lambda>x. td_trade_uid x \<noteq> uid) l" for l by (induction l) auto
  ultimately show ?thesis
    using refresh_run [OF assms st_def] dbFrom_put_db [OF assms(4), of ?d'] st_def
    by (auto simp: sql_set_status_def)
qed

text \<open>
  The refreshed status is not what the service works with. The memory of the running process
  keeps the trade as it was, and a new process on the refreshed database loads the status of the
  stored document, not the one of the column: a trade that was \<^verbatim>\<open>PENDING\_FILL\<close> stays so
  for every later action, although the refresh answered \<^verbatim>\<open>ACTIVE\<close>.
\<close>

theorem refreshed_status_is_not_loaded:
  assumes "hr_Method r = ''POST'' \<or> hr_Method r = ''GET''" and "uid = TrimSpace (query_get r ''trade_uid'')" and "uid \<noteq> ''''"
    and "dbFromHandlerStore s = Some d" and "find (\<lambda>x. td_trade_uid x = uid) (db_trades d) = Some row"
    and "\<not> db_failed d" and "\<not> db_failed (db_next d)" and "\<not> db_failed (db_next (db_next d))"
    and "td_config row = Some doc" and "tr_Status (trade_of_json doc) \<noteq> ''''" and "\<not> db_failed (db_next (db_next (db_next d)))"
  shows "\<exists>resp s' d' t. RefreshTradeLifecycle r s = (Inr resp, s') \<and> store_trades s' = store_trades s \<and>
    dbFromHandlerStore s' = Some d' \<and>
    fst (LoadTrade uid (PgStore (NewPostgresBackedStore (Some d')))) = Some t \<and> tr_Status t = tr_Status (trade_of_json doc)"
proof -
  define st where "st = refreshed_status (filter (build_order_row uid) (db_orders d))"
  let ?d' = "sql_set_status uid st (db_next (db_next d))"
  let ?row = "row\<lparr>td_status := st\<rparr>"
  have "find (\<lambda>x. td_trade_uid x = uid) l = Some row \<Longrightarrow>
      find (\<lambda>x. td_trade_uid x = uid) (map (\<lambda>x. if td_trade_uid x = uid then x\<lparr>td_status := st\<rparr> else x) l) = Some ?row" for l
    by (induction l) (auto split: if_splits)
  then have "find (\<lambda>x. td_trade_uid x = uid) (db_trades ?d') = Some ?row"
    using assms(5) by (simp add: sql_set_status_def)
  moreover have "\<not> db_failed ?d'" using assms(11) by (simp add: sql_set_status_def db_failed_def db_next_def)
  ultimately have "fst (LoadTrade uid (PgStore (NewPostgresBackedStore (Some ?d')))) = Some (hydrate_row ?row)"
    by (simp add: LoadTrade_def Pg_LoadTrade_def NewPostgresBackedStore_def NewMemoryStore_def Mem_LoadTrade_def loadTradeFromDB_def)
  moreover have "tr_Status (hydrate_row ?row) = tr_Status (trade_of_json doc)"
    using assms(9,10) by (simp add: hydrate_row_def hydrateStoredTradeFromDB_def Let_def)
  ultimately show ?thesis
    using refresh_run [OF assms(1-8) st_def] dbFrom_put_db [OF assms(4), of ?d']
    by (auto simp: store_trades_def put_db_mem)
qed

section \<open>Witnesses\<close>

definition uid_request :: "string \<Rightarrow> string \<Rightarrow> http_request" where
  "uid_request method uid = \<lparr>hr_Method = method, hr_Path = '''', hr_Query = [(''trade_uid'', uid)], hr_Body = None\<rparr>"

definition filled_order :: "int \<Rightarrow> string \<Rightarrow> int \<Rightarrow> order_row" where
  "filled_order n side qty = \<lparr>od_id = n, od_intent_id = ''BUI_'' @ show_int n, od_order_uid = '''', od_trade_uid = ''T1'', od_broker_order_id = ''b'',
     od_broker_name = ''SIM'', od_account_id = ''A'', od_side = side, od_quantity = qty, od_order_type = ''LIMIT'',
     od_limit_price = None, od_status = ''FILLED'', od_filled_qty = qty, od_pending_qty = 0, od_avg_fill_price = Fin 100,
     od_raw_broker_request = Some (JObj [(''symbol'', JStr ''NIFTY''), (''leg_type'', JStr ''CE''), (''token'', JNum 41)]),
     od_created_at = day_time, od_updated_at = day_time\<rparr>"

definition pending_row :: trade_row where
  "pending_row = \<lparr>td_trade_uid = ''T1'', td_user_id = ''U'', td_broker_name = ''SIM'', td_account_id = ''A'', td_symbol = ''NIFTY'',
     td_status = ''PENDING_FILL'', td_config = trade_json (plain_trade ''T1''\<lparr>tr_Status := ''PENDING_FILL''\<rparr>), td_created_at = day_time\<rparr>"

definition filled_db :: database where
  "filled_db = (empty_db (\<lambda>n. 9 < n) (\<lambda>_. day_time))
     \<lparr>db_trades := [pending_row], db_orders := [filled_order 1 ''SELL'' 75, filled_order 2 ''BUY'' 25]\<rparr>"

definition filled_store :: store where
  "filled_store = PgStore (NewPostgresBackedStore (Some filled_db))"

lemma uid_request_simps [simp]:
  "hr_Method (uid_request m u) = m" "query_get (uid_request m u) ''trade_uid'' = u"
  by (simp_all add: uid_request_def query_get_def)

lemma trim_T1: "TrimSpace ''T1'' = ''T1''"
  by (simp add: TrimSpace_def trim_by_def is_space_def)

lemma filled_db_simps [simp]:
  "db_trades filled_db = [pending_row]" "\<not> db_failed filled_db" "\<not> db_failed (db_next filled_db)"
  "\<not> db_failed (db_next (db_next filled_db))" "\<not> db_failed (db_next (db_next (db_next filled_db)))"
  "dbFromHandlerStore filled_store = Some filled_db" "td_trade_uid pending_row = ''T1''"
  by (simp_all add: filled_db_def db_failed_def db_next_def empty_db_def filled_store_def dbFromHandlerStore_def
      NewPostgresBackedStore_def pending_row_def)

lemma filled_total_db: "filled_total ''T1'' filled_db = 100"
  by (simp add: filled_total_def filled_db_def filled_order_def filled_row_def)

lemma filled_db_whole: "read_whole (db_next filled_db)"
  by (simp add: read_whole_def filled_db_def empty_db_def)

theorem squareoff_plan_closes_witness:
  "\<exists>resp s'. SquareOffPlan rev (uid_request ''GET'' ''T1'') filled_store = (Inr resp, s') \<and> sp_TradeUID resp = ''T1'' \<and>
    distinct (map plan_leg_key (sp_Legs resp)) \<and>
    plan_leg_key ` set (sp_Legs resp) = {k. plan_net (sp_Symbol resp) (filter (filled_row ''T1'') (db_orders filled_db)) k \<noteq> 0} \<and>
    list_all (\<lambda>l. plan_net (sp_Symbol resp) (filter (filled_row ''T1'') (db_orders filled_db)) (plan_leg_key l) + plan_leg_signed l = 0 \<and>
      0 < pl_SquareOffQuantity l) (sp_Legs resp)"
  using squareoff_plan_closes [of "uid_request ''GET'' ''T1''" "''T1''" filled_store filled_db rev]
  by (auto simp: trim_T1 filled_total_db list_all_iff filled_db_whole)

theorem refresh_sets_derived_status_witness:
  "\<exists>resp s' d'. RefreshTradeLifecycle (uid_request ''POST'' ''T1'') filled_store = (Inr resp, s') \<and>
    dbFromHandlerStore s' = Some d' \<and> rl_NewStatus resp = ''ACTIVE'' \<and> map td_status (db_trades d') = [''ACTIVE''] \<and>
    db_orders d' = db_orders filled_db"
proof -
  have st: "refreshed_status (filter (build_order_row ''T1'') (db_orders filled_db)) = ''ACTIVE''"
    by (simp add: filled_db_def filled_order_def build_order_row_def like_bui_def HasPrefix_def refreshed_status_def
        completely_filled_def)
  obtain resp s' d' where *: "RefreshTradeLifecycle (uid_request ''POST'' ''T1'') filled_store = (Inr resp, s')"
    "dbFromHandlerStore s' = Some d'" "rl_NewStatus resp = ''ACTIVE''" "db_orders d' = db_orders filled_db"
    "map td_status (filter (\<lambda>x. td_trade_uid x = ''T1'') (db_trades d')) = [''ACTIVE'']"
    "filter (\<lambda>x. td_trade_uid x \<noteq> ''T1'') (db_trades d') = []"
    using refresh_sets_derived_status [of "uid_request ''POST'' ''T1''" "''T1''" filled_store filled_db pending_row]
    by (auto simp: trim_T1 st)
  then have "filter (\<lambda>x. td_trade_uid x = ''T1'') (db_trades d') = db_trades d'"
    by (metis (no_types, lifting) filter_True filter_empty_conv)
  with * show ?thesis by metis
qed

theorem refreshed_status_is_not_loaded_witness:
  "\<exists>resp s' d' t. RefreshTradeLifecycle (uid_request ''POST'' ''T1'') filled_store = (Inr resp, s') \<and>
    store_trades s' = store_trades filled_store \<and> dbFromHandlerStore s' = Some d' \<and>
    fst (LoadTrade ''T1'' (PgStore (NewPostgresBackedStore (Some d')))) = Some t \<and> tr_Status t = ''PENDING_FILL''"
proof -
  have ok: "trade_ok (plain_trade ''T1''\<lparr>tr_Status := ''PENDING_FILL''\<rparr>)" using plain_trade_ok [of "''T1''"] by (simp add: trade_ok_def)
  obtain j where j: "trade_json (plain_trade ''T1''\<lparr>tr_Status := ''PENDING_FILL''\<rparr>) = Some j"
    "trade_of_json j = plain_trade ''T1''\<lparr>tr_Status := ''PENDING_FILL''\<rparr>" using trade_roundtrip [OF ok] by blast
  show ?thesis
    using refreshed_status_is_not_loaded [of "uid_request ''POST'' ''T1''" "''T1''" filled_store filled_db pending_row j]
    by (simp add: trim_T1 j) (simp add: pending_row_def j)
qed

end
