(* ===== verification/Trading_Actions_Proofs.thy ===== *)
theory Trading_Actions_Proofs
  imports Trading_Actions Trading_Deploy_Proofs Trading_Positions_Proofs
begin

text \<open>
  What the actions on a deployed trade guarantee, seen through a logging broker: the square-off
  intents close the filled position exactly, a trade is marked closed only when all of them were
  filled, nothing is sent for a live broker unless it was switched on, a partial square-off only
  rescales the recorded quantities, hedges are pairs of opposite orders, and the monitor never
  trades.
\<close>

section \<open>Square-off intents\<close>

definition sqf_sell :: "order_row \<Rightarrow> bool" where
  "sqf_sell r \<longleftrightarrow> ToUpper (TrimSpace (od_side r)) = ''SELL''"

definition sqf_used :: "string \<Rightarrow> order_row \<Rightarrow> bool" where
  "sqf_used symbol r \<longleftrightarrow> 0 < od_filled_qty r \<and> 0 < os_Token (enriched_row symbol r)"

definition sqf_net :: "string \<Rightarrow> order_row list \<Rightarrow> string \<Rightarrow> int" where
  "sqf_net symbol rows = net_fill sqf_sell symbol (sqf_used symbol) rows"

definition intent_signed :: "OrderIntent \<Rightarrow> int" where
  "intent_signed it = (if it_Side it = ''SELL'' then - it_Quantity it else it_Quantity it)"

definition closes_position :: "OrderIntent \<Rightarrow> sqfNetPosition \<Rightarrow> bool" where
  "closes_position it p \<longleftrightarrow> it_Token it = np_Token p \<and> it_LegType it = np_LegType p \<and> 0 < it_Quantity it \<and>
     intent_signed it = - np_NetQty p"

lemma net_step_sqf: "sqf_add symbol = net_step sqf_sell symbol (sqf_used symbol) True"
  by (auto simp: sqf_add_def net_step_def fun_eq_iff sqf_sell_def sqf_used_def)

lemma sqf_intent_closes:
  "\<bar>np_NetQty p\<bar> < 2 ^ 63 \<Longrightarrow> np_NetQty p \<noteq> 0 \<Longrightarrow> closes_position (sqf_intent tr now n p) p"
  by (auto simp: closes_position_def sqf_intent_def intent_signed_def Let_def absInt64_small)

lemma st_now_append [simp]:
  "store_intents (w_store (st_now svc (\<lambda>t. AppendIntent t u it) w)) = (store_intents (w_store w))(u := store_intents (w_store w) u @ [it])"
  "store_trades (w_store (st_now svc (\<lambda>t. AppendIntent t u it) w)) = store_trades (w_store w)"
  "LoadRuntime v (w_store (st_now svc (\<lambda>t. AppendIntent t u it) w)) = LoadRuntime v (w_store w)"
  by (simp_all add: st_now_def)

text \<open>What a step keeps of the world besides the intents of one trade.\<close>

definition appended :: "string \<Rightarrow> OrderIntent list \<Rightarrow> 'b world \<Rightarrow> 'b world \<Rightarrow> bool" where
  "appended u its w w' \<longleftrightarrow> w_ext w' = w_ext w \<and> store_trades (w_store w') = store_trades (w_store w) \<and>
     (\<forall>v. LoadRuntime v (w_store w') = LoadRuntime v (w_store w)) \<and>
     store_intents (w_store w') = (store_intents (w_store w))(u := store_intents (w_store w) u @ its)"

lemma sqf_emit_spec:
  assumes "sqf_emit svc tr now n ps w = (its, w')" and "\<forall>p\<in>set ps. \<bar>np_NetQty p\<bar> < 2 ^ 63"
  shows "list_all2 closes_position its (filter (\<lambda>p. np_NetQty p \<noteq> 0) ps) \<and> appended (tr_TradeUID tr) its w w'"
  using assms
proof (induction ps arbitrary: n w its)
  case (Cons p ps)
  show ?case
  proof (cases "np_NetQty p = 0")
    case True
    then show ?thesis using Cons by simp
  next
    case False
    have b: "\<bar>np_NetQty p\<bar> < 2 ^ 63" using Cons.prems(2) by simp
    then have "\<not> absInt64 (np_NetQty p) \<le> 0" using False by (simp add: absInt64_small)
    then obtain its' where e: "sqf_emit svc tr now (i64_add n 1) ps
        (st_now svc (\<lambda>t. AppendIntent t (tr_TradeUID tr) (sqf_intent tr now n p)) w) = (its', w')"
      and its: "its = sqf_intent tr now n p # its'"
      using Cons.prems(1) False by (auto simp: Let_def split: prod.splits)
    then show ?thesis
      using Cons.IH [OF e] Cons.prems(2) sqf_intent_closes [OF b False] False by (simp add: appended_def)
  qed
qed (simp add: appended_def)

lemma mset_filter_snd: "permutes_list ord \<Longrightarrow> set (map snd (ord m)) = set (map snd m)"
  by (simp add: permutes_list_set)

lemma put_db_views [simp]:
  "store_trades (put_db d s) = store_trades s" "store_intents (put_db d s) = store_intents s" "LoadRuntime u (put_db d s) = LoadRuntime u s"
  by (simp_all add: store_trades_def store_intents_def LoadRuntime_def put_db_mem)

lemma sqf_net_whole: "read_whole d \<Longrightarrow> sqf_net symbol (delivered uid d) = sqf_net symbol (filter (filled_row uid) (db_orders d))"
  by (simp add: sqf_net_def delivered_whole)

lemma sqf_positions:
  assumes "permutes_list ord" and "filled_total uid d < 2 ^ 63"
    and ps_def: "ps = map snd (ord (foldl (sqf_add symbol) [] (delivered uid d)))"
    and os_def: "os = filter (\<lambda>a. np_NetQty a \<noteq> 0) ps"
  shows "\<forall>p\<in>set ps. \<bar>np_NetQty p\<bar> < 2 ^ 63" and "distinct (map np_key os)"
    and "np_key ` set os = {k. sqf_net symbol (delivered uid d) k \<noteq> 0}" and "\<forall>p\<in>set os. np_NetQty p = sqf_net symbol (delivered uid d) (np_key p)"
proof -
  let ?rows = "delivered uid d"
  have pos: "\<forall>r\<in>set ?rows. sqf_used symbol r \<longrightarrow> 0 < od_filled_qty r" by (simp add: sqf_used_def)
  have tot: "sum_list (map od_filled_qty (filter (sqf_used symbol) ?rows)) < 2 ^ 63"
    using delivered_total assms(2) by (rule order.strict_trans1)
  note op = open_nets [OF pos tot assms(1) os_def [unfolded ps_def net_step_sqf], folded sqf_net_def]
  show "distinct (map np_key os)" "np_key ` set os = {k. sqf_net symbol (delivered uid d) k \<noteq> 0}"
    "\<forall>p\<in>set os. np_NetQty p = sqf_net symbol (delivered uid d) (np_key p)" using op by blast+
  show "\<forall>p\<in>set ps. \<bar>np_NetQty p\<bar> < 2 ^ 63" using op(4) by (auto simp: os_def)
qed

lemma createSQF_spec:
  assumes "dbFromHandlerStore (w_store w) = Some d" and "\<not> db_failed d" and "permutes_list ord"
    and "filled_total (tr_TradeUID tr) d < 2 ^ 63" and "createSQFIntentsFromFilledNetPosition ord svc tr w = (r, w')"
  shows "\<exists>its ps. distinct (map np_key ps) \<and> np_key ` set ps = {k. sqf_net (tr_Symbol tr) (delivered (tr_TradeUID tr) d) k \<noteq> 0} \<and>
    (\<forall>p\<in>set ps. np_NetQty p = sqf_net (tr_Symbol tr) (delivered (tr_TradeUID tr) d) (np_key p)) \<and>
    list_all2 closes_position its ps \<and> appended (tr_TradeUID tr) its w w' \<and>
    r = (if its = [] then Inl (GoErr ''no filled net position found for square-off'') else Inr its)"
proof -
  define ps where "ps = map snd (ord (foldl (sqf_add (tr_Symbol tr)) [] (delivered (tr_TradeUID tr) d)))"
  define os where "os = filter (\<lambda>a. np_NetQty a \<noteq> 0) ps"
  note sp = sqf_positions [OF assms(3,4) ps_def os_def]
  define w1 where "w1 = snd (time_Now svc (st_do (put_db (db_next d)) w))"
  define now where "now = fst (time_Now svc (st_do (put_db (db_next d)) w))"
  obtain its w2 where e: "sqf_emit svc tr now 0 ps w1 = (its, w2)" by force
  then have rw: "r = (if its = [] then Inl (GoErr ''no filled net position found for square-off'') else Inr its) \<and> w' = w2"
    using assms(1,2,5) by (auto simp: createSQFIntentsFromFilledNetPosition_def sql_rows_def Let_def ps_def w1_def now_def delivered_def
        split: prod.splits if_splits)
  have "appended u l w1 w2 = appended u l w w2" for u l
    by (simp add: appended_def w1_def time_Now_def st_do_def)
  then show ?thesis using sqf_emit_spec [OF e sp(1)] sp(2-4) rw unfolding os_def [symmetric] by blast
qed

text \<open>
  C6. The square-off orders close the filled position exactly. When the query of the order table
  succeeds, one intent is created for every instrument whose bought and sold fills differ, its
  quantity and side bring the instrument to zero, all intents are recorded for the trade in that
  order, and an error is returned only when nothing is open. The fills are those of the rows that the query
  delivers, which are all filled orders of the trade unless the result breaks off while it is read.
\<close>

theorem squareoff_intents_close_position:
  assumes "dbFromHandlerStore (w_store w) = Some d" and "\<not> db_failed d" and "permutes_list ord"
    and "filled_total (tr_TradeUID tr) d < 2 ^ 63" and "createSQFIntentsFromFilledNetPosition ord svc tr w = (r, w')"
  shows "\<exists>its ps. distinct (map np_key ps) \<and> np_key ` set ps = {k. sqf_net (tr_Symbol tr) (delivered (tr_TradeUID tr) d) k \<noteq> 0} \<and>
    list_all2 (\<lambda>it p. it_Token it = np_Token p \<and> it_LegType it = np_LegType p \<and> 0 < it_Quantity it \<and>
      sqf_net (tr_Symbol tr) (delivered (tr_TradeUID tr) d) (np_key p) + intent_signed it = 0) its ps \<and>
    store_intents (w_store w') (tr_TradeUID tr) = store_intents (w_store w) (tr_TradeUID tr) @ its \<and>
    r = (if its = [] then Inl (GoErr ''no filled net position found for square-off'') else Inr its) \<and>
    (read_whole d \<longrightarrow> sqf_net (tr_Symbol tr) (delivered (tr_TradeUID tr) d) =
      sqf_net (tr_Symbol tr) (filter (filled_row (tr_TradeUID tr)) (db_orders d)))"
proof -
  from createSQF_spec [OF assms] obtain its ps where c: "distinct (map np_key ps)"
    "np_key ` set ps = {k. sqf_net (tr_Symbol tr) (delivered (tr_TradeUID tr) d) k \<noteq> 0}"
    "\<forall>p\<in>set ps. np_NetQty p = sqf_net (tr_Symbol tr) (delivered (tr_TradeUID tr) d) (np_key p)"
    "list_all2 closes_position its ps" "appended (tr_TradeUID tr) its w w'"
    "r = (if its = [] then Inl (GoErr ''no filled net position found for square-off'') else Inr its)" by blast
  have "list_all2 (\<lambda>it p. it_Token it = np_Token p \<and> it_LegType it = np_LegType p \<and> 0 < it_Quantity it \<and>
      sqf_net (tr_Symbol tr) (delivered (tr_TradeUID tr) d) (np_key p) + intent_signed it = 0) its ps"
    by (rule list.rel_mono_strong [OF c(4)]) (use c(3) in \<open>simp add: closes_position_def\<close>)
  moreover have "store_intents (w_store w') (tr_TradeUID tr) = store_intents (w_store w) (tr_TradeUID tr) @ its"
    using c(5) by (simp add: appended_def)
  ultimately show ?thesis using c(1,2,6) sqf_net_whole by blast
qed

section \<open>The square-off\<close>

definition send_log :: "OrderIntent list \<Rightarrow> goerr + bool \<Rightarrow> exec_log \<Rightarrow> bool" where
  "send_log its r l \<longleftrightarrow> map fst l = take (length l) its \<and>
     (case r of
        Inr b \<Rightarrow> length l = length its \<and> (b \<longleftrightarrow> list_all (\<lambda>e. filled_result (snd e)) l)
      | Inl e \<Rightarrow> l \<noteq> [] \<and> (\<exists>x. snd (last l) = Inl x))"

lemma st_do_mark [simp]:
  "store_trades (w_store (st_do (mark_execution i res) w)) = store_trades (w_store w)"
  "store_intents (w_store (st_do (mark_execution i res) w)) = store_intents (w_store w)"
  "LoadRuntime v (w_store (st_do (mark_execution i res) w)) = LoadRuntime v (w_store w)"
  by (simp_all add: st_do_def)

definition same_views :: "'b world \<Rightarrow> 'b world \<Rightarrow> bool" where
  "same_views w w' \<longleftrightarrow> store_trades (w_store w') = store_trades (w_store w) \<and> store_intents (w_store w') = store_intents (w_store w) \<and>
     (\<forall>v. LoadRuntime v (w_store w') = LoadRuntime v (w_store w))"

lemma same_views_refl [simp]: "same_views w w"
  by (simp add: same_views_def)

lemma same_views_trans: "same_views w w' \<Longrightarrow> same_views w' w'' \<Longrightarrow> same_views w w''"
  by (simp add: same_views_def)

lemma quiet_same_views: "quiet w w' \<Longrightarrow> same_views w w'"
  by (simp add: quiet_def same_views_def)

lemma sqf_send_spec:
  "sqf_send (logged ex) its w = (r, w') \<Longrightarrow> \<exists>l. w_log w' = w_log w @ l \<and> send_log its r l \<and> same_views w w'"
proof (induction its arbitrary: w r w')
  case (Cons it its)
  obtain r1 w1 where x: "ext_call (logged ex it) w = (r1, w1)" by force
  then have l1: "w_log w1 = w_log w @ [(it, r1)]" "same_views w w1" using ext_logged [OF x] by (simp_all add: same_views_def)
  show ?case
  proof (cases r1)
    case (Inl e)
    then show ?thesis using Cons.prems x l1 by (auto simp: send_log_def)
  next
    case (Inr res)
    let ?w2 = "st_do (mark_execution (it_IntentID it) res) w1"
    obtain r2 w3 where s: "sqf_send (logged ex) its ?w2 = (r2, w3)" by force
    from Cons.IH [OF s] obtain l where l: "w_log w3 = w_log ?w2 @ l" "send_log its r2 l" "same_views ?w2 w3" by blast
    have sv: "same_views w w3" using l(3) l1(2) by (simp add: same_views_def)
    have "w' = w3" "r = (case r2 of Inl e \<Rightarrow> Inl e | Inr b \<Rightarrow> Inr (b \<and> filled_result r1))"
      using Cons.prems x Inr s by (auto simp: Let_def split: sum.splits)
    then show ?thesis using l l1 sv Inr by (auto simp: send_log_def split: sum.splits intro!: exI [of _ "(it, r1) # l"])
  qed
qed (simp add: send_log_def)

lemma set_status_facts:
  assumes "set_status svc st tr w = (tr', w')"
  shows "w_ext w' = w_ext w" "store_intents (w_store w') = store_intents (w_store w)"
    "store_trades (w_store w') = (store_trades (w_store w))(tr_TradeUID tr \<mapsto> tr')" "tr_Status tr' = st" "tr_TradeUID tr' = tr_TradeUID tr"
    "tr_UserID tr' = tr_UserID tr" "tr_BrokerName tr' = tr_BrokerName tr" "tr_AccountID tr' = tr_AccountID tr"
    "LoadRuntime v (w_store w') = LoadRuntime v (w_store w)"
  using assms by (auto simp: set_status_def time_Now_def st_now_def Let_def)

lemma CloseStop_views:
  "store_trades (store_upd (CloseStop u) s) = store_trades s" "store_intents (store_upd (CloseStop u) s) = store_intents s"
  by (auto simp: store_trades_def store_intents_def store_defs mem_view_defs CloseStop_def Mem_LoadIntents_def fun_eq_iff
      split: store.splits option.splits)

lemma stop_runtime_facts:
  assumes "stop_runtime u w = (r, w')"
  shows "w_ext w' = w_ext w" "store_trades (w_store w') = store_trades (w_store w)" "store_intents (w_store w') = store_intents (w_store w)"
  using assms by (auto simp: stop_runtime_def st_do_def CloseStop_views split: option.splits if_splits)

lemma stop_runtime_gone: "stop_runtime u w = (Inr x, w') \<Longrightarrow> LoadRuntime u (w_store w') = None"
  by (auto simp: stop_runtime_def st_do_def split: option.splits if_splits)

lemma st_load_facts:
  assumes "st_load u w = (r, w')"
  shows "w_ext w' = w_ext w" "LoadTrade u (w_store w) = (r, w_store w')"
  using assms by (auto simp: st_load_def split: prod.splits)

text \<open>The part after the trade was marked: what is sent, and when the trade is closed.\<close>

lemma sqf_execute_spec:
  assumes "sqf_execute (logged_service svc) tr its w = (r, w')" and "its \<noteq> []"
  shows "\<exists>l. w_log w' = w_log w @ l \<and> map fst l = take (length l) its \<and> store_intents (w_store w') = store_intents (w_store w) \<and>
    (l \<noteq> [] \<longrightarrow> sqf_enabled svc tr) \<and>
    (store_trades (w_store w') = store_trades (w_store w) \<or>
     r = Inr () \<and> length l = length its \<and> list_all (\<lambda>e. filled_result (snd e)) l \<and>
     (\<exists>tr'. store_trades (w_store w') = (store_trades (w_store w))(tr_TradeUID tr \<mapsto> tr') \<and> tr_Status tr' = ''CLOSED''))"
proof (cases "sqf_enabled svc tr")
  case False
  then have "\<not> sqf_enabled (logged_service svc) tr" by (simp add: sqf_enabled_def logged_service_def)
  then show ?thesis using assms(1) by (simp add: sqf_execute_def)
next
  case True
  then have en: "sqf_enabled (logged_service svc) tr" by (simp add: sqf_enabled_def logged_service_def)
  show ?thesis
  proof (cases "sv_BrokerFactory (logged_service svc)")
    case None
    then show ?thesis using assms(1) en by (simp add: sqf_execute_def)
  next
    case (Some f)
    obtain r1 w1 where x: "ext_call (f (tr_UserID tr) (tr_BrokerName tr) (tr_AccountID tr)) w = (r1, w1)" by force
    note q = ext_factory_quiet [OF Some x]
    show ?thesis
    proof (cases r1)
      case (Inl e)
      then show ?thesis using assms(1) en Some x q by (simp add: sqf_execute_def quiet_def)
    next
      case (Inr ex)
      then obtain ex0 where ex0: "ex = logged ex0" using q by blast
      obtain r2 w2 where s: "sqf_send (logged ex0) its w1 = (r2, w2)" by force
      from sqf_send_spec [OF this] obtain l where l: "w_log w2 = w_log w1 @ l" "send_log its r2 l" "same_views w1 w2" by blast
      have base: "store_trades (w_store w2) = store_trades (w_store w)" "store_intents (w_store w2) = store_intents (w_store w)"
        "w_log w2 = w_log w @ l" using l q by (simp_all add: same_views_def quiet_def)
      have mf: "map fst l = take (length l) its" using l(2) by (simp add: send_log_def)
      show ?thesis
      proof (cases "r2 = Inr True")
        case False
        then have "w' = w2" using assms(1) en Some x Inr ex0 s by (auto simp: sqf_execute_def split: sum.splits)
        then show ?thesis using base mf True by auto
      next
        case allf: True
        obtain tr' where st: "set_status (logged_service svc) ''CLOSED'' tr w2 = (tr', w')" and r: "r = Inr ()"
          using assms(1) en Some x Inr ex0 s allf by (cases "set_status (logged_service svc) ''CLOSED'' tr w2") (auto simp: sqf_execute_def)
        have "length l = length its \<and> list_all (\<lambda>e. filled_result (snd e)) l" using l(2) allf by (simp add: send_log_def)
        then show ?thesis using set_status_facts [OF st] base mf r True by auto
      qed
    qed
  qed
qed

text \<open>The course of a square-off, up to the point where orders may be sent.\<close>

lemma SquareOff_cases:
  assumes "LoadTrade uid (w_store w) = (Some tr, s)" and "SquareOff ord svc uid w = (r, w')"
  obtains (refused) "r = Inl (GoErr (''cannot square off '' @ uid @ '' while trade is PENDING_FILL''))" "tr_Status tr = ''PENDING_FILL''"
      "w' = w\<lparr>w_store := s\<rparr>"
    | (failed) e where "tr_Status tr \<noteq> ''PENDING_FILL''" "r = Inl e"
        "createSQFIntentsFromFilledNetPosition ord svc tr (w\<lparr>w_store := s\<rparr>) = (Inl e, w')"
    | (panic) its w1 tr1 w2 p where "createSQFIntentsFromFilledNetPosition ord svc tr (w\<lparr>w_store := s\<rparr>) = (Inr its, w1)"
        "set_status svc ''SQUARING_OFF'' tr w1 = (tr1, w2)" "stop_runtime uid w2 = (Inl p, w')" "r = Inl p" "tr_Status tr \<noteq> ''PENDING_FILL''"
    | (sent) its w1 tr1 w2 w3 where "createSQFIntentsFromFilledNetPosition ord svc tr (w\<lparr>w_store := s\<rparr>) = (Inr its, w1)"
        "set_status svc ''SQUARING_OFF'' tr w1 = (tr1, w2)" "stop_runtime uid w2 = (Inr (), w3)" "its \<noteq> []"
        "sqf_execute svc tr1 its w3 = (r, w')" "tr_Status tr \<noteq> ''PENDING_FILL''"
proof -
  have ne: "createSQFIntentsFromFilledNetPosition ord svc tr v = (Inr its, v') \<Longrightarrow> its \<noteq> []" for v its v'
    by (auto simp: createSQFIntentsFromFilledNetPosition_def Let_def split: option.splits prod.splits if_splits)
  show ?thesis
    using assms ne that unfolding SquareOff_def
    by (auto simp: st_load_def TradeStatusPendingFill_def split: prod.splits sum.splits if_splits)
qed

lemma createSQF_keeps:
  assumes "createSQFIntentsFromFilledNetPosition ord svc tr w = (r, w')"
  shows "w_ext w' = w_ext w" "store_trades (w_store w') = store_trades (w_store w)"
    "LoadRuntime v (w_store w') = LoadRuntime v (w_store w)"
proof -
  have emit: "sqf_emit svc tr now n ps v = (its, v') \<Longrightarrow> w_ext v' = w_ext v \<and> store_trades (w_store v') = store_trades (w_store v) \<and>
      LoadRuntime x (w_store v') = LoadRuntime x (w_store v)" for now n ps v its v' x
    by (induction ps arbitrary: n v its) (auto simp: Let_def split: prod.splits if_splits)
  show "w_ext w' = w_ext w" "store_trades (w_store w') = store_trades (w_store w)" "LoadRuntime v (w_store w') = LoadRuntime v (w_store w)"
    using assms by (auto simp: createSQFIntentsFromFilledNetPosition_def sql_rows_def time_Now_def st_do_def Let_def
        split: option.splits prod.splits if_splits dest!: emit)
qed

lemma loaded_trade:
  assumes "store_ok (w_store w)" and "LoadTrade uid (w_store w) = (Some tr, s)"
  shows "tr_TradeUID tr = uid" "store_trades s uid = Some tr"
  using assms LoadTrade_uid [OF assms] st.load_hit [of "w_store w" uid] st.load_fetch [of "w_store w" uid tr s]
  by (cases "store_trades (w_store w) uid"; auto)+

text \<open>
  A square-off that sent orders and left another trade in the store than the one marked \<^verbatim>\<open>SQUARING\_OFF\<close> has sent
  all intents, and all were filled.
\<close>

lemma squareoff_all_filled:
  assumes "createSQFIntentsFromFilledNetPosition ord (logged_service svc) tr v = (Inr its, w1)" "w_log v = []"
    and "set_status (logged_service svc) ''SQUARING_OFF'' tr w1 = (tr1, w2)" "stop_runtime (tr_TradeUID tr) w2 = (Inr (), w3)" "its \<noteq> []"
    and "sqf_execute (logged_service svc) tr1 its w3 = (r, w')"
    and "store_trades (w_store w') (tr_TradeUID tr) = Some tr'" "tr_Status tr' \<noteq> ''SQUARING_OFF''"
  shows "r = Inr () \<and> map fst (w_log w') = its \<and> list_all (\<lambda>e. filled_result (snd e)) (w_log w')"
proof -
  from sqf_execute_spec [OF assms(6,5)] obtain l where l: "w_log w' = w_log w3 @ l" "map fst l = take (length l) its"
    "store_trades (w_store w') = store_trades (w_store w3) \<or>
     r = Inr () \<and> length l = length its \<and> list_all (\<lambda>e. filled_result (snd e)) l" by blast
  have "store_trades (w_store w3) (tr_TradeUID tr) = Some tr1" "tr_Status tr1 = ''SQUARING_OFF''"
    using set_status_facts [OF assms(3)] stop_runtime_facts [OF assms(4)] by auto
  then have "store_trades (w_store w') \<noteq> store_trades (w_store w3)" using assms(7,8) by auto
  then have "r = Inr ()" "length l = length its" "list_all (\<lambda>e. filled_result (snd e)) l" using l(3) by blast+
  moreover have "w_log w3 = []"
    using createSQF_keeps(1) [OF assms(1)] set_status_facts(1) [OF assms(3)] stop_runtime_facts(1) [OF assms(4)] assms(2) by simp
  ultimately show ?thesis using l(1,2) by simp
qed


text \<open>
  C11. A square-off is refused while an order of the build may still fill, without any change to the
  trade, and no order is sent for a broker other than the simulator unless live square-off was
  switched on; whatever happens, the trade's status afterwards is the old one,
  \<^verbatim>\<open>SQUARING\_OFF\<close> or \<^verbatim>\<open>CLOSED\<close>.
\<close>

theorem squareoff_guards:
  assumes "store_ok (w_store w)" and "LoadTrade uid (w_store w) = (Some tr, s)"
    and "SquareOff ord (logged_service svc) uid w = (r, w')"
  shows "(tr_Status tr = ''PENDING_FILL'' \<longrightarrow> (\<exists>e. r = Inl e) \<and> w_store w' = s \<and> w_log w' = w_log w) \<and>
    (\<not> sqf_enabled svc tr \<longrightarrow> w_log w' = w_log w) \<and>
    (\<exists>tr'. store_trades (w_store w') uid = Some tr' \<and> tr_Status tr' \<in> {tr_Status tr, ''SQUARING_OFF'', ''CLOSED''})"
proof -
  have uid: "tr_TradeUID tr = uid" using LoadTrade_uid [OF assms(1,2)] .
  have loaded: "store_trades s uid = Some tr"
    using assms(2) uid st.load_hit [of "w_store w" uid] st.load_fetch [of "w_store w" uid tr s] by (cases "store_trades (w_store w) uid") auto
  from assms(2,3) show ?thesis
  proof (cases rule: SquareOff_cases)
    case refused
    then show ?thesis using loaded by simp
  next
    case failed
    then show ?thesis using createSQF_keeps [OF failed(3)] loaded by simp
  next
    case (panic its w1 tr1 w2 p)
    then show ?thesis
      using createSQF_keeps [OF panic(1)] set_status_facts [OF panic(2)] stop_runtime_facts [OF panic(3)] uid by simp
  next
    case (sent its w1 tr1 w2 w3)
    from sqf_execute_spec [OF sent(5,4)] obtain l where l: "w_log w' = w_log w3 @ l" "l \<noteq> [] \<longrightarrow> sqf_enabled svc tr1"
      "store_trades (w_store w') = store_trades (w_store w3) \<or>
       (\<exists>tr'. store_trades (w_store w') = (store_trades (w_store w3))(tr_TradeUID tr1 \<mapsto> tr') \<and> tr_Status tr' = ''CLOSED'')" by blast
    have en: "sqf_enabled svc tr1 = sqf_enabled svc tr" using set_status_facts(7) [OF sent(2)] by (simp add: sqf_enabled_def)
    have "w_log w3 = w_log w"
      using createSQF_keeps(1) [OF sent(1)] set_status_facts(1) [OF sent(2)] stop_runtime_facts(1) [OF sent(3)] by simp
    moreover have "store_trades (w_store w3) uid = Some tr1" "tr_Status tr1 = ''SQUARING_OFF''" "tr_TradeUID tr1 = uid"
      using set_status_facts [OF sent(2)] stop_runtime_facts [OF sent(3)] uid by auto
    ultimately show ?thesis using l en sent(6) by auto
  qed
qed

section \<open>Witnesses of the square-off\<close>

definition sim_trade :: "string \<Rightarrow> StoredTrade" where
  "sim_trade status = (plain_trade ''T1'')\<lparr>tr_Status := status, tr_Symbol := ''NIFTY'', tr_BrokerName := ''SIM'', tr_CEQty := 75, tr_PEQty := 75, tr_CEToken := 101, tr_PEToken := 102\<rparr>"

definition sim_db :: database where
  "sim_db = (empty_db (\<lambda>n. 9 < n) (\<lambda>_. day_time))\<lparr>db_orders := [filled_order 0 ''SELL'' 75]\<rparr>"

definition sim_world_on :: "database \<Rightarrow> string \<Rightarrow> (unit \<times> exec_log) world" where
  "sim_world_on d status = \<lparr>w_store = PgStore \<lparr>ps_mem = Mem_SaveTrade (sim_trade status) NewMemoryStore, ps_db = Some d\<rparr>,
     w_ext = ((), []), w_tick = 0\<rparr>"

definition sim_world :: "string \<Rightarrow> (unit \<times> exec_log) world" where
  "sim_world status = sim_world_on sim_db status"

lemma sim_trade_simps [simp]:
  "tr_TradeUID (sim_trade status) = ''T1''" "tr_Status (sim_trade status) = status" "tr_Symbol (sim_trade status) = ''NIFTY''"
  "tr_BrokerName (sim_trade status) = ''SIM''"
  by (simp_all add: sim_trade_def plain_trade_def)

lemma sim_world_on_simps [simp]:
  "dbFromHandlerStore (w_store (sim_world_on d status)) = Some d" "w_log (sim_world_on d status) = []"
  by (simp_all add: sim_world_on_def dbFromHandlerStore_def)

lemma sim_world_simps [simp]:
  "dbFromHandlerStore (w_store (sim_world status)) = Some sim_db" "w_log (sim_world status) = []" "\<not> db_failed sim_db"
  by (simp_all add: sim_world_def sim_db_def db_failed_def empty_db_def)

lemma sim_world_ok: "store_ok (w_store (sim_world status))"
  by (simp add: store_ok_def sim_world_def sim_world_on_def store_mem_def db_ok_def sim_db_def empty_db_def filled_order_def)

lemma sim_load_on: "LoadTrade ''T1'' (w_store (sim_world_on d status)) = (Some (sim_trade status), w_store (sim_world_on d status))"
  by (rule st.load_hit) (simp add: sim_world_on_def store_trades_def mem_trades_def store_mem_def Mem_SaveTrade_def gm_simps)

lemma sim_load: "LoadTrade ''T1'' (w_store (sim_world status)) = (Some (sim_trade status), w_store (sim_world status))"
  by (simp add: sim_world_def sim_load_on)

lemma sim_total: "filled_total ''T1'' sim_db = 75"
  by (simp add: filled_total_def sim_db_def filled_order_def filled_row_def)

lemma sim_order:
  "sqf_sell (filled_order n ''SELL'' 75)" "os_Token (enriched_row ''NIFTY'' (filled_order n ''SELL'' 75)) = 41"
  "filled_row ''T1'' (filled_order n ''SELL'' 75)" "od_filled_qty (filled_order n ''SELL'' 75) = 75"
  using rnd_int [of 41]
  by (simp_all add: sqf_sell_def ToUpper_def TrimSpace_def trim_by_def is_space_def upper_char_def filled_order_def enriched_row_def
      enrichOrderFromRawIntent_def json_members_def json_get_def Let_def trunc_rat_def int64_ok_def filled_row_def)

lemma sim_whole: "read_whole sim_db"
  by (simp add: read_whole_def sim_db_def empty_db_def)



lemma fill_exec_sends: "\<exists>w'. sqf_send (logged fill_exec) its w = (Inr True, w')"
proof (induction its arbitrary: w)
  case (Cons it its)
  obtain r w1 where x: "ext_call (logged fill_exec it) w = (r, w1)" by force
  then obtain res where r: "r = Inr res" "res_Status res = ''FILLED''"
    by (auto simp: ext_call_def logged_def fill_exec_def)
  then show ?case using Cons.IH [of "st_do (mark_execution (it_IntentID it) res) w1"] x by auto
qed simp

lemma sim_closed_on:
  assumes "createSQFIntentsFromFilledNetPosition rev (logged_service (demo_broker fill_exec)) (sim_trade ''ACTIVE'') (sim_world_on d ''ACTIVE'') = (Inr its, w1)" "its \<noteq> []"
  shows "\<exists>w' tr'. SquareOff rev (logged_service (demo_broker fill_exec)) ''T1'' (sim_world_on d ''ACTIVE'') = (Inr (), w') \<and>
    store_trades (w_store w') ''T1'' = Some tr' \<and> tr_Status tr' = ''CLOSED'' \<and> map fst (w_log w') = its"
proof -
  let ?svc = "logged_service (demo_broker fill_exec)" and ?tr = "sim_trade ''ACTIVE''" and ?w = "sim_world_on d ''ACTIVE''"
  note c = assms
  obtain tr1 w2 where s: "set_status ?svc ''SQUARING_OFF'' ?tr w1 = (tr1, w2)" by force
  have "LoadRuntime ''T1'' (w_store w2) = None"
    using set_status_facts(9) [OF s] createSQF_keeps(3) [OF c(1)]
    by (simp add: sim_world_on_def LoadRuntime_def Mem_LoadRuntime_def store_mem_def Mem_SaveTrade_def NewMemoryStore_def)
  then have stop: "stop_runtime ''T1'' w2 = (Inr (), w2)" by (simp add: stop_runtime_def)
  obtain f where f: "sv_BrokerFactory ?svc = Some f" "\<And>u b a w. ext_call (f u b a) w = (Inr (logged fill_exec), w)"
    using demo_factory by blast
  obtain w4 where send: "sqf_send (logged fill_exec) its w2 = (Inr True, w4)" using fill_exec_sends by blast
  obtain tr' w5 where cl: "set_status ?svc ''CLOSED'' tr1 w4 = (tr', w5)" by force
  have en: "sqf_enabled ?svc tr1" using set_status_facts(7) [OF s] by (simp add: sqf_enabled_def)
  have run: "sqf_execute ?svc tr1 its w2 = (Inr (), w5)" using f send cl en by (simp add: sqf_execute_def)
  have "tr_TradeUID tr1 = ''T1''" using set_status_facts(5) [OF s] by simp
  then have fin: "store_trades (w_store w5) ''T1'' = Some tr'" "tr_Status tr' = ''CLOSED''" using set_status_facts(3,4) [OF cl] by simp_all
  moreover have "SquareOff rev ?svc ''T1'' ?w = (Inr (), w5)"
  proof -
    have "?w\<lparr>w_store := w_store ?w\<rparr> = ?w" by simp
    then show ?thesis using c s stop run by (simp add: SquareOff_def st_load_def sim_load_on TradeStatusPendingFill_def)
  qed
  moreover have "map fst (w_log w5) = its"
    using squareoff_all_filled [OF c(1) _ s _ c(2) run, of tr'] stop fin by simp
  ultimately show ?thesis by blast
qed


theorem squareoff_intents_close_position_witness:
  "\<exists>its ps. distinct (map np_key ps) \<and> np_key ` set ps = {k. sqf_net ''NIFTY'' (filter (filled_row ''T1'') (db_orders sim_db)) k \<noteq> 0} \<and>
    list_all2 (\<lambda>it p. it_Token it = np_Token p \<and> it_LegType it = np_LegType p \<and> 0 < it_Quantity it \<and>
      sqf_net ''NIFTY'' (filter (filled_row ''T1'') (db_orders sim_db)) (np_key p) + intent_signed it = 0) its ps \<and>
    store_intents (w_store (snd (createSQFIntentsFromFilledNetPosition rev demo_service (sim_trade ''ACTIVE'') (sim_world ''ACTIVE'')))) ''T1'' =
      store_intents (w_store (sim_world ''ACTIVE'')) ''T1'' @ its \<and>
    fst (createSQFIntentsFromFilledNetPosition rev demo_service (sim_trade ''ACTIVE'') (sim_world ''ACTIVE'')) =
      (if its = [] then Inl (GoErr ''no filled net position found for square-off'') else Inr its)"
  using squareoff_intents_close_position [OF sim_world_simps(1,3) permutes_list_rev _ surjective_pairing,
      of "sim_trade ''ACTIVE''" demo_service "''ACTIVE''"]
  by (simp add: sim_total sim_whole sqf_net_whole)


theorem squareoff_guards_witness:
  "(\<exists>e. fst (SquareOff rev (logged_service (demo_broker fill_exec)) ''T1'' (sim_world ''PENDING_FILL'')) = Inl e) \<and>
    w_log (snd (SquareOff rev (logged_service (demo_broker fill_exec)) ''T1'' (sim_world ''PENDING_FILL''))) = []"
  using squareoff_guards [OF sim_world_ok sim_load surjective_pairing, of "''PENDING_FILL''" rev "demo_broker fill_exec"] by simp

section \<open>A read that breaks off\<close>

text \<open>Two legs were filled; the connection is lost after the first row of the query that the square-off makes.\<close>

definition put_order :: order_row where
  "put_order = (filled_order 1 ''SELL'' 75)\<lparr>od_raw_broker_request :=
     Some (JObj [(''symbol'', JStr ''NIFTY''), (''leg_type'', JStr ''PE''), (''token'', JNum 42)])\<rparr>"

definition cut_db :: database where
  "cut_db = (empty_db (\<lambda>_. False) (\<lambda>_. day_time))
     \<lparr>db_orders := [filled_order 0 ''SELL'' 75, put_order], db_cut := (\<lambda>n. if n = 0 then Some 1 else None)\<rparr>"

lemma put_order_facts:
  "sqf_sell put_order" "filled_row ''T1'' put_order" "od_filled_qty put_order = 75"
  "os_Token (enriched_row ''NIFTY'' put_order) = 42" "row_key ''NIFTY'' put_order \<noteq> row_key ''NIFTY'' (filled_order 0 ''SELL'' 75)"
proof -
  show "sqf_sell put_order" "filled_row ''T1'' put_order" "od_filled_qty put_order = 75"
    using sim_order [of 1] by (simp_all add: put_order_def sqf_sell_def filled_row_def)
  note e = put_order_def filled_order_def enriched_row_def enrichOrderFromRawIntent_def json_members_def json_get_def Let_def trunc_rat_def int64_ok_def
  show "os_Token (enriched_row ''NIFTY'' put_order) = 42" using rnd_int [of 42] by (simp add: e)
  have "os_LegType (enriched_row ''NIFTY'' put_order) = ''PE''" "os_LegType (enriched_row ''NIFTY'' (filled_order 0 ''SELL'' 75)) = ''CE''"
    "os_Symbol (enriched_row ''NIFTY'' put_order) = ''NIFTY''" "os_Symbol (enriched_row ''NIFTY'' (filled_order 0 ''SELL'' 75)) = ''NIFTY''"
    using rnd_int [of 42] rnd_int [of 41] by (simp_all add: e TrimSpace_def trim_by_def is_space_def)
  then show "row_key ''NIFTY'' put_order \<noteq> row_key ''NIFTY'' (filled_order 0 ''SELL'' 75)" by (simp add: row_key_def position_key_def)
qed

lemma cut_delivered: "delivered ''T1'' cut_db = [filled_order 0 ''SELL'' 75]"
proof -
  have "od_id (filled_order n side q) = n" "od_created_at (filled_order n side q) = day_time" for n side q by (simp_all add: filled_order_def)
  moreover have "od_id put_order = 1" "od_created_at put_order = day_time" by (simp_all add: put_order_def filled_order_def)
  ultimately have "order_rows (filled_row ''T1'') cut_db = [filled_order 0 ''SELL'' 75, put_order]"
    using put_order_facts(2) sim_order(3) [of 0] by (simp add: order_rows_def cut_db_def)
  then show ?thesis by (simp add: delivered_def db_read_def) (simp add: cut_db_def empty_db_def)
qed

lemma cut_intents:
  "\<exists>it w1. createSQFIntentsFromFilledNetPosition rev svc (sim_trade st) (sim_world_on cut_db st) = (Inr [it], w1) \<and> it_Token it = 41"
proof -
  have q: "od_filled_qty (filled_order 0 ''SELL'' 75) = 75" by (rule sim_order)
  obtain k p where p: "foldl (sqf_add ''NIFTY'') [] (delivered ''T1'' cut_db) = [(k, p)]" "np_Token p = 41" "np_NetQty p = - 75"
    using sim_order [of 0] by (simp add: cut_delivered sqf_add_def sqf_sell_def add_position_def Let_def gm_simps gm_set_def gm_get_or_def
        i64_add_def i64_neg_def wrap64_def)
  have "\<not> db_failed cut_db" by (simp add: cut_db_def db_failed_def empty_db_def)
  then show ?thesis using p
    by (simp add: createSQFIntentsFromFilledNetPosition_def sql_rows_def delivered_def [symmetric] Let_def time_Now_def absInt64_small sqf_intent_def)
qed

text \<open>
  C0. A square-off may close a trade that is still open at the broker. Two legs of a trade are filled, and the
  connection to the database is lost after the first row of the query for the filled orders. The call
  returns without an error, it sends one order, for the first leg, and marks the trade
  \<^verbatim>\<open>CLOSED\<close>; the second leg, whose fill is in the order table, is still short by its whole quantity.
\<close>

theorem cut_read_closes_open_trade:
  "\<exists>w' tr'. SquareOff rev (logged_service (demo_broker fill_exec)) ''T1'' (sim_world_on cut_db ''ACTIVE'') = (Inr (), w') \<and>
     store_trades (w_store w') ''T1'' = Some tr' \<and> tr_Status tr' = ''CLOSED'' \<and>
     map (\<lambda>e. it_Token (fst e)) (w_log w') = [41] \<and> os_Token (enriched_row ''NIFTY'' put_order) = 42 \<and>
     sqf_net ''NIFTY'' (filter (filled_row ''T1'') (db_orders cut_db)) (row_key ''NIFTY'' put_order) = - 75"
proof -
  obtain it w1 where c: "createSQFIntentsFromFilledNetPosition rev (logged_service (demo_broker fill_exec)) (sim_trade ''ACTIVE'')
      (sim_world_on cut_db ''ACTIVE'') = (Inr [it], w1)" "it_Token it = 41" using cut_intents by blast
  have "sqf_net ''NIFTY'' (filter (filled_row ''T1'') (db_orders cut_db)) (row_key ''NIFTY'' put_order) = - 75"
    using sim_order [of 0] put_order_facts by (auto simp: sqf_net_def net_fill_def cut_db_def sqf_used_def signed_fill_def)
  moreover obtain w' tr' where r: "SquareOff rev (logged_service (demo_broker fill_exec)) ''T1'' (sim_world_on cut_db ''ACTIVE'') = (Inr (), w')"
    "store_trades (w_store w') ''T1'' = Some tr'" "tr_Status tr' = ''CLOSED''" "map fst (w_log w') = [it]" using sim_closed_on [OF c(1)] by auto
  moreover have "map (\<lambda>e. it_Token (fst e)) (w_log w') = [41]" using r(4) c(2) by auto
  ultimately show ?thesis using put_order_facts(4) by (intro exI [of _ w'] exI [of _ tr'] conjI)
qed

section \<open>The monitor goroutine\<close>

text \<open>It returns exactly when it is stopped, keeps the trade, and shows the last snapshot that a tick found.\<close>

lemma runMonitor_returns: "snd (runMonitor es rt) \<longleftrightarrow> MonitorStop \<in> set es"
  by (induction es rt rule: runMonitor.induct) simp_all

lemma runMonitor_trade: "rt_Trade (fst (runMonitor es rt)) = rt_Trade rt"
  by (induction es rt rule: runMonitor.induct) (simp_all add: tickRuntime_def split: option.splits)

lemma runMonitor_stopped: "runMonitor (es @ MonitorStop # es') rt = runMonitor (es @ [MonitorStop]) rt"
  by (induction es rt rule: runMonitor.induct) simp_all

lemma runMonitor_latest:
  assumes "MonitorStop \<notin> set es" and "LoadSnapshot (tr_TradeUID (rt_Trade rt)) s = Some snap"
  shows "rt_Snapshot (fst (runMonitor (es @ [MonitorTick s]) rt)) = snap"
  using assms
proof (induction es rt rule: runMonitor.induct)
  case (3 s' es rt)
  then show ?case by (simp add: tickRuntime_def split: option.splits)
qed (simp_all add: tickRuntime_def)

section \<open>Partial square-off\<close>

lemma scaled_qty_bounds:
  assumes "0 \<le> s" and "s \<le> 1" and "0 \<le> q" and "q \<le> 2 ^ 53"
  shows "0 \<le> scaled_qty (Fin s) q" and "scaled_qty (Fin s) q \<le> q"
proof -
  have i: "itof q = Fin (of_int q)" using assms by (intro itof_exact) simp
  have "f64_ok (Fin (of_int q :: rat))" using assms by (intro f64_ok_Fin_int) simp
  moreover have "0 \<le> of_int q * s" "of_int q * s \<le> of_int q" using assms by (simp_all add: mult_left_le)
  ultimately obtain y where y: "rnd (of_int q * s) = Fin y" "0 \<le> y" "y \<le> of_int q"
    using rnd_between [of 0 "of_int q" "of_int q * s"] by auto
  have b: "0 \<le> round_away y" "round_away y \<le> q" using y round_away_ge [of 0 y] round_away_le [of y q] by simp_all
  then have "scaled_qty (Fin s) q = round_away y"
    using assms(4) y i by (simp add: scaled_qty_def trunc_rat_def int64_ok_def)
  with b show "0 \<le> scaled_qty (Fin s) q" "scaled_qty (Fin s) q \<le> q" by simp_all
qed

lemma partial_scale:
  assumes "0 < p" and "p \<le> 100"
  obtains s where "fdiv (fsub (Fin 100) (Fin p)) (Fin 100) = Fin s" "0 \<le> s" "s \<le> 1"
proof -
  have h: "f64_ok (Fin 100)" using f64_ok_Fin_int [of 100] by simp
  obtain d where d: "rnd (100 - p) = Fin d" "0 \<le> d" "d \<le> 100"
    using rnd_between [OF f64_ok_0 h, of "100 - p"] assms by auto
  obtain s where s: "rnd (d / 100) = Fin s" "0 \<le> s" "s \<le> 1"
    using rnd_between [OF f64_ok_0 f64_ok_1, of "d / 100"] d by auto
  show ?thesis by (rule that [OF _ s(2,3)]) (simp add: fsub_def d s)
qed

text \<open>
  A partial square-off shrinks the recorded quantities and does nothing else. For a percentage
  above 0 and up to 100 each leg's quantity stays between zero and what it was, the status becomes
  \<^verbatim>\<open>PARTIAL\<close>, and neither an intent nor an order is produced: the position at the broker
  is unchanged. Other percentages are refused without a change.
\<close>

theorem partial_squareoff_only_rescales:
  assumes "store_ok (w_store w)" and "LoadTrade uid (w_store w) = (Some tr, s)"
    and "0 \<le> tr_CEQty tr" and "tr_CEQty tr \<le> 2 ^ 53" and "0 \<le> tr_PEQty tr" and "tr_PEQty tr \<le> 2 ^ 53"
    and "PartialSquareOff svc uid (Fin p) w = (r, w')"
  shows "w_ext w' = w_ext w \<and> store_intents (w_store w') = store_intents s \<and>
    (if 0 < p \<and> p \<le> 100
     then r = Inr () \<and> (\<exists>tr'. store_trades (w_store w') uid = Some tr' \<and> tr_Status tr' = ''PARTIAL'' \<and>
       0 \<le> tr_CEQty tr' \<and> tr_CEQty tr' \<le> tr_CEQty tr \<and> 0 \<le> tr_PEQty tr' \<and> tr_PEQty tr' \<le> tr_PEQty tr)
     else r = Inl (GoErr ''invalid percentage'') \<and> w_store w' = s)"
proof (cases "0 < p \<and> p \<le> 100")
  case False
  then show ?thesis using assms(2,7) by (auto simp: PartialSquareOff_def st_load_def)
next
  case True
  then obtain sc where sc: "fdiv (fsub (Fin 100) (Fin p)) (Fin 100) = Fin sc" "0 \<le> sc" "sc \<le> 1" using partial_scale by blast
  define tr1 where "tr1 = tr\<lparr>tr_CEQty := scaled_qty (Fin sc) (tr_CEQty tr), tr_PEQty := scaled_qty (Fin sc) (tr_PEQty tr)\<rparr>"
  obtain tr' where st: "set_status svc ''PARTIAL'' tr1 (w\<lparr>w_store := s\<rparr>) = (tr', w')" and r: "r = Inr ()"
    using assms(2,7) True sc by (cases "set_status svc ''PARTIAL'' tr1 (w\<lparr>w_store := s\<rparr>)")
      (auto simp: PartialSquareOff_def st_load_def tr1_def Let_def)
  have "tr_CEQty tr' = tr_CEQty tr1" "tr_PEQty tr' = tr_PEQty tr1" using st by (auto simp: set_status_def time_Now_def Let_def)
  then have "0 \<le> tr_CEQty tr' \<and> tr_CEQty tr' \<le> tr_CEQty tr \<and> 0 \<le> tr_PEQty tr' \<and> tr_PEQty tr' \<le> tr_PEQty tr"
    using assms(3-6) sc(2,3) by (simp add: tr1_def scaled_qty_bounds)
  then show ?thesis
    using True r set_status_facts [OF st] loaded_trade(1) [OF assms(1,2)] by (simp add: tr1_def)
qed

theorem partial_squareoff_only_rescales_witness:
  "\<exists>w' tr'. PartialSquareOff demo_service ''T1'' (Fin 50) (sim_world ''ACTIVE'') = (Inr (), w') \<and> w_ext w' = w_ext (sim_world ''ACTIVE'') \<and>
    store_trades (w_store w') ''T1'' = Some tr' \<and> tr_Status tr' = ''PARTIAL'' \<and> 0 \<le> tr_CEQty tr' \<and> tr_CEQty tr' \<le> 75"
proof -
  have q: "tr_CEQty (sim_trade ''ACTIVE'') = 75" "tr_PEQty (sim_trade ''ACTIVE'') = 75"
    by (simp_all add: sim_trade_def plain_trade_def zero_StoredTrade_def)
  obtain r w' where p: "PartialSquareOff demo_service ''T1'' (Fin 50) (sim_world ''ACTIVE'') = (r, w')" by force
  from partial_squareoff_only_rescales [OF sim_world_ok sim_load _ _ _ _ p] show ?thesis using p q by auto
qed

section \<open>Hedges\<close>

lemma hedge_send_spec:
  assumes "hedge_send (logged ex) it msg w = (r, w')"
  shows "\<exists>x. w_log w' = w_log w @ [(it, x)] \<and> same_views w w' \<and>
    (case r of Inl e \<Rightarrow> \<exists>e'. x = Inl e' \<and> e = GoWrap msg e' | Inr res \<Rightarrow> x = Inr res)"
proof -
  obtain x w1 where x: "ext_call (logged ex it) w = (x, w1)" by force
  then show ?thesis using assms ext_logged [OF x]
    by (cases x) (auto simp: hedge_send_def same_views_def)
qed

definition hedge_pair :: "TradeSnapshot \<Rightarrow> OptionChainRow \<Rightarrow> int \<Rightarrow> OrderIntent \<Rightarrow> OrderIntent \<Rightarrow> bool" where
  "hedge_pair snap row qty ce pe \<longleftrightarrow>
     hedgeSidesFromNetDelta (ts_NetDelta snap) = (it_Side ce, it_Side pe, True) \<and>
     it_Quantity ce = qty \<and> it_Quantity pe = qty \<and> it_Token ce = row_CEToken row \<and> it_Token pe = row_PEToken row \<and>
     it_LimitPrice ce = Some (fmax F005 (fsub (row_CELtp row) (Fin 2))) \<and>
     it_LimitPrice pe = Some (fmax F005 (fsub (row_PELtp row) (Fin 2)))"

definition hedge_ran :: "OrderIntent \<Rightarrow> OrderIntent \<Rightarrow> goerr + unit \<Rightarrow> exec_log \<Rightarrow> bool" where
  "hedge_ran ce pe r l \<longleftrightarrow>
     (\<exists>a b. l = [(ce, Inr a), (pe, Inr b)] \<and> r = Inr ()) \<or> (\<exists>e. l = [(ce, Inl e)] \<and> r = Inl (GoWrap ''hedge CE failed: '' e)) \<or>
     (\<exists>a e. l = [(ce, Inr a), (pe, Inl e)] \<and> r = Inl (GoWrap ''hedge PE failed: '' e))"

lemma hedge_execute_spec:
  assumes "hedge_execute svc (logged ex) tr uid ceSide peSide row qty w = (r, w')"
  shows "\<exists>ce pe l. w_log w' = w_log w @ l \<and> hedge_ran ce pe r l \<and> it_Side ce = ceSide \<and> it_Side pe = peSide \<and> it_Quantity ce = qty \<and> it_Quantity pe = qty \<and>
    it_Token ce = row_CEToken row \<and> it_Token pe = row_PEToken row \<and>
    it_LimitPrice ce = Some (fmax F005 (fsub (row_CELtp row) (Fin 2))) \<and> it_LimitPrice pe = Some (fmax F005 (fsub (row_PELtp row) (Fin 2))) \<and>
    store_intents (w_store w') = (store_intents (w_store w))(uid := store_intents (w_store w) uid @ [ce, pe]) \<and>
    store_trades (w_store w') = store_trades (w_store w)"
proof -
  obtain ce pe w0 where h: "hedge_intents svc tr uid ceSide peSide row qty w = ((ce, pe), w0)"
    by (metis surj_pair)
  then have f: "it_Side ce = ceSide" "it_Side pe = peSide" "it_Quantity ce = qty" "it_Quantity pe = qty"
      "it_Token ce = row_CEToken row" "it_Token pe = row_PEToken row"
      "it_LimitPrice ce = Some (fmax F005 (fsub (row_CELtp row) (Fin 2)))" "it_LimitPrice pe = Some (fmax F005 (fsub (row_PELtp row) (Fin 2)))"
      "w_store w0 = w_store w" "w_ext w0 = w_ext w"
    by (auto simp: hedge_intents_def hedge_intent_def time_Now_def Let_def)
  let ?w2 = "st_now svc (\<lambda>t. AppendIntent t uid pe) (st_now svc (\<lambda>t. AppendIntent t uid ce) w0)"
  have base: "w_log ?w2 = w_log w" "store_trades (w_store ?w2) = store_trades (w_store w)"
    "store_intents (w_store ?w2) = (store_intents (w_store w))(uid := store_intents (w_store w) uid @ [ce, pe])"
    by (simp_all add: f)
  obtain r1 w3 where s1: "hedge_send (logged ex) ce ''hedge CE failed: '' ?w2 = (r1, w3)" by force
  from hedge_send_spec [OF this] obtain x1 where x1: "w_log w3 = w_log w @ [(ce, x1)]" "same_views ?w2 w3"
    "case r1 of Inl e \<Rightarrow> \<exists>e'. x1 = Inl e' \<and> e = GoWrap ''hedge CE failed: '' e' | Inr res \<Rightarrow> x1 = Inr res"
    using base by auto
  obtain r2 w4 where s2: "hedge_send (logged ex) pe ''hedge PE failed: '' w3 = (r2, w4)" by force
  from hedge_send_spec [OF this] obtain x2 where x2: "w_log w4 = w_log w3 @ [(pe, x2)]" "same_views w3 w4"
    "case r2 of Inl e \<Rightarrow> \<exists>e'. x2 = Inl e' \<and> e = GoWrap ''hedge PE failed: '' e' | Inr res \<Rightarrow> x2 = Inr res" by auto
  have "\<exists>l. w_log w' = w_log w @ l \<and> hedge_ran ce pe r l \<and> same_views ?w2 w'"
    using assms h s1 s2 x1 x2 same_views_trans [OF x1(2) x2(2)] unfolding hedge_execute_def Let_def
    by (cases r1; cases r2) (auto simp: hedge_ran_def)
  then show ?thesis using f base by (auto simp: same_views_def)
qed

text \<open>
  A hedge sends an order pair with opposite sides, for one lot, chosen against the sign of the
  net delta of the last snapshot, or nothing at all. Both intents are recorded before the first is
  sent, the put is sent only when the call was accepted, and the result is an error exactly when an
  order failed.
\<close>

theorem manual_hedge_orders:
  assumes "LoadTrade uid (w_store w) = (Some tr, s)" and "ManualHedge (logged_service svc) uid w = (r, w')" and "w_log w = []"
    and "w_log w' \<noteq> []"
  shows "\<exists>snap row ce pe. LoadSnapshot uid s = Some snap \<and> hedge_pair snap row (hedge_qty tr) ce pe \<and> 0 < hedge_qty tr \<and>
    (it_Side ce, it_Side pe) \<in> {(''BUY'', ''SELL''), (''SELL'', ''BUY'')} \<and> hedge_ran ce pe r (w_log w') \<and>
    store_intents (w_store w') uid = store_intents s uid @ [ce, pe]"
proof -
  let ?w = "w\<lparr>w_store := s\<rparr>" and ?svc = "logged_service svc"
  have ld: "st_load uid w = (Some tr, ?w)" using assms(1) by (simp add: st_load_def)
  have l0: "w_log ?w = []" using assms(3) by simp
  obtain snap where sn: "LoadSnapshot uid s = Some snap"
    using assms(2,4) ld l0 by (cases "LoadSnapshot uid s") (auto simp: ManualHedge_def)
  obtain ceSide peSide sh where hs: "hedgeSidesFromNetDelta (ts_NetDelta snap) = (ceSide, peSide, sh)" by (metis surj_pair)
  have sh: sh using assms(2,4) ld l0 sn hs by (cases sh) (auto simp: ManualHedge_def)
  have sides: "(ceSide, peSide) \<in> {(''BUY'', ''SELL''), (''SELL'', ''BUY'')}"
    using hs sh by (auto simp: hedgeSidesFromNetDelta_def split: if_splits)
  obtain f where f: "sv_BrokerFactory ?svc = Some f"
    using assms(2,4) ld l0 sn hs sh by (cases "sv_BrokerFactory ?svc") (auto simp: ManualHedge_def)
  obtain r1 w1 where x1: "ext_call (f (tr_UserID tr) (tr_BrokerName tr) (tr_AccountID tr)) ?w = (r1, w1)" by force
  note q1 = ext_factory_quiet [OF f x1]
  obtain ex where ex: "r1 = Inr (logged ex)"
    using assms(2,4) ld l0 sn hs sh f x1 q1 by (cases r1) (auto simp: ManualHedge_def quiet_def)
  obtain r2 w2 where x2: "ext_call (sv_Snapshot ?svc (tr_Symbol tr) (tr_Expiry tr)) w1 = (r2, w2)" by force
  note q2 = ext_snapshot_quiet [OF x2]
  have q: "w_log w2 = []" "w_store w2 = s" using q1 q2 l0 by (simp_all add: quiet_def)
  obtain chain where ch: "r2 = Inr chain"
    using assms(2,4) ld sn hs sh f x1 ex x2 q by (cases r2) (auto simp: ManualHedge_def)
  obtain row where row: "FindATMRow chain = Inr row"
    using assms(2,4) ld sn hs sh f x1 ex x2 q ch by (cases "FindATMRow chain") (auto simp: ManualHedge_def)
  have qty: "0 < hedge_qty tr" using GetFallbackLotSize_pos [of "tr_Symbol tr"] by (simp add: hedge_qty_def)
  have "hedge_execute ?svc (logged ex) tr uid ceSide peSide row (hedge_qty tr) w2 = (r, w')"
    using assms(2) ld sn hs sh f x1 ex x2 ch row qty by (simp add: ManualHedge_def)
  from hedge_execute_spec [OF this] show ?thesis using sn hs sh sides qty q by (auto simp: hedge_pair_def)
qed

definition hedge_world :: "(unit \<times> exec_log) world" where
  "hedge_world = st_do (SaveSnapshot (zero_TradeSnapshot\<lparr>ts_TradeUID := ''T1'', ts_NetDelta := Fin (- 30)\<rparr>)) (sim_world ''ACTIVE'')"

lemma hedge_world_load: "LoadTrade ''T1'' (w_store hedge_world) = (Some (sim_trade ''ACTIVE''), w_store hedge_world)"
  by (rule st.load_hit)
    (simp add: hedge_world_def st_do_def sim_world_def sim_world_on_def store_trades_def mem_trades_def store_mem_def Mem_SaveTrade_def gm_simps
      SaveSnapshot_def store_upd_def Mem_SaveSnapshot_def)

lemma hedge_world_snap: "LoadSnapshot ''T1'' (w_store hedge_world) = Some (zero_TradeSnapshot\<lparr>ts_TradeUID := ''T1'', ts_NetDelta := Fin (- 30)\<rparr>)"
  by (simp add: hedge_world_def st_do_def sim_world_def sim_world_on_def LoadSnapshot_def SaveSnapshot_def store_upd_def store_mem_def
      Mem_SaveSnapshot_def Mem_LoadSnapshot_def gm_simps)

lemma hedge_world_log: "w_log hedge_world = []"
  by (simp add: hedge_world_def)

lemma hedge_runs: "w_log (snd (ManualHedge (logged_service (demo_broker fill_exec)) ''T1'' hedge_world)) \<noteq> []"
proof -
  let ?svc = "logged_service (demo_broker fill_exec)"
  obtain f where f: "sv_BrokerFactory ?svc = Some f" "\<And>u b a w. ext_call (f u b a) w = (Inr (logged fill_exec), w)"
    using demo_factory by blast
  have hw: "hedge_world\<lparr>w_store := w_store hedge_world\<rparr> = hedge_world" by simp
  have atm: "FindATMRow demo_chain = Inr demo_row" by (simp add: FindATMRow_def demo_chain_def demo_row_def)
  have qty: "\<not> hedge_qty (sim_trade ''ACTIVE'') \<le> 0"
    using GetFallbackLotSize_pos [of "''NIFTY''"] by (simp add: hedge_qty_def)
  obtain r w' where e: "hedge_execute ?svc (logged fill_exec) (sim_trade ''ACTIVE'') ''T1'' ''BUY'' ''SELL'' demo_row (hedge_qty (sim_trade ''ACTIVE'')) hedge_world = (r, w')"
    by force
  have "ManualHedge ?svc ''T1'' hedge_world = (r, w')"
    using qty by (simp add: ManualHedge_def st_load_def hedge_world_load hw hedge_world_snap hedgeSidesFromNetDelta_def f demo_snapshot atm e)
  moreover have "w_log w' \<noteq> []" using hedge_execute_spec [OF e] by (auto simp: hedge_ran_def)
  ultimately show ?thesis by simp
qed

theorem manual_hedge_orders_witness:
  "\<exists>snap row ce pe. LoadSnapshot ''T1'' (w_store hedge_world) = Some snap \<and> hedge_pair snap row (hedge_qty (sim_trade ''ACTIVE'')) ce pe \<and>
    0 < hedge_qty (sim_trade ''ACTIVE'') \<and> (it_Side ce, it_Side pe) \<in> {(''BUY'', ''SELL''), (''SELL'', ''BUY'')} \<and>
    hedge_ran ce pe (fst (ManualHedge (logged_service (demo_broker fill_exec)) ''T1'' hedge_world))
      (w_log (snd (ManualHedge (logged_service (demo_broker fill_exec)) ''T1'' hedge_world))) \<and>
    store_intents (w_store (snd (ManualHedge (logged_service (demo_broker fill_exec)) ''T1'' hedge_world))) ''T1'' =
      store_intents (w_store hedge_world) ''T1'' @ [ce, pe]"
  by (rule manual_hedge_orders [OF hedge_world_load surjective_pairing hedge_world_log hedge_runs])

section \<open>The broker hedge\<close>

lemma manual_send_spec:
  "manual_send (logged ex) its w = ((rs, e), w') \<Longrightarrow> \<exists>l. w_log w' = w_log w @ l \<and> same_views w w' \<and>
    (e = None \<longrightarrow> map fst l = its \<and> map snd l = map Inr rs)"
proof (induction its arbitrary: w rs)
  case (Cons it its)
  obtain r w1 where s: "hedge_send (logged ex) it (''manual hedge '' @ it_LegType it @ '' failed: '') w = (r, w1)" by force
  from hedge_send_spec [OF this] obtain x where x: "w_log w1 = w_log w @ [(it, x)]" "same_views w w1"
    "case r of Inl e \<Rightarrow> \<exists>e'. x = Inl e' \<and> e = GoWrap (''manual hedge '' @ it_LegType it @ '' failed: '') e' | Inr res \<Rightarrow> x = Inr res" by blast
  show ?case
  proof (cases r)
    case (Inl e')
    then show ?thesis using Cons.prems s x by auto
  next
    case (Inr res)
    then obtain rs' where m: "manual_send (logged ex) its w1 = ((rs', e), w')" "rs = res # rs'"
      using Cons.prems s by (auto split: prod.splits)
    from Cons.IH [OF m(1)] obtain l where l: "w_log w' = w_log w1 @ l" "same_views w1 w'" "e = None \<longrightarrow> map fst l = its \<and> map snd l = map Inr rs'" by blast
    show ?thesis using l x Inr m(2) same_views_trans [OF x(2) l(2)] by (intro exI [of _ "(it, x) # l"]) auto
  qed
qed simp

lemma manual_execute_spec:
  assumes "manual_execute (logged_service svc) tr its w = ((rs, dry, None), w')"
  shows "same_views w w' \<and> (dry \<longleftrightarrow> \<not> manualHedgeBrokerExecutionEnabled svc tr) \<and>
    (if dry then w_log w' = w_log w \<and> rs = map dry_run_result its
     else \<exists>l. w_log w' = w_log w @ l \<and> map fst l = its \<and> map snd l = map Inr rs)"
proof (cases "manualHedgeBrokerExecutionEnabled svc tr")
  case False
  then have "\<not> manualHedgeBrokerExecutionEnabled (logged_service svc) tr" by (simp add: manualHedgeBrokerExecutionEnabled_def logged_service_def)
  then show ?thesis using assms False by (auto simp: manual_execute_def)
next
  case True
  then have en: "manualHedgeBrokerExecutionEnabled (logged_service svc) tr" by (simp add: manualHedgeBrokerExecutionEnabled_def logged_service_def)
  obtain f where f: "sv_BrokerFactory (logged_service svc) = Some f"
    using assms en by (cases "sv_BrokerFactory (logged_service svc)") (auto simp: manual_execute_def)
  obtain r1 w1 where x: "ext_call (f (tr_UserID tr) (tr_BrokerName tr) (tr_AccountID tr)) w = (r1, w1)" by force
  note q = ext_factory_quiet [OF f x]
  obtain ex where ex: "r1 = Inr (logged ex)" using assms en f x q by (cases r1) (auto simp: manual_execute_def)
  have m: "manual_send (logged ex) its w1 = ((rs, None), w')" "\<not> dry"
    using assms en f x ex by (auto simp: manual_execute_def split: prod.splits)
  from manual_send_spec [OF m(1)] q show ?thesis using m(2) True by (auto simp: quiet_def same_views_def)
qed

definition valid_hedge :: "OrderIntent \<Rightarrow> bool" where
  "valid_hedge it \<longleftrightarrow> it_Side it \<in> {''BUY'', ''SELL''} \<and> 0 < it_Quantity it \<and> 0 < it_Token it \<and> it_OrderType it = ''LIMIT'' \<and>
     it_Phase it = ''HEDGE'' \<and> it_ProductType it \<noteq> '''' \<and> it_ExchangeSegment it \<noteq> '''' \<and> (\<exists>p. it_LimitPrice it = Some p \<and> flt (Fin 0) p)"

lemma manual_sides_valid: "manual_sides req = Inr (a, b) \<Longrightarrow> a \<in> {''BUY'', ''SELL''} \<and> b \<in> {''BUY'', ''SELL''}"
  by (auto simp: manual_sides_def normalizeManualHedgeSide_def defaultManualHedgeSides_def Let_def split: if_splits sum.splits)

lemma defaultManualHedgePrice_pos: "flt (Fin 0) (defaultManualHedgePrice a b)"
  by (simp add: defaultManualHedgePrice_def F005_def)

lemma manual_intent_valid:
  "side \<in> {''BUY'', ''SELL''} \<Longrightarrow> 0 < token \<Longrightarrow> 0 < qty \<Longrightarrow> flt (Fin 0) price \<Longrightarrow>
    valid_hedge (manual_intent tr uid now leg code n token side qty price)"
  by (auto simp: valid_hedge_def manual_intent_def defaultManualHedgeProduct_def defaultManualHedgeExchangeSegment_def Let_def)

text \<open>
  A broker hedge is either a dry run or the real thing, never in between. When it returns
  without an error it has recorded two valid limit orders (a known side, a positive quantity and
  price, a token); for the simulator, or with manual actions switched on, exactly these two were
  sent and the results are the broker's, and otherwise nothing was sent and both results say
  \<^verbatim>\<open>DRY\_RUN\<close>.
\<close>

theorem manual_hedge_broker_outcome:
  assumes "LoadTrade uid (w_store w) = (Some tr, s)" and "w_log w = []"
    and "ManualHedgeBrokerOrder (logged_service svc) uid req w = ((rs, dry, None), w')"
  shows "(dry \<longleftrightarrow> \<not> manualHedgeBrokerExecutionEnabled svc tr) \<and>
    (\<exists>ce pe. valid_hedge ce \<and> valid_hedge pe \<and> store_intents (w_store w') uid = store_intents s uid @ [ce, pe] \<and>
      (if dry then w_log w' = [] \<and> map res_Status rs = [''DRY_RUN'', ''DRY_RUN'']
       else \<exists>a b. rs = [a, b] \<and> w_log w' = [(ce, Inr a), (pe, Inr b)]))"
proof -
  let ?w = "w\<lparr>w_store := s\<rparr>" and ?svc = "logged_service svc"
  have ld: "st_load uid w = (Some tr, ?w)" using assms(1) by (simp add: st_load_def)
  obtain ceSide peSide where sd: "manual_sides req = Inr (ceSide, peSide)"
    using assms(3) ld by (cases "manual_sides req") (auto simp: ManualHedgeBrokerOrder_def)
  define cq pq where "cq = defaultManualHedgeQty tr ''CE'' (mh_CEQuantity req)" and "pq = defaultManualHedgeQty tr ''PE'' (mh_PEQuantity req)"
  have pos: "0 < cq" "0 < pq" "0 < tr_CEToken tr" "0 < tr_PEToken tr"
    using assms(3) ld sd by (auto simp: ManualHedgeBrokerOrder_def Let_def cq_def pq_def split: if_splits)
  define now w1 where "now = fst (time_Now ?svc ?w)" and "w1 = snd (time_Now ?svc ?w)"
  define ce where "ce = manual_intent tr uid now ''CE'' ''HCE'' 0 (tr_CEToken tr) ceSide cq (defaultManualHedgePrice (tr_CELtp tr) (mh_CELimitPrice req))"
  define pe where "pe = manual_intent tr uid now ''PE'' ''HPE'' 2 (tr_PEToken tr) peSide pq (defaultManualHedgePrice (tr_PELtp tr) (mh_PELimitPrice req))"
  let ?w2 = "st_now ?svc (\<lambda>t. AppendIntent t uid pe) (st_now ?svc (\<lambda>t. AppendIntent t uid ce) w1)"
  have m: "manual_execute ?svc tr [ce, pe] ?w2 = ((rs, dry, None), w')"
    using assms(3) ld sd pos by (simp add: ManualHedgeBrokerOrder_def Let_def cq_def pq_def now_def w1_def ce_def pe_def split: prod.splits)
  have w1: "w_store w1 = s" "w_ext w1 = w_ext w" by (simp_all add: w1_def time_Now_def)
  then have base: "w_log ?w2 = []" "store_intents (w_store ?w2) uid = store_intents s uid @ [ce, pe]" using assms(2) by simp_all
  have "valid_hedge ce" "valid_hedge pe"
    unfolding ce_def pe_def using manual_sides_valid [OF sd] pos by (simp_all add: manual_intent_valid defaultManualHedgePrice_pos)
  moreover note sp = manual_execute_spec [OF m]
  moreover have "store_intents (w_store w') uid = store_intents s uid @ [ce, pe]" using sp base by (simp add: same_views_def)
  moreover have "if dry then w_log w' = [] \<and> map res_Status rs = [''DRY_RUN'', ''DRY_RUN'']
       else \<exists>a b. rs = [a, b] \<and> w_log w' = [(ce, Inr a), (pe, Inr b)]"
  proof (cases dry)
    case True
    then show ?thesis using sp base by (simp add: dry_run_result_def)
  next
    case False
    then obtain l where l: "w_log w' = l" "map fst l = [ce, pe]" "map snd l = map Inr rs" using sp base by auto
    then obtain x y where "l = [(ce, x), (pe, y)]" by (cases l; cases "tl l") auto
    then show ?thesis using l False by (auto simp: map_eq_Cons_conv)
  qed
  ultimately show ?thesis by blast
qed

definition manual_request :: ManualHedgeBrokerRequest where
  "manual_request = \<lparr>mh_Direction = ''NEGATIVE'', mh_CESide = '''', mh_PESide = '''', mh_CEQuantity = 0, mh_PEQuantity = 75,
     mh_CELimitPrice = Fin 0, mh_PELimitPrice = Fin 90\<rparr>"

lemma manual_request_sides: "manual_sides manual_request = Inr (''BUY'', ''SELL'')"
  by (simp add: manual_sides_def manual_request_def normalizeManualHedgeSide_def defaultManualHedgeSides_def Let_def
      ToUpper_def TrimSpace_def trim_by_def is_space_def upper_char_def)

lemma manual_send_fills: "\<exists>rs w'. manual_send (logged fill_exec) its w = ((rs, None), w')"
proof (induction its arbitrary: w)
  case (Cons it its)
  obtain r w1 where s: "hedge_send (logged fill_exec) it (''manual hedge '' @ it_LegType it @ '' failed: '') w = (r, w1)" by force
  then obtain res where "r = Inr res" by (auto simp: hedge_send_def ext_call_def logged_def fill_exec_def)
  then show ?case using s Cons.IH [of w1] by auto
qed simp

lemma manual_hedge_runs:
  "\<exists>rs dry w'. ManualHedgeBrokerOrder (logged_service (demo_broker fill_exec)) ''T1'' manual_request (sim_world ''ACTIVE'') = ((rs, dry, None), w')"
proof -
  let ?svc = "logged_service (demo_broker fill_exec)" and ?tr = "sim_trade ''ACTIVE''"
  obtain f where f: "sv_BrokerFactory ?svc = Some f" "\<And>u b a w. ext_call (f u b a) w = (Inr (logged fill_exec), w)"
    using demo_factory by blast
  have ex: "\<exists>rs w'. manual_execute ?svc ?tr its w = ((rs, False, None), w')" for its w
    using manual_send_fills [of its w] by (auto simp: manual_execute_def manualHedgeBrokerExecutionEnabled_def EqualFold_def f)
  have q: "0 < defaultManualHedgeQty ?tr ''CE'' (mh_CEQuantity manual_request)" "0 < defaultManualHedgeQty ?tr ''PE'' (mh_PEQuantity manual_request)"
    "0 < tr_CEToken ?tr" "0 < tr_PEToken ?tr"
    by (simp_all add: defaultManualHedgeQty_def manual_request_def sim_trade_def)
  show ?thesis using q ex by (simp add: ManualHedgeBrokerOrder_def st_load_def sim_load manual_request_sides Let_def demo_clock) metis
qed

theorem manual_hedge_broker_outcome_witness:
  "\<exists>rs dry w' ce pe. ManualHedgeBrokerOrder (logged_service (demo_broker fill_exec)) ''T1'' manual_request (sim_world ''ACTIVE'') = ((rs, dry, None), w') \<and>
    \<not> dry \<and> valid_hedge ce \<and> valid_hedge pe \<and> map fst (w_log w') = [ce, pe]"
proof -
  obtain rs dry w' where m: "ManualHedgeBrokerOrder (logged_service (demo_broker fill_exec)) ''T1'' manual_request (sim_world ''ACTIVE'') = ((rs, dry, None), w')"
    using manual_hedge_runs by blast
  have "manualHedgeBrokerExecutionEnabled (demo_broker fill_exec) (sim_trade ''ACTIVE'')"
    by (simp add: manualHedgeBrokerExecutionEnabled_def EqualFold_def)
  then show ?thesis using manual_hedge_broker_outcome [OF sim_load sim_world_simps(2) m] m by auto
qed

section \<open>The monitor cycle\<close>

lemma LoadSnapshot_ops:
  "LoadSnapshot u (UpdateTrade now tr s) = LoadSnapshot u s"
  "LoadSnapshot u (DeleteRuntime v s) = LoadSnapshot u s"
  "LoadSnapshot u (store_upd (CloseStop v) s) = LoadSnapshot u s"
  "LoadSnapshot u (SaveSnapshot sn s) = (if u = ts_TradeUID sn then Some sn else LoadSnapshot u s)"
  by (auto simp: store_defs pg_mem_views mem_defs gm_simps CloseStop_def split: store.splits option.splits)

lemma set_status_snapshot: "set_status svc st tr w = (tr', w') \<Longrightarrow> LoadSnapshot u (w_store w') = LoadSnapshot u (w_store w)"
  by (auto simp: set_status_def time_Now_def st_now_def Let_def LoadSnapshot_ops)

lemma stop_runtime_snapshot: "stop_runtime v w = (r, w') \<Longrightarrow> LoadSnapshot u (w_store w') = LoadSnapshot u (w_store w)"
  by (auto simp: stop_runtime_def st_do_def LoadSnapshot_ops split: option.splits if_splits)

lemma monitor_cases:
  assumes "LoadTrade uid (w_store w) = (Some tr, s)" "tr_TradeUID tr = uid" "tr_Status tr \<notin> {''CLOSED'', ''FAILED'', ''PENDING_FILL''}"
    and "runMonitorCycle (logged_service svc) uid w = (r, w')"
  obtains (idle) "r = Inr ()" "w_log w' = w_log w" "w_store w' = s"
    | (watched) snap v where "w_log v = w_log w" "store_trades (w_store v) = store_trades s" "store_intents (w_store v) = store_intents s"
        "LoadSnapshot uid (w_store v) = Some snap"
        "(if flt (Fin 0) (mc_SLPointsPerLot (tr_Config tr)) \<and> fle (ts_TotalPNL snap) (sl_threshold tr)
          then (case set_status (logged_service svc) ''CLOSED_SL'' tr v of (_, w) \<Rightarrow> stop_runtime uid w) else (Inr (), v)) = (r, w')"
proof -
  let ?svc = "logged_service svc"
  have ld: "st_load uid w = (Some tr, w\<lparr>w_store := s\<rparr>)" using assms(1) by (simp add: st_load_def)
  obtain r1 w1 where x: "ext_call (sv_Snapshot ?svc (tr_Symbol tr) (tr_Expiry tr)) (w\<lparr>w_store := s\<rparr>) = (r1, w1)" by force
  then have q: "w_log w1 = w_log w" "w_store w1 = s" using ext_snapshot_quiet [OF x] by (simp_all add: quiet_def)
  show ?thesis
  proof (cases "\<exists>chain ce pe. r1 = Inr chain \<and> last_row (\<lambda>row. row_CEToken row = tr_CEToken tr) (ch_Chain chain) = Some ce \<and>
      last_row (\<lambda>row. row_PEToken row = tr_PEToken tr) (ch_Chain chain) = Some pe")
    case False
    then have "runMonitorCycle ?svc uid w = (Inr (), w1)"
      using ld x assms(3) by (auto simp: runMonitorCycle_def split: sum.splits option.splits)
    then show ?thesis using idle q assms(4) by simp
  next
    case True
    then obtain chain ce pe where rows: "r1 = Inr chain" "last_row (\<lambda>row. row_CEToken row = tr_CEToken tr) (ch_Chain chain) = Some ce"
      "last_row (\<lambda>row. row_PEToken row = tr_PEToken tr) (ch_Chain chain) = Some pe" by blast
    obtain now w2 where t: "time_Now ?svc w1 = (now, w2)" by force
    let ?snap = "monitor_snapshot tr chain ce pe now"
    show ?thesis
    proof (rule watched [of "st_do (SaveSnapshot ?snap) w2" ?snap])
      show "(if flt (Fin 0) (mc_SLPointsPerLot (tr_Config tr)) \<and> fle (ts_TotalPNL ?snap) (sl_threshold tr)
          then (case set_status ?svc ''CLOSED_SL'' tr (st_do (SaveSnapshot ?snap) w2) of (_, w) \<Rightarrow> stop_runtime uid w)
          else (Inr (), st_do (SaveSnapshot ?snap) w2)) = (r, w')"
        using assms(3,4) ld x rows t by (simp add: runMonitorCycle_def Let_def split del: if_split)
    qed (use t q assms(2) in \<open>auto simp: st_do_def time_Now_def LoadSnapshot_ops monitor_snapshot_def Let_def\<close>)
  qed
qed

text \<open>
  C16. The monitor never trades. A cycle sends no order and records no intent; a trade that is
  closed, failed or waiting for a fill is left alone; otherwise the trade stays as it was, or its
  stop loss is hit (the loss in the stored snapshot reaches the threshold) and it is marked
  \<^verbatim>\<open>CLOSED\_SL\<close> and no longer watched, although its position is still open.
\<close>

theorem monitor_cycle_never_trades:
  assumes "store_ok (w_store w)" and "LoadTrade uid (w_store w) = (Some tr, s)"
    and "runMonitorCycle (logged_service svc) uid w = (r, w')"
  shows "w_log w' = w_log w \<and> store_intents (w_store w') = store_intents s \<and>
    (tr_Status tr \<in> {''CLOSED'', ''FAILED'', ''PENDING_FILL''} \<longrightarrow> r = Inr () \<and> w_store w' = s) \<and>
    (store_trades (w_store w') uid = Some tr \<or>
     (\<exists>tr' snap. store_trades (w_store w') uid = Some tr' \<and> tr_Status tr' = ''CLOSED_SL'' \<and> flt (Fin 0) (mc_SLPointsPerLot (tr_Config tr)) \<and>
       LoadSnapshot uid (w_store w') = Some snap \<and> fle (ts_TotalPNL snap) (sl_threshold tr) \<and>
       (r = Inr () \<longrightarrow> LoadRuntime uid (w_store w') = None)))"
proof (cases "tr_Status tr \<in> {''CLOSED'', ''FAILED'', ''PENDING_FILL''}")
  case True
  then show ?thesis using assms(2,3) loaded_trade [OF assms(1,2)] by (auto simp: runMonitorCycle_def st_load_def)
next
  case live: False
  note lt = loaded_trade [OF assms(1,2)]
  from assms(2) lt(1) live assms(3) show ?thesis
  proof (cases rule: monitor_cases)
    case idle
    then show ?thesis using lt live by simp
  next
    case (watched snap v)
    show ?thesis
    proof (cases "flt (Fin 0) (mc_SLPointsPerLot (tr_Config tr)) \<and> fle (ts_TotalPNL snap) (sl_threshold tr)")
      case False
      then have "r = Inr ()" "w' = v" using watched(5) by (simp_all split: if_splits)
      then show ?thesis using watched lt live by simp
    next
      case True
      obtain tr' w4 where st: "set_status (logged_service svc) ''CLOSED_SL'' tr v = (tr', w4)" by force
      then have sp: "stop_runtime uid w4 = (r, w')" using watched(5) True by simp
      have "LoadSnapshot uid (w_store w') = Some snap" using stop_runtime_snapshot [OF sp] set_status_snapshot [OF st] watched(4) by simp
      moreover have "r = Inr () \<longrightarrow> LoadRuntime uid (w_store w') = None" using stop_runtime_gone [of uid w4 "()"] sp by auto
      moreover have "store_trades (w_store w') uid = Some tr'" "tr_Status tr' = ''CLOSED_SL''" "store_intents (w_store w') = store_intents s" "w_log w' = w_log w"
        using set_status_facts [OF st] stop_runtime_facts [OF sp] watched lt by simp_all
      ultimately show ?thesis using True live by blast
    qed
  qed
qed

theorem monitor_cycle_never_trades_witness:
  "w_log (snd (runMonitorCycle (logged_service (demo_broker fill_exec)) ''T1'' (sim_world ''ACTIVE''))) = [] \<and>
    store_intents (w_store (snd (runMonitorCycle (logged_service (demo_broker fill_exec)) ''T1'' (sim_world ''ACTIVE'')))) =
      store_intents (w_store (sim_world ''ACTIVE''))"
  using monitor_cycle_never_trades [OF sim_world_ok sim_load surjective_pairing, of "demo_broker fill_exec" "''ACTIVE''"] by simp

end
