(* ===== verification/Trading_Runtime.thy ===== *)
theory Trading_Runtime
  imports Trading_Actions
begin

text \<open>
  Runtimes under concurrency (\<^verbatim>\<open>runtime.go\<close> and the stop sequence of
  \<^verbatim>\<open>SquareOff\<close> and \<^verbatim>\<open>runMonitorCycle\<close>). The store's mutex makes
  \<^verbatim>\<open>LoadRuntime\<close>, \<^verbatim>\<open>SaveRuntime\<close> and \<^verbatim>\<open>DeleteRuntime\<close> atomic, but
  not the sequences built from them: \<^verbatim>\<open>startRuntime\<close> checks and then saves, a stop loads,
  closes the channel and then deletes. Here these are the steps of threads that interleave freely,
  for one trade; a runtime is the number of its object, and its monitor goroutine is a thread of its
  own that ends once the stop channel is closed.
\<close>

record rt_obj =
  ro_stop :: bool
  ro_done :: bool

datatype pc = StartCheck | StartSave | StopLoad | StopClose nat | StopDelete | Finished | Panicked

record runtimes =
  rs_entry :: "nat option"
  rs_objs :: "rt_obj list"
  rs_threads :: "pc list"

definition new_obj :: rt_obj where
  "new_obj = \<lparr>ro_stop = False, ro_done = False\<rparr>"

text \<open>One atomic step of a thread: the shared state without the threads, and the next program point.\<close>

fun thread_step :: "pc \<Rightarrow> runtimes \<Rightarrow> pc \<times> runtimes" where
  "thread_step StartCheck s = (if rs_entry s = None then StartSave else Finished, s)"
| "thread_step StartSave s = (Finished, s\<lparr>rs_objs := rs_objs s @ [new_obj], rs_entry := Some (length (rs_objs s))\<rparr>)"
| "thread_step StopLoad s = (case rs_entry s of None \<Rightarrow> Finished | Some p \<Rightarrow> StopClose p, s)"
| "thread_step (StopClose p) s =
     (if ro_stop (rs_objs s ! p) then (Panicked, s)
      else (StopDelete, s\<lparr>rs_objs := (rs_objs s)[p := (rs_objs s ! p)\<lparr>ro_stop := True\<rparr>]\<rparr>))"
| "thread_step StopDelete s = (Finished, s\<lparr>rs_entry := None\<rparr>)"
| "thread_step Finished s = (Finished, s)"
| "thread_step Panicked s = (Panicked, s)"

definition run_thread :: "nat \<Rightarrow> runtimes \<Rightarrow> runtimes" where
  "run_thread i s = (case thread_step (rs_threads s ! i) s of (q, s') \<Rightarrow> s'\<lparr>rs_threads := (rs_threads s)[i := q]\<rparr>)"

text \<open>The monitor goroutine of an object sees the closed channel and returns, which closes \<^verbatim>\<open>DoneCh\<close>.\<close>

definition end_monitor :: "nat \<Rightarrow> runtimes \<Rightarrow> runtimes" where
  "end_monitor p s = s\<lparr>rs_objs := (rs_objs s)[p := (rs_objs s ! p)\<lparr>ro_done := True\<rparr>]\<rparr>"

inductive rt_step :: "runtimes \<Rightarrow> runtimes \<Rightarrow> bool" where
  thread: "i < length (rs_threads s) \<Longrightarrow> rs_threads s ! i \<notin> {Finished, Panicked} \<Longrightarrow> rt_step s (run_thread i s)"
| monitor: "p < length (rs_objs s) \<Longrightarrow> ro_stop (rs_objs s ! p) \<Longrightarrow> \<not> ro_done (rs_objs s ! p) \<Longrightarrow> rt_step s (end_monitor p s)"


inductive reachable :: "runtimes \<Rightarrow> runtimes \<Rightarrow> bool" for s0 where
  start: "reachable s0 s0"
| step: "reachable s0 s \<Longrightarrow> rt_step s s' \<Longrightarrow> reachable s0 s'"

definition initial :: "pc list \<Rightarrow> runtimes" where
  "initial ts = \<lparr>rs_entry = None, rs_objs = [], rs_threads = ts\<rparr>"




section \<open>Invariants\<close>




lemma run_thread_simps [simp]:
  "rs_threads (run_thread i s) = (rs_threads s)[i := fst (thread_step (rs_threads s ! i) s)]"
  "rs_entry (run_thread i s) = rs_entry (snd (thread_step (rs_threads s ! i) s))"
  "rs_objs (run_thread i s) = rs_objs (snd (thread_step (rs_threads s ! i) s))"
  by (simp_all add: run_thread_def split: prod.split)










section \<open>Properties\<close>



fun run_threads :: "nat list \<Rightarrow> runtimes \<Rightarrow> runtimes" where
  "run_threads [] s = s"
| "run_threads (i # is') s = run_threads is' (run_thread i s)"

fun path_ok :: "nat list \<Rightarrow> runtimes \<Rightarrow> bool" where
  "path_ok [] s = True"
| "path_ok (i # is') s \<longleftrightarrow> i < length (rs_threads s) \<and> rs_threads s ! i \<notin> {Finished, Panicked} \<and> path_ok is' (run_thread i s)"

lemma path_reachable: "path_ok path s \<Longrightarrow> reachable s0 s \<Longrightarrow> reachable s0 (run_threads path s)"
proof (induction path arbitrary: s)
  case (Cons i path)
  then have "reachable s0 (run_thread i s)" by (auto intro: reachable.step rt_step.thread)
  then show ?case using Cons by simp
qed simp

lemma initial_path: "path_ok path (initial ts) \<Longrightarrow> reachable (initial ts) (run_threads path (initial ts))"
  by (simp add: path_reachable reachable.start)

text \<open>
  C28. Two stops of the same trade can crash the process: when two square-offs both load the runtime
  before either deletes it, the second close of the channel panics.
\<close>

theorem concurrent_stops_can_panic:
  "\<exists>s. reachable (initial [StartCheck, StopLoad, StopLoad]) s \<and> Panicked \<in> set (rs_threads s)"
proof -
  let ?s = "run_threads [0, 0, 1, 2, 1, 2] (initial [StartCheck, StopLoad, StopLoad])"
  have a: "reachable (initial [StartCheck, StopLoad, StopLoad]) ?s"
    by (rule initial_path, code_simp)
  have b: "Panicked \<in> set (rs_threads ?s)" by code_simp
  show ?thesis by (rule exI [of _ ?s], rule conjI [OF a b])
qed

text \<open>
  Two starts of the same trade leave a monitor that nobody can stop: both may see no runtime,
  and the second save replaces the first, whose stop channel is still open when every thread has
  finished and the map is empty.
\<close>

theorem concurrent_starts_leak_monitor:
  "\<exists>s. reachable (initial [StartCheck, StartCheck, StopLoad]) s \<and> list_all (\<lambda>t. t = Finished) (rs_threads s) \<and>
    rs_entry s = None \<and> map ro_stop (rs_objs s) = [False, True]"
proof -
  let ?s = "run_threads [0, 1, 0, 1, 2, 2, 2] (initial [StartCheck, StartCheck, StopLoad])"
  have a: "reachable (initial [StartCheck, StartCheck, StopLoad]) ?s"
    by (rule initial_path, code_simp)
  have b: "list_all (\<lambda>t. t = Finished) (rs_threads ?s) \<and> rs_entry ?s = None \<and> map ro_stop (rs_objs ?s) = [False, True]"
    by code_simp
  show ?thesis by (rule exI [of _ ?s], rule conjI [OF a b])
qed

section \<open>The sequential operations\<close>

text \<open>
  The operations of the sequential model are these steps run without interruption: \<open>matches\<close>
  relates the store's runtime of the trade to the shared state.
\<close>

definition matches :: "string \<Rightarrow> store \<Rightarrow> runtimes \<Rightarrow> bool" where
  "matches uid st s \<longleftrightarrow> map_option rt_StopClosed (LoadRuntime uid st) = map_option (\<lambda>p. ro_stop (rs_objs s ! p)) (rs_entry s) \<and>
     (\<forall>p. rs_entry s = Some p \<longrightarrow> p < length (rs_objs s))"

text \<open>
  The sequential model of starting and stopping a runtime is the interleaving model run one
  thread at a time: same effect on the map, and a stop panics in one exactly when it does in the
  other.
\<close>

theorem runtime_ops_refine:
  assumes "matches uid (w_store w) s" and "rs_threads s = [StartCheck, StopLoad]" and "tr_TradeUID tr = uid"
  shows "matches uid (w_store (startRuntime tr w)) (run_threads [0, 0] s) \<and>
    (case stop_runtime uid w of (r, w') \<Rightarrow>
      matches uid (w_store w') (run_threads [1, 1, 1] s) \<and> ((\<exists>p. r = Inl (GoPanic p)) \<longleftrightarrow> rs_threads (run_threads [1, 1, 1] s) ! 1 = Panicked))"
proof -
  have st: "matches uid (w_store (startRuntime tr w)) (run_threads [0, 0] s)"
    using assms by (cases "rs_entry s") (auto simp: matches_def startRuntime_def run_thread_def st_do_def new_obj_def nth_append split: option.splits)
  show ?thesis
  proof (cases "rs_entry s")
    case None
    then have "stop_runtime uid w = (Inr (), w)" using assms(1) by (simp add: matches_def stop_runtime_def)
    then show ?thesis using st assms None by (auto simp: matches_def run_thread_def)
  next
    case (Some p)
    then obtain rt where rt: "LoadRuntime uid (w_store w) = Some rt" "rt_StopClosed rt = ro_stop (rs_objs s ! p)"
      using assms(1) by (auto simp: matches_def)
    then show ?thesis using st assms Some
      by (auto simp: matches_def stop_runtime_def run_thread_def st_do_def split: if_splits)
  qed
qed

definition idle_world :: "unit world" where
  "idle_world = \<lparr>w_store = MemStore NewMemoryStore, w_ext = (), w_tick = 0\<rparr>"

theorem runtime_ops_refine_witness:
  "matches ''T1'' (w_store (startRuntime (zero_StoredTrade\<lparr>tr_TradeUID := ''T1''\<rparr>) idle_world)) (run_threads [0, 0] (initial [StartCheck, StopLoad]))"
proof -
  have "matches ''T1'' (w_store idle_world) (initial [StartCheck, StopLoad])"
    by (simp add: matches_def idle_world_def initial_def LoadRuntime_def Mem_LoadRuntime_def store_mem_def NewMemoryStore_def)
  then show ?thesis
    using runtime_ops_refine [of "''T1''" idle_world "initial [StartCheck, StopLoad]" "zero_StoredTrade\<lparr>tr_TradeUID := ''T1''\<rparr>"]
    by (simp add: initial_def del: run_threads.simps)
qed

end
