(* ===== verification/Go_Http.thy ===== *)
theory Go_Http
  imports Go_Json
begin

text \<open>
  HTTP calls and the decoding of their bodies into structs. The network is a function on the state of the
  outside world: it answers a request with a failure of the transport, a failure while the body is read,
  or a status code, the text of the body and what the text parses to.
\<close>

section \<open>The network\<close>

datatype http_reply =
    HttpFail goerr
  | HttpReadFail int goerr
  | HttpReply int string "goerr + json"

record http_call =
  hc_Method :: string
  hc_URL :: string
  hc_Authorization :: string
  hc_Body :: "json option"

type_synonym 'b network = "http_call \<Rightarrow> 'b \<Rightarrow> http_reply \<times> 'b"

record json_codec =
  cd_Marshal :: "json \<Rightarrow> string"
  cd_Unmarshal :: "string \<Rightarrow> json option"

text \<open>
  \<^verbatim>\<open>encoding/json\<close> matches the members of an object with struct fields ignoring case, and the
  last match counts. A field that is absent or null keeps its zero value; one of another type is an
  error, here \<open>None\<close>.
\<close>

definition json_field :: "(string \<times> json) list \<Rightarrow> string \<Rightarrow> json option" where
  "json_field m k = map_option snd (find (\<lambda>e. EqualFold (fst e) k) (rev m))"

definition fld_str :: "(string \<times> json) list \<Rightarrow> string \<Rightarrow> string option" where
  "fld_str m k = (case json_field m k of None \<Rightarrow> Some '''' | Some JNull \<Rightarrow> Some '''' | Some (JStr s) \<Rightarrow> Some s | Some _ \<Rightarrow> None)"

definition fld_int :: "(string \<times> json) list \<Rightarrow> string \<Rightarrow> int option" where
  "fld_int m k = (case json_field m k of None \<Rightarrow> Some 0 | Some JNull \<Rightarrow> Some 0
     | Some (JNum n) \<Rightarrow> (if rat_is_int n \<and> int64_ok \<lfloor>n\<rfloor> then Some \<lfloor>n\<rfloor> else None) | Some _ \<Rightarrow> None)"

definition fld_obj :: "(string \<times> json) list \<Rightarrow> string \<Rightarrow> (string \<times> json) list option" where
  "fld_obj m k = (case json_field m k of None \<Rightarrow> Some [] | Some JNull \<Rightarrow> Some [] | Some (JObj r) \<Rightarrow> Some r | Some _ \<Rightarrow> None)"

definition fld_map :: "(string \<times> json) list \<Rightarrow> string \<Rightarrow> (string \<times> json) list option option" where
  "fld_map m k = (case json_field m k of None \<Rightarrow> Some None | Some JNull \<Rightarrow> Some None | Some (JObj r) \<Rightarrow> Some (Some r) | Some _ \<Rightarrow> None)"

definition fld_float :: "(string \<times> json) list \<Rightarrow> string \<Rightarrow> f64 option" where
  "fld_float m k = (case json_field m k of None \<Rightarrow> Some (Fin 0) | Some JNull \<Rightarrow> Some (Fin 0) | Some (JNum n) \<Rightarrow> num_f64 n | Some _ \<Rightarrow> None)"

definition top_obj :: "json \<Rightarrow> (string \<times> json) list option" where
  "top_obj j = (case j of JNull \<Rightarrow> Some [] | JObj m \<Rightarrow> Some m | _ \<Rightarrow> None)"

definition strs_ok :: "(string \<times> json) list \<Rightarrow> string list \<Rightarrow> bool" where
  "strs_ok m ks \<longleftrightarrow> list_all (\<lambda>k. fld_str m k \<noteq> None) ks"

definition ints_ok :: "(string \<times> json) list \<Rightarrow> string list \<Rightarrow> bool" where
  "ints_ok m ks \<longleftrightarrow> list_all (\<lambda>k. fld_int m k \<noteq> None) ks"

end
