(* ===== verification/Trading_Brokers.thy ===== *)
theory Trading_Brokers
  imports Trading_Actions Go_Http "HOL-Library.Monad_Syntax"
begin

text \<open>
  The Greeksoft broker: the unified order of \<^verbatim>\<open>libs/go-broker\<close>, the Greeksoft client
  (\<^verbatim>\<open>libs/broker-greeksoft\<close>: login, orders, order book) and the mapper and executor of
  \<^verbatim>\<open>internal/brokers/greeksoft\<close>.

  The network is a function on the state of the outside world: it answers a request with a failure
  of the transport, a failure while the body is read, or a status code, the text of the body and
  what the text parses to. The members of a decoded object are listed in the order in which the
  program happens to range over the map. \<^verbatim>\<open>json.Marshal\<close> and \<^verbatim>\<open>json.Unmarshal\<close>
  on untyped documents are arguments (a \<open>json_codec\<close>), as is the MD5 hash of the login; the time
  that passes in \<^verbatim>\<open>time.Sleep\<close> is not part of the state. Of the errors of
  \<^verbatim>\<open>encoding/json\<close> about a member of the wrong type only the fact is modelled, not the text.
\<close>

section \<open>libs/go-broker\<close>

record broker_OrderIntent =
  bo_TradeUID :: string
  bo_IntentID :: string
  bo_InstrumentToken :: int
  bo_Symbol :: string
  bo_ExchangeSegment :: string
  bo_Side :: string
  bo_Quantity :: int
  bo_OrderType :: string
  bo_ProductType :: string
  bo_TimeInForce :: string
  bo_ClientID :: string
  bo_LimitPrice :: f64
  bo_StopPrice :: f64
  bo_DisclosedQty :: int

record OrderResponse =
  or_OrderID :: string
  or_BrokerOrderID :: string
  or_TradeUID :: string
  or_Status :: string
  or_Message :: string
  or_Error :: string
  or_RawResponse :: string

record AccountConfig =
  ac_Name :: string
  ac_BrokerType :: string
  ac_APIKey :: string
  ac_APISecret :: string
  ac_ClientID :: string
  ac_Source :: string
  ac_BrokerID :: int
  ac_PanDob :: string

text \<open>The values that the login stores in the untyped \<^verbatim>\<open>BrokerSpecific\<close> map are integers and strings.\<close>

datatype bs_value = BsInt int | BsStr string

fun fmt_bs :: "bs_value \<Rightarrow> string" where
  "fmt_bs (BsInt n) = show_int n"
| "fmt_bs (BsStr s) = s"

record SessionDetails =
  sd_UserID :: string
  sd_AuthToken :: string
  sd_IsLoggedIn :: bool
  sd_BrokerSpecific :: "(string, bs_value) gomap option"

section \<open>libs/broker-greeksoft: client.go\<close>

record greek_Client =
  gk_AuthBaseURL :: string
  gk_RestAPIBaseURL :: string
  gk_Session :: "SessionDetails option"

definition NewClient :: "string \<Rightarrow> string \<Rightarrow> greek_Client" where
  "NewClient authURL restURL =
     \<lparr>gk_AuthBaseURL = TrimRightChar authURL (CHR ''/''), gk_RestAPIBaseURL = TrimRightChar restURL (CHR ''/''), gk_Session = None\<rparr>"

definition decode_error :: "goerr \<Rightarrow> string \<Rightarrow> goerr" where
  "decode_error e raw = GoErr (''failed to decode json response: '' @ Error e @ '' body='' @ raw)"

text \<open>
  \<^verbatim>\<open>doJSON\<close>: \<open>decode\<close> stands for unmarshalling into the caller's variable (none for a
  member of the wrong type), and \<open>zero\<close> is what the variable holds when the body is empty. The
  requests hold strings and integers only, so marshalling them does not fail.
\<close>

definition doJSON :: "'b network \<Rightarrow> http_call \<Rightarrow> (json \<Rightarrow> 'r option) \<Rightarrow> 'r \<Rightarrow> 'b \<Rightarrow> (goerr + (string \<times> 'r)) \<times> 'b" where
  "doJSON net call decode zero b = (case net call b of
      (HttpFail e, b) \<Rightarrow> (Inl (GoWrap ''http request failed: '' e), b)
    | (HttpReadFail _ e, b) \<Rightarrow> (Inl (GoWrap ''failed to read response body: '' e), b)
    | (HttpReply status raw doc, b) \<Rightarrow>
        (if status < 200 \<or> 300 \<le> status then Inl (GoErr (''api error: status='' @ show_int status @ '' body='' @ raw))
         else if raw = '''' then Inr ('''', zero)
         else (case doc of
             Inl e \<Rightarrow> Inl (decode_error e raw)
           | Inr j \<Rightarrow> (case decode j of
                 None \<Rightarrow> Inl (decode_error (GoErr ''json: cannot unmarshal value'') raw)
               | Some v \<Rightarrow> Inr (raw, v))), b))"

definition postJSON :: "'b network \<Rightarrow> string \<Rightarrow> string \<Rightarrow> json \<Rightarrow> (json \<Rightarrow> 'r option) \<Rightarrow> 'r \<Rightarrow> 'b \<Rightarrow> (goerr + (string \<times> 'r)) \<times> 'b" where
  "postJSON net url sessionToken reqBody decode zero b =
     doJSON net \<lparr>hc_Method = ''POST'', hc_URL = url, hc_Authorization = sessionToken, hc_Body = Some reqBody\<rparr> decode zero b"

section \<open>libs/broker-greeksoft: auth.go\<close>

record jlogin_response =
  jl_SessionID :: string
  jl_ErrorCode :: int
  jl_Message :: string
  jl_ClientCode :: int
  jl_IrisIP :: string
  jl_IrisPort :: int
  jl_ApolloIP :: string
  jl_ApolloPort :: int

record flag_values =
  fv_SessionID :: string
  fv_IrisIP :: string
  fv_IrisPort :: int
  fv_ApolloIP :: string
  fv_ApolloPort :: int

definition inner_ok :: "(string \<times> json) list \<Rightarrow> bool" where
  "inner_ok r \<longleftrightarrow> strs_ok r [''appID'', ''infoID'', ''msgID'', ''svcGroup'', ''svcName'', ''svcVersion''] \<and>
     ints_ok r [''ErrorCode'', ''serverTime'']"

definition ws_ok :: "(string \<times> json) list \<Rightarrow> bool" where
  "ws_ok d \<longleftrightarrow> strs_ok d [''Arachne_IP''] \<and> ints_ok d [''Arachne_Port'', ''BroadcastSender_Port'', ''OrderSender_Port'']"

definition decode_jlogin :: "json \<Rightarrow> jlogin_response option" where
  "decode_jlogin j = do {
     m \<leftarrow> top_obj j;
     r \<leftarrow> fld_obj m ''response'';
     d \<leftarrow> fld_obj r ''data'';
     sid \<leftarrow> fld_str r ''sessionId'';
     code \<leftarrow> fld_int d ''ErrorCode'';
     msg \<leftarrow> fld_str d ''message'';
     cc \<leftarrow> fld_int d ''ClientCode'';
     iip \<leftarrow> fld_str d ''Iris_IP'';
     ip \<leftarrow> fld_int d ''Iris_Port'';
     aip \<leftarrow> fld_str d ''Apollo_IP'';
     ap \<leftarrow> fld_int d ''Apollo_Port'';
     (if inner_ok r \<and> ws_ok d \<and> strs_ok d [''gscid''] then
        Some \<lparr>jl_SessionID = sid, jl_ErrorCode = code, jl_Message = msg, jl_ClientCode = cc,
          jl_IrisIP = iip, jl_IrisPort = ip, jl_ApolloIP = aip, jl_ApolloPort = ap\<rparr>
      else None) }"

definition decode_flags :: "json \<Rightarrow> flag_values option" where
  "decode_flags j = do {
     m \<leftarrow> top_obj j;
     r \<leftarrow> fld_obj m ''response'';
     d \<leftarrow> fld_obj r ''data'';
     sid \<leftarrow> fld_str r ''sessionId'';
     iip \<leftarrow> fld_str d ''Iris_IP'';
     ip \<leftarrow> fld_int d ''Iris_Port'';
     aip \<leftarrow> fld_str d ''Apollo_IP'';
     ap \<leftarrow> fld_int d ''Apollo_Port'';
     (if inner_ok r \<and> ws_ok d then
        Some \<lparr>fv_SessionID = sid, fv_IrisIP = iip, fv_IrisPort = ip, fv_ApolloIP = aip, fv_ApolloPort = ap\<rparr>
      else None) }"

definition decode_session_token :: "json \<Rightarrow> string option" where
  "decode_session_token j = do {
     m \<leftarrow> top_obj j;
     _ \<leftarrow> fld_int m ''id'';
     _ \<leftarrow> fld_str m ''message'';
     fld_str m ''sessionToken'' }"

definition getSessionToken :: "'b network \<Rightarrow> greek_Client \<Rightarrow> string \<Rightarrow> string \<Rightarrow> int \<Rightarrow> 'b \<Rightarrow> (goerr + string) \<times> 'b" where
  "getSessionToken net c username password brokerID b =
     (case postJSON net (gk_AuthBaseURL c @ ''/auth/greek/sessiontoken'') ''''
        (JObj ([(''username'', JStr username), (''password'', JStr password)] @
           (if brokerID = 0 then [] else [(''brokerId'', JNum (of_int brokerID))]) @ [(''validFor'', JStr ''30d'')]))
        decode_session_token '''' b of
        (Inl e, b) \<Rightarrow> (Inl e, b)
      | (Inr (raw, token), b) \<Rightarrow>
          (if token = '''' then Inl (GoErr (''sessionToken missing in response: '' @ raw)) else Inr token, b))"

definition jlogin_body :: "(string \<Rightarrow> string) \<Rightarrow> string \<Rightarrow> string \<Rightarrow> string \<Rightarrow> json" where
  "jlogin_body md5 clientID password panDob =
     JObj [(''request'', JObj [
       (''data'', JObj [(''pan_dob'', JStr panDob), (''deviceId'', JStr ''4f89423bab1280c9''), (''gscid'', JStr (ToUpper clientID)),
          (''deviceDetails'', JStr ''''), (''deviceType'', JStr ''0''), (''pass'', JStr (md5 password)), (''transPass'', JStr ''''),
          (''userType'', JStr ''Customer''), (''brokerid'', JStr ''1''), (''passType'', JStr ''0''),
          (''version_no'', JStr ''1.0.1.10''), (''encryptionType'', JStr ''1'')]),
       (''svcName'', JStr ''jloginNew''), (''svcGroup'', JStr ''Login'')])]"

definition zero_jlogin :: jlogin_response where
  "zero_jlogin = \<lparr>jl_SessionID = '''', jl_ErrorCode = 0, jl_Message = '''', jl_ClientCode = 0,
     jl_IrisIP = '''', jl_IrisPort = 0, jl_ApolloIP = '''', jl_ApolloPort = 0\<rparr>"

definition jloginNew :: "'b network \<Rightarrow> (string \<Rightarrow> string) \<Rightarrow> greek_Client \<Rightarrow> string \<Rightarrow> string \<Rightarrow> string \<Rightarrow> string \<Rightarrow> 'b \<Rightarrow>
    (goerr + jlogin_response) \<times> 'b" where
  "jloginNew net md5 c sessionToken clientID password panDob b =
     (case postJSON net (gk_RestAPIBaseURL c @ ''/jloginNew'') sessionToken (jlogin_body md5 clientID password panDob) decode_jlogin zero_jlogin b of
        (Inl e, b) \<Rightarrow> (Inl e, b)
      | (Inr (raw, r), b) \<Rightarrow>
          (if jl_ErrorCode r \<noteq> 0 then
             Inl (GoErr (''jloginNew ErrorCode='' @ show_int (jl_ErrorCode r) @ '' message='' @ jl_Message r @ '' raw='' @ raw))
           else if jl_ClientCode r = 0 then Inl (GoErr (''jloginNew missing ClientCode/GCID raw='' @ raw))
           else Inr r, b))"

definition zero_flags :: flag_values where
  "zero_flags = \<lparr>fv_SessionID = '''', fv_IrisIP = '''', fv_IrisPort = 0, fv_ApolloIP = '''', fv_ApolloPort = 0\<rparr>"

definition getFlagValues :: "'b network \<Rightarrow> greek_Client \<Rightarrow> string \<Rightarrow> string \<Rightarrow> 'b \<Rightarrow> (goerr + flag_values) \<times> 'b" where
  "getFlagValues net c sessionToken clientID b =
     (case postJSON net (gk_RestAPIBaseURL c @ ''/getFlagValues'') sessionToken
        (JObj [(''request'', JObj ([(''data'', JObj []), (''svcName'', JStr ''getFlagValues''), (''svcVersion'', JStr ''1.0.0'')] @
           (if ToUpper clientID = '''' then [] else [(''gscid'', JStr (ToUpper clientID))])))]) decode_flags zero_flags b of
        (Inl e, b) \<Rightarrow> (Inl e, b)
      | (Inr (raw, r), b) \<Rightarrow>
          (if fv_IrisIP r = '''' \<and> fv_ApolloIP r = '''' then Inl (GoErr (''getFlagValues missing websocket IP fields raw='' @ raw))
           else Inr r, b))"

definition bs_of_jlogin :: "jlogin_response \<Rightarrow> (string, bs_value) gomap" where
  "bs_of_jlogin r = [(''gcid'', BsInt (jl_ClientCode r)), (''session_id'', BsStr (jl_SessionID r)), (''iris_ip'', BsStr (jl_IrisIP r)),
     (''iris_port'', BsInt (jl_IrisPort r)), (''apollo_ip'', BsStr (jl_ApolloIP r)), (''apollo_port'', BsInt (jl_ApolloPort r))]"

definition set_if :: "bool \<Rightarrow> 'k \<Rightarrow> 'v \<Rightarrow> ('k, 'v) gomap \<Rightarrow> ('k, 'v) gomap" where
  "set_if p k v m = (if p then gm_set k v m else m)"

definition bs_with_flags :: "flag_values \<Rightarrow> (string, bs_value) gomap \<Rightarrow> (string, bs_value) gomap" where
  "bs_with_flags f m =
     set_if (fv_ApolloPort f \<noteq> 0) ''apollo_port'' (BsInt (fv_ApolloPort f))
       (set_if (fv_ApolloIP f \<noteq> '''') ''apollo_ip'' (BsStr (fv_ApolloIP f))
         (set_if (fv_IrisPort f \<noteq> 0) ''iris_port'' (BsInt (fv_IrisPort f))
           (set_if (fv_IrisIP f \<noteq> '''') ''iris_ip'' (BsStr (fv_IrisIP f))
             (set_if (fv_SessionID f \<noteq> '''') ''session_id'' (BsStr (fv_SessionID f)) m))))"

definition bs_url :: "string \<Rightarrow> string \<Rightarrow> string \<Rightarrow> (string, bs_value) gomap \<Rightarrow> (string, bs_value) gomap" where
  "bs_url ip port url m = (case (gm_get m ip, gm_get m port) of
      (Some i, Some p) \<Rightarrow> gm_set url (BsStr (fmt_bs i @ '':'' @ fmt_bs p)) m
    | _ \<Rightarrow> m)"

definition PerformFullLogin :: "'b network \<Rightarrow> (string \<Rightarrow> string) \<Rightarrow> (string \<Rightarrow> string) \<Rightarrow> greek_Client \<Rightarrow> AccountConfig \<Rightarrow> 'b \<Rightarrow>
    (goerr + SessionDetails) \<times> greek_Client \<times> 'b" where
  "PerformFullLogin net md5 getenv c cfg b =
     (case getSessionToken net c (ac_APIKey cfg) (ac_APISecret cfg) (ac_BrokerID cfg) b of
        (Inl e, b) \<Rightarrow> (Inl (GoWrap ''session token failed: '' e), c, b)
      | (Inr token, b) \<Rightarrow>
          let p = TrimSpace (getenv ''GREEK_JLOGIN_PASSWORD''); password = (if p = '''' then ac_APISecret cfg else p) in
          (case jloginNew net md5 c token (ac_ClientID cfg) password (ac_PanDob cfg) b of
             (Inl e, b) \<Rightarrow> (Inl (GoWrap ''jloginNew failed: '' e), c, b)
           | (Inr r, b) \<Rightarrow>
               if jl_ClientCode r = 0 then (Inl (GoErr ''jloginNew response missing ClientCode/GCID''), c, b)
               else
                 (case getFlagValues net c token (ac_ClientID cfg) b of (fl, b) \<Rightarrow>
                    let m = bs_of_jlogin r;
                        m = (case fl of Inr f \<Rightarrow> bs_with_flags f m | Inl _ \<Rightarrow> m);
                        m = bs_url ''apollo_ip'' ''apollo_port'' ''apollo_url'' (bs_url ''iris_ip'' ''iris_port'' ''iris_url'' m);
                        s = \<lparr>sd_UserID = ac_ClientID cfg, sd_AuthToken = token, sd_IsLoggedIn = True, sd_BrokerSpecific = Some m\<rparr>
                    in (Inr s, c\<lparr>gk_Session := Some s\<rparr>, b))))"

section \<open>libs/broker-greeksoft: orders.go\<close>

definition normalizeExchange :: "string \<Rightarrow> string" where
  "normalizeExchange exchange = (let exchange = ToUpper (TrimSpace exchange) in
     if HasPrefix exchange ''NSE'' then ''NSE'' else if HasPrefix exchange ''BSE'' then ''BSE'' else exchange)"

definition mapProduct :: "string \<Rightarrow> string" where
  "mapProduct product = (let product = ToUpper (TrimSpace product) in
     if product \<in> {''MIS'', ''INTRADAY''} then ''0'' else if product \<in> {''NRML'', ''NORMAL'', ''CNC''} then ''1'' else ''0'')"

definition mapTimeInForce :: "string \<Rightarrow> string" where
  "mapTimeInForce tif = (if ToUpper (TrimSpace tif) = ''IOC'' then ''1'' else ''0'')"

fun first_value :: "(string \<times> json) list \<Rightarrow> string list \<Rightarrow> string" where
  "first_value m [] = ''''"
| "first_value m (k # ks) = (case json_get m k of Some v \<Rightarrow> fmt_v v | None \<Rightarrow> first_value m ks)"

definition extractOrderID :: "(string \<times> json) list option \<Rightarrow> string" where
  "extractOrderID data = (case data of
      None \<Rightarrow> ''''
    | Some m \<Rightarrow> first_value m [''gorderid'', ''gOrderID'', ''greekOrderNo'', ''orderId'', ''OrderID'', ''order_id''])"

definition decode_new_order :: "json \<Rightarrow> (int \<times> (string \<times> json) list option) option" where
  "decode_new_order j = do {
     m \<leftarrow> top_obj j;
     _ \<leftarrow> fld_str m ''message'';
     r \<leftarrow> fld_obj m ''response'';
     code \<leftarrow> fld_int r ''ErrorCode'';
     d \<leftarrow> fld_map r ''data'';
     (if strs_ok r [''appID'', ''infoID'', ''msgID'', ''serverTime'', ''sessionId'', ''svcGroup'', ''svcName'', ''svcVersion'']
      then Some (code, d) else None) }"

text \<open>The session checks that every order call makes; the result is the session and the client code.\<close>

definition greek_session :: "greek_Client \<Rightarrow> goerr + (SessionDetails \<times> string)" where
  "greek_session c = (case gk_Session c of
      None \<Rightarrow> Inl (GoErr ''greeksoft session is nil; login first'')
    | Some s \<Rightarrow>
        if sd_AuthToken s = '''' then Inl (GoErr ''greeksoft session token missing'')
        else (case sd_BrokerSpecific s of
            None \<Rightarrow> Inl (GoErr ''greeksoft broker-specific session data missing'')
          | Some m \<Rightarrow>
              (case gm_get m ''gcid'' of
                 None \<Rightarrow> Inl (GoErr ''greeksoft GCID missing; jloginNew not completed'')
               | Some v \<Rightarrow> if fmt_bs v = '''' then Inl (GoErr ''greeksoft GCID missing; jloginNew not completed'')
                   else Inr (s, fmt_bs v))))"

definition new_order_body :: "broker_OrderIntent \<Rightarrow> string \<Rightarrow> json" where
  "new_order_body it gcid =
     JObj [(''request'', JObj [
       (''data'', JObj [(''trigger_price'', JStr ''0''), (''gtoken'', JStr (show_int (bo_InstrumentToken it))),
         (''side'', JStr (if EqualFold (bo_Side it) ''SELL'' then ''2'' else ''1'')), (''gcid'', JStr gcid),
         (''validity'', JStr (mapTimeInForce (bo_TimeInForce it))),
         (''price'', JStr (if EqualFold (bo_OrderType it) ''MARKET'' then ''0'' else fmt_f 2 (bo_LimitPrice it))),
         (''exchange'', JStr (normalizeExchange (bo_ExchangeSegment it))),
         (''disclosed_qty'', JStr (if 0 < bo_DisclosedQty it then show_int (bo_DisclosedQty it) else ''0'')),
         (''tradeSymbol'', JStr (TrimSpace (bo_Symbol it))), (''lot'', JStr ''1''),
         (''order_type'', JStr (if EqualFold (bo_OrderType it) ''MARKET'' then ''2'' else ''1'')),
         (''product'', JStr (mapProduct (bo_ProductType it))), (''qty'', JStr (show_int (bo_Quantity it))),
         (''corderid'', JStr ''3''), (''amo'', JStr ''0''), (''iprocli'', JStr ''0''), (''gtdExpiry'', JNum 0),
         (''is_post_closed'', JStr ''0''), (''is_preopen_order'', JStr ''0''), (''isSqOffOrder'', JStr ''false''),
         (''offline'', JStr ''0''), (''is_restapi'', JStr ''1''), (''strategyName'', JStr ''STOCK'')]),
       (''response_format'', JStr ''json''), (''request_type'', JStr ''subscribe''), (''streaming_type'', JStr ''NewOrderRequest'')])]"

definition greek_PlaceOrder :: "'b network \<Rightarrow> greek_Client \<Rightarrow> broker_OrderIntent \<Rightarrow> 'b \<Rightarrow> (goerr + OrderResponse) \<times> 'b" where
  "greek_PlaceOrder net c it b = (case greek_session c of
      Inl e \<Rightarrow> (Inl e, b)
    | Inr (s, gcid) \<Rightarrow>
        if bo_InstrumentToken it \<le> 0 then (Inl (GoErr ''missing Greeksoft gtoken/instrument token''), b)
        else if bo_Quantity it \<le> 0 then (Inl (GoErr (''invalid quantity='' @ show_int (bo_Quantity it))), b)
        else if TrimSpace (bo_Symbol it) = '''' then (Inl (GoErr ''missing symbol''), b)
        else (case postJSON net (gk_RestAPIBaseURL c @ ''/NewOrderRequest'') (sd_AuthToken s) (new_order_body it gcid) decode_new_order (0, None) b of
            (Inl e, b) \<Rightarrow> (Inl e, b)
          | (Inr (raw, code, data), b) \<Rightarrow>
              if code \<noteq> 0 then (Inl (GoErr (''greeksoft NewOrderRequest ErrorCode='' @ show_int code @ '' raw='' @ raw)), b)
              else
                let orderID = extractOrderID data in
                (Inr \<lparr>or_OrderID = orderID, or_BrokerOrderID = orderID, or_TradeUID = bo_TradeUID it, or_Status = ''SUBMITTED'',
                   or_Message = ''Greeksoft NewOrderRequest submitted'', or_Error = '''', or_RawResponse = raw\<rparr>, b)))"

section \<open>libs/broker-greeksoft: stubs.go\<close>

definition CancelOrder :: "'b network \<Rightarrow> greek_Client \<Rightarrow> string \<Rightarrow> 'b \<Rightarrow> goerr option \<times> 'b" where
  "CancelOrder net c orderID b =
     (if orderID = '''' then (Some (GoErr ''order id cannot be empty''), b)
      else (case gk_Session c of
          None \<Rightarrow> (Some (GoErr ''greeksoft session is nil; login first''), b)
        | Some s \<Rightarrow>
            if sd_AuthToken s = '''' then (Some (GoErr ''greeksoft session token missing''), b)
            else (case net \<lparr>hc_Method = ''DELETE'', hc_URL = gk_RestAPIBaseURL c @ ''/Order/'' @ PathEscape orderID,
                    hc_Authorization = sd_AuthToken s, hc_Body = None\<rparr> b of
                (HttpFail e, b) \<Rightarrow> (Some (GoWrap ''greeksoft cancel order failed: http request failed: '' e), b)
              | (HttpReadFail _ e, b) \<Rightarrow> (Some (GoWrap ''greeksoft cancel order failed: failed to read response body: '' e), b)
              | (HttpReply status raw doc, b) \<Rightarrow>
                  (if status < 200 \<or> 300 \<le> status
                   then Some (GoErr (''greeksoft cancel order failed: api error: status='' @ show_int status @ '' body='' @ raw))
                   else None, b))))"

text \<open>The order book is a map, or the raw text when the body holds no object. The query is encoded in the order of its keys.\<close>

definition greek_GetOrderBook :: "'b network \<Rightarrow> greek_Client \<Rightarrow> 'b \<Rightarrow> (goerr + json) \<times> 'b" where
  "greek_GetOrderBook net c b = (case greek_session c of
      Inl e \<Rightarrow> (Inl e, b)
    | Inr (s, gcid) \<Rightarrow>
        (case doJSON net \<lparr>hc_Method = ''GET'', hc_URL = gk_RestAPIBaseURL c @ ''/getOrderBookDetailWithLegV2?ClientCode='' @
              QueryEscape gcid @ ''&Order_Status=ALL&Ordertype=ALL&exchangeType=ALL&gscid='' @ QueryEscape (sd_UserID s),
              hc_Authorization = sd_AuthToken s, hc_Body = None\<rparr>
            (\<lambda>j. case j of JObj m \<Rightarrow> Some (Some m) | JNull \<Rightarrow> Some None | _ \<Rightarrow> None) None b of
           (Inl e, b) \<Rightarrow> (Inl (GoWrap ''greeksoft get order book failed: '' e), b)
         | (Inr (raw, None), b) \<Rightarrow> (Inr (JStr raw), b)
         | (Inr (raw, Some m), b) \<Rightarrow> (Inr (JObj m), b)))"

section \<open>internal/brokers/greeksoft: mapper.go\<close>

definition parseInt64Cell :: "string \<Rightarrow> int option" where
  "parseInt64Cell value =
     (let cleaned = filter is_digit (TrimChar (TrimSpace value) (CHR 0x22)) in
      if cleaned = '''' then None
      else let n = int (read_digits cleaned) in if int64_ok n then Some n else None)"

text \<open>The rows of one file; a later row for the same short token replaces an earlier one.\<close>

definition load_token_row :: "(int, int) gomap \<Rightarrow> string list \<Rightarrow> (int, int) gomap" where
  "load_token_row m row =
     (if length row < 8 then m
      else (case (parseInt64Cell (row ! 0), parseInt64Cell (row ! 7)) of
          (Some fullToken, Some shortToken) \<Rightarrow>
            if fullToken \<le> 0 \<or> shortToken \<le> 0 then m else gm_set shortToken fullToken m
        | _ \<Rightarrow> m))"

definition loadGreeksoftTokenCSV :: "string list list option \<Rightarrow> (int, int) gomap \<Rightarrow> (int, int) gomap" where
  "loadGreeksoftTokenCSV rows m = (case rows of None \<Rightarrow> m | Some rows \<Rightarrow> foldl load_token_row m rows)"

text \<open>Paths that are blank or were read before are skipped; \<open>read_csv\<close> is the file system, none when it cannot be read.\<close>

fun load_token_paths :: "(string \<Rightarrow> string list list option) \<Rightarrow> string list \<Rightarrow> string list \<Rightarrow> (int, int) gomap \<Rightarrow> (int, int) gomap" where
  "load_token_paths read_csv seen [] m = m"
| "load_token_paths read_csv seen (path # paths) m =
     (let path = TrimSpace path in
      if path = '''' \<or> path \<in> set seen then load_token_paths read_csv seen paths m
      else load_token_paths read_csv (path # seen) paths (loadGreeksoftTokenCSV (read_csv path) m))"

definition candidateGreeksoftTokenCSVPaths :: "(string \<Rightarrow> string) \<Rightarrow> string list" where
  "candidateGreeksoftTokenCSVPaths getenv =
     [getenv ''INDEX_TOKENS_PATH'', getenv ''INDEX_TOKENS_CSV'', getenv ''BSE_INDEX_TOKENS_PATH'', getenv ''BSE_INDEX_TOKENS_CSV'',
      ''/mnt/shared/IndexTokens.csv'', ''/mnt/shared/BSEIndexTokens.csv'', ''../../IndexTokens.csv'', ''../../BSEIndexTokens.csv'',
      ''IndexTokens.csv'', ''BSEIndexTokens.csv'']"

definition loadGreeksoftTokenMapOnce :: "(string \<Rightarrow> string) \<Rightarrow> (string \<Rightarrow> string list list option) \<Rightarrow> (int, int) gomap" where
  "loadGreeksoftTokenMapOnce getenv read_csv = load_token_paths read_csv [] (candidateGreeksoftTokenCSVPaths getenv) []"

definition resolveGreeksoftGToken :: "(int, int) gomap \<Rightarrow> int \<Rightarrow> int" where
  "resolveGreeksoftGToken gtokenMap token =
     (if token \<le> 0 then token
      else (case gm_get gtokenMap token of Some mapped \<Rightarrow> if 0 < mapped then mapped else token | None \<Rightarrow> token))"

definition MapOrderIntent :: "(int, int) gomap \<Rightarrow> OrderIntent \<Rightarrow> broker_OrderIntent" where
  "MapOrderIntent gtokenMap it =
     \<lparr>bo_TradeUID = it_TradeUID it, bo_IntentID = it_IntentID it, bo_InstrumentToken = resolveGreeksoftGToken gtokenMap (it_Token it),
      bo_Symbol = it_Symbol it, bo_ExchangeSegment = it_ExchangeSegment it, bo_Side = it_Side it, bo_Quantity = it_Quantity it,
      bo_OrderType = it_OrderType it, bo_ProductType = it_ProductType it, bo_TimeInForce = ''DAY'', bo_ClientID = it_AccountID it,
      bo_LimitPrice = (case it_LimitPrice it of Some p \<Rightarrow> p | None \<Rightarrow> Fin 0), bo_StopPrice = Fin 0, bo_DisclosedQty = 0\<rparr>"

section \<open>internal/brokers/greeksoft: executor.go\<close>

definition normalizeGreeksoftOrderStatus :: "string \<Rightarrow> string" where
  "normalizeGreeksoftOrderStatus status = (let s = ToUpper (TrimSpace status) in
     if s = '''' then ''SUBMITTED''
     else if Contains s ''RMS'' \<and> Contains s ''REJECT'' then ''REJECTED''
     else if Contains s ''REJECT'' then ''REJECTED''
     else if s \<in> {''FILLED'', ''COMPLETE'', ''COMPLETED'', ''TRADED'', ''EXECUTED''} then ''FILLED''
     else if s \<in> {''CANCELLED'', ''CANCELED''} then ''CANCELLED''
     else if s \<in> {''PARTIALLYFILLED'', ''PARTIAL'', ''PARTIALLY_FILLED'', ''PARTIALLY FILLED''} then ''PARTIALLY_FILLED''
     else if s \<in> {''OPEN'', ''NEW'', ''PENDING'', ''PENDINGNEW'', ''PENDING_NEW'', ''PENDING NEW''} then ''OPEN''
     else if s \<in> {''SUBMITTED'', ''ACKED'', ''ACKNOWLEDGED''} then ''SUBMITTED''
     else s)"

text \<open>Of the cases of the type switch those that decoded documents have: nil, string, float64, and the rest.\<close>

definition normalizeGreeksoftOrderID :: "json \<Rightarrow> string" where
  "normalizeGreeksoftOrderID v = (case v of
      JNull \<Rightarrow> ''''
    | JStr s \<Rightarrow> TrimSpace s
    | JNum r \<Rightarrow> fmt_f 0 (rnd r)
    | _ \<Rightarrow> TrimSpace (fmt_v v))"

definition order_id_keys :: "string list" where
  "order_id_keys = [''gorderid'', ''gOrderID'', ''gOrderId'', ''ordID'', ''orderId'', ''orderID'', ''OrderID'', ''AppOrderID'', ''broker_order_id'']"

definition mapHasOrderID :: "(string \<times> json) list \<Rightarrow> string \<Rightarrow> bool" where
  "mapHasOrderID m target = (let target = TrimSpace target in
     target \<noteq> '''' \<and> list_ex (\<lambda>k. case json_get m k of None \<Rightarrow> False | Some v \<Rightarrow> normalizeGreeksoftOrderID v = target) order_id_keys)"

fun firstStringValue :: "(string \<times> json) list \<Rightarrow> string list \<Rightarrow> string" where
  "firstStringValue m [] = ''''"
| "firstStringValue m (k # ks) = (case json_get m k of Some v \<Rightarrow> TrimSpace (fmt_v v) | None \<Rightarrow> firstStringValue m ks)"

definition status_keys :: "string list" where
  "status_keys = [''OrderStatus'', ''orderStatus'', ''order_status'', ''status'', ''Status'', ''ordStatus'', ''order_state'']"

fun findGreeksoftOrderStatus :: "json_codec \<Rightarrow> json \<Rightarrow> string \<Rightarrow> (string \<times> string) option" where
  "findGreeksoftOrderStatus cd (JObj m) target =
     (if mapHasOrderID m (TrimSpace target) then Some (firstStringValue m status_keys, cd_Marshal cd (JObj m))
      else first_some (map (\<lambda>e. findGreeksoftOrderStatus cd (snd e) (TrimSpace target)) m))"
| "findGreeksoftOrderStatus cd (JArr l) target = first_some (map (\<lambda>j. findGreeksoftOrderStatus cd j (TrimSpace target)) l)"
| "findGreeksoftOrderStatus cd v target = None"

text \<open>One turn of the polling loop: the lookup, and what it found.\<close>

fun poll_order_book :: "'b network \<Rightarrow> ('b \<Rightarrow> goerr option) \<Rightarrow> json_codec \<Rightarrow> greek_Client \<Rightarrow> string \<Rightarrow> nat \<Rightarrow> goerr option \<Rightarrow> 'b \<Rightarrow>
    (goerr + (string \<times> string)) \<times> 'b" where
  "poll_order_book net ctxErr cd c oid 0 lastErr b =
     (case lastErr of Some e \<Rightarrow> (Inl e, b) | None \<Rightarrow> (Inl (GoErr (''order '' @ oid @ '' not found in Greeksoft order book'')), b))"
| "poll_order_book net ctxErr cd c oid (Suc n) lastErr b =
     (case ctxErr b of
        Some e \<Rightarrow> (Inl e, b)
      | None \<Rightarrow>
          (case greek_GetOrderBook net c b of
             (Inl e, b) \<Rightarrow> poll_order_book net ctxErr cd c oid n (Some e) b
           | (Inr book, b) \<Rightarrow>
               (case findGreeksoftOrderStatus cd book oid of
                  Some r \<Rightarrow> (Inr r, b)
                | None \<Rightarrow> poll_order_book net ctxErr cd c oid n lastErr b)))"

definition waitOrderStatusFromOrderBook :: "'b network \<Rightarrow> ('b \<Rightarrow> goerr option) \<Rightarrow> json_codec \<Rightarrow> greek_Client \<Rightarrow> string \<Rightarrow> int \<Rightarrow> 'b \<Rightarrow>
    (goerr + (string \<times> string)) \<times> 'b" where
  "waitOrderStatusFromOrderBook net ctxErr cd c brokerOrderID attempts b =
     (let oid = TrimSpace brokerOrderID in
      if oid = '''' then (Inl (GoErr ''broker order id is empty''), b)
      else poll_order_book net ctxErr cd c oid (nat (if attempts \<le> 0 then 1 else attempts)) None b)"

definition normalizeGreeksoftFieldKey :: "string \<Rightarrow> string" where
  "normalizeGreeksoftFieldKey s = RemoveChar (RemoveChar (RemoveChar (ToLower (TrimSpace s)) (CHR ''_'')) (CHR ''-'')) (CHR '' '')"

definition numberLikeToFloat64 :: "json \<Rightarrow> f64 option" where
  "numberLikeToFloat64 v = (case v of
      JNum r \<Rightarrow> Some (rnd r)
    | JStr s \<Rightarrow> (let x = TrimSpace s in if x = '''' then None else ParseFloat x)
    | _ \<Rightarrow> None)"

fun walk_fields :: "string list \<Rightarrow> json \<Rightarrow> f64 option" where
  "walk_fields want (JObj m) =
     (case first_some (map (\<lambda>e. if normalizeGreeksoftFieldKey (fst e) \<in> set want then numberLikeToFloat64 (snd e) else None) m) of
        Some f \<Rightarrow> Some f
      | None \<Rightarrow> first_some (map (\<lambda>e. walk_fields want (snd e)) m))"
| "walk_fields want (JArr l) = first_some (map (walk_fields want) l)"
| "walk_fields want v = None"

definition firstFloatLikeField :: "json \<Rightarrow> string list \<Rightarrow> f64" where
  "firstFloatLikeField v keys = (case walk_fields (map normalizeGreeksoftFieldKey keys) v of Some f \<Rightarrow> f | None \<Rightarrow> Fin 0)"

definition filled_keys :: "string list" where
  "filled_keys = [''tradedqty'', ''traded_qty'', ''tradedQty'', ''filledqty'', ''filled_qty'', ''filledQty'', ''execQty'', ''executedQty'',
     ''CumulativeQuantity'', ''cumulative_quantity'']"

definition pending_keys :: "string list" where
  "pending_keys = [''pendingqty'', ''pending_qty'', ''pendingQty'', ''remainingQty'', ''LeavesQuantity'', ''leaves_quantity'']"

definition price_keys :: "string list" where
  "price_keys = [''AvgTrdPrice'', ''avgTrdPrice'', ''avg_trd_price'', ''OrderAverageTradedPrice'', ''order_avg_price'', ''avg_price'',
     ''fillPrice'', ''fill_price'']"

definition extractGreeksoftExecutionFields :: "json_codec \<Rightarrow> string \<Rightarrow> int \<times> int \<times> f64" where
  "extractGreeksoftExecutionFields cd raw =
     (let raw = TrimSpace raw in
      if raw = '''' then (0, 0, Fin 0)
      else (case cd_Unmarshal cd raw of
          None \<Rightarrow> (0, 0, Fin 0)
        | Some v \<Rightarrow> (ftoi (firstFloatLikeField v filled_keys), ftoi (firstFloatLikeField v pending_keys), firstFloatLikeField v price_keys)))"

text \<open>What the order book says of an order, as the executor reports it.\<close>

definition confirmed_result :: "json_codec \<Rightarrow> OrderIntent \<Rightarrow> string \<Rightarrow> string \<Rightarrow> string \<Rightarrow> string \<Rightarrow> ExecutionResult" where
  "confirmed_result cd it oid orderStatus bookRaw sentRaw =
     (let status = normalizeGreeksoftOrderStatus orderStatus;
          raw = (if TrimSpace bookRaw \<noteq> '''' then bookRaw else sentRaw) in
      case extractGreeksoftExecutionFields cd raw of (filled, pending, price) \<Rightarrow>
        \<lparr>res_IntentID = it_IntentID it, res_BrokerOrderID = oid,
         res_Status = (if 0 < filled \<and> status \<noteq> ''REJECTED'' \<and> status \<noteq> ''CANCELLED'' then
             (if pending = 0 \<and> 0 < it_Quantity it \<and> it_Quantity it \<le> filled then ''FILLED'' else ''PARTIALLY_FILLED'')
           else status),
         res_FilledQty = filled, res_PendingQty = pending, res_FillPrice = price,
         res_EventReason = ''GREEKSOFT_ORDERBOOK_CONFIRMED'', res_LatencyMS = 0, res_RawRequest = '''', res_RawResponse = raw\<rparr>)"

definition sent_result :: "OrderIntent \<Rightarrow> string \<Rightarrow> string \<Rightarrow> string \<Rightarrow> string \<Rightarrow> ExecutionResult" where
  "sent_result it oid status reason raw =
     \<lparr>res_IntentID = it_IntentID it, res_BrokerOrderID = oid, res_Status = status, res_FilledQty = 0, res_PendingQty = 0,
      res_FillPrice = Fin 0, res_EventReason = reason, res_LatencyMS = 0, res_RawRequest = '''', res_RawResponse = raw\<rparr>"

definition greeksoft_ExecuteOrderIntent :: "'b network \<Rightarrow> ('b \<Rightarrow> goerr option) \<Rightarrow> json_codec \<Rightarrow> (int, int) gomap \<Rightarrow> greek_Client \<Rightarrow> 'b executor" where
  "greeksoft_ExecuteOrderIntent net ctxErr cd gtokenMap c it b =
     (case greek_PlaceOrder net c (MapOrderIntent gtokenMap it) b of
        (Inl e, b) \<Rightarrow> (Inl e, b)
      | (Inr resp, b) \<Rightarrow>
          let oid = TrimSpace (or_OrderID resp); s = TrimSpace (or_Status resp);
              status = (if s = '''' then ''SUBMITTED'' else s); raw = or_RawResponse resp in
          if oid = '''' then (Inr (sent_result it '''' ''REJECTED'' ''GREEKSOFT_ORDER_REJECTED_NO_ORDER_ID'' raw), b)
          else (case waitOrderStatusFromOrderBook net ctxErr cd c oid 8 b of
              (Inr (orderStatus, bookRaw), b) \<Rightarrow>
                (Inr (if TrimSpace orderStatus \<noteq> '''' then confirmed_result cd it oid orderStatus bookRaw raw
                      else sent_result it oid status ''GREEKSOFT_ORDER_SENT'' raw), b)
            | (Inl _, b) \<Rightarrow> (Inr (sent_result it oid status ''GREEKSOFT_ORDER_SENT'' raw), b)))"

end
