(* ===== verification/Trading_Contract.thy ===== *)
theory Trading_Contract
  imports Trading_Build
begin

text \<open>
  The contract between a build and a broker. A build only sees the broker's executor; whatever
  relation an executor establishes between an intent and its answer, in every state of the outside
  world, therefore holds of everything that a build sends. The locale states this contract and
  proves the consequence once; the broker adapters interpret it.
\<close>

definition log_all :: "(OrderIntent \<Rightarrow> goerr + ExecutionResult \<Rightarrow> bool) \<Rightarrow> ('b \<times> exec_log) world \<Rightarrow> ('b \<times> exec_log) world \<Rightarrow> bool" where
  "log_all P w w' \<longleftrightarrow> (\<exists>l. w_log w' = w_log w @ l \<and> (\<forall>e\<in>set l. P (fst e) (snd e)))"

lemma log_all_refl [simp]: "log_all P w w"
  by (simp add: log_all_def)

lemma log_all_trans:
  assumes "log_all P w w'" "log_all P w' w''"
  shows "log_all P w w''"
proof -
  obtain l l' where "w_log w' = w_log w @ l" "\<forall>e\<in>set l. P (fst e) (snd e)" "w_log w'' = w_log w' @ l'" "\<forall>e\<in>set l'. P (fst e) (snd e)"
    using assms by (auto simp: log_all_def)
  then have "w_log w'' = w_log w @ (l @ l') \<and> (\<forall>e\<in>set (l @ l'). P (fst e) (snd e))" by auto
  then show ?thesis unfolding log_all_def by blast
qed

locale broker_contract =
  fixes P :: "OrderIntent \<Rightarrow> goerr + ExecutionResult \<Rightarrow> bool" and ex :: "'b executor"
  assumes answers: "P it (fst (ex it b))"
begin

lemma log_all_send:
  assumes "ext_call (logged ex it) (st_now svc g w) = (r, w2)"
  shows "log_all P w w2" "log_all P w (st_do f w2)"
proof -
  have "P it r" using answers [of it "fst (w_ext w)"] assms by (auto simp: ext_call_def logged_def split: prod.splits)
  then show "log_all P w w2" "log_all P w (st_do f w2)" using ext_logged [OF assms] by (auto simp: log_all_def)
qed

lemma build_pass_log_all: "log_all P w (snd (build_pass svc (logged ex) trade sb k orders w))"
proof (induction orders arbitrary: w)
  case (Cons o1 orders)
  show ?case
  proof (cases "eo_Quantity o1 \<le> 0")
    case False
    define o2 where "o2 = o1\<lparr>eo_LimitPrice := build_limit (eo_ExpectedPrice o1) sb k\<rparr>"
    define it where "it = build_intent trade o2"
    define w1 where "w1 = st_now svc (\<lambda>now. AppendIntent now (tr_TradeUID trade) it) w"
    obtain r1 w2 where x: "ext_call (logged ex it) w1 = (r1, w2)" by force
    define w2' where "w2' = (case r1 of Inl _ \<Rightarrow> w2 | Inr res \<Rightarrow> st_do (mark_execution (it_IntentID it) res) w2)"
    have t: "log_all P w w2'" using log_all_send [OF x [unfolded w1_def]] by (simp add: w2'_def split: sum.split)
    obtain r3 w3 where y: "build_pass svc (logged ex) trade sb k orders w2' = (r3, w3)" by force
    have "log_all P w2' w3" using Cons.IH [of w2'] y by simp
    note t3 = log_all_trans [OF t this]
    obtain r w' where z: "build_pass svc (logged ex) trade sb k (o1 # orders) w = (r, w')" by force
    note step = z [unfolded build_pass.simps Let_def, folded o2_def, folded it_def, folded w1_def, unfolded x]
    have "w' = w2' \<or> w' = w3" using step False y by (cases r1; cases r3) (auto simp: w2'_def split: if_splits)
    then show ?thesis using t t3 z by auto
  qed simp
qed simp

lemma build_retries_log_all: "log_all P w (snd (build_retries svc (logged ex) trade sb n orders w))"
proof (induction n arbitrary: orders w)
  case (Suc n)
  obtain r w1 where p: "build_pass svc (logged ex) trade sb (maxChunkRetries - Suc n) orders w = (r, w1)" by force
  have t: "log_all P w w1" using build_pass_log_all [of w svc trade sb "maxChunkRetries - Suc n" orders] p by simp
  show ?case using p t log_all_trans [OF t Suc.IH] by (cases r) auto
qed simp

lemma build_chunks_log_all: "log_all P w (snd (build_chunks svc (logged ex) trade sb i chunks w))"
proof (induction chunks arbitrary: i w)
  case (Cons chunk chunks)
  obtain r w1 where p: "build_retries svc (logged ex) trade sb maxChunkRetries chunk w = (r, w1)" by force
  have t: "log_all P w w1" using build_retries_log_all [of w svc trade sb maxChunkRetries chunk] p by simp
  show ?case using p t log_all_trans [OF t Cons.IH] by (cases r) auto
qed simp

lemma build_answers:
  assumes "executeBuild svc (logged ex) trade chunks w = (r, w')"
  shows "log_all P w w'"
proof -
  obtain sb where "build_chunks svc (logged ex) trade sb 0 chunks w = (r, w')" using assms unfolding executeBuild_def Let_def by blast
  then show ?thesis using build_chunks_log_all [of w svc trade sb 0 chunks] by simp
qed

end

end
