(* ===== verification/Trading_Brokers_Proofs.thy ===== *)
theory Trading_Brokers_Proofs
  imports Trading_Brokers Trading_Contract
begin

text \<open>
  Properties of the Greeksoft broker: the search of the order book equals a plain depth-first
  search; the polling of the order book ends after a bounded number of lookups and reports an order
  that is listed in time; a fill is backed by the order book; orders are checked before anything is
  sent; and a successful login makes the client ready for orders.
\<close>

section \<open>Searching the order book\<close>

fun preorder :: "json \<Rightarrow> json list" where
  "preorder (JObj m) = JObj m # concat (map (\<lambda>e. preorder (snd e)) m)"
| "preorder (JArr l) = JArr l # concat (map preorder l)"
| "preorder j = [j]"

definition is_order :: "string \<Rightarrow> json \<Rightarrow> bool" where
  "is_order oid j = (case j of JObj m \<Rightarrow> mapHasOrderID m oid | _ \<Rightarrow> False)"

definition order_report :: "json_codec \<Rightarrow> json \<Rightarrow> string \<times> string" where
  "order_report cd j = (firstStringValue (json_members j) status_keys, cd_Marshal cd j)"

lemma mapHasOrderID_trim [simp]: "mapHasOrderID m (TrimSpace t) = mapHasOrderID m t"
  by (simp add: mapHasOrderID_def)

lemma find_append: "find p (xs @ ys) = (case find p xs of None \<Rightarrow> find p ys | Some x \<Rightarrow> Some x)"
  by (induction xs) auto

lemma first_some_find:
  "first_some (map (\<lambda>x. map_option f (find p (g x))) xs) = map_option f (find p (concat (map g xs)))"
  by (induction xs) (auto simp: find_append split: option.split)

lemma first_some_cong:
  "(\<And>x. x \<in> set xs \<Longrightarrow> f x = g x) \<Longrightarrow> first_some (map f xs) = first_some (map g xs)"
  by (metis map_cong)

text \<open>
  The search of the order book for an order finds what a plain search would: the first object,
  in depth-first order with parents before their members, that carries the order id under one of
  the known keys; its status and its text are reported, and nothing is reported exactly when no
  object at any depth carries the id.
\<close>

theorem order_search_is_preorder_search:
  "findGreeksoftOrderStatus cd book oid = map_option (order_report cd) (find (is_order oid) (preorder book))"
proof (induction cd book oid rule: findGreeksoftOrderStatus.induct)
  case (1 cd m target)
  show ?case
  proof (cases "mapHasOrderID m target")
    case True
    then show ?thesis by (simp add: is_order_def order_report_def json_members_def)
  next
    case False
    have "first_some (map (\<lambda>e. findGreeksoftOrderStatus cd (snd e) (TrimSpace target)) m) =
        first_some (map (\<lambda>e. map_option (order_report cd) (find (is_order target) (preorder (snd e)))) m)"
    proof (rule first_some_cong)
      fix e assume "e \<in> set m"
      moreover have "is_order (TrimSpace target) = is_order target"
        by (simp add: fun_eq_iff is_order_def split: json.split)
      ultimately show "findGreeksoftOrderStatus cd (snd e) (TrimSpace target) =
          map_option (order_report cd) (find (is_order target) (preorder (snd e)))"
        using 1 False by simp
    qed
    with False show ?thesis by (simp add: first_some_find) (simp add: is_order_def)
  qed
next
  case (2 cd l target)
  have "first_some (map (\<lambda>j. findGreeksoftOrderStatus cd j (TrimSpace target)) l) =
      first_some (map (\<lambda>j. map_option (order_report cd) (find (is_order target) (preorder j))) l)"
  proof (rule first_some_cong)
    fix j assume "j \<in> set l"
    moreover have "is_order (TrimSpace target) = is_order target"
      by (simp add: fun_eq_iff is_order_def split: json.split)
    ultimately show "findGreeksoftOrderStatus cd j (TrimSpace target) =
        map_option (order_report cd) (find (is_order target) (preorder j))"
      using 2 by simp
  qed
  then show ?case by (simp add: first_some_find) (simp add: is_order_def)
qed (simp_all add: is_order_def)

section \<open>Polling\<close>

definition book_step :: "'b network \<Rightarrow> greek_Client \<Rightarrow> 'b \<Rightarrow> 'b" where
  "book_step net c b = snd (greek_GetOrderBook net c b)"

definition lookup_order :: "'b network \<Rightarrow> json_codec \<Rightarrow> greek_Client \<Rightarrow> string \<Rightarrow> 'b \<Rightarrow> (string \<times> string) option" where
  "lookup_order net cd c oid b = (case fst (greek_GetOrderBook net c b) of
      Inl _ \<Rightarrow> None | Inr book \<Rightarrow> findGreeksoftOrderStatus cd book oid)"

lemma poll_bounded:
  "\<exists>k \<le> n. snd (poll_order_book net ctxErr cd c oid n le b) = (book_step net c ^^ k) b"
proof (induction net ctxErr cd c oid n le b rule: poll_order_book.induct)
  case (1 net ctxErr cd c oid lastErr b)
  then show ?case by (auto split: option.split)
next
  case (2 net ctxErr cd c oid n lastErr b)
  show ?case
  proof (cases "ctxErr b")
    case (Some e)
    then show ?thesis by (intro exI [of _ 0]) simp
  next
    case None
    obtain r b' where g: "greek_GetOrderBook net c b = (r, b')" by (cases "greek_GetOrderBook net c b")
    then have b': "b' = book_step net c b" by (simp add: book_step_def)
    have step: "\<exists>k \<le> n. y = (book_step net c ^^ k) b' \<Longrightarrow> \<exists>k \<le> Suc n. y = (book_step net c ^^ k) b" for y
    proof -
      assume "\<exists>k \<le> n. y = (book_step net c ^^ k) b'"
      then obtain k where "k \<le> n" "y = (book_step net c ^^ k) b'" by blast
      then show ?thesis using b' by (intro exI [of _ "Suc k"]) (simp add: funpow_swap1)
    qed
    show ?thesis
    proof (cases r)
      case (Inl e)
      with 2 None g step show ?thesis by simp
    next
      case (Inr book)
      show ?thesis
      proof (cases "findGreeksoftOrderStatus cd book oid")
        case None
        with 2 \<open>ctxErr b = None\<close> g Inr step show ?thesis by simp
      next
        case (Some x)
        then have "snd (poll_order_book net ctxErr cd c oid (Suc n) lastErr b) = book_step net c b"
          using \<open>ctxErr b = None\<close> g Inr b' by simp
        then show ?thesis by (intro exI [of _ 1]) simp
      qed
    qed
  qed
qed

lemma poll_finds:
  assumes "k < n" "\<And>i. i < k \<Longrightarrow> lookup_order net cd c oid ((book_step net c ^^ i) b) = None"
    "\<And>i. i \<le> k \<Longrightarrow> ctxErr ((book_step net c ^^ i) b) = None"
    "lookup_order net cd c oid ((book_step net c ^^ k) b) = Some r"
  shows "poll_order_book net ctxErr cd c oid n le b = (Inr r, (book_step net c ^^ Suc k) b)"
  using assms
proof (induction k arbitrary: n le b)
  case 0
  then show ?case
    by (cases n) (auto simp: lookup_order_def book_step_def split: prod.splits sum.splits)
next
  case (Suc k)
  then obtain n' where n: "n = Suc n'" by (cases n) auto
  let ?b = "book_step net c b"
  have nf: "lookup_order net cd c oid b = None" and cx: "ctxErr b = None"
    using Suc.prems(2) [of 0] Suc.prems(3) [of 0] by auto
  have "poll_order_book net ctxErr cd c oid n' le' ?b = (Inr r, (book_step net c ^^ Suc k) ?b)" for le'
  proof (rule Suc.IH)
    fix i assume "i < k" then show "lookup_order net cd c oid ((book_step net c ^^ i) ?b) = None"
      using Suc.prems(2) [of "Suc i"] by (simp add: funpow_swap1)
  next
    fix i assume "i \<le> k" then show "ctxErr ((book_step net c ^^ i) ?b) = None"
      using Suc.prems(3) [of "Suc i"] by (simp add: funpow_swap1)
  qed (use Suc.prems n in \<open>auto simp: funpow_swap1\<close>)
  moreover have "\<exists>le'. poll_order_book net ctxErr cd c oid n le b = poll_order_book net ctxErr cd c oid n' le' ?b"
    using nf cx n by (auto simp: lookup_order_def book_step_def split: prod.splits sum.splits)
  ultimately show ?case by (auto simp: funpow_swap1)
qed

section \<open>Orders and login\<close>

text \<open>
  Waiting for an order ends: \<^verbatim>\<open>waitOrderStatusFromOrderBook\<close> makes at most as
  many order book requests as it was asked to (one, when asked for none or fewer) and no other
  request, whatever the broker answers.
\<close>

theorem order_polling_is_bounded:
  "\<exists>k. k \<le> nat (max 1 attempts) \<and>
     snd (waitOrderStatusFromOrderBook net ctxErr cd c oid attempts b) = (book_step net c ^^ k) b"
proof (cases "TrimSpace oid = ''''")
  case True
  then show ?thesis by (intro exI [of _ 0]) (simp add: waitOrderStatusFromOrderBook_def)
next
  case False
  let ?n = "nat (if attempts \<le> 0 then 1 else attempts)"
  obtain k where "k \<le> ?n" "snd (poll_order_book net ctxErr cd c (TrimSpace oid) ?n None b) = (book_step net c ^^ k) b"
    using poll_bounded [of ?n net ctxErr cd c "TrimSpace oid" None b] by blast
  moreover have "?n = nat (max 1 attempts)" by simp
  ultimately show ?thesis using False by (auto simp: waitOrderStatusFromOrderBook_def)
qed

lemma gs_session_ok:
  assumes "greek_session c = Inr (s, gcid)"
  shows "gk_Session c = Some s"
  using assms by (auto simp: greek_session_def split: option.splits if_splits)

text \<open>What a placed order looks like: the checks passed and the request was answered.\<close>

lemma PlaceOrder_Inr:
  assumes "greek_PlaceOrder net c it b = (Inr resp, b')"
  shows "0 < bo_InstrumentToken it \<and> 0 < bo_Quantity it \<and> TrimSpace (bo_Symbol it) \<noteq> '''' \<and> or_Status resp = ''SUBMITTED''"
  using assms unfolding greek_PlaceOrder_def
  by (auto split: sum.splits prod.splits if_splits simp: Let_def)

lemma PlaceOrder_blocked:
  assumes "bo_InstrumentToken it \<le> 0 \<or> bo_Quantity it \<le> 0 \<or> TrimSpace (bo_Symbol it) = '''' \<or> gk_Session c = None"
  shows "\<exists>e. greek_PlaceOrder net c it b = (Inl e, b)"
proof (cases "greek_session c")
  case (Inl e)
  then show ?thesis by (simp add: greek_PlaceOrder_def)
next
  case (Inr p)
  obtain s gcid where p: "p = (s, gcid)" by (cases p)
  with Inr have "gk_Session c = Some s" using gs_session_ok by blast
  with assms Inr p show ?thesis by (auto simp: greek_PlaceOrder_def)
qed

text \<open>
  Greeksoft orders are checked before anything is sent: an intent with a token or a quantity
  that is not positive, with a blank symbol, or on a client that has not logged in, ends in an
  error and makes no request at all.
\<close>

theorem greeksoft_checks_before_sending:
  assumes "it_Token it \<le> 0 \<or> it_Quantity it \<le> 0 \<or> TrimSpace (it_Symbol it) = '''' \<or> gk_Session c = None"
  shows "\<exists>e. greeksoft_ExecuteOrderIntent net ctxErr cd gtokenMap c it b = (Inl e, b)"
proof -
  have "bo_InstrumentToken (MapOrderIntent gtokenMap it) \<le> 0 \<or> bo_Quantity (MapOrderIntent gtokenMap it) \<le> 0 \<or>
      TrimSpace (bo_Symbol (MapOrderIntent gtokenMap it)) = '''' \<or> gk_Session c = None"
    using assms by (auto simp: MapOrderIntent_def resolveGreeksoftGToken_def)
  from PlaceOrder_blocked [OF this, of net b]
  obtain e where "greek_PlaceOrder net c (MapOrderIntent gtokenMap it) b = (Inl e, b)" ..
  then show ?thesis by (simp add: greeksoft_ExecuteOrderIntent_def)
qed

lemma greeksoft_cases:
  assumes "greeksoft_ExecuteOrderIntent net ctxErr cd gtokenMap c it b = (Inr r, b')"
  shows "(\<exists>oid reason raw. r = sent_result it oid ''SUBMITTED'' reason raw) \<or>
    (\<exists>oid reason raw. r = sent_result it oid ''REJECTED'' reason raw) \<or>
    (\<exists>oid st bookRaw raw. r = confirmed_result cd it oid st bookRaw raw)"
proof -
  obtain resp b1 where p: "greek_PlaceOrder net c (MapOrderIntent gtokenMap it) b = (Inr resp, b1)"
    using assms by (auto simp: greeksoft_ExecuteOrderIntent_def split: sum.splits prod.splits)
  then have s: "or_Status resp = ''SUBMITTED''" by (simp add: PlaceOrder_Inr)
  have "TrimSpace ''SUBMITTED'' = ''SUBMITTED''" by code_simp
  with assms p s show ?thesis
    by (auto simp: greeksoft_ExecuteOrderIntent_def Let_def split: sum.splits prod.splits if_splits; blast)
qed

lemma confirmed_filled:
  assumes "res_Status (confirmed_result cd it oid st bookRaw raw) = ''FILLED''"
  shows "let r = confirmed_result cd it oid st bookRaw raw in
    (0 < it_Quantity it \<and> it_Quantity it \<le> res_FilledQty r \<and> res_PendingQty r = 0) \<or>
    (res_FilledQty r \<le> 0 \<and> normalizeGreeksoftOrderStatus st = ''FILLED'')"
  using assms by (auto simp: confirmed_result_def Let_def split: prod.splits if_splits)

text \<open>
  A Greeksoft order that is reported as filled is filled: the order book gives a traded
  quantity that covers the whole order with nothing pending; or it gives no traded quantity, and
  then the status word in the book is one of those that mean filled. In that last case the result
  says FILLED with a filled quantity of zero.
\<close>

theorem greeksoft_filled_is_backed:
  assumes "greeksoft_ExecuteOrderIntent net ctxErr cd gtokenMap c it b = (Inr r, b')" "res_Status r = ''FILLED''"
  shows "(0 < it_Quantity it \<and> it_Quantity it \<le> res_FilledQty r \<and> res_PendingQty r = 0) \<or>
    (res_FilledQty r \<le> 0 \<and> (\<exists>st. normalizeGreeksoftOrderStatus st = ''FILLED'' \<and> (\<exists>oid bookRaw raw. r = confirmed_result cd it oid st bookRaw raw)))"
proof -
  obtain oid st bookRaw raw where "r = confirmed_result cd it oid st bookRaw raw"
    using greeksoft_cases [OF assms(1)] assms(2) by (auto simp: sent_result_def)
  with confirmed_filled [of cd it oid st bookRaw raw] assms(2) show ?thesis by (auto simp: Let_def)
qed

text \<open>
  C19. Confirmation comes in time: when the broker accepts an order, and one of the next eight order
  books lists it with a status while the request is not cancelled, the result carries the
  status and the quantities of the first book that lists it, whatever the lookups before it
  returned, errors included.
\<close>

theorem greeksoft_confirms_listed_order:
  assumes "greek_PlaceOrder net c (MapOrderIntent gtokenMap it) b = (Inr resp, b1)"
    and "TrimSpace (or_OrderID resp) = oid" "oid \<noteq> ''''"
    and "k < 8"
    and "\<forall>i < k. lookup_order net cd c oid ((book_step net c ^^ i) b1) = None"
    and "\<forall>i \<le> k. ctxErr ((book_step net c ^^ i) b1) = None"
    and "lookup_order net cd c oid ((book_step net c ^^ k) b1) = Some (st, raw)" "TrimSpace st \<noteq> ''''"
  shows "greeksoft_ExecuteOrderIntent net ctxErr cd gtokenMap c it b =
    (Inr (confirmed_result cd it oid st raw (or_RawResponse resp)), (book_step net c ^^ Suc k) b1)"
proof -
  have t: "TrimSpace oid = oid" using assms(2) by auto
  have "poll_order_book net ctxErr cd c oid 8 None b1 = (Inr (st, raw), (book_step net c ^^ Suc k) b1)"
    using assms(4-7) by (intro poll_finds) auto
  then have "waitOrderStatusFromOrderBook net ctxErr cd c oid 8 b1 = (Inr (st, raw), (book_step net c ^^ Suc k) b1)"
    using assms(3) t by (simp add: waitOrderStatusFromOrderBook_def)
  then show ?thesis using assms(1-3,8) by (simp add: greeksoft_ExecuteOrderIntent_def Let_def)
qed

lemma gm_get_set_if: "k \<noteq> k' \<Longrightarrow> gm_get (set_if p k' v m) k = gm_get m k"
  by (simp add: set_if_def gm_simps)

lemma gm_get_bs_url: "k \<noteq> url \<Longrightarrow> gm_get (bs_url ip port url m) k = gm_get m k"
  by (simp add: bs_url_def gm_simps split: option.split)

lemma gcid_kept:
  "gm_get (bs_with_flags f m) ''gcid'' = gm_get m ''gcid''"
  "gm_get (bs_url ''apollo_ip'' ''apollo_port'' ''apollo_url'' m) ''gcid'' = gm_get m ''gcid''"
  "gm_get (bs_url ''iris_ip'' ''iris_port'' ''iris_url'' m) ''gcid'' = gm_get m ''gcid''"
  "gm_get (bs_of_jlogin r) ''gcid'' = Some (BsInt (jl_ClientCode r))"
  by (simp_all add: bs_with_flags_def gm_get_set_if gm_get_bs_url) (simp add: bs_of_jlogin_def gm_get_def)

lemma show_int_not_Nil [simp]: "show_int i \<noteq> []"
  by (simp add: show_int_def)

lemma session_token_not_Nil: "getSessionToken net c u p i b = (Inr token, b') \<Longrightarrow> token \<noteq> ''''"
  by (auto simp: getSessionToken_def split: prod.splits sum.splits if_splits)

lemma login_failed: "PerformFullLogin net md5 getenv c cfg b = (Inl e, c', b') \<Longrightarrow> c' = c"
  by (auto simp: PerformFullLogin_def Let_def split: prod.splits sum.splits if_splits)

lemma login_session:
  assumes "PerformFullLogin net md5 getenv c cfg b = (Inr s, c', b')"
  shows "sd_UserID s = ac_ClientID cfg \<and> c' = c\<lparr>gk_Session := Some s\<rparr> \<and>
    (\<exists>code. code \<noteq> 0 \<and> greek_session c' = Inr (s, show_int code))"
proof -
  obtain token b1 where t: "getSessionToken net c (ac_APIKey cfg) (ac_APISecret cfg) (ac_BrokerID cfg) b = (Inr token, b1)"
    using assms by (auto simp: PerformFullLogin_def Let_def split: prod.splits sum.splits)
  let ?p = "TrimSpace (getenv ''GREEK_JLOGIN_PASSWORD'')"
  obtain r b2 where j: "jloginNew net md5 c token (ac_ClientID cfg) (if ?p = '''' then ac_APISecret cfg else ?p) (ac_PanDob cfg) b1 = (Inr r, b2)"
    using assms t by (auto simp: PerformFullLogin_def Let_def simp del: if_split split: prod.splits sum.splits)
  obtain fl b3 where f: "getFlagValues net c token (ac_ClientID cfg) b2 = (fl, b3)" by fastforce
  let ?m = "bs_url ''apollo_ip'' ''apollo_port'' ''apollo_url'' (bs_url ''iris_ip'' ''iris_port'' ''iris_url''
      (case fl of Inr f \<Rightarrow> bs_with_flags f (bs_of_jlogin r) | Inl _ \<Rightarrow> bs_of_jlogin r))"
  have "jl_ClientCode r \<noteq> 0" and c': "c' = c\<lparr>gk_Session := Some s\<rparr>"
    and s: "s = \<lparr>sd_UserID = ac_ClientID cfg, sd_AuthToken = token, sd_IsLoggedIn = True, sd_BrokerSpecific = Some ?m\<rparr>"
    using assms t j f by (auto simp: PerformFullLogin_def Let_def split: if_splits)
  moreover have "gm_get ?m ''gcid'' = Some (BsInt (jl_ClientCode r))"
    by (simp add: gcid_kept split: sum.split)
  ultimately show ?thesis using session_token_not_Nil [OF t] by (auto simp: greek_session_def)
qed

text \<open>
  A successful login makes the client ready for orders, and a failed one leaves the client as it
  was: afterwards the session checks that every order makes succeed with the account as user and
  the client code that the login service returned.
\<close>

theorem login_enables_orders:
  "case PerformFullLogin net md5 getenv c cfg b of
     (Inl e, c', b') \<Rightarrow> c' = c
   | (Inr s, c', b') \<Rightarrow> sd_UserID s = ac_ClientID cfg \<and> c' = c\<lparr>gk_Session := Some s\<rparr> \<and>
       (\<exists>code. code \<noteq> 0 \<and> greek_session c' = Inr (s, show_int code))"
proof (cases "PerformFullLogin net md5 getenv c cfg b")
  case (fields r c' b')
  show ?thesis
  proof (cases r)
    case (Inl e)
    with fields show ?thesis using login_failed [of net md5 getenv c cfg b e c' b'] by simp
  next
    case (Inr s)
    with fields have l: "PerformFullLogin net md5 getenv c cfg b = (Inr s, c', b')" by simp
    from login_session [OF l] show ?thesis unfolding l by auto
  qed
qed

section \<open>A concrete broker\<close>

definition gs_order :: json where
  "gs_order = JObj [(''gorderid'', JStr ''77''), (''OrderStatus'', JStr ''Executed'')]"

definition gs_codec :: json_codec where
  "gs_codec = \<lparr>cd_Marshal = (\<lambda>_. ''{}''), cd_Unmarshal = (\<lambda>_. Some gs_order)\<rparr>"

definition gs_net :: "nat network" where
  "gs_net call n =
     (if hc_Method call = ''POST'' then HttpReply 200 ''ok'' (Inr (JObj [(''response'', JObj [(''data'', JObj [(''gorderid'', JStr ''77'')])])]))
      else HttpReply 200 ''book'' (Inr (if n < 2 then JObj [] else JObj [(''data'', JArr [gs_order])])), n + 1)"

definition gs_client :: greek_Client where
  "gs_client = \<lparr>gk_AuthBaseURL = '''', gk_RestAPIBaseURL = '''', gk_Session = Some \<lparr>sd_UserID = ''U1'', sd_AuthToken = ''tok'',
     sd_IsLoggedIn = True, sd_BrokerSpecific = Some [(''gcid'', BsInt 5)]\<rparr>\<rparr>"

definition gs_intent :: OrderIntent where
  "gs_intent = zero_OrderIntent\<lparr>it_IntentID := ''I1'', it_Token := 101, it_Quantity := 75, it_Symbol := ''NIFTY'', it_Side := ''SELL'', it_OrderType := ''LIMIT''\<rparr>"

lemma gs_session: "greek_session gs_client = Inr (the (gk_Session gs_client), ''5'')"
  by (simp add: greek_session_def gs_client_def gm_get_def) (code_simp)

definition gs_response :: OrderResponse where
  "gs_response = \<lparr>or_OrderID = ''77'', or_BrokerOrderID = ''77'', or_TradeUID = '''', or_Status = ''SUBMITTED'',
     or_Message = ''Greeksoft NewOrderRequest submitted'', or_Error = '''', or_RawResponse = ''ok''\<rparr>"

lemma gs_decode: "decode_new_order (JObj [(''response'', JObj [(''data'', JObj [(''gorderid'', JStr ''77'')])])]) =
   Some (0, Some [(''gorderid'', JStr ''77'')])"
  by (simp add: decode_new_order_def top_obj_def fld_str_def fld_obj_def fld_int_def fld_map_def strs_ok_def json_field_def EqualFold_def) code_simp

lemma gs_place: "greek_PlaceOrder gs_net gs_client (MapOrderIntent [] gs_intent) 0 = (Inr gs_response, 1)"
proof -
  have t: "TrimSpace ''NIFTY'' = ''NIFTY''" by code_simp
  have e: "extractOrderID (Some [(''gorderid'', JStr ''77'')]) = ''77''" by code_simp
  show ?thesis unfolding greek_PlaceOrder_def gs_session
    by (simp add: MapOrderIntent_def gs_intent_def zero_OrderIntent_def resolveGreeksoftGToken_def t postJSON_def doJSON_def gs_net_def gs_decode e gs_response_def Let_def)
qed

lemma gs_books:
  "greek_GetOrderBook gs_net gs_client n = (Inr (if n < 2 then JObj [] else JObj [(''data'', JArr [gs_order])]), n + 1)"
  unfolding greek_GetOrderBook_def gs_session by (simp add: doJSON_def gs_net_def)

lemma gs_find: "findGreeksoftOrderStatus gs_codec (JObj [(''data'', JArr [gs_order])]) ''77'' = Some (''Executed'', ''{}'')"
  "findGreeksoftOrderStatus gs_codec (JObj []) ''77'' = None"
  by code_simp+

lemma gs_run:
  "greeksoft_ExecuteOrderIntent gs_net (\<lambda>_. None) gs_codec [] gs_client gs_intent 0 =
     (Inr (confirmed_result gs_codec gs_intent ''77'' ''Executed'' ''{}'' ''ok''), 3)"
proof -
  have t: "TrimSpace ''77'' = ''77''" "TrimSpace ''Executed'' \<noteq> ''''" by code_simp+
  have "poll_order_book gs_net (\<lambda>_. None) gs_codec gs_client ''77'' 8 None 1 = (Inr (''Executed'', ''{}''), (book_step gs_net gs_client ^^ Suc 1) 1)"
    by (rule poll_finds) (auto simp: lookup_order_def book_step_def gs_books gs_find simp del: findGreeksoftOrderStatus.simps)
  then have "poll_order_book gs_net (\<lambda>_. None) gs_codec gs_client ''77'' 8 None 1 = (Inr (''Executed'', ''{}''), 3)"
    by (simp add: book_step_def gs_books)
  then show ?thesis
    by (simp add: greeksoft_ExecuteOrderIntent_def gs_place gs_response_def t waitOrderStatusFromOrderBook_def)
qed

theorem greeksoft_confirms_listed_order_witness:
  "greeksoft_ExecuteOrderIntent gs_net (\<lambda>_. None) gs_codec [] gs_client gs_intent 0 =
     (Inr (confirmed_result gs_codec gs_intent ''77'' ''Executed'' ''{}'' ''ok''), 3)"
proof -
  have "greeksoft_ExecuteOrderIntent gs_net (\<lambda>_. None) gs_codec [] gs_client gs_intent 0 =
     (Inr (confirmed_result gs_codec gs_intent ''77'' ''Executed'' ''{}'' (or_RawResponse gs_response)), (book_step gs_net gs_client ^^ Suc 1) 1)"
  proof (rule greeksoft_confirms_listed_order [OF gs_place])
    show "TrimSpace (or_OrderID gs_response) = ''77''" by code_simp
    show "TrimSpace ''Executed'' \<noteq> ''''" by code_simp
  qed (auto simp: lookup_order_def book_step_def gs_books gs_find simp del: findGreeksoftOrderStatus.simps)
  then show ?thesis by (simp add: gs_response_def book_step_def gs_books)
qed

lemma gs_fields:
  "extractGreeksoftExecutionFields gs_codec ''{}'' = (0, 0, Fin 0)" "TrimSpace ''{}'' \<noteq> ''''"
  "normalizeGreeksoftOrderStatus ''Executed'' = ''FILLED''"
proof -
  have "walk_fields (map normalizeGreeksoftFieldKey filled_keys) gs_order = None"
    "walk_fields (map normalizeGreeksoftFieldKey pending_keys) gs_order = None"
    "walk_fields (map normalizeGreeksoftFieldKey price_keys) gs_order = None"
    by code_simp+
  moreover have "TrimSpace ''{}'' = ''{}''" by code_simp
  moreover have "ftoi (Fin 0) = 0" by (simp add: trunc_rat_def int64_ok_def)
  ultimately show "extractGreeksoftExecutionFields gs_codec ''{}'' = (0, 0, Fin 0)"
    by (simp add: extractGreeksoftExecutionFields_def firstFloatLikeField_def gs_codec_def)
  show "TrimSpace ''{}'' \<noteq> ''''" "normalizeGreeksoftOrderStatus ''Executed'' = ''FILLED''" by code_simp+
qed

theorem greeksoft_filled_is_backed_witness:
  "\<exists>r. greeksoft_ExecuteOrderIntent gs_net (\<lambda>_. None) gs_codec [] gs_client gs_intent 0 = (Inr r, 3) \<and>
     res_Status r = ''FILLED'' \<and> res_FilledQty r \<le> 0"
proof -
  let ?r = "confirmed_result gs_codec gs_intent ''77'' ''Executed'' ''{}'' ''ok''"
  have s: "res_Status ?r = ''FILLED''" and f: "res_FilledQty ?r = 0"
    using gs_fields by (simp_all add: confirmed_result_def)
  have "it_Quantity gs_intent = 75" by (simp add: gs_intent_def)
  with greeksoft_filled_is_backed [OF gs_run s] f have "res_FilledQty ?r \<le> 0" by auto
  with gs_run s show ?thesis by blast
qed

theorem greeksoft_checks_before_sending_witness:
  "\<exists>e. greeksoft_ExecuteOrderIntent gs_net (\<lambda>_. None) gs_codec [] gs_client (gs_intent\<lparr>it_Symbol := '' ''\<rparr>) 0 = (Inl e, 0)"
proof (rule greeksoft_checks_before_sending)
  have "TrimSpace '' '' = ''''" by code_simp
  then show "it_Token (gs_intent\<lparr>it_Symbol := '' ''\<rparr>) \<le> 0 \<or> it_Quantity (gs_intent\<lparr>it_Symbol := '' ''\<rparr>) \<le> 0 \<or>
    TrimSpace (it_Symbol (gs_intent\<lparr>it_Symbol := '' ''\<rparr>)) = '''' \<or> gk_Session gs_client = None" by simp
qed

section \<open>The contract with a build\<close>

text \<open>What Greeksoft promises a build.\<close>

definition greeksoft_answer :: "OrderIntent \<Rightarrow> goerr + ExecutionResult \<Rightarrow> bool" where
  "greeksoft_answer it r \<longleftrightarrow> (case r of Inl _ \<Rightarrow> True
     | Inr res \<Rightarrow> res_IntentID res = it_IntentID it \<and>
         (filled_result r \<longrightarrow> (it_Quantity it \<le> res_FilledQty res \<and> res_PendingQty res = 0) \<or> res_FilledQty res \<le> 0))"

lemma confirmed_answer: "greeksoft_answer it (Inr (confirmed_result cd it oid st bookRaw raw))"
  by (simp add: greeksoft_answer_def confirmed_result_def Let_def split: prod.split)

lemma greeksoft_answers: "greeksoft_answer it (fst (greeksoft_ExecuteOrderIntent net ctxErr cd gtokenMap c it b))"
proof -
  obtain r b' where x: "greeksoft_ExecuteOrderIntent net ctxErr cd gtokenMap c it b = (r, b')" by force
  show ?thesis
  proof (cases r)
    case (Inr res)
    from greeksoft_cases [OF x [unfolded Inr]] have "greeksoft_answer it (Inr res)"
      by (auto simp: confirmed_answer) (simp_all add: greeksoft_answer_def sent_result_def)
    then show ?thesis using x Inr by simp
  qed (simp add: x greeksoft_answer_def)
qed

interpretation greeksoft: broker_contract greeksoft_answer "greeksoft_ExecuteOrderIntent net ctxErr cd gtokenMap c"
  by unfold_locales (rule greeksoft_answers)

text \<open>
  C17. A straddle build that succeeds through Greeksoft is backed order by order: the last answer to
  every order of the plan is a fill that carries the order's own id, and that reports the full
  quantity with nothing pending, or a status word without a traded quantity.
\<close>

theorem greeksoft_build_is_backed:
  assumes "distinct (map eo_UID (concat chunks))" "w_log w = []" "ord \<in> set (concat chunks)"
    and "executeBuild svc (logged (greeksoft_ExecuteOrderIntent net ctxErr cd gtokenMap c)) trade chunks w = (Inr (), w')"
  shows "\<exists>it res. last (sent_for (eo_UID ord) (w_log w')) = (it, Inr res) \<and> it_IntentID it = eo_UID ord \<and>
    res_IntentID res = eo_UID ord \<and> filled_result (Inr res) \<and>
    ((it_Quantity it \<le> res_FilledQty res \<and> res_PendingQty res = 0) \<or> res_FilledQty res \<le> 0)"
proof -
  let ?s = "sent_for (eo_UID ord) (w_log w')"
  have "build_log (concat chunks) (Inr ()) (w_log w')" using executeBuild_log [OF assms(1,4)] assms(2) by auto
  then have f: "?s \<noteq> []" "filled_result (snd (last ?s))" using assms(3) by (auto simp: build_log_def filled_last_def)
  then have "last ?s \<in> set ?s" by simp
  then have m: "last ?s \<in> set (w_log w')" "it_IntentID (fst (last ?s)) = eo_UID ord" by (auto simp: sent_for_def)
  then have "greeksoft_answer (fst (last ?s)) (snd (last ?s))"
    using greeksoft.build_answers [OF assms(4)] assms(2) by (auto simp: log_all_def)
  then show ?thesis using f m by (cases "last ?s"; cases "snd (last ?s)") (auto simp: greeksoft_answer_def)
qed

definition gs_listed :: "unit network" where
  "gs_listed call b = (fst (gs_net call 2), b)"

lemma gs_listed_run:
  assumes "0 < it_Token it" "0 < it_Quantity it" "it_Symbol it = ''NIFTY''"
  shows "greeksoft_ExecuteOrderIntent gs_listed (\<lambda>_. None) gs_codec [] gs_client it b =
    (Inr (confirmed_result gs_codec it ''77'' ''Executed'' ''{}'' ''ok''), b)"
proof -
  have t: "TrimSpace ''NIFTY'' = ''NIFTY''" "TrimSpace ''77'' = ''77''" "TrimSpace ''Executed'' \<noteq> ''''" by code_simp+
  have e: "extractOrderID (Some [(''gorderid'', JStr ''77'')]) = ''77''" by code_simp
  have "greek_PlaceOrder gs_listed gs_client (MapOrderIntent [] it) b = (Inr (gs_response\<lparr>or_TradeUID := it_TradeUID it\<rparr>), b)"
    unfolding greek_PlaceOrder_def gs_session using assms
    by (simp add: MapOrderIntent_def resolveGreeksoftGToken_def t postJSON_def doJSON_def gs_listed_def gs_net_def gs_decode e gs_response_def Let_def)
  moreover have "greek_GetOrderBook gs_listed gs_client b = (Inr (JObj [(''data'', JArr [gs_order])]), b)" for b
    unfolding greek_GetOrderBook_def gs_session by (simp add: doJSON_def gs_listed_def gs_net_def)
  then have "poll_order_book gs_listed (\<lambda>_. None) gs_codec gs_client ''77'' 8 None b = (Inr (''Executed'', ''{}''), b)"
    by (simp add: numeral_Bit0 gs_find del: findGreeksoftOrderStatus.simps)
  ultimately show ?thesis
    by (simp add: greeksoft_ExecuteOrderIntent_def gs_response_def t waitOrderStatusFromOrderBook_def)
qed

lemma gs_confirmed_filled: "res_Status (confirmed_result gs_codec it ''77'' ''Executed'' ''{}'' ''ok'') = ''FILLED''"
  using gs_fields by (simp add: confirmed_result_def)

lemma gs_build:
  "executeBuild demo_service (logged (greeksoft_ExecuteOrderIntent gs_listed (\<lambda>_. None) gs_codec [] gs_client)) (plain_trade ''T1'') [demo_orders] demo_world =
     (Inr (), snd (executeBuild demo_service (logged (greeksoft_ExecuteOrderIntent gs_listed (\<lambda>_. None) gs_codec [] gs_client)) (plain_trade ''T1'') [demo_orders] demo_world))"
  by (simp add: executeBuild_def demo_orders_def maxChunkRetries_def numeral_3_eq_3 chunk_order_def ext_call_def
      logged_def gs_listed_run gs_confirmed_filled build_intent_def sample_leg_def Let_def)

theorem greeksoft_build_is_backed_witness:
  "\<exists>w'. executeBuild demo_service (logged (greeksoft_ExecuteOrderIntent gs_listed (\<lambda>_. None) gs_codec [] gs_client)) (plain_trade ''T1'') [demo_orders] demo_world = (Inr (), w') \<and>
     (\<exists>it res. last (sent_for (eo_UID (hd demo_orders)) (w_log w')) = (it, Inr res) \<and> res_IntentID res = eo_UID (hd demo_orders))"
proof -
  have "w_log demo_world = []" "hd demo_orders \<in> set (concat [demo_orders])" by (simp_all add: demo_world_def demo_orders_def)
  from greeksoft_build_is_backed [OF demo_distinct this gs_build] gs_build show ?thesis by blast
qed

end
