(* ===== verification/Trading_Xts.thy ===== *)
theory Trading_Xts
  imports Trading_Brokers Trading_Contract
begin

text \<open>
  The XTS broker: the client library (\<^verbatim>\<open>libs/broker-xts\<close>: login on demand and order
  placement), the executor that the execution gateway registers (\<^verbatim>\<open>main.go\<close>), the
  order listener of \<^verbatim>\<open>main.go\<close>, and the stand-alone executor of
  \<^verbatim>\<open>internal/brokers/xts\<close>; with the broker registrations of \<^verbatim>\<open>main.go\<close>.

  The client holds the session token, so the state that its executor passes on is the client
  together with the outside world. The mutex of the client and the semaphore of the stand-alone
  executor only order concurrent calls and are left out; a clock reading is an argument.

  Shown here: both executors interpret the contract of a broker that never reports a fill, so a
  build through XTS stops at the first accepted order; the login happens at most once.
\<close>

section \<open>libs/broker-xts\<close>

record xts_Client =
  xc_BaseURL :: string
  xc_AppKey :: string
  xc_SecretKey :: string
  xc_Token :: string

definition xts_NewClient :: "(string \<Rightarrow> string) \<Rightarrow> xts_Client" where
  "xts_NewClient getenv =
     (let baseURL = TrimRightChar (getenv ''XTS_API_BASE_URL'') (CHR ''/'') in
      \<lparr>xc_BaseURL = (if baseURL = '''' then ''https'' @ ''://developers.symphonyfintech.in'' else baseURL),
       xc_AppKey = getenv ''XTS_API_KEY'', xc_SecretKey = getenv ''XTS_API_SECRET'', xc_Token = ''''\<rparr>)"

definition decode_xts_login :: "json \<Rightarrow> (string \<times> string) option" where
  "decode_xts_login j = do {
     m \<leftarrow> top_obj j;
     t \<leftarrow> fld_str m ''type'';
     r \<leftarrow> fld_obj m ''result'';
     token \<leftarrow> fld_str r ''token'';
     Some (t, token) }"

definition xts_login_call :: "xts_Client \<Rightarrow> http_call" where
  "xts_login_call c = \<lparr>hc_Method = ''POST'', hc_URL = xc_BaseURL c @ ''/interactive/user/session'', hc_Authorization = '''',
     hc_Body = Some (JObj [(''appKey'', JStr (xc_AppKey c)), (''secretKey'', JStr (xc_SecretKey c)), (''source'', JStr ''WEBAPI'')])\<rparr>"

definition EnsureLogin :: "'b network \<Rightarrow> xts_Client \<Rightarrow> 'b \<Rightarrow> goerr option \<times> xts_Client \<times> 'b" where
  "EnsureLogin net c b =
     (if xc_Token c \<noteq> '''' then (None, c, b)
      else if xc_AppKey c = '''' \<or> xc_SecretKey c = '''' then (Some (GoErr ''missing XTS API credentials''), c, b)
      else (case net (xts_login_call c) b of
          (HttpFail e, b) \<Rightarrow> (Some e, c, b)
        | (HttpReadFail status e, b) \<Rightarrow> (Some (GoErr (''XTS Login failed with status '' @ show_int status)), c, b)
        | (HttpReply status raw doc, b) \<Rightarrow>
            (case doc of
               Inr j \<Rightarrow>
                 (case decode_xts_login j of
                    Some (t, token) \<Rightarrow>
                      if t = ''success'' \<and> token \<noteq> '''' then (None, c\<lparr>xc_Token := token\<rparr>, b)
                      else (Some (GoErr (''XTS Login failed with status '' @ show_int status)), c, b)
                  | None \<Rightarrow> (Some (GoErr (''XTS Login failed with status '' @ show_int status)), c, b))
             | Inl _ \<Rightarrow> (Some (GoErr (''XTS Login failed with status '' @ show_int status)), c, b))))"

text \<open>The order document; the keys are printed in order. A price that JSON cannot express leaves the body empty.\<close>

definition xts_payload :: "string \<Rightarrow> int \<Rightarrow> string \<Rightarrow> string \<Rightarrow> string \<Rightarrow> int \<Rightarrow> json \<Rightarrow> string \<Rightarrow> string \<Rightarrow> json" where
  "xts_payload seg token product otype side qty price uid client =
     JObj [(''exchangeSegment'', JStr seg), (''exchangeInstrumentID'', JNum (of_int token)), (''productType'', JStr product),
       (''orderType'', JStr otype), (''orderSide'', JStr side), (''timeInForce'', JStr ''DAY''), (''disclosedQuantity'', JNum 0),
       (''orderQuantity'', JNum (of_int qty)), (''limitPrice'', price), (''stopPrice'', JNum 0), (''orderUniqueIdentifier'', JStr uid),
       (''clientID'', JStr client)]"

definition xts_order_call :: "xts_Client \<Rightarrow> broker_OrderIntent \<Rightarrow> string \<Rightarrow> f64 \<Rightarrow> http_call" where
  "xts_order_call c it orderUID limitPrice =
     \<lparr>hc_Method = ''POST'', hc_URL = xc_BaseURL c @ ''/interactive/orders'', hc_Authorization = xc_Token c,
      hc_Body = map_option (\<lambda>p. xts_payload (bo_ExchangeSegment it) (bo_InstrumentToken it) (bo_ProductType it) (bo_OrderType it)
        (bo_Side it) (bo_Quantity it) p orderUID (bo_ClientID it)) (enc_float limitPrice)\<rparr>"

definition xts_rejected :: "int \<Rightarrow> (string \<times> json) list \<Rightarrow> goerr" where
  "xts_rejected status out = GoErr (''XTS rejected order (HTTP '' @ show_int status @ ''): '' @ fmt_v (JObj out))"

definition xts_PlaceOrder :: "'b network \<Rightarrow> xts_Client \<Rightarrow> broker_OrderIntent \<Rightarrow> string \<Rightarrow> f64 \<Rightarrow> 'b \<Rightarrow> goerr option \<times> xts_Client \<times> 'b" where
  "xts_PlaceOrder net c it orderUID limitPrice b =
     (case EnsureLogin net c b of
        (Some e, c, b) \<Rightarrow> (Some e, c, b)
      | (None, c, b) \<Rightarrow>
          (case net (xts_order_call c it orderUID limitPrice) b of
             (HttpFail e, b) \<Rightarrow> (Some e, c, b)
           | (HttpReadFail status e, b) \<Rightarrow> (if status \<noteq> 200 then Some (xts_rejected status []) else None, c, b)
           | (HttpReply status raw doc, b) \<Rightarrow>
               (if status \<noteq> 200 then Some (xts_rejected status (case doc of Inr j \<Rightarrow> json_members j | Inl _ \<Rightarrow> [])) else None, c, b)))"

section \<open>main.go: the executor\<close>

definition or_default :: "string \<Rightarrow> string \<Rightarrow> string" where
  "or_default s d = (if s = '''' then d else s)"

definition xts_uid :: "OrderIntent \<Rightarrow> string \<Rightarrow> string" where
  "xts_uid it fallback = or_default (TrimSpace (it_OrderUID it)) (or_default (TrimSpace (it_IntentID it)) fallback)"

definition price_or_zero :: "OrderIntent \<Rightarrow> f64" where
  "price_or_zero it = (case it_LimitPrice it of Some p \<Rightarrow> p | None \<Rightarrow> Fin 0)"

definition xts_broker_intent :: "(string \<Rightarrow> string) \<Rightarrow> OrderIntent \<Rightarrow> broker_OrderIntent" where
  "xts_broker_intent getenv it =
     \<lparr>bo_TradeUID = it_TradeUID it, bo_IntentID = it_IntentID it, bo_InstrumentToken = it_Token it, bo_Symbol = '''',
      bo_ExchangeSegment = or_default (ToUpper (TrimSpace (it_ExchangeSegment it))) ''NSEFO'',
      bo_Side = or_default (ToUpper (TrimSpace (it_Side it))) ''SELL'', bo_Quantity = it_Quantity it,
      bo_OrderType = or_default (ToUpper (TrimSpace (it_OrderType it))) ''MARKET'',
      bo_ProductType = or_default (ToUpper (TrimSpace (it_ProductType it))) ''MIS'', bo_TimeInForce = ''DAY'',
      bo_ClientID = or_default (TrimSpace (it_AccountID it)) (TrimSpace (getenv ''XTS_CLIENT_ID'')),
      bo_LimitPrice = price_or_zero it, bo_StopPrice = Fin 0, bo_DisclosedQty = 0\<rparr>"

definition xts_sent :: "OrderIntent \<Rightarrow> string \<Rightarrow> ExecutionResult" where
  "xts_sent it uid = \<lparr>res_IntentID = it_IntentID it, res_BrokerOrderID = uid, res_Status = ''SUBMITTED'', res_FilledQty = 0, res_PendingQty = 0,
     res_FillPrice = Fin 0, res_EventReason = ''XTS_ORDER_SENT'', res_LatencyMS = 0, res_RawRequest = '''', res_RawResponse = ''''\<rparr>"

definition xts_ExecuteOrderIntent :: "'b network \<Rightarrow> ('b \<Rightarrow> goerr option) \<Rightarrow> (string \<Rightarrow> string) \<Rightarrow> ('b \<Rightarrow> int) \<Rightarrow> (xts_Client \<times> 'b) executor" where
  "xts_ExecuteOrderIntent net ctxErr getenv nano it cb =
     (case cb of (c, b) \<Rightarrow>
        let uid = xts_uid it (''XTS-'' @ show_int (nano b)) in
        (case ctxErr b of
           Some e \<Rightarrow> (Inl e, c, b)
         | None \<Rightarrow>
             (case xts_PlaceOrder net c (xts_broker_intent getenv it) uid (price_or_zero it) b of
                (Some e, c, b) \<Rightarrow> (Inl e, c, b)
              | (None, c, b) \<Rightarrow> (Inr (xts_sent it uid), c, b))))"

section \<open>main.go: the order listener\<close>

definition zmq_intent :: "string \<Rightarrow> broker_OrderIntent \<Rightarrow> broker_OrderIntent" where
  "zmq_intent clientID it = it\<lparr>
     bo_ExchangeSegment := or_default (bo_ExchangeSegment it) ''NSEFO'',
     bo_ProductType := or_default (bo_ProductType it) ''MIS'',
     bo_OrderType := or_default (bo_OrderType it) ''MARKET'',
     bo_ClientID := or_default (bo_ClientID it) clientID,
     bo_Side := or_default (bo_Side it) ''SELL''\<rparr>"

definition decode_broker_intent :: "json \<Rightarrow> broker_OrderIntent option" where
  "decode_broker_intent j = do {
     m \<leftarrow> top_obj j;
     trade \<leftarrow> fld_str m ''trade_uid'';
     intent \<leftarrow> fld_str m ''intent_id'';
     token \<leftarrow> fld_int m ''instrument_token'';
     sym \<leftarrow> fld_str m ''symbol'';
     seg \<leftarrow> fld_str m ''exchange_segment'';
     side \<leftarrow> fld_str m ''side'';
     qty \<leftarrow> fld_int m ''quantity'';
     otype \<leftarrow> fld_str m ''order_type'';
     product \<leftarrow> fld_str m ''product_type'';
     tif \<leftarrow> fld_str m ''time_in_force'';
     client \<leftarrow> fld_str m ''client_id'';
     limit \<leftarrow> fld_float m ''limit_price'';
     stop \<leftarrow> fld_float m ''stop_price'';
     disc \<leftarrow> fld_int m ''disclosed_quantity'';
     Some \<lparr>bo_TradeUID = trade, bo_IntentID = intent, bo_InstrumentToken = token, bo_Symbol = sym, bo_ExchangeSegment = seg,
       bo_Side = side, bo_Quantity = qty, bo_OrderType = otype, bo_ProductType = product, bo_TimeInForce = tif, bo_ClientID = client,
       bo_LimitPrice = limit, bo_StopPrice = stop, bo_DisclosedQty = disc\<rparr> }"

text \<open>One message: a document that does not decode is dropped; \<open>stamp\<close> is the time of day in the order id.\<close>

definition zmq_message :: "'b network \<Rightarrow> string \<Rightarrow> ('b \<Rightarrow> string) \<Rightarrow> json option \<Rightarrow> xts_Client \<times> 'b \<Rightarrow> xts_Client \<times> 'b" where
  "zmq_message net clientID stamp msg cb = (case cb of (c, b) \<Rightarrow>
     (case msg of
        None \<Rightarrow> (c, b)
      | Some j \<Rightarrow>
          (case decode_broker_intent j of
             None \<Rightarrow> (c, b)
           | Some it \<Rightarrow>
               let it = zmq_intent clientID it in
               snd (xts_PlaceOrder net c it (''ZMQ_'' @ stamp b) (bo_LimitPrice it) b))))"

section \<open>internal/brokers/xts\<close>

record XtsExecutor =
  xe_BaseURL :: string
  xe_Token :: string
  xe_ClientID :: string

definition NewXtsExecutor :: "string \<Rightarrow> string \<Rightarrow> string \<Rightarrow> XtsExecutor" where
  "NewXtsExecutor baseURL token clientID = \<lparr>xe_BaseURL = TrimRightChar baseURL (CHR ''/''), xe_Token = token, xe_ClientID = clientID\<rparr>"

definition fmt_member :: "(string \<times> json) list \<Rightarrow> string \<Rightarrow> string" where
  "fmt_member m k = (case json_get m k of Some v \<Rightarrow> fmt_v v | None \<Rightarrow> ''<nil>'')"

definition xts_reply_result :: "json_codec \<Rightarrow> OrderIntent \<Rightarrow> json \<Rightarrow> (int \<Rightarrow> string) \<Rightarrow> int \<Rightarrow> int \<Rightarrow> json \<Rightarrow> goerr + ExecutionResult" where
  "xts_reply_result cd it payload statusText latency status j =
     (case top_obj j of
        None \<Rightarrow> Inl (GoErr ''decode xts response: json: cannot unmarshal value'')
      | Some m \<Rightarrow>
          if status < 200 \<or> 300 \<le> status then
            (let desc = fmt_member m ''description'' in
             Inl (GoErr (''xts rejected order: '' @ (if desc = '''' \<or> desc = ''<nil>'' then statusText status else desc))))
          else if fmt_member m ''type'' \<noteq> ''success'' then Inl (GoErr (''xts rejected order: '' @ fmt_member m ''description''))
          else
            let r = (case json_get m ''result'' of Some (JObj r) \<Rightarrow> r | _ \<Rightarrow> []); oid = fmt_member r ''AppOrderID'' in
            Inr \<lparr>res_IntentID = it_IntentID it,
              res_BrokerOrderID = (if oid = '''' \<or> oid = ''<nil>'' then fmt_member r ''OrderID'' else oid),
              res_Status = ''SUBMITTED'', res_FilledQty = 0, res_PendingQty = 0, res_FillPrice = Fin 0,
              res_EventReason = ''LIVE_XTS_SUBMISSION'', res_LatencyMS = latency, res_RawRequest = cd_Marshal cd payload,
              res_RawResponse = cd_Marshal cd j\<rparr>)"

definition xts_checks :: "XtsExecutor \<Rightarrow> OrderIntent \<Rightarrow> goerr option" where
  "xts_checks e it =
     (if TrimSpace (xe_BaseURL e) = '''' then Some (GoErr ''xts base url is empty'')
      else if TrimSpace (xe_Token e) = '''' then Some (GoErr ''xts token is empty'')
      else if or_default (TrimSpace (it_AccountID it)) (TrimSpace (xe_ClientID e)) = '''' then Some (GoErr ''xts client id is empty'')
      else if ToUpper (TrimSpace (it_Side it)) = '''' then Some (GoErr ''order side is required'')
      else if it_Quantity it \<le> 0 then
        Some (GoErr (''invalid quantity for token '' @ show_int (it_Token it) @ '': '' @ show_int (it_Quantity it)))
      else if it_Token it \<le> 0 then Some (GoErr (''invalid token: '' @ show_int (it_Token it)))
      else None)"

definition xts_direct_payload :: "XtsExecutor \<Rightarrow> OrderIntent \<Rightarrow> string \<Rightarrow> json \<Rightarrow> json" where
  "xts_direct_payload e it fallback price =
     xts_payload (or_default (ToUpper (TrimSpace (it_ExchangeSegment it))) ''NSEFO'') (it_Token it)
       (or_default (ToUpper (TrimSpace (it_ProductType it))) ''MIS'') (or_default (ToUpper (TrimSpace (it_OrderType it))) ''LIMIT'')
       (ToUpper (TrimSpace (it_Side it))) (it_Quantity it) price (take 20 (xts_uid it fallback))
       (or_default (TrimSpace (it_AccountID it)) (TrimSpace (xe_ClientID e)))"

definition XtsExecutor_ExecuteOrderIntent ::
    "'b network \<Rightarrow> json_codec \<Rightarrow> (int \<Rightarrow> string) \<Rightarrow> ('b \<Rightarrow> int) \<Rightarrow> ('b \<Rightarrow> int) \<Rightarrow> XtsExecutor \<Rightarrow> 'b executor" where
  "XtsExecutor_ExecuteOrderIntent net cd statusText nano latency e it b =
     (case xts_checks e it of
        Some err \<Rightarrow> (Inl err, b)
      | None \<Rightarrow>
          (case enc_float (price_or_zero it) of
             None \<Rightarrow> (Inl (GoErr ''marshal xts payload: json: unsupported value''), b)
           | Some price \<Rightarrow>
               let payload = xts_direct_payload e it (''OID-'' @ show_int (nano b)) price in
               (case net \<lparr>hc_Method = ''POST'', hc_URL = xe_BaseURL e @ ''/interactive/orders'', hc_Authorization = xe_Token e,
                       hc_Body = Some payload\<rparr> b of
                  (HttpFail err, b) \<Rightarrow> (Inl (GoWrap ''xts http do: '' err), b)
                | (HttpReadFail status err, b) \<Rightarrow> (Inl (GoWrap ''decode xts response: '' err), b)
                | (HttpReply status raw doc, b) \<Rightarrow>
                    (case doc of
                       Inl err \<Rightarrow> Inl (GoWrap ''decode xts response: '' err)
                     | Inr j \<Rightarrow> xts_reply_result cd it payload statusText (latency b) status j, b))))"

section \<open>Lemmas\<close>

definition submitted_or_error :: "goerr + ExecutionResult \<Rightarrow> bool" where
  "submitted_or_error r \<longleftrightarrow> (case r of Inl _ \<Rightarrow> True | Inr res \<Rightarrow> res_Status res = ''SUBMITTED'' \<and> res_FilledQty res = 0)"

interpretation xts: broker_contract "\<lambda>_ r. submitted_or_error r" "xts_ExecuteOrderIntent net ctxErr getenv nano"
  by unfold_locales
    (auto simp: xts_ExecuteOrderIntent_def submitted_or_error_def xts_sent_def Let_def split: prod.split option.split)

interpretation xts_direct: broker_contract "\<lambda>_ r. submitted_or_error r" "XtsExecutor_ExecuteOrderIntent net cd statusText nano latency e"
  by unfold_locales
    (auto simp: XtsExecutor_ExecuteOrderIntent_def submitted_or_error_def xts_reply_result_def Let_def
      split: prod.split option.split sum.split http_reply.split)

lemma submitted_pending: "submitted_or_error (Inr res) \<Longrightarrow> pending_result (Inr res)"
  by (simp add: submitted_or_error_def pending_result_def)

definition accepted :: "exec_log \<Rightarrow> exec_log" where
  "accepted l = filter (\<lambda>e. \<not> isl (snd e)) l"

lemma accepted_no_pending: "no_pending l \<Longrightarrow> \<forall>e\<in>set l. submitted_or_error (snd e) \<Longrightarrow> accepted l = []"
proof (induction l)
  case (Cons e l)
  then show ?case using submitted_pending by (cases "snd e") (auto simp: accepted_def)
qed (simp add: accepted_def)

text \<open>A build whose broker never reports a fill: it fails, and stops at the first accepted order.\<close>

lemma never_filled_build:
  assumes "build_log os r l" "os \<noteq> []" and all: "\<forall>e\<in>set l. submitted_or_error (snd e)"
  shows "\<exists>e. r = Inl e \<and> length (accepted l) \<le> 1 \<and> (accepted l \<noteq> [] \<longleftrightarrow> IsBuildPendingFill e)"
proof (cases r)
  case (Inl e)
  then have st: "stopped_log e l" using assms(1) by (simp add: build_log_def)
  show ?thesis
  proof (cases "IsBuildPendingFill e")
    case True
    then have "l \<noteq> []" and p: "pending_result (snd (last l))" and n: "no_pending (butlast l)" using st by (simp_all add: stopped_log_def)
    have "accepted (butlast l) = []" using n all by (intro accepted_no_pending) (auto dest: in_set_butlastD)
    moreover have "\<not> isl (snd (last l))" using p by (cases "snd (last l)") (auto simp: pending_result_def)
    moreover have "accepted l = accepted (butlast l) @ accepted [last l]"
      using \<open>l \<noteq> []\<close> by (metis accepted_def append_butlast_last_id filter_append)
    ultimately have "accepted l = [last l]" by (simp add: accepted_def)
    then show ?thesis using Inl True by simp
  next
    case False
    then have "accepted l = []" using st all accepted_no_pending by (simp add: stopped_log_def)
    then show ?thesis using Inl False by simp
  qed
next
  case (Inr v)
  then have f: "\<forall>u\<in>eo_UID ` set os. filled_last (sent_for u l)" using assms(1) by (simp add: build_log_def)
  obtain o1 where "o1 \<in> set os" using assms(2) by (cases os) auto
  then have f1: "filled_last (sent_for (eo_UID o1) l)" using f by blast
  define e where "e = last (sent_for (eo_UID o1) l)"
  have "e \<in> set l" "filled_result (snd e)"
    using f1 last_in_set [of "sent_for (eo_UID o1) l"] by (auto simp: filled_last_def e_def sent_for_def)
  then show ?thesis using all by (cases "snd e") (auto simp: submitted_or_error_def)
qed

text \<open>
  C18. A straddle cannot be built through XTS: the executor only ever reports SUBMITTED, so a build
  with at least one order never succeeds, and it stops at the first order that XTS accepts. At most
  one order, of one leg, is then at the broker, and the build ends with a pending fill.
\<close>

theorem xts_build_stops_at_first_order:
  assumes "distinct (map eo_UID (concat chunks))" "concat chunks \<noteq> []" "w_log w = []"
    and "executeBuild svc (logged (xts_ExecuteOrderIntent net ctxErr getenv nano)) trade chunks w = (r, w')"
  shows "\<exists>e. r = Inl e \<and> length (accepted (w_log w')) \<le> 1 \<and> (accepted (w_log w') \<noteq> [] \<longleftrightarrow> IsBuildPendingFill e)"
proof (rule never_filled_build)
  show "build_log (concat chunks) r (w_log w')" using executeBuild_log [OF assms(1,4)] assms(3) by auto
  show "\<forall>e\<in>set (w_log w'). submitted_or_error (snd e)" using xts.build_answers [OF assms(4)] assms(3) by (simp add: log_all_def)
qed (rule assms(2))

definition xts_world :: "((xts_Client \<times> unit) \<times> exec_log) world" where
  "xts_world = \<lparr>w_store = MemStore NewMemoryStore,
     w_ext = ((\<lparr>xc_BaseURL = '''', xc_AppKey = ''k'', xc_SecretKey = ''s'', xc_Token = ''t''\<rparr>, ()), []), w_tick = 0\<rparr>"

definition xts_net :: "unit network" where
  "xts_net call b = (HttpReply 200 ''{}'' (Inr (JObj [])), b)"

theorem xts_build_stops_at_first_order_witness:
  "\<exists>e r w'. executeBuild demo_service (logged (xts_ExecuteOrderIntent xts_net (\<lambda>_. None) (\<lambda>_. '''') (\<lambda>_. 0))) (plain_trade ''T1'') [demo_orders] xts_world = (r, w') \<and>
     r = Inl e \<and> length (accepted (w_log w')) \<le> 1"
proof -
  obtain r w' where x: "executeBuild demo_service (logged (xts_ExecuteOrderIntent xts_net (\<lambda>_. None) (\<lambda>_. '''') (\<lambda>_. 0))) (plain_trade ''T1'') [demo_orders] xts_world = (r, w')"
    by force
  from xts_build_stops_at_first_order [OF demo_distinct _ _ x] x show ?thesis
    by (auto simp: demo_orders_def xts_world_def)
qed

section \<open>The session\<close>

lemma EnsureLogin_token: "EnsureLogin net c b = (None, c', b') \<Longrightarrow> xc_Token c' \<noteq> ''''"
  by (auto simp: EnsureLogin_def split: prod.splits http_reply.splits option.splits if_splits sum.splits)

lemma EnsureLogin_once: "xc_Token c \<noteq> '''' \<Longrightarrow> EnsureLogin net c b = (None, c, b)"
  by (simp add: EnsureLogin_def)

lemma EnsureLogin_keeps: "EnsureLogin net c b = (e, c', b') \<Longrightarrow> \<exists>t. c' = c\<lparr>xc_Token := t\<rparr>"
  by (auto simp: EnsureLogin_def split: prod.splits http_reply.splits option.splits if_splits sum.splits intro: exI [of _ "xc_Token c"])

text \<open>Every reply with status 200 counts as accepted, whatever its body says.\<close>

lemma xts_accepts_any_200:
  assumes "xc_Token c \<noteq> ''''" "ctxErr b = None"
    and "net (xts_order_call c (xts_broker_intent getenv it) (xts_uid it (''XTS-'' @ show_int (nano b))) (price_or_zero it)) b = (HttpReply 200 raw doc, b')"
  shows "xts_ExecuteOrderIntent net ctxErr getenv nano it (c, b) = (Inr (xts_sent it (xts_uid it (''XTS-'' @ show_int (nano b)))), (c, b'))"
  using assms by (simp add: xts_ExecuteOrderIntent_def xts_PlaceOrder_def EnsureLogin_once Let_def)

end
