(* ===== verification/Market_Data.thy ===== *)
theory Market_Data
  imports Go_Http Go_Time Go_Fmt "HOL-Library.Monad_Syntax"
begin

text \<open>
  The market data gateway (\<^verbatim>\<open>services/market-data-gateway\<close>): the cache of decoded chains and its
  endpoint, the web-socket clients, the XTS calls that find spot prices, expiries and option tokens, the
  construction of the option chains at start-up, and the subscriptions and messages of the Socket.IO client.

  The network answers as in \<^verbatim>\<open>Go_Http\<close>. The day of \<^verbatim>\<open>now.Truncate(24*time.Hour)\<close> is the
  UTC day, and so are the parsed expiries. The chains of the symbols are built by one goroutine each, which
  share only the lists they append to under a mutex: here the symbols are finished one after the other in
  the order \<open>ord\<close>, each seeing the network as the one before left it.

  The properties are in \<^verbatim>\<open>Market_Data_Proofs\<close>.
\<close>

definition dq :: char where
  "dq = CHR 0x22"

definition quoted :: "string \<Rightarrow> string" where
  "quoted s = dq # s @ [dq]"

section \<open>cmd/main.go: decoder cache and web-socket clients\<close>

fun text_after :: "string \<Rightarrow> string \<Rightarrow> string option" where
  "text_after p [] = (if p = [] then Some [] else None)"
| "text_after p (c # s) = (if HasPrefix (c # s) p then Some (drop (length p) (c # s)) else text_after p s)"

definition extractSymbol :: "string \<Rightarrow> string" where
  "extractSymbol data = (case text_after (quoted ''symbol'' @ '':'' @ [dq]) data of
      None \<Rightarrow> ''''
    | Some r \<Rightarrow> if dq \<in> set r then takeWhile (\<lambda>c. c \<noteq> dq) r else '''')"

record md_state =
  md_chains :: "(string, string) gomap"
  md_clients :: "nat list"
  md_closed :: "nat list"
  md_sent :: "(nat \<times> string) list"

text \<open>
  A message that the decoder has wrapped already is passed on as it is, and a client whose write fails
  stays; any other message is wrapped first, and such a client is closed and removed.
\<close>

definition broadcastToWS :: "(nat \<Rightarrow> bool) \<Rightarrow> string \<Rightarrow> string \<Rightarrow> md_state \<Rightarrow> md_state" where
  "broadcastToWS ok symbol rawJSON st =
     (if md_clients st = [] then st
      else if Contains rawJSON (quoted ''type'' @ '':'' @ quoted ''option_chain'') then
        st\<lparr>md_sent := md_sent st @ map (\<lambda>c. (c, rawJSON)) (filter ok (md_clients st))\<rparr>
      else
        let msg = ''{'' @ quoted ''type'' @ '':'' @ quoted ''option_chain'' @ '','' @ quoted ''symbol'' @ '':'' @ quoted symbol @ '','' @
                  quoted ''data'' @ '':'' @ rawJSON @ ''}'' in
        st\<lparr>md_sent := md_sent st @ map (\<lambda>c. (c, msg)) (filter ok (md_clients st)),
           md_closed := md_closed st @ filter (\<lambda>c. \<not> ok c) (md_clients st), md_clients := filter ok (md_clients st)\<rparr>)"

definition on_decoder_bytes :: "(nat \<Rightarrow> bool) \<Rightarrow> string \<Rightarrow> md_state \<Rightarrow> md_state" where
  "on_decoder_bytes ok msg st =
     (let s = extractSymbol msg; symb = (if s = '''' then ''NIFTY'' else s) in
      broadcastToWS ok symb msg (st\<lparr>md_chains := gm_set symb msg (md_chains st)\<rparr>))"

definition ws_connect :: "nat \<Rightarrow> md_state \<Rightarrow> md_state" where
  "ws_connect c st = st\<lparr>md_clients := List.insert c (md_clients st)\<rparr>"

definition ws_disconnect :: "nat \<Rightarrow> md_state \<Rightarrow> md_state" where
  "ws_disconnect c st = st\<lparr>md_clients := removeAll c (md_clients st)\<rparr>"

definition md_missing :: string where
  "md_missing = ''{'' @ quoted ''error'' @ '':'' @ quoted ''Option chain not decoded by C++ yet'' @ '','' @ quoted ''success'' @ '':false}'' @ [CHR 0x0A]"

definition optionChainHandler :: "md_state \<Rightarrow> string \<Rightarrow> string" where
  "optionChainHandler st path =
     (case gm_get (md_chains st) (last (SplitChar path (CHR ''/''))) of
        Some chain \<Rightarrow> ''{'' @ quoted ''success'' @ '':true,'' @ quoted ''source'' @ '':'' @ quoted ''cpp_decoder'' @ '','' @ quoted ''data'' @ '':'' @ chain @ ''}''
      | None \<Rightarrow> md_missing)"

section \<open>cmd/main.go: XTS calls\<close>

definition mdBaseURL :: string where
  "mdBaseURL = ''https'' @ ''://developers.symphonyfintech.in''"

definition parseQuote :: "json_codec \<Rightarrow> json \<Rightarrow> (string \<times> json) list" where
  "parseQuote codec quote = (case quote of
      JStr v \<Rightarrow> (case cd_Unmarshal codec v of Some (JObj m) \<Rightarrow> m | _ \<Rightarrow> [])
    | JObj m \<Rightarrow> m
    | _ \<Rightarrow> [])"

text \<open>The errors of \<^verbatim>\<open>json.Unmarshal\<close> are ignored: a member of another type is left empty.\<close>

definition reply_members :: "http_reply \<Rightarrow> (string \<times> json) list" where
  "reply_members r = (case r of HttpReply _ _ doc \<Rightarrow> (case doc of Inr j \<Rightarrow> json_members j | Inl _ \<Rightarrow> []) | _ \<Rightarrow> [])"

definition list_quotes :: "http_reply \<Rightarrow> json list" where
  "list_quotes r =
     (let res = (case json_field (reply_members r) ''result'' of Some j \<Rightarrow> json_members j | None \<Rightarrow> []) in
      case json_field res ''listQuotes'' of Some j \<Rightarrow> (case j of JArr qs \<Rightarrow> qs | _ \<Rightarrow> []) | None \<Rightarrow> [])"

definition positive :: "f64 option \<Rightarrow> f64 option" where
  "positive v = (case v of Some x \<Rightarrow> if flt (Fin 0) x then Some x else None | None \<Rightarrow> None)"

definition quote_price :: "json_codec \<Rightarrow> string \<Rightarrow> json list \<Rightarrow> f64 option" where
  "quote_price codec key quotes = (case quotes of
      [] \<Rightarrow> None
    | q # _ \<Rightarrow> (case json_get (parseQuote codec q) key of
        None \<Rightarrow> None
      | Some j \<Rightarrow> (case j of JNum r \<Rightarrow> positive (num_f64 r) | JStr s \<Rightarrow> positive (Some (ParseFloat_value s)) | _ \<Rightarrow> None)))"

definition quote_call :: "string \<Rightarrow> int \<Rightarrow> int \<Rightarrow> int \<Rightarrow> http_call" where
  "quote_call token segment instrumentID code =
     \<lparr>hc_Method = ''POST'', hc_URL = mdBaseURL @ ''/apimarketdata/instruments/quotes'', hc_Authorization = token,
      hc_Body = Some (JObj [(''instruments'', JArr [JObj [(''exchangeInstrumentID'', JNum (of_int instrumentID)), (''exchangeSegment'', JNum (of_int segment))]]),
        (''publishFormat'', JStr ''JSON''), (''xtsMessageCode'', JNum (of_int code))])\<rparr>"

definition cached_price :: "json_codec \<Rightarrow> md_state \<Rightarrow> string \<Rightarrow> f64 option" where
  "cached_price codec st symbol = do {
     chain \<leftarrow> gm_get (md_chains st) symbol;
     j \<leftarrow> cd_Unmarshal codec chain;
     m \<leftarrow> top_obj j;
     v \<leftarrow> fld_float m ''fut_ltp'';
     positive (Some v) }"

definition fetchSpotPrice :: "'b network \<Rightarrow> json_codec \<Rightarrow> md_state \<Rightarrow> string \<Rightarrow> int \<Rightarrow> int \<Rightarrow> string \<Rightarrow> 'b \<Rightarrow> f64 \<times> 'b" where
  "fetchSpotPrice net codec st token segment instrumentID symbol b = (case cached_price codec st symbol of
      Some v \<Rightarrow> (v, b)
    | None \<Rightarrow>
        let (r, b) = net (quote_call token segment instrumentID 1502) b in
        if (case r of HttpFail _ \<Rightarrow> True | _ \<Rightarrow> False) then (Fin 0, b)
        else (case quote_price codec ''IndexValue'' (list_quotes r) of
          Some v \<Rightarrow> (v, b)
        | None \<Rightarrow>
            let (r, b) = net (quote_call token segment instrumentID 1512) b in
            (case quote_price codec ''LastTradedPrice'' (list_quotes r) of Some v \<Rightarrow> v | None \<Rightarrow> Fin 0, b)))"

definition md_login_call :: "string \<Rightarrow> string \<Rightarrow> http_call" where
  "md_login_call appKey secretKey =
     \<lparr>hc_Method = ''POST'', hc_URL = mdBaseURL @ ''/apimarketdata/auth/login'', hc_Authorization = '''',
      hc_Body = Some (JObj [(''secretKey'', JStr secretKey), (''appKey'', JStr appKey), (''source'', JStr ''WEBAPI'')])\<rparr>"

definition decode_md_login :: "json \<Rightarrow> (string \<times> string \<times> string \<times> string) option" where
  "decode_md_login j = do {
     m \<leftarrow> top_obj j;
     t \<leftarrow> fld_str m ''type'';
     r \<leftarrow> fld_obj m ''result'';
     token \<leftarrow> fld_str r ''token'';
     userID \<leftarrow> fld_str r ''userID'';
     desc \<leftarrow> fld_str m ''description'';
     Some (t, token, userID, desc) }"

definition md_login :: "'b network \<Rightarrow> string \<Rightarrow> string \<Rightarrow> 'b \<Rightarrow> (goerr + (string \<times> string)) \<times> 'b" where
  "md_login net appKey secretKey b = (let (r, b) = net (md_login_call appKey secretKey) b in
     (case r of
        HttpFail e \<Rightarrow> Inl e
      | HttpReadFail _ _ \<Rightarrow> Inl (GoErr ''unexpected end of JSON input'')
      | HttpReply _ _ doc \<Rightarrow> (case doc of
          Inl e \<Rightarrow> Inl e
        | Inr j \<Rightarrow> (case decode_md_login j of
            None \<Rightarrow> Inl (GoErr ''json: cannot unmarshal value'')
          | Some (t, token, userID, desc) \<Rightarrow> if t \<noteq> ''success'' then Inl (GoErr (''login failed: '' @ desc)) else Inr (token, userID))), b))"

section \<open>internal/chain_fetcher\<close>

record StrikeRow =
  sr_Strike :: f64
  sr_CEToken :: int
  sr_PEToken :: int

record OptionChain =
  oc_Symbol :: string
  oc_Expiry :: string
  oc_CashToken :: int
  oc_ExchangeSeg :: int
  oc_Strikes :: "StrikeRow list"

record chain_Config =
  cf_Segment :: int
  cf_CashSegment :: int
  cf_CashToken :: int
  cf_Gap :: int
  cf_SeriesOpt :: string

text \<open>The gaps are whole numbers; the code keeps them as \<^verbatim>\<open>float64\<close>.\<close>

definition SymbolConfigs :: "(string, chain_Config) gomap" where
  "SymbolConfigs =
     [(''NIFTY'', \<lparr>cf_Segment = 2, cf_CashSegment = 1, cf_CashToken = 26000, cf_Gap = 50, cf_SeriesOpt = ''OPTIDX''\<rparr>),
      (''BANKNIFTY'', \<lparr>cf_Segment = 2, cf_CashSegment = 1, cf_CashToken = 26001, cf_Gap = 100, cf_SeriesOpt = ''OPTIDX''\<rparr>),
      (''FINNIFTY'', \<lparr>cf_Segment = 2, cf_CashSegment = 1, cf_CashToken = 26034, cf_Gap = 50, cf_SeriesOpt = ''OPTIDX''\<rparr>),
      (''MIDCPNIFTY'', \<lparr>cf_Segment = 2, cf_CashSegment = 1, cf_CashToken = 26121, cf_Gap = 25, cf_SeriesOpt = ''OPTIDX''\<rparr>),
      (''SENSEX'', \<lparr>cf_Segment = 12, cf_CashSegment = 11, cf_CashToken = 26065, cf_Gap = 100, cf_SeriesOpt = ''IO''\<rparr>)]"

record fetch_Client =
  fc_BaseURL :: string
  fc_Token :: string
  fc_UserID :: string

text \<open>\<^verbatim>\<open>url.Values.Encode\<close> sorts by name; the parameters are listed in that order.\<close>

definition encode_query :: "(string \<times> string) list \<Rightarrow> string" where
  "encode_query ps = join ''&'' (map (\<lambda>(k, v). QueryEscape k @ ''='' @ QueryEscape v) ps)"

definition fetch_get :: "'b network \<Rightarrow> fetch_Client \<Rightarrow> string \<Rightarrow> (string \<times> string) list \<Rightarrow> 'b \<Rightarrow> http_reply \<times> 'b" where
  "fetch_get net c endpoint params b =
     net \<lparr>hc_Method = ''GET'', hc_URL = fc_BaseURL c @ endpoint @ ''?'' @ encode_query (params @ [(''userID'', fc_UserID c)]),
       hc_Authorization = fc_Token c, hc_Body = None\<rparr> b"

definition parse_error :: "goerr \<Rightarrow> string \<Rightarrow> goerr" where
  "parse_error e body = GoErr (''JSON parse error: '' @ Error e @ '' | Body: '' @ body)"

definition decode_body :: "(json \<Rightarrow> 'r option) \<Rightarrow> http_reply \<Rightarrow> goerr + (string \<times> 'r)" where
  "decode_body decode r = (case r of
      HttpFail e \<Rightarrow> Inl e
    | HttpReadFail _ e \<Rightarrow> Inl e
    | HttpReply _ body doc \<Rightarrow> (case doc of
        Inl e \<Rightarrow> Inl (parse_error e body)
      | Inr j \<Rightarrow> (case decode j of None \<Rightarrow> Inl (parse_error (GoErr ''json: cannot unmarshal value'') body) | Some v \<Rightarrow> Inr (body, v))))"

definition fld_list :: "(string \<times> json) list \<Rightarrow> string \<Rightarrow> json list option" where
  "fld_list m k = (case json_field m k of None \<Rightarrow> Some [] | Some JNull \<Rightarrow> Some [] | Some (JArr r) \<Rightarrow> Some r | Some _ \<Rightarrow> None)"

definition decode_expiries :: "json \<Rightarrow> (string \<times> string list) option" where
  "decode_expiries j = do {
     m \<leftarrow> top_obj j;
     t \<leftarrow> fld_str m ''type'';
     desc \<leftarrow> fld_str m ''description'';
     r \<leftarrow> fld_list m ''result'';
     if list_all (\<lambda>x. case x of JStr _ \<Rightarrow> True | JNull \<Rightarrow> True | _ \<Rightarrow> False) r
     then Some (desc, map (\<lambda>x. case x of JStr s \<Rightarrow> s | _ \<Rightarrow> '''') r) else None }"

definition FetchExpiryDates :: "'b network \<Rightarrow> fetch_Client \<Rightarrow> int \<Rightarrow> string \<Rightarrow> string \<Rightarrow> 'b \<Rightarrow> (goerr + string list) \<times> 'b" where
  "FetchExpiryDates net c segment series symbol b =
     (let (reply, b) = fetch_get net c ''/instruments/instrument/expiryDate'' [(''exchangeSegment'', show_int segment), (''series'', series), (''symbol'', symbol)] b in
      (case decode_body decode_expiries reply of
         Inl e \<Rightarrow> Inl e
       | Inr (body, desc, r) \<Rightarrow>
           if r = [] then Inl (GoErr (''XTS API returned no expiries or error: '' @ desc @ '' | Body: '' @ body)) else Inr r, b))"

definition decode_option_symbol :: "json \<Rightarrow> (string \<times> json option list) option" where
  "decode_option_symbol j = do {
     m \<leftarrow> top_obj j;
     t \<leftarrow> fld_str m ''type'';
     desc \<leftarrow> fld_str m ''description'';
     r \<leftarrow> fld_list m ''result'';
     if list_all (\<lambda>x. case x of JObj _ \<Rightarrow> True | JNull \<Rightarrow> True | _ \<Rightarrow> False) r
     then Some (desc, map (\<lambda>x. json_field (json_members x) ''ExchangeInstrumentID'') r) else None }"

definition token_value :: "json option \<Rightarrow> goerr + int" where
  "token_value v = (let unexpected = Inl (GoErr ''unexpected type for ExchangeInstrumentID'') in
     case v of
       None \<Rightarrow> unexpected
     | Some j \<Rightarrow> (case j of
         JNum r \<Rightarrow> Inr (ftoi (rnd r))
       | JStr s \<Rightarrow> (case ParseInt s of Some n \<Rightarrow> Inr n | None \<Rightarrow> Inl (GoErr (''strconv.Atoi: parsing '' @ quoted s)))
       | _ \<Rightarrow> unexpected))"

definition FetchOptionToken :: "'b network \<Rightarrow> fetch_Client \<Rightarrow> int \<Rightarrow> string \<Rightarrow> string \<Rightarrow> string \<Rightarrow> string \<Rightarrow> f64 \<Rightarrow> 'b \<Rightarrow> (goerr + int) \<times> 'b" where
  "FetchOptionToken net c segment series symbol expiry optType strike b =
     (let (reply, b) = fetch_get net c ''/instruments/instrument/optionSymbol''
        [(''exchangeSegment'', show_int segment), (''expiryDate'', expiry), (''optionType'', optType), (''series'', series),
         (''strikePrice'', fmt_f 0 strike), (''symbol'', symbol)] b in
      (case decode_body decode_option_symbol reply of
         Inl e \<Rightarrow> Inl e
       | Inr (body, desc, r) \<Rightarrow> (case r of
           [] \<Rightarrow> Inl (GoErr (''XTS API returned no token or error: '' @ desc @ '' | Body: '' @ body))
         | v # _ \<Rightarrow> token_value v), b))"

definition token_or_zero :: "goerr + int \<Rightarrow> int" where
  "token_or_zero r = (case r of Inr n \<Rightarrow> n | Inl _ \<Rightarrow> 0)"

definition strike_row :: "'b network \<Rightarrow> fetch_Client \<Rightarrow> chain_Config \<Rightarrow> string \<Rightarrow> string \<Rightarrow> f64 \<Rightarrow> 'b \<Rightarrow> StrikeRow \<times> 'b" where
  "strike_row net c cfg symbol expiry s b =
     (let (ce, b) = FetchOptionToken net c (cf_Segment cfg) (cf_SeriesOpt cfg) symbol expiry ''CE'' s b;
          (pe, b) = FetchOptionToken net c (cf_Segment cfg) (cf_SeriesOpt cfg) symbol expiry ''PE'' s b in
      (\<lparr>sr_Strike = s, sr_CEToken = token_or_zero ce, sr_PEToken = token_or_zero pe\<rparr>, b))"

text \<open>The loop over the strikes does not end when adding the gap does not change the strike; then it has no value.\<close>

partial_function (option) strike_loop :: "(f64 \<Rightarrow> 'b \<Rightarrow> StrikeRow \<times> 'b) \<Rightarrow> f64 \<Rightarrow> f64 \<Rightarrow> f64 \<Rightarrow> 'b \<Rightarrow> (StrikeRow list \<times> 'b) option" where
  "strike_loop row gap end_strike s b =
     (if fle s end_strike then
        (case row s b of (r, b) \<Rightarrow>
          Option.bind (strike_loop row gap end_strike (fadd s gap) b) (\<lambda>(rows, b). Some (r # rows, b)))
      else Some ([], b))"

definition BuildChain :: "'b network \<Rightarrow> fetch_Client \<Rightarrow> string \<Rightarrow> string \<Rightarrow> f64 \<Rightarrow> int \<Rightarrow> 'b \<Rightarrow> ((goerr + OptionChain) \<times> 'b) option" where
  "BuildChain net c symbol expiry atmStrike strikeRange b = (case gm_get SymbolConfigs symbol of
      None \<Rightarrow> Some (Inl (GoErr (''unsupported symbol '' @ symbol)), b)
    | Some cfg \<Rightarrow>
        let gap = itof (cf_Gap cfg); width = fmul (itof strikeRange) gap in
        map_option (\<lambda>(rows, b). (Inr \<lparr>oc_Symbol = symbol, oc_Expiry = expiry, oc_CashToken = cf_CashToken cfg, oc_ExchangeSeg = cf_Segment cfg, oc_Strikes = rows\<rparr>, b))
          (strike_loop (strike_row net c cfg symbol expiry) gap (fadd atmStrike width) (fsub atmStrike width) b))"

section \<open>cmd/main.go: building the chains\<close>

definition fmt_ddMonYYYY :: "caldate \<Rightarrow> string" where
  "fmt_ddMonYYYY d = pad2 (cd_day d) @ short_months ! (cd_month d - 1) @ pad4 (cd_year d)"

definition upcoming :: "caldate \<Rightarrow> string list \<Rightarrow> caldate list" where
  "upcoming today expiries =
     filter (\<lambda>d. \<not> d < today) (List.map_filter (\<lambda>e. time_Parse L_date (hd (SplitChar e (CHR ''T'')))) expiries)"

definition getActiveExpiries :: "'b network \<Rightarrow> fetch_Client \<Rightarrow> caldate \<Rightarrow> string \<Rightarrow> 'b \<Rightarrow> (goerr + string list) \<times> 'b" where
  "getActiveExpiries net c today symbol b =
     (let (r, b) = FetchExpiryDates net c 2 ''OPTIDX'' symbol b in
      (case r of
         Inl e \<Rightarrow> Inl e
       | Inr expiries \<Rightarrow>
           let validDates = upcoming today expiries in
           if validDates \<noteq> [] then Inr (map fmt_ddMonYYYY (sort validDates)) else Inl (GoErr ''no expiries found''), b))"

definition default_spot :: "string \<Rightarrow> f64" where
  "default_spot symb = Fin (if symb = ''BANKNIFTY'' then 50000 else if symb = ''FINNIFTY'' then 22000 else if symb = ''MIDCPNIFTY'' then 12000
     else if symb = ''SENSEX'' \<or> symb = ''BANKEX'' then 75000 else 23000)"

definition atm_strike :: "chain_Config \<Rightarrow> f64 \<Rightarrow> f64" where
  "atm_strike cfg spot =
     (let gap = itof (cf_Gap cfg) in itof (i64_mul (ftoi (fdiv (fadd spot (fdiv gap (Fin 2))) gap)) (ftoi gap)))"

definition has_tokens :: "goerr + OptionChain \<Rightarrow> bool" where
  "has_tokens r = (case r of Inl _ \<Rightarrow> False | Inr chain \<Rightarrow> (case oc_Strikes chain of [] \<Rightarrow> False | row # _ \<Rightarrow> sr_CEToken row \<noteq> 0))"

fun first_chain :: "'b network \<Rightarrow> fetch_Client \<Rightarrow> string \<Rightarrow> f64 \<Rightarrow> string list \<Rightarrow> 'b \<Rightarrow> (OptionChain option \<times> 'b) option" where
  "first_chain net c symb atm [] b = Some (None, b)"
| "first_chain net c symb atm (e # es) b = (case BuildChain net c symb e atm 40 b of
      None \<Rightarrow> None
    | Some (r, b) \<Rightarrow> if has_tokens r then Some (case r of Inr chain \<Rightarrow> Some chain | Inl _ \<Rightarrow> None, b) else first_chain net c symb atm es b)"

definition symbol_chain :: "'b network \<Rightarrow> json_codec \<Rightarrow> md_state \<Rightarrow> fetch_Client \<Rightarrow> caldate \<Rightarrow> string \<Rightarrow> chain_Config \<Rightarrow> 'b \<Rightarrow> (OptionChain option \<times> 'b) option" where
  "symbol_chain net codec st c today symb cfg b =
     (let (p, b) = fetchSpotPrice net codec st (fc_Token c) (cf_CashSegment cfg) (cf_CashToken cfg) symb b;
          spot = (if fle p (Fin 0) then default_spot symb else p);
          (expiries, b) = getActiveExpiries net c today symb b in
      first_chain net c symb (atm_strike cfg spot) (case expiries of Inl _ \<Rightarrow> [] | Inr es \<Rightarrow> es) b)"

record md_lists =
  ml_csv :: "string list"
  ml_fo :: "json list"
  ml_cash :: "json list"

definition instrument :: "int \<Rightarrow> int \<Rightarrow> json" where
  "instrument segment token = JObj [(''exchangeInstrumentID'', JNum (of_int token)), (''exchangeSegment'', JNum (of_int segment))]"

definition csv_line :: "int \<Rightarrow> string \<Rightarrow> string \<Rightarrow> string \<Rightarrow> string" where
  "csv_line token symb strike typ = show_int token @ '','' @ symb @ '','' @ strike @ '','' @ typ @ [CHR 0x0A]"

definition row_tokens :: "StrikeRow \<Rightarrow> (int \<times> string \<times> string) list" where
  "row_tokens row =
     (if sr_CEToken row \<noteq> 0 then [(sr_CEToken row, fmt_f 0 (sr_Strike row), ''CE'')] else []) @
     (if sr_PEToken row \<noteq> 0 then [(sr_PEToken row, fmt_f 0 (sr_Strike row), ''PE'')] else [])"

definition add_chain :: "string \<Rightarrow> chain_Config \<Rightarrow> OptionChain \<Rightarrow> md_lists \<Rightarrow> md_lists" where
  "add_chain symb cfg chain l =
     (let toks = concat (map row_tokens (oc_Strikes chain)) in
      \<lparr>ml_csv = ml_csv l @ map (\<lambda>(t, s, ty). csv_line t symb s ty) toks @ [csv_line (cf_CashToken cfg) symb ''0'' ''SPOT''],
       ml_fo = ml_fo l @ map (\<lambda>(t, _, _). instrument (oc_ExchangeSeg chain) t) toks,
       ml_cash = ml_cash l @ [instrument (cf_CashSegment cfg) (cf_CashToken cfg)]\<rparr>)"

fun build_lists :: "'b network \<Rightarrow> json_codec \<Rightarrow> md_state \<Rightarrow> fetch_Client \<Rightarrow> caldate \<Rightarrow> (string \<times> chain_Config) list \<Rightarrow> md_lists \<Rightarrow> 'b \<Rightarrow> (md_lists \<times> 'b) option" where
  "build_lists net codec st c today [] l b = Some (l, b)"
| "build_lists net codec st c today ((symb, cfg) # rest) l b = (case symbol_chain net codec st c today symb cfg b of
      None \<Rightarrow> None
    | Some (chain, b) \<Rightarrow> build_lists net codec st c today rest (case chain of Some ch \<Rightarrow> add_chain symb cfg ch l | None \<Rightarrow> l) b)"

definition gateway_lists ::
    "((string \<times> chain_Config) list \<Rightarrow> (string \<times> chain_Config) list) \<Rightarrow> 'b network \<Rightarrow> json_codec \<Rightarrow> md_state \<Rightarrow> string \<Rightarrow> string \<Rightarrow> caldate \<Rightarrow> 'b \<Rightarrow> (md_lists \<times> 'b) option" where
  "gateway_lists ord net codec st token userID today b =
     build_lists net codec st \<lparr>fc_BaseURL = mdBaseURL @ ''/apimarketdata'', fc_Token = token, fc_UserID = userID\<rparr> today (ord SymbolConfigs)
       \<lparr>ml_csv = [''Token,Symbol,Strike,OptionType'' @ [CHR 0x0A]], ml_fo = [], ml_cash = []\<rparr> b"

section \<open>Subscriptions\<close>

function batches :: "'a list \<Rightarrow> 'a list list" where
  "batches xs = (if xs = [] then [] else take 45 xs # batches (drop 45 xs))"
  by pat_completeness auto

termination by (relation "measure length") auto

declare batches.simps [simp del]

definition Subscribe :: "json_codec \<Rightarrow> json list \<Rightarrow> int \<Rightarrow> string option" where
  "Subscribe codec instruments msgCode =
     (if msgCode \<in> {1510, 1502, 1501} then None
      else Some (''42'' @ cd_Marshal codec (JArr [JStr ''join'', JObj [(''instruments'', JArr instruments), (''xtsMessageCode'', JNum (of_int msgCode))]])))"

definition subscriptions :: "json_codec \<Rightarrow> md_lists \<Rightarrow> string list" where
  "subscriptions codec l =
     List.map_filter (\<lambda>(is, code). Subscribe codec is code)
       (map (\<lambda>is. (is, 1512)) (batches (ml_fo l)) @ (if ml_cash l \<noteq> [] then [(ml_cash l, 1510)] else []))"

section \<open>internal/socketio\<close>

definition hex_value :: "char \<Rightarrow> nat option" where
  "hex_value c = (let n = (of_char c :: nat) in
     if 48 \<le> n \<and> n \<le> 57 then Some (n - 48) else if 97 \<le> n \<and> n \<le> 102 then Some (n - 87)
     else if 65 \<le> n \<and> n \<le> 70 then Some (n - 55) else None)"

definition hex_number :: "string \<Rightarrow> nat option" where
  "hex_number s = foldl (\<lambda>a c. case (a, hex_value c) of (Some v, Some d) \<Rightarrow> Some (16 * v + d) | _ \<Rightarrow> None) (Some 0) s"

definition utf8 :: "nat \<Rightarrow> string" where
  "utf8 v = map char_of
     (if v < 128 then [v]
      else if v < 2048 then [192 + v div 64, 128 + v mod 64]
      else if v < 65536 then [224 + v div 4096, 128 + v div 64 mod 64, 128 + v mod 64]
      else [240 + v div 262144, 128 + v div 4096 mod 64, 128 + v div 64 mod 64, 128 + v mod 64])"

definition valid_rune :: "nat \<Rightarrow> bool" where
  "valid_rune v \<longleftrightarrow> v < 1114112 \<and> \<not> (55296 \<le> v \<and> v < 57344)"

definition take_exactly :: "nat \<Rightarrow> string \<Rightarrow> string option" where
  "take_exactly n s = (if length s < n then None else Some (take n s))"

definition octal_number :: "string \<Rightarrow> nat option" where
  "octal_number s =
     (if list_all (\<lambda>c. CHR ''0'' = c \<or> (49 \<le> (of_char c :: nat) \<and> (of_char c :: nat) \<le> 55)) s
      then let v = foldl (\<lambda>a c. 8 * a + digit_val c) 0 s in (if v < 256 then Some v else None) else None)"

text \<open>An escape sequence after its backslash: the bytes it stands for and the number of characters it takes.\<close>

definition unescape :: "string \<Rightarrow> (string \<times> nat) option" where
  "unescape s = (case s of
      [] \<Rightarrow> None
    | c # r \<Rightarrow>
        (case map_of [(CHR ''a'', 7), (CHR ''b'', 8), (CHR ''f'', 12), (CHR ''n'', 10), (CHR ''r'', 13), (CHR ''t'', 9), (CHR ''v'', 11)] c of
           Some n \<Rightarrow> Some ([char_of (n :: nat)], 1)
         | None \<Rightarrow>
             if c = CHR 0x5C \<or> c = dq then Some ([c], 1)
             else if c = CHR ''x'' then map_option (\<lambda>v. ([char_of v], 3)) (Option.bind (take_exactly 2 r) hex_number)
             else if c = CHR ''u'' then Option.bind (Option.bind (take_exactly 4 r) hex_number) (\<lambda>v. if valid_rune v then Some (utf8 v, 5) else None)
             else if c = CHR ''U'' then Option.bind (Option.bind (take_exactly 8 r) hex_number) (\<lambda>v. if valid_rune v then Some (utf8 v, 9) else None)
             else map_option (\<lambda>v. ([char_of v], 3)) (Option.bind (take_exactly 3 s) octal_number)))"

function unquote_chars :: "string \<Rightarrow> string option" where
  "unquote_chars [] = Some []"
| "unquote_chars (c # r) =
     (if c = dq \<or> c = CHR 0x0A then None
      else if c \<noteq> CHR 0x5C then map_option (\<lambda>t. c # t) (unquote_chars r)
      else case unescape r of None \<Rightarrow> None | Some (out, n) \<Rightarrow> map_option (\<lambda>t. out @ t) (unquote_chars (drop n r)))"
  by pat_completeness auto

termination by (relation "measure length") auto

text \<open>\<^verbatim>\<open>strconv.Unquote\<close> for a text in double quotes.\<close>

definition Unquote :: "string \<Rightarrow> string option" where
  "Unquote s = (if length s < 2 \<or> hd s \<noteq> dq \<or> last s \<noteq> dq then None else unquote_chars (butlast (tl s)))"

text \<open>
  One message of the Socket.IO connection: the texts that are sent back and the ones that are published, or
  the panic of a slice whose bounds are out of order.
\<close>

definition event_data :: "string \<Rightarrow> (goerr + string list)" where
  "event_data msg =
     (case text_after '','' msg of
        None \<Rightarrow> Inr []
      | Some rest \<Rightarrow>
          if rest = [] then Inl (GoPanic ''slice bounds out of range'')
          else let dataPart = TrimSpace (butlast rest) in
            (case (if HasPrefix dataPart [dq] \<and> HasSuffix dataPart [dq] then Unquote dataPart else None) of
               Some u \<Rightarrow> Inr [u]
             | None \<Rightarrow> Inr [dataPart]))"

definition engine_message :: "string \<Rightarrow> goerr + (string list \<times> string list)" where
  "engine_message msg =
     (if HasPrefix msg ''2'' then Inr ([''3''], [])
      else if HasPrefix msg ''3'' then Inr ([], [])
      else if HasPrefix msg ''0'' then Inr ([''40''], [])
      else if HasPrefix msg ''40'' then Inr ([], [])
      else if HasPrefix msg ''42'' \<and> (Contains msg ''1512-json'' \<or> Contains msg ''1510-json'' \<or> Contains msg ''1502-json'') then
        (case event_data msg of Inl e \<Rightarrow> Inl e | Inr ps \<Rightarrow> Inr ([], ps))
      else Inr ([], []))"

end
