(* ===== verification/Market_Data_Proofs.thy ===== *)
theory Market_Data_Proofs
  imports Market_Data
begin

text \<open>
  Properties of the market data gateway: the expiries that are tried are exactly those that have not
  passed, in order; the loop over the strikes ends and covers the spot price with forty strikes on both
  sides; the option instruments are subscribed exactly once, in batches of at most 45, and a quoted payload
  is published unquoted.
\<close>

section \<open>Lemmas\<close>

lemma batches_Cons: "xs \<noteq> [] \<Longrightarrow> batches xs = take 45 xs # batches (drop 45 xs)"
  by (subst batches.simps) simp

lemma batches_Nil [simp]: "batches [] = []"
  by (subst batches.simps) simp

lemma concat_batches: "concat (batches xs) = xs"
proof (induction xs rule: batches.induct)
  case (1 xs)
  then show ?case by (cases "xs = []") (simp_all add: batches_Cons)
qed

lemma batches_size: "b \<in> set (batches xs) \<Longrightarrow> b \<noteq> [] \<and> length b \<le> 45"
proof (induction xs rule: batches.induct)
  case (1 xs)
  then show ?case by (cases "xs = []") (auto simp: batches_Cons)
qed

lemma config_cases:
  assumes "gm_get SymbolConfigs symbol = Some cfg"
  shows "cf_Gap cfg \<in> {25, 50, 100}"
  using assms by (auto simp: SymbolConfigs_def gm_get_def split: if_splits)

lemma upcoming_sorted: "sorted (sort (upcoming today es))" "mset (sort (upcoming today es)) = mset (upcoming today es)"
  by simp_all

lemma quantum_bound: "0 < x \<Longrightarrow> x \<le> pow2 41 \<Longrightarrow> quantum x \<le> pow2 (- 11)"
proof -
  assume x: "0 < x" "x \<le> pow2 41"
  then have "ilog2 x \<le> 41" using ilog2_mono [of x "pow2 41"] by simp
  then show ?thesis using x by (simp add: quantum_def)
qed

text \<open>Rounding to \<^verbatim>\<open>float64\<close> moves a price of at most \<open>2 ^ 41\<close> by less than one part in 4096.\<close>

lemma rnd_near:
  assumes "0 \<le> x" "x \<le> 2 ^ 41"
  obtains y where "rnd x = Fin y" "\<bar>y - x\<bar> \<le> 1 / 4096" "0 \<le> y"
proof -
  have p: "pow2 41 = 2 ^ 41" using pow2_of_nat [of 41] by simp
  have q: "pow2 (- 11) = 1 / 2048" by (simp add: pow2_def power_int_minus divide_simps)
  have near: "\<bar>rnd_rat x - x\<bar> \<le> 1 / 4096"
  proof (cases "x = 0")
    case False
    then have b: "quantum x \<le> 1 / 2048" using quantum_bound [of x] assms p q by simp
    have "\<bar>of_int (round_even (x / quantum x)) - x / quantum x\<bar> \<le> 1 / 2" by (rule round_even_near)
    then have "\<bar>of_int (round_even (x / quantum x)) - x / quantum x\<bar> * \<bar>quantum x\<bar> \<le> 1 / 2 * quantum x"
      by (intro mult_mono) (simp_all add: less_imp_le abs_of_pos)
    moreover have "(of_int (round_even (x / quantum x)) - x / quantum x) * quantum x = rnd_rat x - x"
      using False by (simp add: rnd_rat_def left_diff_distrib)
    ultimately have "\<bar>rnd_rat x - x\<bar> \<le> 1 / 2 * quantum x" by (simp flip: abs_mult)
    then show ?thesis using b by linarith
  qed simp
  have n: "0 \<le> rnd_rat x" using assms(1) by (rule rnd_rat_nonneg)
  have "\<not> (rnd_rat x \<noteq> 0 \<and> 1024 \<le> ilog2 \<bar>rnd_rat x\<bar>)"
  proof
    assume c: "rnd_rat x \<noteq> 0 \<and> 1024 \<le> ilog2 \<bar>rnd_rat x\<bar>"
    have "rnd_rat x \<le> x + 1 / 4096" using near by linarith
    also have "\<dots> \<le> pow2 42" using assms(2) pow2_of_nat [of 42] by simp
    finally have "rnd_rat x \<le> pow2 42" .
    then have "ilog2 (rnd_rat x) \<le> 42" using ilog2_mono [of "rnd_rat x" "pow2 42"] n c by simp
    then show False using c n by simp
  qed
  then have "rnd x = Fin (rnd_rat x)" by (auto simp: rnd_def Let_def)
  then show thesis using near n that by blast
qed

lemma fadd_int: "\<bar>m + n\<bar> \<le> 2 ^ 53 \<Longrightarrow> fadd (Fin (of_int m)) (Fin (of_int n)) = Fin (of_int (m + n))"
  using rnd_int [of "m + n"] by simp

lemma strike_loop_exact:
  assumes row: "\<And>r b. sr_Strike (fst (row r b)) = r" and gap: "0 < gap"
  shows "\<bar>s\<bar> + int (Suc n) * gap \<le> 2 ^ 53 \<Longrightarrow>
    \<exists>rows b'. strike_loop row (Fin (of_int gap)) (Fin (of_int (s + int n * gap))) (Fin (of_int s)) b = Some (rows, b') \<and>
      map sr_Strike rows = map (\<lambda>i. Fin (of_int (s + int i * gap))) [0..<Suc n]"
proof (induction n arbitrary: s b)
  case 0
  obtain r b1 where r: "row (Fin (of_int s)) b = (r, b1)" by (cases "row (Fin (of_int s)) b")
  have sum: "fadd (Fin (of_int s)) (Fin (of_int gap)) = Fin (of_int (s + gap))" using 0 gap by (intro fadd_int) simp
  have "strike_loop row (Fin (of_int gap)) (Fin (of_int s)) (Fin (of_int (s + gap))) b1 = Some ([], b1)"
    using gap by (subst strike_loop.simps) simp
  moreover have "sr_Strike r = Fin (of_int s)" using row [of "Fin (of_int s)" b] r by simp
  ultimately show ?case by (subst strike_loop.simps) (simp add: r sum del: fadd.simps of_int_add)
next
  case (Suc n)
  obtain r b1 where r: "row (Fin (of_int s)) b = (r, b1)" by (cases "row (Fin (of_int s)) b")
  have "\<bar>s + gap\<bar> + int (Suc n) * gap \<le> \<bar>s\<bar> + gap + int (Suc n) * gap" using gap by simp
  also have "\<dots> = \<bar>s\<bar> + int (Suc (Suc n)) * gap" by (simp add: distrib_right)
  finally have b: "\<bar>s + gap\<bar> + int (Suc n) * gap \<le> 2 ^ 53" using Suc.prems by linarith
  moreover have "0 \<le> int (Suc n) * gap" using gap by simp
  ultimately have sum: "fadd (Fin (of_int s)) (Fin (of_int gap)) = Fin (of_int (s + gap))" by (intro fadd_int) linarith
  have e: "s + gap + int n * gap = s + int (Suc n) * gap" by (simp add: distrib_right)
  obtain rows b' where IH: "strike_loop row (Fin (of_int gap)) (Fin (of_int (s + int (Suc n) * gap))) (Fin (of_int (s + gap))) b1 = Some (rows, b')"
      "map sr_Strike rows = map (\<lambda>i. Fin (of_int (s + gap + int i * gap))) [0..<Suc n]"
    using Suc.IH [OF b, of b1] unfolding e by blast
  have le: "fle (Fin (of_int s)) (Fin (of_int (s + int (Suc n) * gap)))" using gap by (simp only: fle_Fin of_int_le_iff) simp
  have st: "sr_Strike r = Fin (of_int s)" using row [of "Fin (of_int s)" b] r by simp
  have "strike_loop row (Fin (of_int gap)) (Fin (of_int (s + int (Suc n) * gap))) (Fin (of_int s)) b = Some (r # rows, b')"
    by (subst strike_loop.simps) (simp only: le r sum IH(1) if_True prod.case Option.bind.simps bind.simps)
  moreover have "map sr_Strike (r # rows) = map (\<lambda>i. Fin (of_int (s + int i * gap))) [0..<Suc (Suc n)]"
    using st IH(2) by (simp add: map_upt_Suc algebra_simps del: upt_Suc)
  ultimately show ?case by blast
qed

lemma subscriptions_batched:
  "subscriptions codec l = map (\<lambda>is. ''42'' @ cd_Marshal codec (JArr [JStr ''join'', JObj [(''instruments'', JArr is), (''xtsMessageCode'', JNum 1512)]])) (batches (ml_fo l))"
  by (simp add: subscriptions_def Subscribe_def List.map_filter_def comp_def)

text \<open>A payload that XTS sends as a quoted text is published as the payload itself.\<close>

definition escape :: "string \<Rightarrow> string" where
  "escape s = concat (map (\<lambda>c. if c = dq \<or> c = CHR 0x5C then [CHR 0x5C, c] else [c]) s)"

lemma unescape_self: "c = dq \<or> c = CHR 0x5C \<Longrightarrow> unescape (c # r) = Some ([c], 1)"
  by (auto simp: unescape_def dq_def)

lemma unquote_escape: "CHR 0x0A \<notin> set s \<Longrightarrow> unquote_chars (escape s) = Some s"
proof (induction s)
  case (Cons c s)
  then show ?case by (cases "c = dq \<or> c = CHR 0x5C") (auto simp: escape_def unescape_self dq_def)
qed (simp add: escape_def)

lemma Unquote_escape: "CHR 0x0A \<notin> set s \<Longrightarrow> Unquote (quoted (escape s)) = Some s"
  by (simp add: Unquote_def quoted_def unquote_escape)

text \<open>The at-the-money strike is a multiple of the gap next to the spot price.\<close>

lemma half_gap: "G \<in> {25, 50, 100} \<Longrightarrow> rnd (G / 2) = Fin (G / 2)"
proof -
  have p: "pow2 3 = 8" "pow2 4 = 16" using pow2_of_nat [of 3] pow2_of_nat [of 4] by simp_all
  have q: "pow2 (- 49) = 1 / 2 ^ 49" using pow2_diff [of 0 49] pow2_of_nat [of 49] by simp
  have e: "25 / 2 / pow2 (3 - 52) = of_int (25 * 2 ^ 48)" by (simp add: q)
  have "rnd (25 / 2) = Fin (of_int (25 * 2 ^ 48) * pow2 (3 - 52))"
    by (rule rnd_eval) (simp_all only: e round_even_of_int, simp_all add: p)
  then have "rnd (25 / 2) = Fin (25 / 2)" by (simp add: q)
  moreover have "rnd 25 = Fin 25" "rnd 50 = Fin 50" using rnd_int [of 25] rnd_int [of 50] by simp_all
  ultimately show "G \<in> {25, 50, 100} \<Longrightarrow> rnd (G / 2) = Fin (G / 2)" by auto
qed

lemma atm_strike_near:
  assumes g: "cf_Gap cfg \<in> {25, 50, 100}" and r: "0 < r" "r \<le> 2 ^ 40"
  obtains q where "atm_strike cfg (Fin r) = Fin (of_int (q * cf_Gap cfg))" "0 \<le> q * cf_Gap cfg" "q * cf_Gap cfg \<le> 2 ^ 41"
    "\<bar>of_int (q * cf_Gap cfg) - r\<bar> \<le> of_int (cf_Gap cfg) / 2 + 1 / 10"
proof -
  define G :: rat where "G = of_int (cf_Gap cfg)"
  have G: "G \<in> {25, 50, 100}" using g by (auto simp: G_def)
  have gap: "itof (cf_Gap cfg) = Fin G" unfolding G_def using g by (intro itof_exact) auto
  have "0 \<le> r + G / 2" "r + G / 2 \<le> 2 ^ 41" using r G by auto
  then obtain y where y: "rnd (r + G / 2) = Fin y" "\<bar>y - (r + G / 2)\<bar> \<le> 1 / 4096" "0 \<le> y" by (rule rnd_near)
  have y': "y \<le> r + G / 2 + 1 / 4096" "r + G / 2 - 1 / 4096 \<le> y" using y(2) by linarith+
  then have "y \<le> 2 ^ 41" using r(2) G by auto
  then have "0 \<le> y / G" "y / G \<le> 2 ^ 41" using y(3) G by auto
  then obtain z where z: "rnd (y / G) = Fin z" "\<bar>z - y / G\<bar> \<le> 1 / 4096" "0 \<le> z" by (rule rnd_near)
  have "z \<le> y / G + 1 / 4096" "y / G - 1 / 4096 \<le> z" using z(2) by linarith+
  then have zz: "z * G \<le> y + G / 4096" "y - G / 4096 \<le> z * G" using G by auto
  define q where "q = \<lfloor>z\<rfloor>"
  have q: "of_int q \<le> z" "z < of_int q + 1" using floor_correct [of z] by (simp_all add: q_def)
  have q0: "0 \<le> q" using z(3) by (simp add: q_def)
  have bounds: "of_int (q * cf_Gap cfg) \<le> z * G" "z * G < of_int (q * cf_Gap cfg) + G"
    using q G by (auto simp: G_def[symmetric] algebra_simps)
  have near: "\<bar>of_int (q * cf_Gap cfg) - r\<bar> \<le> of_int (cf_Gap cfg) / 2 + 1 / 10"
  proof -
    have "G \<le> 100" using G by auto
    then show ?thesis using bounds zz y' unfolding G_def [symmetric] by linarith
  qed
  have pos: "0 \<le> q * cf_Gap cfg" using q0 g by auto
  have "of_int (q * cf_Gap cfg) \<le> r + G / 2 + 1 / 10" using near unfolding G_def by linarith
  then have "of_int (q * cf_Gap cfg) \<le> (of_int (2 ^ 41) :: rat)" using r(2) G by auto
  then have le: "q * cf_Gap cfg \<le> 2 ^ 41" by (simp only: of_int_le_iff)
  have "q \<le> q * cf_Gap cfg" using q0 g by auto
  then have i64: "int64_ok q" "int64_ok (q * cf_Gap cfg)" using q0 pos le by (auto simp: int64_ok_def)
  have "ftoi (Fin z) = q" using z(3) i64(1) by (simp add: trunc_rat_def q_def)
  moreover have "ftoi (Fin G) = cf_Gap cfg" using g by (auto simp: G_def trunc_rat_def int64_ok_def)
  moreover have "G \<noteq> 0" using G by auto
  ultimately have "atm_strike cfg (Fin r) = itof (q * cf_Gap cfg)"
    using i64(2) by (simp add: atm_strike_def gap half_gap [OF G] y(1) z(1) i64_mul_def)
  moreover have "\<dots> = Fin (of_int (q * cf_Gap cfg))" using pos le by (intro itof_exact) simp
  ultimately show thesis using that pos le near by metis
qed

lemma strike_row_strike: "sr_Strike (fst (strike_row net c cfg symbol expiry r b)) = r"
  by (simp add: strike_row_def split: prod.split)

lemma BuildChain_exact:
  assumes cfg: "gm_get SymbolConfigs symbol = Some cfg" and a: "0 \<le> a" "a \<le> 2 ^ 41"
  shows "\<exists>chain b'. BuildChain net c symbol expiry (Fin (of_int a)) 40 b = Some (Inr chain, b') \<and>
    map sr_Strike (oc_Strikes chain) = map (\<lambda>i. Fin (of_int (a - 40 * cf_Gap cfg + int i * cf_Gap cfg))) [0..<81]"
proof -
  have g: "cf_Gap cfg \<in> {25, 50, 100}" by (rule config_cases [OF cfg])
  have gap: "itof (cf_Gap cfg) = Fin (of_int (cf_Gap cfg))" using g by (intro itof_exact) auto
  have w: "fmul (itof 40) (itof (cf_Gap cfg)) = Fin (of_int (40 * cf_Gap cfg))"
    unfolding gap using g rnd_int [of "40 * cf_Gap cfg"] itof_exact [of 40] by auto
  have hi: "fadd (Fin (of_int a)) (Fin (of_int (40 * cf_Gap cfg))) = Fin (of_int (a - 40 * cf_Gap cfg + int 80 * cf_Gap cfg))"
    using a g fadd_int [of a "40 * cf_Gap cfg"] by auto
  have lo: "fsub (Fin (of_int a)) (Fin (of_int (40 * cf_Gap cfg))) = Fin (of_int (a - 40 * cf_Gap cfg))"
    using a g fadd_int [of a "- (40 * cf_Gap cfg)"] by (auto simp: fsub_def)
  have "\<bar>a - 40 * cf_Gap cfg\<bar> + int (Suc 80) * cf_Gap cfg \<le> 2 ^ 53" using a g by auto
  from strike_loop_exact [where row = "strike_row net c cfg symbol expiry" and b = b, OF strike_row_strike _ this]
  obtain rows b' where "strike_loop (strike_row net c cfg symbol expiry) (Fin (of_int (cf_Gap cfg)))
      (Fin (of_int (a - 40 * cf_Gap cfg + int 80 * cf_Gap cfg))) (Fin (of_int (a - 40 * cf_Gap cfg))) b = Some (rows, b')"
    "map sr_Strike rows = map (\<lambda>i. Fin (of_int (a - 40 * cf_Gap cfg + int i * cf_Gap cfg))) [0..<Suc 80]"
    using g by auto
  then show ?thesis unfolding BuildChain_def cfg option.case Let_def w [unfolded gap] gap hi lo by auto
qed

section \<open>Properties\<close>

text \<open>
  C25. For every supported symbol and every finite spot price up to \<open>2 ^ 40\<close> the loop of
  \<^verbatim>\<open>BuildChain\<close> ends, whatever the network answers, and the chain has exactly 81 strikes: the
  at-the-money strike, which is the multiple of the gap next to the spot price (at most half a gap and a
  tenth of a point away), and forty multiples of the gap on both sides, in ascending order.
\<close>

theorem chain_covers_spot:
  assumes "gm_get SymbolConfigs symbol = Some cfg" "0 < r" "r \<le> 2 ^ 40"
  shows "\<exists>chain b' q. BuildChain net c symbol expiry (atm_strike cfg (Fin r)) 40 b = Some (Inr chain, b') \<and>
    \<bar>of_int (q * cf_Gap cfg) - r\<bar> \<le> of_int (cf_Gap cfg) / 2 + 1 / 10 \<and>
    map sr_Strike (oc_Strikes chain) = map (\<lambda>i. Fin (of_int ((q - 40 + int i) * cf_Gap cfg))) [0..<81]"
proof -
  obtain q where q: "atm_strike cfg (Fin r) = Fin (of_int (q * cf_Gap cfg))" "0 \<le> q * cf_Gap cfg" "q * cf_Gap cfg \<le> 2 ^ 41"
    "\<bar>of_int (q * cf_Gap cfg) - r\<bar> \<le> of_int (cf_Gap cfg) / 2 + 1 / 10"
    using atm_strike_near [OF config_cases [OF assms(1)] assms(2,3)] by blast
  have e: "q * cf_Gap cfg - 40 * cf_Gap cfg + int i * cf_Gap cfg = (q - 40 + int i) * cf_Gap cfg" for i
    by (simp add: algebra_simps)
  show ?thesis using BuildChain_exact [OF assms(1) q(2,3), of net c expiry b] q(4) unfolding q(1) e by metis
qed

definition silent_network :: "unit network" where
  "silent_network call b = (HttpFail (GoErr ''timeout''), b)"

theorem chain_covers_spot_witness:
  "\<exists>chain b' q. BuildChain silent_network \<lparr>fc_BaseURL = '''', fc_Token = '''', fc_UserID = ''''\<rparr> ''NIFTY'' ''28Jul2026''
      (atm_strike (snd (SymbolConfigs ! 0)) (Fin 24613)) 40 () = Some (Inr chain, b') \<and>
    \<bar>of_int (q * 50) - (24613 :: rat)\<bar> \<le> 50 / 2 + 1 / 10 \<and>
    map sr_Strike (oc_Strikes chain) = map (\<lambda>i. Fin (of_int ((q - 40 + int i) * 50))) [0..<81]"
proof -
  have "gm_get SymbolConfigs ''NIFTY'' = Some (snd (SymbolConfigs ! 0))" by (simp add: SymbolConfigs_def gm_get_def)
  from chain_covers_spot [OF this, of 24613 silent_network "\<lparr>fc_BaseURL = '''', fc_Token = '''', fc_UserID = ''''\<rparr>" "''28Jul2026''" "()"]
  show ?thesis by (simp add: SymbolConfigs_def del: upt_Suc)
qed

text \<open>
  When XTS answers, the expiries that are tried are the days of the answer that parse and have not
  passed, each as often as it is listed, from the nearest to the farthest; and it is an error exactly when
  there is none.
\<close>

theorem active_expiries_are_upcoming:
  assumes "FetchExpiryDates net c 2 ''OPTIDX'' symbol b = (Inr es, b')"
  shows "\<exists>ds. fst (getActiveExpiries net c today symbol b) = (if ds = [] then Inl (GoErr ''no expiries found'') else Inr (map fmt_ddMonYYYY ds)) \<and>
    sorted ds \<and> (\<forall>d. count (mset ds) d = (if today \<le> d then length (filter (\<lambda>e. time_Parse L_date (hd (SplitChar e (CHR ''T''))) = Some d) es) else 0))"
proof (intro exI [of _ "sort (upcoming today es)"] conjI allI)
  have s: "sort xs = [] \<longleftrightarrow> xs = []" for xs :: "caldate list" by (metis length_0_conv length_sort)
  show "fst (getActiveExpiries net c today symbol b) =
      (if sort (upcoming today es) = [] then Inl (GoErr ''no expiries found'') else Inr (map fmt_ddMonYYYY (sort (upcoming today es))))"
    by (simp add: getActiveExpiries_def assms s Let_def)
  show "count (mset (sort (upcoming today es))) d =
      (if today \<le> d then length (filter (\<lambda>e. time_Parse L_date (hd (SplitChar e (CHR ''T''))) = Some d) es) else 0)" for d
    by (induction es) (auto simp: upcoming_def List.map_filter_def not_less split: option.splits)
qed simp

definition expiry_network :: "unit network" where
  "expiry_network call b = (HttpReply 200 '''' (Inr (JObj [(''result'', JArr [JStr ''2026-08-27T14:30:00'', JStr ''2026-07-28T14:30:00'', JStr ''2020-01-02T14:30:00''])])), b)"

lemma expiry_sample: "FetchExpiryDates expiry_network \<lparr>fc_BaseURL = '''', fc_Token = '''', fc_UserID = ''''\<rparr> 2 ''OPTIDX'' ''NIFTY'' () =
    (Inr [''2026-08-27T14:30:00'', ''2026-07-28T14:30:00'', ''2020-01-02T14:30:00''], ())"
proof -
  have f: "json_field [(''result'', j)] ''type'' = None" "json_field [(''result'', j)] ''description'' = None" "json_field [(''result'', j)] ''result'' = Some j" for j
  proof -
    have "\<not> EqualFold ''result'' ''type''" "\<not> EqualFold ''result'' ''description''" "EqualFold ''result'' ''result''" by code_simp+
    then show "json_field [(''result'', j)] ''type'' = None" "json_field [(''result'', j)] ''description'' = None" "json_field [(''result'', j)] ''result'' = Some j"
      by (simp_all add: json_field_def)
  qed
  show ?thesis by (simp add: FetchExpiryDates_def fetch_get_def expiry_network_def decode_body_def decode_expiries_def top_obj_def fld_str_def fld_list_def f)
qed

theorem active_expiries_are_upcoming_witness:
  "\<exists>ds. fst (getActiveExpiries expiry_network \<lparr>fc_BaseURL = '''', fc_Token = '''', fc_UserID = ''''\<rparr> (CalDate 2026 7 1) ''NIFTY'' ()) =
      (if ds = [] then Inl (GoErr ''no expiries found'') else Inr (map fmt_ddMonYYYY ds)) \<and> sorted ds"
  using active_expiries_are_upcoming [OF expiry_sample, of "CalDate 2026 7 1"] by blast

end
