(* ===== verification/Trading_Clients.thy ===== *)
theory Trading_Clients
  imports Trading_Brokers Go_Time
begin

text \<open>
  What the execution gateway is connected to: the clients of the snapshot service and the contract master
  (\<^verbatim>\<open>clients.go\<close>), its configuration (\<^verbatim>\<open>config.go\<close>, \<^verbatim>\<open>env.go\<close>) and the broker
  registrations of \<^verbatim>\<open>main.go\<close>.

  \<^verbatim>\<open>url.Parse\<close> accepts the addresses of the configuration, so making a request does not fail. A
  body whose reading fails is one that does not decode.
\<close>

section \<open>Decoding\<close>

definition fld_bool :: "(string \<times> json) list \<Rightarrow> string \<Rightarrow> bool option" where
  "fld_bool m k = (case json_field m k of None \<Rightarrow> Some False | Some j \<Rightarrow> (case j of JNull \<Rightarrow> Some False | JBool b \<Rightarrow> Some b | _ \<Rightarrow> None))"

definition fld_arr :: "(json \<Rightarrow> 'r option) \<Rightarrow> (string \<times> json) list \<Rightarrow> string \<Rightarrow> 'r list option" where
  "fld_arr decode m k = (case json_field m k of None \<Rightarrow> Some [] | Some j \<Rightarrow> (case j of
      JNull \<Rightarrow> Some []
    | JArr js \<Rightarrow> (let rs = map decode js in if list_all (\<lambda>r. r \<noteq> None) rs then Some (map the rs) else None)
    | _ \<Rightarrow> None))"

definition decode_str :: "json \<Rightarrow> string option" where
  "decode_str j = (case j of JStr s \<Rightarrow> Some s | JNull \<Rightarrow> Some '''' | _ \<Rightarrow> None)"

definition decode_chain_row :: "json \<Rightarrow> OptionChainRow option" where
  "decode_chain_row j = do {
     m \<leftarrow> top_obj j;
     strike \<leftarrow> fld_float m ''strike''; ceToken \<leftarrow> fld_int m ''ce_token''; peToken \<leftarrow> fld_int m ''pe_token'';
     ceLtp \<leftarrow> fld_float m ''ce_ltp''; peLtp \<leftarrow> fld_float m ''pe_ltp'';
     ceDelta \<leftarrow> fld_float m ''ce_delta''; peDelta \<leftarrow> fld_float m ''pe_delta'';
     ceGamma \<leftarrow> fld_float m ''ce_gamma''; peGamma \<leftarrow> fld_float m ''pe_gamma'';
     ceTheta \<leftarrow> fld_float m ''ce_theta''; peTheta \<leftarrow> fld_float m ''pe_theta'';
     ceVega \<leftarrow> fld_float m ''ce_vega''; peVega \<leftarrow> fld_float m ''pe_vega'';
     ceIV \<leftarrow> fld_float m ''ce_iv''; peIV \<leftarrow> fld_float m ''pe_iv'';
     isATM \<leftarrow> fld_bool m ''is_atm''; ceSymbol \<leftarrow> fld_str m ''ce_symbol''; peSymbol \<leftarrow> fld_str m ''pe_symbol'';
     Some \<lparr>row_Strike = strike, row_CEToken = ceToken, row_PEToken = peToken, row_CELtp = ceLtp, row_PELtp = peLtp, row_CEDelta = ceDelta,
       row_PEDelta = peDelta, row_CEGamma = ceGamma, row_PEGamma = peGamma, row_CETheta = ceTheta, row_PETheta = peTheta, row_CEVega = ceVega,
       row_PEVega = peVega, row_CEIV = ceIV, row_PEIV = peIV, row_IsATM = isATM, row_CESymbol = ceSymbol, row_PESymbol = peSymbol\<rparr> }"

definition decode_chain_snapshot :: "(string \<times> json) list \<Rightarrow> OptionChainSnapshot option" where
  "decode_chain_snapshot m = do {
     symbol \<leftarrow> fld_str m ''symbol''; future \<leftarrow> fld_float m ''synthetic_future''; spot \<leftarrow> fld_float m ''synthetic_spot'';
     ltp \<leftarrow> fld_float m ''future_ltp''; atm \<leftarrow> fld_float m ''atm''; expiry \<leftarrow> fld_str m ''expiry'';
     expiries \<leftarrow> fld_arr decode_str m ''available_expiries''; lot \<leftarrow> fld_int m ''lot_size''; rows \<leftarrow> fld_arr decode_chain_row m ''chain'';
     Some \<lparr>ch_Symbol = symbol, ch_SyntheticFuture = future, ch_SyntheticSpot = spot, ch_FutureLtp = ltp, ch_ATM = atm, ch_Expiry = expiry,
       ch_AvailableExpiries = expiries, ch_LotSize = lot, ch_Chain = rows\<rparr> }"

definition decode_snapshot_reply :: "json \<Rightarrow> (bool \<times> OptionChainSnapshot \<times> string) option" where
  "decode_snapshot_reply j = do {
     m \<leftarrow> top_obj j; success \<leftarrow> fld_bool m ''success''; data \<leftarrow> fld_obj m ''data''; snap \<leftarrow> decode_chain_snapshot data; e \<leftarrow> fld_str m ''error'';
     Some (success, snap, e) }"

definition decode_lot_reply :: "json \<Rightarrow> (bool \<times> int \<times> string) option" where
  "decode_lot_reply j = do {
     m \<leftarrow> top_obj j; success \<leftarrow> fld_bool m ''success''; n \<leftarrow> fld_int m ''lot_size''; e \<leftarrow> fld_str m ''error''; Some (success, n, e) }"

section \<open>clients.go\<close>

text \<open>A GET whose answer must have status 200 and decode.\<close>

definition get_ok :: "'b network \<Rightarrow> string \<Rightarrow> string \<Rightarrow> string \<Rightarrow> string \<Rightarrow> (json \<Rightarrow> 'r option) \<Rightarrow> 'b \<Rightarrow> (goerr + 'r) \<times> 'b" where
  "get_ok net url failed returned parse decode b =
     (let (r, b) = net \<lparr>hc_Method = ''GET'', hc_URL = url, hc_Authorization = '''', hc_Body = None\<rparr> b in
      (case r of
         HttpFail e \<Rightarrow> Inl (GoWrap failed e)
       | HttpReadFail status e \<Rightarrow> if status \<noteq> 200 then Inl (GoErr (returned @ show_int status)) else Inl (GoWrap parse e)
       | HttpReply status _ doc \<Rightarrow>
           if status \<noteq> 200 then Inl (GoErr (returned @ show_int status))
           else (case doc of
               Inl e \<Rightarrow> Inl (GoWrap parse e)
             | Inr j \<Rightarrow> (case decode j of None \<Rightarrow> Inl (GoWrap parse (GoErr ''json: cannot unmarshal value'')) | Some v \<Rightarrow> Inr v)), b))"

definition snapshot_url :: "string \<Rightarrow> string \<Rightarrow> string \<Rightarrow> string" where
  "snapshot_url base symbol expiry =
     TrimRightChar base (CHR ''/'') @ ''/api/option-chain/'' @ PathEscape (TrimSpace symbol) @
     (if TrimSpace expiry \<noteq> '''' then ''?expiry='' @ QueryEscape (TrimSpace expiry) else '''')"

definition GetOptionChain :: "'b network \<Rightarrow> string \<Rightarrow> 'b snapshot_provider" where
  "GetOptionChain net base symbol expiry b =
     (let (r, b) = get_ok net (snapshot_url base symbol expiry) ''snapshot fetch failed: '' ''snapshot service returned '' ''snapshot parse error: '' decode_snapshot_reply b in
      (case r of
         Inl e \<Rightarrow> Inl e
       | Inr (success, snap, e) \<Rightarrow> if \<not> success then Inl (GoErr (''snapshot error: '' @ e)) else Inr snap, b))"

definition lot_url :: "string \<Rightarrow> string \<Rightarrow> string \<Rightarrow> string" where
  "lot_url base symbol expiry =
     TrimRightChar base (CHR ''/'') @ ''/api/lot-size?'' @
     (if TrimSpace expiry \<noteq> '''' then ''expiry='' @ QueryEscape (TrimSpace expiry) @ ''&'' else '''') @ ''symbol='' @ QueryEscape (TrimSpace symbol)"

definition LotSizeClient_GetLotSize :: "'b network \<Rightarrow> string \<Rightarrow> 'b lotsize_provider" where
  "LotSizeClient_GetLotSize net base symbol expiry b =
     (let (r, b) = get_ok net (lot_url base symbol expiry) ''lot size fetch failed: '' ''lot size API returned '' ''lot size parse error: '' decode_lot_reply b in
      (case r of
         Inl e \<Rightarrow> Inl e
       | Inr (success, n, e) \<Rightarrow> if \<not> success \<or> n \<le> 0 then Inl (GoErr (''lot size missing: '' @ e)) else Inr n, b))"

text \<open>In a layout only \<^verbatim>\<open>Jan\<close> is a month, so the layouts with \<^verbatim>\<open>JAN\<close> match that text only.\<close>

definition contract_layouts :: "layout list" where
  "contract_layouts =
     [[ZeroDay, MonthName, LongYear], [ZeroDay, Lit ''JAN'', LongYear], [ZeroDay, Lit ''-'', MonthName, Lit ''-'', LongYear],
      [ZeroDay, Lit ''-JAN-'', LongYear], [ZeroDay, Lit ''-'', MonthName, Lit ''-'', Year2], [ZeroDay, Lit ''-JAN-'', Year2],
      L_date, L_datetime, L_RFC3339]"

definition fmt_dd_Mon_yy :: "caldate \<Rightarrow> string" where
  "fmt_dd_Mon_yy d = pad2 (cd_day d) @ ''-'' @ short_months ! (cd_month d - 1) @ ''-'' @ pad2 (cd_year d mod 100)"

definition FormatExpiryForContractMaster :: "string \<Rightarrow> string" where
  "FormatExpiryForContractMaster expiry =
     (let s = TrimSpace expiry in
      if s = '''' then s
      else (case first_some (map (\<lambda>l. time_Parse l s) contract_layouts) of Some d \<Rightarrow> ToUpper (fmt_dd_Mon_yy d) | None \<Rightarrow> ToUpper s))"

section \<open>config.go and env.go\<close>

definition getEnv :: "(string \<Rightarrow> string) \<Rightarrow> string \<Rightarrow> string \<Rightarrow> string" where
  "getEnv getenv k d = (let v = TrimSpace (getenv k) in if v = '''' then d else v)"

definition getEnvInt :: "(string \<Rightarrow> string) \<Rightarrow> string \<Rightarrow> int \<Rightarrow> int" where
  "getEnvInt getenv k d = (let v = TrimSpace (getenv k) in if v = '''' then d else case ParseInt v of Some n \<Rightarrow> n | None \<Rightarrow> d)"

record gateway_Config =
  gc_ControlAPIPort :: string
  gc_SnapshotServiceURL :: string
  gc_ContractMasterURL :: string
  gc_ZMQEndpoint :: string
  gc_XTSClientID :: string
  gc_GreekAuthURL :: string
  gc_GreekRestURL :: string
  gc_GreekUsername :: string
  gc_GreekPassword :: string
  gc_GreekClientID :: string
  gc_GreekBrokerID :: int
  gc_GreekPanDob :: string

definition LoadConfig :: "(string \<Rightarrow> string) \<Rightarrow> gateway_Config" where
  "LoadConfig getenv =
     \<lparr>gc_ControlAPIPort = getEnv getenv ''CONTROL_API_PORT'' '':8005'',
      gc_SnapshotServiceURL = getEnv getenv ''SNAPSHOT_SERVICE_URL'' (''http'' @ ''://127.0.0.1:8003''),
      gc_ContractMasterURL = getEnv getenv ''CONTRACT_MASTER_URL'' (''http'' @ ''://127.0.0.1:8010''),
      gc_ZMQEndpoint = getEnv getenv ''ZMQ_ENDPOINT'' (''tcp'' @ ''://127.0.0.1:5557''),
      gc_XTSClientID = getEnv getenv ''XTS_CLIENT_ID'' '''',
      gc_GreekAuthURL = getEnv getenv ''GREEK_API_AUTH_URL'' (''http'' @ ''://greekapi.greeksoft.in:3001''),
      gc_GreekRestURL = getEnv getenv ''GREEK_API_REST_URL'' (''http'' @ ''://restapi.greeksoft.in:3434''),
      gc_GreekUsername = getEnv getenv ''GREEK_USERNAME'' '''',
      gc_GreekPassword = getEnv getenv ''GREEK_PASSWORD'' '''',
      gc_GreekClientID = getEnv getenv ''GREEK_CLIENT_ID'' (getEnv getenv ''GREEK_USERNAME'' ''''),
      gc_GreekBrokerID = getEnvInt getenv ''GREEK_BROKER_ID'' 22,
      gc_GreekPanDob = getEnv getenv ''GREEK_PAN_DOB'' ''01/01/1901''\<rparr>"

text \<open>One line of the \<^verbatim>\<open>.env\<close> file, and the file: a variable that is set already keeps its value.\<close>

definition env_line :: "string \<Rightarrow> (string \<times> string) option" where
  "env_line line0 =
     (let line = TrimSpace line0 in
      if line = '''' \<or> HasPrefix line ''#'' \<or> CHR ''='' \<notin> set line then None
      else Some (TrimSpace (takeWhile (\<lambda>c. c \<noteq> CHR ''='') line),
        TrimChar (TrimSpace (tl (dropWhile (\<lambda>c. c \<noteq> CHR ''='') line))) (CHR 0x22)))"

definition LoadEnv :: "string option \<Rightarrow> (string, string) gomap \<Rightarrow> (string, string) gomap" where
  "LoadEnv file env = (case file of
      None \<Rightarrow> env
    | Some data \<Rightarrow> foldl (\<lambda>env line. case env_line line of
          None \<Rightarrow> env
        | Some (key, val) \<Rightarrow> if gm_get env key \<in> {None, Some ''''} then gm_set key val env else env) env (SplitChar data (CHR 0x0A)))"

section \<open>main.go: the Greeksoft registration\<close>

text \<open>The executors that were logged in already, by account, are the clients that they hold.\<close>

definition greek_account :: "string \<Rightarrow> string" where
  "greek_account accountID = (let a = ToUpper (TrimSpace accountID) in if a = '''' then ''HRITIK'' else a)"

definition greek_config_error :: "gateway_Config \<Rightarrow> string option" where
  "greek_config_error cfg =
     (if TrimSpace (gc_GreekAuthURL cfg) = '''' then Some ''GREEK_API_AUTH_URL is required''
      else if TrimSpace (gc_GreekRestURL cfg) = '''' then Some ''GREEK_API_REST_URL is required''
      else if TrimSpace (gc_GreekPassword cfg) = '''' then Some ''GREEK_PASSWORD is required''
      else if gc_GreekBrokerID cfg \<le> 0 then Some ''GREEK_BROKER_ID is required''
      else if TrimSpace (gc_GreekPanDob cfg) = '''' then Some ''GREEK_PAN_DOB is required'' else None)"

definition greek_account_config :: "gateway_Config \<Rightarrow> string \<Rightarrow> AccountConfig" where
  "greek_account_config cfg accountID =
     \<lparr>ac_Name = ''greeksoft-'' @ ToLower accountID, ac_BrokerType = ''greeksoft'', ac_APIKey = accountID, ac_APISecret = gc_GreekPassword cfg,
      ac_ClientID = accountID, ac_Source = '''', ac_BrokerID = gc_GreekBrokerID cfg, ac_PanDob = gc_GreekPanDob cfg\<rparr>"

definition greek_executor :: "'b network \<Rightarrow> ('b \<Rightarrow> goerr option) \<Rightarrow> json_codec \<Rightarrow> (int, int) gomap \<Rightarrow> greek_Client \<Rightarrow> ((string, greek_Client) gomap \<times> 'b) executor" where
  "greek_executor net ctxErr cd gtokens c it s = (let (r, b) = greeksoft_ExecuteOrderIntent net ctxErr cd gtokens c it (snd s) in (r, (fst s, b)))"

definition greek_provider ::
    "'b network \<Rightarrow> (string \<Rightarrow> string) \<Rightarrow> (string \<Rightarrow> string) \<Rightarrow> ('b \<Rightarrow> goerr option) \<Rightarrow> json_codec \<Rightarrow> (int, int) gomap \<Rightarrow> gateway_Config \<Rightarrow>
     ((string, greek_Client) gomap \<times> 'b) provider" where
  "greek_provider net md5 getenv ctxErr cd gtokens cfg userID accountID0 s =
     (let accountID = greek_account accountID0 in
      case gm_get (fst s) accountID of
        Some c \<Rightarrow> (Inr (greek_executor net ctxErr cd gtokens c), s)
      | None \<Rightarrow> (case greek_config_error cfg of
          Some e \<Rightarrow> (Inl (GoErr e), s)
        | None \<Rightarrow>
            let (r, c, b) = PerformFullLogin net md5 getenv (NewClient (gc_GreekAuthURL cfg) (gc_GreekRestURL cfg)) (greek_account_config cfg accountID) (snd s) in
            (case r of
               Inl e \<Rightarrow> (Inl (GoWrap (''greeksoft login failed for account '' @ accountID @ '': '') e), (fst s, b))
             | Inr _ \<Rightarrow> (Inr (greek_executor net ctxErr cd gtokens c), (gm_set accountID c (fst s), b)))))"

section \<open>Lemmas\<close>

text \<open>An account is logged in at most once: after a success its executor comes from the map, without any request.\<close>

lemma greek_account_upper [simp]: "greek_account (ToUpper (TrimSpace a)) = greek_account a"
  by (simp add: greek_account_def)

lemma greek_login_once:
  assumes "greek_provider net md5 getenv ctxErr cd gtokens cfg u a s = (Inr ex, s')" "greek_account a' = greek_account a"
  shows "\<exists>c. ex = greek_executor net ctxErr cd gtokens c \<and> greek_provider net md5 getenv ctxErr cd gtokens cfg u' a' s' = (Inr ex, s')"
  using assms by (auto simp: greek_provider_def Let_def gm_get_set split: option.splits prod.splits sum.splits)

end
