(* ===== verification/Trading_Gateway.thy ===== *)
theory Trading_Gateway
  imports Trading_Clients
begin

text \<open>
  The HTTP side of the execution gateway: the handlers of \<^verbatim>\<open>handlers.go\<close> and
  \<^verbatim>\<open>manual\_hedge\_broker.go\<close>, and the routes and middleware of \<^verbatim>\<open>main.go\<close>.

  A response is the value that a handler encodes, not its text. A panic of a handler is caught by
  \<^verbatim>\<open>net/http\<close>, which drops the connection (\<open>Dropped\<close>) and keeps the state. Paths are in the
  clean form to which \<^verbatim>\<open>ServeMux\<close> redirects others. The orders in which Go ranges over maps, the
  order of the two goroutines of \<^verbatim>\<open>ManualSquareOff\<close> and the asks that it reads are arguments.

  Shown in \<^verbatim>\<open>Trading\_Gateway\_Proofs\<close>: whatever requests arrive, the store invariant holds; and the
  routes that only read send nothing to a broker or provider.
\<close>

section \<open>Requests\<close>

definition decode_deploy :: "json \<Rightarrow> DeployStraddleRequest option" where
  "decode_deploy j = do {
     m \<leftarrow> top_obj j;
     user \<leftarrow> fld_str m ''user_id''; brk \<leftarrow> fld_str m ''broker_name''; account \<leftarrow> fld_str m ''account_id''; segment \<leftarrow> fld_str m ''exchange_segment'';
     symbol \<leftarrow> fld_str m ''symbol''; lots \<leftarrow> fld_int m ''lots''; dn \<leftarrow> fld_bool m ''delta_neutral''; prod \<leftarrow> fld_str m ''product_type'';
     expiry \<leftarrow> fld_str m ''target_expiry''; strike \<leftarrow> fld_int m ''strike''; ce \<leftarrow> fld_int m ''ce_token''; pe \<leftarrow> fld_int m ''pe_token'';
     lotSize \<leftarrow> fld_int m ''lot_size''; ceStrike \<leftarrow> fld_int m ''ce_strike_price''; peStrike \<leftarrow> fld_int m ''pe_strike_price''; perCall \<leftarrow> fld_int m ''order_lots_per_call'';
     Some \<lparr>rq_UserID = user, rq_BrokerName = brk, rq_AccountID = account, rq_ExchangeSegment = segment, rq_Symbol = symbol, rq_Lots = lots,
       rq_DeltaNeutral = dn, rq_ProductType = prod, rq_TargetExpiry = expiry, rq_Strike = strike, rq_CEToken = ce, rq_PEToken = pe,
       rq_LotSize = lotSize, rq_CEStrikePrice = ceStrike, rq_PEStrikePrice = peStrike, rq_OrderLotsPerCall = perCall\<rparr> }"

text \<open>Of the other two requests, the fields that the handlers use; the others only have to decode.\<close>

definition floats_ok :: "(string \<times> json) list \<Rightarrow> string list \<Rightarrow> bool" where
  "floats_ok m ks \<longleftrightarrow> list_all (\<lambda>k. fld_float m k \<noteq> None) ks"

definition config_deploy :: "json \<Rightarrow> DeployStraddleRequest option" where
  "config_deploy j = do {
     m \<leftarrow> top_obj j;
     user \<leftarrow> fld_str m ''user_id''; brk \<leftarrow> fld_str m ''broker_name''; account \<leftarrow> fld_str m ''account_id''; segment \<leftarrow> fld_str m ''exchange_segment'';
     symbol \<leftarrow> fld_str m ''symbol''; size \<leftarrow> fld_int m ''size''; lots \<leftarrow> fld_int m ''lots''; perCall \<leftarrow> fld_int m ''order_lots_per_call'';
     expiry \<leftarrow> fld_str m ''target_expiry'';
     if strs_ok m [''entry_time'', ''exit_time'', ''sl_start_time'', ''hedge_start_time'', ''roll_start_time''] \<and>
        floats_ok m [''idv'', ''idv_divisor'', ''straddle_filter'', ''sl_bps'', ''buy_buffer'', ''sell_buffer'', ''hedge_div'', ''straddle_div'', ''roll_straddle_div'']
     then Some \<lparr>rq_UserID = user, rq_BrokerName = brk, rq_AccountID = account, rq_ExchangeSegment = segment, rq_Symbol = symbol,
       rq_Lots = (if size = 0 then lots else size), rq_DeltaNeutral = True, rq_ProductType = ''MIS'', rq_TargetExpiry = expiry, rq_Strike = 0,
       rq_CEToken = 0, rq_PEToken = 0, rq_LotSize = 0, rq_CEStrikePrice = 0, rq_PEStrikePrice = 0, rq_OrderLotsPerCall = perCall\<rparr>
     else None }"

definition custom_deploy :: "json \<Rightarrow> DeployStraddleRequest option" where
  "custom_deploy j = do {
     m \<leftarrow> top_obj j;
     user \<leftarrow> fld_str m ''userID''; brk \<leftarrow> fld_str m ''brokerName''; account \<leftarrow> fld_str m ''accountID''; segment \<leftarrow> fld_str m ''exchangeSegment'';
     symbol \<leftarrow> fld_str m ''symbol''; lots \<leftarrow> fld_int m ''lots''; ceStrike \<leftarrow> fld_int m ''ceStrikePrice''; peStrike \<leftarrow> fld_int m ''peStrikePrice'';
     dn \<leftarrow> fld_bool m ''deltaNeutral''; prod \<leftarrow> fld_str m ''productType''; perCall \<leftarrow> fld_int m ''orderLotsPerCall'';
     if floats_ok m [''hedgeMonitorInterval'', ''slMonitorInterval'', ''rollMonitorInterval'']
     then Some \<lparr>rq_UserID = user, rq_BrokerName = brk, rq_AccountID = account, rq_ExchangeSegment = segment, rq_Symbol = symbol, rq_Lots = lots,
       rq_DeltaNeutral = dn, rq_ProductType = prod, rq_TargetExpiry = '''', rq_Strike = 0, rq_CEToken = 0, rq_PEToken = 0, rq_LotSize = 0,
       rq_CEStrikePrice = ceStrike, rq_PEStrikePrice = peStrike, rq_OrderLotsPerCall = perCall\<rparr>
     else None }"

text \<open>The hedge request ignores decoding errors: a field of another type keeps its zero value.\<close>

definition decode_hedge :: "json option \<Rightarrow> ManualHedgeBrokerRequest" where
  "decode_hedge body =
     (let m = (case body of Some j \<Rightarrow> json_members j | None \<Rightarrow> []);
          str = (\<lambda>k. case fld_str m k of Some s \<Rightarrow> s | None \<Rightarrow> ''''); num = (\<lambda>k. case fld_int m k of Some n \<Rightarrow> n | None \<Rightarrow> 0);
          flo = (\<lambda>k. case fld_float m k of Some x \<Rightarrow> x | None \<Rightarrow> Fin 0) in
      \<lparr>mh_Direction = str ''direction'', mh_CESide = str ''ce_side'', mh_PESide = str ''pe_side'', mh_CEQuantity = num ''ce_quantity'',
       mh_PEQuantity = num ''pe_quantity'', mh_CELimitPrice = flo ''ce_limit_price'', mh_PELimitPrice = flo ''pe_limit_price''\<rparr>)"

definition decode_percentage :: "json option \<Rightarrow> f64" where
  "decode_percentage body = (case body of
      None \<Rightarrow> Fin 50
    | Some j \<Rightarrow> (case top_obj j of None \<Rightarrow> Fin 50 | Some m \<Rightarrow> (case fld_float m ''percentage'' of Some x \<Rightarrow> x | None \<Rightarrow> Fin 50)))"

section \<open>Responses\<close>

record manual_reply =
  mr_TradeUID :: string
  mr_Phase :: string
  mr_DryRun :: bool
  mr_Broker :: string
  mr_AccountID :: string
  mr_Results :: "ExecutionResult list"

datatype reply =
    Plain nat string
  | Failed nat string
  | FailedTrade nat string string
  | Dropped string
  | NoContent
  | HealthReply string
  | DeployReply DeployStraddleResponse
  | StatusReply string string
  | DoneReply string
  | ManualReply manual_reply
  | VerifyReply TradeSnapshot
  | TradesReply "StoredTrade list"
  | SnapshotReply TradeSnapshot
  | PnLReply "(string \<times> f64) list"
  | OrdersReply "StoredIntent list"
  | TradeReply StoredTrade "StoredIntent list"
  | SummaryReply ExecutionSummaryResponse
  | PlanReply SquareOffPlanResponse
  | RefreshReply RefreshTradeLifecycleResponse

definition fail_with :: "(string \<Rightarrow> reply) \<Rightarrow> goerr \<Rightarrow> reply" where
  "fail_with mk e = (case e of GoPanic m \<Rightarrow> Dropped m | _ \<Rightarrow> mk (Error e))"

record gateway_env =
  ge_np :: np_order
  ge_xp :: xp_order
  ge_trades :: trade_order
  ge_CEAsk :: "OptionChainRow \<Rightarrow> f64"
  ge_PEAsk :: "OptionChainRow \<Rightarrow> f64"
  ge_peFirst :: bool

section \<open>Handlers\<close>

definition path_parts :: "http_request \<Rightarrow> string list" where
  "path_parts r = SplitChar (TrimChar (hr_Path r) (CHR ''/'')) (CHR ''/'')"

definition deploy_handler :: "(json \<Rightarrow> DeployStraddleRequest option) \<Rightarrow> nat \<Rightarrow> 'b service \<Rightarrow> http_request \<Rightarrow> 'b world \<Rightarrow> reply \<times> 'b world" where
  "deploy_handler decode status svc r w =
     (if hr_Method r \<noteq> ''POST'' then (Plain 405 ''method not allowed'', w)
      else (case Option.bind (hr_Body r) decode of
          None \<Rightarrow> (Failed 400 ''invalid request body'', w)
        | Some req \<Rightarrow> (case DeployStraddle svc req w of
              (Inl e, w) \<Rightarrow> (fail_with (Failed status) e, w)
            | (Inr resp, w) \<Rightarrow> (DeployReply resp, w))))"

definition h_DeployStraddle :: "'b service \<Rightarrow> http_request \<Rightarrow> 'b world \<Rightarrow> reply \<times> 'b world" where
  "h_DeployStraddle = deploy_handler decode_deploy 400"

definition h_ConfigBuild :: "'b service \<Rightarrow> http_request \<Rightarrow> 'b world \<Rightarrow> reply \<times> 'b world" where
  "h_ConfigBuild = deploy_handler config_deploy 500"

definition h_CustomSell :: "'b service \<Rightarrow> http_request \<Rightarrow> 'b world \<Rightarrow> reply \<times> 'b world" where
  "h_CustomSell = deploy_handler custom_deploy 500"

definition zero_if_missing :: "StoredTrade option \<Rightarrow> StoredTrade" where
  "zero_if_missing t = (case t of Some tr \<Rightarrow> tr | None \<Rightarrow> zero_StoredTrade)"

definition h_SquareOff :: "gateway_env \<Rightarrow> 'b service \<Rightarrow> http_request \<Rightarrow> 'b world \<Rightarrow> reply \<times> 'b world" where
  "h_SquareOff env svc r w =
     (let parts = path_parts r in
      if length parts < 4 then (Plain 400 ''invalid trade square-off path'', w)
      else (case SquareOff (ge_np env) svc (parts ! 2) w of
          (Inl e, w) \<Rightarrow> (fail_with (Failed 404) e, w)
        | (Inr _, w) \<Rightarrow> (case st_load (parts ! 2) w of (tr, w) \<Rightarrow> (StatusReply (parts ! 2) (tr_Status (zero_if_missing tr)), w))))"

definition h_PartialSquareOff :: "'b service \<Rightarrow> http_request \<Rightarrow> 'b world \<Rightarrow> reply \<times> 'b world" where
  "h_PartialSquareOff svc r w =
     (let parts = path_parts r in
      if length parts < 4 then (Plain 400 ''invalid trade path'', w)
      else (case PartialSquareOff svc (parts ! 2) (decode_percentage (hr_Body r)) w of
          (Inl e, w) \<Rightarrow> (fail_with (Failed 400) e, w)
        | (Inr _, w) \<Rightarrow> (DoneReply (''Partial square-off for '' @ parts ! 2 @ '' completed''), w)))"

definition h_ManualHedge :: "'b service \<Rightarrow> http_request \<Rightarrow> 'b world \<Rightarrow> reply \<times> 'b world" where
  "h_ManualHedge svc r w =
     (let parts = path_parts r in
      if length parts < 4 then (Plain 400 ''invalid trade path'', w)
      else (case ManualHedge svc (parts ! 2) w of
          (Inl e, w) \<Rightarrow> (fail_with (Failed 400) e, w)
        | (Inr _, w) \<Rightarrow> (DoneReply (''Manual hedge for '' @ parts ! 2 @ '' completed''), w)))"

definition h_ManualSquareOff :: "gateway_env \<Rightarrow> 'b service \<Rightarrow> http_request \<Rightarrow> 'b world \<Rightarrow> reply \<times> 'b world" where
  "h_ManualSquareOff env svc r w =
     (let parts = path_parts r in
      if hr_Method r \<noteq> ''POST'' then (Failed 405 ''method not allowed'', w)
      else if length parts < 4 then (Failed 400 ''invalid trade path, expected /api/v1/trade/{uid}/manual-squareoff'', w)
      else (case ManualSquareOff (ge_CEAsk env) (ge_PEAsk env) (ge_peFirst env) svc (parts ! 2) w of
          (Inl e, w) \<Rightarrow> (fail_with (FailedTrade 400 (parts ! 2)) e, w)
        | (Inr results, w) \<Rightarrow> (case st_load (parts ! 2) w of (tr, w) \<Rightarrow>
            (ManualReply \<lparr>mr_TradeUID = parts ! 2, mr_Phase = ''MANUAL_SQF'', mr_DryRun = False, mr_Broker = tr_BrokerName (zero_if_missing tr),
               mr_AccountID = tr_AccountID (zero_if_missing tr), mr_Results = results\<rparr>, w))))"

definition h_ManualHedgeBroker :: "'b service \<Rightarrow> http_request \<Rightarrow> 'b world \<Rightarrow> reply \<times> 'b world" where
  "h_ManualHedgeBroker svc r w =
     (let parts = path_parts r in
      if hr_Method r \<noteq> ''POST'' then (Failed 405 ''method not allowed'', w)
      else if length parts < 4 then (Failed 400 ''invalid trade path'', w)
      else (case ManualHedgeBrokerOrder svc (parts ! 2) (decode_hedge (hr_Body r)) w of
          ((results, dryRun, Some e), w) \<Rightarrow> (fail_with (FailedTrade 400 (parts ! 2)) e, w)
        | ((results, dryRun, None), w) \<Rightarrow> (case st_load (parts ! 2) w of (tr, w) \<Rightarrow>
            (ManualReply \<lparr>mr_TradeUID = parts ! 2, mr_Phase = ''HEDGE'', mr_DryRun = dryRun, mr_Broker = tr_BrokerName (zero_if_missing tr),
               mr_AccountID = tr_AccountID (zero_if_missing tr), mr_Results = results\<rparr>, w))))"

definition unimplemented :: "string \<Rightarrow> http_request \<Rightarrow> reply" where
  "unimplemented what r = (let parts = path_parts r in
     if length parts < 4 then Plain 400 ''invalid trade path'' else FailedTrade 200 (parts ! 2) (what @ '' not implemented yet in Go runtime''))"

definition snapshot_handler :: "nat \<Rightarrow> string \<Rightarrow> (TradeSnapshot \<Rightarrow> reply) \<Rightarrow> http_request \<Rightarrow> store \<Rightarrow> reply" where
  "snapshot_handler n msg mk r s = (let parts = path_parts r in
     if length parts < n then Plain 400 msg
     else (case LoadSnapshot (parts ! 2) s of None \<Rightarrow> Failed 404 ''snapshot not found'' | Some snap \<Rightarrow> mk snap))"

definition h_GetSnapshot :: "http_request \<Rightarrow> store \<Rightarrow> reply" where
  "h_GetSnapshot = snapshot_handler 3 ''invalid path'' SnapshotReply"

definition h_GetPnL :: "http_request \<Rightarrow> store \<Rightarrow> reply" where
  "h_GetPnL = snapshot_handler 3 ''invalid path'' (\<lambda>snap. PnLReply [(''total_pnl'', ts_TotalPNL snap), (''realized_pnl'', ts_RealizedPNL snap),
     (''unrealized_pnl'', ts_UnrealizedPNL snap), (''net_delta'', ts_NetDelta snap), (''net_gamma'', ts_NetGamma snap), (''net_theta'', ts_NetTheta snap),
     (''net_vega'', ts_NetVega snap)])"

definition h_ManualVerify :: "http_request \<Rightarrow> store \<Rightarrow> reply" where
  "h_ManualVerify = snapshot_handler 4 ''invalid trade path'' VerifyReply"

definition h_ManualRoll :: "http_request \<Rightarrow> reply" where
  "h_ManualRoll = unimplemented ''manual roll''"

definition h_CancelAction :: "http_request \<Rightarrow> reply" where
  "h_CancelAction = unimplemented ''cancel action''"

definition h_Health :: "'b service \<Rightarrow> 'b world \<Rightarrow> reply \<times> 'b world" where
  "h_Health svc w = (case time_Now svc w of (now, w) \<Rightarrow> (HealthReply (fmt_rfc3339 now), w))"

definition all_trades :: "gateway_env \<Rightarrow> 'b world \<Rightarrow> StoredTrade list \<times> 'b world" where
  "all_trades env w = (case AllTrades (ge_trades env) (w_store w) of (ts, s) \<Rightarrow> (ts, w\<lparr>w_store := s\<rparr>))"

definition h_GetStraddles :: "gateway_env \<Rightarrow> 'b world \<Rightarrow> reply \<times> 'b world" where
  "h_GetStraddles env w = (case all_trades env w of (ts, w) \<Rightarrow> (TradesReply ts, w))"

definition h_GetActiveStraddles :: "gateway_env \<Rightarrow> 'b world \<Rightarrow> reply \<times> 'b world" where
  "h_GetActiveStraddles env w = (case all_trades env w of (ts, w) \<Rightarrow>
     (TradesReply (filter (\<lambda>tr. tr_Status tr = ''ACTIVE'' \<or> tr_Status tr = ''BUILDING'' \<or> tr_Status tr = ''PARTIAL'') ts), w))"

definition load_intents :: "'b service \<Rightarrow> string \<Rightarrow> 'b world \<Rightarrow> StoredIntent list \<times> 'b world" where
  "load_intents svc u w = (case time_Now svc w of (now, w) \<Rightarrow> (case LoadIntents now u (w_store w) of (is, s) \<Rightarrow> (is, w\<lparr>w_store := s\<rparr>)))"

definition h_GetOrders :: "'b service \<Rightarrow> http_request \<Rightarrow> 'b world \<Rightarrow> reply \<times> 'b world" where
  "h_GetOrders svc r w = (let parts = path_parts r in
     if length parts < 3 then (Plain 400 ''invalid path'', w)
     else (case load_intents svc (parts ! 2) w of (is, w) \<Rightarrow> (OrdersReply is, w)))"

definition h_TradeStatus :: "'b service \<Rightarrow> http_request \<Rightarrow> 'b world \<Rightarrow> reply \<times> 'b world" where
  "h_TradeStatus svc r w = (let parts = path_parts r in
     if length parts < 3 then (Plain 400 ''invalid trade path'', w)
     else (case st_load (parts ! 2) w of
         (None, w) \<Rightarrow> (Failed 404 ''trade not found'', w)
       | (Some tr, w) \<Rightarrow> (case load_intents svc (parts ! 2) w of (is, w) \<Rightarrow> (TradeReply tr is, w))))"

definition store_handler :: "(store \<Rightarrow> (http_error + 'r) \<times> store) \<Rightarrow> ('r \<Rightarrow> reply) \<Rightarrow> 'b world \<Rightarrow> reply \<times> 'b world" where
  "store_handler f mk w = (case f (w_store w) of (r, s) \<Rightarrow> ((case r of Inl (status, msg) \<Rightarrow> Plain status msg | Inr v \<Rightarrow> mk v), w\<lparr>w_store := s\<rparr>))"

section \<open>Routes\<close>

datatype route =
    RHealth | RDeploy | RConfigBuild | RCustomSell | RStraddles | RActive | RSnapshot | RPnL | ROrders | RSummary | RPlan | RRefresh
  | RPositions | RSquareOff | RPartial | RHedgeBroker | RHedge | RManualSqf | RRoll | RVerify | RCancel | RStatus | RNotFound

definition exact_routes :: "(string \<times> route) list" where
  "exact_routes =
     [(''/api/health'', RHealth), (''/api/trade/straddle'', RDeploy), (''/api/straddle/sell'', RDeploy), (''/api/trade/straddle/automated'', RConfigBuild),
      (''/api/trade/straddle/custom'', RCustomSell), (''/api/straddles'', RStraddles), (''/api/straddles/active'', RActive),
      (''/api/trade/execution-summary'', RSummary), (''/api/trade/squareoff-plan'', RPlan), (''/api/trade/refresh-lifecycle'', RRefresh),
      (''/api/positions'', RPositions)]"

definition trade_route :: "string \<Rightarrow> route" where
  "trade_route path =
     (if HasSuffix path ''/square-off'' then RSquareOff else if HasSuffix path ''/partial-square-off'' then RPartial
      else if HasSuffix path ''/manual-hedge-order'' then RHedgeBroker else if HasSuffix path ''/manual-hedge'' then RHedge
      else if HasSuffix path ''/manual-squareoff'' then RManualSqf else if HasSuffix path ''/manual-roll'' then RRoll
      else if HasSuffix path ''/manual-verify'' then RVerify else if HasSuffix path ''/cancel-action'' then RCancel else RStatus)"

definition route_of :: "string \<Rightarrow> route" where
  "route_of path = (case map_of exact_routes path of
      Some rt \<Rightarrow> rt
    | None \<Rightarrow>
        if HasPrefix path ''/api/snapshots/'' then RSnapshot else if HasPrefix path ''/api/pnl/'' then RPnL
        else if HasPrefix path ''/api/orders/'' then ROrders else if HasPrefix path ''/api/trade/'' then trade_route path else RNotFound)"

definition serve :: "gateway_env \<Rightarrow> 'b service \<Rightarrow> http_request \<Rightarrow> 'b world \<Rightarrow> reply \<times> 'b world" where
  "serve env svc r w =
     (if hr_Method r = ''OPTIONS'' then (NoContent, w)
      else (case route_of (hr_Path r) of
          RHealth \<Rightarrow> h_Health svc w
        | RDeploy \<Rightarrow> h_DeployStraddle svc r w
        | RConfigBuild \<Rightarrow> h_ConfigBuild svc r w
        | RCustomSell \<Rightarrow> h_CustomSell svc r w
        | RStraddles \<Rightarrow> h_GetStraddles env w
        | RActive \<Rightarrow> h_GetActiveStraddles env w
        | RSnapshot \<Rightarrow> (h_GetSnapshot r (w_store w), w)
        | RPnL \<Rightarrow> (h_GetPnL r (w_store w), w)
        | ROrders \<Rightarrow> h_GetOrders svc r w
        | RSummary \<Rightarrow> store_handler (ExecutionSummary (ge_xp env) r) SummaryReply w
        | RPlan \<Rightarrow> store_handler (SquareOffPlan (ge_np env) r) PlanReply w
        | RRefresh \<Rightarrow> store_handler (RefreshTradeLifecycle r) RefreshReply w
        | RPositions \<Rightarrow> (Plain 501 ''positions endpoint not implemented'', w)
        | RSquareOff \<Rightarrow> h_SquareOff env svc r w
        | RPartial \<Rightarrow> h_PartialSquareOff svc r w
        | RHedgeBroker \<Rightarrow> h_ManualHedgeBroker svc r w
        | RHedge \<Rightarrow> h_ManualHedge svc r w
        | RManualSqf \<Rightarrow> h_ManualSquareOff env svc r w
        | RRoll \<Rightarrow> (h_ManualRoll r, w)
        | RVerify \<Rightarrow> (h_ManualVerify r (w_store w), w)
        | RCancel \<Rightarrow> (h_CancelAction r, w)
        | RStatus \<Rightarrow> h_TradeStatus svc r w
        | RNotFound \<Rightarrow> (Plain 404 ''404 page not found'', w)))"

end
