(* ===== verification/Server.thy ===== *)
theory Server
  imports Main
begin

text \<open>
  A server that handles one request after another: its step gives an answer and the next state. Whatever
  every step keeps holds after every run. In a guarded server only the steps of admissible requests keep it.
  The execution gateway, the control API, the snapshot service and the broker registry interpret them.
\<close>

locale guarded_server =
  fixes step :: "'q \<Rightarrow> 's \<Rightarrow> 'o \<times> 's"
    and Inv :: "'s \<Rightarrow> bool"
    and ok :: "'q \<Rightarrow> bool"
  assumes guarded_Inv: "ok q \<Longrightarrow> Inv s \<Longrightarrow> Inv (snd (step q s))"
begin

lemma guarded_run: "list_all ok qs \<Longrightarrow> Inv s \<Longrightarrow> Inv (foldl (\<lambda>s q. snd (step q s)) s qs)"
  by (induction qs arbitrary: s) (simp_all add: guarded_Inv)

end

locale server =
  fixes step :: "'q \<Rightarrow> 's \<Rightarrow> 'o \<times> 's"
    and Inv :: "'s \<Rightarrow> bool"
  assumes step_Inv: "Inv s \<Longrightarrow> Inv (snd (step q s))"

sublocale server \<subseteq> guarded_server step Inv "\<lambda>_. True"
  by unfold_locales (rule step_Inv)

context server
begin

lemma run_Inv: "Inv s \<Longrightarrow> Inv (foldl (\<lambda>s q. snd (step q s)) s qs)"
  by (rule guarded_run) (simp_all add: list_all_iff)

text \<open>In particular it holds whenever a request is handled.\<close>

lemma handled_Inv: "Inv s \<Longrightarrow> Inv (snd (step q (foldl (\<lambda>s q. snd (step q s)) s qs)))"
  by (intro step_Inv run_Inv)

end

end
