(* ===== verification/Trading_Gateway_Proofs.thy ===== *)
theory Trading_Gateway_Proofs
  imports Trading_Gateway Server
begin

text \<open>
  Properties of the execution gateway as a server: the invariant of the store after any sequence of
  requests, and which requests can reach a broker or provider.
\<close>

section \<open>What the service keeps of the store\<close>

text \<open>
  A property of the store that the methods of the store and the queries of the handlers keep is kept by every
  request. The service reaches the store through these operations only. Some properties hold only if a range
  over the trades visits them fairly, for instance not none of several.
\<close>

lemma put_db_put [simp]: "put_db d' (put_db d s) = put_db d' s"
  by (simp add: put_db_def split: store.split)

lemma put_db_from: "dbFromHandlerStore s = Some d \<Longrightarrow> dbFromHandlerStore (put_db d' s) = Some d'"
  by (simp add: put_db_def dbFromHandlerStore_def split: store.splits)

locale store_property =
  fixes keep :: "store \<Rightarrow> bool"
    and fair :: "trade_order \<Rightarrow> bool"
  assumes keep_save: "keep s \<Longrightarrow> keep (SaveTrade now tr s)"
    and keep_update: "keep s \<Longrightarrow> keep (UpdateTrade now tr s)"
    and keep_append: "keep s \<Longrightarrow> keep (AppendIntent now u it s)"
    and keep_mark: "keep s \<Longrightarrow> keep (mark_execution i res s)"
    and keep_upd: "keep s \<Longrightarrow> mem_ok (f (store_mem s)) \<Longrightarrow> ms_trades (f (store_mem s)) = ms_trades (store_mem s) \<Longrightarrow> keep (store_upd f s)"
    and keep_load: "keep s \<Longrightarrow> keep (snd (LoadTrade u s))"
    and keep_all: "keep s \<Longrightarrow> fair ord \<Longrightarrow> keep (snd (AllTrades ord s))"
    and keep_load_intents: "keep s \<Longrightarrow> keep (snd (LoadIntents now u s))"
    and keep_query: "keep s \<Longrightarrow> dbFromHandlerStore s = Some d \<Longrightarrow> keep (put_db (db_next d) s)"
    and keep_status: "keep s \<Longrightarrow> dbFromHandlerStore s = Some d \<Longrightarrow> keep (put_db (sql_set_status u status d) s)"
    and keep_ok: "keep s \<Longrightarrow> mem_ok (store_mem s)"
begin

abbreviation wok :: "'b world \<Rightarrow> bool" where
  "wok w \<equiv> keep (w_store w)"

lemma keep_mem:
  assumes "keep s"
  shows "keep (SaveSnapshot sn s)" "keep (SaveRuntime rt s)" "keep (DeleteRuntime u s)" "keep (store_upd (CloseStop u) s)"
  unfolding SaveSnapshot_def SaveRuntime_def DeleteRuntime_def
  using keep_ok [OF assms] by (auto intro!: keep_upd [OF assms] simp: mem_defs CloseStop_def mem_ok_def gm_simps split: option.splits)

lemma wok_basic:
  "time_Now svc w = (t, w') \<Longrightarrow> wok w \<Longrightarrow> wok w'"
  "ext_call f w = (r, w') \<Longrightarrow> wok w \<Longrightarrow> wok w'"
  "st_load u w = (ot, w') \<Longrightarrow> wok w \<Longrightarrow> wok w'"
  "set_status svc status tr w = (tr', w') \<Longrightarrow> wok w \<Longrightarrow> wok w'"
  using keep_load [of "w_store w" u]
  by (auto simp: time_Now_def ext_call_def st_load_def set_status_def st_now_def Let_def keep_update split: prod.splits)

lemma wok_st [simp]:
  assumes "wok w"
  shows "wok (st_now svc (\<lambda>t. AppendIntent t u it) w)" "wok (st_now svc (\<lambda>t. UpdateTrade t tr) w)" "wok (st_now svc (\<lambda>t. SaveTrade t tr) w)"
    "wok (st_do (mark_execution i res) w)" "wok (st_do (SaveSnapshot sn) w)" "wok (st_do (SaveRuntime rt) w)" "wok (st_do (DeleteRuntime u) w)"
    "wok (st_do (store_upd (CloseStop u)) w)"
  using assms by (simp_all add: st_now_def st_do_def keep_append keep_update keep_save keep_mark keep_mem)

lemma keep_queries:
  assumes "keep s" "dbFromHandlerStore s = Some d"
  shows "keep (put_db (db_next d) s)" "keep (put_db (db_next (db_next d)) s)"
    "keep (put_db (db_next (db_next (db_next d))) s)" "keep (put_db (sql_set_status u status (db_next (db_next d))) s)"
proof -
  note q = keep_query [OF assms] put_db_from [OF assms(2)]
  show "keep (put_db (db_next d) s)" by (rule q(1))
  from keep_query [OF this q(2)] show qq: "keep (put_db (db_next (db_next d)) s)" by simp
  from keep_query [OF qq q(2)] show "keep (put_db (db_next (db_next (db_next d))) s)" by simp
  from keep_status [OF qq q(2)] show "keep (put_db (sql_set_status u status (db_next (db_next d))) s)" by simp
qed

lemma stop_runtime_wok: "stop_runtime u w = (r, w') \<Longrightarrow> wok w \<Longrightarrow> wok w'"
  by (auto simp: stop_runtime_def split: option.splits if_splits)

lemma build_pass_wok: "build_pass svc ex tr sb i os w = (r, w') \<Longrightarrow> wok w \<Longrightarrow> wok w'"
proof (induction svc ex tr sb i os w arbitrary: r w' rule: build_pass.induct)
  case (2 svc ex tr sb i o1 os w)
  define it where "it = build_intent tr (o1\<lparr>eo_LimitPrice := build_limit (eo_ExpectedPrice o1) sb i\<rparr>)"
  obtain x w2 where x: "ext_call (ex it) (st_now svc (\<lambda>now. AppendIntent now (tr_TradeUID tr) it) w) = (x, w2)" by fastforce
  have w2: "wok w2" using wok_basic(2) [OF x] 2(5) by simp
  show ?case using 2 x w2 by (auto simp: it_def Let_def split: if_splits sum.splits prod.splits)
qed simp

lemma build_retries_wok: "build_retries svc ex tr sb n os w = (r, w') \<Longrightarrow> wok w \<Longrightarrow> wok w'"
  by (induction n arbitrary: os w) (auto split: if_splits sum.splits prod.splits dest: build_pass_wok)

lemma build_chunks_wok: "build_chunks svc ex tr sb i cs w = (r, w') \<Longrightarrow> wok w \<Longrightarrow> wok w'"
  by (induction cs arbitrary: i w) (auto split: if_splits sum.splits prod.splits dest: build_retries_wok)

lemma executeBuild_wok: "executeBuild svc ex tr cs w = (r, w') \<Longrightarrow> wok w \<Longrightarrow> wok w'"
  by (auto simp: executeBuild_def Let_def dest: build_chunks_wok)

lemma startRuntime_wok: "wok w \<Longrightarrow> wok (startRuntime tr w)"
  by (simp add: startRuntime_def split: option.split)

lemma deploy_execute_wok: "deploy_execute svc ex start dp w = (r, w') \<Longrightarrow> wok w \<Longrightarrow> wok w'"
  by (auto simp: deploy_execute_def store_building_def deploy_failed_def deploy_active_def time_Now_def Let_def startRuntime_wok
      split: sum.splits prod.splits dest!: executeBuild_wok)

lemma plan_sizes_wok: "plan_sizes svc req chain w = (r, w') \<Longrightarrow> wok w \<Longrightarrow> wok w'"
  by (auto simp: plan_sizes_def resolve_lot_size_def Let_def split: sum.splits prod.splits if_splits dest: wok_basic)

lemma DeployStraddle_wok: "DeployStraddle svc req w = (r, w') \<Longrightarrow> wok w \<Longrightarrow> wok w'"
  by (auto simp: DeployStraddle_def Let_def split: sum.splits prod.splits if_splits option.splits
      dest!: wok_basic(1,2) plan_sizes_wok deploy_execute_wok)

lemma sqf_emit_wok: "sqf_emit svc tr now cnt ps w = (r, w') \<Longrightarrow> wok w \<Longrightarrow> wok w'"
  by (induction svc tr now cnt ps w arbitrary: r w' rule: sqf_emit.induct) (auto simp: Let_def split: if_splits prod.splits)

lemma createSQF_wok: "createSQFIntentsFromFilledNetPosition ord svc tr w = (r, w') \<Longrightarrow> wok w \<Longrightarrow> wok w'"
  unfolding createSQFIntentsFromFilledNetPosition_def
  by (auto simp: Let_def sql_rows_def st_do_def keep_queries split: option.splits prod.splits if_splits dest!: sqf_emit_wok dest: wok_basic(1))

lemma sqf_send_wok: "sqf_send ex its w = (r, w') \<Longrightarrow> wok w \<Longrightarrow> wok w'"
  by (induction its arbitrary: w r) (auto simp: Let_def split: sum.splits prod.splits dest: wok_basic(2))

lemma sqf_execute_wok: "sqf_execute svc tr its w = (r, w') \<Longrightarrow> wok w \<Longrightarrow> wok w'"
  using wok_basic(4) [of svc "''CLOSED''" tr]
  by (auto simp: sqf_execute_def split: sum.splits prod.splits if_splits option.splits dest!: wok_basic(2) sqf_send_wok) (metis prod.collapse)+

lemma SquareOff_wok: "SquareOff ord svc u w = (r, w') \<Longrightarrow> wok w \<Longrightarrow> wok w'"
  by (auto simp: SquareOff_def split: sum.splits prod.splits if_splits option.splits
      dest!: wok_basic(3) createSQF_wok wok_basic(4) stop_runtime_wok sqf_execute_wok)

lemma PartialSquareOff_wok: "PartialSquareOff svc u p w = (r, w') \<Longrightarrow> wok w \<Longrightarrow> wok w'"
  by (auto simp: PartialSquareOff_def set_status_def time_Now_def Let_def split: prod.splits if_splits option.splits dest!: wok_basic(3))

lemma hedge_send_wok: "hedge_send ex it msg w = (r, w') \<Longrightarrow> wok w \<Longrightarrow> wok w'"
  by (auto simp: hedge_send_def split: sum.splits prod.splits dest!: wok_basic(2))

lemma hedge_intents_wok: "hedge_intents svc tr u c p row q w = (r, w') \<Longrightarrow> wok w \<Longrightarrow> wok w'"
  by (auto simp: hedge_intents_def Let_def split: prod.splits dest!: wok_basic(1))

lemma hedge_execute_wok: "hedge_execute svc ex tr u c p row q w = (r, w') \<Longrightarrow> wok w \<Longrightarrow> wok w'"
  by (auto simp: hedge_execute_def Let_def split: sum.splits prod.splits dest!: hedge_intents_wok hedge_send_wok)

lemma ManualHedge_wok: "ManualHedge svc u w = (r, w') \<Longrightarrow> wok w \<Longrightarrow> wok w'"
  by (auto simp: ManualHedge_def split: sum.splits prod.splits if_splits option.splits dest!: wok_basic(2,3) hedge_execute_wok)

lemma manual_send_wok: "manual_send ex its w = (r, w') \<Longrightarrow> wok w \<Longrightarrow> wok w'"
  by (induction its arbitrary: w r) (auto split: sum.splits prod.splits dest!: hedge_send_wok)

lemma manual_execute_wok: "manual_execute svc tr its w = (r, w') \<Longrightarrow> wok w \<Longrightarrow> wok w'"
  by (auto simp: manual_execute_def split: sum.splits prod.splits if_splits option.splits dest!: wok_basic(2) manual_send_wok)

lemma ManualHedgeBrokerOrder_wok: "ManualHedgeBrokerOrder svc u req w = (r, w') \<Longrightarrow> wok w \<Longrightarrow> wok w'"
  by (auto simp: ManualHedgeBrokerOrder_def Let_def split: sum.splits prod.splits if_splits option.splits dest!: wok_basic(1,3) manual_execute_wok)

lemma run_all_wok: "run_all ex its w = (r, w') \<Longrightarrow> wok w \<Longrightarrow> wok w'"
  by (induction its arbitrary: w r) (auto simp: Let_def split: prod.splits dest!: wok_basic(2))

lemma ManualSquareOff_wok: "ManualSquareOff ca pa pf svc u w = (r, w') \<Longrightarrow> wok w \<Longrightarrow> wok w'"
  by (auto simp: ManualSquareOff_def Let_def split: sum.splits prod.splits option.splits dest!: wok_basic(1,2,3) run_all_wok)

lemma all_trades_wok: "all_trades env w = (r, w') \<Longrightarrow> wok w \<Longrightarrow> fair (ge_trades env) \<Longrightarrow> wok w'"
  using keep_all [of "w_store w" "ge_trades env"] by (auto simp: all_trades_def split: prod.splits)

lemma load_intents_wok: "load_intents svc u w = (r, w') \<Longrightarrow> wok w \<Longrightarrow> wok w'"
  using keep_load_intents [of "w_store w" "sv_clock svc (w_tick w)" u] by (auto simp: load_intents_def time_Now_def split: prod.splits)

lemma summary_ok: "ExecutionSummary ord r s = (x, s') \<Longrightarrow> keep s \<Longrightarrow> keep s'"
  by (auto simp: ExecutionSummary_def Let_def sql_rows_def sql_trade_row_def keep_queries split: if_splits option.splits prod.splits)

lemma plan_ok: "SquareOffPlan ord r s = (x, s') \<Longrightarrow> keep s \<Longrightarrow> keep s'"
  by (auto simp: SquareOffPlan_def Let_def sql_rows_def sql_trade_row_def keep_queries split: if_splits option.splits prod.splits)

lemma refresh_ok: "RefreshTradeLifecycle r s = (x, s') \<Longrightarrow> keep s \<Longrightarrow> keep s'"
  by (auto simp: RefreshTradeLifecycle_def Let_def sql_aggregate_def sql_trade_row_def keep_queries split: if_splits option.splits prod.splits)

lemmas service_wok = DeployStraddle_wok SquareOff_wok PartialSquareOff_wok ManualHedge_wok ManualHedgeBrokerOrder_wok ManualSquareOff_wok
  all_trades_wok load_intents_wok

lemma store_handler_wok:
  assumes "\<And>x s'. f (w_store w) = (x, s') \<Longrightarrow> keep s'"
  shows "wok (snd (store_handler f mk w))"
  using assms by (auto simp: store_handler_def split: prod.split)

text \<open>Each handler keeps the invariant.\<close>

lemma handlers_wok:
  assumes "wok w" and "fair (ge_trades env)"
  shows "wok (snd (deploy_handler decode status svc r w))" "wok (snd (h_SquareOff env svc r w))" "wok (snd (h_PartialSquareOff svc r w))"
    "wok (snd (h_ManualHedge svc r w))" "wok (snd (h_ManualSquareOff env svc r w))" "wok (snd (h_ManualHedgeBroker svc r w))"
    "wok (snd (h_GetStraddles env w))" "wok (snd (h_GetActiveStraddles env w))" "wok (snd (h_GetOrders svc r w))" "wok (snd (h_TradeStatus svc r w))"
proof -
  show "wok (snd (deploy_handler decode status svc r w))"
    using assms by (auto simp: deploy_handler_def split: prod.split sum.split option.split dest: service_wok)
  show "wok (snd (h_SquareOff env svc r w))"
    using assms by (auto simp: h_SquareOff_def Let_def split: prod.split sum.split dest: service_wok wok_basic(3))
  show "wok (snd (h_PartialSquareOff svc r w))"
    using assms by (auto simp: h_PartialSquareOff_def Let_def split: prod.split sum.split dest: service_wok)
  show "wok (snd (h_ManualHedge svc r w))"
    using assms by (auto simp: h_ManualHedge_def Let_def split: prod.split sum.split dest: service_wok)
  show "wok (snd (h_ManualSquareOff env svc r w))"
    using assms by (auto simp: h_ManualSquareOff_def Let_def split: prod.split sum.split dest: service_wok wok_basic(3))
  show "wok (snd (h_ManualHedgeBroker svc r w))"
    using assms by (auto simp: h_ManualHedgeBroker_def Let_def split: prod.split option.split dest: service_wok wok_basic(3))
  show "wok (snd (h_GetStraddles env w))" "wok (snd (h_GetActiveStraddles env w))"
    using assms by (auto simp: h_GetStraddles_def h_GetActiveStraddles_def split: prod.split dest: service_wok)
  show "wok (snd (h_GetOrders svc r w))" using assms by (auto simp: h_GetOrders_def Let_def split: prod.split dest: service_wok)
  show "wok (snd (h_TradeStatus svc r w))"
    using assms by (auto simp: h_TradeStatus_def Let_def split: prod.split option.split dest: service_wok wok_basic(3))
qed

lemma serve_wok: "fair (ge_trades env) \<Longrightarrow> wok w \<Longrightarrow> wok (snd (serve env svc r w))"
  by (simp add: serve_def handlers_wok h_DeployStraddle_def h_ConfigBuild_def h_CustomSell_def store_handler_wok summary_ok plan_ok refresh_ok
      h_Health_def time_Now_def split: route.split)

end

text \<open>Every sequence of requests keeps the property.\<close>

sublocale store_property \<subseteq> requests: guarded_server "\<lambda>q. serve (fst q) svc (snd q)" "\<lambda>w. keep (w_store w)" "\<lambda>q. fair (ge_trades (fst q))" for svc
  by unfold_locales (rule serve_wok)

section \<open>The store invariant\<close>

lemma gw_db_ok_next [simp]: "db_ok (db_next d) = db_ok d"
  by (simp add: db_ok_def db_next_def)

lemma db_ok_from: "store_ok s \<Longrightarrow> dbFromHandlerStore s = Some d \<Longrightarrow> db_ok d"
  by (auto simp: store_ok_def dbFromHandlerStore_def split: store.splits)

lemma store_ok_put: "store_ok s \<Longrightarrow> db_ok d \<Longrightarrow> store_ok (put_db d s)"
  by (auto simp: put_db_def store_ok_def store_mem_def split: store.splits)

lemma sql_set_status_ok: "db_ok d \<Longrightarrow> db_ok (sql_set_status uid status d)"
proof -
  define g where "g = (\<lambda>r :: trade_row. if td_trade_uid r = uid then r\<lparr>td_status := status\<rparr> else r)"
  have g: "td_trade_uid (g r) = td_trade_uid r" "td_config (g r) = td_config r" for r by (simp_all add: g_def)
  assume "db_ok d"
  then show ?thesis unfolding db_ok_def sql_set_status_def db_next_def g_def [symmetric] by (simp add: comp_def g cong: option.case_cong)
qed

lemma store_ok_upd: "store_ok s \<Longrightarrow> mem_ok (f (store_mem s)) \<Longrightarrow> store_ok (store_upd f s)"
  by (auto simp: store_upd_def store_ok_def store_mem_def split: store.splits)

lemma store_ok_memory: "store_ok s \<Longrightarrow> mem_ok (store_mem s)"
  by (simp add: store_ok_def)

interpretation invariant: store_property store_ok "\<lambda>_. True"
  by unfold_locales (auto simp: store_ok_upd store_ok_load store_ok_all store_ok_load_intents store_ok_memory
      intro!: store_ok_put sql_set_status_ok intro: db_ok_from)

section \<open>Requests that reach the outside\<close>

definition trading_request :: "http_request \<Rightarrow> bool" where
  "trading_request r \<longleftrightarrow>
     (route_of (hr_Path r) \<in> {RDeploy, RConfigBuild, RCustomSell, RHedgeBroker, RManualSqf} \<and> hr_Method r = ''POST'') \<or>
     (route_of (hr_Path r) \<in> {RSquareOff, RHedge} \<and> hr_Method r \<noteq> ''OPTIONS'')"

lemma w_ext_basic:
  "time_Now svc w = (t, w') \<Longrightarrow> w_ext w' = w_ext w" "st_load u w = (ot, w') \<Longrightarrow> w_ext w' = w_ext w"
  "all_trades env w = (ts, w') \<Longrightarrow> w_ext w' = w_ext w" "load_intents svc u w = (is, w') \<Longrightarrow> w_ext w' = w_ext w"
  by (auto simp: time_Now_def st_load_def all_trades_def load_intents_def split: prod.splits)

lemma PartialSquareOff_ext: "PartialSquareOff svc u p w = (r, w') \<Longrightarrow> w_ext w' = w_ext w"
  by (auto simp: PartialSquareOff_def set_status_def time_Now_def Let_def split: prod.splits option.splits if_splits dest: w_ext_basic)

lemma readers_ext:
  "w_ext (snd (h_PartialSquareOff svc r w)) = w_ext w" "w_ext (snd (h_GetStraddles env w)) = w_ext w"
  "w_ext (snd (h_GetActiveStraddles env w)) = w_ext w" "w_ext (snd (h_GetOrders svc r w)) = w_ext w" "w_ext (snd (h_TradeStatus svc r w)) = w_ext w"
  "w_ext (snd (store_handler f mk w)) = w_ext w"
  by (auto simp: h_PartialSquareOff_def h_GetStraddles_def h_GetActiveStraddles_def h_GetOrders_def h_TradeStatus_def store_handler_def Let_def
      split: prod.split sum.split option.split dest!: PartialSquareOff_ext w_ext_basic)

lemma refused_ext:
  assumes "hr_Method r \<noteq> ''POST''"
  shows "w_ext (snd (deploy_handler decode status svc r w)) = w_ext w" "w_ext (snd (h_ManualSquareOff env svc r w)) = w_ext w"
    "w_ext (snd (h_ManualHedgeBroker svc r w)) = w_ext w"
  using assms by (simp_all add: deploy_handler_def h_ManualSquareOff_def h_ManualHedgeBroker_def Let_def)

section \<open>Properties\<close>

text \<open>
  C29. Whatever requests the gateway serves, in whatever order, with whatever brokers and providers and
  whichever statements the database fails, the store keeps its invariant.
\<close>

theorem gateway_keeps_store_invariant:
  assumes "store_ok (w_store w)"
  shows "store_ok (w_store (foldl (\<lambda>w (env, r). snd (serve env svc r w)) w rs))"
  using invariant.requests.guarded_run [of rs w svc] assms by (simp add: case_prod_beta' list_all_iff)

text \<open>
  C30. Only seven routes reach a broker, the snapshot service or the contract master: the three deployments,
  the hedge order and the direct square-off with the method POST, and the square-off and the hedge with any
  method but OPTIONS. Every other request leaves the outside world as it was.
\<close>

theorem only_trading_requests_leave_gateway:
  assumes "\<not> trading_request r"
  shows "w_ext (snd (serve env svc r w)) = w_ext w"
proof (cases "hr_Method r = ''OPTIONS''")
  case True
  then show ?thesis by (simp add: serve_def)
next
  case False
  then show ?thesis using assms
    by (auto simp: serve_def trading_request_def readers_ext refused_ext h_DeployStraddle_def h_ConfigBuild_def h_CustomSell_def h_Health_def time_Now_def
        split: route.split)
qed

definition idle_service :: "nat service" where
  "idle_service = NewService '''' None (\<lambda>s e b. (Inl (GoErr ''no snapshot''), Suc b)) (\<lambda>s e b. (Inl (GoErr ''no lot size''), Suc b)) (\<lambda>_. day_time) (\<lambda>_. '''')"

definition get_request :: "string \<Rightarrow> http_request" where
  "get_request path = \<lparr>hr_Method = ''GET'', hr_Path = path, hr_Query = [], hr_Body = None\<rparr>"

definition sample_env :: gateway_env where
  "sample_env = \<lparr>ge_np = rev, ge_xp = rev, ge_trades = rev, ge_CEAsk = row_CELtp, ge_PEAsk = row_PELtp, ge_peFirst = True\<rparr>"

theorem gateway_keeps_store_invariant_witness:
  "store_ok (w_store (foldl (\<lambda>w (env, r). snd (serve env idle_service r w)) \<lparr>w_store = pg_start, w_ext = 7, w_tick = 0\<rparr>
     [(sample_env, get_request ''/api/straddles''), (sample_env, get_request ''/api/trade/T1/square-off'')]))"
  by (rule gateway_keeps_store_invariant) (simp add: pg_start_ok)

theorem only_trading_requests_leave_gateway_witness:
  "w_ext (snd (serve sample_env idle_service (get_request ''/api/trade/T1/partial-square-off'') \<lparr>w_store = pg_start, w_ext = 7, w_tick = 0\<rparr>)) = 7"
proof -
  have "route_of ''/api/trade/T1/partial-square-off'' = RPartial" by code_simp
  then have "\<not> trading_request (get_request ''/api/trade/T1/partial-square-off'')" by (simp add: trading_request_def get_request_def)
  from only_trading_requests_leave_gateway [OF this, of sample_env idle_service "\<lparr>w_store = pg_start, w_ext = 7, w_tick = 0\<rparr>"]
  show ?thesis by simp
qed

end
