(* ===== verification/Contract_Master.thy ===== *)
theory Contract_Master
  imports Go_Time Go_Fmt
begin

text \<open>
  The contract master (\<^verbatim>\<open>services/contract-master\<close>): the parsers for the XTS master file, the
  token files and the old CSV format (\<^verbatim>\<open>internal/parser\<close>, \<^verbatim>\<open>internal/ingest\<close>), the
  contract table (\<^verbatim>\<open>internal/persistence\<close>), and the start-up and the lot-size endpoint of
  \<^verbatim>\<open>cmd/main.go\<close>.

  A file system is an argument that gives the rows of a file. A
  database call fails or not as the argument \<open>fault\<close> says; a query without an order returns rows in
  the order that the argument \<open>ord\<close> gives.

  Shown here: every parsed contract is well formed; the table keeps one row per token and exchange,
  and a failed load changes nothing; and the lot-size query finds every loaded contract.
\<close>

section \<open>Contracts\<close>

record Contract =
  ct_BrokerToken :: int
  ct_Exchange :: string
  ct_Symbol :: string
  ct_InstrumentType :: string
  ct_ExpiryDate :: caldate
  ct_StrikePrice :: f64
  ct_OptionType :: string
  ct_LotSize :: int
  ct_TickSize :: f64
  ct_RawDetails :: "json option"

definition cleanCell :: "string \<Rightarrow> string" where
  "cleanCell v = TrimChar (TrimSpace v) (CHR 0x22)"

definition cleanNumeric :: "string \<Rightarrow> string" where
  "cleanNumeric v = RemoveChar (cleanCell v) (CHR '','')"

definition L_dmy_upper :: layout where
  "L_dmy_upper = [ZeroDay, Lit ''-JAN-'', Year2]"

definition L_dmY_upper :: layout where
  "L_dmY_upper = [ZeroDay, Lit ''-JAN-'', LongYear]"

definition L_dmy :: layout where
  "L_dmy = [ZeroDay, Lit ''-'', MonthName, Lit ''-'', Year2]"

definition L_dmY :: layout where
  "L_dmY = [ZeroDay, Lit ''-'', MonthName, Lit ''-'', LongYear]"

definition L_2mY_upper :: layout where
  "L_2mY_upper = [Day, Lit ''-JAN-'', LongYear]"

definition L_2mY :: layout where
  "L_2mY = [Day, Lit ''-'', MonthName, Lit ''-'', LongYear]"

definition try_layouts :: "layout list \<Rightarrow> string \<Rightarrow> caldate option" where
  "try_layouts ls val = first_some (concat (map (\<lambda>l. [time_Parse l val, time_Parse l (ToUpper val)]) ls))"

definition parseExpiryFlexible :: "string \<Rightarrow> goerr + caldate" where
  "parseExpiryFlexible v =
     (case try_layouts [L_RFC3339, L_datetime, L_date, L_dmy_upper, L_dmY_upper, L_dmy, L_dmY, L_2mY_upper, L_2mY] (cleanCell v) of
        Some t \<Rightarrow> Inr t
      | None \<Rightarrow> Inl (GoErr (''unsupported expiry format: '' @ v)))"

section \<open>internal/parser: the XTS master file\<close>

record MasterParseConfig =
  mp_Delimiter :: string
  mp_IdxExchange :: int
  mp_IdxBrokerToken :: int
  mp_IdxSymbol :: int
  mp_IdxTradingSymbol :: int
  mp_IdxInstrumentType :: int
  mp_IdxTickSize :: int
  mp_IdxLotSize :: int
  mp_IdxExpiry :: int

definition getenvDefault :: "(string \<Rightarrow> string) \<Rightarrow> string \<Rightarrow> string \<Rightarrow> string" where
  "getenvDefault getenv key fallback = (let v = TrimSpace (getenv key) in if v = '''' then fallback else v)"

definition getenvInt :: "(string \<Rightarrow> string) \<Rightarrow> string \<Rightarrow> int \<Rightarrow> int" where
  "getenvInt getenv key fallback = (let v = TrimSpace (getenv key) in
     if v = '''' then fallback else (case ParseInt v of Some n \<Rightarrow> n | None \<Rightarrow> fallback))"

definition ParseConfigFromEnv :: "(string \<Rightarrow> string) \<Rightarrow> MasterParseConfig" where
  "ParseConfigFromEnv getenv =
     \<lparr>mp_Delimiter = getenvDefault getenv ''XTS_MASTER_DELIMITER'' ''|'', mp_IdxExchange = getenvInt getenv ''XTS_MASTER_IDX_EXCHANGE'' 0,
      mp_IdxBrokerToken = getenvInt getenv ''XTS_MASTER_IDX_TOKEN'' 1, mp_IdxSymbol = getenvInt getenv ''XTS_MASTER_IDX_SYMBOL'' 3,
      mp_IdxTradingSymbol = getenvInt getenv ''XTS_MASTER_IDX_TRADINGSYMBOL'' 4, mp_IdxInstrumentType = getenvInt getenv ''XTS_MASTER_IDX_TYPE'' 5,
      mp_IdxTickSize = getenvInt getenv ''XTS_MASTER_IDX_TICKSIZE'' 11, mp_IdxLotSize = getenvInt getenv ''XTS_MASTER_IDX_LOTSIZE'' 12,
      mp_IdxExpiry = getenvInt getenv ''XTS_MASTER_IDX_EXPIRY'' 16\<rparr>"

definition extractLines :: "(json \<Rightarrow> string) \<Rightarrow> json \<Rightarrow> goerr + string list" where
  "extractLines marshal result = (case result of
      JArr v \<Rightarrow> Inr (concat (map (\<lambda>item. case item of JStr s \<Rightarrow> if TrimSpace s \<noteq> '''' then [s] else [] | _ \<Rightarrow> []) v))
    | JStr v \<Rightarrow> Inr (filter (\<lambda>l. l \<noteq> '''') (map TrimSpace (Split v [CHR 0x0A])))
    | _ \<Rightarrow> Inl (GoErr (''unsupported master result format: '' @ marshal result)))"

definition deriveOptionType :: "string \<Rightarrow> string" where
  "deriveOptionType tradingSymbol = (let ts = ToUpper (TrimSpace tradingSymbol) in
     if HasSuffix ts ''CE'' then ''CE'' else if HasSuffix ts ''PE'' then ''PE'' else '''')"

text \<open>The expression \<^verbatim>\<open>(\d+)(CE|PE)$\<close> matches the longest run of digits before the suffix.\<close>

definition deriveStrike :: "string \<Rightarrow> string \<Rightarrow> f64" where
  "deriveStrike instrumentType tradingSymbol =
     (let inst = ToUpper (TrimSpace instrumentType); ts = ToUpper (TrimSpace tradingSymbol) in
      if HasPrefix inst ''FUT'' then Fin 0
      else if \<not> (HasSuffix ts ''CE'' \<or> HasSuffix ts ''PE'') then Fin 0
      else
        let digits = rev (takeWhile is_digit (drop 2 (rev ts))) in
        if digits = '''' then Fin 0 else (case ParseFloat digits of Some v \<Rightarrow> v | None \<Rightarrow> Fin 0))"

definition master_indices :: "MasterParseConfig \<Rightarrow> int list" where
  "master_indices cfg = [mp_IdxExchange cfg, mp_IdxBrokerToken cfg, mp_IdxSymbol cfg, mp_IdxTradingSymbol cfg,
     mp_IdxInstrumentType cfg, mp_IdxTickSize cfg, mp_IdxLotSize cfg, mp_IdxExpiry cfg]"

definition master_maxIdx :: "MasterParseConfig \<Rightarrow> int" where
  "master_maxIdx cfg = foldl max (mp_IdxExchange cfg) (master_indices cfg)"

text \<open>One line: skipped, a contract, or the run-time panic of an index below zero.\<close>

definition parse_master_line :: "MasterParseConfig \<Rightarrow> string \<Rightarrow> goerr + Contract option" where
  "parse_master_line cfg line0 =
     (let line = TrimSpace line0; cols = Split line (mp_Delimiter cfg); col = (\<lambda>i. TrimSpace (cols ! nat i)) in
      if line = '''' \<or> int (length cols) \<le> master_maxIdx cfg then Inr None
      else if list_ex (\<lambda>i. i < 0) (master_indices cfg) then Inl (GoPanic ''index out of range'')
      else
        let exchange = ToUpper (col (mp_IdxExchange cfg)); tokenStr = col (mp_IdxBrokerToken cfg);
            symbol = ToUpper (col (mp_IdxSymbol cfg)); tradingSymbol = col (mp_IdxTradingSymbol cfg);
            instrumentType = ToUpper (col (mp_IdxInstrumentType cfg)); lotStr = col (mp_IdxLotSize cfg) in
        if exchange = '''' \<or> tokenStr = '''' \<or> symbol = '''' \<or> lotStr = '''' then Inr None
        else (case (ParseInt tokenStr, ParseInt lotStr, parseExpiryFlexible (col (mp_IdxExpiry cfg))) of
            (Some token, Some lotSize, Inr expiry) \<Rightarrow>
              Inr (if token = 0 \<or> lotSize \<le> 0 then None
                else Some \<lparr>ct_BrokerToken = token, ct_Exchange = exchange, ct_Symbol = symbol, ct_InstrumentType = instrumentType,
                  ct_ExpiryDate = expiry, ct_StrikePrice = deriveStrike instrumentType tradingSymbol,
                  ct_OptionType = deriveOptionType tradingSymbol, ct_LotSize = lotSize,
                  ct_TickSize = ParseFloat_value (col (mp_IdxTickSize cfg)),
                  ct_RawDetails = Some (JObj [(''source'', JStr ''xts-master''), (''line'', JStr line)])\<rparr>)
          | _ \<Rightarrow> Inr None))"

fun parse_master_lines :: "MasterParseConfig \<Rightarrow> string list \<Rightarrow> goerr + Contract list" where
  "parse_master_lines cfg [] = Inr []"
| "parse_master_lines cfg (l # ls) = (case parse_master_line cfg l of
      Inl e \<Rightarrow> Inl e
    | Inr c \<Rightarrow> (case parse_master_lines cfg ls of Inl e \<Rightarrow> Inl e | Inr cs \<Rightarrow> Inr (case c of None \<Rightarrow> cs | Some c \<Rightarrow> c # cs)))"

definition ParseMaster :: "(json \<Rightarrow> string) \<Rightarrow> (string \<times> json) list \<Rightarrow> MasterParseConfig \<Rightarrow> goerr + Contract list" where
  "ParseMaster marshal raw cfg = (case json_get raw ''result'' of
      None \<Rightarrow> Inl (GoErr ''master response missing result'')
    | Some result \<Rightarrow> (case extractLines marshal result of Inl e \<Rightarrow> Inl e | Inr lines \<Rightarrow> parse_master_lines cfg lines))"

section \<open>internal/parser: lot sizes and token files\<close>

definition lotKey :: "string \<Rightarrow> string \<Rightarrow> caldate \<Rightarrow> string \<Rightarrow> string" where
  "lotKey exchange symbol expiry instrumentType =
     ToUpper (TrimSpace exchange) @ ''|'' @ ToUpper (TrimSpace symbol) @ ''|'' @ fmt_date expiry @ ''|'' @ ToUpper (TrimSpace instrumentType)"

definition lot_entry :: "(string, int) gomap \<Rightarrow> Contract \<Rightarrow> (string, int) gomap" where
  "lot_entry out r =
     (if ct_LotSize r \<le> 0 then out
      else gm_set (lotKey (ct_Exchange r) (ct_Symbol r) (ct_ExpiryDate r) (ct_InstrumentType r)) (ct_LotSize r)
        (gm_set (lotKey (ct_Exchange r) (ct_Symbol r) (ct_ExpiryDate r) '''') (ct_LotSize r) out))"

definition BuildLotSizeLookup :: "Contract list \<Rightarrow> (string, int) gomap" where
  "BuildLotSizeLookup rows = foldl lot_entry [] rows"

definition lookupLotSize :: "(string, int) gomap \<Rightarrow> string \<Rightarrow> string \<Rightarrow> caldate \<Rightarrow> string \<Rightarrow> int" where
  "lookupLotSize lots exchange symbol expiry instrumentType =
     (case first_some (map (\<lambda>k. case gm_get lots k of Some v \<Rightarrow> if 0 < v then Some v else None | None \<Rightarrow> None)
        [lotKey exchange symbol expiry instrumentType, lotKey exchange symbol expiry '''']) of
        Some v \<Rightarrow> v | None \<Rightarrow> 0)"

definition fallbackLotSize :: "string \<Rightarrow> int" where
  "fallbackLotSize symbol = (let s = ToUpper (TrimSpace symbol) in
     if s = ''NIFTY'' then 65 else if s = ''BANKNIFTY'' then 15 else if s = ''FINNIFTY'' then 40
     else if s = ''MIDCPNIFTY'' then 65 else if s = ''SENSEX'' then 20 else if s = ''BANKEX'' then 15 else 0)"

definition normalizeCSVExchange :: "string \<Rightarrow> string" where
  "normalizeCSVExchange v = (let s = ToUpper (cleanCell v) in if s = ''NSE'' then ''NSEFO'' else if s = ''BSE'' then ''BSEFO'' else s)"

definition normalizeCSVInstrumentType :: "string \<Rightarrow> string \<Rightarrow> string" where
  "normalizeCSVInstrumentType exchange v = (let s = ToUpper (cleanCell v) in
     if exchange = ''NSEFO'' \<and> s = ''OPTIDX'' then ''OPTIDX'' else if exchange = ''BSEFO'' \<and> s = ''OPTION'' then ''OPTION'' else s)"

definition normalizeOptionType :: "string \<Rightarrow> string" where
  "normalizeOptionType v = (let s = ToUpper (cleanCell v) in
     if s \<in> {''CE'', ''CALL''} then ''CE'' else if s \<in> {''PE'', ''PUT''} then ''PE'' else '''')"

definition looksLikeHeader :: "string list \<Rightarrow> bool" where
  "looksLikeHeader parts = (let joined = ToUpper (join '' '' parts) in
     Contains joined ''TOKEN'' \<or> Contains joined ''EXCHANGE'' \<or> Contains joined ''SYMBOL'' \<or> Contains joined ''INSTRUMENT'')"

definition default_tick :: f64 where
  "default_tick = Fin (3602879701896397 / 72057594037927936)"

definition inferTickSizeFromRow :: "string list \<Rightarrow> f64" where
  "inferTickSizeFromRow row =
     (case first_some (map (\<lambda>idx.
          if length row \<le> idx then None
          else let v = cleanCell (row ! idx) in
            if v = '''' \<or> EqualFold v ''NA'' then None
            else (case ParseFloat (cleanNumeric v) of Some f \<Rightarrow> if flt (Fin 0) f \<and> fle f (Fin 100) then Some f else None | None \<Rightarrow> None))
        [8, 9, 10, 11, 12]) of
        Some f \<Rightarrow> f | None \<Rightarrow> default_tick)"

definition parseTokenCSVRow :: "string \<Rightarrow> string list \<Rightarrow> (string, int) gomap \<Rightarrow> Contract option" where
  "parseTokenCSVRow source row lots =
     (if length row < 8 then None
      else
        let tokenStr = cleanCell (row ! 0); exchangeRaw = cleanCell (row ! 1); instrumentType = cleanCell (row ! 2);
            symbol = cleanCell (row ! 3); expiryStr = cleanCell (row ! 4); strikeStr = cleanCell (row ! 5);
            optionTypeRaw = cleanCell (row ! 6) in
        if tokenStr = '''' \<or> exchangeRaw = '''' \<or> symbol = '''' \<or> expiryStr = '''' then None
        else if looksLikeHeader [tokenStr, exchangeRaw, instrumentType, symbol] then None
        else (case (ParseInt (cleanNumeric tokenStr), parseExpiryFlexible expiryStr) of
            (Some token, Inr expiry) \<Rightarrow>
              if token \<le> 0 then None
              else
                let strike = (if strikeStr \<noteq> '''' \<and> \<not> EqualFold strikeStr ''NA'' then ParseFloat_value (cleanNumeric strikeStr) else Fin 0);
                    exchange = normalizeCSVExchange exchangeRaw; instType = normalizeCSVInstrumentType exchange instrumentType;
                    l = lookupLotSize lots exchange symbol expiry instType;
                    lotSize = (if l \<le> 0 then fallbackLotSize symbol else l) in
                if lotSize \<le> 0 then None
                else Some \<lparr>ct_BrokerToken = token, ct_Exchange = exchange, ct_Symbol = ToUpper symbol, ct_InstrumentType = instType,
                  ct_ExpiryDate = expiry, ct_StrikePrice = strike, ct_OptionType = normalizeOptionType optionTypeRaw, ct_LotSize = lotSize,
                  ct_TickSize = inferTickSizeFromRow row,
                  ct_RawDetails = Some (JObj [(''row'', JArr (map JStr row)), (''source'', JStr source)])\<rparr>
          | _ \<Rightarrow> None))"

text \<open>The rows of a file as \<^verbatim>\<open>encoding/csv\<close> reads them, or where that fails.\<close>

datatype csv_file = CsvOpenFail goerr | CsvReadFail goerr | CsvRows "string list list"

definition ParseTokenCSVFile :: "(string \<Rightarrow> csv_file) \<Rightarrow> string \<Rightarrow> (string, int) gomap \<Rightarrow> goerr + Contract list" where
  "ParseTokenCSVFile read_csv path lots = (case read_csv path of
      CsvOpenFail e \<Rightarrow> Inl (GoWrap (''open '' @ path @ '': '') e)
    | CsvReadFail e \<Rightarrow> Inl (GoWrap (''read csv '' @ path @ '': '') e)
    | CsvRows rows \<Rightarrow> Inr (List.map_filter (\<lambda>row. parseTokenCSVRow path row lots) rows))"

section \<open>internal/ingest\<close>

definition parse_old_row :: "string list \<Rightarrow> Contract option" where
  "parse_old_row row =
     (if length row < 6 then None
      else
        let token = ParseInt_value (row ! 0); lotSize = ParseInt_value (row ! 5) in
        (case time_Parse L_date (row ! 2) of
           None \<Rightarrow> None
         | Some expiry \<Rightarrow>
             if token = 0 \<or> lotSize = 0 then None
             else Some \<lparr>ct_BrokerToken = token, ct_Exchange = ''NSE'', ct_Symbol = row ! 1, ct_InstrumentType = ''OPT'', ct_ExpiryDate = expiry,
               ct_StrikePrice = ParseFloat_value (row ! 3), ct_OptionType = row ! 4, ct_LotSize = lotSize, ct_TickSize = default_tick,
               ct_RawDetails = None\<rparr>))"

definition LoadContracts :: "(string \<Rightarrow> csv_file) \<Rightarrow> string \<Rightarrow> goerr + Contract list" where
  "LoadContracts read_csv path = (case read_csv path of CsvOpenFail e \<Rightarrow> Inl e | CsvReadFail e \<Rightarrow> Inl e | CsvRows rows \<Rightarrow> Inr (List.map_filter parse_old_row (drop 1 rows)))"

section \<open>internal/persistence\<close>

text \<open>
  The table holds the rows by token and exchange; the column \<^verbatim>\<open>updated_at\<close>, which nothing reads,
  is left out. A \<^verbatim>\<open>COMMIT\<close> whose answer is lost may have taken effect or not.
\<close>

type_synonym contracts = "(int \<times> string, Contract) gomap"

datatype commit = Committed | CommitLost goerr bool

record upsert_env =
  up_begin :: "goerr option"
  up_prepare :: "goerr option"
  up_exec :: "nat \<Rightarrow> goerr option"
  up_commit :: commit

definition contract_row :: "Contract \<Rightarrow> Contract" where
  "contract_row c = c\<lparr>ct_Exchange := ToUpper (TrimSpace (ct_Exchange c)), ct_Symbol := ToUpper (TrimSpace (ct_Symbol c)),
     ct_InstrumentType := ToUpper (TrimSpace (ct_InstrumentType c)), ct_OptionType := ToUpper (TrimSpace (ct_OptionType c))\<rparr>"

definition contract_key :: "Contract \<Rightarrow> int \<times> string" where
  "contract_key c = (ct_BrokerToken c, ToUpper (TrimSpace (ct_Exchange c)))"

definition upsert_error :: "Contract \<Rightarrow> goerr \<Rightarrow> goerr" where
  "upsert_error c e = GoWrap (''upsert contract '' @ ct_Exchange c @ '' '' @ ct_Symbol c @ '' '' @ fmt_date (ct_ExpiryDate c) @ '' failed: '') e"

fun exec_upserts :: "(nat \<Rightarrow> goerr option) \<Rightarrow> nat \<Rightarrow> Contract list \<Rightarrow> contracts \<Rightarrow> goerr + contracts" where
  "exec_upserts ex n [] t = Inr t"
| "exec_upserts ex n (c # cs) t = (case ex n of
      Some e \<Rightarrow> Inl (upsert_error c e)
    | None \<Rightarrow> exec_upserts ex (Suc n) cs (gm_set (contract_key c) (contract_row c) t))"

definition UpsertContracts :: "upsert_env \<Rightarrow> Contract list \<Rightarrow> contracts \<Rightarrow> goerr option \<times> contracts" where
  "UpsertContracts env cs t =
     (if cs = [] then (None, t)
      else case up_begin env of Some e \<Rightarrow> (Some e, t)
      | None \<Rightarrow> (case up_prepare env of Some e \<Rightarrow> (Some e, t)
      | None \<Rightarrow> (case exec_upserts (up_exec env) 0 cs t of
          Inl e \<Rightarrow> (Some e, t)
        | Inr t' \<Rightarrow> (case up_commit env of
              Committed \<Rightarrow> (None, t')
            | CommitLost e applied \<Rightarrow> (Some e, if applied then t' else t)))))"

definition parseExpiry :: "string \<Rightarrow> goerr + caldate" where
  "parseExpiry v =
     (case try_layouts [L_date, L_datetime, L_RFC3339, L_dmy_upper, L_dmY_upper, L_dmy, L_dmY, L_2mY, L_2mY_upper] (TrimSpace v) of
        Some t \<Rightarrow> Inr t
      | None \<Rightarrow> Inl (GoErr (''invalid expiry: '' @ v)))"

definition GetLotSize :: "goerr option \<Rightarrow> (Contract list \<Rightarrow> Contract list) \<Rightarrow> contracts \<Rightarrow> string \<Rightarrow> string \<Rightarrow> goerr + int" where
  "GetLotSize fault ord t symbol expiry = (case parseExpiry expiry of
      Inl e \<Rightarrow> Inl e
    | Inr d \<Rightarrow> (case fault of
        Some e \<Rightarrow> Inl e
      | None \<Rightarrow> (case filter (\<lambda>r. ToUpper (ct_Symbol r) = ToUpper (TrimSpace symbol) \<and> ct_ExpiryDate r = d) (ord (map snd t)) of
          [] \<Rightarrow> Inl (GoErr (''lot size not found for '' @ ToUpper (TrimSpace symbol) @ '' '' @ fmt_date d))
        | r # _ \<Rightarrow> Inr (ct_LotSize r))))"

section \<open>cmd/main.go\<close>

definition env_or :: "(string \<Rightarrow> string) \<Rightarrow> string list \<Rightarrow> string \<Rightarrow> string" where
  "env_or getenv keys fallback =
     (case filter (\<lambda>v. v \<noteq> '''') (map (\<lambda>k. TrimSpace (getenv k)) keys) of [] \<Rightarrow> fallback | v # _ \<Rightarrow> v)"

definition token_paths :: "(string \<Rightarrow> string) \<Rightarrow> string list" where
  "token_paths getenv =
     [env_or getenv [''INDEX_TOKENS_PATH'', ''INDEX_TOKENS_CSV''] ''./IndexTokens.csv'',
      env_or getenv [''BSE_INDEX_TOKENS_PATH'', ''BSE_INDEX_TOKENS_CSV''] ''./BSEIndexTokens.csv'']"

text \<open>A file that cannot be read is logged and gives no contracts. An upsert that fails ends the program.\<close>

definition load_token_files :: "(string \<Rightarrow> csv_file) \<Rightarrow> (string \<Rightarrow> string) \<Rightarrow> Contract list" where
  "load_token_files read_csv getenv =
     concat (map (\<lambda>path. case ParseTokenCSVFile read_csv path [] of Inl _ \<Rightarrow> [] | Inr cs \<Rightarrow> cs) (token_paths getenv))"

definition contract_master_start :: "(string \<Rightarrow> csv_file) \<Rightarrow> (string \<Rightarrow> string) \<Rightarrow> upsert_env \<Rightarrow> contracts \<Rightarrow> goerr option \<times> contracts" where
  "contract_master_start read_csv getenv env t =
     (let cs = load_token_files read_csv getenv in if cs = [] then (None, t) else UpsertContracts env cs t)"

definition lot_size_error :: "string \<Rightarrow> int \<times> json" where
  "lot_size_error e = (400, JObj [(''error'', JStr e), (''success'', JBool False)])"

definition getLotSize_handler :: "goerr option \<Rightarrow> (Contract list \<Rightarrow> Contract list) \<Rightarrow> contracts \<Rightarrow> string \<Rightarrow> string \<Rightarrow> int \<times> json" where
  "getLotSize_handler fault ord t symbol0 expiry0 =
     (let symbol = TrimSpace symbol0; expiry = TrimSpace expiry0 in
      if symbol = '''' \<or> expiry = '''' then lot_size_error ''symbol and expiry required''
      else (case GetLotSize fault ord t symbol expiry of
          Inl e \<Rightarrow> lot_size_error (Error e)
        | Inr n \<Rightarrow> (200, JObj [(''expiry'', JStr expiry), (''lot_size'', JNum (of_int n)), (''success'', JBool True), (''symbol'', JStr symbol)])))"

text \<open>The two patterns: with a trailing slash the symbol comes from the path, else from the query.\<close>

definition lot_size_by_path :: "goerr option \<Rightarrow> (Contract list \<Rightarrow> Contract list) \<Rightarrow> contracts \<Rightarrow> string \<Rightarrow> (string \<Rightarrow> string) \<Rightarrow> int \<times> json" where
  "lot_size_by_path fault ord t path query =
     (let s = TrimSpace (TrimPrefix path ''/api/lot-size/'');
          symbol = (if s = '''' then TrimSpace (query ''symbol'') else s) in
      getLotSize_handler fault ord t symbol (TrimSpace (query ''expiry'')))"

definition lot_size_by_query :: "goerr option \<Rightarrow> (Contract list \<Rightarrow> Contract list) \<Rightarrow> contracts \<Rightarrow> (string \<Rightarrow> string) \<Rightarrow> int \<times> json" where
  "lot_size_by_query fault ord t query = getLotSize_handler fault ord t (TrimSpace (query ''symbol'')) (TrimSpace (query ''expiry''))"

end
