(* ===== verification/Contract_Master_Proofs.thy ===== *)
theory Contract_Master_Proofs
  imports Contract_Master
begin

text \<open>
  Properties of the contract master: what the parsers return, how the table changes, and what the
  lot-size endpoint answers after a start-up.
\<close>

section \<open>Dates\<close>

definition parts_ok :: "tparts \<Rightarrow> bool" where
  "parts_ok p \<longleftrightarrow> tp_year p < 10000 \<and> (case tp_month p of None \<Rightarrow> True | Some m \<Rightarrow> 1 \<le> m \<and> m \<le> 12)"

lemma lookup_month_bounds: "lookup_month n ms s = Some (m, r) \<Longrightarrow> n \<le> m \<and> m < n + length ms"
  by (induction n ms s rule: lookup_month.induct) (auto split: if_splits)

lemma digit_val_le: "is_digit c \<Longrightarrow> digit_val c \<le> 9"
  by (auto simp: is_digit_def digit_val_def Let_def)

lemma read_digits_bound: "list_all is_digit s \<Longrightarrow> read_digits s < 10 ^ length s"
proof (induction s rule: rev_induct)
  case (snoc c s)
  then show ?case using digit_val_le [of c] by simp
qed (simp add: read_digits_def)

lemma parse_chunk_ok:
  assumes "parts_ok p" "parse_chunk c p s = Some (p', r)"
  shows "parts_ok p'"
proof (cases c)
  case LongYear
  then show ?thesis using assms read_digits_bound [of "take 4 s"] by (auto simp: parts_ok_def split: if_splits)
next
  case Year2
  then show ?thesis using assms read_digits_bound [of "take 2 s"] by (auto simp: parts_ok_def Let_def split: if_splits)
next
  case MonthName
  then obtain m where m: "lookup_month 1 short_months s = Some (m, r)" "p' = p\<lparr>tp_month := Some m\<rparr>"
    using assms(2) by (auto split: option.splits)
  have "length short_months = 12" by (simp add: short_months_def)
  then show ?thesis using lookup_month_bounds [OF m(1)] assms(1) by (simp add: parts_ok_def m(2))
qed (use assms in \<open>auto simp: parts_ok_def split: if_splits option.splits prod.splits\<close>)

lemma parse_layout_ok: "parts_ok p \<Longrightarrow> parse_layout l p s = Some p' \<Longrightarrow> parts_ok p'"
  by (induction l p s rule: parse_layout.induct) (auto split: if_splits option.splits prod.splits dest: parse_chunk_ok)

lemma time_Parse_ok:
  assumes "time_Parse l s = Some d"
  shows "date_ok d"
proof -
  obtain p where p: "parse_layout l \<lparr>tp_year = 0, tp_month = None, tp_day = None\<rparr> s = Some p" "date_of p = Some d"
    using assms by (auto simp: time_Parse_def split: option.splits)
  have "parts_ok p" by (rule parse_layout_ok [OF _ p(1)]) (simp add: parts_ok_def)
  then show ?thesis using p(2) by (auto simp: parts_ok_def date_of_def date_ok_def Let_def split: if_splits option.splits)
qed

lemma first_some_mem: "first_some xs = Some x \<Longrightarrow> Some x \<in> set xs"
  by (induction xs rule: first_some.induct) auto

lemma first_some_map: "first_some (map g ks) = Some x \<Longrightarrow> \<exists>k \<in> set ks. g k = Some x"
  by (drule first_some_mem) auto

lemma try_layouts_ok: "try_layouts ls v = Some d \<Longrightarrow> date_ok d"
  by (auto simp: try_layouts_def dest!: first_some_mem dest: time_Parse_ok [OF sym])

lemma parseExpiryFlexible_ok: "parseExpiryFlexible v = Inr d \<Longrightarrow> date_ok d"
  by (auto simp: parseExpiryFlexible_def split: option.splits dest: try_layouts_ok)

lemma digits_no_space: "list_all is_digit s \<Longrightarrow> c \<in> set s \<Longrightarrow> \<not> is_space c"
  by (auto simp: list_all_iff is_digit_def is_space_def Let_def)

lemma TrimSpace_no_space: "\<forall>c \<in> set s. \<not> is_space c \<Longrightarrow> TrimSpace s = s"
proof -
  have d: "\<forall>c \<in> set xs. \<not> is_space c \<Longrightarrow> dropWhile is_space xs = xs" for xs by (cases xs) auto
  assume "\<forall>c \<in> set s. \<not> is_space c"
  then show ?thesis by (simp add: TrimSpace_def trim_by_def d)
qed

lemma pad2_is_digits: "n < 100 \<Longrightarrow> list_all is_digit (pad2 n)"
  by (simp add: pad2_digits)

lemma fmt_date_no_space: "date_ok d \<Longrightarrow> \<forall>c \<in> set (fmt_date d). \<not> is_space c"
proof -
  assume "date_ok d"
  then have "cd_month d < 100" "cd_day d < 100" "cd_year d < 10000"
    using days_in_le [of "cd_month d" "cd_year d"] by (auto simp: date_ok_def)
  then have "list_all is_digit (pad2 (cd_month d))" "list_all is_digit (pad2 (cd_day d))" "list_all is_digit (pad4 (cd_year d))"
    by (simp_all add: pad2_is_digits pad4_facts)
  moreover have "\<not> is_space (CHR ''-'')" by (simp add: is_space_def)
  ultimately show ?thesis by (auto simp: fmt_date_def digits_no_space)
qed

lemma TrimSpace_fmt_date: "date_ok d \<Longrightarrow> TrimSpace (fmt_date d) = fmt_date d"
  by (rule TrimSpace_no_space) (rule fmt_date_no_space)

lemma parseExpiry_fmt_date: "date_ok d \<Longrightarrow> parseExpiry (fmt_date d) = Inr d"
  by (simp add: parseExpiry_def try_layouts_def TrimSpace_fmt_date time_Parse_fmt_date)

section \<open>Contracts\<close>

definition contract_ok :: "Contract \<Rightarrow> bool" where
  "contract_ok c \<longleftrightarrow> 0 < ct_BrokerToken c \<and> int64_ok (ct_BrokerToken c) \<and> date_ok (ct_ExpiryDate c) \<and>
     ct_OptionType c \<in> {''CE'', ''PE'', ''''} \<and> 0 < ct_LotSize c \<and> flt (Fin 0) (ct_TickSize c) \<and> fle (ct_TickSize c) (Fin 100)"

lemma ParseInt_ok: "ParseInt s = Some n \<Longrightarrow> int64_ok n"
  by (auto simp: ParseInt_def parse_signed_def Let_def split: list.splits if_splits)

lemma default_tick_range: "flt (Fin 0) default_tick" "fle default_tick (Fin 100)"
  by (simp_all add: default_tick_def)

lemma inferTickSize_range: "flt (Fin 0) (inferTickSizeFromRow row) \<and> fle (inferTickSizeFromRow row) (Fin 100)"
  unfolding inferTickSizeFromRow_def
  by (auto simp only: default_tick_range Let_def split: option.split if_splits dest!: first_some_map)
    (auto split: option.splits if_splits)

lemma parseTokenCSVRow_ok:
  assumes "parseTokenCSVRow source row lots = Some c"
  shows "contract_ok c"
  using assms inferTickSize_range [of row]
  by (auto simp: parseTokenCSVRow_def contract_ok_def normalizeOptionType_def Let_def
      split: if_splits option.splits sum.splits dest: ParseInt_ok parseExpiryFlexible_ok)

lemma set_map_filter: "y \<in> set (List.map_filter f xs) \<longleftrightarrow> (\<exists>x \<in> set xs. f x = Some y)"
  by (force simp: List.map_filter_def)

lemma parsed_rows:
  assumes "ParseTokenCSVFile read_csv path lots = Inr cs" "c \<in> set cs"
  obtains row where "parseTokenCSVRow path row lots = Some c"
  using assms by (cases "read_csv path") (auto simp: ParseTokenCSVFile_def set_map_filter)

lemma loaded_rows:
  assumes "c \<in> set (load_token_files read_csv getenv)"
  obtains path row where "parseTokenCSVRow path row [] = Some c"
  using assms by (auto simp: load_token_files_def split: sum.splits elim: parsed_rows [OF sym])

definition fallback_lot :: "Contract \<Rightarrow> bool" where
  "fallback_lot c \<longleftrightarrow> 0 < ct_LotSize c \<and> ct_LotSize c = fallbackLotSize (ct_Symbol c)"

lemma lookup_empty [simp]: "lookupLotSize [] exchange symbol expiry inst = 0"
  by (simp add: lookupLotSize_def)

lemma fallbackLotSize_upper [simp]: "fallbackLotSize (ToUpper s) = fallbackLotSize s"
  by (simp add: fallbackLotSize_def)

lemma fallbackLotSize_trim [simp]: "fallbackLotSize (TrimSpace s) = fallbackLotSize s"
  by (simp add: fallbackLotSize_def)

lemma fallbackLotSize_nonempty: "0 < fallbackLotSize s \<Longrightarrow> TrimSpace s \<noteq> []"
  by (auto simp: fallbackLotSize_def Let_def)

lemma loaded_fallback: "parseTokenCSVRow path row [] = Some c \<Longrightarrow> fallback_lot c"
  by (auto simp: parseTokenCSVRow_def fallback_lot_def Let_def split: if_splits option.splits sum.splits)

lemma contract_row_ok: "contract_ok c \<Longrightarrow> contract_ok (contract_row c)"
proof -
  have "ToUpper (TrimSpace ''CE'') = ''CE''" "ToUpper (TrimSpace ''PE'') = ''PE''" by code_simp+
  then show "contract_ok c \<Longrightarrow> contract_ok (contract_row c)" by (auto simp: contract_ok_def contract_row_def)
qed

lemma contract_row_fallback: "fallback_lot (contract_row c) = fallback_lot c"
  by (simp add: fallback_lot_def contract_row_def)

lemma contract_row_idem: "contract_row (contract_row c) = contract_row c"
  by (simp add: contract_row_def)

lemma contract_row_key [simp]: "contract_key (contract_row c) = contract_key c"
  by (simp add: contract_row_def contract_key_def)

section \<open>The table\<close>

definition table_ok :: "contracts \<Rightarrow> bool" where
  "table_ok t \<longleftrightarrow> gm_ok t \<and> (\<forall>(k, r) \<in> set t. k = contract_key r \<and> contract_row r = r \<and> contract_ok r)"

definition upsert_all :: "Contract list \<Rightarrow> contracts \<Rightarrow> contracts" where
  "upsert_all cs t = foldl (\<lambda>t c. gm_set (contract_key c) (contract_row c) t) t cs"

lemma gm_set_mem: "(k, v) \<in> set (gm_set k' v' m) \<Longrightarrow> (k = k' \<and> v = v') \<or> (k, v) \<in> set m"
  unfolding gm_set_def by (induction m) (auto split: if_splits)

lemma exec_upserts_all: "exec_upserts ex n cs t = Inr t' \<Longrightarrow> t' = upsert_all cs t"
  by (induction ex n cs t rule: exec_upserts.induct) (auto simp: upsert_all_def split: option.splits)

lemma upsert_outcome:
  assumes "UpsertContracts env cs t = (r, t')"
  shows "t' = t \<or> t' = upsert_all cs t" "r = None \<Longrightarrow> t' = upsert_all cs t"
  using assms
  by (auto simp: UpsertContracts_def upsert_all_def [of "[]"] dest!: exec_upserts_all
      split: if_splits option.splits sum.splits commit.splits)

lemma upsert_all_get:
  "gm_get (upsert_all cs t) k = (case find (\<lambda>c. contract_key c = k) (rev cs) of Some c \<Rightarrow> Some (contract_row c) | None \<Rightarrow> gm_get t k)"
  by (induction cs rule: rev_induct) (auto simp: upsert_all_def gm_get_set)

lemma table_ok_set: "table_ok t \<Longrightarrow> contract_ok c \<Longrightarrow> table_ok (gm_set (contract_key c) (contract_row c) t)"
  by (auto simp: table_ok_def contract_row_ok contract_row_idem dest!: gm_set_mem)

lemma table_ok_all: "table_ok t \<Longrightarrow> list_all contract_ok cs \<Longrightarrow> table_ok (upsert_all cs t)"
  unfolding upsert_all_def by (induction cs arbitrary: t) (auto simp: table_ok_set)

lemma fallback_all: "\<forall>(k, r) \<in> set t. fallback_lot r \<Longrightarrow> list_all fallback_lot cs \<Longrightarrow> \<forall>(k, r) \<in> set (upsert_all cs t). fallback_lot r"
  unfolding upsert_all_def
proof (induction cs arbitrary: t)
  case (Cons c cs)
  have "\<forall>(k, r) \<in> set (gm_set (contract_key c) (contract_row c) t). fallback_lot r"
    using Cons.prems by (auto simp: contract_row_fallback dest!: gm_set_mem)
  then show ?case using Cons by simp
qed simp

lemma find_distinct: "c \<in> set cs \<Longrightarrow> distinct (map f cs) \<Longrightarrow> find (\<lambda>d. f d = f c) (rev cs) = Some c"
  by (induction cs rule: rev_induct) (auto simp: image_iff)

lemma start_upserts:
  assumes "contract_master_start read_csv getenv env t = (r, t')"
  shows "t' = t \<or> t' = upsert_all (load_token_files read_csv getenv) t"
    "r = None \<Longrightarrow> t' = upsert_all (load_token_files read_csv getenv) t"
  using assms upsert_outcome [of env "load_token_files read_csv getenv" t r t']
  by (auto simp: contract_master_start_def Let_def upsert_all_def [of "[]"] split: if_splits)

lemma load_ok: "list_all contract_ok (load_token_files read_csv getenv)"
  by (auto simp: list_all_iff elim: loaded_rows dest: parseTokenCSVRow_ok)

lemma load_fallback: "list_all fallback_lot (load_token_files read_csv getenv)"
  by (auto simp: list_all_iff elim: loaded_rows dest: loaded_fallback)

text \<open>
  The lot-size query: when every row has the lot size of its symbol, the answer for a stored contract
  does not depend on the order in which the database returns rows.
\<close>

lemma GetLotSize_fallback:
  assumes "\<forall>(k, r) \<in> set t. fallback_lot r" "permutes_list ord" "(k, contract_row c) \<in> set t" "date_ok (ct_ExpiryDate c)"
  shows "GetLotSize None ord t (TrimSpace (ct_Symbol c)) (fmt_date (ct_ExpiryDate c)) = Inr (fallbackLotSize (ct_Symbol c))"
proof -
  define hits where "hits = filter (\<lambda>r. ToUpper (ct_Symbol r) = ToUpper (TrimSpace (ct_Symbol c)) \<and> ct_ExpiryDate r = ct_ExpiryDate c) (ord (map snd t))"
  have mem: "x \<in> set hits \<longleftrightarrow> x \<in> snd ` set t \<and> ToUpper (ct_Symbol x) = ToUpper (TrimSpace (ct_Symbol c)) \<and> ct_ExpiryDate x = ct_ExpiryDate c" for x
    by (auto simp: hits_def permutes_list_set [OF assms(2)])
  have "contract_row c \<in> set hits" using assms(3) by (force simp: mem contract_row_def)
  then obtain x xs where hits: "hits = x # xs" by (cases hits) auto
  then have x: "x \<in> snd ` set t" "ToUpper (ct_Symbol x) = ToUpper (TrimSpace (ct_Symbol c))" using mem [of x] by auto
  have "fallbackLotSize (ct_Symbol x) = fallbackLotSize (ToUpper (TrimSpace (ct_Symbol c)))"
    using fallbackLotSize_upper [of "ct_Symbol x"] x(2) by metis
  moreover have "fallback_lot x" using assms(1) x(1) by auto
  ultimately show ?thesis using hits
    by (simp add: GetLotSize_def parseExpiry_fmt_date [OF assms(4)] fallback_lot_def hits_def)
qed

section \<open>Properties\<close>

text \<open>
  C22. Whatever a token file holds, every contract that is parsed from it has a positive 64-bit token, an
  existing calendar day as expiry, a normalised option type, a positive lot size, and a tick size in
  (0, 100].
\<close>

theorem parsed_contracts_well_formed:
  assumes "ParseTokenCSVFile read_csv path lots = Inr cs"
  shows "list_all contract_ok cs"
  using parsed_rows [OF assms] parseTokenCSVRow_ok by (metis list_all_iff)

definition sample_row :: "string \<Rightarrow> string list" where
  "sample_row token = [token, ''NSE'', ''OPTIDX'', ''NIFTY'', ''28-Jul-2026'', ''NA'', ''CE'', ''x'']"

definition sample_csv :: "string \<Rightarrow> csv_file" where
  "sample_csv path = (if path = ''./IndexTokens.csv'' then CsvRows [[''Token''], sample_row ''101'', sample_row ''102'']
     else CsvOpenFail (GoErr ''no such file''))"

definition sample_contract :: "int \<Rightarrow> string \<Rightarrow> Contract" where
  "sample_contract token cell = \<lparr>ct_BrokerToken = token, ct_Exchange = ''NSEFO'', ct_Symbol = ''NIFTY'', ct_InstrumentType = ''OPTIDX'',
     ct_ExpiryDate = CalDate 2026 7 28, ct_StrikePrice = Fin 0, ct_OptionType = ''CE'', ct_LotSize = 65, ct_TickSize = default_tick,
     ct_RawDetails = Some (JObj [(''row'', JArr (map JStr (sample_row cell))), (''source'', JStr ''./IndexTokens.csv'')])\<rparr>"

lemma sample_eval:
  "parseExpiryFlexible ''28-Jul-2026'' = Inr (CalDate 2026 7 28)" "cleanCell ''101'' = ''101''" "cleanCell ''102'' = ''102''"
  "cleanCell ''NSE'' = ''NSE''" "cleanCell ''OPTIDX'' = ''OPTIDX''" "cleanCell ''NIFTY'' = ''NIFTY''" "cleanCell ''28-Jul-2026'' = ''28-Jul-2026''"
  "cleanCell ''NA'' = ''NA''" "cleanCell ''CE'' = ''CE''" "\<not> looksLikeHeader [''101'', ''NSE'', ''OPTIDX'', ''NIFTY'']"
  "\<not> looksLikeHeader [''102'', ''NSE'', ''OPTIDX'', ''NIFTY'']" "EqualFold ''NA'' ''NA''" "ParseInt (cleanNumeric ''101'') = Some 101"
  "ParseInt (cleanNumeric ''102'') = Some 102" "normalizeCSVExchange ''NSE'' = ''NSEFO''" "normalizeCSVInstrumentType ''NSEFO'' ''OPTIDX'' = ''OPTIDX''"
  "fallbackLotSize ''NIFTY'' = 65" "ToUpper ''NIFTY'' = ''NIFTY''" "ToUpper ''NSEFO'' = ''NSEFO''" "normalizeOptionType ''CE'' = ''CE''"
  "TrimSpace ''NIFTY'' = ''NIFTY''" "TrimSpace ''NSEFO'' = ''NSEFO''" "fmt_date (CalDate 2026 7 28) = ''2026-07-28''" "TrimSpace ''2026-07-28'' = ''2026-07-28''"
  by code_simp+

lemma sample_parse:
  "parseTokenCSVRow ''./IndexTokens.csv'' (sample_row ''101'') [] = Some (sample_contract 101 ''101'')"
  "parseTokenCSVRow ''./IndexTokens.csv'' (sample_row ''102'') [] = Some (sample_contract 102 ''102'')"
  "parseTokenCSVRow ''./IndexTokens.csv'' [''Token''] [] = None"
  using sample_eval by (simp_all add: parseTokenCSVRow_def sample_row_def inferTickSizeFromRow_def sample_contract_def Let_def)

lemma sample_file: "ParseTokenCSVFile sample_csv ''./IndexTokens.csv'' [] = Inr [sample_contract 101 ''101'', sample_contract 102 ''102'']"
  by (simp add: ParseTokenCSVFile_def sample_csv_def sample_parse List.map_filter_def)

lemma sample_load: "load_token_files sample_csv (\<lambda>_. '''') = [sample_contract 101 ''101'', sample_contract 102 ''102'']"
  by (simp add: load_token_files_def token_paths_def env_or_def sample_file) (simp add: ParseTokenCSVFile_def sample_csv_def)

theorem parsed_contracts_well_formed_witness:
  "list_all contract_ok [sample_contract 101 ''101'', sample_contract 102 ''102'']"
  by (rule parsed_contracts_well_formed [OF sample_file])

text \<open>
  C20. An upsert is all or nothing. Whatever database call fails, and whether or not the answer of the
  commit is lost, the table is either unchanged or holds for every token and exchange the last contract
  of the list with that key, normalised, and the old row for all other keys; and if the upsert reports
  success, it is the second. The start-up does the same with the contracts of the two token files and
  keeps the table well formed: one row per key, rows stored under their own key.
\<close>

theorem contract_load_is_atomic:
  assumes "contract_master_start read_csv getenv env t = (r, t')" "table_ok t"
  defines "cs \<equiv> load_token_files read_csv getenv"
  defines "loaded \<equiv> \<lambda>k. case find (\<lambda>c. contract_key c = k) (rev cs) of Some c \<Rightarrow> Some (contract_row c) | None \<Rightarrow> gm_get t k"
  shows "table_ok t' \<and> (t' = t \<or> (\<forall>k. gm_get t' k = loaded k)) \<and> (r = None \<longrightarrow> (\<forall>k. gm_get t' k = loaded k))"
proof (intro conjI)
  have all: "\<forall>k. gm_get (upsert_all cs t) k = loaded k" by (simp add: upsert_all_get loaded_def)
  note out = start_upserts [OF assms(1), folded cs_def]
  show "table_ok t'" using out(1) table_ok_all [OF assms(2) load_ok] assms(2) unfolding cs_def by metis
  show "t' = t \<or> (\<forall>k. gm_get t' k = loaded k)" using out(1) all by metis
  show "r = None \<longrightarrow> (\<forall>k. gm_get t' k = loaded k)" using out(2) all by metis
qed

definition sample_upsert :: upsert_env where
  "sample_upsert = \<lparr>up_begin = None, up_prepare = None, up_exec = (\<lambda>_. None), up_commit = Committed\<rparr>"

lemma sample_start: "contract_master_start sample_csv (\<lambda>_. '''') sample_upsert [] =
    (None, [((101, ''NSEFO''), contract_row (sample_contract 101 ''101'')), ((102, ''NSEFO''), contract_row (sample_contract 102 ''102''))])"
  by (simp add: contract_master_start_def sample_load UpsertContracts_def sample_upsert_def contract_key_def gm_set_def)
    (simp add: sample_contract_def sample_eval)

theorem contract_load_is_atomic_witness:
  "table_ok (snd (contract_master_start sample_csv (\<lambda>_. '''') sample_upsert []))"
proof -
  have "table_ok []" by (simp add: table_ok_def)
  from contract_load_is_atomic [OF sample_start this] show ?thesis by (simp add: sample_start)
qed

text \<open>
  C21. After a successful start-up on a table whose rows all have the lot size of their symbol (an empty
  table for one), the lot-size endpoint answers for every contract of the token files with status 200 and
  the built-in lot size of its symbol, whatever order the database returns rows in. No two contracts of
  the files may have the same token and exchange, since the later one replaces the earlier.
\<close>

theorem loaded_lot_size_is_served:
  assumes "contract_master_start read_csv getenv env t = (None, t')" "\<forall>(k, r) \<in> set t. fallback_lot r"
    and "c \<in> set (load_token_files read_csv getenv)" "distinct (map contract_key (load_token_files read_csv getenv))" "permutes_list ord"
  shows "getLotSize_handler None ord t' (ct_Symbol c) (fmt_date (ct_ExpiryDate c)) =
    (200, JObj [(''expiry'', JStr (fmt_date (ct_ExpiryDate c))), (''lot_size'', JNum (of_int (fallbackLotSize (ct_Symbol c)))),
      (''success'', JBool True), (''symbol'', JStr (TrimSpace (ct_Symbol c)))])"
proof -
  have t': "t' = upsert_all (load_token_files read_csv getenv) t" using start_upserts(2) [OF assms(1)] by simp
  have "gm_get t' (contract_key c) = Some (contract_row c)" by (simp add: t' upsert_all_get find_distinct assms)
  then have mem: "(contract_key c, contract_row c) \<in> set t'" by (rule gm_get_mem)
  have lots: "\<forall>(k, r) \<in> set t'. fallback_lot r" unfolding t' by (rule fallback_all [OF assms(2) load_fallback])
  have c: "contract_ok c" "fallback_lot c" using load_ok load_fallback assms(3) by (auto simp: list_all_iff)
  then have d: "date_ok (ct_ExpiryDate c)" and s: "TrimSpace (ct_Symbol c) \<noteq> []"
    by (auto simp: contract_ok_def fallback_lot_def fallbackLotSize_nonempty)
  have "fmt_date (ct_ExpiryDate c) \<noteq> []" by (simp add: fmt_date_def)
  then show ?thesis using s GetLotSize_fallback [OF lots assms(5) mem d]
    by (simp add: getLotSize_handler_def TrimSpace_fmt_date [OF d] Let_def)
qed

theorem loaded_lot_size_is_served_witness:
  "getLotSize_handler None rev (snd (contract_master_start sample_csv (\<lambda>_. '''') sample_upsert [])) ''NIFTY'' ''2026-07-28'' =
    (200, JObj [(''expiry'', JStr ''2026-07-28''), (''lot_size'', JNum 65), (''success'', JBool True), (''symbol'', JStr ''NIFTY'')])"
proof -
  have "sample_contract 101 ''101'' \<in> set (load_token_files sample_csv (\<lambda>_. ''''))"
    "distinct (map contract_key (load_token_files sample_csv (\<lambda>_. '''')))"
    by (simp_all add: sample_load contract_key_def sample_contract_def)
  from loaded_lot_size_is_served [OF sample_start _ this permutes_list_rev]
  show ?thesis by (simp add: sample_start) (simp add: sample_contract_def sample_eval)
qed

end
