(* ===== verification/Snapshot_Service.thy ===== *)
theory Snapshot_Service
  imports Go_Http Go_Time
begin

text \<open>
  The snapshot service (\<^verbatim>\<open>services/snapshot-service/cmd/main.go\<close>): the cache of option chains
  that it fills from the messages of the feed decoder, the endpoint that serves a chain, the endpoint
  that takes live updates, and the hub that forwards messages to web-socket clients.

  A message is the document that \<^verbatim>\<open>json.Unmarshal\<close> makes of it, none when that fails; its numbers
  are \<^verbatim>\<open>float64\<close> values. The order in which Go ranges over a map is the argument \<open>ord\<close>, and
  whether a write to a client succeeds is part of the event. The clock of the server has no change of
  offset at midnight, so a day given by year, month and day exists exactly when the calendar has it.

  Shown here: a request without an expiry is answered with the nearest expiry that has not passed, and
  with the latest message for it; the hub closes a client at most once and never writes to a closed one.
\<close>

section \<open>Expiry dates\<close>

definition month_names :: "string list" where
  "month_names = [''JAN'', ''FEB'', ''MAR'', ''APR'', ''MAY'', ''JUN'', ''JUL'', ''AUG'', ''SEP'', ''OCT'', ''NOV'', ''DEC'']"

definition month_number :: "string \<Rightarrow> nat option" where
  "month_number s = map_of (zip month_names [1..<13]) s"

definition clean_expiry :: "string \<Rightarrow> string" where
  "clean_expiry expiry = foldl RemoveChar (ToUpper (TrimSpace expiry)) [CHR ''-'', CHR ''_'', CHR '' '', CHR ''/'']"

definition parseSnapshotExpiryDate :: "string \<Rightarrow> caldate option" where
  "parseSnapshotExpiryDate expiry =
     (let clean = clean_expiry expiry in
      if TrimSpace expiry = '''' \<or> (length clean \<noteq> 7 \<and> length clean \<noteq> 9) then None
      else (case (month_number (take 3 (drop 2 clean)), ParseInt (take 2 clean), ParseInt (drop 5 clean)) of
          (Some month, Some day, Some y) \<Rightarrow>
            let year = (if y < 100 then y + 2000 else y) in
            if day \<le> 0 \<or> 31 < day \<or> year < 0 \<or> days_in month (nat year) < nat day then None
            else Some (CalDate (nat year) month (nat day))
        | _ \<Rightarrow> None))"

section \<open>The chain cache\<close>

definition normalizeSymbol :: "string \<Rightarrow> string" where
  "normalizeSymbol s = ToUpper (TrimSpace s)"

record ChainCacheEntry =
  ce_Data :: json
  ce_LastUpdated :: gotime

record snapshot_state =
  ss_cache :: "(string, ChainCacheEntry) gomap"
  ss_broadcast :: "json list"

definition raw_num :: "(string \<times> json) list \<Rightarrow> string \<Rightarrow> rat" where
  "raw_num m k = (case json_get m k of Some (JNum r) \<Rightarrow> r | _ \<Rightarrow> 0)"

definition raw_str :: "(string \<times> json) list \<Rightarrow> string \<Rightarrow> string" where
  "raw_str m k = (case json_get m k of Some (JStr s) \<Rightarrow> s | _ \<Rightarrow> '''')"

definition first_nonzero :: "(string \<times> json) list \<Rightarrow> string list \<Rightarrow> rat" where
  "first_nonzero m ks = (case filter (\<lambda>r. r \<noteq> 0) (map (raw_num m) ks) of r # _ \<Rightarrow> r | [] \<Rightarrow> 0)"

definition chain_data :: "(string \<times> json) list \<Rightarrow> json list \<Rightarrow> json" where
  "chain_data m chain =
     (let future = first_nonzero m [''future_ltp'', ''fut_ltp'', ''spot'']; synthetic = first_nonzero m [''synthetic_future'', ''synthetic_spot''] in
      JObj [(''symbol'', JStr (normalizeSymbol (raw_str m ''symbol''))), (''expiry'', JStr (raw_str m ''expiry'')),
        (''future_ltp'', JNum future), (''fut_ltp'', JNum future), (''synthetic_future'', JNum synthetic), (''synthetic_spot'', JNum synthetic),
        (''atm'', JNum (raw_num m ''atm'')),
        (''available_expiries'', case json_get m ''available_expiries'' of Some (JArr xs) \<Rightarrow> JArr xs | _ \<Rightarrow> JArr []),
        (''chain'', JArr chain)])"

definition cache_key :: "string \<Rightarrow> string \<Rightarrow> string" where
  "cache_key symbol expiry = symbol @ ''|'' @ expiry"

text \<open>One message of the decoder: the key and the data that it stores, none when it is skipped.\<close>

definition chain_message :: "json option \<Rightarrow> (string \<times> string \<times> json) option" where
  "chain_message msg = (case msg of
      Some (JObj m) \<Rightarrow> (case json_get m ''chain'' of
          Some (JArr chain) \<Rightarrow> Some (normalizeSymbol (raw_str m ''symbol''), raw_str m ''expiry'', chain_data m chain)
        | _ \<Rightarrow> None)
    | _ \<Rightarrow> None)"

definition on_chain_message :: "gotime \<Rightarrow> json option \<Rightarrow> snapshot_state \<Rightarrow> snapshot_state" where
  "on_chain_message now msg st = (case chain_message msg of
      None \<Rightarrow> st
    | Some (symbol, expiry, data) \<Rightarrow>
        st\<lparr>ss_cache := gm_set (cache_key symbol expiry) \<lparr>ce_Data = data, ce_LastUpdated = now\<rparr> (ss_cache st),
           ss_broadcast := ss_broadcast st @ [JObj [(''type'', JStr ''option_chain_update''), (''symbol'', JStr symbol), (''data'', data)]]\<rparr>)"

section \<open>/api/option-chain/\<close>

type_synonym nearest = "(ChainCacheEntry \<times> string \<times> caldate) option"

definition range_step :: "string \<Rightarrow> caldate \<Rightarrow> nearest \<Rightarrow> string \<times> ChainCacheEntry \<Rightarrow> nearest" where
  "range_step symbol today best kv = (case kv of (key, entry) \<Rightarrow>
     if \<not> HasPrefix key (symbol @ ''|'') then best
     else let exp = TrimSpace (TrimPrefix key (symbol @ ''|'')) in
       (case parseSnapshotExpiryDate exp of
          None \<Rightarrow> best
        | Some d \<Rightarrow>
            if d < today then best
            else (case best of
                None \<Rightarrow> Some (entry, exp, d)
              | Some (_, _, d') \<Rightarrow> if d < d' then Some (entry, exp, d) else best)))"

definition nearest_entry :: "((string \<times> ChainCacheEntry) list \<Rightarrow> (string \<times> ChainCacheEntry) list) \<Rightarrow> string \<Rightarrow> caldate \<Rightarrow> (string, ChainCacheEntry) gomap \<Rightarrow> nearest" where
  "nearest_entry ord symbol today cache = foldl (range_step symbol today) None (ord cache)"

definition chain_reply :: "ChainCacheEntry \<Rightarrow> json" where
  "chain_reply e = JObj [(''success'', JBool True), (''cached_at'', JStr (fmt_rfc3339 (ce_LastUpdated e))), (''data'', ce_Data e), (''data_source'', JStr ''go_cache'')]"

definition chain_missing :: json where
  "chain_missing = JObj [(''success'', JBool False), (''error'', JStr ''Chain not yet built by C++ Feed Decoder'')]"

definition option_chain :: "((string \<times> ChainCacheEntry) list \<Rightarrow> (string \<times> ChainCacheEntry) list) \<Rightarrow> caldate \<Rightarrow> snapshot_state \<Rightarrow> string \<Rightarrow> string \<Rightarrow> json" where
  "option_chain ord today st path targetExpiry =
     (let symbol = normalizeSymbol (TrimPrefix path ''/api/option-chain/'') in
      if targetExpiry \<noteq> '''' then
        (case gm_get (ss_cache st) (cache_key symbol targetExpiry) of Some e \<Rightarrow> chain_reply e | None \<Rightarrow> chain_missing)
      else
        (case nearest_entry ord symbol today (ss_cache st) of Some (e, _, _) \<Rightarrow> chain_reply e | None \<Rightarrow> chain_missing))"

section \<open>/api/push-snapshots\<close>

text \<open>The body decoded into a struct with a list of maps; an update that is null is a nil map, which is written as null again.\<close>

definition decode_updates :: "json \<Rightarrow> json list option" where
  "decode_updates j = (case top_obj j of
      None \<Rightarrow> None
    | Some m \<Rightarrow> (case json_field m ''updates'' of
        None \<Rightarrow> Some []
      | Some JNull \<Rightarrow> Some []
      | Some (JArr us) \<Rightarrow> if list_all (\<lambda>u. case u of JObj _ \<Rightarrow> True | JNull \<Rightarrow> True | _ \<Rightarrow> False) us then Some us else None
      | Some _ \<Rightarrow> None))"

definition push_snapshots :: "string \<Rightarrow> goerr + json \<Rightarrow> snapshot_state \<Rightarrow> int \<times> snapshot_state" where
  "push_snapshots meth body st =
     (if meth = ''OPTIONS'' then (200, st)
      else case body of
        Inl _ \<Rightarrow> (400, st)
      | Inr j \<Rightarrow> (case decode_updates j of
          None \<Rightarrow> (400, st)
        | Some us \<Rightarrow> (200, st\<lparr>ss_broadcast := ss_broadcast st @ map (\<lambda>u. JObj [(''type'', JStr ''straddle_update''), (''data'', u)]) us\<rparr>)))"

section \<open>The hub\<close>

datatype hub_event =
    HubRegister nat
  | HubUnregister nat
  | HubBroadcast json "nat \<Rightarrow> bool"

record hub =
  hub_clients :: "nat list"
  hub_closed :: "nat list"
  hub_sent :: "(nat \<times> json) list"

definition newHub :: hub where
  "newHub = \<lparr>hub_clients = [], hub_closed = [], hub_sent = []\<rparr>"

definition hub_write :: "json \<Rightarrow> (nat \<Rightarrow> bool) \<Rightarrow> hub \<Rightarrow> nat \<Rightarrow> hub" where
  "hub_write msg ok h c =
     (if ok c then h\<lparr>hub_sent := hub_sent h @ [(c, msg)]\<rparr>
      else h\<lparr>hub_closed := hub_closed h @ [c], hub_clients := removeAll c (hub_clients h)\<rparr>)"

definition hub_step :: "(nat list \<Rightarrow> nat list) \<Rightarrow> hub \<Rightarrow> hub_event \<Rightarrow> hub" where
  "hub_step ord h ev = (case ev of
      HubRegister c \<Rightarrow> h\<lparr>hub_clients := List.insert c (hub_clients h)\<rparr>
    | HubUnregister c \<Rightarrow>
        if c \<in> set (hub_clients h) then h\<lparr>hub_clients := removeAll c (hub_clients h), hub_closed := hub_closed h @ [c]\<rparr> else h
    | HubBroadcast msg ok \<Rightarrow> foldl (hub_write msg ok) h (ord (hub_clients h)))"

section \<open>Lemmas\<close>

lemma HasPrefix_split: "HasPrefix k p \<longleftrightarrow> k = p @ TrimPrefix k p"
  by (auto simp: HasPrefix_iff TrimPrefix_def)

lemma TrimPrefix_append [simp]: "TrimPrefix (p @ s) p = s"
  by (simp add: TrimPrefix_def)

text \<open>A key is a candidate for a symbol, with its date, when it is an upcoming expiry of the symbol.\<close>

definition candidate :: "string \<Rightarrow> caldate \<Rightarrow> string \<Rightarrow> caldate \<Rightarrow> bool" where
  "candidate symbol today k d \<longleftrightarrow> HasPrefix k (symbol @ ''|'') \<and>
     parseSnapshotExpiryDate (TrimSpace (TrimPrefix k (symbol @ ''|''))) = Some d \<and> today \<le> d"

definition nearest_ok :: "string \<Rightarrow> caldate \<Rightarrow> (string \<times> ChainCacheEntry) list \<Rightarrow> nearest \<Rightarrow> bool" where
  "nearest_ok symbol today kvs best \<longleftrightarrow> (case best of
      None \<Rightarrow> \<forall>(k, e) \<in> set kvs. \<forall>d. \<not> candidate symbol today k d
    | Some (e, _, d) \<Rightarrow> (\<exists>k. (k, e) \<in> set kvs \<and> candidate symbol today k d) \<and>
        (\<forall>(k, e) \<in> set kvs. \<forall>d'. candidate symbol today k d' \<longrightarrow> d \<le> d'))"

lemma range_step_skip: "\<forall>d. \<not> candidate symbol today k d \<Longrightarrow> range_step symbol today best (k, e) = best"
  by (auto simp: range_step_def candidate_def not_less Let_def split: option.splits)

lemma range_step_candidate:
  "candidate symbol today k d \<Longrightarrow> range_step symbol today best (k, e) =
     (case best of None \<Rightarrow> Some (e, TrimSpace (TrimPrefix k (symbol @ ''|'')), d)
      | Some (_, _, d') \<Rightarrow> if d < d' then Some (e, TrimSpace (TrimPrefix k (symbol @ ''|'')), d) else best)"
  by (auto simp: range_step_def candidate_def not_less Let_def)

lemma candidate_unique: "candidate symbol today k d \<Longrightarrow> candidate symbol today k d' \<longleftrightarrow> d' = d"
  by (auto simp: candidate_def)

lemma range_step_ok:
  assumes "nearest_ok symbol today kvs best"
  shows "nearest_ok symbol today (kvs @ [(k, e)]) (range_step symbol today best (k, e))"
proof (cases "\<exists>d. candidate symbol today k d")
  case True
  then obtain d where d: "candidate symbol today k d" by blast
  show ?thesis
  proof (cases best)
    case None
    then show ?thesis using assms by (auto simp: range_step_candidate [OF d] candidate_unique [OF d] nearest_ok_def)
  next
    case (Some b)
    obtain e0 x0 d0 where b: "b = (e0, x0, d0)" by (cases b)
    have old: "\<exists>k. (k, e0) \<in> set kvs \<and> candidate symbol today k d0"
      "\<And>k e d'. (k, e) \<in> set kvs \<Longrightarrow> candidate symbol today k d' \<Longrightarrow> d0 \<le> d'"
      using assms unfolding Some b nearest_ok_def by auto
    show ?thesis
    proof (cases "d < d0")
      case True
      then have "\<And>k e d'. (k, e) \<in> set kvs \<Longrightarrow> candidate symbol today k d' \<Longrightarrow> d \<le> d'" using old(2) by fastforce
      then show ?thesis using True d unfolding Some b
        by (auto simp: range_step_candidate [OF d] candidate_unique [OF d] nearest_ok_def)
    next
      case False
      then show ?thesis using old unfolding Some b
        by (auto simp: range_step_candidate [OF d] candidate_unique [OF d] nearest_ok_def not_less)
    qed
  qed
next
  case False
  then show ?thesis using assms by (auto simp: range_step_skip nearest_ok_def split: option.splits)
qed

lemma range_fold_ok: "nearest_ok symbol today kvs (foldl (range_step symbol today) None kvs)"
proof (induction kvs rule: rev_induct)
  case Nil
  show ?case by (simp add: nearest_ok_def)
next
  case (snoc kv kvs)
  then show ?case using range_step_ok [of symbol today kvs _ "fst kv" "snd kv"] by simp
qed

lemma nearest_entry_ok:
  assumes "permutes_list ord"
  shows "nearest_ok symbol today cache (nearest_entry ord symbol today cache)"
  using range_fold_ok [of symbol today "ord cache"]
  unfolding nearest_entry_def nearest_ok_def permutes_list_set [OF assms, of cache] by assumption

text \<open>What the service holds after a sequence of messages, and the latest message with a key.\<close>

definition snapshot_start :: snapshot_state where
  "snapshot_start = \<lparr>ss_cache = [], ss_broadcast = []\<rparr>"

definition feed :: "(gotime \<times> json option) list \<Rightarrow> snapshot_state" where
  "feed ms = foldl (\<lambda>st (now, msg). on_chain_message now msg st) snapshot_start ms"

fun latest :: "(gotime \<times> json option) list \<Rightarrow> string \<Rightarrow> ChainCacheEntry option" where
  "latest [] k = None"
| "latest ((now, msg) # ms) k = (case latest ms k of
      Some e \<Rightarrow> Some e
    | None \<Rightarrow> (case chain_message msg of
        Some (symbol, expiry, data) \<Rightarrow> if cache_key symbol expiry = k then Some \<lparr>ce_Data = data, ce_LastUpdated = now\<rparr> else None
      | None \<Rightarrow> None))"

lemma on_chain_message_get:
  "gm_get (ss_cache (on_chain_message now msg st)) k = (case latest [(now, msg)] k of Some e \<Rightarrow> Some e | None \<Rightarrow> gm_get (ss_cache st) k)"
  by (auto simp: on_chain_message_def gm_get_set split: option.splits)

lemma latest_append: "latest (xs @ ys) k = (case latest ys k of Some e \<Rightarrow> Some e | None \<Rightarrow> latest xs k)"
  by (induction xs k rule: latest.induct) (auto split: option.splits)

lemma feed_snoc: "feed (ms @ [(now, msg)]) = on_chain_message now msg (feed ms)"
  by (simp add: feed_def)

lemma feed_get: "gm_get (ss_cache (feed ms)) k = latest ms k"
proof (induction ms rule: rev_induct)
  case (snoc m ms)
  obtain now msg where m: "m = (now, msg)" by (cases m)
  show ?case unfolding m feed_snoc on_chain_message_get snoc latest_append by (rule refl)
qed (simp add: feed_def snapshot_start_def)

lemma feed_cache_ok: "gm_ok (ss_cache (feed ms))"
proof (induction ms rule: rev_induct)
  case (snoc m ms)
  obtain now msg where m: "m = (now, msg)" by (cases m)
  show ?case using snoc unfolding m feed_snoc by (auto simp: on_chain_message_def split: option.splits)
qed (simp add: feed_def snapshot_start_def)

lemma feed_mem: "(k, e) \<in> set (ss_cache (feed ms)) \<longleftrightarrow> latest ms k = Some e"
  using gm_get_iff_mem [OF feed_cache_ok] by (simp add: feed_get)

text \<open>The hub: clients and closed connections stay apart, and both come from registrations.\<close>

definition hub_ok :: "nat set \<Rightarrow> hub \<Rightarrow> bool" where
  "hub_ok seen h \<longleftrightarrow> distinct (hub_clients h) \<and> distinct (hub_closed h) \<and> set (hub_clients h) \<inter> set (hub_closed h) = {} \<and>
     set (hub_clients h) \<union> set (hub_closed h) \<subseteq> seen"

fun hub_registered :: "hub_event list \<Rightarrow> nat list" where
  "hub_registered [] = []"
| "hub_registered (HubRegister c # evs) = c # hub_registered evs"
| "hub_registered (_ # evs) = hub_registered evs"

lemma hub_registered_append [simp]: "hub_registered (xs @ ys) = hub_registered xs @ hub_registered ys"
  by (induction xs rule: hub_registered.induct) auto

text \<open>A broadcast writes to every client once; the clients whose write fails are closed and removed.\<close>

lemma hub_writes:
  "distinct cs \<Longrightarrow> foldl (hub_write msg ok) h cs =
     h\<lparr>hub_clients := filter (\<lambda>c. c \<notin> set cs \<or> ok c) (hub_clients h), hub_closed := hub_closed h @ filter (\<lambda>c. \<not> ok c) cs,
       hub_sent := hub_sent h @ map (\<lambda>c. (c, msg)) (filter ok cs)\<rparr>"
proof (induction cs arbitrary: h)
  case (Cons c cs)
  have "filter (\<lambda>x. x \<notin> set cs \<or> ok x) (removeAll c (hub_clients h)) = filter (\<lambda>x. x \<notin> set (c # cs) \<or> ok x) (hub_clients h)" if "\<not> ok c"
    using that by (auto simp: removeAll_filter_not_eq intro!: filter_cong)
  moreover have "filter (\<lambda>x. x \<notin> set cs \<or> ok x) (hub_clients h) = filter (\<lambda>x. x \<notin> set (c # cs) \<or> ok x) (hub_clients h)" if "ok c"
    using that by (auto intro!: filter_cong)
  ultimately show ?case using Cons by (simp add: hub_write_def)
qed simp

lemma hub_broadcast:
  assumes "permutes_list ord" "distinct (hub_clients h)"
  shows "hub_step ord h (HubBroadcast msg ok) = h\<lparr>hub_clients := filter ok (hub_clients h),
    hub_closed := hub_closed h @ filter (\<lambda>c. \<not> ok c) (ord (hub_clients h)), hub_sent := hub_sent h @ map (\<lambda>c. (c, msg)) (filter ok (ord (hub_clients h)))\<rparr>"
proof -
  have "distinct (ord (hub_clients h))" using assms by (simp add: permutes_list_distinct)
  moreover have "filter (\<lambda>c. c \<notin> set (ord (hub_clients h)) \<or> ok c) (hub_clients h) = filter ok (hub_clients h)"
    by (intro filter_cong) (auto simp: permutes_list_set [OF assms(1)])
  ultimately show ?thesis by (simp add: hub_step_def hub_writes)
qed

lemma hub_step_ok:
  assumes "permutes_list ord" "hub_ok seen h" "set (hub_registered [ev]) \<inter> seen = {}"
  shows "hub_ok (seen \<union> set (hub_registered [ev])) (hub_step ord h ev)"
proof (cases ev)
  case (HubBroadcast msg ok)
  have d: "distinct (hub_clients h)" using assms(2) by (simp add: hub_ok_def)
  then have "distinct (ord (hub_clients h))" by (simp add: permutes_list_distinct [OF assms(1)])
  then show ?thesis using assms(2) unfolding HubBroadcast hub_broadcast [OF assms(1) d]
    by (auto simp: hub_ok_def permutes_list_set [OF assms(1)])
qed (use assms in \<open>auto simp: hub_ok_def hub_step_def distinct_removeAll\<close>)

lemma hub_run_ok:
  assumes "permutes_list ord"
  shows "distinct (hub_registered evs) \<Longrightarrow> hub_ok (set (hub_registered evs)) (foldl (hub_step ord) newHub evs)"
proof (induction evs rule: rev_induct)
  case Nil
  show ?case by (simp add: hub_ok_def newHub_def)
next
  case (snoc ev evs)
  then have "set (hub_registered [ev]) \<inter> set (hub_registered evs) = {}" by auto
  with snoc hub_step_ok [OF assms] show ?case by simp
qed

section \<open>Properties\<close>

text \<open>
  C23. Whatever messages the service has received and in whatever order it ranges over its cache, a
  request for a symbol without an expiry is answered with the latest message for an expiry of the symbol
  that has not passed, and no other received expiry of the symbol that has not passed is earlier; and
  when there is none, the answer is that the chain is missing. A request with an expiry is answered with
  the latest message for exactly that symbol and expiry.
\<close>

theorem nearest_chain_is_served:
  assumes "permutes_list ord" "normalizeSymbol (TrimPrefix path ''/api/option-chain/'') = symbol"
  shows "((\<exists>k e d. latest ms k = Some e \<and> candidate symbol today k d \<and>
        (\<forall>k' d'. latest ms k' \<noteq> None \<and> candidate symbol today k' d' \<longrightarrow> d \<le> d') \<and>
        option_chain ord today (feed ms) path '''' = chain_reply e) \<or>
      (\<forall>k d. latest ms k \<noteq> None \<longrightarrow> \<not> candidate symbol today k d) \<and> option_chain ord today (feed ms) path '''' = chain_missing) \<and>
      (expiry \<noteq> '''' \<longrightarrow> option_chain ord today (feed ms) path expiry =
      (case latest ms (cache_key symbol expiry) of Some e \<Rightarrow> chain_reply e | None \<Rightarrow> chain_missing))"
proof -
  define best where "best = nearest_entry ord symbol today (ss_cache (feed ms))"
  have ok: "nearest_ok symbol today (ss_cache (feed ms)) best" unfolding best_def by (rule nearest_entry_ok [OF assms(1)])
  have out: "option_chain ord today (feed ms) path '''' = (case best of Some (e, _, _) \<Rightarrow> chain_reply e | None \<Rightarrow> chain_missing)"
    by (simp add: option_chain_def assms(2) best_def)
  have near: "(\<exists>k e d. latest ms k = Some e \<and> candidate symbol today k d \<and>
        (\<forall>k' d'. latest ms k' \<noteq> None \<and> candidate symbol today k' d' \<longrightarrow> d \<le> d') \<and>
        option_chain ord today (feed ms) path '''' = chain_reply e) \<or>
      (\<forall>k d. latest ms k \<noteq> None \<longrightarrow> \<not> candidate symbol today k d) \<and> option_chain ord today (feed ms) path '''' = chain_missing"
  proof (cases best)
    case None
    then have "latest ms k = Some e \<Longrightarrow> \<not> candidate symbol today k d" for k e d
      using ok by (auto simp: nearest_ok_def simp flip: feed_mem)
    then show ?thesis unfolding out None by auto
  next
    case (Some b)
    obtain e x d where b: "b = (e, x, d)" by (cases b)
    have min: "latest ms k = Some e' \<Longrightarrow> candidate symbol today k d' \<Longrightarrow> d \<le> d'" for k e' d'
      using ok by (auto simp: Some b nearest_ok_def simp flip: feed_mem)
    obtain k where k: "latest ms k = Some e" "candidate symbol today k d" using ok by (auto simp: Some b nearest_ok_def feed_mem)
    show ?thesis unfolding out Some b by (intro disjI1 exI [of _ k] exI [of _ e] exI [of _ d]) (use k min in auto)
  qed
  have "expiry \<noteq> '''' \<longrightarrow> option_chain ord today (feed ms) path expiry =
      (case latest ms (cache_key symbol expiry) of Some e \<Rightarrow> chain_reply e | None \<Rightarrow> chain_missing)"
    by (simp add: option_chain_def assms(2) feed_get)
  with near show ?thesis by (rule conjI)
qed

definition sample_chain :: "string \<Rightarrow> json option" where
  "sample_chain expiry = Some (JObj [(''symbol'', JStr ''nifty''), (''expiry'', JStr expiry), (''chain'', JArr [])])"

lemma sample_latest:
  "latest [(zero_time, sample_chain ''28JUL2026''), (zero_time, sample_chain ''24DEC29'')] k =
     (if k = ''NIFTY|24DEC29'' then Some \<lparr>ce_Data = chain_data [(''symbol'', JStr ''nifty''), (''expiry'', JStr ''24DEC29''), (''chain'', JArr [])] [], ce_LastUpdated = zero_time\<rparr>
      else if k = ''NIFTY|28JUL2026'' then Some \<lparr>ce_Data = chain_data [(''symbol'', JStr ''nifty''), (''expiry'', JStr ''28JUL2026''), (''chain'', JArr [])] [], ce_LastUpdated = zero_time\<rparr>
      else None)"
proof -
  have "normalizeSymbol ''nifty'' = ''NIFTY''" by code_simp
  then show ?thesis by (auto simp: sample_chain_def chain_message_def json_get_def raw_str_def cache_key_def)
qed

theorem nearest_chain_is_served_witness:
  "option_chain rev (CalDate 2026 7 1) (feed [(zero_time, sample_chain ''28JUL2026''), (zero_time, sample_chain ''24DEC29'')]) ''/api/option-chain/NIFTY'' '''' =
     chain_reply \<lparr>ce_Data = chain_data [(''symbol'', JStr ''nifty''), (''expiry'', JStr ''28JUL2026''), (''chain'', JArr [])] [], ce_LastUpdated = zero_time\<rparr>"
proof -
  have sym: "normalizeSymbol (TrimPrefix ''/api/option-chain/NIFTY'' ''/api/option-chain/'') = ''NIFTY''" by code_simp
  have c: "candidate ''NIFTY'' (CalDate 2026 7 1) ''NIFTY|28JUL2026'' (CalDate 2026 7 28)"
    "candidate ''NIFTY'' (CalDate 2026 7 1) ''NIFTY|24DEC29'' (CalDate 2029 12 24)" by code_simp+
  have "\<not> CalDate 2029 12 24 \<le> CalDate 2026 7 28" by code_simp
  with nearest_chain_is_served [OF permutes_list_rev sym, of "[(zero_time, sample_chain ''28JUL2026''), (zero_time, sample_chain ''24DEC29'')]" "CalDate 2026 7 1" "''''", THEN conjunct1] c
  show ?thesis unfolding sample_latest
    by (auto simp: candidate_unique [OF c(1)] candidate_unique [OF c(2)] simp del: One_nat_def split: if_splits)
qed

text \<open>
  When no connection is registered twice, then after any sequence of events the hub has closed no
  connection twice and keeps no closed connection as a client; and the next broadcast goes to exactly the
  current clients whose write succeeds, once each, and closes and removes exactly the others.
\<close>

theorem hub_serves_open_clients:
  assumes "permutes_list ord" "distinct (hub_registered evs)"
  defines "h \<equiv> foldl (hub_step ord) newHub evs" and "h' \<equiv> \<lambda>msg ok. foldl (hub_step ord) newHub (evs @ [HubBroadcast msg ok])"
  shows "distinct (hub_closed h) \<and> set (hub_clients h) \<inter> set (hub_closed h) = {} \<and>
    mset (hub_sent (h' msg ok)) = mset (hub_sent h) + mset (map (\<lambda>c. (c, msg)) (filter ok (hub_clients h))) \<and>
    mset (hub_closed (h' msg ok)) = mset (hub_closed h) + mset (filter (\<lambda>c. \<not> ok c) (hub_clients h)) \<and>
    hub_clients (h' msg ok) = filter ok (hub_clients h)"
proof (intro conjI)
  have ok: "hub_ok (set (hub_registered evs)) h" unfolding h_def by (rule hub_run_ok [OF assms(1,2)])
  then show "distinct (hub_closed h)" "set (hub_clients h) \<inter> set (hub_closed h) = {}" by (auto simp: hub_ok_def)
  have d: "distinct (hub_clients h)" using ok by (simp add: hub_ok_def)
  have h': "h' msg ok = hub_step ord h (HubBroadcast msg ok)" by (simp add: h'_def h_def)
  have m: "mset (filter p (ord (hub_clients h))) = mset (filter p (hub_clients h))" for p
    using assms(1) by (simp add: permutes_list_def mset_filter)
  show "mset (hub_sent (h' msg ok)) = mset (hub_sent h) + mset (map (\<lambda>c. (c, msg)) (filter ok (hub_clients h)))"
    using m [of ok] unfolding h' hub_broadcast [OF assms(1) d] by (simp del: mset_filter)
  show "mset (hub_closed (h' msg ok)) = mset (hub_closed h) + mset (filter (\<lambda>c. \<not> ok c) (hub_clients h))"
    using m [of "\<lambda>c. \<not> ok c"] unfolding h' hub_broadcast [OF assms(1) d] by (simp del: mset_filter)
  show "hub_clients (h' msg ok) = filter ok (hub_clients h)" unfolding h' hub_broadcast [OF assms(1) d] by simp
qed

theorem hub_serves_open_clients_witness:
  "hub_clients (foldl (hub_step rev) newHub ([HubRegister 1, HubRegister 2] @ [HubBroadcast JNull (\<lambda>c. c = 1)])) = [1]"
  using hub_serves_open_clients [OF permutes_list_rev, of "[HubRegister 1, HubRegister 2]" JNull "\<lambda>c. c = 1"]
  by (simp add: hub_step_def newHub_def)

end
