(* ===== verification/Platform.thy ===== *)
theory Platform
  imports Trading_Deploy_Proofs Trading_Gateway_Proofs Contract_Master_Proofs Snapshot_Service
begin

text \<open>
  The services together: the execution gateway asks the contract master for lot sizes and the snapshot
  service for option chains. A connection delivers what a service answers: the hypotheses about the
  network say that a request gets the reply of the modelled handler.

  Shown here: the contract master refuses every expiry without dashes, which is the form that the feed and
  the snapshot service use, so that the gateway falls back to its built-in lot size; and the conversion
  that \<^verbatim>\<open>clients.go\<close> has for this, but does not call, gives an expiry that the contract master reads
  back to the same day.
\<close>

section \<open>Layouts and literal text\<close>

lemma parse_chunk_suffix:
  assumes "parse_chunk c p s = Some (p', r)"
  shows "set r \<subseteq> set s"
proof -
  have num: "getnum f s = Some (v, r) \<Longrightarrow> set r \<subseteq> set s" for f v r
    by (auto simp: getnum_def split: list.splits if_splits)
  have month: "lookup_month n ms s = Some (v, r) \<Longrightarrow> set r \<subseteq> set s" for n ms v r
    by (induction n ms s rule: lookup_month.induct) (auto split: if_splits dest: in_set_dropD)
  have frac: "set (skip_fraction x) \<subseteq> set x" for x
    by (auto simp: skip_fraction_def split: list.splits if_splits dest: set_dropWhileD)
  have zone: "parse_zone s = Some r \<Longrightarrow> set r \<subseteq> set s" for r
    by (auto simp: parse_zone_def split: list.splits if_splits option.splits prod.splits dest: in_set_dropD)
  show ?thesis using assms
    by (cases c) (auto simp: bounded_def Let_def split: if_splits option.splits prod.splits dest!: num month zone dest: in_set_dropD subsetD [OF frac])
qed

lemma parse_layout_literals: "parse_layout l p s = Some p' \<Longrightarrow> Lit t \<in> set l \<Longrightarrow> set t \<subseteq> set s"
proof (induction l p s rule: parse_layout.induct)
  case (2 c cs p s)
  then obtain q r where q: "parse_chunk c p s = Some (q, r)" "parse_layout cs q r = Some p'" by (auto split: option.splits)
  show ?case
  proof (cases "c = Lit t")
    case True
    then show ?thesis using q(1) by (auto simp: HasPrefix_iff split: if_splits)
  next
    case False
    then have "set t \<subseteq> set r" using 2(1) [OF q(1) refl q(2)] 2(3) by simp
    then show ?thesis using parse_chunk_suffix [OF q(1)] by blast
  qed
qed simp

lemma time_Parse_literals: "time_Parse l s = Some d \<Longrightarrow> Lit t \<in> set l \<Longrightarrow> set t \<subseteq> set s"
  by (auto simp: time_Parse_def split: option.splits dest!: parse_layout_literals)

lemma dash_code: "c = CHR ''-'' \<longleftrightarrow> (of_char c :: nat) = 45"
  using of_char_eq_iff [of c "CHR ''-''", where ?'a = nat] by simp

lemma dash_upper: "CHR ''-'' \<in> set (ToUpper s) \<longleftrightarrow> CHR ''-'' \<in> set s"
proof -
  have "upper_char c = CHR ''-'' \<longleftrightarrow> c = CHR ''-''" for c
  proof (cases "97 \<le> (of_char c :: nat) \<and> (of_char c :: nat) \<le> 122")
    case True
    moreover have "(of_char c - 32) mod 256 = (of_char c - 32 :: nat)" using of_char_less_256 [of c] by (intro mod_less) linarith
    ultimately have "(of_char (upper_char c) :: nat) = of_char c - 32" by (simp add: upper_char_def Let_def)
    then have "(of_char (upper_char c) :: nat) \<noteq> 45" "(of_char c :: nat) \<noteq> 45" using True by linarith+
    then show ?thesis by (simp only: dash_code)
  next
    case False
    then have "upper_char c = c" by (auto simp: upper_char_def Let_def)
    then show ?thesis by simp
  qed
  then show ?thesis unfolding ToUpper_def set_map image_iff by metis
qed

lemma TrimSpace_subset: "set (TrimSpace s) \<subseteq> set s"
  by (auto simp: TrimSpace_def trim_by_def dest!: set_dropWhileD)

definition dashed :: "layout \<Rightarrow> bool" where
  "dashed l \<longleftrightarrow> list_ex (\<lambda>c. case c of Lit t \<Rightarrow> CHR ''-'' \<in> set t | _ \<Rightarrow> False) l"

lemma dashed_literal: "dashed l \<Longrightarrow> \<exists>t. Lit t \<in> set l \<and> CHR ''-'' \<in> set t"
proof -
  assume "dashed l"
  then obtain c where "c \<in> set l" "case c of Lit t \<Rightarrow> CHR ''-'' \<in> set t | _ \<Rightarrow> False" by (auto simp: dashed_def list_ex_iff)
  then show ?thesis by - (cases c; auto)
qed

lemma try_layouts_dash:
  assumes "list_all dashed ls" "CHR ''-'' \<notin> set v"
  shows "try_layouts ls v = None"
proof (rule ccontr)
  assume "try_layouts ls v \<noteq> None"
  then obtain l d where "l \<in> set ls" "time_Parse l v = Some d \<or> time_Parse l (ToUpper v) = Some d"
    by (auto simp: try_layouts_def dest!: first_some_mem) (metis not_None_eq)+
  moreover then obtain t where "Lit t \<in> set l" "CHR ''-'' \<in> set t" using assms(1) dashed_literal by (auto simp: list_all_iff)
  ultimately show False using assms(2) time_Parse_literals [of l v d t] time_Parse_literals [of l "ToUpper v" d t] dash_upper [of v] by blast
qed

lemma parseExpiry_dash:
  assumes "CHR ''-'' \<notin> set v"
  shows "parseExpiry v = Inl (GoErr (''invalid expiry: '' @ v))"
proof -
  have "CHR ''-'' \<notin> set (TrimSpace v)" using assms TrimSpace_subset by blast
  then have "try_layouts [L_date, L_datetime, L_RFC3339, L_dmy_upper, L_dmY_upper, L_dmy, L_dmY, L_2mY, L_2mY_upper] (TrimSpace v) = None"
  proof (rule try_layouts_dash [rotated])
    show "list_all dashed [L_date, L_datetime, L_RFC3339, L_dmy_upper, L_dmY_upper, L_dmy, L_dmY, L_2mY, L_2mY_upper]" by code_simp
  qed
  then show ?thesis by (simp add: parseExpiry_def)
qed

section \<open>The expiry that the contract master reads\<close>

lemma lookup_month_append:
  "list_all (\<lambda>m. length m = length u) ms \<Longrightarrow> lookup_month n ms (u @ r) = map_option (\<lambda>(k, _). (k, r)) (lookup_month n ms u)"
  by (induction n ms u rule: lookup_month.induct) simp_all

lemma month_facts:
  assumes "1 \<le> m" "m \<le> 12"
  shows "length (ToUpper (short_months ! (m - 1))) = 3"
    and "lookup_month 1 short_months (ToUpper (short_months ! (m - 1))) = Some (m, [])"
    and "ToUpper (short_months ! (m - 1)) = ''JAN'' \<longleftrightarrow> m = 1"
    and "\<not> list_ex is_space (ToUpper (short_months ! (m - 1)))"
proof -
  have "list_all (\<lambda>m. length (ToUpper (short_months ! (m - 1))) = 3 \<and>
      lookup_month 1 short_months (ToUpper (short_months ! (m - 1))) = Some (m, []) \<and>
      (ToUpper (short_months ! (m - 1)) = ''JAN'' \<longleftrightarrow> m = 1) \<and> \<not> list_ex is_space (ToUpper (short_months ! (m - 1)))) [1..<13]"
    by code_simp
  then show "length (ToUpper (short_months ! (m - 1))) = 3"
    and "lookup_month 1 short_months (ToUpper (short_months ! (m - 1))) = Some (m, [])"
    and "ToUpper (short_months ! (m - 1)) = ''JAN'' \<longleftrightarrow> m = 1"
    and "\<not> list_ex is_space (ToUpper (short_months ! (m - 1)))" using assms by (auto simp: list_all_iff simp del: One_nat_def)
qed

lemma short_months_length: "length u = 3 \<Longrightarrow> list_all (\<lambda>m. length m = length u) short_months"
  by (simp add: short_months_def)

lemma upper_digits: "list_all is_digit s \<Longrightarrow> ToUpper s = s"
proof -
  have "is_digit c \<Longrightarrow> upper_char c = c" for c by (auto simp: is_digit_def upper_char_def Let_def)
  then show "list_all is_digit s \<Longrightarrow> ToUpper s = s" unfolding ToUpper_def by (auto simp: list_all_iff intro: map_idI)
qed

lemma time_Parse_short_year: "n < 100 \<Longrightarrow> hd l = LongYear \<Longrightarrow> l \<noteq> [] \<Longrightarrow> time_Parse l (pad2 n @ ''-'' @ r) = None"
proof -
  assume "n < 100" "hd l = LongYear" "l \<noteq> []"
  moreover have "\<not> is_digit (CHR ''-'')" by (simp add: is_digit_def)
  ultimately show ?thesis by (cases l) (simp_all add: time_Parse_def pad2_digits)
qed

lemma HasPrefix_append3: "length u = 3 \<Longrightarrow> HasPrefix (''-'' @ u @ ''-'' @ r) ''-JAN-'' \<longleftrightarrow> u = ''JAN''"
  by (auto simp: HasPrefix_def length_Suc_conv numeral_3_eq_3)

definition dmy_text :: "nat \<Rightarrow> string \<Rightarrow> nat \<Rightarrow> string" where
  "dmy_text dd u yy = pad2 dd @ ''-'' @ u @ ''-'' @ pad2 yy"

lemma dmy_text_no_space:
  assumes "dd < 100" "yy < 100" "\<not> list_ex is_space u"
  shows "TrimSpace (dmy_text dd u yy) = dmy_text dd u yy"
proof (rule TrimSpace_no_space)
  show "\<forall>c \<in> set (dmy_text dd u yy). \<not> is_space c"
    using assms(3) digits_no_space [OF pad2_is_digits [OF assms(1)]] digits_no_space [OF pad2_is_digits [OF assms(2)]]
    by (auto simp: dmy_text_def list_ex_iff is_space_def)
qed

lemma upper_fmt_dd_Mon_yy:
  assumes "cd_day d < 100"
  shows "ToUpper (fmt_dd_Mon_yy d) = dmy_text (cd_day d) (ToUpper (short_months ! (cd_month d - 1))) (cd_year d mod 100)"
proof -
  have dash: "ToUpper ''-'' = ''-''" by code_simp
  have "cd_year d mod 100 < 100" by simp
  then show ?thesis unfolding fmt_dd_Mon_yy_def dmy_text_def ToUpper_append dash
    using upper_digits [OF pad2_is_digits [OF assms]] upper_digits [OF pad2_is_digits [of "cd_year d mod 100"]] by metis
qed

lemma pad2_facts:
  assumes "n < 100"
  shows "length (pad2 n) = 2" "list_all is_digit (pad2 n)" "read_digits (pad2 n) = n"
  using assms by (simp_all add: pad2_digits read_digits_def)

lemma two_digit_year: "1969 \<le> y \<Longrightarrow> y < 2069 \<Longrightarrow> (if 69 \<le> y mod 100 then 1900 + y mod 100 else 2000 + y mod 100) = (y :: nat)"
proof -
  assume y: "1969 \<le> y" "y < 2069"
  define c r where "c = y div 100" and "r = y mod 100"
  have "y = 100 * c + r" "r < 100" by (simp_all add: c_def r_def)
  moreover from this have "c = 19 \<and> 69 \<le> r \<or> c = 20 \<and> r < 69" using y by linarith
  ultimately show "(if 69 \<le> y mod 100 then 1900 + y mod 100 else 2000 + y mod 100) = y" by (auto simp: r_def [symmetric])
qed

text \<open>The layouts before the one with the month's name refuse such a text or, in January, agree with it.\<close>

lemma dmy_text_layouts:
  assumes ok: "date_ok d" and y: "1969 \<le> cd_year d" "cd_year d < 2069"
    and v: "v = dmy_text (cd_day d) (ToUpper (short_months ! (cd_month d - 1))) (cd_year d mod 100)"
  shows "time_Parse L_date v = None" "time_Parse L_datetime v = None" "time_Parse L_RFC3339 v = None"
    and "time_Parse L_dmy_upper v = (if cd_month d = 1 then Some d else None)" "time_Parse L_dmY_upper v = None" "time_Parse L_dmy v = Some d"
proof -
  define u where "u = ToUpper (short_months ! (cd_month d - 1))"
  define yy where "yy = cd_year d mod 100"
  note v = v [folded u_def yy_def, unfolded dmy_text_def]
  have dd: "cd_day d < 100" and m: "1 \<le> cd_month d" "cd_month d \<le> 12" using ok days_in_le [of "cd_month d" "cd_year d"] by (auto simp: date_ok_def)
  have yy: "yy < 100" by (simp add: yy_def)
  have year: "(if 69 \<le> yy then 1900 + yy else 2000 + yy) = cd_year d" using two_digit_year [OF y] by (simp only: yy_def)
  have u: "length u = 3" "lookup_month 1 short_months u = Some (cd_month d, [])" "u = ''JAN'' \<longleftrightarrow> cd_month d = 1"
    using month_facts [OF m] by (simp_all add: u_def)
  have mon: "lookup_month 1 short_months (u @ r) = Some (cd_month d, r)" for r
    using lookup_month_append [OF short_months_length [OF u(1)]] u(2) by simp
  note mon = mon [unfolded One_nat_def]
  have date: "date_of \<lparr>tp_year = cd_year d, tp_month = Some (cd_month d), tp_day = Some (cd_day d)\<rparr> = Some d"
    using ok by (simp add: date_of_def date_ok_def Let_def)
  show "time_Parse L_date v = None" "time_Parse L_datetime v = None" "time_Parse L_RFC3339 v = None"
    using time_Parse_short_year [OF dd] by (simp_all add: v L_date_def L_datetime_def L_RFC3339_def)
  show "time_Parse L_dmy_upper v = (if cd_month d = 1 then Some d else None)"
  proof (cases "cd_month d = 1")
    case True
    then have "u = ''JAN''" using u(3) by simp
    then show ?thesis using True ok year
      by (simp add: v time_Parse_def L_dmy_upper_def dd HasPrefix_def pad2_facts yy date_of_def date_ok_def Let_def caldate.expand)
  next
    case False
    then show ?thesis using u(3) HasPrefix_append3 [OF u(1), of "pad2 yy"] by (simp add: v time_Parse_def L_dmy_upper_def dd)
  qed
  show "time_Parse L_dmY_upper v = None" by (simp add: v time_Parse_def L_dmY_upper_def dd HasPrefix_def pad2_facts yy u(1))
  show "time_Parse L_dmy v = Some d" using date year by (simp add: v time_Parse_def L_dmy_def dd mon pad2_facts yy)
qed

lemma parseExpiry_dd_Mon_yy:
  assumes ok: "date_ok d" and y: "1969 \<le> cd_year d" "cd_year d < 2069"
  shows "parseExpiry (ToUpper (fmt_dd_Mon_yy d)) = Inr d"
proof -
  have dd: "cd_day d < 100" and m: "1 \<le> cd_month d" "cd_month d \<le> 12" using ok days_in_le [of "cd_month d" "cd_year d"] by (auto simp: date_ok_def)
  define v where "v = ToUpper (fmt_dd_Mon_yy d)"
  have v: "v = dmy_text (cd_day d) (ToUpper (short_months ! (cd_month d - 1))) (cd_year d mod 100)"
    unfolding v_def by (rule upper_fmt_dd_Mon_yy [OF dd])
  have "cd_year d mod 100 < 100" by simp
  then have trim: "TrimSpace v = v" unfolding v by (rule dmy_text_no_space [OF dd _ month_facts(4) [OF m]])
  have upper: "ToUpper v = v" by (simp add: v_def)
  have "parseExpiry v = Inr d" by (simp add: parseExpiry_def trim try_layouts_def upper dmy_text_layouts [OF ok y v])
  then show ?thesis by (simp add: v_def)
qed

text \<open>The form of an expiry in the feed, for example \<^verbatim>\<open>28JUL2026\<close>.\<close>

definition feed_expiry :: "caldate \<Rightarrow> string" where
  "feed_expiry d = pad2 (cd_day d) @ ToUpper (short_months ! (cd_month d - 1)) @ pad4 (cd_year d)"

text \<open>
  The conversion gives what the contract master reads. Every day from 1969 to 2068, written as in the feed,
  is converted to a text that the contract master's expiry parser reads back to the same day.
\<close>

theorem converted_expiry_is_read_back:
  assumes ok: "date_ok d" and y: "1969 \<le> cd_year d" "cd_year d < 2069"
  shows "parseExpiry (FormatExpiryForContractMaster (feed_expiry d)) = Inr d"
proof -
  define u where "u = ToUpper (short_months ! (cd_month d - 1))"
  have dd: "cd_day d < 100" and m: "1 \<le> cd_month d" "cd_month d \<le> 12" and yr: "cd_year d < 10000"
    using ok y days_in_le [of "cd_month d" "cd_year d"] by (auto simp: date_ok_def)
  have u: "length u = 3" "lookup_month 1 short_months u = Some (cd_month d, [])" "\<not> list_ex is_space u" using month_facts [OF m] by (simp_all add: u_def)
  have mon: "lookup_month 1 short_months (u @ r) = Some (cd_month d, r)" for r
    using lookup_month_append [OF short_months_length [OF u(1)]] u(2) by simp
  note mon = mon [unfolded One_nat_def]
  have trim: "TrimSpace (feed_expiry d) = feed_expiry d"
  proof (rule TrimSpace_no_space)
    show "\<forall>c \<in> set (feed_expiry d). \<not> is_space c"
      using u(3) digits_no_space [OF pad2_is_digits [OF dd]] digits_no_space [OF pad4_facts(2) [OF yr]]
      unfolding feed_expiry_def u_def [symmetric] set_append by (auto simp: list_ex_iff)
  qed
  have ne: "feed_expiry d \<noteq> ''''" by (simp add: feed_expiry_def pad2_digits dd)
  have "time_Parse [ZeroDay, MonthName, LongYear] (feed_expiry d) = Some d"
    using ok unfolding feed_expiry_def u_def [symmetric] by (simp add: time_Parse_def dd mon pad4_facts [OF yr] date_of_def date_ok_def Let_def)
  then have "FormatExpiryForContractMaster (feed_expiry d) = ToUpper (fmt_dd_Mon_yy d)"
    by (simp add: FormatExpiryForContractMaster_def trim ne contract_layouts_def Let_def)
  then show ?thesis using parseExpiry_dd_Mon_yy [OF ok y] by simp
qed

theorem converted_expiry_is_read_back_witness: "parseExpiry (FormatExpiryForContractMaster ''28JUL2026'') = Inr (CalDate 2026 7 28)"
proof -
  have "feed_expiry (CalDate 2026 7 28) = ''28JUL2026''" "date_ok (CalDate 2026 7 28)" by code_simp+
  then show ?thesis using converted_expiry_is_read_back [of "CalDate 2026 7 28"] by simp
qed

section \<open>Lot sizes through the network\<close>

text \<open>The query parameters that the lot-size client sends, and the network that delivers an answer to its request.\<close>

definition lot_query :: "string \<Rightarrow> string \<Rightarrow> string \<Rightarrow> string" where
  "lot_query symbol expiry k = (if k = ''symbol'' then TrimSpace symbol else if k = ''expiry'' then TrimSpace expiry else '''')"

definition delivers :: "'b network \<Rightarrow> string \<Rightarrow> int \<times> json \<Rightarrow> bool" where
  "delivers net url answer \<longleftrightarrow> (\<forall>b. \<exists>body b'.
     net \<lparr>hc_Method = ''GET'', hc_URL = url, hc_Authorization = '''', hc_Body = None\<rparr> b = (HttpReply (fst answer) body (Inr (snd answer)), b'))"

lemma lot_reply_refused:
  assumes "delivers net (lot_url base symbol expiry) answer" "fst answer = 400"
  shows "\<exists>b'. LotSizeClient_GetLotSize net base symbol expiry b = (Inl (GoErr ''lot size API returned 400''), b')"
proof -
  obtain body b' where "net \<lparr>hc_Method = ''GET'', hc_URL = lot_url base symbol expiry, hc_Authorization = '''', hc_Body = None\<rparr> b =
      (HttpReply 400 body (Inr (snd answer)), b')" using assms by (metis delivers_def)
  moreover have "show_int 400 = ''400''" by code_simp
  ultimately show ?thesis by (simp add: LotSizeClient_GetLotSize_def get_ok_def)
qed

lemma lot_size_refuses_feed_expiry:
  assumes "CHR ''-'' \<notin> set expiry"
  shows "fst (lot_size_by_query fault ord t (lot_query symbol expiry)) = 400"
proof -
  have "CHR ''-'' \<notin> set (TrimSpace (TrimSpace (TrimSpace expiry)))" using assms TrimSpace_subset by blast
  then show ?thesis
    by (simp add: lot_size_by_query_def getLotSize_handler_def lot_query_def lot_size_error_def GetLotSize_def parseExpiry_dash Let_def)
qed

text \<open>
  C31. A deployment that does not say its lot size never gets the contract master's. When the expiry of the
  option chain has no dash, as the expiries of the feed, and the chain carries no lot size, as those of the
  snapshot service, the contract master answers the lookup with 400 whatever contracts it holds, and the
  deployment goes on with the built-in lot size of the symbol.
\<close>

theorem feed_expiry_gets_fallback_lot:
  assumes "sv_LotSize svc = LotSizeClient_GetLotSize net base"
    and "delivers net (lot_url base (rq_Symbol req) (ch_Expiry chain)) (lot_size_by_query fault ord t (lot_query (rq_Symbol req) (ch_Expiry chain)))"
    and "rq_LotSize req = 0" "ch_LotSize chain = 0" "CHR ''-'' \<notin> set (ch_Expiry chain)"
  shows "fst (resolve_lot_size svc req chain w) = GetFallbackLotSize (rq_Symbol req)"
proof -
  obtain b' where "LotSizeClient_GetLotSize net base (rq_Symbol req) (ch_Expiry chain) (w_ext w) = (Inl (GoErr ''lot size API returned 400''), b')"
    using lot_reply_refused [OF assms(2) lot_size_refuses_feed_expiry [OF assms(5)]] by blast
  then show ?thesis using assms(1,3,4) by (simp add: resolve_lot_size_def ext_call_def Let_def)
qed

text \<open>A contract master that holds the contract with its lot of 65, and a chain with the expiry of the feed.\<close>

definition sample_table :: contracts where
  "sample_table = snd (contract_master_start sample_csv (\<lambda>_. '''') sample_upsert [])"

definition lot_network :: "unit network" where
  "lot_network c b = (let r = lot_size_by_query None id sample_table (lot_query ''NIFTY'' ''28JUL2026'') in (HttpReply (fst r) '''' (Inr (snd r)), b))"

definition lot_service :: "unit service" where
  "lot_service = NewService '''' None (\<lambda>s e b. (Inl (GoErr ''no snapshot''), b)) (LotSizeClient_GetLotSize lot_network '''') (\<lambda>_. day_time) (\<lambda>_. '''')"

theorem feed_expiry_gets_fallback_lot_witness:
  "GetLotSize None id sample_table ''NIFTY'' ''2026-07-28'' = Inr 65 \<and>
   fst (resolve_lot_size lot_service (demo_request\<lparr>rq_Symbol := ''NIFTY'', rq_LotSize := 0\<rparr>)
     (demo_chain\<lparr>ch_Expiry := ''28JUL2026'', ch_LotSize := 0\<rparr>) \<lparr>w_store = pg_start, w_ext = (), w_tick = 0\<rparr>) = 25"
proof
  have "parseExpiry ''2026-07-28'' = Inr (CalDate 2026 7 28)" by code_simp
  then show "GetLotSize None id sample_table ''NIFTY'' ''2026-07-28'' = Inr 65"
    by (simp add: GetLotSize_def sample_table_def sample_start contract_row_def sample_contract_def sample_eval)
  have "GetFallbackLotSize ''NIFTY'' = 25" by code_simp
  then show "fst (resolve_lot_size lot_service (demo_request\<lparr>rq_Symbol := ''NIFTY'', rq_LotSize := 0\<rparr>)
     (demo_chain\<lparr>ch_Expiry := ''28JUL2026'', ch_LotSize := 0\<rparr>) \<lparr>w_store = pg_start, w_ext = (), w_tick = 0\<rparr>) = 25"
    using feed_expiry_gets_fallback_lot [of lot_service lot_network "''''" "demo_request\<lparr>rq_Symbol := ''NIFTY'', rq_LotSize := 0\<rparr>"
        "demo_chain\<lparr>ch_Expiry := ''28JUL2026'', ch_LotSize := 0\<rparr>" None id sample_table "\<lparr>w_store = pg_start, w_ext = (), w_tick = 0\<rparr>"]
    by (simp add: lot_service_def NewService_def delivers_def lot_network_def Let_def)
qed

end
