(* ===== verification/Trading_Batch.thy ===== *)
theory Trading_Batch
  imports Trading_Xts
begin

text \<open>
  \<^verbatim>\<open>builder.go\<close>: the batch builder, which sends the orders of a chunk together, verifies them and sends
  those again that the broker asks to have re-executed; and the message loop of \<^verbatim>\<open>zmq\_loop.go\<close>.

  The executor and the database are interfaces without an implementation in the repository, so they are
  functions on the state of the outside world, as is the clock. The three slices in which the builder
  collects fills, placed and failed orders only feed its log lines and are left out, as are the pauses.

  Shown here: the number of calls to the broker is bounded per chunk, a chunk that is empty is never sent,
  whatever is sent is an order of the plan with the same instrument, side and quantity, every placed order
  is inserted into the database once, in order; and an order that the broker asks to re-execute is lost when
  another order of the chunk is still open at that moment.
\<close>

section \<open>builder.go: types\<close>

record Order =
  od_UID :: string
  od_Token :: int
  od_OptionType :: string
  od_Action :: string
  od_Quantity :: int
  od_ExpectedPrice :: f64
  od_LimitPrice :: f64
  od_LimitOrderBuffer :: f64
  od_ExchangeSegment :: int

record PlacedOrder =
  pl_AppOrderID :: string
  pl_UID :: string
  pl_Token :: int
  pl_Action :: string
  pl_Quantity :: int

record VerifiedOrder =
  vo_AppOrderID :: string
  vo_UID :: string
  vo_Status :: string
  vo_FilledQty :: int
  vo_AvgPrice :: f64

record FailedOrder =
  fo_AppOrderID :: string
  fo_UID :: string
  fo_Status :: string
  fo_Reason :: string

record ExecuteResult =
  xr_SuccessfulOrders :: "PlacedOrder list"
  xr_FailedOrders :: "FailedOrder list"

record VerifyResult =
  vr_VerifiedSuccess :: "VerifiedOrder list"
  vr_VerifiedFailed :: "FailedOrder list"

text \<open>The error of a verification is ignored, so only its value is here.\<close>

record 'b OrderExecutor =
  ox_ExecuteBatch :: "Order list \<Rightarrow> string \<Rightarrow> 'b \<Rightarrow> (goerr + ExecuteResult) \<times> 'b"
  ox_VerifyOrdersBulk :: "string list \<Rightarrow> string \<Rightarrow> 'b \<Rightarrow> VerifyResult \<times> 'b"
  ox_InsertOrder :: "PlacedOrder \<Rightarrow> 'b \<Rightarrow> 'b"
  ox_UnixMilli :: "'b \<Rightarrow> int \<times> 'b"

section \<open>builder.go: BuildStraddle\<close>

definition retry_uid :: "nat \<Rightarrow> int \<Rightarrow> string \<Rightarrow> string" where
  "retry_uid retryIter ms uid = take 14 uid @ ''_TRY'' @ show_nat retryIter @ ''_'' @ show_int (i64_rem ms 10000)"

definition retry_order :: "nat \<Rightarrow> int \<Rightarrow> Order \<Rightarrow> Order" where
  "retry_order retryIter ms ord = ord\<lparr>od_LimitOrderBuffer := fmul (od_LimitOrderBuffer ord) (itof (int retryIter + 1)), od_LimitPrice := Fin 0,
     od_UID := retry_uid retryIter ms (od_UID ord)\<rparr>"

fun retry_orders :: "'b OrderExecutor \<Rightarrow> nat \<Rightarrow> Order list \<Rightarrow> 'b \<Rightarrow> Order list \<times> 'b" where
  "retry_orders ex n [] b = ([], b)"
| "retry_orders ex n (ord # os) b =
     (let (ms, b) = ox_UnixMilli ex b; (os', b) = retry_orders ex n os b in (retry_order n ms ord # os', b))"

definition terminal_failure :: "string \<Rightarrow> bool" where
  "terminal_failure s \<longleftrightarrow> s \<in> {''REJECTED'', ''CANCELLED'', ''CANCELED'', ''REEXECUTE_NEEDED'', ''NOT_FOUND_ON_RETRY''}"

definition resolvedIDs :: "VerifyResult \<Rightarrow> string list" where
  "resolvedIDs v = map vo_AppOrderID (vr_VerifiedSuccess v) @ map fo_AppOrderID (filter (\<lambda>f. terminal_failure (fo_Status f)) (vr_VerifiedFailed v))"

text \<open>The verification loop, with \<open>n\<close> of the three attempts left; \<open>failed\<close> is \<^verbatim>\<open>newlyFailed\<close>.\<close>

definition maxVerificationAttempts :: nat where
  "maxVerificationAttempts = 3"

definition chunk_uid :: "string \<Rightarrow> nat \<Rightarrow> nat \<Rightarrow> string" where
  "chunk_uid tradeUID chunkIdx retryIter = ''BUI_'' @ tradeUID @ ''_CHUNK'' @ show_nat (chunkIdx + 1) @ ''_TRY'' @ show_nat (retryIter + 1)"

definition verify_uid :: "string \<Rightarrow> nat \<Rightarrow> nat \<Rightarrow> nat \<Rightarrow> string" where
  "verify_uid tradeUID chunkIdx retryIter vAttempt =
     ''BUI_'' @ tradeUID @ ''_CHUNK'' @ show_nat (chunkIdx + 1) @ ''_ITER'' @ show_nat (retryIter + 1) @ ''_VER'' @ show_nat (vAttempt + 1)"

fun verify_loop :: "'b OrderExecutor \<Rightarrow> (nat \<Rightarrow> string) \<Rightarrow> nat \<Rightarrow> string list \<Rightarrow> FailedOrder list \<Rightarrow> 'b \<Rightarrow> FailedOrder list \<times> 'b" where
  "verify_loop ex uid 0 ids failed b = (failed, b)"
| "verify_loop ex uid (Suc n) ids failed b =
     (if ids = [] then (failed, b)
      else let (v, b) = ox_VerifyOrdersBulk ex ids (uid (maxVerificationAttempts - Suc n)) b in
        verify_loop ex uid n (filter (\<lambda>i. i \<notin> set (resolvedIDs v)) ids) (vr_VerifiedFailed v) b)"

text \<open>The orders that are sent again. An order id that is not in the map reads as the empty identifier.\<close>

definition uid_of :: "PlacedOrder list \<Rightarrow> string \<Rightarrow> string" where
  "uid_of placed appID = (case find (\<lambda>p. pl_AppOrderID p = appID) (rev placed) of Some p \<Rightarrow> pl_UID p | None \<Rightarrow> '''')"

definition ordersToRetryNow :: "Order list \<Rightarrow> PlacedOrder list \<Rightarrow> FailedOrder list \<Rightarrow> Order list" where
  "ordersToRetryNow orders placed failed =
     List.map_filter (\<lambda>f. if fo_Status f = ''REEXECUTE_NEEDED'' then find (\<lambda>ord. od_UID ord = uid_of placed (fo_AppOrderID f)) orders else None) failed"

text \<open>The retry loop of one chunk, with \<open>n\<close> of the three tries left.\<close>

definition maxBatchRetries :: nat where
  "maxBatchRetries = 3"

fun chunk_tries :: "'b OrderExecutor \<Rightarrow> string \<Rightarrow> nat \<Rightarrow> nat \<Rightarrow> Order list \<Rightarrow> 'b \<Rightarrow> 'b" where
  "chunk_tries ex tradeUID chunkIdx 0 orders b = b"
| "chunk_tries ex tradeUID chunkIdx (Suc n) orders b =
     (if orders = [] then b
      else
        let retryIter = maxBatchRetries - Suc n;
            (orders, b) = (if 0 < retryIter then retry_orders ex retryIter orders b else (orders, b)) in
        (case ox_ExecuteBatch ex orders (chunk_uid tradeUID chunkIdx retryIter) b of
           (Inl _, b) \<Rightarrow> b
         | (Inr r, b) \<Rightarrow>
             let b = foldl (\<lambda>b p. ox_InsertOrder ex p b) b (xr_SuccessfulOrders r);
                 (failed, b) = verify_loop ex (verify_uid tradeUID chunkIdx retryIter) maxVerificationAttempts (map pl_AppOrderID (xr_SuccessfulOrders r)) [] b in
             chunk_tries ex tradeUID chunkIdx n (ordersToRetryNow orders (xr_SuccessfulOrders r) failed) b))"

fun batch_chunks :: "'b OrderExecutor \<Rightarrow> string \<Rightarrow> nat \<Rightarrow> Order list list \<Rightarrow> 'b \<Rightarrow> 'b" where
  "batch_chunks ex tradeUID chunkIdx [] b = b"
| "batch_chunks ex tradeUID chunkIdx (c # cs) b = batch_chunks ex tradeUID (Suc chunkIdx) cs (chunk_tries ex tradeUID chunkIdx maxBatchRetries c b)"

definition BuildStraddle :: "'b OrderExecutor \<Rightarrow> string \<Rightarrow> Order list list \<Rightarrow> 'b \<Rightarrow> goerr option \<times> 'b" where
  "BuildStraddle ex tradeUID allChunks b = (None, batch_chunks ex tradeUID 0 allChunks b)"

section \<open>zmq\_loop.go\<close>

text \<open>One message of the loop. \<open>place\<close> is the broker client and \<open>nanos\<close> the clock.\<close>

definition RunZMQLoop_message ::
    "(broker_OrderIntent \<Rightarrow> string \<Rightarrow> f64 \<Rightarrow> 'b \<Rightarrow> goerr option \<times> 'b) \<Rightarrow> string \<Rightarrow> ('b \<Rightarrow> int) \<Rightarrow> json option \<Rightarrow> 'b \<Rightarrow> 'b" where
  "RunZMQLoop_message place globalClientID nanos msg b =
     (case Option.bind msg decode_broker_intent of
        None \<Rightarrow> b
      | Some it \<Rightarrow>
          let it = zmq_intent globalClientID it;
              uid = ''ZMQ_'' @ show_int (bo_InstrumentToken it) @ ''_'' @ show_int (i64_rem (nanos b) 1000000) in
          snd (place it uid (Fin 0) b))"

section \<open>The calls of a build\<close>

datatype build_call =
    BatchCall "Order list" "goerr + ExecuteResult"
  | VerifyCall "string list" VerifyResult
  | InsertCall PlacedOrder

text \<open>An executor that also keeps the list of its calls.\<close>

definition traced :: "'b OrderExecutor \<Rightarrow> (build_call list \<times> 'b) OrderExecutor" where
  "traced ex =
     \<lparr>ox_ExecuteBatch = (\<lambda>os u (t, b). let (r, b) = ox_ExecuteBatch ex os u b in (r, (t @ [BatchCall os r], b))),
      ox_VerifyOrdersBulk = (\<lambda>ids u (t, b). let (v, b) = ox_VerifyOrdersBulk ex ids u b in (v, (t @ [VerifyCall ids v], b))),
      ox_InsertOrder = (\<lambda>p (t, b). (t @ [InsertCall p], ox_InsertOrder ex p b)),
      ox_UnixMilli = (\<lambda>(t, b). let (ms, b) = ox_UnixMilli ex b in (ms, (t, b)))\<rparr>"

definition is_batch :: "build_call \<Rightarrow> bool" where
  "is_batch c \<longleftrightarrow> (case c of BatchCall _ _ \<Rightarrow> True | _ \<Rightarrow> False)"

definition is_verify :: "build_call \<Rightarrow> bool" where
  "is_verify c \<longleftrightarrow> (case c of VerifyCall _ _ \<Rightarrow> True | _ \<Rightarrow> False)"

definition inserted :: "build_call list \<Rightarrow> PlacedOrder list" where
  "inserted t = concat (map (\<lambda>c. case c of InsertCall p \<Rightarrow> [p] | _ \<Rightarrow> []) t)"

definition placed :: "build_call list \<Rightarrow> PlacedOrder list" where
  "placed t = concat (map (\<lambda>c. case c of BatchCall _ (Inr r) \<Rightarrow> xr_SuccessfulOrders r | _ \<Rightarrow> []) t)"

text \<open>What a retry keeps of an order.\<close>

definition same_order :: "Order \<Rightarrow> Order \<Rightarrow> bool" where
  "same_order a b \<longleftrightarrow> od_Token a = od_Token b \<and> od_OptionType a = od_OptionType b \<and> od_Action a = od_Action b \<and>
     od_Quantity a = od_Quantity b \<and> od_ExpectedPrice a = od_ExpectedPrice b \<and> od_ExchangeSegment a = od_ExchangeSegment b"

definition call_ok :: "Order list \<Rightarrow> build_call \<Rightarrow> bool" where
  "call_ok plan c \<longleftrightarrow> (case c of
      BatchCall os _ \<Rightarrow> os \<noteq> [] \<and> (\<forall>ord \<in> set os. \<exists>ord' \<in> set plan. same_order ord ord')
    | VerifyCall ids _ \<Rightarrow> ids \<noteq> []
    | InsertCall _ \<Rightarrow> True)"

text \<open>What one part of a build may add to the calls: at most \<open>k\<close> batches and \<open>v\<close> verifications.\<close>

definition adds :: "Order list \<Rightarrow> nat \<Rightarrow> nat \<Rightarrow> build_call list \<Rightarrow> build_call list \<Rightarrow> bool" where
  "adds plan k v t t' \<longleftrightarrow> (\<exists>u. t' = t @ u \<and> length (filter is_batch u) \<le> k \<and> length (filter is_verify u) \<le> v \<and>
     list_all (call_ok plan) u \<and> inserted u = placed u)"

lemma adds_refl [simp]: "adds plan k v t t"
  by (auto simp: adds_def inserted_def placed_def)

lemma adds_trans: "adds plan k v t t' \<Longrightarrow> adds plan k' v' t' t'' \<Longrightarrow> adds plan (k + k') (v + v') t t''"
proof -
  assume "adds plan k v t t'" "adds plan k' v' t' t''"
  then obtain u u' where "t' = t @ u" "t'' = t @ u @ u'" "length (filter is_batch u) \<le> k" "length (filter is_verify u) \<le> v"
    "list_all (call_ok plan) u" "inserted u = placed u" "length (filter is_batch u') \<le> k'" "length (filter is_verify u') \<le> v'"
    "list_all (call_ok plan) u'" "inserted u' = placed u'" by (auto simp: adds_def)
  then show ?thesis unfolding adds_def by (intro exI [of _ "u @ u'"]) (auto simp: inserted_def placed_def)
qed

lemma same_order_refl [simp]: "same_order a a"
  by (simp add: same_order_def)

lemma same_order_trans: "same_order a b \<Longrightarrow> same_order b c \<Longrightarrow> same_order a c"
  by (simp add: same_order_def)

lemma same_order_retry [simp]: "same_order (retry_order n ms ord) c \<longleftrightarrow> same_order ord c"
  by (simp add: same_order_def retry_order_def)

definition planned :: "Order list \<Rightarrow> Order list \<Rightarrow> bool" where
  "planned plan os \<longleftrightarrow> (\<forall>ord \<in> set os. \<exists>ord' \<in> set plan. same_order ord ord')"

lemma planned_refl: "planned os os"
  unfolding planned_def using same_order_refl by blast

lemma planned_mono: "planned plan os \<Longrightarrow> set plan \<subseteq> set plan' \<Longrightarrow> planned plan' os"
  by (auto simp: planned_def)

lemma retry_orders_planned:
  "retry_orders (traced ex) n os (t, b) = (os', t', b') \<Longrightarrow> planned plan os \<Longrightarrow> t' = t \<and> planned plan os' \<and> (os' = [] \<longleftrightarrow> os = [])"
proof (induction os arbitrary: b os')
  case (Cons ord os)
  then show ?case
    by (auto simp: traced_def planned_def split: prod.splits) (metis prod.inject)+
qed simp

lemma ordersToRetryNow_planned: "planned plan os \<Longrightarrow> planned plan (ordersToRetryNow os ps fs)"
proof -
  have "set (ordersToRetryNow os ps fs) \<subseteq> set os"
  proof
    fix ord
    assume "ord \<in> set (ordersToRetryNow os ps fs)"
    then have "\<exists>f :: FailedOrder. find (\<lambda>ord. od_UID ord = uid_of ps (fo_AppOrderID f)) os = Some ord"
      by (auto simp: ordersToRetryNow_def map_filter_def split: if_splits)
    then show "ord \<in> set os" by (auto simp: find_Some_iff)
  qed
  then show "planned plan os \<Longrightarrow> planned plan (ordersToRetryNow os ps fs)" by (auto simp: planned_def)
qed

lemma verify_loop_adds: "verify_loop (traced ex) uid n ids fs (t, b) = (fs', t', b') \<Longrightarrow> adds plan 0 n t t'"
proof (induction n arbitrary: ids fs t b)
  case (Suc n)
  show ?case
  proof (cases "ids = []")
    case False
    obtain v b1 where v: "ox_VerifyOrdersBulk ex ids (uid (maxVerificationAttempts - Suc n)) b = (v, b1)" by fastforce
    have "adds plan 0 n (t @ [VerifyCall ids v]) t'"
      using Suc False v by (simp add: traced_def)
    moreover have "adds plan 0 1 t (t @ [VerifyCall ids v])" using False
      by (auto simp: adds_def is_batch_def is_verify_def call_ok_def inserted_def placed_def)
    ultimately show ?thesis using adds_trans [of plan 0 1 t _ 0 n t'] by simp
  qed (use Suc in simp)
qed simp

lemma inserts: "foldl (\<lambda>b p. ox_InsertOrder (traced ex) p b) (t, b) ps = (t @ map InsertCall ps, foldl (\<lambda>b p. ox_InsertOrder ex p b) b ps)"
  by (induction ps arbitrary: t b) (simp_all add: traced_def)

lemma batch_adds: "planned plan os \<Longrightarrow> os \<noteq> [] \<Longrightarrow> adds plan 1 0 t (t @ BatchCall os (Inr r) # map InsertCall (xr_SuccessfulOrders r))"
proof -
  have i: "inserted (map InsertCall ps) = ps" "placed (map InsertCall ps) = []" "filter is_batch (map InsertCall ps) = []" "filter is_verify (map InsertCall ps) = []"
    "list_all (call_ok plan) (map InsertCall ps)" for ps
    by (induction ps) (simp_all add: inserted_def placed_def is_batch_def is_verify_def call_ok_def)
  assume "planned plan os" "os \<noteq> []"
  then show ?thesis
    unfolding adds_def
    by (intro exI [of _ "BatchCall os (Inr r) # map InsertCall (xr_SuccessfulOrders r)"])
      (use i in \<open>simp add: is_batch_def is_verify_def call_ok_def planned_def inserted_def placed_def\<close>)
qed

lemma failed_batch_adds: "planned plan os \<Longrightarrow> os \<noteq> [] \<Longrightarrow> adds plan 1 0 t (t @ [BatchCall os (Inl e)])"
  by (auto simp: adds_def is_batch_def is_verify_def call_ok_def planned_def inserted_def placed_def)

lemma chunk_tries_adds:
  "planned plan os \<Longrightarrow> chunk_tries (traced ex) u i n os (t, b) = (t', b') \<Longrightarrow> adds plan n (maxVerificationAttempts * n) t t'"
proof (induction n arbitrary: os t b)
  case (Suc n)
  show ?case
  proof (cases "os = []")
    case False
    define k where "k = maxBatchRetries - Suc n"
    obtain os1 b1 where r: "(if 0 < k then retry_orders (traced ex) k os (t, b) else (os, t, b)) = (os1, t, b1)" "planned plan os1" "os1 \<noteq> []"
    proof -
      obtain os1 t1 b1 where e: "retry_orders (traced ex) k os (t, b) = (os1, t1, b1)" by (metis prod_cases3)
      have e': "t1 = t" "planned plan os1" "os1 \<noteq> []" using retry_orders_planned [OF e Suc.prems(1)] False by simp_all
      show ?thesis
      proof (cases "0 < k")
        case True
        show ?thesis by (rule that [of os1 b1]) (simp_all add: True e e')
      next
        case False
        show ?thesis by (rule that [of os b]) (simp_all add: False Suc.prems(1) \<open>os \<noteq> []\<close>)
      qed
    qed
    obtain r b2 where x: "ox_ExecuteBatch ex os1 (chunk_uid u i k) b1 = (r, b2)" by fastforce
    show ?thesis
    proof (cases r)
      case (Inl e)
      then have t': "t' = t @ [BatchCall os1 (Inl e)]"
        using Suc.prems(2) False r(1) x by (simp add: k_def [symmetric] Let_def) (simp add: traced_def)
      have "adds plan (1 + n) (0 + maxVerificationAttempts * Suc n) t t'" unfolding t' by (rule adds_trans [OF failed_batch_adds [OF r(2,3)] adds_refl])
      then show ?thesis by simp
    next
      case (Inr v)
      define t1 where "t1 = t @ BatchCall os1 (Inr v) # map InsertCall (xr_SuccessfulOrders v)"
      obtain fs t2 b3 where l: "verify_loop (traced ex) (verify_uid u i k) maxVerificationAttempts (map pl_AppOrderID (xr_SuccessfulOrders v)) []
          (t1, foldl (\<lambda>b p. ox_InsertOrder ex p b) b2 (xr_SuccessfulOrders v)) = (fs, t2, b3)" by (metis prod_cases3)
      have rest: "chunk_tries (traced ex) u i n (ordersToRetryNow os1 (xr_SuccessfulOrders v) fs) (t2, b3) = (t', b')"
      proof -
        have "ox_ExecuteBatch (traced ex) os1 (chunk_uid u i k) (t, b1) = (Inr v, (t @ [BatchCall os1 (Inr v)], b2))" using x Inr by (simp add: traced_def)
        then show ?thesis using Suc.prems(2) False r(1) l by (simp add: k_def [symmetric] Let_def inserts t1_def)
      qed
      have "adds plan n (maxVerificationAttempts * n) t2 t'" by (rule Suc.IH [OF ordersToRetryNow_planned [OF r(2)] rest])
      with adds_trans [OF adds_trans [OF batch_adds [OF r(2,3)] verify_loop_adds [OF l [unfolded t1_def]]]] show ?thesis by fastforce
    qed
  qed (use Suc in simp)
qed simp

lemma adds_mono: "adds plan k v t t' \<Longrightarrow> set plan \<subseteq> set plan' \<Longrightarrow> adds plan' k v t t'"
  by (fastforce simp: adds_def list_all_iff call_ok_def split: build_call.splits)

lemma batch_chunks_adds:
  "batch_chunks (traced ex) u i cs (t, b) = (t', b') \<Longrightarrow> adds (concat cs) (maxBatchRetries * length cs) (maxVerificationAttempts * maxBatchRetries * length cs) t t'"
proof (induction cs arbitrary: i t b)
  case (Cons c cs)
  obtain t1 b1 where c: "chunk_tries (traced ex) u i maxBatchRetries c (t, b) = (t1, b1)" by fastforce
  have "adds c maxBatchRetries (maxVerificationAttempts * maxBatchRetries) t t1" by (rule chunk_tries_adds [OF planned_refl c])
  then have a: "adds (concat (c # cs)) maxBatchRetries (maxVerificationAttempts * maxBatchRetries) t t1" by (rule adds_mono) simp
  have "batch_chunks (traced ex) u (Suc i) cs (t1, b1) = (t', b')" using Cons.prems c by simp
  from Cons.IH [OF this] have "adds (concat (c # cs)) (maxBatchRetries * length cs) (maxVerificationAttempts * maxBatchRetries * length cs) t1 t'"
    by (rule adds_mono) simp
  from adds_trans [OF a this] show ?case by simp
qed simp

section \<open>Properties\<close>

text \<open>
  C34. A batch build makes at most three batch calls and nine verifications per chunk, never with an empty
  list; every order it sends agrees with an order of the plan in all but identifier and limit; and the
  orders that it inserts into the database are exactly those that the broker reported as placed, in order.
\<close>

theorem batch_build_calls:
  "\<exists>t b'. BuildStraddle (traced ex) u cs ([], b) = (None, t, b') \<and>
     length (filter is_batch t) \<le> 3 * length cs \<and> length (filter is_verify t) \<le> 9 * length cs \<and>
     list_all (call_ok (concat cs)) t \<and> inserted t = placed t"
proof -
  obtain t b' where r: "batch_chunks (traced ex) u 0 cs ([], b) = (t, b')" by fastforce
  from batch_chunks_adds [OF r] show ?thesis
    by (auto simp: BuildStraddle_def r adds_def maxBatchRetries_def maxVerificationAttempts_def)
qed

text \<open>A broker that places every order under its identifier, and verifies with a list of prepared answers.\<close>

definition scripted :: "VerifyResult list OrderExecutor" where
  "scripted =
     \<lparr>ox_ExecuteBatch = (\<lambda>os u b. (Inr \<lparr>xr_SuccessfulOrders = map (\<lambda>o'. \<lparr>pl_AppOrderID = od_UID o', pl_UID = od_UID o', pl_Token = od_Token o',
          pl_Action = od_Action o', pl_Quantity = od_Quantity o'\<rparr>) os, xr_FailedOrders = []\<rparr>, b)),
      ox_VerifyOrdersBulk = (\<lambda>ids u b. case b of [] \<Rightarrow> (\<lparr>vr_VerifiedSuccess = [], vr_VerifiedFailed = []\<rparr>, []) | v # vs \<Rightarrow> (v, vs)),
      ox_InsertOrder = (\<lambda>_ b. b), ox_UnixMilli = (\<lambda>b. (0, b))\<rparr>"

definition leg_order :: "string \<Rightarrow> int \<Rightarrow> Order" where
  "leg_order u tok = \<lparr>od_UID = u, od_Token = tok, od_OptionType = ''CE'', od_Action = ''SELL'', od_Quantity = 75, od_ExpectedPrice = Fin 100,
     od_LimitPrice = Fin 99, od_LimitOrderBuffer = Fin 1, od_ExchangeSegment = 2\<rparr>"

definition reexecute :: "string \<Rightarrow> FailedOrder" where
  "reexecute a = \<lparr>fo_AppOrderID = a, fo_UID = a, fo_Status = ''REEXECUTE_NEEDED'', fo_Reason = ''''\<rparr>"

definition fill :: "string \<Rightarrow> VerifiedOrder" where
  "fill a = \<lparr>vo_AppOrderID = a, vo_UID = a, vo_Status = ''FILLED'', vo_FilledQty = 75, vo_AvgPrice = Fin 100\<rparr>"

definition batches_of :: "build_call list \<Rightarrow> Order list list" where
  "batches_of t = concat (map (\<lambda>c. case c of BatchCall os _ \<Rightarrow> [os] | _ \<Rightarrow> []) t)"

text \<open>
  A request to send an order again is lost when another order is still open: only the failures of the
  last verification are looked at. With both orders reported in the same verification, the order is sent
  again; with the other one reported a verification later, it is not, and the build still reports success.
\<close>

theorem reexecution_is_lost:
  "map (map od_Token) (batches_of (fst (snd (BuildStraddle (traced scripted) ''T'' [[leg_order ''A'' 1, leg_order ''B'' 2]]
      ([], [\<lparr>vr_VerifiedSuccess = [fill ''B''], vr_VerifiedFailed = [reexecute ''A'']\<rparr>]))))) = [[1, 2], [1]] \<and>
   map (map od_Token) (batches_of (fst (snd (BuildStraddle (traced scripted) ''T'' [[leg_order ''A'' 1, leg_order ''B'' 2]]
      ([], [\<lparr>vr_VerifiedSuccess = [], vr_VerifiedFailed = [reexecute ''A'']\<rparr>, \<lparr>vr_VerifiedSuccess = [fill ''B''], vr_VerifiedFailed = []\<rparr>]))))) = [[1, 2]]"
  by code_simp

end
