(* ===== verification/Control_Api.thy ===== *)
theory Control_Api
  imports Trading_Clients
begin

text \<open>
  The control API: sessions, the login sequence, the proxies to the broker and to the execution gateway
  (\<^verbatim>\<open>services/control-api\<close>).

  A request that leaves the service is the text that is sent; the network answers with a failure, which may
  be a timeout, or with a status, headers and the text of the body, of which the last part may be missing.
  \<^verbatim>\<open>encoding/json\<close> is the codec of the environment, with \<open>ce_first\<close> for a decoder that reads
  the first document of a stream; \<^verbatim>\<open>uuid.NewString\<close> is \<open>ce_uuid\<close> of the number of identifiers made so
  far, and \<open>ce_parse_error\<close> is what the codec reports of a text that it refuses. The configured addresses parse; the others are accepted by \<open>ce_url_ok\<close>. Log lines are left out.

  \<^verbatim>\<open>optionChainData\<close> is declared in no file of the package, so the three functions of
  \<^verbatim>\<open>straddle.go\<close> on it are not modelled; no handler calls them.
\<close>

section \<open>Requests and responses\<close>

record raw_call =
  rw_Method :: string
  rw_URL :: string
  rw_Authorization :: string
  rw_ContentType :: string
  rw_Cookie :: string
  rw_Body :: string

datatype raw_reply =
    RawFail goerr bool
  | RawReply int "(string \<times> string) list" string "goerr option"

type_synonym 'b raw_network = "raw_call \<Rightarrow> 'b \<Rightarrow> raw_reply \<times> 'b"

record ca_request =
  cq_Method :: string
  cq_Path :: string
  cq_RawQuery :: string
  cq_ContentType :: string
  cq_Cookie :: "string option"
  cq_Body :: "goerr + string"

datatype ca_body =
    TextBody string
  | JsonBody json
  | RawBody string

record ca_response =
  rs_Status :: int
  rs_Headers :: "(string \<times> string) list"
  rs_Cookie :: "string option"
  rs_Body :: ca_body

definition http_Error :: "string \<Rightarrow> int \<Rightarrow> ca_response" where
  "http_Error msg code = \<lparr>rs_Status = code, rs_Headers = [], rs_Cookie = None, rs_Body = TextBody msg\<rparr>"

definition json_reply :: "int \<Rightarrow> json \<Rightarrow> ca_response" where
  "json_reply code j = \<lparr>rs_Status = code, rs_Headers = [], rs_Cookie = None, rs_Body = JsonBody j\<rparr>"

definition msg_json :: "string \<Rightarrow> json" where
  "msg_json s = JObj [(''message'', JStr s)]"

definition post_json :: "string \<Rightarrow> string \<Rightarrow> string \<Rightarrow> raw_call" where
  "post_json url auth body = \<lparr>rw_Method = ''POST'', rw_URL = url, rw_Authorization = auth, rw_ContentType = ''application/json'', rw_Cookie = '''', rw_Body = body\<rparr>"

section \<open>config.go\<close>

record ca_Config =
  cg_Port :: string
  cg_GreekAuthApiBaseURL :: string
  cg_GreekRestApiBaseURL :: string
  cg_StaticFilePath :: string
  cg_SnapshotServiceBaseURL :: string
  cg_ContractMasterBaseURL :: string
  cg_ExecutionGatewayBaseURL :: string
  cg_RequestTimeout :: int

text \<open>\<^verbatim>\<open>RequestTimeout\<close>, in nanoseconds, bounds every call of the service's HTTP client (\<^verbatim>\<open>server.go\<close>).\<close>

definition ca_Load :: "(string \<Rightarrow> string) \<Rightarrow> ca_Config" where
  "ca_Load getenv =
     (let url = (\<lambda>k d. TrimRightChar (getEnv getenv k d) (CHR ''/'')) in
      \<lparr>cg_Port = getEnv getenv ''PORT'' ''8006'',
       cg_GreekAuthApiBaseURL = url ''GREEK_AUTH_API_BASE_URL'' ''http://127.0.0.1:8081'',
       cg_GreekRestApiBaseURL = url ''GREEK_REST_API_BASE_URL'' ''http://127.0.0.1:8082'',
       cg_StaticFilePath = getEnv getenv ''STATIC_FILE_PATH'' ''../ui'',
       cg_SnapshotServiceBaseURL = url ''SNAPSHOT_SERVICE_BASE_URL'' ''http://127.0.0.1:8003'',
       cg_ContractMasterBaseURL = url ''CONTRACT_MASTER_BASE_URL'' ''http://127.0.0.1:8010'',
       cg_ExecutionGatewayBaseURL = url ''EXECUTION_GATEWAY_BASE_URL'' ''http://127.0.0.1:8005'',
       cg_RequestTimeout = 20 * 1000000000\<rparr>)"

section \<open>session.go\<close>

record Session =
  ss_UpstreamToken :: string
  ss_Username :: string
  ss_BrokerID :: string
  ss_CreatedAt :: gotime
  ss_GCID :: string
  ss_WSSessionID :: string
  ss_IrisIP :: string
  ss_IrisPort :: string
  ss_ApolloIP :: string
  ss_ApolloPort :: string

record 'b ca_state =
  cs_sessions :: "(string, Session) gomap"
  cs_made :: nat
  cs_ext :: 'b

record 'b ca_env =
  ce_net :: "'b raw_network"
  ce_codec :: json_codec
  ce_first :: "string \<Rightarrow> json option"
  ce_uuid :: "nat \<Rightarrow> string"
  ce_now :: "'b \<Rightarrow> gotime"
  ce_url_ok :: "string \<Rightarrow> bool"
  ce_parse_error :: "string \<Rightarrow> goerr"

definition NewStore :: "(string, Session) gomap" where
  "NewStore = []"

definition Session_Create :: "'b ca_env \<Rightarrow> Session \<Rightarrow> 'b ca_state \<Rightarrow> string \<times> 'b ca_state" where
  "Session_Create env ss s =
     (let sid = ce_uuid env (cs_made s) in (sid, s\<lparr>cs_sessions := gm_set sid ss (cs_sessions s), cs_made := Suc (cs_made s)\<rparr>))"

definition Session_Get :: "string \<Rightarrow> 'b ca_state \<Rightarrow> Session option" where
  "Session_Get sid s = gm_get (cs_sessions s) sid"

definition Session_Update :: "string \<Rightarrow> Session \<Rightarrow> 'b ca_state \<Rightarrow> bool \<times> 'b ca_state" where
  "Session_Update sid ss s =
     (if gm_get (cs_sessions s) sid = None then (False, s) else (True, s\<lparr>cs_sessions := gm_set sid ss (cs_sessions s)\<rparr>))"

definition Session_Delete :: "string \<Rightarrow> 'b ca_state \<Rightarrow> 'b ca_state" where
  "Session_Delete sid s = s\<lparr>cs_sessions := gm_del sid (cs_sessions s)\<rparr>"

text \<open>The encoding of a session leaves out the token and the time, and the optional fields when empty.\<close>

definition session_json :: "Session \<Rightarrow> json" where
  "session_json ss =
     (let opt = (\<lambda>k v. if v = '''' then [] else [(k, JStr v)]) in
      JObj ([(''username'', JStr (ss_Username ss)), (''brokerId'', JStr (ss_BrokerID ss))] @ opt ''gcid'' (ss_GCID ss) @
        opt ''websocketSessionId'' (ss_WSSessionID ss) @ opt ''interactiveSocketIp'' (ss_IrisIP ss) @ opt ''interactiveSocketPort'' (ss_IrisPort ss) @
        opt ''marketdataSocketIp'' (ss_ApolloIP ss) @ opt ''marketdataSocketPort'' (ss_ApolloPort ss)))"

section \<open>helpers.go\<close>

definition required_fields :: "string \<Rightarrow> string list" where
  "required_fields endpoint = (if endpoint = ''NewOrderRequest'' then [''gcid'', ''gtoken''] else if endpoint = ''jloginNew'' then [''gscid'', ''pass''] else [])"

definition missing_field :: "(string \<times> json) list \<Rightarrow> string \<Rightarrow> bool" where
  "missing_field m k = (case json_get m k of None \<Rightarrow> True | Some v \<Rightarrow> v = JNull \<or> fmt_v v = '''')"

definition obj_member :: "(string \<times> json) list \<Rightarrow> string \<Rightarrow> (string \<times> json) list option" where
  "obj_member m k = (case json_get m k of None \<Rightarrow> None | Some j \<Rightarrow> (case j of JObj r \<Rightarrow> Some r | _ \<Rightarrow> None))"

definition validateRequest :: "'b ca_env \<Rightarrow> string \<Rightarrow> string \<Rightarrow> goerr option" where
  "validateRequest env endpoint body =
     (case Option.bind (cd_Unmarshal (ce_codec env) body) top_obj of
        None \<Rightarrow> Some (GoWrap ''invalid JSON: '' (ce_parse_error env body))
      | Some m \<Rightarrow> (case obj_member m ''request'' of
          None \<Rightarrow> Some (GoErr (''missing \"request\" object in payload''))
        | Some req \<Rightarrow> (case obj_member req ''data'' of
            None \<Rightarrow> Some (GoErr (''missing \"data\" object in \"request\"''))
          | Some d \<Rightarrow> (case filter (missing_field d) (required_fields endpoint) of
              [] \<Rightarrow> None
            | f # _ \<Rightarrow> Some (GoErr (f @ '' is missing or empty''))))))"

definition handleProxyError :: "bool \<Rightarrow> ca_response" where
  "handleProxyError timeout =
     (if timeout then json_reply 504 (msg_json ''Request to upstream API timed out'') else json_reply 503 (msg_json ''Error connecting to the API''))"

definition copyResponse :: "int \<Rightarrow> (string \<times> string) list \<Rightarrow> string \<Rightarrow> ca_response" where
  "copyResponse status headers body = \<lparr>rs_Status = status, rs_Headers = headers, rs_Cookie = None, rs_Body = RawBody body\<rparr>"

text \<open>A call whose answer is copied to the client.\<close>

definition forward :: "'b ca_env \<Rightarrow> raw_call \<Rightarrow> 'b ca_state \<Rightarrow> ca_response \<times> 'b ca_state" where
  "forward env c s =
     (let (r, b) = ce_net env c (cs_ext s); s = s\<lparr>cs_ext := b\<rparr> in
      (case r of RawFail e timeout \<Rightarrow> (handleProxyError timeout, s) | RawReply status headers body _ \<Rightarrow> (copyResponse status headers body, s)))"

section \<open>auth.go\<close>

definition login_names :: "'b ca_env \<Rightarrow> string \<Rightarrow> string \<times> string" where
  "login_names env body =
     (case Option.bind (cd_Unmarshal (ce_codec env) body) top_obj of
        None \<Rightarrow> (''N/A'', ''N/A'')
      | Some m \<Rightarrow> (case fld_str m ''username'' of
          None \<Rightarrow> (''N/A'', ''N/A'')
        | Some u \<Rightarrow> (if TrimSpace u \<noteq> '''' then u else ''N/A'',
            (case json_field m ''brokerId'' of None \<Rightarrow> ''N/A'' | Some j \<Rightarrow> if j = JNull then ''N/A'' else fmt_v j))))"

definition session_token_of :: "'b ca_env \<Rightarrow> string \<Rightarrow> string option" where
  "session_token_of env body = Option.bind (Option.bind (cd_Unmarshal (ce_codec env) body) top_obj) (\<lambda>m. fld_str m ''sessionToken'')"

definition new_session :: "string \<Rightarrow> string \<Rightarrow> string \<Rightarrow> gotime \<Rightarrow> Session" where
  "new_session token user brokerID now = \<lparr>ss_UpstreamToken = token, ss_Username = user, ss_BrokerID = brokerID, ss_CreatedAt = now, ss_GCID = '''',
     ss_WSSessionID = '''', ss_IrisIP = '''', ss_IrisPort = '''', ss_ApolloIP = '''', ss_ApolloPort = ''''\<rparr>"

definition LoginProxyHandler :: "'b ca_env \<Rightarrow> ca_Config \<Rightarrow> ca_request \<Rightarrow> 'b ca_state \<Rightarrow> ca_response \<times> 'b ca_state" where
  "LoginProxyHandler env cfg r s =
     (case cq_Body r of
        Inl _ \<Rightarrow> (http_Error ''{\"message\":\"Invalid request body\"}'' 400, s)
      | Inr body \<Rightarrow>
          let (username, brokerID) = login_names env body;
              (res, b) = ce_net env (post_json (cg_GreekAuthApiBaseURL cfg @ ''/auth/greek/sessiontoken'') '''' body) (cs_ext s);
              s = s\<lparr>cs_ext := b\<rparr> in
          (case res of
             RawFail e timeout \<Rightarrow> (handleProxyError timeout, s)
           | RawReply status headers text readErr \<Rightarrow>
               if 200 \<le> status \<and> status < 300 then
                 if readErr \<noteq> None then (http_Error ''{\"message\":\"Internal server error while reading upstream response\"}'' 500, s)
                 else (case session_token_of env text of
                     None \<Rightarrow> (http_Error ''{\"message\":\"Internal server error while parsing upstream response\"}'' 500, s)
                   | Some token \<Rightarrow>
                       if TrimSpace token = '''' then (http_Error ''{\"message\":\"Login failed: No session token from API\"}'' 401, s)
                       else
                         let (sid, s) = Session_Create env (new_session token username brokerID (ce_now env b)) s in
                         ((json_reply 200 (JObj [(''brokerId'', JStr brokerID), (''username'', JStr username)]))\<lparr>rs_Cookie := Some sid\<rparr>, s))
               else (copyResponse status headers text, s)))"

definition getSessionFromCookie :: "ca_request \<Rightarrow> 'b ca_state \<Rightarrow> goerr + (Session \<times> string)" where
  "getSessionFromCookie r s =
     (case cq_Cookie r of
        None \<Rightarrow> Inl (GoErr ''authentication required: missing session cookie'')
      | Some sid \<Rightarrow> (case Session_Get sid s of
          None \<Rightarrow> Inl (GoErr ''authentication required: invalid session'')
        | Some ss \<Rightarrow> Inr (ss, sid)))"

definition LogoutHandler :: "ca_request \<Rightarrow> 'b ca_state \<Rightarrow> ca_response \<times> 'b ca_state" where
  "LogoutHandler r s =
     ((json_reply 200 (msg_json ''Logged out successfully''))\<lparr>rs_Cookie := Some ''''\<rparr>,
      (case cq_Cookie r of None \<Rightarrow> s | Some sid \<Rightarrow> Session_Delete sid s))"

definition decode_jlogin_data :: "json \<Rightarrow> (int \<times> string) option" where
  "decode_jlogin_data j = do {
     m \<leftarrow> top_obj j; r \<leftarrow> fld_obj m ''response''; d \<leftarrow> fld_obj r ''data''; code \<leftarrow> fld_int d ''ErrorCode''; client \<leftarrow> fld_str d ''ClientCode''; Some (code, client) }"

definition decode_flag_data :: "json \<Rightarrow> (string \<times> string \<times> string \<times> string \<times> string) option" where
  "decode_flag_data j = do {
     m \<leftarrow> top_obj j; r \<leftarrow> fld_obj m ''response''; sid \<leftarrow> fld_str r ''sessionId''; d \<leftarrow> fld_obj r ''data'';
     iip \<leftarrow> fld_str d ''IrisIP''; ipt \<leftarrow> fld_str d ''IrisPort''; aip \<leftarrow> fld_str d ''ApolloIP''; apt \<leftarrow> fld_str d ''ApolloPort'';
     Some (sid, iip, ipt, aip, apt) }"

definition flag_values_body :: "string \<Rightarrow> string" where
  "flag_values_body user = ''{\"request\":{\"svcVersion\":\"1.0.0\",\"svcGroup\":\"\",\"svcName\":\"getFlagValues\",\"gscid\":\"'' @ user @ ''\",\"data\":{}}}''"

definition with_flags :: "string \<Rightarrow> string \<times> string \<times> string \<times> string \<times> string \<Rightarrow> Session \<Rightarrow> Session" where
  "with_flags gcid flags ss = (case flags of (sid, iip, ipt, aip, apt) \<Rightarrow>
     ss\<lparr>ss_GCID := gcid, ss_WSSessionID := sid, ss_IrisIP := iip, ss_IrisPort := ipt, ss_ApolloIP := aip, ss_ApolloPort := apt\<rparr>)"

definition consolidated :: "Session \<Rightarrow> json" where
  "consolidated ss = JObj [(''response'', JObj [(''data'', JObj [(''Apollo_IP'', JStr (ss_ApolloIP ss)), (''Apollo_Port'', JStr (ss_ApolloPort ss)),
     (''ClientCode'', JStr (ss_GCID ss)), (''ErrorCode'', JNum 0), (''Iris_IP'', JStr (ss_IrisIP ss)), (''Iris_Port'', JStr (ss_IrisPort ss))]),
     (''sessionId'', JStr (ss_WSSessionID ss))])]"

definition jlogin_flags :: "'b ca_env \<Rightarrow> ca_Config \<Rightarrow> string \<Rightarrow> Session \<Rightarrow> string \<Rightarrow> string \<Rightarrow> 'b ca_state \<Rightarrow> ca_response \<times> 'b ca_state" where
  "jlogin_flags env cfg sid ss gcid jloginText s =
     (let (res, b) = ce_net env (post_json (cg_GreekRestApiBaseURL cfg @ ''/getFlagValues'') (ss_UpstreamToken ss) (flag_values_body (ss_Username ss))) (cs_ext s);
          s = s\<lparr>cs_ext := b\<rparr> in
      (case res of
         RawFail e timeout \<Rightarrow> (handleProxyError timeout, s)
       | RawReply status headers text _ \<Rightarrow>
           (case Option.bind (cd_Unmarshal (ce_codec env) text) decode_flag_data of
              None \<Rightarrow> (copyResponse 206 [] jloginText, s)
            | Some flags \<Rightarrow>
                let ss = with_flags gcid flags ss; (ok, s) = Session_Update sid ss s in
                if \<not> ok then (http_Error ''{\"message\":\"Session update failed\"}'' 401, s)
                else ((json_reply 200 (consolidated ss))\<lparr>rs_Cookie := Some sid\<rparr>, s))))"

definition handleJLoginSequence :: "'b ca_env \<Rightarrow> ca_Config \<Rightarrow> string \<Rightarrow> Session \<Rightarrow> string \<Rightarrow> 'b ca_state \<Rightarrow> ca_response \<times> 'b ca_state" where
  "handleJLoginSequence env cfg sid ss body s =
     (let (res, b) = ce_net env (post_json (cg_GreekRestApiBaseURL cfg @ ''/jloginNew'') (ss_UpstreamToken ss) body) (cs_ext s);
          s = s\<lparr>cs_ext := b\<rparr> in
      (case res of
         RawFail e timeout \<Rightarrow> (handleProxyError timeout, s)
       | RawReply status headers text _ \<Rightarrow>
           (case Option.bind (cd_Unmarshal (ce_codec env) text) decode_jlogin_data of
              None \<Rightarrow> (copyResponse status [] text, s)
            | Some (code, client) \<Rightarrow> if code \<noteq> 0 then (copyResponse status [] text, s) else jlogin_flags env cfg sid ss client text s)))"

section \<open>proxy.go\<close>

definition GenericProxyHandler :: "'b ca_env \<Rightarrow> ca_Config \<Rightarrow> ca_request \<Rightarrow> 'b ca_state \<Rightarrow> ca_response \<times> 'b ca_state" where
  "GenericProxyHandler env cfg r s =
     (case getSessionFromCookie r s of
        Inl _ \<Rightarrow> (http_Error ''{\"message\":\"Unauthorized. Please log in.\"}'' 401, s)
      | Inr (ss, sid) \<Rightarrow>
          (case cq_Body r of
             Inl _ \<Rightarrow> (http_Error ''{\"message\":\"Invalid request body\"}'' 400, s)
           | Inr body \<Rightarrow>
               let endpoint = TrimPrefix (cq_Path r) ''/api-proxy/'';
                   target = cg_GreekRestApiBaseURL cfg @ ''/'' @ endpoint @ (if cq_RawQuery r \<noteq> '''' then ''?'' @ cq_RawQuery r else '''') in
               if endpoint = ''jloginNew'' \<and> cq_Method r = ''POST'' then handleJLoginSequence env cfg sid ss body s
               else (case (if cq_Method r = ''POST'' then validateRequest env endpoint body else None) of
                   Some e \<Rightarrow> (json_reply 400 (msg_json (''Invalid request from client: '' @ Error e)), s)
                 | None \<Rightarrow>
                     if \<not> ce_url_ok env target then (http_Error ''{\"message\":\"Internal server error\"}'' 500, s)
                     else forward env \<lparr>rw_Method = cq_Method r, rw_URL = target, rw_Authorization = ss_UpstreamToken ss,
                       rw_ContentType = cq_ContentType r, rw_Cookie = '''', rw_Body = body\<rparr> s)))"

definition SessionStatusHandler :: "ca_request \<Rightarrow> 'b ca_state \<Rightarrow> ca_response \<times> 'b ca_state" where
  "SessionStatusHandler r s =
     (case getSessionFromCookie r s of
        Inl _ \<Rightarrow> (http_Error ''{\"message\":\"No active session\"}'' 401, s)
      | Inr (ss, _) \<Rightarrow> (json_reply 200 (session_json (ss\<lparr>ss_UpstreamToken := ''''\<rparr>)), s))"

text \<open>\<open>serve_file\<close> is \<^verbatim>\<open>http.ServeFile\<close>.\<close>

definition ServeIndexHandler :: "(string \<Rightarrow> ca_response) \<Rightarrow> ca_Config \<Rightarrow> ca_request \<Rightarrow> ca_response" where
  "ServeIndexHandler serve_file cfg r =
     (if cq_Path r \<noteq> ''/'' then http_Error ''404 page not found'' 404 else serve_file (cg_StaticFilePath cfg @ ''/login.html''))"

section \<open>straddle.go\<close>

record sellStraddleRequest =
  sl_UserID :: string
  sl_BrokerName :: string
  sl_Symbol :: string
  sl_Lots :: int
  sl_DeltaNeutral :: bool
  sl_ProductType :: string
  sl_TargetExpiry :: string
  sl_CEStrikePrice :: int
  sl_PEStrikePrice :: int
  sl_CEToken :: int
  sl_PEToken :: int
  sl_LotSize :: int
  sl_ExecutionMode :: string

definition decode_sell :: "json \<Rightarrow> sellStraddleRequest option" where
  "decode_sell j = do {
     m \<leftarrow> top_obj j;
     user \<leftarrow> fld_str m ''userId''; brk \<leftarrow> fld_str m ''brokerName''; symbol \<leftarrow> fld_str m ''symbol''; lots \<leftarrow> fld_int m ''lots'';
     dn \<leftarrow> fld_bool m ''deltaNeutral''; prod \<leftarrow> fld_str m ''productType''; expiry \<leftarrow> fld_str m ''targetExpiry'';
     ceStrike \<leftarrow> fld_int m ''ceStrikePrice''; peStrike \<leftarrow> fld_int m ''peStrikePrice''; ce \<leftarrow> fld_int m ''ceToken''; pe \<leftarrow> fld_int m ''peToken'';
     lotSize \<leftarrow> fld_int m ''lotSize''; mode \<leftarrow> fld_str m ''executionMode'';
     Some \<lparr>sl_UserID = user, sl_BrokerName = brk, sl_Symbol = symbol, sl_Lots = lots, sl_DeltaNeutral = dn, sl_ProductType = prod, sl_TargetExpiry = expiry,
       sl_CEStrikePrice = ceStrike, sl_PEStrikePrice = peStrike, sl_CEToken = ce, sl_PEToken = pe, sl_LotSize = lotSize, sl_ExecutionMode = mode\<rparr> }"

definition inferExchangeSegment :: "string \<Rightarrow> string" where
  "inferExchangeSegment symbol = (if ToUpper (TrimSpace symbol) \<in> {''SENSEX'', ''BANKEX''} then ''BSEFO'' else ''NSEFO'')"

definition trim_sell :: "sellStraddleRequest \<Rightarrow> sellStraddleRequest" where
  "trim_sell q = q\<lparr>sl_Symbol := ToUpper (TrimSpace (sl_Symbol q)), sl_UserID := TrimSpace (sl_UserID q), sl_BrokerName := ToUpper (TrimSpace (sl_BrokerName q)),
     sl_ProductType := ToUpper (TrimSpace (sl_ProductType q)), sl_TargetExpiry := TrimSpace (sl_TargetExpiry q), sl_ExecutionMode := ToUpper (TrimSpace (sl_ExecutionMode q))\<rparr>"

definition fill_sell :: "Session \<Rightarrow> sellStraddleRequest \<Rightarrow> sellStraddleRequest" where
  "fill_sell ss q = q\<lparr>sl_BrokerName := (if sl_BrokerName q = '''' then ''XTS'' else sl_BrokerName q), sl_Lots := (if sl_Lots q \<le> 0 then 1 else sl_Lots q),
     sl_ProductType := (if sl_ProductType q = '''' then ''MIS'' else sl_ProductType q),
     sl_UserID := (if sl_UserID q = '''' then (if TrimSpace (ss_Username ss) = '''' then ''U001'' else TrimSpace (ss_Username ss)) else sl_UserID q)\<rparr>"

definition gateway_req :: "string \<Rightarrow> sellStraddleRequest \<Rightarrow> json" where
  "gateway_req accountID q = JObj
     [(''account_id'', JStr accountID), (''broker_name'', JStr (sl_BrokerName q)), (''ce_strike_price'', JNum (of_int (sl_CEStrikePrice q))),
      (''ce_token'', JNum (of_int (sl_CEToken q))), (''delta_neutral'', JBool (sl_DeltaNeutral q)), (''exchange_segment'', JStr (inferExchangeSegment (sl_Symbol q))),
      (''lot_size'', JNum (of_int (sl_LotSize q))), (''lots'', JNum (of_int (sl_Lots q))), (''order_lots_per_call'', JNum 1),
      (''pe_strike_price'', JNum (of_int (sl_PEStrikePrice q))), (''pe_token'', JNum (of_int (sl_PEToken q))), (''product_type'', JStr (sl_ProductType q)),
      (''symbol'', JStr (sl_Symbol q)), (''target_expiry'', JStr (sl_TargetExpiry q)), (''user_id'', JStr (sl_UserID q))]"

definition SellStraddleHandler :: "'b ca_env \<Rightarrow> ca_Config \<Rightarrow> ca_request \<Rightarrow> 'b ca_state \<Rightarrow> ca_response \<times> 'b ca_state" where
  "SellStraddleHandler env cfg r s =
     (case getSessionFromCookie r s of
        Inl e \<Rightarrow> (http_Error (''{\"message\":\"'' @ Error e @ ''\"}'') 401, s)
      | Inr (ss, _) \<Rightarrow>
          (case (case cq_Body r of Inl _ \<Rightarrow> None | Inr body \<Rightarrow> Option.bind (ce_first env body) decode_sell) of
             None \<Rightarrow> (http_Error ''{\"message\":\"Invalid request body\"}'' 400, s)
           | Some q \<Rightarrow>
               if sl_Symbol (trim_sell q) = '''' then (http_Error ''{\"message\":\"symbol is required\"}'' 400, s)
               else
                 let q = fill_sell ss (trim_sell q); accountID = TrimSpace (ss_GCID ss) in
                 if accountID = '''' \<and> sl_BrokerName q = ''XTS'' then (http_Error ''{\"message\":\"JLogin required before trading\"}'' 400, s)
                 else forward env (post_json (cg_ExecutionGatewayBaseURL cfg @ ''/api/trade/straddle'') '''' (cd_Marshal (ce_codec env) (gateway_req accountID q))) s))"

section \<open>trade\_actions.go\<close>

definition decode_reason :: "json \<Rightarrow> string" where
  "decode_reason j = (case fld_str (json_members j) ''reason'' of Some x \<Rightarrow> x | None \<Rightarrow> '''')"

definition squareoff_json :: "string \<Rightarrow> string \<Rightarrow> json" where
  "squareoff_json tradeUID reason = JObj [(''trade_uid'', JStr tradeUID), (''reason'', JStr reason)]"

definition squareoff_path :: "string \<Rightarrow> string" where
  "squareoff_path tradeUID = ''/api/v1/trade/'' @ tradeUID @ ''/manual-squareoff''"

definition ManualSquareOffHandler :: "'b ca_env \<Rightarrow> ca_Config \<Rightarrow> ca_request \<Rightarrow> 'b ca_state \<Rightarrow> ca_response \<times> 'b ca_state" where
  "ManualSquareOffHandler env cfg r s =
     (if cq_Method r \<noteq> ''POST'' then (http_Error ''{\"message\":\"only POST method is allowed\"}'' 405, s)
      else
        let parts = SplitChar (cq_Path r) (CHR ''/'') in
        if length parts < 3 then (http_Error ''{\"message\":\"invalid URL path, expected /api/trade/{uid}/manual-squareoff\"}'' 400, s)
        else
          let tradeUID = parts ! (length parts - 2);
              reason = (case cq_Body r of Inl _ \<Rightarrow> '''' | Inr body \<Rightarrow> (case ce_first env body of None \<Rightarrow> '''' | Some j \<Rightarrow> decode_reason j));
              url = cg_ExecutionGatewayBaseURL cfg @ squareoff_path tradeUID in
          if \<not> ce_url_ok env url then (http_Error ''{\"message\":\"failed to create proxy request\"}'' 500, s)
          else
            let (res, b) = ce_net env (post_json url '''' (cd_Marshal (ce_codec env) (squareoff_json tradeUID reason))) (cs_ext s);
                s = s\<lparr>cs_ext := b\<rparr> in
            (case res of
               RawFail e _ \<Rightarrow> (json_reply 502 (JObj [(''success'', JBool False), (''message'', JStr ''Failed to connect to execution-gateway''),
                 (''trade_uid'', JStr tradeUID), (''error'', JStr (Error e)), (''timestamp'', JStr (fmt_rfc3339 (ce_now env b)))]), s)
             | RawReply status _ text _ \<Rightarrow> (copyResponse status [] text, s)))"

section \<open>The handlers\<close>

text \<open>The handlers on sessions, by name: the router of the service registers none of them.\<close>

datatype ca_op = OpLogin | OpLogout | OpProxy | OpStatus | OpSell | OpSquareOff

definition ca_handle :: "'b ca_env \<Rightarrow> ca_Config \<Rightarrow> ca_op \<Rightarrow> ca_request \<Rightarrow> 'b ca_state \<Rightarrow> ca_response \<times> 'b ca_state" where
  "ca_handle env cfg op r s = (case op of
      OpLogin \<Rightarrow> LoginProxyHandler env cfg r s
    | OpLogout \<Rightarrow> LogoutHandler r s
    | OpProxy \<Rightarrow> GenericProxyHandler env cfg r s
    | OpStatus \<Rightarrow> SessionStatusHandler r s
    | OpSell \<Rightarrow> SellStraddleHandler env cfg r s
    | OpSquareOff \<Rightarrow> ManualSquareOffHandler env cfg r s)"

end
