(* ===== verification/Control_Trade.thy ===== *)
theory Control_Trade
  imports Control_Api
begin

text \<open>
  The calls of the control API to the broker: quotes, expiries, option tokens and orders
  (\<^verbatim>\<open>straddle.go\<close>, \<^verbatim>\<open>trading.go\<close>), the older straddle handler of \<^verbatim>\<open>trading.go\<close>, which sells
  at the broker directly, and the three clients under \<^verbatim>\<open>internal/client\<close> and
  \<^verbatim>\<open>internal/execution\<close>.

  The numbers of a document fit \<^verbatim>\<open>float64\<close>, and the error texts that are used as formats have no
  percent sign. The package has no declaration of the chain that \<^verbatim>\<open>fetchATMData\<close> returns; its decoder and its
  two fields are arguments.

  Shown here: the older handler sends at most one sell order per leg, in whole lots, at the bid; and it
  never answers when both legs are sent and the answer to one of them cannot be read.
\<close>

section \<open>Calls with an answer in JSON\<close>

text \<open>A POST whose whole body is read and decoded; the last two arguments but one say what the callers make of an error.\<close>

definition rest_call ::
    "'b ca_env \<Rightarrow> string \<Rightarrow> string \<Rightarrow> string \<Rightarrow> (goerr \<Rightarrow> goerr) \<Rightarrow> (string \<Rightarrow> goerr) \<Rightarrow> (json \<Rightarrow> 'r option) \<Rightarrow> 'b \<Rightarrow> (goerr + 'r) \<times> 'b" where
  "rest_call env url token body readErr parseErr decode b =
     (let (r, b) = ce_net env (post_json url token body) b in
      (case r of
         RawFail e _ \<Rightarrow> Inl e
       | RawReply _ _ text err \<Rightarrow> (case err of
           Some e \<Rightarrow> Inl (readErr e)
         | None \<Rightarrow> (case Option.bind (cd_Unmarshal (ce_codec env) text) decode of None \<Rightarrow> Inl (parseErr text) | Some v \<Rightarrow> Inr v)), b))"

definition decode_quote :: "json \<Rightarrow> (string \<times> json) list option" where
  "decode_quote j = do { m \<leftarrow> top_obj j; r \<leftarrow> fld_obj m ''response''; fld_obj r ''data'' }"

definition quote_body :: "string \<Rightarrow> int \<Rightarrow> string" where
  "quote_body gcid token = ''{\"request\":{\"data\":{\"token\":\"'' @ show_int token @ ''\",\"gscid\":\"'' @ gcid @ ''\",\"gcid\":\"'' @ gcid @
     ''\"},\"svcName\":\"getQuoteForSingleSymbol_V2\",\"svcGroup\":\"Markets\"}}''"

definition getQuote :: "'b ca_env \<Rightarrow> ca_Config \<Rightarrow> string \<Rightarrow> string \<Rightarrow> int \<Rightarrow> 'b \<Rightarrow> (goerr + (string \<times> json) list) \<times> 'b" where
  "getQuote env cfg token gcid instrumentToken =
     rest_call env (cg_GreekRestApiBaseURL cfg @ ''/getQuoteForSingleSymbol_V2'') token (quote_body gcid instrumentToken)
       (GoWrap ''failed to read quote response body: '') (ce_parse_error env) decode_quote"

definition float_member :: "(string \<times> json) list \<Rightarrow> string \<Rightarrow> f64 option" where
  "float_member m k = (case json_get m k of None \<Rightarrow> None | Some j \<Rightarrow> (case j of JNum n \<Rightarrow> num_f64 n | _ \<Rightarrow> None))"

definition bid_price :: "(string \<times> json) list \<Rightarrow> goerr + f64" where
  "bid_price quote = (case obj_member quote ''BidInfo'' of
      None \<Rightarrow> Inl (GoErr ''BidInfo not found in quote'')
    | Some info \<Rightarrow> (case float_member info ''Price'' of
        None \<Rightarrow> Inl (GoErr ''invalid bid price'')
      | Some price \<Rightarrow> if fle price (Fin 0) then Inl (GoErr ''invalid bid price'') else Inr price))"

definition getBestBidPrice :: "'b ca_env \<Rightarrow> ca_Config \<Rightarrow> string \<Rightarrow> string \<Rightarrow> int \<Rightarrow> 'b \<Rightarrow> (goerr + f64) \<times> 'b" where
  "getBestBidPrice env cfg token gcid instrumentToken b =
     (let (r, b) = getQuote env cfg token gcid instrumentToken b in (case r of Inl e \<Rightarrow> Inl e | Inr quote \<Rightarrow> bid_price quote, b))"

definition decode_strings :: "json \<Rightarrow> string list option" where
  "decode_strings j = do { m \<leftarrow> top_obj j; fld_arr decode_str m ''result'' }"

definition expiry_body :: "string \<Rightarrow> string" where
  "expiry_body symbol = ''{\"exchangeSegment\":\"NSEFO\",\"series\":\"OPTIDX\",\"symbol\":\"'' @ symbol @ ''\"}''"

definition getExpiryDate :: "'b ca_env \<Rightarrow> ca_Config \<Rightarrow> string \<Rightarrow> string \<Rightarrow> 'b \<Rightarrow> (goerr + string) \<times> 'b" where
  "getExpiryDate env cfg token symbol =
     rest_call env (cg_GreekRestApiBaseURL cfg @ ''/getExpiryDate'') token (expiry_body symbol) (GoWrap ''failed to read expiry response body: '')
       (\<lambda>_. GoErr ''could not parse expiry date response or no dates found'')
       (\<lambda>j. case decode_strings j of None \<Rightarrow> None | Some l \<Rightarrow> (case l of [] \<Rightarrow> None | e # _ \<Rightarrow> Some e))"

definition token_body :: "string \<Rightarrow> string \<Rightarrow> string \<Rightarrow> f64 \<Rightarrow> string" where
  "token_body symbol expiry optionType strike = ''{\"exchangeSegment\":\"NSEFO\",\"series\":\"OPTIDX\",\"symbol\":\"'' @ symbol @ ''\",\"expiryDate\":\"'' @ expiry @
     ''\",\"optionType\":\"'' @ optionType @ ''\",\"strikePrice\":'' @ fmt_f 0 strike @ ''}''"

definition decode_instrument :: "(json \<Rightarrow> 'r option) \<Rightarrow> json \<Rightarrow> 'r option" where
  "decode_instrument decode j =
     (case Option.bind (top_obj j) (\<lambda>m. fld_arr decode m ''result'') of None \<Rightarrow> None | Some l \<Rightarrow> (case l of [] \<Rightarrow> None | x # _ \<Rightarrow> Some x))"

definition option_token_call ::
    "(json \<Rightarrow> 'r option) \<Rightarrow> 'b ca_env \<Rightarrow> ca_Config \<Rightarrow> string \<Rightarrow> string \<Rightarrow> string \<Rightarrow> string \<Rightarrow> f64 \<Rightarrow> 'b \<Rightarrow> (goerr + 'r) \<times> 'b" where
  "option_token_call decode env cfg token symbol expiry optionType strike =
     rest_call env (cg_GreekRestApiBaseURL cfg @ ''/getOptionSymbol'') token (token_body symbol expiry optionType strike)
       (GoWrap ''failed to read option symbol response body: '') (\<lambda>_. GoErr ''could not parse option symbol response or no symbol found'') (decode_instrument decode)"

definition getOptionToken :: "'b ca_env \<Rightarrow> ca_Config \<Rightarrow> string \<Rightarrow> string \<Rightarrow> string \<Rightarrow> string \<Rightarrow> f64 \<Rightarrow> 'b \<Rightarrow> (goerr + int) \<times> 'b" where
  "getOptionToken = option_token_call (\<lambda>j. Option.bind (top_obj j) (\<lambda>m. fld_int m ''ExchangeInstrumentID''))"

text \<open>In \<^verbatim>\<open>trading.go\<close> the token is a float.\<close>

definition getOptionToken_float :: "'b ca_env \<Rightarrow> ca_Config \<Rightarrow> string \<Rightarrow> string \<Rightarrow> string \<Rightarrow> string \<Rightarrow> f64 \<Rightarrow> 'b \<Rightarrow> (goerr + f64) \<times> 'b" where
  "getOptionToken_float = option_token_call (\<lambda>j. Option.bind (top_obj j) (\<lambda>m. fld_float m ''ExchangeInstrumentID''))"

definition decode_lotsize :: "json \<Rightarrow> (bool \<times> int \<times> string) option" where
  "decode_lotsize j = do { m \<leftarrow> top_obj j; success \<leftarrow> fld_bool m ''success''; n \<leftarrow> fld_int m ''lotsize''; e \<leftarrow> fld_str m ''error''; Some (success, n, e) }"

definition getLotSize :: "'b ca_env \<Rightarrow> ca_Config \<Rightarrow> string \<Rightarrow> string \<Rightarrow> 'b \<Rightarrow> (goerr + int) \<times> 'b" where
  "getLotSize env cfg symbol expiry b =
     (let (r, b) = ce_net env \<lparr>rw_Method = ''GET'', rw_URL = cg_ContractMasterBaseURL cfg @ ''/api/lot-size/'' @ PathEscape symbol @ ''?expiry='' @ QueryEscape expiry,
            rw_Authorization = '''', rw_ContentType = '''', rw_Cookie = '''', rw_Body = ''''\<rparr> b in
      (case r of
         RawFail e _ \<Rightarrow> Inl e
       | RawReply _ _ text _ \<Rightarrow> (case Option.bind (ce_first env text) decode_lotsize of
           None \<Rightarrow> Inl (ce_parse_error env text)
         | Some (success, n, e) \<Rightarrow> if \<not> success \<or> n \<le> 0 then Inl (GoErr (if e = '''' then ''invalid lot size response'' else e)) else Inr n), b))"

section \<open>straddle.go: the option chain\<close>

record optionChainRow =
  oc_Strike :: f64
  oc_CEToken :: int
  oc_PEToken :: int
  oc_CELtp :: f64
  oc_PELtp :: f64
  oc_CEDelta :: f64
  oc_PEDelta :: f64
  oc_CEAsk :: f64
  oc_PEAsk :: f64
  oc_IsATM :: bool

definition chain_url :: "ca_Config \<Rightarrow> string \<Rightarrow> string \<Rightarrow> string" where
  "chain_url cfg symbol targetExpiry = cg_SnapshotServiceBaseURL cfg @ ''/api/option-chain/'' @ PathEscape symbol @
     (if TrimSpace targetExpiry \<noteq> '''' then ''?expiry='' @ QueryEscape targetExpiry else '''')"

definition fetchATMData ::
    "(json \<Rightarrow> (bool \<times> 'd \<times> string) option) \<Rightarrow> 'b ca_env \<Rightarrow> ca_Config \<Rightarrow> string \<Rightarrow> string \<Rightarrow> 'b \<Rightarrow> (goerr + 'd) \<times> 'b" where
  "fetchATMData decode env cfg symbol targetExpiry b =
     (let (r, b) = ce_net env \<lparr>rw_Method = ''GET'', rw_URL = chain_url cfg symbol targetExpiry,
            rw_Authorization = '''', rw_ContentType = '''', rw_Cookie = '''', rw_Body = ''''\<rparr> b in
      (case r of
         RawFail e _ \<Rightarrow> Inl (GoWrap ''failed to connect to snapshot service: '' e)
       | RawReply status _ text _ \<Rightarrow>
           if status \<noteq> 200 then Inl (GoErr (''snapshot service returned HTTP '' @ show_int status @ '': '' @ TrimSpace text))
           else (case Option.bind (ce_first env text) decode of
               None \<Rightarrow> Inl (GoWrap ''failed to parse option chain JSON: '' (ce_parse_error env text))
             | Some (success, data, e) \<Rightarrow>
                 if \<not> success then Inl (GoErr (if e \<noteq> '''' then e else ''snapshot service did not return success''))
                 else Inr data), b))"

definition findATMRow :: "('d \<Rightarrow> optionChainRow list) \<Rightarrow> ('d \<Rightarrow> f64) \<Rightarrow> 'd \<Rightarrow> goerr + optionChainRow" where
  "findATMRow chainOf atmOf chain = (case find (\<lambda>row. oc_IsATM row \<or> feq (oc_Strike row) (atmOf chain)) (chainOf chain) of
      Some row \<Rightarrow> Inr row
    | None \<Rightarrow> Inl (GoErr ''ATM row not found''))"

definition findRowByStrike :: "('d \<Rightarrow> optionChainRow list) \<Rightarrow> 'd \<Rightarrow> int \<Rightarrow> goerr + optionChainRow" where
  "findRowByStrike chainOf chain strike = (case find (\<lambda>row. ftoi (fround (oc_Strike row)) = strike) (chainOf chain) of
      Some row \<Rightarrow> Inr row
    | None \<Rightarrow> Inl (GoErr (''strike '' @ show_int strike @ '' not found in chain'')))"

section \<open>straddle.go: placeOrder\<close>

record orderResult =
  or_Leg :: string
  or_Token :: int
  or_Quantity :: int
  or_Price :: f64
  or_Response :: "(string \<times> json) list option"
  or_Error :: string

definition order_body :: "string \<Rightarrow> string \<Rightarrow> string \<Rightarrow> f64 \<Rightarrow> int \<Rightarrow> string \<Rightarrow> string \<Rightarrow> string" where
  "order_body gtoken side gcid price qty exchange tail = ''{\"request\":{\"data\":{\"gtoken\":\"'' @ gtoken @ ''\",\"side\":\"'' @ side @ ''\",\"gcid\":\"'' @ gcid @
     ''\",\"price\":\"'' @ fmt_f 2 price @ ''\",\"order_type\":\"1\",\"qty\":\"'' @ show_int qty @ ''\",\"validity\":\"0\",\"exchange\":\"'' @ exchange @ ''\",\"product\":\"0\"'' @ tail @ ''}}}''"

definition placeOrder ::
    "'b ca_env \<Rightarrow> ca_Config \<Rightarrow> Session \<Rightarrow> string \<Rightarrow> string \<Rightarrow> int \<Rightarrow> int \<Rightarrow> string \<Rightarrow> f64 \<Rightarrow> string \<Rightarrow> 'b \<Rightarrow> orderResult \<times> 'b" where
  "placeOrder env cfg ss exchangeSegment leg quantity gtoken side price productType b =
     (let code = (if EqualFold side ''SELL'' then ''2'' else ''1'');
          exchange = (if EqualFold (TrimSpace exchangeSegment) ''BSEFO'' then ''BSE'' else ''NSE'');
          body = order_body (show_int gtoken) code (ss_GCID ss) price quantity exchange ('',\"productType\":\"'' @ productType @ ''\"'');
          res = \<lparr>or_Leg = leg, or_Token = gtoken, or_Quantity = quantity, or_Price = price, or_Response = None, or_Error = ''''\<rparr>;
          (r, b) = ce_net env (post_json (cg_GreekRestApiBaseURL cfg @ ''/NewOrderRequest'') (ss_UpstreamToken ss) body) b in
      (case r of
         RawFail e _ \<Rightarrow> res\<lparr>or_Error := Error e\<rparr>
       | RawReply _ _ text err \<Rightarrow>
           if err \<noteq> None then res\<lparr>or_Error := ''failed to read order response''\<rparr>
           else res\<lparr>or_Response := Option.bind (cd_Unmarshal (ce_codec env) text) (\<lambda>j. case j of JObj m \<Rightarrow> Some m | _ \<Rightarrow> None)\<rparr>, b))"

section \<open>trading.go: SellStraddleHandler\<close>

text \<open>For each symbol its token, the gap between strikes and the lot size.\<close>

definition symbolDetails :: "(string \<times> int \<times> int \<times> int) list" where
  "symbolDetails = [(''NIFTY'', 26000, 50, 50), (''BANKNIFTY'', 26001, 100, 15), (''FINNIFTY'', 26034, 50, 40), (''MIDCPNIFTY'', 26121, 25, 75), (''SENSEX'', 26065, 100, 10)]"

definition decode_atm :: "json \<Rightarrow> (string \<times> int \<times> bool) option" where
  "decode_atm j = do { m \<leftarrow> top_obj j; symbol \<leftarrow> fld_str m ''symbol''; lots \<leftarrow> fld_int m ''lots''; dn \<leftarrow> fld_bool m ''delta_neutral''; Some (symbol, lots, dn) }"

definition bad_gateway :: "string \<Rightarrow> goerr \<Rightarrow> ca_response" where
  "bad_gateway what e = http_Error (''{\"message\": \"'' @ what @ '': '' @ Error e @ ''\"}'') 502"

text \<open>One step of the handler: an error ends it with status 502.\<close>

definition step_or_fail :: "string \<Rightarrow> ('b \<Rightarrow> (goerr + 'x) \<times> 'b) \<Rightarrow> ('x \<Rightarrow> 'b \<Rightarrow> (ca_response + 'y) \<times> 'b) \<Rightarrow> 'b \<Rightarrow> (ca_response + 'y) \<times> 'b" where
  "step_or_fail what f k b = (let (r, b) = f b in case r of Inl e \<Rightarrow> (Inl (bad_gateway what e), b) | Inr x \<Rightarrow> k x b)"

record atm_plan =
  ap_ceToken :: f64
  ap_peToken :: f64
  ap_ceContracts :: int
  ap_peContracts :: int
  ap_cePrice :: f64
  ap_pePrice :: f64

definition leg_contracts :: "int \<Rightarrow> int \<Rightarrow> f64 \<Rightarrow> int" where
  "leg_contracts lots lotSize delta =
     i64_mul (ftoi (fdiv (fround (fmul (itof (i64_mul lots lotSize)) (fabs delta))) (itof lotSize))) lotSize"

definition atm_contracts :: "int \<Rightarrow> int \<Rightarrow> bool \<Rightarrow> (string \<times> json) list \<Rightarrow> (string \<times> json) list \<Rightarrow> int \<times> int" where
  "atm_contracts lots lotSize dn ceQuote peQuote =
     (case (float_member ceQuote ''Delta'', float_member peQuote ''Delta'') of
        (Some ceDelta, Some peDelta) \<Rightarrow>
          if dn then (leg_contracts lots lotSize peDelta, leg_contracts lots lotSize ceDelta) else (i64_mul lots lotSize, i64_mul lots lotSize)
      | _ \<Rightarrow> (i64_mul lots lotSize, i64_mul lots lotSize))"

definition atm_prices :: "(string \<times> json) list \<Rightarrow> (string \<times> json) list \<Rightarrow> ca_response + (f64 \<times> f64)" where
  "atm_prices ceQuote peQuote =
     (case (obj_member ceQuote ''BidInfo'', obj_member peQuote ''BidInfo'') of
        (Some ceBid, Some peBid) \<Rightarrow>
          (case (float_member ceBid ''Price'', float_member peBid ''Price'') of
             (Some ce, Some pe) \<Rightarrow>
               if fle ce (Fin 0) \<or> fle pe (Fin 0) then Inl (http_Error ''{\"message\": \"Invalid bid price in quote response\"}'' 502) else Inr (ce, pe)
           | _ \<Rightarrow> Inl (http_Error ''{\"message\": \"Invalid bid price in quote response\"}'' 502))
      | _ \<Rightarrow> Inl (http_Error ''{\"message\": \"BidInfo not found in quote response\"}'' 502))"

definition getQuote_atm :: "'b ca_env \<Rightarrow> ca_Config \<Rightarrow> string \<Rightarrow> string \<Rightarrow> int \<Rightarrow> 'b \<Rightarrow> (goerr + (string \<times> json) list) \<times> 'b" where
  "getQuote_atm env cfg token gcid instrumentToken =
     rest_call env (cg_GreekRestApiBaseURL cfg @ ''/getQuoteForSingleSymbol_V2'') token (quote_body gcid instrumentToken)
       (GoWrap ''failed to read quote response body: '') (ce_parse_error env) decode_quote"

definition getExpiryDate_atm :: "'b ca_env \<Rightarrow> ca_Config \<Rightarrow> string \<Rightarrow> string \<Rightarrow> 'b \<Rightarrow> (goerr + string) \<times> 'b" where
  "getExpiryDate_atm env cfg token symbol =
     rest_call env (cg_GreekRestApiBaseURL cfg @ ''/getExpiryDate'') token
       (''{\"exchangeSegment\": \"NSEFO\", \"series\": \"OPTIDX\", \"symbol\": \"'' @ symbol @ ''\"}'') (GoWrap ''failed to read expiry response body: '')
       (\<lambda>_. GoErr ''could not parse expiry date response or no dates found'')
       (\<lambda>j. case decode_strings j of None \<Rightarrow> None | Some l \<Rightarrow> (case l of [] \<Rightarrow> None | e # _ \<Rightarrow> Some e))"

definition plan_atm :: "'b ca_env \<Rightarrow> ca_Config \<Rightarrow> Session \<Rightarrow> string \<Rightarrow> int \<Rightarrow> bool \<Rightarrow> 'b \<Rightarrow> (ca_response + atm_plan) \<times> 'b" where
  "plan_atm env cfg ss symbol lots dn b =
     (case map_of symbolDetails symbol of
        None \<Rightarrow> (Inl (http_Error ''{\"message\": \"Unsupported symbol\"}'' 400), b)
      | Some (token, gap, lotSize) \<Rightarrow>
          let quoteOf = getQuote_atm env cfg (ss_UpstreamToken ss) (ss_GCID ss) in
          step_or_fail ''Failed to get spot price'' (quoteOf token) (\<lambda>quote b.
            case float_member quote ''LastTradedPrice'' of
              None \<Rightarrow> (Inl (http_Error ''{\"message\": \"Failed to get valid spot price from quote\"}'' 502), b)
            | Some spot \<Rightarrow>
                if fle spot (Fin 0) then (Inl (http_Error ''{\"message\": \"Failed to get valid spot price from quote\"}'' 502), b)
                else
                  let atmStrike = fmul (fround (fdiv spot (itof gap))) (itof gap) in
                  step_or_fail ''Failed to get expiry date'' (getExpiryDate_atm env cfg (ss_UpstreamToken ss) symbol) (\<lambda>expiry.
                  step_or_fail ''Failed to get CE option token'' (getOptionToken_float env cfg (ss_UpstreamToken ss) symbol expiry ''CE'' atmStrike) (\<lambda>ceToken.
                  step_or_fail ''Failed to get PE option token'' (getOptionToken_float env cfg (ss_UpstreamToken ss) symbol expiry ''PE'' atmStrike) (\<lambda>peToken.
                  step_or_fail ''Failed to get CE quote'' (quoteOf (ftoi ceToken)) (\<lambda>ceQuote.
                  step_or_fail ''Failed to get PE quote'' (quoteOf (ftoi peToken)) (\<lambda>peQuote b.
                    (case atm_prices ceQuote peQuote of
                       Inl resp \<Rightarrow> Inl resp
                     | Inr (cePrice, pePrice) \<Rightarrow>
                         (case atm_contracts lots lotSize dn ceQuote peQuote of (ce, pe) \<Rightarrow>
                            Inr \<lparr>ap_ceToken = ceToken, ap_peToken = peToken, ap_ceContracts = ce, ap_peContracts = pe, ap_cePrice = cePrice, ap_pePrice = pePrice\<rparr>), b)))))) b) b)"

text \<open>
  One order and what its goroutine sends to the channel of results: two values when the answer cannot be
  read, since the function goes on after the error, else one.
\<close>

definition leg_call :: "ca_Config \<Rightarrow> Session \<Rightarrow> int \<Rightarrow> f64 \<Rightarrow> f64 \<Rightarrow> raw_call" where
  "leg_call cfg ss quantity gtoken price =
     post_json (cg_GreekRestApiBaseURL cfg @ ''/NewOrderRequest'') (ss_UpstreamToken ss) (order_body (fmt_f 0 gtoken) ''2'' (ss_GCID ss) price quantity ''NSE'' '''')"

definition token_json :: "f64 \<Rightarrow> json" where
  "token_json x = (case enc_float x of Some j \<Rightarrow> j | None \<Rightarrow> JNull)"

definition result_doc :: "'b ca_env \<Rightarrow> string \<Rightarrow> json" where
  "result_doc env text = (case cd_Unmarshal (ce_codec env) text of None \<Rightarrow> JNull | Some j \<Rightarrow> (case j of JObj m \<Rightarrow> JObj m | _ \<Rightarrow> JNull))"

definition leg_results :: "'b ca_env \<Rightarrow> f64 \<Rightarrow> raw_reply \<Rightarrow> json list" where
  "leg_results env gtoken r = (case r of
      RawFail e _ \<Rightarrow> [JObj [(''error'', JStr (Error e)), (''token'', token_json gtoken)]]
    | RawReply _ _ text err \<Rightarrow>
        (if err \<noteq> None then [JObj [(''error'', JStr ''failed to read order response''), (''token'', token_json gtoken)]] else []) @ [result_doc env text])"

definition place_leg :: "'b ca_env \<Rightarrow> ca_Config \<Rightarrow> Session \<Rightarrow> int \<Rightarrow> f64 \<Rightarrow> f64 \<Rightarrow> 'b \<Rightarrow> json list \<times> 'b" where
  "place_leg env cfg ss quantity gtoken price b =
     (if 0 < quantity then let (r, b) = ce_net env (leg_call cfg ss quantity gtoken price) b in (leg_results env gtoken r, b) else ([], b))"

text \<open>
  Both orders. The goroutines run in either order and send in either order. The channel holds two values
  and is read only when both goroutines are done: with more values one of them waits forever, and with
  it the request; then there is no answer.
\<close>

definition place_legs :: "bool \<Rightarrow> bool \<Rightarrow> 'b ca_env \<Rightarrow> ca_Config \<Rightarrow> Session \<Rightarrow> atm_plan \<Rightarrow> 'b \<Rightarrow> ca_response option \<times> 'b" where
  "place_legs peCalls peSends env cfg ss p b =
     (let ce = place_leg env cfg ss (ap_ceContracts p) (ap_ceToken p) (ap_cePrice p); pe = place_leg env cfg ss (ap_peContracts p) (ap_peToken p) (ap_pePrice p);
          (ceRes, peRes, b) = (if peCalls then (let (pr, b) = pe b; (cr, b) = ce b in (cr, pr, b)) else (let (cr, b) = ce b; (pr, b) = pe b in (cr, pr, b)));
          all = (if peSends then peRes @ ceRes else ceRes @ peRes) in
      (if 2 < length all then None else Some (json_reply 200 (if all = [] then JNull else JArr all)), b))"

definition sell_atm_straddle :: "bool \<Rightarrow> bool \<Rightarrow> 'b ca_env \<Rightarrow> ca_Config \<Rightarrow> ca_request \<Rightarrow> 'b ca_state \<Rightarrow> ca_response option \<times> 'b ca_state" where
  "sell_atm_straddle peCalls peSends env cfg r s =
     (case getSessionFromCookie r s of
        Inl e \<Rightarrow> (Some (http_Error (''{\"message\": \"'' @ Error e @ ''\"}'') 401), s)
      | Inr (ss, _) \<Rightarrow>
          if ss_GCID ss = '''' then (Some (http_Error ''{\"message\": \"JLogin required before trading\"}'' 400), s)
          else (case (case cq_Body r of Inl _ \<Rightarrow> None | Inr body \<Rightarrow> Option.bind (ce_first env body) decode_atm) of
              None \<Rightarrow> (Some (http_Error ''{\"message\": \"Invalid request body\"}'' 400), s)
            | Some (symbol, lots, dn) \<Rightarrow>
                (case plan_atm env cfg ss symbol lots dn (cs_ext s) of
                   (Inl resp, b) \<Rightarrow> (Some resp, s\<lparr>cs_ext := b\<rparr>)
                 | (Inr p, b) \<Rightarrow> (case place_legs peCalls peSends env cfg ss p b of (resp, b) \<Rightarrow> (resp, s\<lparr>cs_ext := b\<rparr>)))))"

section \<open>internal/client and internal/execution\<close>

definition GatewayClient_Post :: "'b ca_env \<Rightarrow> string \<Rightarrow> string \<Rightarrow> json \<Rightarrow> 'b \<Rightarrow> (goerr + string) \<times> 'b" where
  "GatewayClient_Post env base path payload b =
     (let (r, b) = ce_net env (post_json (base @ path) '''' (cd_Marshal (ce_codec env) payload)) b in
      (case r of
         RawFail e _ \<Rightarrow> Inl (GoWrap ''request to gateway failed: '' e)
       | RawReply _ _ text err \<Rightarrow> (case err of Some e \<Rightarrow> Inl (GoWrap ''failed to read gateway response: '' e) | None \<Rightarrow> Inr text), b))"

text \<open>The type of the client's configuration is in no file; its five fields are arguments.\<close>

definition login_request :: "string \<Rightarrow> string \<Rightarrow> string \<Rightarrow> string \<Rightarrow> string \<Rightarrow> json" where
  "login_request user pass yob key secret = JObj [(''user_id'', JStr user), (''password'', JStr pass), (''yob'', JStr yob), (''api_key'', JStr key),
     (''api_secret'', JStr secret), (''two_fa_type'', JStr ''app''), (''two_fa_code'', JStr ''123456''), (''redirect_url'', JStr '''')]"

definition GreeksoftClient_Login :: "'b ca_env \<Rightarrow> string \<Rightarrow> json \<Rightarrow> 'b \<Rightarrow> (goerr + string) \<times> 'b" where
  "GreeksoftClient_Login env base request b =
     (let (r, b) = ce_net env (post_json (base @ ''/j_spring_security_check'') '''' (cd_Marshal (ce_codec env) request)) b in
      (case r of
         RawFail e _ \<Rightarrow> Inl (GoWrap ''login request to Greeksoft failed: '' e)
       | RawReply status _ text _ \<Rightarrow>
           if status \<noteq> 200 then Inl (GoErr (''login failed with status '' @ show_int status @ '': '' @ text))
           else (case Option.bind (Option.bind (ce_first env text) top_obj) (\<lambda>m. fld_str m ''session_token'') of
               None \<Rightarrow> Inl (GoWrap ''failed to decode login response: '' (ce_parse_error env text))
             | Some token \<Rightarrow> Inr token), b))"

text \<open>The rest of the body that the error text quotes is what the decoder left unread, \<open>rest\<close>.\<close>

definition GreeksoftClient_get :: "(string \<Rightarrow> string) \<Rightarrow> 'b ca_env \<Rightarrow> string \<Rightarrow> string \<Rightarrow> string \<Rightarrow> (json \<Rightarrow> 'r option) \<Rightarrow> 'b \<Rightarrow> (goerr + 'r) \<times> 'b" where
  "GreeksoftClient_get rest env base path token decode b =
     (let (r, b) = ce_net env \<lparr>rw_Method = ''GET'', rw_URL = base @ path, rw_Authorization = '''', rw_ContentType = '''', rw_Cookie = ''jessionid='' @ token, rw_Body = ''''\<rparr> b in
      (case r of
         RawFail e _ \<Rightarrow> Inl (GoWrap (''request to '' @ path @ '' failed: '') e)
       | RawReply status _ text err \<Rightarrow>
           if status \<noteq> 200 then Inl (GoErr (''request to '' @ path @ '' returned status '' @ show_int status @ '': '' @ text))
           else (case Option.bind (ce_first env text) decode of
               None \<Rightarrow> Inl (GoErr (''failed to decode response from '' @ path @ '': '' @ Error (ce_parse_error env text) @
                 (if err = None then ''. Body: '' @ rest text else '''')))
             | Some v \<Rightarrow> Inr v), b))"

definition GetFlagValues :: "(string \<Rightarrow> string) \<Rightarrow> 'b ca_env \<Rightarrow> string \<Rightarrow> string \<Rightarrow> 'b \<Rightarrow> (goerr + string) \<times> 'b" where
  "GetFlagValues rest env base token b =
     (let (r, b) = GreeksoftClient_get rest env base ''/getFlagValues'' token (\<lambda>j. Option.bind (top_obj j) (\<lambda>m. fld_str m ''isDheEnable'')) b in
      (case r of Inl e \<Rightarrow> Inl (GoWrap ''GetFlagValues failed: '' e) | Inr v \<Rightarrow> Inr v, b))"

definition GetLoginInfo :: "(string \<Rightarrow> string) \<Rightarrow> 'b ca_env \<Rightarrow> string \<Rightarrow> string \<Rightarrow> 'b \<Rightarrow> (goerr + (string \<times> string)) \<times> 'b" where
  "GetLoginInfo rest env base token b =
     (let (r, b) = GreeksoftClient_get rest env base ''/getLoginInfo'' token
            (\<lambda>j. do { m \<leftarrow> top_obj j; g \<leftarrow> fld_str m ''gcId''; i \<leftarrow> fld_str m ''sId''; Some (g, i) }) b in
      (case r of Inl e \<Rightarrow> Inl (GoWrap ''GetLoginInfo failed: '' e) | Inr v \<Rightarrow> Inr v, b))"

text \<open>handlers.go, router.go and server.go: the two routes that the service registers, behind the CORS wrapper.\<close>

definition HandleGreeksoftLogin :: "'b ca_env \<Rightarrow> string \<Rightarrow> json \<Rightarrow> 'b \<Rightarrow> ca_response \<times> 'b" where
  "HandleGreeksoftLogin env base request b =
     (let (r, b) = GreeksoftClient_Login env base request b in
      (case r of Inl e \<Rightarrow> http_Error (Error e) 500 | Inr token \<Rightarrow> json_reply 200 (JObj [(''session_token'', JStr token)]), b))"

definition HandleCreateOrder :: ca_response where
  "HandleCreateOrder = \<lparr>rs_Status = 501, rs_Headers = [], rs_Cookie = None, rs_Body = RawBody ''Not Implemented''\<rparr>"

definition ca_router :: "'b ca_env \<Rightarrow> string \<Rightarrow> json \<Rightarrow> ca_request \<Rightarrow> 'b \<Rightarrow> ca_response \<times> 'b" where
  "ca_router env base request r b =
     (if cq_Path r \<notin> {''/orders'', ''/login/greeksoft''} then (http_Error ''404 page not found'' 404, b)
      else if cq_Method r \<noteq> ''POST'' then (http_Error ''Method Not Allowed'' 405, b)
      else if cq_Path r = ''/orders'' then (HandleCreateOrder, b)
      else HandleGreeksoftLogin env base request b)"

definition cors_headers :: "(string \<times> string) list" where
  "cors_headers = [(''Access-Control-Allow-Origin'', ''*''), (''Access-Control-Allow-Methods'', ''GET, POST, PUT, DELETE, OPTIONS''),
     (''Access-Control-Allow-Headers'', ''Content-Type, Authorization'')]"

definition withCORS :: "(ca_request \<Rightarrow> 'b \<Rightarrow> ca_response \<times> 'b) \<Rightarrow> ca_request \<Rightarrow> 'b \<Rightarrow> ca_response \<times> 'b" where
  "withCORS handler r b =
     (if cq_Method r = ''OPTIONS'' then (\<lparr>rs_Status = 200, rs_Headers = cors_headers, rs_Cookie = None, rs_Body = RawBody []\<rparr>, b)
      else (let (p, b) = handler r b in (p\<lparr>rs_Headers := cors_headers @ rs_Headers p\<rparr>, b)))"

text \<open>
  The address that the server listens on and its handler. \<^verbatim>\<open>config.Config\<close> has no \<^verbatim>\<open>Greeksoft\<close>; the base URL and
  the login document that come from it are arguments.
\<close>

definition newServer :: "'b ca_env \<Rightarrow> ca_Config \<Rightarrow> string \<Rightarrow> json \<Rightarrow> string \<times> (ca_request \<Rightarrow> 'b \<Rightarrow> ca_response \<times> 'b)" where
  "newServer env cfg base request = ('':'' @ cg_Port cfg, withCORS (ca_router env base request))"

record ex_DeployRequest =
  xd_UserID :: string
  xd_BrokerName :: string
  xd_AccountID :: string
  xd_Symbol :: string
  xd_Lots :: int
  xd_DeltaNeutral :: bool
  xd_ProductType :: string
  xd_TargetExpiry :: string
  xd_Strike :: int
  xd_CEToken :: int
  xd_PEToken :: int
  xd_LotSize :: int
  xd_CEStrikePrice :: int
  xd_PEStrikePrice :: int

definition ex_request_json :: "ex_DeployRequest \<Rightarrow> json" where
  "ex_request_json q = JObj [(''userId'', JStr (xd_UserID q)), (''brokerName'', JStr (xd_BrokerName q)), (''accountId'', JStr (xd_AccountID q)),
     (''symbol'', JStr (xd_Symbol q)), (''lots'', JNum (of_int (xd_Lots q))), (''deltaNeutral'', JBool (xd_DeltaNeutral q)), (''productType'', JStr (xd_ProductType q)),
     (''targetExpiry'', JStr (xd_TargetExpiry q)), (''strike'', JNum (of_int (xd_Strike q))), (''ceToken'', JNum (of_int (xd_CEToken q))),
     (''peToken'', JNum (of_int (xd_PEToken q))), (''lotSize'', JNum (of_int (xd_LotSize q))), (''ceStrikePrice'', JNum (of_int (xd_CEStrikePrice q))),
     (''peStrikePrice'', JNum (of_int (xd_PEStrikePrice q)))]"

record ex_DeployResponse =
  xs_Success :: bool
  xs_TradeUID :: string
  xs_Status :: string
  xs_Message :: string
  xs_Symbol :: string
  xs_Expiry :: string
  xs_Strike :: f64
  xs_CEToken :: int
  xs_PEToken :: int
  xs_CEQty :: int
  xs_PEQty :: int
  xs_CELtp :: f64
  xs_PELtp :: f64
  xs_NetDelta :: f64
  xs_Error :: string
  xs_CreatedAt :: string

definition decode_ex_response :: "json \<Rightarrow> ex_DeployResponse option" where
  "decode_ex_response j = do {
     m \<leftarrow> top_obj j; success \<leftarrow> fld_bool m ''success''; uid \<leftarrow> fld_str m ''tradeUid''; status \<leftarrow> fld_str m ''status''; msg \<leftarrow> fld_str m ''message'';
     symbol \<leftarrow> fld_str m ''symbol''; expiry \<leftarrow> fld_str m ''expiry''; strike \<leftarrow> fld_float m ''strike''; ce \<leftarrow> fld_int m ''ceToken''; pe \<leftarrow> fld_int m ''peToken'';
     ceq \<leftarrow> fld_int m ''ceQuantity''; peq \<leftarrow> fld_int m ''peQuantity''; cel \<leftarrow> fld_float m ''ceEntryPrice''; pel \<leftarrow> fld_float m ''peEntryPrice'';
     nd \<leftarrow> fld_float m ''netDelta''; e \<leftarrow> fld_str m ''error''; created \<leftarrow> fld_str m ''createdAt'';
     Some \<lparr>xs_Success = success, xs_TradeUID = uid, xs_Status = status, xs_Message = msg, xs_Symbol = symbol, xs_Expiry = expiry, xs_Strike = strike,
       xs_CEToken = ce, xs_PEToken = pe, xs_CEQty = ceq, xs_PEQty = peq, xs_CELtp = cel, xs_PELtp = pel, xs_NetDelta = nd, xs_Error = e, xs_CreatedAt = created\<rparr> }"

text \<open>The value that accompanies an error is left out.\<close>

definition ex_DeployStraddle :: "'b ca_env \<Rightarrow> string \<Rightarrow> ex_DeployRequest \<Rightarrow> 'b \<Rightarrow> (goerr + ex_DeployResponse) \<times> 'b" where
  "ex_DeployStraddle env base q b =
     (let (r, b) = ce_net env (post_json (TrimRightChar base (CHR ''/'') @ ''/api/trade/straddle'') '''' (cd_Marshal (ce_codec env) (ex_request_json q))) b in
      (case r of
         RawFail e _ \<Rightarrow> Inl (GoWrap ''call execution-gateway: '' e)
       | RawReply status _ text _ \<Rightarrow> (case Option.bind (ce_first env text) decode_ex_response of
           None \<Rightarrow> Inl (GoWrap ''decode execution-gateway response: '' (ce_parse_error env text))
         | Some out \<Rightarrow>
             if status < 200 \<or> 300 \<le> status
             then Inl (GoErr (if xs_Error out = '''' then ''execution-gateway returned HTTP '' @ show_int status else xs_Error out))
             else Inr out), b))"

section \<open>Sizes\<close>

lemma leg_contracts_bounds:
  assumes "0 \<le> lots" "0 < lotSize" "lotSize \<le> 2 ^ 53" "lots * lotSize \<le> 2 ^ 53" "\<bar>d\<bar> \<le> 1"
  shows "\<exists>k. leg_contracts lots lotSize (Fin d) = k * lotSize \<and> 0 \<le> k \<and> k \<le> lots"
proof -
  define t where "t = lots * lotSize"
  have t: "0 \<le> t" "t \<le> 2 ^ 53" using assms by (simp_all add: t_def)
  have "lots * 1 \<le> lots * lotSize" using assms by (intro mult_left_mono) auto
  then have l: "lots \<le> 2 ^ 53" using assms(4) by linarith
  have m: "i64_mul lots lotSize = t" using t by (simp add: i64_mul_def int64_ok_def t_def)
  obtain y where y: "rnd (of_int t * \<bar>d\<bar>) = Fin y" "0 \<le> y" "y \<le> of_int t"
  proof (rule rnd_between [of 0 "of_int t" "of_int t * \<bar>d\<bar>"])
    show "f64_ok (Fin (of_int t :: rat))" using t by (intro f64_ok_Fin_int) simp
    show "of_int t * \<bar>d\<bar> \<le> of_int t" using t assms(5) by (simp add: mult_left_le)
  qed (use t in simp_all)
  define n where "n = round_away y"
  have n: "0 \<le> n" "n \<le> t" using y round_away_ge [of 0 y] round_away_le [of y t] by (simp_all add: n_def)
  obtain z where z: "rnd (of_int n / of_int lotSize) = Fin z" "0 \<le> z" "z \<le> of_int lots"
  proof (rule rnd_between [of 0 "of_int lots" "of_int n / of_int lotSize"])
    show "f64_ok (Fin (of_int lots :: rat))" using l assms(1) by (intro f64_ok_Fin_int) simp
    have "(of_int n :: rat) \<le> of_int (lots * lotSize)" using n(2) by (simp only: of_int_le_iff t_def)
    then show "of_int n / of_int lotSize \<le> (of_int lots :: rat)" using assms(2) by (simp add: pos_divide_le_eq)
  qed (use n assms in simp_all)
  define k where "k = \<lfloor>z\<rfloor>"
  have k: "0 \<le> k" "k \<le> lots" using z by (simp_all add: k_def floor_le_iff)
  have "k * lotSize \<le> lots * lotSize" using k assms(2) by (intro mult_right_mono) auto
  then have "k * lotSize \<le> 2 ^ 53" using assms(4) by linarith
  moreover have "0 \<le> k * lotSize" using k assms(2) by simp
  moreover note k l
  ultimately have "int64_ok k" "int64_ok (k * lotSize)" by (simp_all add: int64_ok_def)
  moreover have "itof t = Fin (of_int t)" "itof lotSize = Fin (of_int lotSize)" using t assms by (auto intro: itof_exact)
  ultimately have "leg_contracts lots lotSize (Fin d) = k * lotSize"
    using y z assms(2) unfolding leg_contracts_def m by (simp add: n_def [symmetric] trunc_rat_def k_def [symmetric] i64_mul_def)
  with k show ?thesis by blast
qed

text \<open>
  The delta-neutral sizes of the direct straddle are whole lots and never more than asked for: when both
  deltas lie between -1 and 1, each leg gets between no lots and the lots of the request.
\<close>

theorem atm_sizes_are_whole_lots:
  assumes "(symbol, token, gap, lotSize) \<in> set symbolDetails" "0 \<le> lots" "lots \<le> 2 ^ 32"
    and "float_member ceQuote ''Delta'' = Some (Fin x)" "float_member peQuote ''Delta'' = Some (Fin y)" "\<bar>x\<bar> \<le> 1" "\<bar>y\<bar> \<le> 1"
  shows "\<exists>k l. atm_contracts lots lotSize dn ceQuote peQuote = (k * lotSize, l * lotSize) \<and> 0 \<le> k \<and> k \<le> lots \<and> 0 \<le> l \<and> l \<le> lots"
proof -
  have ls: "0 < lotSize" "lotSize \<le> 75" using assms(1) by (auto simp: symbolDetails_def)
  then have "lots * lotSize \<le> 2 ^ 32 * 75" using assms(2,3) by (intro mult_mono) auto
  then have b: "lots * lotSize \<le> 2 ^ 53" "lotSize \<le> 2 ^ 53" using ls by simp_all
  obtain k l where k: "leg_contracts lots lotSize (Fin y) = k * lotSize" "0 \<le> k" "k \<le> lots"
    and l: "leg_contracts lots lotSize (Fin x) = l * lotSize" "0 \<le> l" "l \<le> lots"
    using leg_contracts_bounds [OF assms(2) ls(1) b(2,1)] assms(6,7) by metis
  have "0 \<le> lots * lotSize" using ls assms(2) by simp
  then have "i64_mul lots lotSize = lots * lotSize" using b(1) by (simp add: i64_mul_def int64_ok_def)
  then have "atm_contracts lots lotSize dn ceQuote peQuote = ((if dn then k else lots) * lotSize, (if dn then l else lots) * lotSize)"
    using k(1) l(1) assms(4,5) by (simp add: atm_contracts_def)
  then show ?thesis using k l assms(2) by (intro exI [of _ "if dn then k else lots"] exI [of _ "if dn then l else lots"]) simp
qed

section \<open>Answers\<close>

definition read_failed :: "raw_reply \<Rightarrow> bool" where
  "read_failed r \<longleftrightarrow> (case r of RawFail _ _ \<Rightarrow> False | RawReply _ _ _ err \<Rightarrow> err \<noteq> None)"

lemma length_leg_results: "length (leg_results env tok r) = (if read_failed r then 2 else 1)"
  by (auto simp: leg_results_def read_failed_def split: raw_reply.splits)

text \<open>
  The direct straddle answers exactly when it can read the broker: if both orders are sent, the request
  gets an answer if and only if the answers to both orders could be read completely. Otherwise it waits
  forever, although both orders are at the broker.
\<close>

theorem direct_straddle_hangs_on_unread_answer:
  assumes "0 < ap_ceContracts p" "0 < ap_peContracts p"
    and "ce_net env (leg_call cfg ss (ap_ceContracts p) (ap_ceToken p) (ap_cePrice p)) b = (ceReply, b1)"
    and "ce_net env (leg_call cfg ss (ap_peContracts p) (ap_peToken p) (ap_pePrice p)) b1 = (peReply, b2)"
  shows "place_legs False peSends env cfg ss p b =
    (if read_failed ceReply \<or> read_failed peReply then None
     else Some (json_reply 200 (JArr (if peSends then leg_results env (ap_peToken p) peReply @ leg_results env (ap_ceToken p) ceReply
       else leg_results env (ap_ceToken p) ceReply @ leg_results env (ap_peToken p) peReply))), b2)"
proof -
  have "leg_results env (ap_ceToken p) ceReply \<noteq> []" by (auto simp: leg_results_def split: raw_reply.splits)
  then show ?thesis using assms by (simp add: place_legs_def place_leg_def length_leg_results Let_def)
qed

section \<open>Witnesses\<close>

definition delta_quote :: "rat \<Rightarrow> (string \<times> json) list" where
  "delta_quote d = [(''Delta'', JNum d)]"

theorem atm_sizes_are_whole_lots_witness:
  "\<exists>k l. atm_contracts 4 50 True (delta_quote 1) (delta_quote 0) = (k * 50, l * 50) \<and> 0 \<le> k \<and> k \<le> 4 \<and> 0 \<le> l \<and> l \<le> 4"
proof -
  have "float_member (delta_quote 1) ''Delta'' = Some (Fin 1)" "float_member (delta_quote 0) ''Delta'' = Some (Fin 0)"
    using rnd_int [of 1] rnd_int [of 0] by (simp_all add: float_member_def delta_quote_def json_get_def num_f64_def)
  then show ?thesis using atm_sizes_are_whole_lots [of "''NIFTY''" 26000 50 50 4 "delta_quote 1" 1 "delta_quote 0" 0 True] by (simp add: symbolDetails_def)
qed

definition cut_env :: "nat ca_env" where
  "cut_env = \<lparr>ce_net = (\<lambda>c b. (RawReply 200 [] '''' (if b = 0 then Some (GoErr ''unexpected EOF'') else None), Suc b)),
     ce_codec = \<lparr>cd_Marshal = (\<lambda>_. ''''), cd_Unmarshal = (\<lambda>_. None)\<rparr>, ce_first = (\<lambda>_. None), ce_uuid = (\<lambda>_. ''''), ce_now = (\<lambda>_. zero_time),
     ce_url_ok = (\<lambda>_. True), ce_parse_error = (\<lambda>_. GoErr ''invalid'')\<rparr>"

definition two_legs :: atm_plan where
  "two_legs = \<lparr>ap_ceToken = Fin 1, ap_peToken = Fin 2, ap_ceContracts = 50, ap_peContracts = 50, ap_cePrice = Fin 100, ap_pePrice = Fin 90\<rparr>"

theorem direct_straddle_hangs_on_unread_answer_witness:
  "place_legs False False cut_env (ca_Load (\<lambda>_. '''')) (new_session ''token'' ''user'' ''22'' zero_time) two_legs 0 = (None, 2) \<and>
   fst (place_legs False False cut_env (ca_Load (\<lambda>_. '''')) (new_session ''token'' ''user'' ''22'' zero_time) two_legs 1) \<noteq> None"
  using direct_straddle_hangs_on_unread_answer [of two_legs cut_env "ca_Load (\<lambda>_. '''')" "new_session ''token'' ''user'' ''22'' zero_time" 0 _ _ _ _ False]
    direct_straddle_hangs_on_unread_answer [of two_legs cut_env "ca_Load (\<lambda>_. '''')" "new_session ''token'' ''user'' ''22'' zero_time" 1 _ _ _ _ False]
  by (simp add: cut_env_def two_legs_def read_failed_def)

end
