(* ===== verification/Control_Api_Proofs.thy ===== *)
theory Control_Api_Proofs
  imports Control_Api Server
begin

text \<open>
  Properties of the control API: the session store stays well formed, an ended session is never accepted
  again, and a handler only uses the broker token of the session that the request names.
\<close>

section \<open>What a handler does to the sessions\<close>

text \<open>Every stored session has a token and an identifier that was made for it.\<close>

definition sessions_ok :: "(nat \<Rightarrow> string) \<Rightarrow> 'b ca_state \<Rightarrow> bool" where
  "sessions_ok uuid s \<longleftrightarrow> gm_ok (cs_sessions s) \<and>
     (\<forall>sid ss. gm_get (cs_sessions s) sid = Some ss \<longrightarrow> TrimSpace (ss_UpstreamToken ss) \<noteq> '''' \<and> (\<exists>n < cs_made s. sid = uuid n))"

text \<open>The four effects: none, a new session, an update of an existing one that keeps its token, and an end.\<close>

inductive session_effect :: "(nat \<Rightarrow> string) \<Rightarrow> 'b ca_state \<Rightarrow> 'b ca_state \<Rightarrow> bool" for uuid s where
  keep: "cs_sessions s' = cs_sessions s \<Longrightarrow> cs_made s' = cs_made s \<Longrightarrow> session_effect uuid s s'"
| create: "cs_sessions s' = gm_set (uuid (cs_made s)) ss (cs_sessions s) \<Longrightarrow> cs_made s' = Suc (cs_made s) \<Longrightarrow>
    TrimSpace (ss_UpstreamToken ss) \<noteq> '''' \<Longrightarrow> session_effect uuid s s'"
| update: "gm_get (cs_sessions s) sid = Some ss \<Longrightarrow> ss_UpstreamToken ss' = ss_UpstreamToken ss \<Longrightarrow>
    cs_sessions s' = gm_set sid ss' (cs_sessions s) \<Longrightarrow> cs_made s' = cs_made s \<Longrightarrow> session_effect uuid s s'"
| delete: "cs_sessions s' = gm_del sid (cs_sessions s) \<Longrightarrow> cs_made s' = cs_made s \<Longrightarrow> session_effect uuid s s'"

inductive_cases session_effectE: "session_effect uuid s s'"

lemma forward_keeps: "cs_sessions (snd (forward env c s)) = cs_sessions s" "cs_made (snd (forward env c s)) = cs_made s"
  by (auto simp: forward_def Let_def split: prod.splits raw_reply.splits)

lemma with_flags_token: "ss_UpstreamToken (with_flags gcid flags ss) = ss_UpstreamToken ss"
  by (simp add: with_flags_def split: prod.splits)

lemma jlogin_sessions:
  assumes "snd (handleJLoginSequence env cfg sid ss body s) = s'" "gm_get (cs_sessions s) sid = Some ss"
  shows "cs_made s' = cs_made s \<and> (cs_sessions s' = cs_sessions s \<or> (\<exists>g f. cs_sessions s' = gm_set sid (with_flags g f ss) (cs_sessions s)))"
  using assms
  by (auto simp: handleJLoginSequence_def jlogin_flags_def Session_Update_def Let_def split: prod.splits raw_reply.splits option.splits if_splits) blast

lemma jlogin_effect:
  assumes "gm_get (cs_sessions s) sid = Some ss"
  shows "session_effect uuid s (snd (handleJLoginSequence env cfg sid ss body s))"
  using jlogin_sessions [OF refl assms, of env cfg body] assms by (metis session_effect.keep session_effect.update with_flags_token)

lemma getSession_cases: "getSessionFromCookie r s = Inr (ss, sid) \<Longrightarrow> cq_Cookie r = Some sid \<and> gm_get (cs_sessions s) sid = Some ss"
  by (auto simp: getSessionFromCookie_def Session_Get_def split: option.splits)

lemma login_sessions:
  assumes "snd (LoginProxyHandler env cfg r s) = s'"
  shows "cs_sessions s' = cs_sessions s \<and> cs_made s' = cs_made s \<or>
    (\<exists>ss. cs_sessions s' = gm_set (ce_uuid env (cs_made s)) ss (cs_sessions s) \<and> cs_made s' = Suc (cs_made s) \<and> TrimSpace (ss_UpstreamToken ss) \<noteq> '''')"
  using assms
  by (auto simp: LoginProxyHandler_def Let_def Session_Create_def new_session_def split: sum.splits prod.splits raw_reply.splits option.splits if_splits)

lemma login_effect: "session_effect (ce_uuid env) s (snd (LoginProxyHandler env cfg r s))"
  using login_sessions [OF refl, of env cfg r s] by (metis session_effect.keep session_effect.create)

lemma handle_effect: "session_effect (ce_uuid env) s (snd (ca_handle env cfg op r s))"
proof (cases op)
  case OpProxy
  show ?thesis
  proof (cases "getSessionFromCookie r s")
    case (Inr p)
    then obtain ss sid where p: "getSessionFromCookie r s = Inr (ss, sid)" by (cases p) auto
    from jlogin_effect [OF conjunct2 [OF getSession_cases [OF p]]] show ?thesis
      by (auto simp: OpProxy ca_handle_def GenericProxyHandler_def p Let_def forward_keeps split: sum.splits option.splits if_splits intro: session_effect.keep)
  qed (auto simp: OpProxy ca_handle_def GenericProxyHandler_def intro: session_effect.keep)
next
  case OpLogout
  then show ?thesis
    by (cases "cq_Cookie r") (simp_all add: ca_handle_def LogoutHandler_def Session_Delete_def session_effect.keep session_effect.delete)
next
  case OpLogin
  then show ?thesis by (simp add: ca_handle_def login_effect)
qed (auto simp: ca_handle_def SessionStatusHandler_def SellStraddleHandler_def ManualSquareOffHandler_def Let_def forward_keeps
    split: sum.splits prod.splits option.splits if_splits raw_reply.splits intro!: session_effect.keep)

text \<open>Sessions stay well formed, and an ended session stays ended.\<close>

lemma effect_ok: "session_effect uuid s s' \<Longrightarrow> sessions_ok uuid s \<Longrightarrow> sessions_ok uuid s'"
  by (erule session_effectE) (auto simp: sessions_ok_def gm_get_set gm_get_del less_Suc_eq split: if_splits)

definition ended :: "(nat \<Rightarrow> string) \<Rightarrow> string \<Rightarrow> 'b ca_state \<Rightarrow> bool" where
  "ended uuid sid s \<longleftrightarrow> gm_get (cs_sessions s) sid = None \<and> (\<exists>n < cs_made s. sid = uuid n)"

lemma effect_ended: "session_effect uuid s s' \<Longrightarrow> inj uuid \<Longrightarrow> ended uuid sid s \<Longrightarrow> ended uuid sid s'"
  by (erule session_effectE) (auto simp: ended_def gm_get_set gm_get_del less_Suc_eq dest: injD split: if_splits)

section \<open>What a handler sends\<close>

text \<open>An environment whose network also keeps the list of the calls.\<close>

definition logged_env :: "'b ca_env \<Rightarrow> (raw_call list \<times> 'b) ca_env" where
  "logged_env env = \<lparr>ce_net = (\<lambda>c (l, b). let (r, b) = ce_net env c b in (r, (l @ [c], b))), ce_codec = ce_codec env, ce_first = ce_first env,
     ce_uuid = ce_uuid env, ce_now = (\<lambda>(l, b). ce_now env b), ce_url_ok = ce_url_ok env, ce_parse_error = ce_parse_error env\<rparr>"

text \<open>The token that a request may use: that of the session which it names.\<close>

definition may_send :: "ca_request \<Rightarrow> 'b ca_state \<Rightarrow> raw_call \<Rightarrow> bool" where
  "may_send r s c \<longleftrightarrow> rw_Authorization c = '''' \<or> (\<exists>ss sid. getSessionFromCookie r s = Inr (ss, sid) \<and> rw_Authorization c = ss_UpstreamToken ss)"

definition sends :: "ca_request \<Rightarrow> (raw_call list \<times> 'b) ca_state \<Rightarrow> (raw_call list \<times> 'b) ca_state \<Rightarrow> bool" where
  "sends r s s' \<longleftrightarrow> (\<exists>u. fst (cs_ext s') = fst (cs_ext s) @ u \<and> list_all (may_send r s) u)"

lemma sends_same [simp]: "cs_ext s' = cs_ext s \<Longrightarrow> sends r s s'"
  by (simp add: sends_def)

lemma sends_one: "fst (cs_ext s') = fst (cs_ext s) @ [c] \<Longrightarrow> may_send r s c \<Longrightarrow> sends r s s'"
  by (auto simp: sends_def)

lemma may_send_post [simp]: "may_send r s (post_json url '''' body)"
  by (simp add: may_send_def post_json_def)

lemma logged_simps [simp]: "ce_codec (logged_env env) = ce_codec env" "ce_first (logged_env env) = ce_first env" "ce_url_ok (logged_env env) = ce_url_ok env"
  by (simp_all add: logged_env_def)

lemma logged_net: "ce_net (logged_env env) c (l, b) = (let (r, b) = ce_net env c b in (r, (l @ [c], b)))"
  by (simp add: logged_env_def)

lemma logged_netE: "ce_net (logged_env env) c lb = (x, lb') \<Longrightarrow> fst lb' = fst lb @ [c]"
  by (cases lb) (auto simp: logged_env_def split: prod.splits)

lemma forward_sends: "may_send r s c \<Longrightarrow> sends r s (snd (forward (logged_env env) c s))"
  by (auto simp: forward_def Let_def split: prod.splits raw_reply.splits dest!: logged_netE intro: sends_one)

lemma jlogin_sends:
  assumes "getSessionFromCookie r s = Inr (ss, sid)"
  shows "sends r s (snd (handleJLoginSequence (logged_env env) cfg sid ss body s))"
  using assms
  by (auto simp: handleJLoginSequence_def jlogin_flags_def Session_Update_def Let_def sends_def may_send_def post_json_def
      split: prod.splits raw_reply.splits option.splits if_splits dest!: logged_netE)

lemma handle_sends: "sends r s (snd (ca_handle (logged_env env) cfg op r s))"
proof (cases op)
  case OpProxy
  show ?thesis
  proof (cases "getSessionFromCookie r s")
    case (Inr p)
    then obtain ss sid where p: "getSessionFromCookie r s = Inr (ss, sid)" by (cases p) auto
    have "may_send r s \<lparr>rw_Method = m, rw_URL = u, rw_Authorization = ss_UpstreamToken ss, rw_ContentType = t, rw_Cookie = k, rw_Body = b\<rparr>" for m u t k b
      by (simp add: may_send_def p)
    then show ?thesis
      by (auto simp: OpProxy ca_handle_def GenericProxyHandler_def p Let_def jlogin_sends [OF p] forward_sends split: sum.splits option.splits if_splits)
  qed (simp add: OpProxy ca_handle_def GenericProxyHandler_def)
next
  case OpLogin
  then show ?thesis
    by (auto simp: ca_handle_def LoginProxyHandler_def Let_def Session_Create_def
        split: sum.splits prod.splits raw_reply.splits option.splits if_splits dest!: logged_netE intro!: sends_one)
next
  case OpSquareOff
  then show ?thesis
    by (auto simp: ca_handle_def ManualSquareOffHandler_def Let_def split: prod.splits raw_reply.splits if_splits dest!: logged_netE intro!: sends_one)
qed (auto simp: ca_handle_def SessionStatusHandler_def SellStraddleHandler_def LogoutHandler_def Session_Delete_def Let_def forward_sends
    split: sum.splits prod.splits option.splits if_splits)

section \<open>Runs\<close>

interpretation sessions: server "\<lambda>(op, r). ca_handle env cfg op r" "sessions_ok (ce_uuid env)" for env cfg
  by unfold_locales (auto intro: effect_ok [OF handle_effect])

text \<open>
  Handlers run concurrently. A jlogin reads its session first and writes it back after two calls to the
  broker, so its update can come after handlers that ran in between; besides whole handlers, a run has such
  late updates, of any session.
\<close>

datatype ca_event =
    Handled ca_op ca_request
  | LateUpdate string Session

definition ca_step :: "'b ca_env \<Rightarrow> ca_Config \<Rightarrow> ca_event \<Rightarrow> 'b ca_state \<Rightarrow> ca_response option \<times> 'b ca_state" where
  "ca_step env cfg q s = (case q of
      Handled op r \<Rightarrow> (let (resp, s) = ca_handle env cfg op r s in (Some resp, s))
    | LateUpdate sid ss \<Rightarrow> (None, snd (Session_Update sid ss s)))"

definition ca_run :: "'b ca_env \<Rightarrow> ca_Config \<Rightarrow> ca_event list \<Rightarrow> 'b ca_state \<Rightarrow> 'b ca_state" where
  "ca_run env cfg qs s = foldl (\<lambda>s q. snd (ca_step env cfg q s)) s qs"

lemma update_ended: "ended uuid sid s \<Longrightarrow> ended uuid sid (snd (Session_Update sid' ss s))"
  by (auto simp: ended_def Session_Update_def gm_get_set)

interpretation logout: server "ca_step env cfg" "\<lambda>s. inj (ce_uuid env) \<and> ended (ce_uuid env) sid s" for env cfg sid
  by unfold_locales (auto simp: ca_step_def update_ended case_prod_beta Let_def effect_ended [OF handle_effect] split: ca_event.split)

text \<open>
  C32. A session that was ended is never accepted again: after a logout, whatever requests the service
  handles and whichever jlogin sequences that began before it still write their session back, a request
  with the cookie of the ended session is refused. The identifiers that \<^verbatim>\<open>uuid.NewString\<close> makes are
  distinct.
\<close>

theorem ended_session_is_refused:
  assumes "inj (ce_uuid env)" "sessions_ok (ce_uuid env) s" "getSessionFromCookie r s = Inr (ss, sid)" "cq_Cookie r' = Some sid"
  shows "getSessionFromCookie r' (ca_run env cfg qs (snd (ca_handle env cfg OpLogout r s))) = Inl (GoErr ''authentication required: invalid session'')"
proof -
  have c: "cq_Cookie r = Some sid" "gm_get (cs_sessions s) sid = Some ss" using getSession_cases [OF assms(3)] by simp_all
  then have "ended (ce_uuid env) sid (snd (ca_handle env cfg OpLogout r s))"
    using assms(2) by (auto simp: ended_def sessions_ok_def ca_handle_def LogoutHandler_def Session_Delete_def gm_get_del)
  with logout.run_Inv [of env sid _ cfg qs] assms(1)
  have "ended (ce_uuid env) sid (ca_run env cfg qs (snd (ca_handle env cfg OpLogout r s)))" by (simp add: ca_run_def)
  then show ?thesis using assms(4) by (simp add: getSessionFromCookie_def Session_Get_def ended_def)
qed

text \<open>
  C33. A request acts with the authority of its own session only: every call that a handler makes carries
  no token or the token of the session that the request names. Without a valid session the proxy, the
  status and the straddle handlers answer 401, send nothing and change nothing.
\<close>

theorem requests_use_own_token:
  assumes "ca_handle (logged_env env) cfg op r s = (resp, s')"
  shows "sends r s s' \<and> ((\<exists>e. getSessionFromCookie r s = Inl e) \<and> op \<in> {OpProxy, OpStatus, OpSell} \<longrightarrow> rs_Status resp = 401 \<and> s' = s)"
proof
  show "sends r s s'" using handle_sends [of r s env cfg op] assms by simp
  show "(\<exists>e. getSessionFromCookie r s = Inl e) \<and> op \<in> {OpProxy, OpStatus, OpSell} \<longrightarrow> rs_Status resp = 401 \<and> s' = s"
    using assms by (auto simp: ca_handle_def GenericProxyHandler_def SessionStatusHandler_def SellStraddleHandler_def http_Error_def)
qed

section \<open>Witnesses\<close>

definition demo_uuid :: "nat \<Rightarrow> string" where
  "demo_uuid n = ''S'' @ show_nat n"

definition demo_ca_env :: "unit ca_env" where
  "demo_ca_env = \<lparr>ce_net = (\<lambda>c b. (RawReply 200 [] '''' None, b)), ce_codec = \<lparr>cd_Marshal = (\<lambda>_. ''''), cd_Unmarshal = (\<lambda>_. Some (JObj []))\<rparr>,
     ce_first = (\<lambda>_. Some (JObj [])), ce_uuid = demo_uuid, ce_now = (\<lambda>_. zero_time), ce_url_ok = (\<lambda>_. True), ce_parse_error = (\<lambda>_. GoErr ''invalid'')\<rparr>"

definition demo_ca_state :: "'b \<Rightarrow> 'b ca_state" where
  "demo_ca_state b = \<lparr>cs_sessions = [(''S0'', new_session ''token'' ''user'' ''22'' zero_time)], cs_made = 1, cs_ext = b\<rparr>"

definition demo_ca_request :: "string option \<Rightarrow> ca_request" where
  "demo_ca_request cookie = \<lparr>cq_Method = ''POST'', cq_Path = ''/api-proxy/NewOrderRequest'', cq_RawQuery = '''', cq_ContentType = '''', cq_Cookie = cookie, cq_Body = Inr ''''\<rparr>"

lemma demo_uuid_inj: "inj demo_uuid"
  by (rule injI) (metis demo_uuid_def append_same_eq same_append_eq read_digits_show_nat)

lemma demo_sessions_ok: "sessions_ok demo_uuid (demo_ca_state b)"
proof -
  have "TrimSpace ''token'' \<noteq> ''''" "''S0'' = demo_uuid 0" by code_simp+
  then show ?thesis by (auto simp: sessions_ok_def demo_ca_state_def new_session_def gm_ok_def gm_get_def split: if_splits)
qed

theorem ended_session_is_refused_witness:
  "getSessionFromCookie (demo_ca_request (Some ''S0''))
     (ca_run demo_ca_env (ca_Load (\<lambda>_. ''''))
        [Handled OpLogin (demo_ca_request None), LateUpdate ''S0'' (new_session ''token'' ''user'' ''22'' zero_time), Handled OpProxy (demo_ca_request (Some ''S0''))]
        (snd (ca_handle demo_ca_env (ca_Load (\<lambda>_. '''')) OpLogout (demo_ca_request (Some ''S0'')) (demo_ca_state ())))) = Inl (GoErr ''authentication required: invalid session'')"
proof -
  have e: "ce_uuid demo_ca_env = demo_uuid" by (simp add: demo_ca_env_def)
  have g: "getSessionFromCookie (demo_ca_request (Some ''S0'')) (demo_ca_state ()) = Inr (new_session ''token'' ''user'' ''22'' zero_time, ''S0'')"
    by (simp add: getSessionFromCookie_def demo_ca_request_def Session_Get_def demo_ca_state_def gm_get_def)
  show ?thesis
    by (rule ended_session_is_refused [of demo_ca_env, unfolded e, OF demo_uuid_inj demo_sessions_ok g]) (simp add: demo_ca_request_def)
qed

theorem requests_use_own_token_witness:
  "rs_Status (fst (ca_handle (logged_env demo_ca_env) (ca_Load (\<lambda>_. '''')) OpSell (demo_ca_request None) (demo_ca_state ([], ())))) = 401 \<and>
   snd (ca_handle (logged_env demo_ca_env) (ca_Load (\<lambda>_. '''')) OpSell (demo_ca_request None) (demo_ca_state ([], ()))) = demo_ca_state ([], ())"
proof -
  have "getSessionFromCookie (demo_ca_request None) (demo_ca_state ([], ())) = Inl (GoErr ''authentication required: missing session cookie'')"
    by (simp add: getSessionFromCookie_def demo_ca_request_def)
  then show ?thesis using requests_use_own_token [OF prod.collapse [symmetric]] by blast
qed

end
