(* ===== verification/Platform_Control.thy ===== *)
theory Platform_Control
  imports Trading_Deploy_Proofs Trading_Gateway_Proofs Control_Trade Control_Api_Proofs
begin

text \<open>
  The control API in front of the execution gateway: the outside world of the control API is the gateway's
  state, and its network hands a call to the gateway's server.

  Shown here: a straddle that a logged-in user asks for is deployed by the gateway with exactly the
  normalised fields of the request; a square-off through the control API never reaches the gateway's
  handler; and the client under \<^verbatim>\<open>internal/execution\<close> names most fields in a way that the gateway
  does not read.
\<close>

section \<open>The connection\<close>

definition reply_status :: "reply \<Rightarrow> int" where
  "reply_status a = (case a of Plain n _ \<Rightarrow> int n | Failed n _ \<Rightarrow> int n | FailedTrade n _ _ \<Rightarrow> int n | _ \<Rightarrow> 200)"

definition gateway_request :: "json_codec \<Rightarrow> string \<Rightarrow> string \<Rightarrow> http_request" where
  "gateway_request cd path body = \<lparr>hr_Method = ''POST'', hr_Path = path, hr_Query = [], hr_Body = cd_Unmarshal cd body\<rparr>"

text \<open>
  What the client of the control API gets for an answer of the gateway after \<open>took\<close> nanoseconds. When the
  client's time is up before the answer has come, it has an error or an answer whose body breaks off; a connection
  that the gateway drops is an error.
\<close>

definition delivers :: "ca_Config \<Rightarrow> int \<Rightarrow> reply \<Rightarrow> raw_reply \<Rightarrow> bool" where
  "delivers cfg took a r \<longleftrightarrow>
     (if cg_RequestTimeout cfg \<le> took then (\<exists>e. r = RawFail e True) \<or> (\<exists>hs page err. r = RawReply (reply_status a) hs page (Some err) \<and> (\<forall>m. a \<noteq> Dropped m))
      else (case a of Dropped m \<Rightarrow> r = RawFail (GoErr ''EOF'') False | _ \<Rightarrow> (\<exists>hs page. r = RawReply (reply_status a) hs page None)))"

text \<open>
  A call does not reach the gateway, which is an error, or the gateway serves it. The deployment does not
  look at the request's context: it goes on when the client has given up.
\<close>

definition connected :: "'b world ca_env \<Rightarrow> ca_Config \<Rightarrow> gateway_env \<Rightarrow> 'b service \<Rightarrow> bool" where
  "connected env cfg genv svc \<longleftrightarrow> (\<forall>path body w.
     (\<exists>e timeout. ce_net env (post_json (cg_ExecutionGatewayBaseURL cfg @ path) '''' body) w = (RawFail e timeout, w)) \<or>
     (let (a, w') = serve genv svc (gateway_request (ce_codec env) path body) w in
      \<exists>r took. ce_net env (post_json (cg_ExecutionGatewayBaseURL cfg @ path) '''' body) w = (r, w') \<and> delivers cfg took a r))"

lemma delivered_cases:
  assumes "delivers cfg took a r"
  shows "(\<exists>e timeout. r = RawFail e timeout) \<or> (\<exists>hs page err. r = RawReply (reply_status a) hs page err \<and> (\<forall>m. a \<noteq> Dropped m))"
  using assms by (cases a) (auto simp: delivers_def split: if_splits)

lemma connectedE:
  assumes "connected env cfg genv svc" "serve genv svc (gateway_request (ce_codec env) path body) w = (a, w')"
  obtains (lost) e timeout w'' where "ce_net env (post_json (cg_ExecutionGatewayBaseURL cfg @ path) '''' body) w = (RawFail e timeout, w'')" "w'' = w \<or> w'' = w'"
  | (answered) hs page err where "ce_net env (post_json (cg_ExecutionGatewayBaseURL cfg @ path) '''' body) w = (RawReply (reply_status a) hs page err, w')"
      "\<forall>m. a \<noteq> Dropped m"
proof -
  note c = assms(1) [unfolded connected_def, THEN spec, THEN spec, THEN spec, of path body w, unfolded assms(2) Let_def prod.case]
  show ?thesis using c lost answered delivered_cases by metis
qed

section \<open>Square-off\<close>

lemma squareoff_not_found: "route_of (squareoff_path uid) = RNotFound"
proof -
  have "map_of exact_routes (squareoff_path uid) = None" by (simp add: exact_routes_def squareoff_path_def)
  moreover have "\<not> HasPrefix (squareoff_path uid) p" if "p \<in> {''/api/snapshots/'', ''/api/pnl/'', ''/api/orders/'', ''/api/trade/''}" for p
    using that by (auto simp: HasPrefix_def squareoff_path_def)
  ultimately show ?thesis by (simp add: route_of_def)
qed

text \<open>
  A square-off through the control API is lost. Whatever trade a POST names, the control API forwards it
  to a path that the gateway does not serve: the answer is 404, or 502 when none came, and the gateway's state
  is unchanged.
\<close>

theorem proxied_squareoff_is_not_found:
  assumes "connected env cfg genv svc" "cq_Method r = ''POST''" "3 \<le> length (SplitChar (cq_Path r) (CHR ''/''))" "\<forall>u. ce_url_ok env u"
  shows "rs_Status (fst (ManualSquareOffHandler env cfg r s)) \<in> {404, 502} \<and> snd (ManualSquareOffHandler env cfg r s) = s"
proof -
  define uid where "uid = SplitChar (cq_Path r) (CHR ''/'') ! (length (SplitChar (cq_Path r) (CHR ''/'')) - 2)"
  have g: "serve genv svc (gateway_request (ce_codec env) (squareoff_path uid) body) w = (Plain 404 ''404 page not found'', w)" for body w
    by (simp add: serve_def gateway_request_def squareoff_not_found)
  define body where "body = cd_Marshal (ce_codec env) (squareoff_json uid
    (case cq_Body r of Inl _ \<Rightarrow> '''' | Inr body \<Rightarrow> (case ce_first env body of None \<Rightarrow> '''' | Some j \<Rightarrow> decode_reason j)))"
  note run = ManualSquareOffHandler_def Let_def uid_def [symmetric] body_def [symmetric]
  from assms(1) g [of body "cs_ext s"] show ?thesis
  proof (cases rule: connectedE)
    case (lost e timeout w'')
    then show ?thesis using assms(2-4) by (simp add: run json_reply_def)
  next
    case (answered hs page err)
    then show ?thesis using assms(2-4) by (simp add: run copyResponse_def reply_status_def)
  qed
qed

section \<open>Straddles\<close>

lemma json_field_lower: "json_field m k = map_of (rev (map (\<lambda>e. (ToLower (fst e), snd e)) m)) (ToLower k)"
proof -
  have "map_option snd (find (\<lambda>e. EqualFold (fst e) k) xs) = map_of (map (\<lambda>e. (ToLower (fst e), snd e)) xs) (ToLower k)" for xs :: "(string \<times> json) list"
    by (induction xs) (auto simp: EqualFold_def)
  then show ?thesis by (simp add: json_field_def rev_map)
qed

text \<open>The request that the gateway gets for a normalised request of the user.\<close>

definition deploy_of :: "string \<Rightarrow> sellStraddleRequest \<Rightarrow> DeployStraddleRequest" where
  "deploy_of accountID q = \<lparr>rq_UserID = sl_UserID q, rq_BrokerName = sl_BrokerName q, rq_AccountID = accountID, rq_ExchangeSegment = inferExchangeSegment (sl_Symbol q),
     rq_Symbol = sl_Symbol q, rq_Lots = sl_Lots q, rq_DeltaNeutral = sl_DeltaNeutral q, rq_ProductType = sl_ProductType q, rq_TargetExpiry = sl_TargetExpiry q,
     rq_Strike = 0, rq_CEToken = sl_CEToken q, rq_PEToken = sl_PEToken q, rq_LotSize = sl_LotSize q, rq_CEStrikePrice = sl_CEStrikePrice q,
     rq_PEStrikePrice = sl_PEStrikePrice q, rq_OrderLotsPerCall = 1\<rparr>"

definition sell_ints_ok :: "sellStraddleRequest \<Rightarrow> bool" where
  "sell_ints_ok q \<longleftrightarrow> int64_ok (sl_Lots q) \<and> int64_ok (sl_CEToken q) \<and> int64_ok (sl_PEToken q) \<and> int64_ok (sl_LotSize q) \<and>
     int64_ok (sl_CEStrikePrice q) \<and> int64_ok (sl_PEStrikePrice q)"

lemma lower_deploy_keys:
  "map ToLower [''account_id'', ''broker_name'', ''ce_strike_price'', ''ce_token'', ''delta_neutral'', ''exchange_segment'', ''lot_size'', ''lots'',
     ''order_lots_per_call'', ''pe_strike_price'', ''pe_token'', ''product_type'', ''symbol'', ''target_expiry'', ''user_id'', ''strike''] =
   [''account_id'', ''broker_name'', ''ce_strike_price'', ''ce_token'', ''delta_neutral'', ''exchange_segment'', ''lot_size'', ''lots'',
     ''order_lots_per_call'', ''pe_strike_price'', ''pe_token'', ''product_type'', ''symbol'', ''target_expiry'', ''user_id'', ''strike'']"
  by code_simp

lemma gateway_reads_request:
  assumes "sell_ints_ok q"
  shows "decode_deploy (gateway_req accountID q) = Some (deploy_of accountID q)"
proof -
  have one: "rat_is_int 1" "\<lfloor>1 :: rat\<rfloor> = 1" "int64_ok 1" using rat_is_int_of_int [of 1] by (simp_all add: int64_ok_def)
  show ?thesis
    using assms lower_deploy_keys one
    by (simp add: decode_deploy_def gateway_req_def deploy_of_def top_obj_def fld_str_def fld_int_def fld_bool_def json_field_lower sell_ints_ok_def)
qed

lemma decode_sell_ints: "decode_sell j = Some q \<Longrightarrow> sell_ints_ok q"
proof -
  have i: "fld_int m k = Some n \<Longrightarrow> int64_ok n" for m k n
    by (auto simp: fld_int_def int64_ok_def split: option.splits json.splits if_splits)
  assume "decode_sell j = Some q"
  then show ?thesis by (auto simp: decode_sell_def sell_ints_ok_def split: bind_splits intro: i)
qed

lemma normalised_ints: "sell_ints_ok q \<Longrightarrow> sell_ints_ok (fill_sell ss (trim_sell q))"
  by (simp add: sell_ints_ok_def fill_sell_def trim_sell_def int64_ok_def)

text \<open>What the user is told: a deployment that panics drops the connection.\<close>

definition deploy_status :: "goerr + DeployStraddleResponse \<Rightarrow> int" where
  "deploy_status res = (case res of Inr _ \<Rightarrow> 200 | Inl e \<Rightarrow> (case e of GoPanic _ \<Rightarrow> 503 | _ \<Rightarrow> 400))"

lemma straddle_forwarded:
  assumes "connected env cfg genv svc" "cd_Unmarshal (ce_codec env) (cd_Marshal (ce_codec env) (gateway_req accountID q)) = Some (gateway_req accountID q)"
    and "getSessionFromCookie r s = Inr (ss, sid)" "cq_Body r = Inr body" "ce_first env body = Some j" "decode_sell j = Some q0"
    and "q = fill_sell ss (trim_sell q0)" "sl_Symbol q \<noteq> ''''" "accountID = TrimSpace (ss_GCID ss)" "accountID \<noteq> '''' \<or> sl_BrokerName q \<noteq> ''XTS''"
    and "DeployStraddle svc (deploy_of accountID q) (cs_ext s) = (res, w')"
  shows "\<exists>w''. snd (SellStraddleHandler env cfg r s) = s\<lparr>cs_ext := w''\<rparr> \<and>
    (rs_Status (fst (SellStraddleHandler env cfg r s)) = deploy_status res \<and> w'' = w' \<or>
     rs_Status (fst (SellStraddleHandler env cfg r s)) \<in> {503, 504} \<and> w'' \<in> {cs_ext s, w'})"
proof -
  define req where "req = cd_Marshal (ce_codec env) (gateway_req accountID q)"
  define a where "a = (case res of Inl e \<Rightarrow> fail_with (Failed 400) e | Inr resp \<Rightarrow> DeployReply resp)"
  define n where "n = ce_net env (post_json (cg_ExecutionGatewayBaseURL cfg @ ''/api/trade/straddle'') '''' req) (cs_ext s)"
  have dec: "decode_deploy (gateway_req accountID q) = Some (deploy_of accountID q)"
    by (rule gateway_reads_request) (simp add: assms(7) normalised_ints [OF decode_sell_ints [OF assms(6)]])
  have rt: "route_of ''/api/trade/straddle'' = RDeploy" by code_simp
  have sv: "serve genv svc (gateway_request (ce_codec env) ''/api/trade/straddle'' req) (cs_ext s) = (a, w')"
    using assms(2,11) dec
    by (simp add: serve_def gateway_request_def rt h_DeployStraddle_def deploy_handler_def req_def a_def split: sum.splits)
  have n: "(\<exists>e timeout w''. n = (RawFail e timeout, w'') \<and> w'' \<in> {cs_ext s, w'}) \<or> (\<exists>hs page err. n = (RawReply (deploy_status res) hs page err, w'))"
    using assms(1) sv
  proof (cases rule: connectedE)
    case (answered hs page err)
    then have "deploy_status res = reply_status a"
      by (auto simp: a_def deploy_status_def fail_with_def reply_status_def split: sum.splits goerr.splits)
    then show ?thesis using answered(1) by (auto simp: n_def)
  qed (auto simp: n_def)
  have sym: "sl_Symbol (trim_sell q0) \<noteq> ''''" using assms(7,8) by (simp add: fill_sell_def)
  have acc: "(accountID = '''' \<and> sl_BrokerName q = ''XTS'') = False" using assms(10) by blast
  have h: "SellStraddleHandler env cfg r s = forward env (post_json (cg_ExecutionGatewayBaseURL cfg @ ''/api/trade/straddle'') '''' req) s"
    using assms(3-6) sym acc by (auto simp: SellStraddleHandler_def Let_def assms(7) [symmetric] assms(9) [symmetric] req_def [symmetric])
  have f: "forward env (post_json (cg_ExecutionGatewayBaseURL cfg @ ''/api/trade/straddle'') '''' req) s =
      (case fst n of RawFail e timeout \<Rightarrow> handleProxyError timeout | RawReply status headers body _ \<Rightarrow> copyResponse status headers body, s\<lparr>cs_ext := snd n\<rparr>)"
    by (simp add: forward_def n_def Let_def split: prod.split raw_reply.split)
  show ?thesis unfolding h f using n by (intro exI [of _ "snd n"]) (auto simp: copyResponse_def handleProxyError_def json_reply_def split: if_splits)
qed

text \<open>
  A straddle that a logged-in user asks for is what the gateway deploys. When the request passes the
  checks of the control API, the gateway runs its deployment once, with the normalised fields of the
  request, the account of the session and one lot per order call; the control API answers 200 when it
  succeeds, 400 when it fails and 503 when the gateway panics, and keeps its own sessions. When the gateway's
  answer does not come, or not in time, it answers 503 or 504, and the deployment may have run all the same.
\<close>

theorem user_straddle_is_deployed:
  assumes "connected env cfg genv svc" "cd_Unmarshal (ce_codec env) (cd_Marshal (ce_codec env) (gateway_req accountID q)) = Some (gateway_req accountID q)"
    and "getSessionFromCookie r s = Inr (ss, sid)" "cq_Body r = Inr body" "ce_first env body = Some j" "decode_sell j = Some q0"
    and "q = fill_sell ss (trim_sell q0)" "sl_Symbol q \<noteq> ''''" "accountID = TrimSpace (ss_GCID ss)" "accountID \<noteq> '''' \<or> sl_BrokerName q \<noteq> ''XTS''"
    and "DeployStraddle svc (deploy_of accountID q) (cs_ext s) = (res, w')"
  shows "\<exists>w''. snd (SellStraddleHandler env cfg r s) = s\<lparr>cs_ext := w''\<rparr> \<and>
    (rs_Status (fst (SellStraddleHandler env cfg r s)) = deploy_status res \<and> w'' = w' \<or>
     rs_Status (fst (SellStraddleHandler env cfg r s)) \<in> {503, 504} \<and> w'' \<in> {cs_ext s, w'})"
  by (rule straddle_forwarded [OF assms])

text \<open>
  The client for the gateway under \<^verbatim>\<open>internal/execution\<close> names its fields in another way than the
  gateway: of a request that it sends, the gateway reads the symbol, the lots and the strike only. Broker,
  account, product, expiry, tokens and the strikes of the legs get lost.
\<close>

theorem camel_case_fields_are_lost:
  assumes "int64_ok (xd_Lots q)" "int64_ok (xd_Strike q)"
  shows "decode_deploy (ex_request_json q) = Some \<lparr>rq_UserID = '''', rq_BrokerName = '''', rq_AccountID = '''', rq_ExchangeSegment = '''', rq_Symbol = xd_Symbol q,
     rq_Lots = xd_Lots q, rq_DeltaNeutral = False, rq_ProductType = '''', rq_TargetExpiry = '''', rq_Strike = xd_Strike q, rq_CEToken = 0, rq_PEToken = 0,
     rq_LotSize = 0, rq_CEStrikePrice = 0, rq_PEStrikePrice = 0, rq_OrderLotsPerCall = 0\<rparr>"
proof -
  have k: "map ToLower [''userId'', ''brokerName'', ''accountId'', ''symbol'', ''lots'', ''deltaNeutral'', ''productType'', ''targetExpiry'', ''strike'', ''ceToken'', ''peToken'', ''lotSize'', ''ceStrikePrice'', ''peStrikePrice''] =
      [''userid'', ''brokername'', ''accountid'', ''symbol'', ''lots'', ''deltaneutral'', ''producttype'', ''targetexpiry'', ''strike'', ''cetoken'', ''petoken'', ''lotsize'', ''cestrikeprice'', ''pestrikeprice'']"
    by code_simp
  show ?thesis using assms lower_deploy_keys k
    by (simp add: decode_deploy_def ex_request_json_def top_obj_def fld_str_def fld_int_def fld_bool_def json_field_lower)
qed

section \<open>Witnesses\<close>

definition offline_service :: "unit service" where
  "offline_service = NewService '''' (Some (\<lambda>_ _ _ b. (Inl (GoErr ''no broker''), b))) (\<lambda>s e b. (Inl (GoErr ''no snapshot''), b)) (\<lambda>s e b. (Inl (GoErr ''no lot size''), b))
     (\<lambda>_. day_time) (\<lambda>_. '''')"

definition offline_world :: "unit world" where
  "offline_world = \<lparr>w_store = pg_start, w_ext = (), w_tick = 0\<rparr>"

definition linked_after :: "int \<Rightarrow> 'b service \<Rightarrow> json \<Rightarrow> json \<Rightarrow> 'b world ca_env" where
  "linked_after took svc asked doc = (let cd = \<lparr>cd_Marshal = (\<lambda>_. ''''), cd_Unmarshal = (\<lambda>_. Some doc)\<rparr> in
     \<lparr>ce_net = (\<lambda>c w. let path = drop (length (cg_ExecutionGatewayBaseURL (ca_Load (\<lambda>_. '''')))) (rw_URL c);
          (a, w') = serve sample_env svc (gateway_request cd path (rw_Body c)) w in
          (if cg_RequestTimeout (ca_Load (\<lambda>_. '''')) \<le> took then RawFail (GoErr ''Client.Timeout exceeded while awaiting headers'') True
           else (case a of Dropped m \<Rightarrow> RawFail (GoErr ''EOF'') False | _ \<Rightarrow> RawReply (reply_status a) [] '''' None), w')),
      ce_codec = cd, ce_first = (\<lambda>_. Some asked), ce_uuid = demo_uuid, ce_now = (\<lambda>_. day_time),
      ce_url_ok = (\<lambda>_. True), ce_parse_error = (\<lambda>_. GoErr ''invalid'')\<rparr>)"

definition linked_env :: "'b service \<Rightarrow> json \<Rightarrow> json \<Rightarrow> 'b world ca_env" where
  "linked_env svc asked doc = linked_after 0 svc asked doc"

lemma linked_after_connected: "connected (linked_after took svc asked doc) (ca_Load (\<lambda>_. '''')) sample_env svc"
  unfolding connected_def
proof (intro allI disjI2, goal_cases)
  case (1 path body w)
  obtain a w' where a: "serve sample_env svc (gateway_request (ce_codec (linked_after took svc asked doc)) path body) w = (a, w')" by fastforce
  let ?r = "if cg_RequestTimeout (ca_Load (\<lambda>_. '''')) \<le> took then RawFail (GoErr ''Client.Timeout exceeded while awaiting headers'') True
     else (case a of Dropped m \<Rightarrow> RawFail (GoErr ''EOF'') False | _ \<Rightarrow> RawReply (reply_status a) [] '''' None)"
  have "ce_net (linked_after took svc asked doc) (post_json (cg_ExecutionGatewayBaseURL (ca_Load (\<lambda>_. '''')) @ path) '''' body) w = (?r, w')"
    using a by (simp add: linked_after_def post_json_def Let_def split: prod.splits)
  moreover have "delivers (ca_Load (\<lambda>_. '''')) took a ?r" by (cases a) (simp_all add: delivers_def)
  ultimately show ?case unfolding a Let_def prod.case by blast
qed

lemma linked_connected: "connected (linked_env svc asked doc) (ca_Load (\<lambda>_. '''')) sample_env svc"
  unfolding linked_env_def by (rule linked_after_connected)

theorem proxied_squareoff_is_not_found_witness:
  "rs_Status (fst (ManualSquareOffHandler (linked_env offline_service JNull JNull) (ca_Load (\<lambda>_. '''')) (demo_ca_request (Some ''S0'')) (demo_ca_state offline_world))) \<in> {404, 502}"
proof -
  have "3 \<le> length (SplitChar ''/api-proxy/NewOrderRequest'' (CHR ''/''))" by code_simp
  then show ?thesis
    using proxied_squareoff_is_not_found [OF linked_connected, of "demo_ca_request (Some ''S0'')" offline_service JNull JNull "demo_ca_state offline_world"]
    by (simp add: demo_ca_request_def linked_env_def linked_after_def Let_def)
qed

definition demo_asked :: json where
  "demo_asked = JObj [(''userId'', JStr ''U001''), (''brokerName'', JStr ''SIM''), (''symbol'', JStr ''NIFTY''), (''productType'', JStr ''NRML'')]"

definition demo_session :: Session where
  "demo_session = (new_session ''token'' ''user'' ''22'' zero_time)\<lparr>ss_GCID := ''A1''\<rparr>"

definition demo_trader :: "'b \<Rightarrow> 'b ca_state" where
  "demo_trader w = (demo_ca_state w)\<lparr>cs_sessions := [(''S0'', demo_session)]\<rparr>"

definition demo_sell :: sellStraddleRequest where
  "demo_sell = \<lparr>sl_UserID = ''U001'', sl_BrokerName = ''SIM'', sl_Symbol = ''NIFTY'', sl_Lots = 1, sl_DeltaNeutral = False, sl_ProductType = ''NRML'', sl_TargetExpiry = '''',
     sl_CEStrikePrice = 0, sl_PEStrikePrice = 0, sl_CEToken = 0, sl_PEToken = 0, sl_LotSize = 0, sl_ExecutionMode = ''''\<rparr>"

text \<open>The checks of the control API on this request, and what the gateway gets.\<close>

lemma demo_decoded: "\<exists>q0. decode_sell demo_asked = Some q0 \<and> demo_sell = fill_sell demo_session (trim_sell q0)"
proof -
  have "map_option (\<lambda>q. fill_sell demo_session (trim_sell q)) (decode_sell demo_asked) = Some demo_sell" by code_simp
  then show ?thesis by auto
qed

lemma demo_checks_after:
  "ce_first (linked_after took svc demo_asked doc) '''' = Some demo_asked" "cd_Unmarshal (ce_codec (linked_after took svc demo_asked doc)) x = Some doc"
  by (simp_all add: linked_after_def Let_def)

lemma demo_checks:
  "getSessionFromCookie (demo_ca_request (Some ''S0'')) (demo_trader w) = Inr (demo_session, ''S0'')"
  "cq_Body (demo_ca_request (Some ''S0'')) = Inr ''''" "ce_first (linked_env svc demo_asked doc) '''' = Some demo_asked"
  "cd_Unmarshal (ce_codec (linked_env svc demo_asked doc)) x = Some doc"
  "sl_Symbol demo_sell \<noteq> ''''" "''A1'' \<noteq> '''' \<or> sl_BrokerName demo_sell \<noteq> ''XTS''" "cs_ext (demo_trader w) = w"
  by (simp_all add: getSessionFromCookie_def demo_ca_request_def Session_Get_def demo_trader_def demo_ca_state_def gm_get_def linked_env_def
      demo_checks_after demo_sell_def)

lemma demo_account: "''A1'' = TrimSpace (ss_GCID demo_session)"
  by code_simp

lemma demo_deployed: "deploy_of ''A1'' demo_sell = demo_request"
  by code_simp

lemma demo_forwarded:
  "SellStraddleHandler (linked_after took svc demo_asked (gateway_req ''A1'' demo_sell)) (ca_Load (\<lambda>_. '''')) (demo_ca_request (Some ''S0'')) (demo_trader w) =
   forward (linked_after took svc demo_asked (gateway_req ''A1'' demo_sell)) (post_json (cg_ExecutionGatewayBaseURL (ca_Load (\<lambda>_. '''')) @ ''/api/trade/straddle'') ''''
     (cd_Marshal (ce_codec (linked_after took svc demo_asked (gateway_req ''A1'' demo_sell))) (gateway_req ''A1'' demo_sell))) (demo_trader w)"
proof -
  obtain q0 where q0: "decode_sell demo_asked = Some q0" "demo_sell = fill_sell demo_session (trim_sell q0)" using demo_decoded by blast
  have "sl_Symbol (trim_sell q0) = sl_Symbol demo_sell" unfolding q0(2) by (simp add: fill_sell_def)
  then show ?thesis using demo_checks(5,6)
    by (simp add: SellStraddleHandler_def demo_checks(1,2) demo_checks_after q0(1) q0(2) [symmetric] Let_def demo_account [symmetric])
qed

lemma demo_answer:
  assumes "DeployStraddle svc demo_request w = (Inr resp, w')"
  shows "SellStraddleHandler (linked_after took svc demo_asked (gateway_req ''A1'' demo_sell)) (ca_Load (\<lambda>_. '''')) (demo_ca_request (Some ''S0'')) (demo_trader w) =
    (if 20 * 1000000000 \<le> took then handleProxyError True else copyResponse 200 [] '''', demo_trader w')"
proof -
  have rt: "route_of ''/api/trade/straddle'' = RDeploy" by code_simp
  have "decode_deploy (gateway_req ''A1'' demo_sell) = Some demo_request"
    using gateway_reads_request [of demo_sell "''A1''"] by (simp add: demo_deployed) (simp add: demo_sell_def sell_ints_ok_def int64_ok_def)
  then have "serve sample_env svc \<lparr>hr_Method = ''POST'', hr_Path = ''/api/trade/straddle'', hr_Query = [], hr_Body = Some (gateway_req ''A1'' demo_sell)\<rparr> w = (DeployReply resp, w')"
    using assms by (simp add: serve_def rt h_DeployStraddle_def deploy_handler_def)
  moreover have "cg_RequestTimeout (ca_Load (\<lambda>_. '''')) = 20 * 1000000000" by (simp add: ca_Load_def Let_def)
  ultimately show ?thesis unfolding demo_forwarded
    by (simp add: forward_def linked_after_def Let_def post_json_def gateway_request_def reply_status_def demo_trader_def demo_ca_state_def)
qed

theorem user_straddle_is_deployed_witness:
  "\<exists>w''. snd (SellStraddleHandler (linked_env (logged_service (demo_broker fill_exec)) demo_asked (gateway_req ''A1'' demo_sell)) (ca_Load (\<lambda>_. ''''))
     (demo_ca_request (Some ''S0'')) (demo_trader demo_world)) = (demo_trader demo_world)\<lparr>cs_ext := w''\<rparr>"
proof -
  obtain q0 where q0: "decode_sell demo_asked = Some q0" "demo_sell = fill_sell demo_session (trim_sell q0)" using demo_decoded by blast
  obtain resp w' where d: "DeployStraddle (logged_service (demo_broker fill_exec)) (deploy_of ''A1'' demo_sell) (cs_ext (demo_trader demo_world)) = (Inr resp, w')"
    unfolding demo_deployed demo_checks(7) using demo_success by blast
  from user_straddle_is_deployed [OF linked_connected demo_checks(4,1,2,3) q0 demo_checks(5) demo_account demo_checks(6) d]
  show ?thesis by blast
qed

text \<open>
  A call that takes longer than the client's 20 seconds is answered 504, although the gateway deploys the trade,
  has it filled and watches it.
\<close>

theorem timed_out_straddle_is_active:
  "\<exists>s' uid tr. SellStraddleHandler (linked_after (21 * 1000000000) (logged_service (demo_broker fill_exec)) demo_asked (gateway_req ''A1'' demo_sell)) (ca_Load (\<lambda>_. ''''))
     (demo_ca_request (Some ''S0'')) (demo_trader demo_world) = (handleProxyError True, s') \<and> rs_Status (handleProxyError True) = 504 \<and>
     store_trades (w_store (cs_ext s')) uid = Some tr \<and> tr_Status tr = ''ACTIVE'' \<and> LoadRuntime uid (w_store (cs_ext s')) \<noteq> None"
proof -
  obtain resp w' where d: "DeployStraddle (logged_service (demo_broker fill_exec)) demo_request demo_world = (Inr resp, w')"
    "rp_LotSize resp = 75" "rp_CEToken resp = 101" "rp_PEToken resp = 102" using demo_success by blast
  have "w_log demo_world = []" by (simp add: demo_world_def)
  from deployed_is_filled [OF d(1) this] d obtain tr where "store_trades (w_store w') (rp_TradeUID resp) = Some tr" "tr_Status tr = ''ACTIVE''"
    "LoadRuntime (rp_TradeUID resp) (w_store w') \<noteq> None" by (auto simp: int64_ok_def)
  moreover have "rs_Status (handleProxyError True) = 504" by (simp add: handleProxyError_def json_reply_def)
  ultimately show ?thesis using demo_answer [OF d(1), of "21 * 1000000000"] by (auto simp: demo_checks(7))
qed

theorem camel_case_fields_are_lost_witness:
  "map_option rq_BrokerName (decode_deploy (ex_request_json \<lparr>xd_UserID = ''U'', xd_BrokerName = ''GREEKSOFT'', xd_AccountID = ''A'', xd_Symbol = ''NIFTY'', xd_Lots = 1,
     xd_DeltaNeutral = True, xd_ProductType = ''MIS'', xd_TargetExpiry = '''', xd_Strike = 0, xd_CEToken = 7, xd_PEToken = 8, xd_LotSize = 75, xd_CEStrikePrice = 0,
     xd_PEStrikePrice = 0\<rparr>)) = Some ''''"
  using camel_case_fields_are_lost [of "\<lparr>xd_UserID = ''U'', xd_BrokerName = ''GREEKSOFT'', xd_AccountID = ''A'', xd_Symbol = ''NIFTY'', xd_Lots = 1,
     xd_DeltaNeutral = True, xd_ProductType = ''MIS'', xd_TargetExpiry = '''', xd_Strike = 0, xd_CEToken = 7, xd_PEToken = 8, xd_LotSize = 75, xd_CEStrikePrice = 0,
     xd_PEStrikePrice = 0\<rparr>"] by (simp add: int64_ok_def)

end
