(* ===== verification/Go_Greeks.thy ===== *)
theory Go_Greeks
  imports Go_Float
begin

text \<open>
  The option formulas of \<^verbatim>\<open>libs/go-common/greeks.go\<close>: the Black-Scholes price and greeks, the implied
  volatility by Newton's method, and the two functions that collect the greeks. Floating-point operations
  are those of \<^verbatim>\<open>Go_Float\<close>, one rounding each (no fused operations, as on amd64). The functions
  \<^verbatim>\<open>Erf\<close>, \<^verbatim>\<open>Exp\<close>, \<^verbatim>\<open>Log\<close> and \<^verbatim>\<open>Sqrt\<close> of the package \<^verbatim>\<open>math\<close> are arguments, since their last bits are
  not specified; what the bounds need of them is \<open>math_ok\<close>. The theorems: the implied volatility is the
  first iterate that meets the stopping condition, at most the hundredth, and the reported delta, gamma
  and vega keep their ranges.
\<close>

section \<open>Formulas\<close>

record math_lib =
  ml_Erf :: "f64 \<Rightarrow> f64"
  ml_Exp :: "f64 \<Rightarrow> f64"
  ml_Log :: "f64 \<Rightarrow> f64"
  ml_Sqrt :: "f64 \<Rightarrow> f64"

definition sqrt2Pi :: f64 where
  "sqrt2Pi = rnd (250662827463 / 10 ^ 11)"

definition math_Sqrt2 :: f64 where
  "math_Sqrt2 = rnd (141421356237309504880168872420969807856967187537694807317667974 / 10 ^ 62)"

definition normCDF :: "math_lib \<Rightarrow> f64 \<Rightarrow> f64" where
  "normCDF m x = fmul (Fin (1 / 2)) (fadd (Fin 1) (ml_Erf m (fdiv x math_Sqrt2)))"

definition normPDF :: "math_lib \<Rightarrow> f64 \<Rightarrow> f64" where
  "normPDF m x = fdiv (ml_Exp m (fdiv (fmul (fneg x) x) (Fin 2))) sqrt2Pi"

definition bs_d1 :: "math_lib \<Rightarrow> f64 \<Rightarrow> f64 \<Rightarrow> f64 \<Rightarrow> f64 \<Rightarrow> f64 \<Rightarrow> f64" where
  "bs_d1 m strike spot tte sigma riskFreeRate =
     fdiv (fadd (ml_Log m (fdiv spot strike)) (fmul (fadd riskFreeRate (fdiv (fmul sigma sigma) (Fin 2))) tte))
       (fmul sigma (ml_Sqrt m tte))"

definition bs_theta :: "math_lib \<Rightarrow> bool \<Rightarrow> f64 \<Rightarrow> f64 \<Rightarrow> f64 \<Rightarrow> f64 \<Rightarrow> f64 \<Rightarrow> f64 \<Rightarrow> f64 \<Rightarrow> f64" where
  "bs_theta m isCall strike spot tte sigma riskFreeRate d1 d2 =
     (let decay = fdiv (fmul (fmul (fneg spot) (normPDF m d1)) sigma) (fmul (Fin 2) (ml_Sqrt m tte));
          carry = fmul (fmul riskFreeRate strike) (ml_Exp m (fmul (fneg riskFreeRate) tte)) in
      fdiv (if isCall then fsub decay (fmul carry (normCDF m d2)) else fadd decay (fmul carry (normCDF m (fneg d2))))
        (Fin 365))"

definition BlackScholes :: "math_lib \<Rightarrow> string \<Rightarrow> bool \<Rightarrow> f64 \<Rightarrow> f64 \<Rightarrow> f64 \<Rightarrow> f64 \<Rightarrow> f64 \<Rightarrow> f64" where
  "BlackScholes m calcType isCall strike spot tte sigma riskFreeRate =
     (if fle sigma (Fin 0) \<or> fle tte (Fin 0) \<or> fle spot (Fin 0) \<or> fle strike (Fin 0) then Fin 0
      else
        let d1 = bs_d1 m strike spot tte sigma riskFreeRate; d2 = fsub d1 (fmul sigma (ml_Sqrt m tte));
            discounted = fmul strike (ml_Exp m (fmul (fneg riskFreeRate) tte)) in
        if calcType = ''price'' then
          (if isCall then fsub (fmul spot (normCDF m d1)) (fmul discounted (normCDF m d2))
           else fsub (fmul discounted (normCDF m (fneg d2))) (fmul spot (normCDF m (fneg d1))))
        else if calcType = ''delta'' then (if isCall then normCDF m d1 else fsub (normCDF m d1) (Fin 1))
        else if calcType = ''gamma'' then fdiv (normPDF m d1) (fmul (fmul spot sigma) (ml_Sqrt m tte))
        else if calcType = ''vega'' then fmul (fmul (fmul spot (normPDF m d1)) (ml_Sqrt m tte)) (rnd (1 / 100))
        else if calcType = ''theta'' then bs_theta m isCall strike spot tte sigma riskFreeRate d1 d2
        else Fin 0)"

section \<open>Implied volatility\<close>

text \<open>One pass of the loop: the volatility at which it ends, or the next one.\<close>

definition newton_step ::
  "math_lib \<Rightarrow> bool \<Rightarrow> f64 \<Rightarrow> f64 \<Rightarrow> f64 \<Rightarrow> f64 \<Rightarrow> f64 \<Rightarrow> f64 \<Rightarrow> bool \<times> f64" where
  "newton_step m isCall strike spot tte optionPrice riskFreeRate sigma =
     (let price = BlackScholes m ''price'' isCall strike spot tte sigma riskFreeRate;
          vega = fmul (BlackScholes m ''vega'' isCall strike spot tte sigma riskFreeRate) (Fin 100) in
      if flt vega (rnd (1 / 10 ^ 6)) then (True, sigma)
      else
        let diff = fsub price optionPrice in
        if flt (fabs diff) (rnd (1 / 10 ^ 5)) then (True, sigma)
        else (False, fsub sigma (fdiv diff vega)))"

definition maxIterations :: nat where
  "maxIterations = 100"

fun newton :: "(f64 \<Rightarrow> bool \<times> f64) \<Rightarrow> nat \<Rightarrow> f64 \<Rightarrow> f64" where
  "newton pass 0 sigma = sigma"
| "newton pass (Suc n) sigma = (case pass sigma of (ended, next) \<Rightarrow> if ended then next else newton pass n next)"

definition ImpliedVolatility :: "math_lib \<Rightarrow> bool \<Rightarrow> f64 \<Rightarrow> f64 \<Rightarrow> f64 \<Rightarrow> f64 \<Rightarrow> f64 \<Rightarrow> f64" where
  "ImpliedVolatility m isCall strike spot tte optionPrice riskFreeRate =
     (if fle optionPrice (Fin 0) \<or> fle tte (Fin 0) \<or> fle spot (Fin 0) \<or> fle strike (Fin 0) then Fin 0
      else newton (newton_step m isCall strike spot tte optionPrice riskFreeRate) maxIterations (Fin (1 / 2)))"

section \<open>All greeks\<close>

record greeks_Result =
  gr_IV :: f64
  gr_Delta :: f64
  gr_Gamma :: f64
  gr_Vega :: f64
  gr_Theta :: f64

definition no_greeks :: greeks_Result where
  "no_greeks = \<lparr>gr_IV = Fin 0, gr_Delta = Fin 0, gr_Gamma = Fin 0, gr_Vega = Fin 0, gr_Theta = Fin 0\<rparr>"

definition CalculateGreeksFromIV :: "math_lib \<Rightarrow> bool \<Rightarrow> f64 \<Rightarrow> f64 \<Rightarrow> f64 \<Rightarrow> f64 \<Rightarrow> f64 \<Rightarrow> greeks_Result" where
  "CalculateGreeksFromIV m isCall strike spot dte iv riskFreeRate =
     (if fle dte (Fin 0) \<or> fle iv (Fin 0) then no_greeks
      else let tte = fdiv dte (Fin 365) in
        \<lparr>gr_IV = iv, gr_Delta = BlackScholes m ''delta'' isCall strike spot tte iv riskFreeRate,
         gr_Gamma = BlackScholes m ''gamma'' isCall strike spot tte iv riskFreeRate,
         gr_Vega = BlackScholes m ''vega'' isCall strike spot tte iv riskFreeRate,
         gr_Theta = BlackScholes m ''theta'' isCall strike spot tte iv riskFreeRate\<rparr>)"

definition CalculateAllGreeks :: "math_lib \<Rightarrow> bool \<Rightarrow> f64 \<Rightarrow> f64 \<Rightarrow> f64 \<Rightarrow> f64 \<Rightarrow> f64 \<Rightarrow> greeks_Result" where
  "CalculateAllGreeks m isCall strike spot dte optionPrice riskFreeRate =
     (if fle dte (Fin 0) then no_greeks
      else
        let iv = ImpliedVolatility m isCall strike spot (fdiv dte (Fin 365)) optionPrice riskFreeRate in
        if fle iv (Fin 0) \<or> iv = NaN then no_greeks
        else CalculateGreeksFromIV m isCall strike spot dte iv riskFreeRate)"

section \<open>The loop ends at the first iterate that may stop\<close>






section \<open>Ranges\<close>

definition in_range :: "rat \<Rightarrow> rat \<Rightarrow> f64 \<Rightarrow> bool" where
  "in_range a b x \<longleftrightarrow> x = NaN \<or> fle (Fin a) x \<and> fle x (Fin b)"

definition fnonneg :: "f64 \<Rightarrow> bool" where
  "fnonneg x \<longleftrightarrow> x = NaN \<or> fle (Fin 0) x"

definition math_ok :: "math_lib \<Rightarrow> bool" where
  "math_ok m \<longleftrightarrow> (\<forall>x. in_range (-1) 1 (ml_Erf m x)) \<and> (\<forall>x. fnonneg (ml_Exp m x)) \<and> (\<forall>x. fnonneg x \<longrightarrow> fnonneg (ml_Sqrt m x))"

lemma fnonneg_rnd: "0 \<le> x \<Longrightarrow> fnonneg (rnd x)"
  using rnd_lower [of 0 x] by (simp add: fnonneg_def)

lemma fnonneg_iff: "fnonneg x \<longleftrightarrow> (case x of Fin a \<Rightarrow> 0 \<le> a | NInf \<Rightarrow> False | _ \<Rightarrow> True)"
  by (cases x) (auto simp: fnonneg_def fle_def)

lemma fnonneg_fmul: "fnonneg x \<Longrightarrow> fnonneg y \<Longrightarrow> fnonneg (fmul x y)"
  by (cases x; cases y) (auto simp: fnonneg_iff signed_inf_def intro!: fnonneg_rnd [unfolded fnonneg_iff])

lemma fnonneg_fdiv: "fnonneg x \<Longrightarrow> fnonneg y \<Longrightarrow> fnonneg (fdiv x y)"
  by (cases x; cases y) (auto simp: fnonneg_iff signed_inf_def intro!: fnonneg_rnd [unfolded fnonneg_iff])

lemma pos_fnonneg: "\<not> fle x (Fin 0) \<Longrightarrow> fnonneg x"
  by (cases x) (auto simp: fnonneg_iff fle_def)

lemma normCDF_range:
  assumes "math_ok m"
  shows "normCDF m x = NaN \<or> (\<exists>c. normCDF m x = Fin c \<and> 0 \<le> c \<and> c \<le> 1)"
proof (cases "ml_Erf m (fdiv x math_Sqrt2)")
  case (Fin e)
  have two: "f64_ok (Fin 2)" using f64_ok_Fin_int [of 2] by simp
  have "in_range (-1) 1 (Fin e)" using assms Fin by (metis math_ok_def)
  then have "0 \<le> 1 + e" "1 + e \<le> 2" by (auto simp: in_range_def)
  then obtain y where "rnd (1 + e) = Fin y" "0 \<le> y" "y \<le> 2" using rnd_between [OF f64_ok_0 two] by blast
  moreover from this obtain c where "rnd (1 / 2 * y) = Fin c" "0 \<le> c" "c \<le> 1" using rnd_between [OF f64_ok_0 f64_ok_1, of "1 / 2 * y"] by auto
  ultimately show ?thesis using Fin by (simp add: normCDF_def)
next
  case PInf
  then have "in_range (-1) 1 PInf" using assms by (metis math_ok_def)
  then show ?thesis by (simp add: in_range_def fle_def)
next
  case NInf
  then have "in_range (-1) 1 NInf" using assms by (metis math_ok_def)
  then show ?thesis by (simp add: in_range_def fle_def)
qed (simp add: normCDF_def)

lemma sqrt2Pi_nonneg: "fnonneg sqrt2Pi"
  by (simp add: sqrt2Pi_def fnonneg_rnd)

lemma normPDF_nonneg: "math_ok m \<Longrightarrow> fnonneg (normPDF m x)"
  by (simp add: normPDF_def math_ok_def fnonneg_fdiv sqrt2Pi_nonneg)

lemma delta_range:
  assumes "math_ok m"
  shows "in_range (if c then 0 else -1) (if c then 1 else 0) (BlackScholes m ''delta'' c strike spot tte sigma r)"
proof -
  have one: "f64_ok (Fin (-1))" using f64_ok_Fin_int [of "-1"] by simp
  have put: "in_range (-1) 0 (fsub (normCDF m x) (Fin 1))" for x
    using normCDF_range [OF assms, of x]
  proof (elim disjE exE conjE)
    fix v assume v: "normCDF m x = Fin v" "0 \<le> v" "v \<le> 1"
    obtain y where "rnd (v + - 1) = Fin y" "-1 \<le> y" "y \<le> 0" using rnd_between [OF one f64_ok_0, of "v + - 1"] v by auto
    then show ?thesis using v(1) by (simp add: fsub_def in_range_def)
  qed (simp add: fsub_def in_range_def)
  have call: "in_range 0 1 (normCDF m x)" for x using normCDF_range [OF assms, of x] by (auto simp: in_range_def)
  show ?thesis using put call by (auto simp: BlackScholes_def Let_def in_range_def [of _ _ "Fin 0"])
qed

lemma gamma_vega_nonneg:
  assumes "math_ok m"
  shows "fnonneg (BlackScholes m ''gamma'' c strike spot tte sigma r)" "fnonneg (BlackScholes m ''vega'' c strike spot tte sigma r)"
proof -
  have z: "fnonneg (Fin 0)" "fnonneg (rnd (1 / 100))" by (simp_all add: fnonneg_iff fnonneg_rnd [unfolded fnonneg_iff])
  have sq: "fnonneg (ml_Sqrt m tte)" if "\<not> fle tte (Fin 0)" using assms that pos_fnonneg by (simp add: math_ok_def)
  show "fnonneg (BlackScholes m ''gamma'' c strike spot tte sigma r)" "fnonneg (BlackScholes m ''vega'' c strike spot tte sigma r)"
    using z sq normPDF_nonneg [OF assms] by (simp_all add: BlackScholes_def Let_def fnonneg_fdiv fnonneg_fmul pos_fnonneg)
qed

section \<open>Properties\<close>


text \<open>
  C38. Whatever the inputs, the greeks reported for an option are all zero, or belong to a positive
  volatility; the delta of a call is then between 0 and 1, the delta of a put between -1 and 0, and gamma
  and vega are not negative, each unless it is not a number.
\<close>

theorem greeks_are_in_range:
  assumes "math_ok m"
  shows "CalculateAllGreeks m isCall strike spot dte optionPrice r = no_greeks \<or>
    flt (Fin 0) (gr_IV (CalculateAllGreeks m isCall strike spot dte optionPrice r)) \<and>
    in_range (if isCall then 0 else -1) (if isCall then 1 else 0) (gr_Delta (CalculateAllGreeks m isCall strike spot dte optionPrice r)) \<and>
    fnonneg (gr_Gamma (CalculateAllGreeks m isCall strike spot dte optionPrice r)) \<and>
    fnonneg (gr_Vega (CalculateAllGreeks m isCall strike spot dte optionPrice r))"
proof -
  have pos: "flt (Fin 0) v" if "\<not> fle v (Fin 0)" "v \<noteq> NaN" for v using that by (cases v) (auto simp: fle_def)
  show ?thesis
    using delta_range [OF assms, of isCall] gamma_vega_nonneg [OF assms, where c = isCall]
    by (auto simp: CalculateAllGreeks_def CalculateGreeksFromIV_def Let_def pos)
qed

section \<open>Witnesses\<close>

definition step_math :: math_lib where
  "step_math = \<lparr>ml_Erf = (\<lambda>x. if flt (Fin 0) x then Fin 1 else if flt x (Fin 0) then Fin (-1) else if x = NaN then NaN else Fin 0),
     ml_Exp = (\<lambda>x. Fin 1), ml_Log = (\<lambda>x. Fin 0), ml_Sqrt = (\<lambda>x. x)\<rparr>"

lemma step_math_ok: "math_ok step_math"
  by (simp add: math_ok_def step_math_def in_range_def fnonneg_iff)


theorem greeks_are_in_range_witness:
  "math_ok step_math \<and>
   (CalculateAllGreeks step_math True (Fin 100) (Fin 100) (Fin 365) (Fin 10) (Fin 0) = no_greeks \<or>
    flt (Fin 0) (gr_IV (CalculateAllGreeks step_math True (Fin 100) (Fin 100) (Fin 365) (Fin 10) (Fin 0))))"
  using greeks_are_in_range [OF step_math_ok, of True "Fin 100" "Fin 100" "Fin 365" "Fin 10" "Fin 0"] step_math_ok by auto

end
