(* ===== verification/Keyed_Table.thy ===== *)
theory Keyed_Table
  imports Main
begin

text \<open>
  The interface of a component that keeps one value per key: what a lookup gives after a write and after a
  removal. From the two laws the locale derives that a run of writes and removals implements the run on a
  partial map. The session manager and the order router interpret it.
\<close>

datatype ('k, 'v) table_op =
    TPut 'k 'v
  | TDel 'k

fun map_op :: "('k, 'v) table_op \<Rightarrow> ('k \<rightharpoonup> 'v) \<Rightarrow> ('k \<rightharpoonup> 'v)" where
  "map_op (TPut k v) f = f(k \<mapsto> v)"
| "map_op (TDel k) f = f(k := None)"

fun op_key :: "('k, 'v) table_op \<Rightarrow> 'k" where
  "op_key (TPut k v) = k"
| "op_key (TDel k) = k"

lemma map_op_other: "op_key p \<noteq> k \<Longrightarrow> map_op p f k = f k"
  by (cases p) auto

lemma map_ops_other: "(\<And>p. p \<in> set ps \<Longrightarrow> op_key p \<noteq> k) \<Longrightarrow> fold map_op ps f k = f k"
  by (induction ps arbitrary: f) (simp_all add: map_op_other)

locale keyed_table =
  fixes get :: "'s \<Rightarrow> 'k \<Rightarrow> 'v option"
    and put :: "'k \<Rightarrow> 'v \<Rightarrow> 's \<Rightarrow> 's"
    and del :: "'k \<Rightarrow> 's \<Rightarrow> 's"
  assumes get_put: "get (put k v s) k' = (if k' = k then Some v else get s k')"
    and get_del: "get (del k s) k' = (if k' = k then None else get s k')"
begin

definition apply_op :: "('k, 'v) table_op \<Rightarrow> 's \<Rightarrow> 's" where
  "apply_op p s = (case p of TPut k v \<Rightarrow> put k v s | TDel k \<Rightarrow> del k s)"

lemma get_apply_op: "get (apply_op p s) = map_op p (get s)"
  by (cases p) (auto simp: apply_op_def get_put get_del)

lemma get_run: "get (fold apply_op ps s) = fold map_op ps (get s)"
  by (induction ps arbitrary: s) (simp_all add: get_apply_op)

text \<open>The last write of a key is what is found, whatever happens to other keys after it.\<close>

lemma get_last_put:
  assumes "\<And>p. p \<in> set qs \<Longrightarrow> op_key p \<noteq> k"
  shows "get (fold apply_op (ps @ TPut k v # qs) s) k = Some v"
  using map_ops_other [of qs k, OF assms] by (simp add: get_run get_apply_op)

lemma get_last_del:
  assumes "\<And>p. p \<in> set qs \<Longrightarrow> op_key p \<noteq> k"
  shows "get (fold apply_op (ps @ TDel k # qs) s) k = None"
  using map_ops_other [of qs k, OF assms] by (simp add: get_run get_apply_op)

end

end
