(* ===== verification/Session_Manager.thy ===== *)
theory Session_Manager
  imports Trading_Xts Server Keyed_Table
begin

text \<open>
  The broker registry (\<^verbatim>\<open>libs/broker-registry\<close>), the session manager on top of it
  (\<^verbatim>\<open>services/session-manager/internal/manager\<close>), its gRPC answer
  (\<^verbatim>\<open>internal/server/grpc.go\<close>) and the order router of the gateway
  (\<^verbatim>\<open>execution-gateway/internal/router\<close>). A broker client is the interface of
  \<^verbatim>\<open>libs/go-broker/interface.go\<close> over an outside world; factories and clients are arbitrary.
  Errors that quote a name are constructors of their own.
\<close>

section \<open>Interfaces\<close>

record broker_Config =
  bc_BrokerName :: string
  bc_BaseURL :: string
  bc_AppKey :: string
  bc_SecretKey :: string
  bc_Source :: string

record 'b broker_Client =
  cl_PerformFullLogin :: "AccountConfig \<Rightarrow> 'b \<Rightarrow> (goerr + SessionDetails) \<times> 'b"
  cl_PlaceOrder :: "broker_OrderIntent \<Rightarrow> 'b \<Rightarrow> (goerr + OrderResponse) \<times> 'b"
  cl_CancelOrder :: "string \<Rightarrow> (string, bs_value) gomap \<Rightarrow> 'b \<Rightarrow> goerr option \<times> 'b"
  cl_GetOrderBook :: "'b \<Rightarrow> (goerr + json) \<times> 'b"

type_synonym 'b Factory = "broker_Config \<Rightarrow> 'b \<Rightarrow> (goerr + 'b broker_Client) \<times> 'b"

datatype platform_error =
    FactoryNil
  | FactoryRegistered string
  | UnsupportedBroker string
  | BrokerNotRegistered string
  | NoPrimaryBroker
  | PrimaryNotFound string
  | ClientNil
  | ConfigNil
  | MissingBaseURL
  | XtsNeedsKey
  | XtsNeedsSecret
  | UnsupportedType string
  | BrokerError goerr
  | CreateFailed platform_error
  | LoginFailed string goerr
  | IntentNil
  | NoActiveClient string

section \<open>libs/broker-registry\<close>

record BrokerConfig =
  cfg_BrokerType :: string
  cfg_Name :: string
  cfg_BaseURL :: string
  cfg_APIKey :: string
  cfg_APISecret :: string
  cfg_ClientID :: string
  cfg_Source :: string
  cfg_BrokerID :: int
  cfg_PanDob :: string
  cfg_Timeout :: int

text \<open>\<^verbatim>\<open>os.LookupEnv\<close> gives a value or nothing.\<close>

definition env_field :: "(string \<Rightarrow> string option) \<Rightarrow> string \<Rightarrow> string" where
  "env_field lookup key = (case lookup key of Some v \<Rightarrow> v | None \<Rightarrow> '''')"

definition LoadConfigFromEnv :: "(string \<Rightarrow> string option) \<Rightarrow> string \<Rightarrow> BrokerConfig" where
  "LoadConfigFromEnv lookup brokerName =
     (let prefix = ''BROKER_'' @ brokerName @ ''_'' in
      \<lparr>cfg_BrokerType = env_field lookup (prefix @ ''BROKER_TYPE''), cfg_Name = brokerName,
       cfg_BaseURL = env_field lookup (prefix @ ''BASE_URL''), cfg_APIKey = env_field lookup (prefix @ ''API_KEY''),
       cfg_APISecret = env_field lookup (prefix @ ''API_SECRET''), cfg_ClientID = env_field lookup (prefix @ ''CLIENT_ID''),
       cfg_Source = env_field lookup (prefix @ ''SOURCE''), cfg_BrokerID = 0, cfg_PanDob = '''', cfg_Timeout = 0\<rparr>)"

text \<open>The concrete clients that the factory builds; the XTS one reads the environment, not the configuration.\<close>

datatype built_client =
    BuiltXts xts_Client
  | BuiltGreeksoft greek_Client

definition factory_CreateClient :: "(string \<Rightarrow> string) \<Rightarrow> BrokerConfig option \<Rightarrow> platform_error + built_client" where
  "factory_CreateClient getenv ocfg = (case ocfg of
      None \<Rightarrow> Inl ConfigNil
    | Some cfg \<Rightarrow>
        let brokerType = ToLower (TrimSpace (cfg_BrokerType cfg)) in
        if cfg_BaseURL cfg = '''' then Inl MissingBaseURL
        else if brokerType \<in> {''xts'', ''symphony xts''} then
          (if cfg_APIKey cfg = '''' then Inl XtsNeedsKey
           else if cfg_APISecret cfg = '''' then Inl XtsNeedsSecret
           else Inr (BuiltXts (xts_NewClient getenv)))
        else if brokerType = ''greeksoft'' then Inr (BuiltGreeksoft (NewClient (cfg_BaseURL cfg) (cfg_BaseURL cfg)))
        else Inl (UnsupportedType (cfg_BrokerType cfg)))"

record 'b Registry =
  rg_factories :: "(string, 'b Factory) gomap"
  rg_clients :: "(string, 'b broker_Client) gomap"
  rg_configs :: "(string, BrokerConfig) gomap"
  rg_primary :: string

definition registry_New :: "'b Registry" where
  "registry_New = \<lparr>rg_factories = [], rg_clients = [], rg_configs = [], rg_primary = ''''\<rparr>"

text \<open>\<^verbatim>\<open>Register\<close> panics on a nil factory and on a name that is taken.\<close>

definition registry_Register :: "string \<Rightarrow> 'b Factory option \<Rightarrow> 'b Registry \<Rightarrow> platform_error + 'b Registry" where
  "registry_Register name factory r = (case factory of
      None \<Rightarrow> Inl FactoryNil
    | Some f \<Rightarrow> if gm_get (rg_factories r) name \<noteq> None then Inl (FactoryRegistered name)
        else Inr (r\<lparr>rg_factories := gm_set name f (rg_factories r)\<rparr>))"

definition registry_CreateClient :: "'b Registry \<Rightarrow> string \<Rightarrow> broker_Config \<Rightarrow> 'b \<Rightarrow> (platform_error + 'b broker_Client) \<times> 'b" where
  "registry_CreateClient r name config b = (case gm_get (rg_factories r) name of
      None \<Rightarrow> (Inl (UnsupportedBroker name), b)
    | Some factory \<Rightarrow> let (x, b) = factory config b in (case x of Inl e \<Rightarrow> (Inl (BrokerError e), b) | Inr c \<Rightarrow> (Inr c, b)))"

definition SetPrimaryBroker :: "string \<Rightarrow> 'b Registry \<Rightarrow> platform_error option \<times> 'b Registry" where
  "SetPrimaryBroker name r =
     (if gm_get (rg_clients r) name = None then (Some (BrokerNotRegistered name), r) else (None, r\<lparr>rg_primary := name\<rparr>))"

definition GetPrimaryBroker :: "'b Registry \<Rightarrow> platform_error + 'b broker_Client" where
  "GetPrimaryBroker r =
     (if rg_primary r = '''' then Inl NoPrimaryBroker
      else case gm_get (rg_clients r) (rg_primary r) of None \<Rightarrow> Inl (PrimaryNotFound (rg_primary r)) | Some c \<Rightarrow> Inr c)"

definition StoreClient :: "string \<Rightarrow> 'b broker_Client option \<Rightarrow> 'b Registry \<Rightarrow> platform_error option \<times> 'b Registry" where
  "StoreClient name client r = (case client of
      None \<Rightarrow> (Some ClientNil, r)
    | Some c \<Rightarrow> (None, r\<lparr>rg_clients := gm_set name c (rg_clients r), rg_primary := (if rg_primary r = '''' then name else rg_primary r)\<rparr>))"

text \<open>Go ranges over a map in any order.\<close>

definition ListBrokers :: "(string list \<Rightarrow> string list) \<Rightarrow> 'b Registry \<Rightarrow> string list" where
  "ListBrokers ord r = ord (map fst (rg_factories r))"

section \<open>services/session-manager\<close>

record 'b Manager =
  sm_sessions :: "(string, SessionDetails) gomap"
  sm_registry :: "'b Registry"

definition manager_New :: "'b Registry \<Rightarrow> 'b Manager" where
  "manager_New reg = \<lparr>sm_sessions = [], sm_registry = reg\<rparr>"

definition manager_store :: "string \<Rightarrow> SessionDetails \<Rightarrow> 'b Manager \<Rightarrow> 'b Manager" where
  "manager_store clientID session m = m\<lparr>sm_sessions := gm_set clientID session (sm_sessions m)\<rparr>"

definition manager_Login ::
  "string \<Rightarrow> broker_Config \<Rightarrow> AccountConfig \<Rightarrow> 'b Manager \<Rightarrow> 'b \<Rightarrow> (platform_error + SessionDetails) \<times> 'b Manager \<times> 'b" where
  "manager_Login brokerName cfg accCfg m b =
     (let (x, b) = registry_CreateClient (sm_registry m) brokerName cfg b in
      case x of
        Inl e \<Rightarrow> (Inl (CreateFailed e), m, b)
      | Inr client \<Rightarrow>
          let (y, b) = cl_PerformFullLogin client accCfg b in
          (case y of
             Inl e \<Rightarrow> (Inl (LoginFailed brokerName e), m, b)
           | Inr session \<Rightarrow> (Inr session, manager_store (ac_ClientID accCfg) session m, b)))"

definition manager_GetSession :: "'b Manager \<Rightarrow> string \<Rightarrow> SessionDetails option" where
  "manager_GetSession m clientID = gm_get (sm_sessions m) clientID"

definition manager_RemoveSession :: "string \<Rightarrow> 'b Manager \<Rightarrow> 'b Manager" where
  "manager_RemoveSession clientID m = m\<lparr>sm_sessions := gm_del clientID (sm_sessions m)\<rparr>"

text \<open>
  The gRPC answer. The lookup is an argument: the type \<^verbatim>\<open>manager.SessionManager\<close> that the server holds is
  in no file. It gives an error text or the session, which may be nil.
\<close>

record GetSessionResponse =
  gs_SessionToken :: string
  gs_UserId :: string
  gs_Gcid :: string
  gs_SessionId :: string
  gs_IrisUrl :: string
  gs_ApolloUrl :: string
  gs_Error :: string

definition session_refused :: "string \<Rightarrow> GetSessionResponse" where
  "session_refused e = \<lparr>gs_SessionToken = '''', gs_UserId = '''', gs_Gcid = '''', gs_SessionId = '''', gs_IrisUrl = '''', gs_ApolloUrl = '''', gs_Error = e\<rparr>"

definition bs_getString :: "SessionDetails \<Rightarrow> string \<Rightarrow> string" where
  "bs_getString s key = (case sd_BrokerSpecific s of None \<Rightarrow> ''''
     | Some m \<Rightarrow> (case gm_get m key of Some v \<Rightarrow> (case v of BsStr t \<Rightarrow> t | BsInt n \<Rightarrow> '''') | None \<Rightarrow> ''''))"

definition grpc_GetSession :: "(string \<Rightarrow> string + SessionDetails option) \<Rightarrow> string \<Rightarrow> GetSessionResponse" where
  "grpc_GetSession lookup sessionName =
     (if sessionName = '''' then session_refused ''session name is required''
      else case lookup sessionName of
        Inl e \<Rightarrow> session_refused e
      | Inr None \<Rightarrow> session_refused (''session '' @ [CHR 0x27] @ sessionName @ [CHR 0x27] @ '' is not yet authenticated'')
      | Inr (Some s) \<Rightarrow>
          if \<not> sd_IsLoggedIn s then session_refused (''session '' @ [CHR 0x27] @ sessionName @ [CHR 0x27] @ '' is not yet authenticated'')
          else \<lparr>gs_SessionToken = sd_AuthToken s, gs_UserId = sd_UserID s, gs_Gcid = bs_getString s ''gcid'',
                gs_SessionId = bs_getString s ''session_id'', gs_IrisUrl = bs_getString s ''iris_url'',
                gs_ApolloUrl = bs_getString s ''apollo_url'', gs_Error = ''''\<rparr>)"

section \<open>execution-gateway/internal/router\<close>







section \<open>Runs of the three components\<close>

interpretation logins: keyed_table manager_GetSession manager_store manager_RemoveSession
  by unfold_locales (simp_all add: manager_GetSession_def manager_store_def manager_RemoveSession_def gm_get_set gm_get_del)


text \<open>The requests of the session manager, their answers, and what an answered request does to the sessions.\<close>

datatype sm_request =
    SmLogin string broker_Config AccountConfig
  | SmRemove string

type_synonym sm_answer = "(platform_error + SessionDetails) option"

definition sm_step :: "sm_request \<Rightarrow> 'b Manager \<times> 'b \<Rightarrow> sm_answer \<times> 'b Manager \<times> 'b" where
  "sm_step q s = (case q of
      SmLogin brokerName cfg acc \<Rightarrow> (let (x, m, b) = manager_Login brokerName cfg acc (fst s) (snd s) in (Some x, m, b))
    | SmRemove clientID \<Rightarrow> (None, manager_RemoveSession clientID (fst s), snd s))"

fun sm_run :: "sm_request list \<Rightarrow> 'b Manager \<times> 'b \<Rightarrow> sm_answer list \<times> 'b Manager \<times> 'b" where
  "sm_run [] s = ([], s)"
| "sm_run (q # qs) s = (let (a, s') = sm_step q s; (as, s'') = sm_run qs s' in (a # as, s''))"

fun session_ops :: "sm_request list \<Rightarrow> sm_answer list \<Rightarrow> (string, SessionDetails) table_op list" where
  "session_ops (SmLogin brokerName cfg acc # qs) (Some (Inr session) # as) = TPut (ac_ClientID acc) session # session_ops qs as"
| "session_ops (SmRemove clientID # qs) (a # as) = TDel clientID # session_ops qs as"
| "session_ops (q # qs) (a # as) = session_ops qs as"
| "session_ops _ _ = []"

lemma session_ops_Cons:
  assumes "sm_step q s = (a, m', b')"
  shows "session_ops (q # qs) (a # as) = session_ops [q] [a] @ session_ops qs as"
    and "manager_GetSession m' = fold map_op (session_ops [q] [a]) (manager_GetSession (fst s))"
  using assms by (auto simp: sm_step_def manager_Login_def fun_eq_iff logins.get_put logins.get_del
      split: sm_request.splits prod.splits sum.splits)




text \<open>The operations of the registry as a server, with the invariant of its primary broker.\<close>

datatype 'b registry_op =
    RgRegister string "'b Factory option"
  | RgSetPrimary string
  | RgStore string "'b broker_Client option"

definition registry_step :: "'b registry_op \<Rightarrow> 'b Registry \<Rightarrow> platform_error option \<times> 'b Registry" where
  "registry_step q r = (case q of
      RgRegister name factory \<Rightarrow> (case registry_Register name factory r of Inl e \<Rightarrow> (Some e, r) | Inr r' \<Rightarrow> (None, r'))
    | RgSetPrimary name \<Rightarrow> SetPrimaryBroker name r
    | RgStore name client \<Rightarrow> StoreClient name client r)"

definition primary_ok :: "'b Registry \<Rightarrow> bool" where
  "primary_ok r \<longleftrightarrow> (if rg_primary r = '''' then gm_get (rg_clients r) '''' \<noteq> None \<or> (\<forall>k. gm_get (rg_clients r) k = None)
     else gm_get (rg_clients r) (rg_primary r) \<noteq> None)"

lemma registry_step_ok: "primary_ok r \<Longrightarrow> primary_ok (snd (registry_step q r))"
  by (auto simp: primary_ok_def registry_step_def registry_Register_def SetPrimaryBroker_def StoreClient_def gm_get_set
      split: registry_op.splits option.splits if_splits sum.splits)

interpretation primaries: server registry_step primary_ok
  by unfold_locales (rule registry_step_ok)

definition registry_run :: "'b registry_op list \<Rightarrow> 'b Registry" where
  "registry_run qs = foldl (\<lambda>r q. snd (registry_step q r)) registry_New qs"

lemma registry_run_ok: "primary_ok (registry_run qs)"
  unfolding registry_run_def by (rule primaries.run_Inv) (simp add: primary_ok_def registry_New_def)

lemma registry_step_clients:
  "gm_get (rg_clients (snd (registry_step q r))) k \<noteq> None \<longleftrightarrow> gm_get (rg_clients r) k \<noteq> None \<or> (\<exists>c. q = RgStore k (Some c))"
  by (auto simp: registry_step_def registry_Register_def SetPrimaryBroker_def StoreClient_def gm_get_set
      split: registry_op.splits option.splits if_splits sum.splits)

lemma registry_run_clients: "gm_get (rg_clients (registry_run qs)) k \<noteq> None \<longleftrightarrow> (\<exists>c. RgStore k (Some c) \<in> set qs)"
proof (induction qs rule: rev_induct)
  case (snoc q qs)
  have "registry_run (qs @ [q]) = snd (registry_step q (registry_run qs))" by (simp add: registry_run_def)
  then show ?case using snoc registry_step_clients [of q "registry_run qs" k] by auto
qed (simp add: registry_run_def registry_New_def)

section \<open>Properties\<close>

text \<open>
  C35. Whatever logins and removals the session manager serves, against whatever brokers, the sessions it
  gives out are those of a partial map in which every successful login writes the session it answered and
  every removal deletes; a login that fails, at the broker or because there is none, changes nothing.
\<close>

theorem sessions_follow_logins:
  "manager_GetSession (fst (snd (sm_run qs (m, b)))) =
     fold map_op (session_ops qs (fst (sm_run qs (m, b)))) (manager_GetSession m)"
proof (induction qs arbitrary: m b)
  case (Cons q qs)
  obtain a m' b' where st: "sm_step q (m, b) = (a, m', b')" using prod_cases3 by blast
  obtain as m2 b2 where run: "sm_run qs (m', b') = (as, m2, b2)" using prod_cases3 by blast
  have "fst (sm_run (q # qs) (m, b)) = a # as" "fst (snd (sm_run (q # qs) (m, b))) = m2" by (simp_all add: st run)
  moreover have "manager_GetSession m2 = fold map_op (session_ops qs as) (manager_GetSession m')"
    using Cons.IH [of m' b'] by (simp add: run)
  ultimately show ?case
    unfolding session_ops_Cons(2) [OF st] fst_conv by (simp only: session_ops_Cons(1) [OF st, of qs as] fold_append comp_apply)
qed simp


text \<open>
  After any sequence of registrations, stored clients and choices of a primary broker, the registry
  never names a primary broker whose client is missing; and when no client is stored under the empty name,
  there is a primary broker exactly when a client was stored.
\<close>

theorem primary_broker_is_available:
  assumes "\<And>client. RgStore '''' (Some client) \<notin> set qs"
  shows "(\<forall>name. GetPrimaryBroker (registry_run qs) \<noteq> Inl (PrimaryNotFound name)) \<and>
   ((\<exists>client. GetPrimaryBroker (registry_run qs) = Inr client) \<longleftrightarrow> (\<exists>name client. RgStore name (Some client) \<in> set qs))"
proof (cases "rg_primary (registry_run qs) = ''''")
  case True
  then have "\<not> (\<exists>name client. RgStore name (Some client) \<in> set qs)"
    using registry_run_ok [of qs] registry_run_clients [of qs] assms unfolding primary_ok_def by metis
  then show ?thesis using True by (simp add: GetPrimaryBroker_def)
next
  case False
  then have c: "gm_get (rg_clients (registry_run qs)) (rg_primary (registry_run qs)) \<noteq> None"
    using registry_run_ok [of qs] by (simp add: primary_ok_def)
  then have "\<exists>name client. RgStore name (Some client) \<in> set qs" using registry_run_clients by metis
  then show ?thesis using False c by (auto simp: GetPrimaryBroker_def)
qed

section \<open>Witnesses\<close>

definition silent_client :: "unit broker_Client" where
  "silent_client = \<lparr>cl_PerformFullLogin = (\<lambda>a b. (Inl (GoErr ''offline''), b)), cl_PlaceOrder = (\<lambda>i b. (Inl (GoErr ''offline''), b)),
     cl_CancelOrder = (\<lambda>i e b. (Some (GoErr ''offline''), b)), cl_GetOrderBook = (\<lambda>b. (Inl (GoErr ''offline''), b))\<rparr>"

theorem primary_broker_is_available_witness:
  "\<exists>client. GetPrimaryBroker (registry_run [RgStore ''XTS'' (Some silent_client), RgSetPrimary ''NONE'']) = Inr client"
  using primary_broker_is_available [of "[RgStore ''XTS'' (Some silent_client), RgSetPrimary ''NONE'']"] by auto

end
