(* ===== verification/Trading_Support.thy ===== *)
theory Trading_Support
  imports Trading_Xts Trading_Clients
begin

text \<open>
  The smaller packages of the execution gateway and its neighbours: the correlation of order intents with
  broker orders (\<^verbatim>\<open>internal/correlation\<close>), the normalisation of broker errors
  (\<^verbatim>\<open>internal/errors\<close>), the greeks of running trades (\<^verbatim>\<open>internal/greeks\<close>), the clients of the snapshot
  service (\<^verbatim>\<open>internal/snapshot\<close>), the XTS market-data client that the gateway and the contract master
  share, the XTS wrapper (\<^verbatim>\<open>internal/brokers/xts.go\<close>) and the order events of the reconciler
  (\<^verbatim>\<open>services/reconciler/internal/normalize\<close>).
\<close>

section \<open>correlation.go\<close>

text \<open>The counter is an unsigned 64-bit integer that is incremented atomically.\<close>

record correlation =
  co_intentToOrder :: "(string, string) gomap"
  co_orderToIntent :: "(string, string) gomap"
  co_counter :: nat

definition correlation_NewManager :: correlation where
  "correlation_NewManager = \<lparr>co_intentToOrder = [], co_orderToIntent = [], co_counter = 0\<rparr>"

definition GenerateIntentID :: "string \<Rightarrow> int \<Rightarrow> correlation \<Rightarrow> string \<times> correlation" where
  "GenerateIntentID workerID now m =
     (let c = (co_counter m + 1) mod 2 ^ 64 in
      (''INT-'' @ workerID @ ''-'' @ show_int now @ ''-'' @ show_nat c, m\<lparr>co_counter := c\<rparr>))"

definition correlation_Map :: "string \<Rightarrow> string \<Rightarrow> correlation \<Rightarrow> correlation" where
  "correlation_Map intentID orderID m =
     m\<lparr>co_intentToOrder := gm_set intentID orderID (co_intentToOrder m), co_orderToIntent := gm_set orderID intentID (co_orderToIntent m)\<rparr>"

definition GetOrderID :: "correlation \<Rightarrow> string \<Rightarrow> string option" where
  "GetOrderID m intentID = gm_get (co_intentToOrder m) intentID"

definition GetIntentID :: "correlation \<Rightarrow> string \<Rightarrow> string option" where
  "GetIntentID m orderID = gm_get (co_orderToIntent m) orderID"

section \<open>normalizer.go\<close>

record NormalizedError =
  ne_Code :: string
  ne_Description :: string
  ne_IsRetryable :: bool
  ne_Original :: "goerr option"

definition NormalizeError :: "goerr option \<Rightarrow> NormalizedError" where
  "NormalizeError err = (case err of
      None \<Rightarrow> \<lparr>ne_Code = '''', ne_Description = '''', ne_IsRetryable = False, ne_Original = None\<rparr>
    | Some e \<Rightarrow>
        let errMsg = ToLower (Error e) in
        if Contains errMsg ''timeout'' \<or> Contains errMsg ''deadline'' then
          \<lparr>ne_Code = ''ERR_TIMEOUT'', ne_Description = ''Broker request timed out'', ne_IsRetryable = True, ne_Original = err\<rparr>
        else if Contains errMsg ''unauthorized'' \<or> Contains errMsg ''token expired'' then
          \<lparr>ne_Code = ''ERR_AUTH'', ne_Description = ''Broker session expired or unauthorized'', ne_IsRetryable = False, ne_Original = err\<rparr>
        else if Contains errMsg ''margin'' \<or> Contains errMsg ''insufficient funds'' then
          \<lparr>ne_Code = ''ERR_MARGIN'', ne_Description = ''Insufficient margin to place order'', ne_IsRetryable = False, ne_Original = err\<rparr>
        else if Contains errMsg ''rate limit'' \<or> Contains errMsg ''too many requests'' then
          \<lparr>ne_Code = ''ERR_RATE_LIMIT'', ne_Description = ''Broker API rate limit exceeded'', ne_IsRetryable = True, ne_Original = err\<rparr>
        else
          \<lparr>ne_Code = ''ERR_UNKNOWN'', ne_Description = ''Unknown broker error'', ne_IsRetryable = False, ne_Original = err\<rparr>)"

section \<open>monitor.go\<close>

record TradeGreeks =
  tg_TradeUID :: string
  tg_NetDelta :: f64
  tg_NetGamma :: f64
  tg_NetTheta :: f64
  tg_NetVega :: f64
  tg_UpdatedAt :: gotime

record TradeLeg =
  gl_TradeUID :: string
  gl_Token :: int
  gl_Quantity :: int
  gl_Side :: string

record wsMonitor =
  mo_tokenToLegs :: "(int, TradeLeg list) gomap"
  mo_tradeGreeks :: "(string, TradeGreeks) gomap"

definition NewWSMonitor :: wsMonitor where
  "NewWSMonitor = \<lparr>mo_tokenToLegs = [], mo_tradeGreeks = []\<rparr>"

definition legs_of :: "wsMonitor \<Rightarrow> int \<Rightarrow> TradeLeg list" where
  "legs_of m token = (case gm_get (mo_tokenToLegs m) token of None \<Rightarrow> [] | Some ls \<Rightarrow> ls)"

definition register_leg :: "TradeLeg \<Rightarrow> wsMonitor \<Rightarrow> wsMonitor" where
  "register_leg leg m = m\<lparr>mo_tokenToLegs := gm_set (gl_Token leg) (legs_of m (gl_Token leg) @ [leg]) (mo_tokenToLegs m)\<rparr>"

definition RegisterTrade :: "TradeLeg list \<Rightarrow> wsMonitor \<Rightarrow> wsMonitor" where
  "RegisterTrade legs m = fold register_leg legs m"

text \<open>Every token keeps its legs of other trades, and is dropped when none is left.\<close>

definition RemoveTrade :: "string \<Rightarrow> wsMonitor \<Rightarrow> wsMonitor" where
  "RemoveTrade tradeUID m =
     m\<lparr>mo_tradeGreeks := gm_del tradeUID (mo_tradeGreeks m),
       mo_tokenToLegs := filter (\<lambda>e. snd e \<noteq> []) (map (\<lambda>e. (fst e, filter (\<lambda>leg. gl_TradeUID leg \<noteq> tradeUID) (snd e))) (mo_tokenToLegs m))\<rparr>"

definition zero_greeks :: TradeGreeks where
  "zero_greeks = \<lparr>tg_TradeUID = '''', tg_NetDelta = Fin 0, tg_NetGamma = Fin 0, tg_NetTheta = Fin 0, tg_NetVega = Fin 0, tg_UpdatedAt = zero_time\<rparr>"

definition contribution :: "TradeLeg \<Rightarrow> f64 \<Rightarrow> f64" where
  "contribution leg x = fmul (fmul (if gl_Side leg = ''SELL'' then Fin (-1) else Fin 1) (itof (gl_Quantity leg))) x"

record greek_tick =
  tk_Token :: int
  tk_Delta :: f64
  tk_Gamma :: f64
  tk_Theta :: f64
  tk_Vega :: f64
  tk_Now :: gotime

definition update_leg :: "greek_tick \<Rightarrow> TradeLeg \<Rightarrow> wsMonitor \<Rightarrow> wsMonitor" where
  "update_leg t leg m =
     (let tg = (case gm_get (mo_tradeGreeks m) (gl_TradeUID leg) of None \<Rightarrow> zero_greeks | Some g \<Rightarrow> g) in
      m\<lparr>mo_tradeGreeks := gm_set (gl_TradeUID leg)
          \<lparr>tg_TradeUID = gl_TradeUID leg, tg_NetDelta = fadd (tg_NetDelta tg) (contribution leg (tk_Delta t)),
           tg_NetGamma = fadd (tg_NetGamma tg) (contribution leg (tk_Gamma t)),
           tg_NetTheta = fadd (tg_NetTheta tg) (contribution leg (tk_Theta t)),
           tg_NetVega = fadd (tg_NetVega tg) (contribution leg (tk_Vega t)), tg_UpdatedAt = tk_Now t\<rparr> (mo_tradeGreeks m)\<rparr>)"

definition UpdateLegGreeks :: "greek_tick \<Rightarrow> wsMonitor \<Rightarrow> wsMonitor" where
  "UpdateLegGreeks t m = fold (update_leg t) (legs_of m (tk_Token t)) m"

definition GetGreeks :: "wsMonitor \<Rightarrow> string \<Rightarrow> TradeGreeks option" where
  "GetGreeks m tradeUID = gm_get (mo_tradeGreeks m) tradeUID"

section \<open>internal/snapshot\<close>

text \<open>
  provider.go: the data may be absent, and the status code is not looked at. The error text of the service
  is used as a format; it is taken to have no directives.
\<close>

definition decode_provider_reply :: "json \<Rightarrow> (bool \<times> OptionChainSnapshot option \<times> string) option" where
  "decode_provider_reply j = do {
     m \<leftarrow> top_obj j; success \<leftarrow> fld_bool m ''success''; data \<leftarrow> fld_map m ''data'';
     snap \<leftarrow> (case data of None \<Rightarrow> Some None | Some d \<Rightarrow> map_option Some (decode_chain_snapshot d)); e \<leftarrow> fld_str m ''error'';
     Some (success, snap, e) }"

definition provider_url :: "string \<Rightarrow> string \<Rightarrow> string \<Rightarrow> string" where
  "provider_url base symbol expiry =
     base @ ''/api/option-chain/'' @ PathEscape symbol @ (if expiry \<noteq> '''' then ''?expiry='' @ QueryEscape expiry else '''')"

definition provider_GetOptionChain :: "'b network \<Rightarrow> string \<Rightarrow> string \<Rightarrow> string \<Rightarrow> 'b \<Rightarrow> (goerr + OptionChainSnapshot) \<times> 'b" where
  "provider_GetOptionChain net base symbol expiry b =
     (let (r, b) = net \<lparr>hc_Method = ''GET'', hc_URL = provider_url base symbol expiry, hc_Authorization = '''', hc_Body = None\<rparr> b in
      (case r of
         HttpFail e \<Rightarrow> Inl e
       | HttpReadFail _ e \<Rightarrow> Inl e
       | HttpReply _ _ doc \<Rightarrow> (case doc of
           Inl e \<Rightarrow> Inl e
         | Inr j \<Rightarrow> (case decode_provider_reply j of
             None \<Rightarrow> Inl (GoErr ''json: cannot unmarshal value'')
           | Some (success, snap, e) \<Rightarrow>
               if \<not> success then Inl (GoErr e)
               else (case snap of None \<Rightarrow> Inl (GoErr ''snapshot data missing'') | Some s \<Rightarrow> Inr s))), b))"

text \<open>fetch.go: rows and chains with fewer fields, at a fixed address.\<close>

record snap_Row =
  sr_Strike :: f64
  sr_CEToken :: int
  sr_PEToken :: int
  sr_CELtp :: f64
  sr_PELtp :: f64
  sr_CEDelta :: f64
  sr_PEDelta :: f64
  sr_IsATM :: bool

record snap_Data =
  sp_Symbol :: string
  sp_SyntheticFuture :: f64
  sp_FutureLtp :: f64
  sp_ATM :: f64
  sp_Expiry :: string
  sp_AvailableExpiries :: "string list"
  sp_LotSize :: int
  sp_Chain :: "snap_Row list"

definition decode_snap_row :: "json \<Rightarrow> snap_Row option" where
  "decode_snap_row j = do {
     m \<leftarrow> top_obj j; strike \<leftarrow> fld_float m ''strike''; ceToken \<leftarrow> fld_int m ''ce_token''; peToken \<leftarrow> fld_int m ''pe_token'';
     ceLtp \<leftarrow> fld_float m ''ce_ltp''; peLtp \<leftarrow> fld_float m ''pe_ltp''; ceDelta \<leftarrow> fld_float m ''ce_delta''; peDelta \<leftarrow> fld_float m ''pe_delta'';
     isATM \<leftarrow> fld_bool m ''is_atm'';
     Some \<lparr>sr_Strike = strike, sr_CEToken = ceToken, sr_PEToken = peToken, sr_CELtp = ceLtp, sr_PELtp = peLtp, sr_CEDelta = ceDelta,
       sr_PEDelta = peDelta, sr_IsATM = isATM\<rparr> }"

definition decode_snap_data :: "(string \<times> json) list \<Rightarrow> snap_Data option" where
  "decode_snap_data m = do {
     symbol \<leftarrow> fld_str m ''symbol''; future \<leftarrow> fld_float m ''synthetic_future''; ltp \<leftarrow> fld_float m ''future_ltp''; atm \<leftarrow> fld_float m ''atm'';
     expiry \<leftarrow> fld_str m ''expiry''; expiries \<leftarrow> fld_arr decode_str m ''available_expiries''; lot \<leftarrow> fld_int m ''lot_size'';
     rows \<leftarrow> fld_arr decode_snap_row m ''chain'';
     Some \<lparr>sp_Symbol = symbol, sp_SyntheticFuture = future, sp_FutureLtp = ltp, sp_ATM = atm, sp_Expiry = expiry,
       sp_AvailableExpiries = expiries, sp_LotSize = lot, sp_Chain = rows\<rparr> }"

definition decode_snap_reply :: "json \<Rightarrow> (bool \<times> snap_Data \<times> string) option" where
  "decode_snap_reply j = do {
     m \<leftarrow> top_obj j; success \<leftarrow> fld_bool m ''success''; data \<leftarrow> fld_obj m ''data''; snap \<leftarrow> decode_snap_data data; e \<leftarrow> fld_str m ''error'';
     Some (success, snap, e) }"

definition fetch_url :: "string \<Rightarrow> string \<Rightarrow> string" where
  "fetch_url symbol targetExpiry =
     ''http'' @ ''://127.0.0.1:8003/api/option-chain/'' @ symbol @ (if TrimSpace targetExpiry \<noteq> '''' then ''?expiry='' @ targetExpiry else '''')"

definition FetchATMData :: "'b network \<Rightarrow> string \<Rightarrow> string \<Rightarrow> 'b \<Rightarrow> (goerr + snap_Data) \<times> 'b" where
  "FetchATMData net symbol targetExpiry b =
     (let (r, b) = net \<lparr>hc_Method = ''GET'', hc_URL = fetch_url symbol targetExpiry, hc_Authorization = '''', hc_Body = None\<rparr> b;
          refused = (\<lambda>status. GoErr (''snapshot service returned HTTP '' @ show_int status));
          unparsed = (\<lambda>e. GoErr (''failed to parse JSON: '' @ Error e)) in
      (case r of
         HttpFail e \<Rightarrow> Inl (GoErr (''failed to connect to snapshot service: '' @ Error e))
       | HttpReadFail status e \<Rightarrow> if status \<noteq> 200 then Inl (refused status) else Inl (unparsed e)
       | HttpReply status _ doc \<Rightarrow>
           if status \<noteq> 200 then Inl (refused status)
           else (case doc of
               Inl e \<Rightarrow> Inl (unparsed e)
             | Inr j \<Rightarrow> (case decode_snap_reply j of
                 None \<Rightarrow> Inl (unparsed (GoErr ''json: cannot unmarshal value''))
               | Some (success, snap, e) \<Rightarrow>
                   if success then Inr snap
                   else if e \<noteq> '''' then Inl (GoErr e) else Inl (GoErr ''snapshot service did not return success''))), b))"

definition snap_FindATMRow :: "snap_Data \<Rightarrow> goerr + snap_Row" where
  "snap_FindATMRow chain = (case find (\<lambda>row. sr_IsATM row \<or> feq (sr_Strike row) (sp_ATM chain)) (sp_Chain chain) of
      Some row \<Rightarrow> Inr row | None \<Rightarrow> Inl (GoErr ''ATM row not found''))"

definition snap_FindRowByStrike :: "snap_Data \<Rightarrow> int \<Rightarrow> goerr + snap_Row" where
  "snap_FindRowByStrike chain strike = (case find (\<lambda>row. ftoi (fround (sr_Strike row)) = strike) (sp_Chain chain) of
      Some row \<Rightarrow> Inr row | None \<Rightarrow> Inl (GoErr (''strike '' @ show_int strike @ '' not found in chain'')))"

section \<open>brokers/xts.go\<close>

definition XTSWrapper_PlaceOrder ::
  "'b network \<Rightarrow> xts_Client \<Rightarrow> broker_OrderIntent \<Rightarrow> string \<Rightarrow> f64 \<Rightarrow> 'b \<Rightarrow> goerr option \<times> xts_Client \<times> 'b" where
  "XTSWrapper_PlaceOrder net c intent orderUID limitPrice b = xts_PlaceOrder net c intent orderUID limitPrice b"

section \<open>The XTS market-data client\<close>

record xmd_Client =
  xm_BaseURL :: string
  xm_Token :: string
  xm_AppKey :: string
  xm_SecretKey :: string
  xm_Source :: string

definition xmd_NewClient :: "(string \<Rightarrow> string) \<Rightarrow> xmd_Client" where
  "xmd_NewClient getenv =
     (let baseURL = TrimRightChar (getenv ''XTS_API_BASE_URL'') (CHR ''/'');
          source = TrimSpace (getenv ''XTS_SOURCE'') in
      \<lparr>xm_BaseURL = (if baseURL = '''' then ''https'' @ ''://developers.symphonyfintech.in'' else baseURL), xm_Token = '''',
       xm_AppKey = getenv ''XTS_MD_API_KEY'', xm_SecretKey = getenv ''XTS_MD_API_SECRET'',
       xm_Source = (if source = '''' then ''WEBAPI'' else source)\<rparr>)"

text \<open>A body that is decoded into a map: an object, or null for the empty map. Members are looked up exactly.\<close>

definition xmd_body :: "string \<Rightarrow> http_reply \<Rightarrow> goerr + (string \<times> json) list" where
  "xmd_body failed r = (case r of
      HttpFail e \<Rightarrow> Inl e
    | HttpReadFail _ e \<Rightarrow> Inl (GoWrap failed e)
    | HttpReply _ _ doc \<Rightarrow> (case doc of
        Inl e \<Rightarrow> Inl (GoWrap failed e)
      | Inr j \<Rightarrow> (case top_obj j of None \<Rightarrow> Inl (GoWrap failed (GoErr ''json: cannot unmarshal value'')) | Some m \<Rightarrow> Inr m)))"

definition present :: "(string \<times> json) list \<Rightarrow> string \<Rightarrow> json option" where
  "present m k = (case json_get m k of None \<Rightarrow> None | Some j \<Rightarrow> if j = JNull then None else Some j)"

definition xmd_token :: "(string \<times> json) list \<Rightarrow> goerr + string" where
  "xmd_token out = (case present out ''result'' of
      None \<Rightarrow> Inl (GoErr (''invalid login response: '' @ fmt_v (JObj out)))
    | Some resultRaw \<Rightarrow> (case resultRaw of
        JObj result \<Rightarrow> (case present result ''token'' of
            None \<Rightarrow> Inl (GoErr (''token missing in login response: '' @ fmt_v resultRaw))
          | Some tokenRaw \<Rightarrow> (case tokenRaw of
              JStr token \<Rightarrow> if token = '''' then Inl (GoErr (''invalid token in login response: '' @ fmt_v tokenRaw)) else Inr token
            | _ \<Rightarrow> Inl (GoErr (''invalid token in login response: '' @ fmt_v tokenRaw))))
      | _ \<Rightarrow> Inl (GoErr (''invalid login result type: '' @ fmt_v resultRaw))))"

definition xmd_login_call :: "xmd_Client \<Rightarrow> http_call" where
  "xmd_login_call c = \<lparr>hc_Method = ''POST'', hc_URL = xm_BaseURL c @ ''/apimarketdata/auth/login'', hc_Authorization = '''',
     hc_Body = Some (JObj [(''appKey'', JStr (xm_AppKey c)), (''secretKey'', JStr (xm_SecretKey c)), (''source'', JStr (xm_Source c))])\<rparr>"

definition xmd_Login :: "'b network \<Rightarrow> xmd_Client \<Rightarrow> 'b \<Rightarrow> goerr option \<times> xmd_Client \<times> 'b" where
  "xmd_Login net c b =
     (if xm_AppKey c = '''' \<or> xm_SecretKey c = '''' then
        (Some (GoErr ''XTS market data credentials missing (XTS_MD_API_KEY / XTS_MD_API_SECRET)''), c, b)
      else
        let (r, b) = net (xmd_login_call c) b in
        case xmd_body ''failed to decode marketdata login response: '' r of
          Inl e \<Rightarrow> (Some e, c, b)
        | Inr out \<Rightarrow> (case xmd_token out of Inl e \<Rightarrow> (Some e, c, b) | Inr token \<Rightarrow> (None, c\<lparr>xm_Token := token\<rparr>, b)))"

definition xmd_GetMaster :: "'b network \<Rightarrow> xmd_Client \<Rightarrow> 'b \<Rightarrow> (goerr + (string \<times> json) list) \<times> 'b" where
  "xmd_GetMaster net c b =
     (if xm_Token c = '''' then (Inl (GoErr ''marketdata token missing; call Login first''), b)
      else
        let (r, b) = net \<lparr>hc_Method = ''POST'', hc_URL = xm_BaseURL c @ ''/apimarketdata/instruments/master'', hc_Authorization = xm_Token c,
              hc_Body = Some (JObj [(''exchangeSegmentList'', JArr [JStr ''NSEFO''])])\<rparr> b in
        (xmd_body ''failed to decode master response: '' r, b))"

section \<open>reconciler/internal/normalize\<close>

datatype CanonicalOrderStatus = StatusSubmitted | StatusAcked | StatusPartial | StatusFilled | StatusCancelled | StatusRejected

record OrderUpdate =
  ou_IntentID :: string
  ou_BrokerOrderID :: string
  ou_ExchangeOrderID :: string
  ou_Status :: CanonicalOrderStatus
  ou_FilledQty :: int
  ou_PendingQty :: int
  ou_AvgFillPrice :: f64
  ou_ReasonText :: string
  ou_BrokerTimestamp :: gotime

record RawBrokerEvent =
  rb_AppOrderID :: string
  rb_OrderUniqueId :: string
  rb_ExchangeOrderID :: string
  rb_OrderStatus :: string
  rb_OrderQuantity :: int
  rb_LeavesQuantity :: int
  rb_CumQuantity :: int
  rb_AvgTradedPrice :: f64
  rb_CancelReject :: string
  rb_ExchangeTime :: string

definition MapStatus :: "string \<Rightarrow> CanonicalOrderStatus" where
  "MapStatus rawStatus =
     (let s = ToUpper rawStatus in
      if s \<in> {''NEW'', ''OPEN''} then StatusAcked
      else if s \<in> {''FILLED'', ''TRADED'', ''EXECUTED''} then StatusFilled
      else if s = ''PARTIALLYFILLED'' then StatusPartial
      else if s \<in> {''CANCELLED'', ''CANCELED''} then StatusCancelled
      else if s = ''REJECTED'' then StatusRejected
      else StatusSubmitted)"

definition normalize_Parse :: "gotime \<Rightarrow> RawBrokerEvent \<Rightarrow> OrderUpdate" where
  "normalize_Parse now raw =
     \<lparr>ou_IntentID = rb_OrderUniqueId raw, ou_BrokerOrderID = rb_AppOrderID raw, ou_ExchangeOrderID = rb_ExchangeOrderID raw,
      ou_Status = MapStatus (rb_OrderStatus raw), ou_FilledQty = rb_CumQuantity raw, ou_PendingQty = rb_LeavesQuantity raw,
      ou_AvgFillPrice = rb_AvgTradedPrice raw, ou_ReasonText = rb_CancelReject raw, ou_BrokerTimestamp = now\<rparr>"

end
