(* ===== verification/Trading_Support_Proofs.thy ===== *)
theory Trading_Support_Proofs
  imports Trading_Support
begin

text \<open>
  Generated intent ids are distinct and correlate one to one with broker orders; a removed trade keeps no
  greeks; the greeks of a trade add up over all ticks.
\<close>

section \<open>Correlation\<close>

fun intent_ids :: "(string \<times> int) list \<Rightarrow> correlation \<Rightarrow> string list \<times> correlation" where
  "intent_ids [] m = ([], m)"
| "intent_ids ((workerID, now) # cs) m =
     (let (i, m) = GenerateIntentID workerID now m; (is, m) = intent_ids cs m in (i # is, m))"

definition id_number :: "string \<Rightarrow> nat" where
  "id_number s = read_digits (rev (takeWhile (\<lambda>c. c \<noteq> CHR ''-'') (rev s)))"

lemma id_number_suffix: "id_number (x @ ''-'' @ show_nat c) = c"
proof -
  have "\<forall>d \<in> set (rev (show_nat c)). d \<noteq> CHR ''-''"
    using show_nat_digits [of c] by (auto simp: list_all_iff is_digit_def)
  then have "takeWhile (\<lambda>c. c \<noteq> CHR ''-'') (rev (show_nat c) @ CHR ''-'' # rev x) = rev (show_nat c)"
    by (simp add: takeWhile_tail)
  then show ?thesis by (simp add: id_number_def)
qed

lemma id_number_generated: "id_number (fst (GenerateIntentID w t m)) = (co_counter m + 1) mod 2 ^ 64"
  using id_number_suffix [of "''INT-'' @ w @ ''-'' @ show_int t"] by (simp add: GenerateIntentID_def Let_def)

lemma intent_id_numbers:
  "co_counter m + length cs < 2 ^ 64 \<Longrightarrow>
     map id_number (fst (intent_ids cs m)) = [co_counter m + 1 ..< co_counter m + 1 + length cs] \<and> length (fst (intent_ids cs m)) = length cs"
proof (induction cs m rule: intent_ids.induct)
  case (2 w t cs m)
  define m' where "m' = snd (GenerateIntentID w t m)"
  have c: "co_counter m' = co_counter m + 1" using 2(2) by (simp add: m'_def GenerateIntentID_def Let_def)
  have n: "id_number (fst (GenerateIntentID w t m)) = co_counter m + 1" using 2(2) by (simp add: id_number_generated)
  have "map id_number (fst (intent_ids cs m')) = [co_counter m' + 1 ..< co_counter m' + 1 + length cs] \<and> length (fst (intent_ids cs m')) = length cs"
    using 2(1) [of "GenerateIntentID w t m" "fst (GenerateIntentID w t m)" m'] 2(2) c by (simp add: m'_def)
  moreover have "fst (intent_ids ((w, t) # cs) m) = fst (GenerateIntentID w t m) # fst (intent_ids cs m')"
    by (simp add: m'_def case_prod_beta Let_def)
  moreover have "[co_counter m + 1 ..< co_counter m + 1 + length ((w, t) # cs)] = (co_counter m + 1) # [co_counter m' + 1 ..< co_counter m' + 1 + length cs]"
    using c by (subst upt_conv_Cons) auto
  ultimately show ?case using n by (simp only: list.map length_Cons)
qed simp

lemma intent_ids_tables:
  "co_intentToOrder (snd (intent_ids cs m)) = co_intentToOrder m \<and> co_orderToIntent (snd (intent_ids cs m)) = co_orderToIntent m"
proof (induction cs m rule: intent_ids.induct)
  case (2 w t cs m)
  then show ?case by (simp add: GenerateIntentID_def Let_def case_prod_beta)
qed simp

lemma intent_ids_distinct:
  assumes "co_counter m + length cs < 2 ^ 64"
  shows "distinct (fst (intent_ids cs m))" "length (fst (intent_ids cs m)) = length cs"
  using intent_id_numbers [OF assms] by (metis distinct_map distinct_upt, simp)

definition map_all :: "(string \<times> string) list \<Rightarrow> correlation \<Rightarrow> correlation" where
  "map_all ps m = fold (\<lambda>p. correlation_Map (fst p) (snd p)) ps m"

lemma fold_gm_set:
  "distinct (map fst ps) \<Longrightarrow> gm_get (fold (\<lambda>p. gm_set (fst p) (snd p)) ps g) k = (case map_of ps k of Some v \<Rightarrow> Some v | None \<Rightarrow> gm_get g k)"
proof (induction ps arbitrary: g)
  case (Cons p ps)
  then have "map_of ps (fst p) = None" by (simp add: map_of_eq_None_iff)
  then show ?case using Cons by (cases p) (auto simp: gm_get_set split: option.splits)
qed simp

lemma map_all_tables:
  "co_intentToOrder (map_all ps m) = fold (\<lambda>p. gm_set (fst p) (snd p)) ps (co_intentToOrder m)"
  "co_orderToIntent (map_all ps m) = fold (\<lambda>p. gm_set (fst p) (snd p)) (map prod.swap ps) (co_orderToIntent m)"
  by (induction ps arbitrary: m) (simp_all add: map_all_def correlation_Map_def)

lemma map_all_lookup:
  assumes "distinct (map fst ps)" and "distinct (map snd ps)" and "co_intentToOrder m = []" and "co_orderToIntent m = []"
  shows "GetOrderID (map_all ps m) i = Some j \<longleftrightarrow> (i, j) \<in> set ps"
    and "GetIntentID (map_all ps m) j = Some i \<longleftrightarrow> (i, j) \<in> set ps"
proof -
  have swap: "map fst (map prod.swap ps) = map snd ps" by simp
  show "GetOrderID (map_all ps m) i = Some j \<longleftrightarrow> (i, j) \<in> set ps"
    using assms(3) fold_gm_set [OF assms(1), of "[]" i] map_of_eq_Some_iff [OF assms(1), of i j]
    by (cases "map_of ps i") (simp_all add: GetOrderID_def map_all_tables)
  have "map_of (map prod.swap ps) j = Some i \<longleftrightarrow> (j, i) \<in> set (map prod.swap ps)"
    using assms(2) by (intro map_of_eq_Some_iff) (simp add: comp_def)
  then show "GetIntentID (map_all ps m) j = Some i \<longleftrightarrow> (i, j) \<in> set ps"
    using assms(2,4) fold_gm_set [of "map prod.swap ps" "[]" j]
    by (cases "map_of (map prod.swap ps) j") (auto simp: GetIntentID_def map_all_tables comp_def)
qed

section \<open>Greeks\<close>

definition no_trade :: "string \<Rightarrow> wsMonitor \<Rightarrow> bool" where
  "no_trade u m \<longleftrightarrow> (\<forall>e \<in> set (mo_tokenToLegs m). \<forall>leg \<in> set (snd e). gl_TradeUID leg \<noteq> u) \<and> GetGreeks m u = None"

datatype monitor_op =
    MoRegister "TradeLeg list"
  | MoRemove string
  | MoUpdate greek_tick

fun monitor_do :: "monitor_op \<Rightarrow> wsMonitor \<Rightarrow> wsMonitor" where
  "monitor_do (MoRegister legs) m = RegisterTrade legs m"
| "monitor_do (MoRemove u) m = RemoveTrade u m"
| "monitor_do (MoUpdate t) m = UpdateLegGreeks t m"

definition registers :: "string \<Rightarrow> monitor_op \<Rightarrow> bool" where
  "registers u p \<longleftrightarrow> (case p of MoRegister legs \<Rightarrow> \<exists>leg \<in> set legs. gl_TradeUID leg = u | _ \<Rightarrow> False)"

lemma legs_of_update_leg [simp]: "legs_of (update_leg t leg m) token = legs_of m token"
  by (simp add: update_leg_def Let_def legs_of_def)

lemma legs_of_update_legs [simp]: "legs_of (fold (update_leg t) ls m) token = legs_of m token"
  by (induction ls arbitrary: m) simp_all

lemma legs_of_Update [simp]: "legs_of (UpdateLegGreeks t m) token = legs_of m token"
  by (simp add: UpdateLegGreeks_def)

lemma GetGreeks_update_other: "gl_TradeUID leg \<noteq> u \<Longrightarrow> GetGreeks (update_leg t leg m) u = GetGreeks m u"
  by (simp add: update_leg_def Let_def GetGreeks_def gm_get_set)

lemma GetGreeks_updates_other:
  "(\<And>leg. leg \<in> set ls \<Longrightarrow> gl_TradeUID leg \<noteq> u) \<Longrightarrow> GetGreeks (fold (update_leg t) ls m) u = GetGreeks m u"
  by (induction ls arbitrary: m) (simp_all add: GetGreeks_update_other)

lemma legs_of_register: "legs_of (register_leg leg m) token = (if token = gl_Token leg then legs_of m token @ [leg] else legs_of m token)"
  by (simp add: register_leg_def legs_of_def gm_get_set)

lemma legs_of_Register: "legs_of (RegisterTrade legs m) token = legs_of m token @ filter (\<lambda>leg. gl_Token leg = token) legs"
  by (induction legs arbitrary: m) (simp_all add: RegisterTrade_def legs_of_register)

lemma GetGreeks_Register: "GetGreeks (RegisterTrade legs m) u = GetGreeks m u"
  by (induction legs arbitrary: m) (simp_all add: RegisterTrade_def register_leg_def GetGreeks_def)

lemma set_gm_set: "set (gm_set k v g) \<subseteq> insert (k, v) (set g)"
  unfolding gm_set_def by (induction g) auto

lemma no_trade_legs: "no_trade u m \<Longrightarrow> leg \<in> set (legs_of m token) \<Longrightarrow> gl_TradeUID leg \<noteq> u"
  by (cases "gm_get (mo_tokenToLegs m) token") (force simp: no_trade_def legs_of_def dest: gm_get_mem)+

lemma no_trade_register:
  assumes "no_trade u m" and "gl_TradeUID leg \<noteq> u"
  shows "no_trade u (register_leg leg m)"
proof -
  have "e \<in> set (mo_tokenToLegs m) \<or> snd e = legs_of m (gl_Token leg) @ [leg]" if "e \<in> set (mo_tokenToLegs (register_leg leg m))" for e
    using that set_gm_set [of "gl_Token leg" "legs_of m (gl_Token leg) @ [leg]" "mo_tokenToLegs m"] by (auto simp: register_leg_def)
  moreover have "\<And>l. l \<in> set (legs_of m (gl_Token leg) @ [leg]) \<Longrightarrow> gl_TradeUID l \<noteq> u" using assms(2) no_trade_legs [OF assms(1)] by auto
  moreover have "GetGreeks (register_leg leg m) u = GetGreeks m u" by (simp add: register_leg_def GetGreeks_def)
  ultimately show ?thesis using assms(1) unfolding no_trade_def by metis
qed

lemma no_trade_Remove: "no_trade u (RemoveTrade u m)"
  by (auto simp: no_trade_def RemoveTrade_def GetGreeks_def gm_get_del)

lemma no_trade_update_legs: "mo_tokenToLegs (fold (update_leg t) ls m) = mo_tokenToLegs m"
  by (induction ls arbitrary: m) (simp_all add: update_leg_def Let_def)

lemma no_trade_do:
  assumes "no_trade u m" and "\<not> registers u p"
  shows "no_trade u (monitor_do p m)"
proof (cases p)
  case (MoRegister legs)
  then have "\<And>leg. leg \<in> set legs \<Longrightarrow> gl_TradeUID leg \<noteq> u" using assms(2) by (auto simp: registers_def)
  then have "no_trade u (RegisterTrade legs m)"
    unfolding RegisterTrade_def using assms(1) by (induction legs arbitrary: m) (simp_all add: no_trade_register)
  then show ?thesis using MoRegister by simp
next
  case (MoRemove v)
  then show ?thesis using assms(1) by (fastforce simp: no_trade_def RemoveTrade_def GetGreeks_def gm_get_del)
next
  case (MoUpdate t)
  then show ?thesis using assms(1) GetGreeks_updates_other [of "legs_of m (tk_Token t)" u t m] no_trade_legs [OF assms(1)]
    by (simp add: no_trade_def UpdateLegGreeks_def no_trade_update_legs)
qed

text \<open>The net delta of a trade, zero when there is none, and what a series of ticks adds to it.\<close>

definition net_delta :: "wsMonitor \<Rightarrow> string \<Rightarrow> f64" where
  "net_delta m u = (case GetGreeks m u of None \<Rightarrow> Fin 0 | Some g \<Rightarrow> tg_NetDelta g)"

definition tick_contributions :: "wsMonitor \<Rightarrow> string \<Rightarrow> greek_tick \<Rightarrow> f64 list" where
  "tick_contributions m u t = map (\<lambda>leg. contribution leg (tk_Delta t)) (filter (\<lambda>leg. gl_TradeUID leg = u) (legs_of m (tk_Token t)))"

lemma net_delta_update_leg:
  "net_delta (update_leg t leg m) u = (if gl_TradeUID leg = u then fadd (net_delta m u) (contribution leg (tk_Delta t)) else net_delta m u)"
  by (simp add: net_delta_def update_leg_def Let_def GetGreeks_def gm_get_set zero_greeks_def split: option.splits)

lemma net_delta_update_legs:
  "net_delta (fold (update_leg t) ls m) u =
     foldl fadd (net_delta m u) (map (\<lambda>leg. contribution leg (tk_Delta t)) (filter (\<lambda>leg. gl_TradeUID leg = u) ls))"
  by (induction ls arbitrary: m) (simp_all add: net_delta_update_leg)

lemma net_delta_Update: "net_delta (UpdateLegGreeks t m) u = foldl fadd (net_delta m u) (tick_contributions m u t)"
  by (simp add: UpdateLegGreeks_def net_delta_update_legs tick_contributions_def)

lemma tick_contributions_Update [simp]: "tick_contributions (UpdateLegGreeks t m) u t' = tick_contributions m u t'"
  by (simp add: tick_contributions_def)

section \<open>Properties\<close>

text \<open>
  C39. Intent ids that the correlation manager generates, for whatever workers and at whatever times, and
  that are mapped to distinct broker orders, are distinct as long as the counter does not wrap, and the two
  lookups are then inverse to each other: an order id is found for an intent id exactly when the intent id
  is found for the order id, and both give what was mapped.
\<close>

theorem generated_intents_correlate:
  assumes "length calls < 2 ^ 64" and "length orders = length calls" and "distinct orders"
    and "intent_ids calls correlation_NewManager = (ids, m)"
  shows "distinct ids \<and>
    (GetOrderID (map_all (zip ids orders) m) i = Some j \<longleftrightarrow> (i, j) \<in> set (zip ids orders)) \<and>
    (GetIntentID (map_all (zip ids orders) m) j = Some i \<longleftrightarrow> (i, j) \<in> set (zip ids orders))"
proof -
  have c: "co_counter correlation_NewManager + length calls < 2 ^ 64" using assms(1) by (simp add: correlation_NewManager_def)
  have d: "distinct ids" "length ids = length orders" using intent_ids_distinct [OF c] assms(2,4) by simp_all
  have e: "co_intentToOrder m = []" "co_orderToIntent m = []"
    using intent_ids_tables [of calls correlation_NewManager] assms(4) by (simp_all add: correlation_NewManager_def)
  have "distinct (map fst (zip ids orders))" "distinct (map snd (zip ids orders))" using d assms(3) by simp_all
  then show ?thesis using d(1) map_all_lookup [OF _ _ e] by blast
qed

text \<open>
  Once a trade is removed from the greeks monitor it has no greeks, whatever ticks arrive and whatever
  other trades are registered and removed, until legs of it are registered again.
\<close>

theorem removed_trade_has_no_greeks:
  assumes "\<And>p. p \<in> set ps \<Longrightarrow> \<not> registers u p"
  shows "GetGreeks (fold monitor_do ps (RemoveTrade u m)) u = None"
proof -
  have "no_trade u (fold monitor_do ps m')" if "no_trade u m'" for m'
    using that assms by (induction ps arbitrary: m') (simp_all add: no_trade_do)
  then show ?thesis using no_trade_Remove by (simp add: no_trade_def)
qed

text \<open>
  The net delta of a trade is the sum, in the order of arrival, of the contributions of its legs to all
  ticks since it was registered: an update adds to the net delta instead of replacing what the previous
  tick of the same token contributed.
\<close>

theorem greeks_add_up_over_ticks:
  "net_delta (fold UpdateLegGreeks ticks m) u = foldl fadd (net_delta m u) (concat (map (tick_contributions m u) ticks))"
proof (induction ticks arbitrary: m)
  case (Cons t ticks)
  have "tick_contributions (UpdateLegGreeks t m) u = tick_contributions m u" by (rule ext) simp
  then show ?case using Cons [of "UpdateLegGreeks t m"] by (simp add: net_delta_Update)
qed simp

section \<open>Witnesses\<close>

theorem generated_intents_correlate_witness:
  "distinct (fst (intent_ids [(''w'', 7), (''w'', 7)] correlation_NewManager)) \<and>
   (GetOrderID (map_all (zip (fst (intent_ids [(''w'', 7), (''w'', 7)] correlation_NewManager)) [''A'', ''B''])
       (snd (intent_ids [(''w'', 7), (''w'', 7)] correlation_NewManager))) (fst (intent_ids [(''w'', 7), (''w'', 7)] correlation_NewManager) ! 1) = Some ''B'')"
proof -
  let ?ids = "fst (intent_ids [(''w'', 7), (''w'', 7)] correlation_NewManager)"
  have "length ?ids = 2" by (simp add: GenerateIntentID_def correlation_NewManager_def Let_def)
  then have "(?ids ! 1, ''B'') \<in> set (zip ?ids [''A'', ''B''])" by (auto simp: in_set_zip intro!: exI [of _ 1])
  then show ?thesis
    using generated_intents_correlate [of "[(''w'', 7), (''w'', 7)]" "[''A'', ''B'']" ?ids
        "snd (intent_ids [(''w'', 7), (''w'', 7)] correlation_NewManager)" "?ids ! 1" "''B''"] by simp
qed

definition demo_leg :: "string \<Rightarrow> TradeLeg" where
  "demo_leg u = \<lparr>gl_TradeUID = u, gl_Token = 7, gl_Quantity = 50, gl_Side = ''SELL''\<rparr>"

definition demo_tick :: greek_tick where
  "demo_tick = \<lparr>tk_Token = 7, tk_Delta = Fin (1 / 2), tk_Gamma = Fin 0, tk_Theta = Fin 0, tk_Vega = Fin 0, tk_Now = zero_time\<rparr>"

theorem removed_trade_has_no_greeks_witness:
  "GetGreeks (fold monitor_do [MoRegister [demo_leg ''T2''], MoUpdate demo_tick] (RemoveTrade ''T1'' (RegisterTrade [demo_leg ''T1''] NewWSMonitor))) ''T1'' = None"
proof -
  have "\<not> registers ''T1'' p" if "p \<in> set [MoRegister [demo_leg ''T2''], MoUpdate demo_tick]" for p
    using that by (auto simp: registers_def demo_leg_def)
  then show ?thesis by (rule removed_trade_has_no_greeks)
qed

end
