(* ===== verification/Snapshot_Feed.thy ===== *)
theory Snapshot_Feed
  imports Go_Http
begin

text \<open>
  The stand-alone feed of the snapshot service: the subscriber of the feed decoder
  (\<^verbatim>\<open>internal/zmq/subscriber.go\<close>) and the server that broadcasts to the connected user interfaces
  (\<^verbatim>\<open>internal/websocket/server.go\<close>). A client is a name; whether a write to it succeeds is an argument.
  Clients are kept in a list without repetitions, in which Go's map is ranged over in any order.
\<close>

section \<open>server.go\<close>

datatype ws_message =
    WsBytes string
  | WsString string
  | WsByteParts "string list"
  | WsStringParts "string list"
  | WsValue json

datatype ws_frame =
    TextFrame string
  | JsonFrame json

text \<open>The last part of a multipart message is sent; a message without parts is not.\<close>

definition ws_frame_of :: "ws_message \<Rightarrow> ws_frame option" where
  "ws_frame_of msg = (case msg of
      WsBytes v \<Rightarrow> Some (TextFrame v)
    | WsString v \<Rightarrow> Some (TextFrame v)
    | WsByteParts v \<Rightarrow> if v \<noteq> [] then Some (TextFrame (last v)) else None
    | WsStringParts v \<Rightarrow> if v \<noteq> [] then Some (TextFrame (last v)) else None
    | WsValue j \<Rightarrow> Some (JsonFrame j))"

record 'c ws_server =
  ws_clients :: "'c list"
  ws_sent :: "('c \<times> ws_frame) list"

definition ws_NewServer :: "'c ws_server" where
  "ws_NewServer = \<lparr>ws_clients = [], ws_sent = []\<rparr>"

definition HandleConnections :: "'c \<Rightarrow> 'c ws_server \<Rightarrow> 'c ws_server" where
  "HandleConnections c s = s\<lparr>ws_clients := List.insert c (ws_clients s)\<rparr>"

definition ws_disconnected :: "'c \<Rightarrow> 'c ws_server \<Rightarrow> 'c ws_server" where
  "ws_disconnected c s = s\<lparr>ws_clients := remove1 c (ws_clients s)\<rparr>"

definition send_one :: "('c \<Rightarrow> ws_frame \<Rightarrow> bool) \<Rightarrow> ws_frame option \<Rightarrow> 'c \<Rightarrow> 'c ws_server \<Rightarrow> 'c ws_server" where
  "send_one works frame c s = (case frame of
      None \<Rightarrow> s
    | Some f \<Rightarrow> if works c f then s\<lparr>ws_sent := ws_sent s @ [(c, f)]\<rparr> else ws_disconnected c s)"

definition ws_broadcast ::
  "('c list \<Rightarrow> 'c list) \<Rightarrow> ('c \<Rightarrow> ws_frame \<Rightarrow> bool) \<Rightarrow> ws_message \<Rightarrow> 'c ws_server \<Rightarrow> 'c ws_server" where
  "ws_broadcast ord works msg s = fold (send_one works (ws_frame_of msg)) (ord (ws_clients s)) s"

section \<open>subscriber.go\<close>

text \<open>
  A message that is no object is dropped, except for null: it decodes into a nil map, and the assignment to
  it panics. An assignment to a map replaces the member or adds it.
\<close>

definition obj_set :: "string \<Rightarrow> json \<Rightarrow> (string \<times> json) list \<Rightarrow> (string \<times> json) list" where
  "obj_set k v m = filter (\<lambda>e. fst e \<noteq> k) m @ [(k, v)]"

definition feed_payload :: "(string \<times> json) list \<Rightarrow> (string \<times> json) list" where
  "feed_payload payload =
     (let p = (case json_get payload ''chain'' of Some chainData \<Rightarrow> obj_set ''data'' chainData payload | None \<Rightarrow> payload) in
      obj_set ''type'' (JStr ''option_chain'') p)"

definition on_feed_message ::
  "(string \<Rightarrow> json option) \<Rightarrow> ('c list \<Rightarrow> 'c list) \<Rightarrow> ('c \<Rightarrow> ws_frame \<Rightarrow> bool) \<Rightarrow> string \<Rightarrow> 'c ws_server \<Rightarrow> goerr + 'c ws_server" where
  "on_feed_message unmarshal ord works msg s = (case unmarshal msg of
      None \<Rightarrow> Inr s
    | Some j \<Rightarrow> (case j of
        JNull \<Rightarrow> Inl (GoPanic ''assignment to entry in nil map'')
      | JObj payload \<Rightarrow> Inr (ws_broadcast ord works (WsValue (JObj (feed_payload payload))) s)
      | _ \<Rightarrow> Inr s))"

section \<open>Properties\<close>

lemma sent_to_works:
  "distinct cs \<Longrightarrow> set cs \<subseteq> set (ws_clients s) \<Longrightarrow> distinct (ws_clients s) \<Longrightarrow>
   ws_sent (fold (send_one works (Some f)) cs s) = ws_sent s @ map (\<lambda>c. (c, f)) (filter (\<lambda>c. works c f) cs) \<and>
   ws_clients (fold (send_one works (Some f)) cs s) = filter (\<lambda>c. c \<in> set cs \<longrightarrow> works c f) (ws_clients s)"
proof (induction cs arbitrary: s)
  case (Cons c cs)
  define s' where "s' = send_one works (Some f) c s"
  have s': "ws_clients s' = (if works c f then ws_clients s else filter (\<lambda>x. c \<noteq> x) (ws_clients s))"
    "ws_sent s' = ws_sent s @ (if works c f then [(c, f)] else [])"
    using Cons.prems(3) by (simp_all add: s'_def send_one_def ws_disconnected_def distinct_remove1_removeAll removeAll_filter_not_eq)
  have pre: "distinct cs" "set cs \<subseteq> set (ws_clients s')" "distinct (ws_clients s')" using Cons.prems s'(1) by auto
  have "filter (\<lambda>x. x \<in> set cs \<longrightarrow> works x f) (ws_clients s') = filter (\<lambda>x. x \<in> set (c # cs) \<longrightarrow> works x f) (ws_clients s)"
    unfolding s'(1) using Cons.prems(1) by (auto intro!: filter_cong)
  then show ?case using Cons.IH [OF pre] s'(2) by (simp add: s'_def)
qed simp

lemma json_get_obj_set: "json_get (obj_set k v m) k' = (if k' = k then Some v else json_get m k')"
proof -
  have "map_of (rev (filter (\<lambda>e. fst e \<noteq> k) m)) k' = map_of (rev m) k'" if "k' \<noteq> k"
    using that by (induction m) (auto simp: map_of_append map_add_def split: option.splits)
  then show ?thesis by (simp add: json_get_def obj_set_def)
qed

text \<open>
  A chain that arrives from the feed decoder is sent to every connected user interface that can be
  written to, once, with the strikes also as its data and marked as an option chain; a client that cannot
  be written to is disconnected and every other client stays.
\<close>

theorem feed_chain_reaches_clients:
  assumes "unmarshal msg = Some (JObj payload)" and "json_get payload ''chain'' = Some chain"
    and "distinct (ws_clients s)" and "permutes_list ord"
    and "on_feed_message unmarshal ord works msg s = r"
  shows "\<exists>s' j. r = Inr s' \<and> json_get j ''data'' = Some chain \<and> json_get j ''type'' = Some (JStr ''option_chain'') \<and>
    mset (ws_sent s') = mset (ws_sent s) + mset (map (\<lambda>c. (c, JsonFrame (JObj j))) (filter (\<lambda>c. works c (JsonFrame (JObj j))) (ws_clients s))) \<and>
    ws_clients s' = filter (\<lambda>c. works c (JsonFrame (JObj j))) (ws_clients s)"
proof -
  define j where "j = feed_payload payload"
  define s' where "s' = ws_broadcast ord works (WsValue (JObj j)) s"
  have o: "mset (ord (ws_clients s)) = mset (ws_clients s)" using assms(4) by (simp add: permutes_list_def)
  have d: "distinct (ord (ws_clients s))" "set (ord (ws_clients s)) \<subseteq> set (ws_clients s)"
    using assms(3) mset_eq_imp_distinct_iff [OF o] mset_eq_setD [OF o] by simp_all
  note run = sent_to_works [OF d assms(3), of works "JsonFrame (JObj j)"]
  have "r = Inr s'" using assms(1,5) by (simp add: on_feed_message_def s'_def j_def)
  moreover have "json_get j ''data'' = Some chain" "json_get j ''type'' = Some (JStr ''option_chain'')"
    using assms(2) by (simp_all add: j_def feed_payload_def json_get_obj_set)
  moreover have "mset (ws_sent s') = mset (ws_sent s) + mset (map (\<lambda>c. (c, JsonFrame (JObj j))) (filter (\<lambda>c. works c (JsonFrame (JObj j))) (ws_clients s)))"
    using run by (simp add: s'_def ws_broadcast_def ws_frame_of_def mset_filter o)
  moreover have "ws_clients s' = filter (\<lambda>c. works c (JsonFrame (JObj j))) (ws_clients s)"
    using run mset_eq_setD [OF o] by (auto simp: s'_def ws_broadcast_def ws_frame_of_def intro!: filter_cong)
  ultimately show ?thesis by blast
qed

theorem feed_chain_reaches_clients_witness:
  "ws_clients (case on_feed_message (\<lambda>m. Some (JObj [(''chain'', JArr [])])) id (\<lambda>c f. c = ''up'') ''m''
      \<lparr>ws_clients = [''up'', ''down''], ws_sent = []\<rparr> of Inr s \<Rightarrow> s) = [''up'']"
proof -
  have "permutes_list id" by (simp add: permutes_list_def)
  from feed_chain_reaches_clients [of "\<lambda>m. Some (JObj [(''chain'', JArr [])])" "''m''" "[(''chain'', JArr [])]" "JArr []"
      "\<lparr>ws_clients = [''up'', ''down''], ws_sent = []\<rparr>" id "\<lambda>c f. c = ''up''", OF _ _ _ this refl]
  show ?thesis by (auto simp: json_get_def)
qed

end
