(* ===== verification/Gateway_Start.thy ===== *)
theory Gateway_Start
  imports Trading_Gateway_Proofs Trading_Xts Trading_Clients "HOL-Library.Multiset"
begin

text \<open>
  The start-up of the execution gateway, \<^verbatim>\<open>main.go\<close>: the choice of the store, the registration of the three
  brokers, the service behind the HTTP server and the listener for orders on ZeroMQ. The routes for the order
  book of the simulator (\<^verbatim>\<open>RegisterSimOrderBookRoutes\<close>) are in no file of the package and are left out.

  Shown: what a process has stored, a later process on the same database reads again, whatever requests were
  served in between, but it does not watch the trades; the list of trades is read from the database only while
  memory has none; a broker is found under every spelling of its name; the listener sends one order for each
  message that it can read until it is cancelled.
\<close>

section \<open>main\<close>

text \<open>The state outside the store: the Greeksoft clients by account, the XTS client and the network.\<close>

record 'b gateway_ext =
  gx_greekExecutors :: "(string, greek_Client) gomap"
  gx_xtsClient :: xts_Client
  gx_net :: 'b

definition on_greek :: "((string, greek_Client) gomap \<times> 'b \<Rightarrow> 'r \<times> (string, greek_Client) gomap \<times> 'b) \<Rightarrow> 'b gateway_ext \<Rightarrow> 'r \<times> 'b gateway_ext" where
  "on_greek f g = (case f (gx_greekExecutors g, gx_net g) of (r, m, b) \<Rightarrow> (r, g\<lparr>gx_greekExecutors := m, gx_net := b\<rparr>))"

definition on_xts :: "(xts_Client \<times> 'b \<Rightarrow> 'r \<times> xts_Client \<times> 'b) \<Rightarrow> 'b gateway_ext \<Rightarrow> 'r \<times> 'b gateway_ext" where
  "on_xts f g = (case f (gx_xtsClient g, gx_net g) of (r, c, b) \<Rightarrow> (r, g\<lparr>gx_xtsClient := c, gx_net := b\<rparr>))"

definition on_net :: "('b \<Rightarrow> 'r \<times> 'b) \<Rightarrow> 'b gateway_ext \<Rightarrow> 'r \<times> 'b gateway_ext" where
  "on_net f g = (case f (gx_net g) of (r, b) \<Rightarrow> (r, g\<lparr>gx_net := b\<rparr>))"

text \<open>
  What \<^verbatim>\<open>main\<close> finds around it: the environment, the network, the tables and clocks that the adapters use,
  the database driver, and \<^verbatim>\<open>NewSimExecutor\<close>, which is in no file of the package. The simulator is given
  the database; it acts here on the network's state and is taken to leave the tables of the gateway, \<^verbatim>\<open>trades\<close>,
  \<^verbatim>\<open>orders\<close> and \<^verbatim>\<open>order\_events\<close>, to the gateway's own store.
\<close>

record 'b gateway_boot =
  gb_getenv :: "string \<Rightarrow> string"
  gb_net :: "'b network"
  gb_md5 :: "string \<Rightarrow> string"
  gb_ctxErr :: "'b \<Rightarrow> goerr option"
  gb_codec :: json_codec
  gb_gtokens :: "(int, int) gomap"
  gb_nano :: "'b \<Rightarrow> int"
  gb_clock :: "nat \<Rightarrow> gotime"
  gb_open :: "string \<Rightarrow> goerr + database"
  gb_Ping :: "database \<Rightarrow> goerr option"
  gb_NewSimExecutor :: "database \<Rightarrow> 'b gateway_ext provider"

text \<open>A database that cannot be opened or does not answer is logged and left out; the gateway then runs on memory.\<close>

definition gateway_database :: "'b gateway_boot \<Rightarrow> database option" where
  "gateway_database bt = (let dsn = TrimSpace (gb_getenv bt ''POSTGRES_DSN'') in
     if dsn = '''' then None
     else (case gb_open bt dsn of
         Inl err \<Rightarrow> None
       | Inr db \<Rightarrow> if gb_Ping bt db \<noteq> None then None else Some db))"

definition gateway_store :: "'b gateway_boot \<Rightarrow> store" where
  "gateway_store bt = (case gateway_database bt of
      None \<Rightarrow> MemStore NewMemoryStore
    | Some db \<Rightarrow> PgStore (NewPostgresBackedStore (Some db)))"

definition xts_registration :: "'b gateway_boot \<Rightarrow> 'b gateway_ext provider" where
  "xts_registration bt userID accountID g =
     (Inr (\<lambda>it. on_xts (xts_ExecuteOrderIntent (gb_net bt) (gb_ctxErr bt) (gb_getenv bt) (gb_nano bt) it)), g)"

definition sim_registration :: "'b gateway_boot \<Rightarrow> 'b gateway_ext provider" where
  "sim_registration bt userID accountID g = (case gateway_database bt of
      None \<Rightarrow> (Inl (GoErr ''SIM broker requires a postgres database connection''), g)
    | Some sqlDB \<Rightarrow> gb_NewSimExecutor bt sqlDB userID accountID g)"

definition greek_registration :: "'b gateway_boot \<Rightarrow> gateway_Config \<Rightarrow> 'b gateway_ext provider" where
  "greek_registration bt cfg userID accountID g =
     (case on_greek (greek_provider (gb_net bt) (gb_md5 bt) (gb_getenv bt) (gb_ctxErr bt) (gb_codec bt) (gb_gtokens bt) cfg userID accountID) g of
        (Inl e, g) \<Rightarrow> (Inl e, g)
      | (Inr ex, g) \<Rightarrow> (Inr (\<lambda>it. on_greek (ex it)), g))"

definition gateway_factory :: "'b gateway_boot \<Rightarrow> gateway_Config \<Rightarrow> 'b gateway_ext DefaultBrokerFactory" where
  "gateway_factory bt cfg =
     Register ''GREEKSOFT'' (Some (greek_registration bt cfg))
       (Register ''SIM'' (Some (sim_registration bt))
         (Register ''XTS'' (Some (xts_registration bt)) NewDefaultBrokerFactory))"

definition gateway_service :: "'b gateway_boot \<Rightarrow> 'b gateway_ext service" where
  "gateway_service bt = (let appConfig = LoadConfig (gb_getenv bt) in
     NewService (gc_XTSClientID appConfig) (Some (GetExecutor (gateway_factory bt appConfig)))
       (\<lambda>symbol expiry. on_net (GetOptionChain (gb_net bt) (gc_SnapshotServiceURL appConfig) symbol expiry))
       (\<lambda>symbol expiry. on_net (LotSizeClient_GetLotSize (gb_net bt) (gc_ContractMasterURL appConfig) symbol expiry))
       (gb_clock bt) (gb_getenv bt))"

text \<open>The state after \<^verbatim>\<open>main\<close> has started, and after a sequence of requests to \<^verbatim>\<open>startHTTPServer\<close>.\<close>

definition gateway_main :: "'b gateway_boot \<Rightarrow> 'b \<Rightarrow> 'b gateway_ext world" where
  "gateway_main bt b = \<lparr>w_store = gateway_store bt,
     w_ext = \<lparr>gx_greekExecutors = [], gx_xtsClient = xts_NewClient (gb_getenv bt), gx_net = b\<rparr>, w_tick = 0\<rparr>"

definition gateway_run :: "'b gateway_boot \<Rightarrow> (gateway_env \<times> http_request) list \<Rightarrow> 'b \<Rightarrow> 'b gateway_ext world" where
  "gateway_run bt rs b = foldl (\<lambda>w q. snd (serve (fst q) (gateway_service bt) (snd q) w)) (gateway_main bt b) rs"

section \<open>startZMQListener\<close>

text \<open>
  A pass of the loop: whether the context was cancelled, the time stamp of the order id, and what \<^verbatim>\<open>Recv\<close> gave
  (\<^const>\<open>None\<close> for a text that is no document). Every readable message starts a goroutine that places one order;
  the goroutines are listed in the order of their start, and \<open>run_jobs\<close> runs them in the order of its list. A
  failure before the loop ends the process.
\<close>

type_synonym zmq_pass = "bool \<times> string \<times> (goerr + json option)"

fun zmq_jobs :: "string \<Rightarrow> zmq_pass list \<Rightarrow> (broker_OrderIntent \<times> string) list" where
  "zmq_jobs clientID [] = []"
| "zmq_jobs clientID ((cancelled, stamp, msg) # passes) =
     (if cancelled then []
      else case msg of
          Inl err \<Rightarrow> zmq_jobs clientID passes
        | Inr doc \<Rightarrow>
            (case Option.bind doc decode_broker_intent of
               None \<Rightarrow> zmq_jobs clientID passes
             | Some it \<Rightarrow> (zmq_intent clientID it, ''ZMQ_'' @ stamp) # zmq_jobs clientID passes))"

definition startZMQListener ::
    "goerr option \<Rightarrow> goerr option \<Rightarrow> goerr option \<Rightarrow> gateway_Config \<Rightarrow> zmq_pass list \<Rightarrow> goerr + (broker_OrderIntent \<times> string) list" where
  "startZMQListener newErr bindErr subErr cfg passes =
     (case newErr of
        Some err \<Rightarrow> Inl (GoWrap ''Failed to create ZMQ socket: '' err)
      | None \<Rightarrow>
     (case bindErr of
        Some err \<Rightarrow> Inl (GoWrap (''Failed to bind ZMQ to '' @ gc_ZMQEndpoint cfg @ '': '') err)
      | None \<Rightarrow>
     (case subErr of
        Some err \<Rightarrow> Inl (GoWrap ''Failed to subscribe to ZMQ topic: '' err)
      | None \<Rightarrow> Inr (zmq_jobs (gc_XTSClientID cfg) passes))))"

definition run_jobs :: "'b network \<Rightarrow> (broker_OrderIntent \<times> string) list \<Rightarrow> xts_Client \<times> 'b \<Rightarrow> xts_Client \<times> 'b" where
  "run_jobs net jobs cb = foldl (\<lambda>(c, b) (i, u). snd (xts_PlaceOrder net c i u (bo_LimitPrice i) b)) cb jobs"

section \<open>What the database has of the memory\<close>

text \<open>
  A trade lasts when its document can be written and says what the trade is (finite prices, clock readings)
  and its time and status are set, so that reading fills nothing in. The second part of \<open>mirror_db\<close> says
  that only a trade that does not last in memory has a row whose document has no status.
\<close>

definition lasting :: "StoredTrade \<Rightarrow> bool" where
  "lasting tr \<longleftrightarrow> trade_ok tr \<and> \<not> IsZero (tr_CreatedAt tr) \<and> tr_Status tr \<noteq> ''''"

definition row_for :: "database \<Rightarrow> string \<Rightarrow> trade_row option" where
  "row_for d u = find (\<lambda>r. td_trade_uid r = u) (db_trades d)"

definition doc_status :: "trade_row \<Rightarrow> string" where
  "doc_status r = (case td_config r of Some j \<Rightarrow> tr_Status (trade_of_json j) | None \<Rightarrow> '''')"

definition mirror_db :: "string \<Rightarrow> MemoryStore \<Rightarrow> database \<Rightarrow> bool" where
  "mirror_db u m d \<longleftrightarrow> db_ok d \<and> (\<forall>n. \<not> db_fault d n) \<and>
     (\<forall>r. row_for d u = Some r \<longrightarrow> doc_status r \<noteq> '''' \<or> (\<exists>tr. gm_get (ms_trades m) u = Some tr \<and> \<not> lasting tr)) \<and>
     (\<forall>tr. gm_get (ms_trades m) u = Some tr \<longrightarrow> lasting tr \<longrightarrow> map_option hydrate_row (row_for d u) = Some tr)"

definition mirrored :: "string \<Rightarrow> store \<Rightarrow> bool" where
  "mirrored u s \<longleftrightarrow> mem_ok (store_mem s) \<and> (\<forall>d. dbFromHandlerStore s = Some d \<longrightarrow> mirror_db u (store_mem s) d)"

text \<open>A range over the trades gives nothing only when there is nothing.\<close>

definition fair_order :: "trade_order \<Rightarrow> bool" where
  "fair_order ord \<longleftrightarrow> (\<forall>kvs. ord kvs = [] \<longrightarrow> kvs = [])"

section \<open>Lemmas\<close>

lemma row_for_uid: "row_for d u = Some r \<Longrightarrow> td_trade_uid r = u"
  by (auto simp: row_for_def find_Some_iff)

lemma row_for_next [simp]: "row_for (db_next d) = row_for d"
  by (simp add: row_for_def db_next_def fun_eq_iff)

lemma row_for_cong: "db_trades d = db_trades d' \<Longrightarrow> row_for d = row_for d'"
  by (simp add: row_for_def fun_eq_iff)

lemma find_upsert_other: "u \<noteq> td_trade_uid r \<Longrightarrow> find (\<lambda>x. td_trade_uid x = u) (upsert_row r rows) = find (\<lambda>x. td_trade_uid x = u) rows"
  by (induction rows) auto

lemma mirror_db_same:
  assumes "mirror_db u m d" "db_trades d' = db_trades d" "db_fault d' = db_fault d" "db_ok d'" "ms_trades m' = ms_trades m"
  shows "mirror_db u m' d'"
  using assms row_for_cong [OF assms(2)] by (simp add: mirror_db_def)

lemma upsert_others:
  assumes "u \<noteq> tr_TradeUID tr"
  shows "row_for (sql_upsert_trade tr created d) u = row_for d u"
  using assms by (auto simp: row_for_def sql_upsert_trade_def find_upsert_other db_next_def split: option.split)

lemma upsert_own:
  assumes "lasting tr" "\<not> db_failed d"
  shows "\<exists>r. row_for (sql_upsert_trade tr created d) (tr_TradeUID tr) = Some r \<and> doc_status r = tr_Status tr \<and> hydrate_row r = tr"
proof -
  have ok: "trade_ok tr" "\<not> IsZero (tr_CreatedAt tr)" using assms(1) by (simp_all add: lasting_def)
  obtain j where j: "trade_json tr = Some j" "trade_of_json j = tr" using trade_roundtrip [OF ok(1)] by blast
  define row where "row = \<lparr>td_trade_uid = tr_TradeUID tr, td_user_id = tr_UserID tr, td_broker_name = tr_BrokerName tr,
    td_account_id = tr_AccountID tr, td_symbol = tr_Symbol tr, td_status = tr_Status tr,
    td_config = Some j, td_created_at = created\<rparr>"
  have h: "hydrate_row row = tr" "hydrate_row (row\<lparr>td_created_at := c\<rparr>) = tr" for c
    using hydrate_written [OF ok(1) j(1) ok(2)] by (simp_all add: row_def hydrate_row_def)
  have st: "doc_status row = tr_Status tr" "doc_status (row\<lparr>td_created_at := c\<rparr>) = tr_Status tr" for c
    by (simp_all add: row_def doc_status_def j(2))
  have "db_trades (sql_upsert_trade tr created d) = upsert_row row (db_trades d)"
    using assms(2) by (simp add: sql_upsert_trade_def j(1) row_def db_next_def)
  moreover have "td_trade_uid row = tr_TradeUID tr" by (simp add: row_def)
  ultimately show ?thesis using find_upsert_row [of row "db_trades d"] h st by (auto simp: row_for_def)
qed

lemma mirror_written:
  assumes m: "mirror_db u m d" and d': "d' = sql_upsert_trade tr created d"
    and m': "ms_trades m' = gm_set (tr_TradeUID tr) tr (ms_trades m)"
  shows "mirror_db u m' d'"
proof -
  have nf: "\<not> db_failed d" using m by (simp add: mirror_db_def db_failed_def)
  have ok: "db_ok d'" using m by (simp add: d' mirror_db_def)
  have fault: "db_fault d' = db_fault d" by (simp add: d' sql_upsert_trade_def db_next_def split: option.split)
  show ?thesis
  proof (cases "u = tr_TradeUID tr")
    case True
    have "doc_status r \<noteq> '''' \<or> \<not> lasting tr" if "row_for d' u = Some r" for r
    proof (cases "lasting tr")
      case lasts: True
      then have "tr_Status tr \<noteq> ''''" by (simp add: lasting_def)
      then show ?thesis using that upsert_own [OF lasts nf, of created] True by (auto simp: d')
    qed simp
    moreover have "lasting tr \<Longrightarrow> map_option hydrate_row (row_for d' u) = Some tr"
      using upsert_own [OF _ nf, of tr created] True by (auto simp: d')
    ultimately show ?thesis using m ok fault True by (auto simp: mirror_db_def m' gm_get_set)
  next
    case False
    then show ?thesis using m ok fault upsert_others [OF False] by (simp add: mirror_db_def m' gm_get_set d')
  qed
qed

lemma hydrated_uid: "db_ok d \<Longrightarrow> row_for d u = Some r \<Longrightarrow> tr_TradeUID (hydrate_row r) = u"
  using hydrate_row_uid [of d r] by (auto simp: row_for_def find_Some_iff dest!: nth_mem)

text \<open>A trade that memory does not have and that is loaded from its row.\<close>

lemma mirror_loaded:
  assumes "mirror_db u m d" "row_for d v = Some r" "gm_get (ms_trades m) v = None"
  shows "mirror_db u (Mem_SaveTrade (hydrate_row r) m) d"
proof -
  have v: "tr_TradeUID (hydrate_row r) = v" using assms by (auto simp: mirror_db_def intro: hydrated_uid)
  show ?thesis using assms by (cases "v = u") (auto simp: mirror_db_def mem_defs v gm_get_set)
qed

lemma find_key: "distinct (map f xs) \<Longrightarrow> x \<in> set xs \<Longrightarrow> find (\<lambda>y. f y = f x) xs = Some x"
  by (induction xs) force+

lemma row_for_member: "db_ok d \<Longrightarrow> r \<in> set (db_trades d) \<Longrightarrow> row_for d (td_trade_uid r) = Some r"
  by (simp add: row_for_def db_ok_def find_key)

lemma mirror_loaded_all:
  assumes "mirror_db u m d" "set rs \<subseteq> set (db_trades d)" "distinct (map td_trade_uid rs)" "\<forall>r\<in>set rs. gm_get (ms_trades m) (td_trade_uid r) = None"
  shows "mirror_db u (fold Mem_SaveTrade (map hydrate_row rs) m) d"
  using assms
proof (induction rs arbitrary: m)
  case (Cons r rs)
  have ok: "db_ok d" using Cons(2) by (simp add: mirror_db_def)
  have r: "row_for d (td_trade_uid r) = Some r" using row_for_member [OF ok] Cons(3) by simp
  have "mirror_db u (Mem_SaveTrade (hydrate_row r) m) d" using mirror_loaded [OF Cons(2) r] Cons(5) by simp
  moreover have "tr_TradeUID (hydrate_row r) = td_trade_uid r" by (rule hydrated_uid [OF ok r])
  then have "\<forall>x\<in>set rs. gm_get (ms_trades (Mem_SaveTrade (hydrate_row r) m)) (td_trade_uid x) = None"
    using Cons(4,5) by (auto simp: mem_defs gm_get_set) (metis image_eqI)
  ultimately show ?case using Cons by simp
qed simp

lemma db_frames:
  "db_trades (sql_insert_order u it d) = db_trades d" "db_fault (sql_insert_order u it d) = db_fault d"
  "db_trades (sql_insert_event i st re raw d) = db_trades d" "db_fault (sql_insert_event i st re raw d) = db_fault d"
  "db_trades (snd (sql_update_order iid upd d)) = db_trades d" "db_fault (snd (sql_update_order iid upd d)) = db_fault d"
  by (simp_all add: sql_insert_order_def sql_insert_event_def sql_update_order_def db_next_def Let_def split: option.split)

lemma mirrored_simps [simp]:
  "mirrored u (MemStore m) \<longleftrightarrow> mem_ok m"
  "mirrored u (PgStore p) \<longleftrightarrow> mem_ok (ps_mem p) \<and> (\<forall>d. ps_db p = Some d \<longrightarrow> mirror_db u (ps_mem p) d)"
  by (simp_all add: mirrored_def store_mem_def dbFromHandlerStore_def)

lemma mirror_next [simp]: "mirror_db u m (db_next d) \<longleftrightarrow> mirror_db u m d"
  by (simp add: mirror_db_def) (simp add: db_next_def)

lemma saved_trades: "ms_trades (Mem_SaveTrade tr m) = gm_set (tr_TradeUID tr) tr (ms_trades m)" "ms_trades (Mem_UpdateTrade tr m) = gm_set (tr_TradeUID tr) tr (ms_trades m)"
  by (simp_all add: mem_defs)

lemma mirrored_writes:
  assumes "mirrored u s"
  shows "mirrored u (SaveTrade now tr s)" "mirrored u (UpdateTrade now tr s)"
  using assms
  by (auto simp: SaveTrade_def UpdateTrade_def Pg_SaveTrade_def Pg_UpdateTrade_def upsertTrade_def Let_def saved_trades split: store.split option.split
      intro!: mirror_written [OF _ refl])

lemma mirrored_ok: "mirrored u s \<Longrightarrow> store_ok s"
  by (auto simp: mirrored_def mirror_db_def store_ok_def dbFromHandlerStore_def split: store.splits option.splits)

lemma mirrored_same:
  assumes "mirrored u s" "store_ok s'" "ms_trades (store_mem s') = ms_trades (store_mem s)"
    and "\<And>d'. dbFromHandlerStore s' = Some d' \<Longrightarrow> \<exists>d. dbFromHandlerStore s = Some d \<and> db_trades d' = db_trades d \<and> db_fault d' = db_fault d"
  shows "mirrored u s'"
  unfolding mirrored_def
proof (intro conjI allI impI)
  show "mem_ok (store_mem s')" using assms(2) by (rule store_ok_memory)
  fix d' assume d': "dbFromHandlerStore s' = Some d'"
  then obtain d where "dbFromHandlerStore s = Some d" "db_trades d' = db_trades d" "db_fault d' = db_fault d" using assms(4) by blast
  then show "mirror_db u (store_mem s') d'" using assms(1,3) db_ok_from [OF assms(2) d'] by (auto simp: mirrored_def intro: mirror_db_same)
qed

lemma update_order_frame: "sql_update_order iid upd d = (r, d') \<Longrightarrow> db_trades d' = db_trades d \<and> db_fault d' = db_fault d"
  using db_frames(5,6) [of iid upd d] by simp

lemma mirrored_append:
  assumes "mirrored u s"
  shows "mirrored u (AppendIntent now v it s)"
proof (rule mirrored_same [OF assms])
  show "store_ok (AppendIntent now v it s)" using assms by (simp add: mirrored_ok)
qed (auto simp: store_mem_def dbFromHandlerStore_def AppendIntent_def Pg_AppendIntent_def insertOrderIntent_def db_frames mem_defs
    split: store.splits option.splits)

lemma mirrored_mark:
  assumes "mirrored u s"
  shows "mirrored u (mark_execution i res s)"
proof (rule mirrored_same [OF assms])
  show "store_ok (mark_execution i res s)" using assms by (simp add: mirrored_ok)
qed (auto simp: store_mem_def dbFromHandlerStore_def mark_execution_def MarkOrderExecution_def Let_def db_frames
    split: store.splits option.splits prod.splits dest!: update_order_frame)

lemma LoadIntents_trades:
  "ms_trades (store_mem (snd (LoadIntents now u s))) = ms_trades (store_mem s)"
  "ps_db p = Some d \<Longrightarrow> \<exists>p' d'. snd (LoadIntents now u (PgStore p)) = PgStore p' \<and> ps_db p' = Some d'"
proof -
  have f: "ms_trades (fold (\<lambda>si. Mem_AppendIntent now u (si_Intent si)) sis m) = ms_trades m" for sis m
    by (induction sis arbitrary: m) (simp_all add: mem_defs)
  show "ms_trades (store_mem (snd (LoadIntents now u s))) = ms_trades (store_mem s)"
    by (auto simp: f store_mem_def LoadIntents_def Pg_LoadIntents_def loadIntentsFromDB_def Let_def split: store.splits option.splits prod.splits if_splits)
qed (auto simp: LoadIntents_def Pg_LoadIntents_def loadIntentsFromDB_def Let_def split: prod.split)

lemma mirrored_load_intents:
  assumes "mirrored u s"
  shows "mirrored u (snd (LoadIntents now v s))"
proof (rule mirrored_same [OF assms])
  show "store_ok (snd (LoadIntents now v s))" using assms by (intro store_ok_load_intents mirrored_ok)
  show "ms_trades (store_mem (snd (LoadIntents now v s))) = ms_trades (store_mem s)" by (rule LoadIntents_trades)
qed (auto simp: dbFromHandlerStore_def LoadIntents_def Pg_LoadIntents_def loadIntentsFromDB_def Let_def db_next_def
    split: store.splits option.splits prod.splits if_splits)

lemma mirrored_upd:
  "mirrored u s \<Longrightarrow> mem_ok (f (store_mem s)) \<Longrightarrow> ms_trades (f (store_mem s)) = ms_trades (store_mem s) \<Longrightarrow> mirrored u (store_upd f s)"
  by (auto simp: store_upd_def store_mem_def mirror_db_def split: store.split)

lemma mirrored_load: "mirrored u s \<Longrightarrow> mirrored u (snd (LoadTrade v s))"
  by (auto simp: LoadTrade_def Pg_LoadTrade_def loadTradeFromDB_def Mem_LoadTrade_def row_for_def [symmetric] mirror_loaded
      split: store.split option.split prod.split if_splits)

lemma mirrored_all:
  assumes "mirrored u s" "fair_order ord"
  shows "mirrored u (snd (AllTrades ord s))"
proof (cases "\<exists>p d. s = PgStore p \<and> ps_db p = Some d \<and> Mem_AllTrades ord (ps_mem p) = []")
  case False
  then show ?thesis using assms(1)
    by (auto simp: AllTrades_def Pg_AllTrades_def loadTradesFromDB_def Let_def split: store.split prod.split option.split)
next
  case True
  then obtain p d where p: "s = PgStore p" "ps_db p = Some d" "ms_trades (ps_mem p) = []" "Mem_AllTrades ord (ps_mem p) = []"
    using assms(2) by (auto simp: Mem_AllTrades_def fair_order_def)
  let ?sorted = "sort_key (\<lambda>r. - t_unix_micro (td_created_at r)) (db_trades d)"
  obtain n where n: "db_read d (take 200 ?sorted) = take n ?sorted" using db_read_take [of d "take 200 ?sorted"] by auto
  let ?rs = "take n ?sorted"
  have m: "mirror_db u (ps_mem p) d" "mem_ok (ps_mem p)" using assms(1) p by simp_all
  then have "distinct (map td_trade_uid (db_trades d))" by (simp add: mirror_db_def db_ok_def)
  then have "distinct (map td_trade_uid (sort_key (\<lambda>r. - t_unix_micro (td_created_at r)) (db_trades d)))"
    by (simp add: distinct_map)
  then have "distinct (map td_trade_uid ?rs)" by (simp add: take_map [symmetric])
  moreover have "set ?rs \<subseteq> set (db_trades d)" using set_take_subset [of n] by fastforce
  ultimately have "mirror_db u (fold Mem_SaveTrade (map hydrate_row ?rs) (ps_mem p)) d"
    using mirror_loaded_all [OF m(1)] p(3) by simp
  then show ?thesis using p m
    by (auto simp: AllTrades_def Pg_AllTrades_def loadTradesFromDB_def Let_def n mem_ok_fold_save split: prod.split)
qed

lemma mirrored_query: "mirrored u s \<Longrightarrow> dbFromHandlerStore s = Some d \<Longrightarrow> mirrored u (put_db (db_next d) s)"
  by (auto simp: put_db_def dbFromHandlerStore_def split: store.splits)

text \<open>The status column is read back only for a trade without a status.\<close>

lemma find_map: "find P (map f xs) = map_option f (find (\<lambda>x. P (f x)) xs)"
  by (induction xs) auto

lemma row_for_status: "row_for (sql_set_status u status d) v = map_option (\<lambda>r. if td_trade_uid r = u then r\<lparr>td_status := status\<rparr> else r) (row_for d v)"
proof -
  have "td_trade_uid (if td_trade_uid r = u then r\<lparr>td_status := status\<rparr> else r) = td_trade_uid r" for r :: trade_row by simp
  then show ?thesis by (simp add: row_for_def sql_set_status_def find_map db_next_def)
qed

lemma fill_field:
  "(if tr_TradeUID t = '''' then t\<lparr>tr_TradeUID := v\<rparr> else t) = t\<lparr>tr_TradeUID := if tr_TradeUID t = '''' then v else tr_TradeUID t\<rparr>"
  "(if tr_UserID t = '''' then t\<lparr>tr_UserID := v\<rparr> else t) = t\<lparr>tr_UserID := if tr_UserID t = '''' then v else tr_UserID t\<rparr>"
  "(if tr_BrokerName t = '''' then t\<lparr>tr_BrokerName := v\<rparr> else t) = t\<lparr>tr_BrokerName := if tr_BrokerName t = '''' then v else tr_BrokerName t\<rparr>"
  "(if tr_AccountID t = '''' then t\<lparr>tr_AccountID := v\<rparr> else t) = t\<lparr>tr_AccountID := if tr_AccountID t = '''' then v else tr_AccountID t\<rparr>"
  "(if tr_Symbol t = '''' then t\<lparr>tr_Symbol := v\<rparr> else t) = t\<lparr>tr_Symbol := if tr_Symbol t = '''' then v else tr_Symbol t\<rparr>"
  by simp_all

lemma hydrate_status: "doc_status r \<noteq> '''' \<Longrightarrow> hydrate_row (r\<lparr>td_status := status\<rparr>) = hydrate_row r"
  by (simp add: doc_status_def hydrate_row_def hydrateStoredTradeFromDB_def Let_def fill_field cong: if_cong split del: if_split split: option.splits)

lemma mirror_status:
  assumes m: "mirror_db u m d"
  shows "mirror_db u m (sql_set_status v status d)"
  unfolding mirror_db_def
proof (intro conjI allI impI)
  show "db_ok (sql_set_status v status d)" using m by (simp add: mirror_db_def sql_set_status_ok)
  show "\<not> db_fault (sql_set_status v status d) n" for n using m by (simp add: mirror_db_def sql_set_status_def db_next_def)
next
  fix r assume "row_for (sql_set_status v status d) u = Some r"
  then obtain r0 where "row_for d u = Some r0" "doc_status r = doc_status r0" by (auto simp: row_for_status doc_status_def split: if_splits)
  then show "doc_status r \<noteq> '''' \<or> (\<exists>tr. gm_get (ms_trades m) u = Some tr \<and> \<not> lasting tr)" using m by (auto simp: mirror_db_def)
next
  fix tr assume tr: "gm_get (ms_trades m) u = Some tr" "lasting tr"
  then obtain r where r: "row_for d u = Some r" "hydrate_row r = tr" using m by (fastforce simp: mirror_db_def)
  then have "doc_status r \<noteq> ''''" using m tr by (fastforce simp: mirror_db_def)
  then show "map_option hydrate_row (row_for (sql_set_status v status d) u) = Some tr" using r hydrate_status by (auto simp: row_for_status)
qed

lemma mirrored_status: "mirrored u s \<Longrightarrow> dbFromHandlerStore s = Some d \<Longrightarrow> mirrored u (put_db (sql_set_status v status d) s)"
  by (auto simp: put_db_def dbFromHandlerStore_def mirror_status split: store.splits)

lemmas mirrored_ops = mirrored_writes mirrored_append mirrored_mark mirrored_upd mirrored_load mirrored_all mirrored_load_intents
  mirrored_query mirrored_status store_ok_memory [OF mirrored_ok]

interpretation durable: store_property "mirrored u" fair_order for u
  by unfold_locales (fact mirrored_ops | erule mirrored_ops, assumption+)+


lemma mirror_start:
  assumes "db_ok d" "\<forall>n. \<not> db_fault d n" "\<forall>r. row_for d u = Some r \<longrightarrow> doc_status r \<noteq> ''''"
  shows "mirrored u (PgStore (NewPostgresBackedStore (Some d)))"
  using assms by (auto simp: NewPostgresBackedStore_def mirror_db_def NewMemoryStore_def mem_ok_def)

lemma gateway_store_db: "gateway_database bt = Some d \<Longrightarrow> w_store (gateway_main bt b) = PgStore (NewPostgresBackedStore (Some d))"
  by (simp add: gateway_main_def gateway_store_def)

lemma fresh_loads:
  "fst (LoadTrade u (PgStore (NewPostgresBackedStore (Some d)))) = (if db_failed d then None else map_option hydrate_row (row_for d u))"
  by (auto simp: LoadTrade_def Pg_LoadTrade_def NewPostgresBackedStore_def NewMemoryStore_def Mem_LoadTrade_def loadTradeFromDB_def row_for_def
      split: option.split)

lemma gateway_run_mirrored:
  assumes "mirrored u (gateway_store bt)" "\<forall>q\<in>set rs. fair_order (ge_trades (fst q))"
  shows "mirrored u (w_store (gateway_run bt rs b))"
  using durable.requests.guarded_run [where s = "gateway_main bt b" and svc = "gateway_service bt" and qs = rs and u = u] assms
  by (simp add: gateway_run_def gateway_main_def list_all_iff)

section \<open>Properties\<close>

text \<open>
  C14. Trades survive a restart of the gateway. A gateway starts on a database that does not fail and serves any
  sequence of requests; then a new process starts on the same database. A trade that the first process has at the
  end is loaded by the second one exactly as it was, out of the JSON document of its row, provided that its prices
  are finite, its times are clock readings and its creation time and status are set, and that the row it had
  when the first process started, if there was one, has a document with a status. The second process has
  no monitor for it: nothing watches the trade any more.
\<close>

theorem restart_keeps_trades:
  assumes "gateway_database bt = Some d" "db_ok d" "\<forall>n. \<not> db_fault d n" "\<forall>r. row_for d u = Some r \<longrightarrow> doc_status r \<noteq> ''''"
    and "\<forall>q\<in>set rs. fair_order (ge_trades (fst q))"
    and "dbFromHandlerStore (w_store (gateway_run bt rs b)) = Some d'" "gateway_database bt' = Some d'"
    and "store_trades (w_store (gateway_run bt rs b)) u = Some tr" "lasting tr"
  shows "fst (LoadTrade u (w_store (gateway_main bt' b'))) = Some tr \<and> LoadRuntime u (w_store (gateway_main bt' b')) = None"
proof -
  have "mirrored u (gateway_store bt)" using mirror_start [OF assms(2-4)] assms(1) by (simp add: gateway_store_def)
  then have "mirrored u (w_store (gateway_run bt rs b))" using assms(5) by (rule gateway_run_mirrored)
  then have m: "mirror_db u (store_mem (w_store (gateway_run bt rs b))) d'" using assms(6) by (simp add: mirrored_def)
  then have "\<not> db_failed d'" "map_option hydrate_row (row_for d' u) = Some tr"
    using assms(8,9) by (simp_all add: mirror_db_def db_failed_def store_trades_def mem_trades_def)
  then show ?thesis unfolding gateway_store_db [OF assms(7)] fresh_loads
    by (simp add: LoadRuntime_def store_mem_def NewPostgresBackedStore_def NewMemoryStore_def Mem_LoadRuntime_def)
qed

lemma reading_loads:
  assumes "gateway_database bt = Some d" "\<forall>n. \<not> db_fault d n" "db_ok d" "row_for d u = Some row"
    and "hr_Method q = ''GET''" "route_of (hr_Path q) = RStatus" "2 < length (path_parts q)" "path_parts q ! 2 = u"
  shows "\<exists>p d'. w_store (snd (serve env svc q (gateway_main bt b))) = PgStore p \<and> ps_db p = Some d' \<and> ms_trades (ps_mem p) = [(u, hydrate_row row)]"
proof -
  define p1 where "p1 = \<lparr>ps_mem = Mem_SaveTrade (hydrate_row row) NewMemoryStore, ps_db = Some (db_next d)\<rparr>"
  let ?now = "sv_clock svc (w_tick (gateway_main bt b))"
  have u: "tr_TradeUID (hydrate_row row) = u" by (rule hydrated_uid [OF assms(3,4)])
  have "LoadTrade u (w_store (gateway_main bt b)) = (Some (hydrate_row row), PgStore p1)"
    using assms(2,4) by (simp add: gateway_store_db [OF assms(1)] LoadTrade_def Pg_LoadTrade_def NewPostgresBackedStore_def Mem_LoadTrade_def
        loadTradeFromDB_def row_for_def NewMemoryStore_def db_failed_def p1_def)
  then have "w_store (snd (serve env svc q (gateway_main bt b))) = snd (LoadIntents ?now u (PgStore p1))"
    using assms(5-8) by (simp add: serve_def h_TradeStatus_def st_load_def load_intents_def time_Now_def split: prod.split)
  moreover have "ms_trades (store_mem (PgStore p1)) = [(u, hydrate_row row)]"
    by (simp add: p1_def store_mem_def saved_trades u NewMemoryStore_def gm_set_def)
  ultimately show ?thesis
    using LoadIntents_trades(1) [of ?now u "PgStore p1"] LoadIntents_trades(2) [of p1 "db_next d" ?now u] by (auto simp: p1_def store_mem_def)
qed

text \<open>
  C40. What the list of trades shows after a restart depends on what was read before. Asked first, it shows the
  latest two hundred trades of the database (the result of this query is read to its end); after a request for the status of one trade it shows only that one.
\<close>

theorem listing_depends_on_reads:
  assumes "gateway_database bt = Some d" "\<forall>n. \<not> db_fault d n" "db_ok d" "row_for d u = Some row"
    and "hr_Method q = ''GET''" "route_of (hr_Path q) = RStatus" "2 < length (path_parts q)" "path_parts q ! 2 = u"
    and "read_whole d" "hr_Method l = ''GET''" "route_of (hr_Path l) = RStraddles" "permutes_list (ge_trades env)"
  shows "fst (serve env svc l (gateway_main bt b)) =
      TradesReply (map hydrate_row (take 200 (sort_key (\<lambda>r. - t_unix_micro (td_created_at r)) (db_trades d)))) \<and>
    fst (serve env svc l (snd (serve env svc q (gateway_main bt b)))) = TradesReply [hydrate_row row]"
proof -
  have ord: "ge_trades env [] = []" "ge_trades env [kv] = [kv]" for kv
    using assms(12) [unfolded permutes_list_def, THEN spec, of "[]"] assms(12) [unfolded permutes_list_def, THEN spec, of "[kv]"] by simp_all
  obtain p where p: "w_store (snd (serve env svc q (gateway_main bt b))) = PgStore p" "ms_trades (ps_mem p) = [(u, hydrate_row row)]"
    using reading_loads [OF assms(1-8)] by blast
  have "fst (serve env svc l (gateway_main bt b)) = TradesReply (map hydrate_row (take 200 (sort_key (\<lambda>r. - t_unix_micro (td_created_at r)) (db_trades d))))"
    using assms(2,9-11) ord(1) by (simp add: db_read_def read_whole_def serve_def h_GetStraddles_def all_trades_def gateway_store_db [OF assms(1)] AllTrades_def Pg_AllTrades_def
        NewPostgresBackedStore_def NewMemoryStore_def Mem_AllTrades_def loadTradesFromDB_def db_failed_def)
  then show ?thesis using assms(10,11) ord(2) p
    by (simp add: serve_def [of env svc l] h_GetStraddles_def all_trades_def AllTrades_def Pg_AllTrades_def Mem_AllTrades_def)
qed

text \<open>The listener sends one order per readable message that came before it was cancelled, in their order.\<close>

lemma run_job_is_zmq_message:
  "run_jobs net (zmq_jobs clientID [(False, stamp b, Inr msg)]) (c, b) = zmq_message net clientID stamp msg (c, b)"
  by (cases msg) (simp_all add: run_jobs_def zmq_message_def Let_def split: option.split)

definition received :: "zmq_pass list \<Rightarrow> (string \<times> broker_OrderIntent) list" where
  "received passes = List.map_filter (\<lambda>(cancelled, stamp, msg). case msg of Inl _ \<Rightarrow> None | Inr doc \<Rightarrow> map_option (Pair stamp) (Option.bind doc decode_broker_intent))
     (takeWhile (\<lambda>p. \<not> fst p) passes)"

theorem listener_sends_each_message_once:
  "zmq_jobs clientID passes = map (\<lambda>(stamp, it). (zmq_intent clientID it, ''ZMQ_'' @ stamp)) (received passes)"
  by (induction clientID passes rule: zmq_jobs.induct)
    (auto simp: received_def List.map_filter_simps split: sum.split option.split)

text \<open>The gateway has three brokers, each under every spelling of its name; the simulator needs the database.\<close>

theorem gateway_brokers:
  "GetExecutor (gateway_factory bt cfg) userID name accountID g =
     (let key = ToUpper (TrimSpace name) in
      if key = ''GREEKSOFT'' then greek_registration bt cfg userID accountID g
      else if key = ''SIM'' then sim_registration bt userID accountID g
      else if key = ''XTS'' then xts_registration bt userID accountID g
      else (Inl (GoErr (if key = '''' then ''brokerName is required'' else ''unsupported broker '' @ name)), g))"
proof -
  have "ToUpper (TrimSpace ''GREEKSOFT'') = ''GREEKSOFT''" "ToUpper (TrimSpace ''SIM'') = ''SIM''" "ToUpper (TrimSpace ''XTS'') = ''XTS''"
    by code_simp+
  then show ?thesis
    by (auto simp: GetExecutor_def gateway_factory_def Register_def NewDefaultBrokerFactory_def Let_def gm_get_set)
qed

section \<open>Witnesses\<close>

definition boot_on :: "database \<Rightarrow> unit gateway_boot" where
  "boot_on d = \<lparr>gb_getenv = (\<lambda>k. if k = ''POSTGRES_DSN'' then ''dsn'' else ''''), gb_net = (\<lambda>c b. (HttpFail (GoErr ''unreachable''), b)),
     gb_md5 = id, gb_ctxErr = (\<lambda>_. None), gb_codec = \<lparr>cd_Marshal = (\<lambda>_. ''''), cd_Unmarshal = (\<lambda>_. None)\<rparr>, gb_gtokens = [], gb_nano = (\<lambda>_. 0),
     gb_clock = (\<lambda>_. day_time), gb_open = (\<lambda>_. Inr d), gb_Ping = (\<lambda>_. None), gb_NewSimExecutor = (\<lambda>d u a g. (Inl (GoErr ''closed''), g))\<rparr>"

definition two_trades :: database where
  "two_trades = sql_upsert_trade (plain_trade ''T2'') day_time (sql_upsert_trade (plain_trade ''T1'') day_time (empty_db (\<lambda>_. False) (\<lambda>_. day_time)))"

lemma plain_lasting: "lasting (plain_trade u)"
  using plain_trade_ok [of u] day_time_ok(2) by (simp add: lasting_def) (simp add: plain_trade_def)

definition plain_doc :: "string \<Rightarrow> json" where
  "plain_doc u = the (trade_json (plain_trade u))"

lemma plain_doc_facts: "trade_json (plain_trade u) = Some (plain_doc u)" "trade_of_json (plain_doc u) = plain_trade u"
  using trade_roundtrip [OF plain_trade_ok [of u]] by (auto simp: plain_doc_def)

definition plain_row :: "string \<Rightarrow> trade_row" where
  "plain_row u = \<lparr>td_trade_uid = u, td_user_id = '''', td_broker_name = '''', td_account_id = '''', td_symbol = '''', td_status = ''ACTIVE'',
     td_config = Some (plain_doc u), td_created_at = day_time\<rparr>"

lemma two_trades_rows: "db_trades two_trades = [plain_row ''T1'', plain_row ''T2'']"
proof -
  have "tr_TradeUID (plain_trade u) = u" "tr_UserID (plain_trade u) = ''''" "tr_BrokerName (plain_trade u) = ''''" "tr_AccountID (plain_trade u) = ''''"
    "tr_Symbol (plain_trade u) = ''''" "tr_Status (plain_trade u) = ''ACTIVE''" for u by (simp_all add: plain_trade_def zero_StoredTrade_def)
  then show ?thesis by (simp add: two_trades_def sql_upsert_trade_def plain_doc_facts db_failed_def empty_db_def db_next_def plain_row_def)
qed

lemma two_trades_ok: "db_ok two_trades" "\<forall>n. \<not> db_fault two_trades n" "read_whole two_trades"
proof -
  have "db_ok (empty_db f c)" for f c by (simp add: db_ok_def empty_db_def)
  then show "db_ok two_trades" by (simp add: two_trades_def)
  show "\<forall>n. \<not> db_fault two_trades n" "read_whole two_trades"
    by (simp_all add: read_whole_def two_trades_def sql_upsert_trade_def db_next_def empty_db_def split: option.split)
qed

lemma plain_row_hydrated: "hydrate_row (plain_row u) = plain_trade u"
  using hydrate_written [OF plain_trade_ok plain_doc_facts(1), of u day_time] plain_lasting [of u]
  by (simp add: lasting_def plain_row_def hydrate_row_def) (simp add: plain_trade_def zero_StoredTrade_def)

lemma two_trades_hydrated: "hydrate_row (hd (db_trades two_trades)) = plain_trade ''T1''" "hydrate_row (db_trades two_trades ! 1) = plain_trade ''T2''"
  by (simp_all add: two_trades_rows plain_row_hydrated)

lemma two_trades_row: "row_for two_trades ''T1'' = Some (hd (db_trades two_trades))"
  by (simp add: row_for_def two_trades_rows plain_row_def)

lemma two_trades_status: "\<forall>r. row_for two_trades ''T1'' = Some r \<longrightarrow> doc_status r \<noteq> ''''"
  using plain_lasting [of "''T1''"] by (simp add: two_trades_row two_trades_rows doc_status_def plain_row_def plain_doc_facts lasting_def)

lemma boot_database: "gateway_database (boot_on d) = Some d"
proof -
  have "TrimSpace ''dsn'' = ''dsn''" by code_simp
  then show ?thesis by (simp add: gateway_database_def boot_on_def)
qed

lemma sample_fair: "fair_order (ge_trades sample_env)"
  by (simp add: fair_order_def sample_env_def)

lemma get_method [simp]: "hr_Method (get_request path) = ''GET''"
  by (simp add: get_request_def)

lemma status_request: "route_of (hr_Path (get_request ''/api/trade/T1'')) = RStatus" "path_parts (get_request ''/api/trade/T1'') = [''api'', ''trade'', ''T1'']"
  "route_of (hr_Path (get_request ''/api/straddles'')) = RStraddles"
  by code_simp+

theorem restart_keeps_trades_witness:
  "\<exists>d'. dbFromHandlerStore (w_store (gateway_run (boot_on two_trades) [(sample_env, get_request ''/api/trade/T1'')] ())) = Some d' \<and>
     fst (LoadTrade ''T1'' (w_store (gateway_main (boot_on d') ()))) = Some (plain_trade ''T1'')"
proof -
  let ?w = "gateway_run (boot_on two_trades) [(sample_env, get_request ''/api/trade/T1'')] ()"
  obtain p d' where p: "w_store ?w = PgStore p" "ps_db p = Some d'" "ms_trades (ps_mem p) = [(''T1'', plain_trade ''T1'')]"
    using reading_loads [OF boot_database two_trades_ok(2,1) two_trades_row _ status_request(1), of sample_env "gateway_service (boot_on two_trades)" "()"]
    by (auto simp: gateway_run_def status_request two_trades_hydrated)
  then have "dbFromHandlerStore (w_store ?w) = Some d'" "store_trades (w_store ?w) ''T1'' = Some (plain_trade ''T1'')"
    by (simp_all add: dbFromHandlerStore_def store_trades_def store_mem_def mem_trades_def gm_get_def)
  with restart_keeps_trades [OF boot_database two_trades_ok(1,2) two_trades_status _ _ boot_database _ plain_lasting] show ?thesis by (force simp: sample_fair)
qed

theorem listing_depends_on_reads_witness:
  "let w = gateway_main (boot_on two_trades) (); svc = gateway_service (boot_on two_trades) in
   fst (serve sample_env svc (get_request ''/api/straddles'') w) = TradesReply [plain_trade ''T1'', plain_trade ''T2''] \<and>
   fst (serve sample_env svc (get_request ''/api/straddles'') (snd (serve sample_env svc (get_request ''/api/trade/T1'') w))) = TradesReply [plain_trade ''T1'']"
proof -
  have "map hydrate_row (take 200 (sort_key (\<lambda>r. - t_unix_micro (td_created_at r)) (db_trades two_trades))) = [plain_trade ''T1'', plain_trade ''T2'']"
    using two_trades_hydrated by (simp add: two_trades_rows plain_row_def)
  with listing_depends_on_reads [OF boot_database two_trades_ok(2,1) two_trades_row, of "get_request ''/api/trade/T1''" "get_request ''/api/straddles''" sample_env]
  show ?thesis by (simp add: status_request two_trades_hydrated two_trades_ok) (simp add: sample_env_def permutes_list_def)
qed

end
