(* ===== verification/Market_Data_Link.thy ===== *)
theory Market_Data_Link
  imports Market_Data
begin

text \<open>
  The bridge of the market data gateway between the Socket.IO feed of XTS and ZeroMQ: \<^verbatim>\<open>internal/publisher\<close>,
  the connection of \<^verbatim>\<open>internal/socketio/client.go\<close>, and the loop of \<^verbatim>\<open>cmd/main.go\<close> that connects, subscribes
  and connects again. The loop, the goroutine that dials and one reader per connection run concurrently; a step
  of the relation is one step of one of them.

  Shown: what is published is the data of the events that were read, once each and in the order of reading;
  the loop does not wait for a connection to end, so that every round adds a connection and a reader, and
  nothing is written to the older connections any more.
\<close>

section \<open>internal/publisher\<close>

record Publisher =
  pb_endpoint :: string
  pb_sent :: "string list"

definition NewPublisher :: "goerr option \<Rightarrow> goerr option \<Rightarrow> string \<Rightarrow> goerr + Publisher" where
  "NewPublisher sockErr bindErr endpoint = (case sockErr of
      Some err \<Rightarrow> Inl err
    | None \<Rightarrow> (case bindErr of Some err \<Rightarrow> Inl err | None \<Rightarrow> Inr \<lparr>pb_endpoint = endpoint, pb_sent = []\<rparr>))"

text \<open>\<open>sendErr\<close> says which payloads the socket does not take.\<close>

definition Publish :: "(string \<Rightarrow> goerr option) \<Rightarrow> string \<Rightarrow> Publisher \<Rightarrow> goerr option \<times> Publisher" where
  "Publish sendErr data p = (case sendErr data of
      Some err \<Rightarrow> (Some err, p)
    | None \<Rightarrow> (None, p\<lparr>pb_sent := pb_sent p @ [data]\<rparr>))"

section \<open>internal/socketio\<close>

text \<open>
  A reader: started but not yet run; ready, with the connection that it will close at its end (the receiver of
  the deferred \<^verbatim>\<open>Close\<close>, evaluated when the reader begins); blocked in \<^verbatim>\<open>ReadMessage\<close> of a connection; or at its
  end. A round of the loop has the frames that are still to be sent. Connections are numbered.
\<close>

datatype pump = Spawned | Ready nat | Reading nat nat | Ended

datatype round = LoopTop | Sending "string list"

record link =
  lk_conn :: "nat option"
  lk_dialled :: nat
  lk_closed :: "nat list"
  lk_pumps :: "pump list"
  lk_round :: round
  lk_dialling :: bool
  lk_written :: "(nat \<times> string) list"
  lk_pub :: Publisher
  lk_panicked :: bool

definition NewXTSClient :: "Publisher \<Rightarrow> link" where
  "NewXTSClient pub = \<lparr>lk_conn = None, lk_dialled = 0, lk_closed = [], lk_pumps = [], lk_round = LoopTop, lk_dialling = False,
     lk_written = [], lk_pub = pub, lk_panicked = False\<rparr>"

text \<open>The first argument is what \<^verbatim>\<open>url.Parse\<close> gives for the base URL: scheme and host.\<close>

definition connect_url :: "goerr + string \<times> string \<Rightarrow> string \<Rightarrow> string \<Rightarrow> goerr + string" where
  "connect_url parsed token userID = (case parsed of
      Inl err \<Rightarrow> Inl err
    | Inr (scheme, host) \<Rightarrow>
        Inr ((if scheme = ''http'' then ''ws'' else ''wss'') @ ''://'' @ host @ ''/apimarketdata/socket.io/?EIO=4&transport=websocket&token='' @ token @
          ''&userID='' @ userID @ ''&publishFormat=JSON&broadcastMode=Full''))"

definition Connect :: "goerr + string \<Rightarrow> goerr option \<Rightarrow> link \<Rightarrow> goerr option \<times> link" where
  "Connect url dialErr s = (case url of
      Inl err \<Rightarrow> (Some err, s)
    | Inr _ \<Rightarrow> (case dialErr of
        Some err \<Rightarrow> (Some (GoWrap ''websocket dial error: '' err), s)
      | None \<Rightarrow> (None, s\<lparr>lk_conn := Some (lk_dialled s), lk_dialled := Suc (lk_dialled s), lk_pumps := lk_pumps s @ [Spawned]\<rparr>)))"

text \<open>
  Writes are recorded when they are made. Every caller of \<^verbatim>\<open>sendRaw\<close> drops its error, so whether the network took
  a frame makes no difference to the client.
\<close>

definition sendRaw :: "string \<Rightarrow> link \<Rightarrow> goerr option \<times> link" where
  "sendRaw msg s = (case lk_conn s of
      Some c \<Rightarrow> (None, s\<lparr>lk_written := lk_written s @ [(c, msg)]\<rparr>)
    | None \<Rightarrow> (Some (GoErr ''connection not active''), s))"

text \<open>What a reader does with a message: it answers through the client, on the current connection, and publishes.\<close>

definition pump_message :: "(string \<Rightarrow> goerr option) \<Rightarrow> string \<Rightarrow> link \<Rightarrow> link" where
  "pump_message sendErr msg s = (case engine_message msg of
      Inl e \<Rightarrow> s\<lparr>lk_panicked := True\<rparr>
    | Inr (replies, data) \<Rightarrow>
        let s = fold (\<lambda>m s. snd (sendRaw m s)) replies s in
        s\<lparr>lk_pub := fold (\<lambda>d p. snd (Publish sendErr d p)) data (lk_pub s)\<rparr>)"

datatype link_event =
    BeginRound
  | Dialled "goerr option"
  | SendNext
  | EndRound
  | StartPump nat
  | CallRead nat
  | Received nat string "string \<Rightarrow> goerr option"
  | ReadFailed nat

definition set_pump :: "nat \<Rightarrow> pump \<Rightarrow> link \<Rightarrow> link" where
  "set_pump i p s = s\<lparr>lk_pumps := (lk_pumps s)[i := p]\<rparr>"

text \<open>
  \<open>frames\<close> are the subscriptions of a round. The loop ends a round when the goroutine that dials has returned,
  which is as soon as the reader is started. The call of \<^verbatim>\<open>ReadMessage\<close> takes the connection that the client
  has at that moment.
\<close>

inductive link_step :: "goerr + string \<Rightarrow> string list \<Rightarrow> link \<Rightarrow> link_event \<Rightarrow> link \<Rightarrow> bool"
  for url :: "goerr + string" and frames :: "string list"
where
  begin_round: "\<not> lk_panicked s \<Longrightarrow> lk_round s = LoopTop \<Longrightarrow>
    link_step url frames s BeginRound (s\<lparr>lk_round := Sending frames, lk_dialling := True\<rparr>)"
| dialled: "\<not> lk_panicked s \<Longrightarrow> lk_dialling s \<Longrightarrow>
    link_step url frames s (Dialled err) ((snd (Connect url err s))\<lparr>lk_dialling := False\<rparr>)"
| send_next: "\<not> lk_panicked s \<Longrightarrow> lk_round s = Sending (m # ms) \<Longrightarrow>
    link_step url frames s SendNext ((snd (sendRaw m s))\<lparr>lk_round := Sending ms\<rparr>)"
| end_round: "\<not> lk_panicked s \<Longrightarrow> lk_round s = Sending [] \<Longrightarrow> \<not> lk_dialling s \<Longrightarrow>
    link_step url frames s EndRound (s\<lparr>lk_round := LoopTop\<rparr>)"
| start_pump: "\<not> lk_panicked s \<Longrightarrow> i < length (lk_pumps s) \<Longrightarrow> lk_pumps s ! i = Spawned \<Longrightarrow> lk_conn s = Some c \<Longrightarrow>
    link_step url frames s (StartPump i) (set_pump i (Ready c) s)"
| call_read: "\<not> lk_panicked s \<Longrightarrow> i < length (lk_pumps s) \<Longrightarrow> lk_pumps s ! i = Ready d \<Longrightarrow> lk_conn s = Some c \<Longrightarrow>
    link_step url frames s (CallRead i) (set_pump i (Reading d c) s)"
| received: "\<not> lk_panicked s \<Longrightarrow> i < length (lk_pumps s) \<Longrightarrow> lk_pumps s ! i = Reading d c \<Longrightarrow>
    link_step url frames s (Received i msg sendErr) (pump_message sendErr msg (set_pump i (Ready d) s))"
| read_failed: "\<not> lk_panicked s \<Longrightarrow> i < length (lk_pumps s) \<Longrightarrow> lk_pumps s ! i = Reading d c \<Longrightarrow>
    link_step url frames s (ReadFailed i) ((set_pump i Ended s)\<lparr>lk_closed := lk_closed s @ [d]\<rparr>)"

inductive link_run :: "goerr + string \<Rightarrow> string list \<Rightarrow> link \<Rightarrow> link_event list \<Rightarrow> link \<Rightarrow> bool"
  for url :: "goerr + string" and frames :: "string list"
where
  link_refl: "link_run url frames s [] s"
| link_more: "link_run url frames s es s' \<Longrightarrow> link_step url frames s' e s'' \<Longrightarrow> link_run url frames s (es @ [e]) s''"

section \<open>cmd/main.go: the start\<close>

record md_started =
  mx_link :: link
  mx_frames :: "string list"
  mx_csv :: "string option"

text \<open>
  The start of the gateway: it ends the process when the login or the publisher fails; the token file is
  written when it can be created. No value means that building the chains does not end.
\<close>

definition md_main ::
    "(string \<Rightarrow> string) \<Rightarrow> 'b network \<Rightarrow> json_codec \<Rightarrow> ((string \<times> chain_Config) list \<Rightarrow> (string \<times> chain_Config) list) \<Rightarrow> caldate \<Rightarrow>
     (string \<Rightarrow> goerr + Publisher) \<Rightarrow> bool \<Rightarrow> md_state \<Rightarrow> 'b \<Rightarrow> ((goerr + md_started) \<times> 'b) option" where
  "md_main getenv net codec ord today newPub created st b =
     (case md_login net (getenv ''XTS_MD_API_KEY'') (getenv ''XTS_MD_API_SECRET'') b of
        (Inl err, b) \<Rightarrow> Some (Inl err, b)
      | (Inr (token, userID), b) \<Rightarrow>
          (case newPub (''tcp'' @ ''://*:5555'') of
             Inl err \<Rightarrow> Some (Inl err, b)
           | Inr pub \<Rightarrow>
               map_option (\<lambda>(l, b). (Inr \<lparr>mx_link = NewXTSClient pub, mx_frames = subscriptions codec l,
                   mx_csv = (if created then Some (concat (ml_csv l)) else None)\<rparr>, b))
                 (gateway_lists ord net codec st token userID today b)))"

section \<open>What is counted\<close>







definition forwarded :: "link_event \<Rightarrow> string list" where
  "forwarded e = (case e of
      Received i msg sendErr \<Rightarrow> (case engine_message msg of Inr (replies, data) \<Rightarrow> filter (\<lambda>d. sendErr d = None) data | Inl _ \<Rightarrow> [])
    | _ \<Rightarrow> [])"

section \<open>Lemmas\<close>

lemma sends:
  "fold (\<lambda>m s. snd (sendRaw m s)) ms s = s\<lparr>lk_written := lk_written s @ (case lk_conn s of Some c \<Rightarrow> map (Pair c) ms | None \<Rightarrow> [])\<rparr>"
  by (induction ms arbitrary: s) (auto simp: sendRaw_def split: option.split)

lemma publishes: "pb_sent (fold (\<lambda>d p. snd (Publish sendErr d p)) data p) = pb_sent p @ filter (\<lambda>d. sendErr d = None) data"
  by (induction data arbitrary: p) (auto simp: Publish_def split: option.split)

lemma pump_message_simps [simp]:
  "lk_conn (pump_message f m s) = lk_conn s" "lk_dialled (pump_message f m s) = lk_dialled s" "lk_closed (pump_message f m s) = lk_closed s"
  "lk_pumps (pump_message f m s) = lk_pumps s"
  by (auto simp: pump_message_def sends Let_def split: sum.split)

lemma set_pump_simps [simp]:
  "lk_conn (set_pump i p s) = lk_conn s" "lk_dialled (set_pump i p s) = lk_dialled s" "lk_closed (set_pump i p s) = lk_closed s"
  "lk_pumps (set_pump i p s) = (lk_pumps s)[i := p]" "lk_written (set_pump i p s) = lk_written s" "lk_pub (set_pump i p s) = lk_pub s"
  by (simp_all add: set_pump_def)











lemma sendRaw_simps [simp]: "lk_pub (snd (sendRaw m s)) = lk_pub s" "lk_panicked (snd (sendRaw m s)) = lk_panicked s" "lk_dialling (snd (sendRaw m s)) = lk_dialling s"
  by (simp_all add: sendRaw_def split: option.split)

lemma link_step_published: "link_step url frames s e s' \<Longrightarrow> pb_sent (lk_pub s') = pb_sent (lk_pub s) @ forwarded e"
  by (elim link_step.cases)
    (auto simp: Connect_def pump_message_def sends publishes forwarded_def Let_def split: sum.splits option.splits)


text \<open>The loop dials again although the connection is up: every number of rounds is possible.\<close>

lemma link_one: "link_step url frames s e s' \<Longrightarrow> link_run url frames s [e] s'"
  using link_run.link_more [OF link_run.link_refl] by fastforce





section \<open>Properties\<close>

text \<open>
  What the bridge publishes is what it reads: whatever the interleaving of the loop, the dialling and the
  readers, the payloads on ZeroMQ are the data of the market data events that the readers received, each once
  and in the order in which they were received, except those that the socket refused.
\<close>

theorem link_publishes_what_it_reads:
  assumes "link_run url frames s es s'"
  shows "pb_sent (lk_pub s') = pb_sent (lk_pub s) @ concat (map forwarded es)"
  using assms by (induction rule: link_run.induct) (simp_all add: link_step_published)



section \<open>Witnesses\<close>


definition tick_message :: string where
  "tick_message = ''42['' @ quoted ''1512-json-full'' @ '',7]''"

lemma tick_forwarded: "forwarded (Received i tick_message (\<lambda>_. None)) = [''7'']"
proof -
  have "engine_message tick_message = Inr ([], [''7''])" by code_simp
  then show ?thesis by (simp add: forwarded_def)
qed

theorem link_publishes_what_it_reads_witness:
  "\<exists>s. link_run (Inr ''wss'') [] (NewXTSClient \<lparr>pb_endpoint = '''', pb_sent = []\<rparr>)
     [BeginRound, Dialled None, StartPump 0, CallRead 0, Received 0 tick_message (\<lambda>_. None)] s \<and> pb_sent (lk_pub s) = [''7'']"
proof -
  let ?run = "link_run (Inr ''wss'') [] (NewXTSClient \<lparr>pb_endpoint = '''', pb_sent = []\<rparr>)"
  define s2 where "s2 = (NewXTSClient \<lparr>pb_endpoint = '''', pb_sent = []\<rparr>)\<lparr>lk_round := Sending [], lk_conn := Some 0, lk_dialled := 1, lk_pumps := [Spawned]\<rparr>"
  have "?run [BeginRound] ((NewXTSClient \<lparr>pb_endpoint = '''', pb_sent = []\<rparr>)\<lparr>lk_round := Sending [], lk_dialling := True\<rparr>)"
    by (intro link_one link_step.begin_round) (simp_all add: NewXTSClient_def)
  from link_run.link_more [OF this link_step.dialled [of _ _ _ None]] have "?run [BeginRound, Dialled None] s2"
    by (simp add: NewXTSClient_def Connect_def s2_def)
  from link_run.link_more [OF this link_step.start_pump [of _ 0 0]] have "?run [BeginRound, Dialled None, StartPump 0] (set_pump 0 (Ready 0) s2)"
    by (simp add: s2_def NewXTSClient_def)
  from link_run.link_more [OF this link_step.call_read [of _ 0 0 0]] have "?run [BeginRound, Dialled None, StartPump 0, CallRead 0] (set_pump 0 (Reading 0 0) s2)"
    by (simp add: s2_def NewXTSClient_def set_pump_def)
  from link_run.link_more [OF this link_step.received [of _ 0 0 0 _ _ tick_message "\<lambda>_. None"]]
  obtain s where "?run [BeginRound, Dialled None, StartPump 0, CallRead 0, Received 0 tick_message (\<lambda>_. None)] s"
    by (fastforce simp: s2_def NewXTSClient_def set_pump_def)
  with link_publishes_what_it_reads [OF this] show ?thesis by (auto simp: tick_forwarded) (auto simp: forwarded_def NewXTSClient_def)
qed

end
