(* ===== verification/Snapshot_Process.thy ===== *)
theory Snapshot_Process
  imports Snapshot_Service "HOL-Library.Sublist"
begin

text \<open>
  The snapshot service as a process, \<^verbatim>\<open>cmd/main.go\<close>: the goroutines of the feed, of the push requests, of the
  web-socket connections and of the hub, which meet in the channels of the hub. The channel for broadcasts holds
  5000 messages, and a send to a full one waits; the channels for registering have no buffer, so that a send
  and its receipt are one step. Start-up errors end the process.

  Shown: whatever the interleaving, every client receives an unbroken part of the stream of broadcasts in its
  order, the channel never holds more than 5000 messages, and no connection is closed twice.
\<close>

section \<open>cmd/main.go: the process\<close>

text \<open>
  The messages that the feed and each push request have still to send; the channel; connections are numbered,
  some wait to be registered, have a reader, or wait to be unregistered.
\<close>

record snapshot_proc =
  sn_cache :: "(string, ChainCacheEntry) gomap"
  sn_feed :: "json list"
  sn_pushes :: "json list list"
  sn_queue :: "json list"
  sn_hub :: hub
  sn_conns :: nat
  sn_joining :: "nat list"
  sn_readers :: "nat list"
  sn_leaving :: "nat list"

definition broadcast_size :: nat where
  "broadcast_size = 5000"

definition snapshot_proc_start :: snapshot_proc where
  "snapshot_proc_start = \<lparr>sn_cache = [], sn_feed = [], sn_pushes = [], sn_queue = [], sn_hub = newHub, sn_conns = 0,
     sn_joining = [], sn_readers = [], sn_leaving = []\<rparr>"

definition feed_received :: "gotime \<Rightarrow> json option \<Rightarrow> snapshot_proc \<Rightarrow> snapshot_proc" where
  "feed_received now msg s =
     (let st = on_chain_message now msg \<lparr>ss_cache = sn_cache s, ss_broadcast = []\<rparr> in s\<lparr>sn_cache := ss_cache st, sn_feed := ss_broadcast st\<rparr>)"

definition push_received :: "string \<Rightarrow> goerr + json \<Rightarrow> snapshot_proc \<Rightarrow> snapshot_proc" where
  "push_received meth body s =
     (let st = snd (push_snapshots meth body \<lparr>ss_cache = sn_cache s, ss_broadcast = []\<rparr>) in s\<lparr>sn_pushes := sn_pushes s @ [ss_broadcast st]\<rparr>)"

definition handleWS :: "goerr option \<Rightarrow> snapshot_proc \<Rightarrow> snapshot_proc" where
  "handleWS upgradeErr s = (case upgradeErr of
      Some err \<Rightarrow> s
    | None \<Rightarrow> s\<lparr>sn_joining := sn_joining s @ [sn_conns s], sn_conns := Suc (sn_conns s)\<rparr>)"

definition snapshot_health :: json where
  "snapshot_health = JObj [(''db_status'', JStr ''connected''), (''socket_connected'', JBool True), (''status'', JStr ''ok'')]"

text \<open>The four calls that set the subscription up; the first that fails ends the process.\<close>

definition snapshot_boot :: "goerr option \<Rightarrow> goerr option \<Rightarrow> goerr option \<Rightarrow> goerr option \<Rightarrow> goerr + snapshot_proc" where
  "snapshot_boot ctxErr sockErr connectErr subErr =
     (case List.map_filter id [ctxErr, sockErr, connectErr, subErr] of err # _ \<Rightarrow> Inl err | [] \<Rightarrow> Inr snapshot_proc_start)"

datatype snapshot_event =
    FeedMessage gotime "json option"
  | PushRequest string "goerr + json"
  | FeedSend json
  | PushSend nat json
  | WsRequest "goerr option"
  | HubJoin nat
  | ReaderEnds nat
  | HubLeave nat
  | HubDeliver "nat list \<Rightarrow> nat list" "nat \<Rightarrow> bool"

inductive snapshot_step :: "snapshot_proc \<Rightarrow> snapshot_event \<Rightarrow> snapshot_proc \<Rightarrow> bool" where
  feed_message: "sn_feed s = [] \<Longrightarrow> snapshot_step s (FeedMessage now msg) (feed_received now msg s)"
| push_request: "snapshot_step s (PushRequest meth body) (push_received meth body s)"
| feed_send: "sn_feed s = m # ms \<Longrightarrow> length (sn_queue s) < broadcast_size \<Longrightarrow>
    snapshot_step s (FeedSend m) (s\<lparr>sn_feed := ms, sn_queue := sn_queue s @ [m]\<rparr>)"
| push_send: "i < length (sn_pushes s) \<Longrightarrow> sn_pushes s ! i = m # ms \<Longrightarrow> length (sn_queue s) < broadcast_size \<Longrightarrow>
    snapshot_step s (PushSend i m) (s\<lparr>sn_pushes := (sn_pushes s)[i := ms], sn_queue := sn_queue s @ [m]\<rparr>)"
| ws_request: "snapshot_step s (WsRequest err) (handleWS err s)"
| hub_join: "c \<in> set (sn_joining s) \<Longrightarrow>
    snapshot_step s (HubJoin c) (s\<lparr>sn_joining := removeAll c (sn_joining s), sn_hub := hub_step (\<lambda>xs. xs) (sn_hub s) (HubRegister c), sn_readers := sn_readers s @ [c]\<rparr>)"
| reader_ends: "c \<in> set (sn_readers s) \<Longrightarrow>
    snapshot_step s (ReaderEnds c) (s\<lparr>sn_readers := removeAll c (sn_readers s), sn_leaving := sn_leaving s @ [c]\<rparr>)"
| hub_leave: "c \<in> set (sn_leaving s) \<Longrightarrow>
    snapshot_step s (HubLeave c) (s\<lparr>sn_leaving := removeAll c (sn_leaving s), sn_hub := hub_step (\<lambda>xs. xs) (sn_hub s) (HubUnregister c)\<rparr>)"
| hub_deliver: "sn_queue s = m # ms \<Longrightarrow> permutes_list ord \<Longrightarrow>
    snapshot_step s (HubDeliver ord ok) (s\<lparr>sn_queue := ms, sn_hub := hub_step ord (sn_hub s) (HubBroadcast m ok)\<rparr>)"

inductive snapshot_run :: "snapshot_event list \<Rightarrow> snapshot_proc \<Rightarrow> bool" where
  run_start: "snapshot_run [] snapshot_proc_start"
| run_step: "snapshot_run es s \<Longrightarrow> snapshot_step s e s' \<Longrightarrow> snapshot_run (es @ [e]) s'"

section \<open>The stream\<close>

text \<open>What was sent into the channel, what a client received, and the invariant that connects them.\<close>

definition stream :: "snapshot_event list \<Rightarrow> json list" where
  "stream es = List.map_filter (\<lambda>e. case e of FeedSend m \<Rightarrow> Some m | PushSend i m \<Rightarrow> Some m | _ \<Rightarrow> None) es"

definition received :: "nat \<Rightarrow> hub \<Rightarrow> json list" where
  "received c h = map snd (filter (\<lambda>x. fst x = c) (hub_sent h))"

definition proc_ok :: "json list \<Rightarrow> snapshot_proc \<Rightarrow> bool" where
  "proc_ok sent s \<longleftrightarrow> length (sn_queue s) \<le> broadcast_size \<and>
     distinct (sn_joining s) \<and> set (sn_joining s) \<subseteq> {..<sn_conns s} \<and>
     hub_ok ({..<sn_conns s} - set (sn_joining s)) (sn_hub s) \<and>
     fst ` set (hub_sent (sn_hub s)) \<subseteq> {..<sn_conns s} - set (sn_joining s) \<and>
     (\<exists>taken. sent = taken @ sn_queue s \<and>
        (\<forall>c\<in>set (hub_clients (sn_hub s)). suffix (received c (sn_hub s)) taken) \<and> (\<forall>c. sublist (received c (sn_hub s)) taken))"

section \<open>Lemmas\<close>

lemma received_broadcast:
  assumes "permutes_list ord" "distinct (hub_clients h)"
  shows "received c (hub_step ord h (HubBroadcast m ok)) = received c h @ (if c \<in> set (hub_clients h) \<and> ok c then [m] else [])"
proof -
  have d: "distinct (ord (hub_clients h))" "set (ord (hub_clients h)) = set (hub_clients h)"
    using assms by (simp_all add: permutes_list_distinct permutes_list_set)
  have "map snd (filter (\<lambda>x. fst x = c) (map (\<lambda>c. (c, m)) cs)) = (if c \<in> set cs then [m] else [])" if "distinct cs" for cs
    using that by (induction cs) auto
  from this [of "filter ok (ord (hub_clients h))"] d show ?thesis
    unfolding hub_broadcast [OF assms] by (simp add: received_def)
qed

lemma hub_step_sent: "hub_sent (hub_step ord h (HubRegister c)) = hub_sent h" "hub_sent (hub_step ord h (HubUnregister c)) = hub_sent h"
  by (simp_all add: hub_step_def)

lemma stream_append: "stream (es @ [e]) = stream es @ (case e of FeedSend m \<Rightarrow> [m] | PushSend i m \<Rightarrow> [m] | _ \<Rightarrow> [])"
  by (simp add: stream_def map_filter_def split: snapshot_event.split)

lemma proc_ok_taken:
  assumes "proc_ok sent s"
  obtains taken where "sent = taken @ sn_queue s" "\<And>c. c \<in> set (hub_clients (sn_hub s)) \<Longrightarrow> suffix (received c (sn_hub s)) taken"
    "\<And>c. sublist (received c (sn_hub s)) taken"
  using assms by (auto simp: proc_ok_def)

lemma deliver_ok:
  assumes ok: "proc_ok sent s" and q: "sn_queue s = m # ms" and p: "permutes_list ord"
  shows "proc_ok sent (s\<lparr>sn_queue := ms, sn_hub := hub_step ord (sn_hub s) (HubBroadcast m good)\<rparr>)"
proof -
  let ?h = "sn_hub s" and ?h' = "hub_step ord (sn_hub s) (HubBroadcast m good)"
  obtain taken where t: "sent = taken @ m # ms" "\<And>c. c \<in> set (hub_clients ?h) \<Longrightarrow> suffix (received c ?h) taken" "\<And>c. sublist (received c ?h) taken"
    using proc_ok_taken [OF ok] q by metis
  have hok: "hub_ok ({..<sn_conns s} - set (sn_joining s)) ?h" and d: "distinct (hub_clients ?h)" using ok by (auto simp: proc_ok_def hub_ok_def)
  have cl: "hub_clients ?h' = filter good (hub_clients ?h)" "hub_sent ?h' = hub_sent ?h @ map (\<lambda>c. (c, m)) (filter good (ord (hub_clients ?h)))"
    by (simp_all add: hub_broadcast [OF p d])
  have "suffix (received c ?h') (taken @ [m])" if "c \<in> set (hub_clients ?h')" for c
    using t(2) [of c] that by (simp add: received_broadcast [OF p d] cl)
  moreover have "sublist (received c ?h') (taken @ [m])" for c
    using t(2,3) [of c] by (auto simp: received_broadcast [OF p d] intro: sublist_order.order_trans [OF _ sublist_append_rightI])
  moreover have "hub_ok ({..<sn_conns s} - set (sn_joining s)) ?h'" using hub_step_ok [OF p hok, of "HubBroadcast m good"] by simp
  moreover have "fst ` set (hub_sent ?h') \<subseteq> {..<sn_conns s} - set (sn_joining s)"
    using ok hok by (auto simp: proc_ok_def cl permutes_list_set [OF p] hub_ok_def)
  ultimately show ?thesis using ok q t(1) unfolding proc_ok_def by (intro conjI exI [of _ "taken @ [m]"]) (simp_all del: suffix_snoc)
qed

lemma join_ok:
  assumes ok: "proc_ok sent s" and c: "c \<in> set (sn_joining s)"
  shows "proc_ok sent (s\<lparr>sn_joining := removeAll c (sn_joining s), sn_hub := hub_step (\<lambda>xs. xs) (sn_hub s) (HubRegister c), sn_readers := rs\<rparr>)"
proof -
  let ?h = "sn_hub s"
  have new: "received c ?h = []" using ok c by (auto simp: proc_ok_def received_def filter_empty_conv)
  have "hub_ok (({..<sn_conns s} - set (sn_joining s)) \<union> {c}) (hub_step (\<lambda>xs. xs) ?h (HubRegister c))"
    using hub_step_ok [of "\<lambda>xs. xs" _ ?h "HubRegister c"] ok c by (auto simp: proc_ok_def)
  moreover have "({..<sn_conns s} - set (sn_joining s)) \<union> {c} = {..<sn_conns s} - (set (sn_joining s) - {c})" using ok c by (auto simp: proc_ok_def)
  moreover obtain taken where "sent = taken @ sn_queue s" "\<And>c. c \<in> set (hub_clients ?h) \<Longrightarrow> suffix (received c ?h) taken" "\<And>c. sublist (received c ?h) taken"
    using proc_ok_taken [OF ok] by metis
  ultimately show ?thesis using ok new unfolding proc_ok_def
    by (intro conjI exI [of _ taken]) (auto simp: distinct_removeAll hub_step_def received_def)
qed

lemma leave_ok:
  assumes ok: "proc_ok sent s"
  shows "proc_ok sent (s\<lparr>sn_leaving := ls, sn_hub := hub_step (\<lambda>xs. xs) (sn_hub s) (HubUnregister c)\<rparr>)"
proof -
  let ?h = "sn_hub s"
  have "hub_ok ({..<sn_conns s} - set (sn_joining s)) (hub_step (\<lambda>xs. xs) ?h (HubUnregister c))"
    using hub_step_ok [of "\<lambda>xs. xs" _ ?h "HubUnregister c"] ok by (auto simp: proc_ok_def)
  moreover obtain taken where "sent = taken @ sn_queue s" "\<And>c. c \<in> set (hub_clients ?h) \<Longrightarrow> suffix (received c ?h) taken" "\<And>c. sublist (received c ?h) taken"
    using proc_ok_taken [OF ok] by metis
  ultimately show ?thesis using ok unfolding proc_ok_def
    by (intro conjI exI [of _ taken]) (auto simp: hub_step_def received_def)
qed

lemma snapshot_step_ok:
  assumes "snapshot_step s e s'" "proc_ok (stream es) s"
  shows "proc_ok (stream (es @ [e])) s'"
  using assms(1)
proof cases
  case (ws_request err)
  then show ?thesis using assms(2)
    by (cases err) (auto simp: handleWS_def stream_append proc_ok_def hub_ok_def subset_iff less_Suc_eq)
qed (use assms(2) in \<open>auto simp: stream_append deliver_ok join_ok leave_ok\<close>,
    (auto simp: proc_ok_def feed_received_def push_received_def Let_def)+)


lemma snapshot_run_ok: "snapshot_run es s \<Longrightarrow> proc_ok (stream es) s"
  by (induction rule: snapshot_run.induct)
    (auto simp: snapshot_step_ok, simp add: proc_ok_def snapshot_proc_start_def newHub_def hub_ok_def received_def stream_def)

section \<open>Properties\<close>

text \<open>
  C24. Every client of the snapshot service sees an unbroken part of the stream. Whatever the interleaving of the
  feed, the push requests, the connections and the hub, the messages that were broadcast are those that the hub
  has taken followed by those in the channel, at most 5000; what a connection received is a contiguous part of
  the messages taken, in the same order; what a client that is still registered received ends with the last of
  them, so that it has missed none since its first. No connection is closed twice, and no closed one is a client.
\<close>

theorem clients_see_the_stream:
  assumes "snapshot_run es s"
  shows "\<exists>taken. stream es = taken @ sn_queue s \<and> length (sn_queue s) \<le> broadcast_size \<and> sublist (received c (sn_hub s)) taken \<and>
    (c \<in> set (hub_clients (sn_hub s)) \<longrightarrow> suffix (received c (sn_hub s)) taken) \<and>
    distinct (hub_closed (sn_hub s)) \<and> set (hub_clients (sn_hub s)) \<inter> set (hub_closed (sn_hub s)) = {}"
proof -
  note ok = snapshot_run_ok [OF assms]
  obtain taken where t: "stream es = taken @ sn_queue s" "\<And>c. c \<in> set (hub_clients (sn_hub s)) \<Longrightarrow> suffix (received c (sn_hub s)) taken"
    "\<And>c. sublist (received c (sn_hub s)) taken" using proc_ok_taken [OF ok] by metis
  have "distinct (hub_closed (sn_hub s)) \<and> set (hub_clients (sn_hub s)) \<inter> set (hub_closed (sn_hub s)) = {} \<and> length (sn_queue s) \<le> broadcast_size"
    using ok by (simp add: proc_ok_def hub_ok_def)
  with t show ?thesis by blast
qed

section \<open>Witnesses\<close>

definition pushed :: json where
  "pushed = JObj [(''type'', JStr ''straddle_update''), (''data'', JNull)]"

definition served_events :: "snapshot_event list" where
  "served_events = [WsRequest None, HubJoin 0, PushRequest ''POST'' (Inr (JObj [(''updates'', JArr [JNull])])), PushSend 0 pushed, HubDeliver (\<lambda>xs. xs) (\<lambda>_. True)]"

lemma served_run: "\<exists>s. snapshot_run served_events s \<and> received 0 (sn_hub s) = [pushed]"
proof -
  have "snapshot_run [WsRequest None] (handleWS None snapshot_proc_start)"
    using snapshot_run.run_step [OF snapshot_run.run_start snapshot_step.ws_request] by simp
  from snapshot_run.run_step [OF this snapshot_step.hub_join [of 0]]
  obtain s2 where s2: "snapshot_run [WsRequest None, HubJoin 0] s2" "sn_hub s2 = \<lparr>hub_clients = [0], hub_closed = [], hub_sent = []\<rparr>" "sn_pushes s2 = []" "sn_queue s2 = []" "sn_cache s2 = []"
    by (fastforce simp: handleWS_def snapshot_proc_start_def hub_step_def newHub_def)
  let ?body = "Inr (JObj [(''updates'', JArr [JNull])])"
  have "decode_updates (JObj [(''updates'', JArr [JNull])]) = Some [JNull]" by code_simp
  then have p: "push_received ''POST'' ?body s2 = s2\<lparr>sn_pushes := [[pushed]]\<rparr>" using s2 by (simp add: push_received_def push_snapshots_def pushed_def)
  from snapshot_run.run_step [OF s2(1) snapshot_step.push_request [of _ "''POST''" ?body]]
  have "snapshot_run [WsRequest None, HubJoin 0, PushRequest ''POST'' ?body] (s2\<lparr>sn_pushes := [[pushed]]\<rparr>)" unfolding p by simp
  from snapshot_run.run_step [OF this snapshot_step.push_send [of 0 _ pushed "[]"]] s2
  have "snapshot_run [WsRequest None, HubJoin 0, PushRequest ''POST'' ?body, PushSend 0 pushed] (s2\<lparr>sn_pushes := [[]], sn_queue := [pushed]\<rparr>)"
    by (simp add: broadcast_size_def)
  from snapshot_run.run_step [OF this snapshot_step.hub_deliver [of _ pushed "[]" "\<lambda>xs. xs" "\<lambda>_. True"]] s2 show ?thesis
    unfolding served_events_def by (fastforce simp: hub_step_def hub_write_def received_def)
qed

theorem clients_see_the_stream_witness:
  "\<exists>s taken. snapshot_run served_events s \<and> received 0 (sn_hub s) = [pushed] \<and> stream served_events = taken @ sn_queue s \<and> sublist [pushed] taken"
proof -
  obtain s where s: "snapshot_run served_events s" "received 0 (sn_hub s) = [pushed]" using served_run by blast
  from clients_see_the_stream [OF s(1), of 0] s show ?thesis by metis
qed

end
