(* ===== verification/Services_Start.thy ===== *)
theory Services_Start
  imports Contract_Master_Proofs Control_Trade Session_Manager Snapshot_Feed
begin

text \<open>
  How the smaller services come up and how their libraries load a configuration and publish events: the
  entry points of the contract master, the control API and the session manager, the configuration files of
  the session manager and the broker registry, the event client of \<^verbatim>\<open>go-common/events\<close> and the constructor
  of the feed subscriber. A process that stops before it serves is the left case of the result; what the
  files, the YAML decoder, the listener and the message brokers answer is a parameter.
\<close>

section \<open>contract-master\<close>

text \<open>\<^verbatim>\<open>internal/service/contract_service.go\<close> hands both calls on to the store.\<close>

definition service_Load :: "upsert_env \<Rightarrow> Contract list \<Rightarrow> contracts \<Rightarrow> goerr option \<times> contracts" where
  "service_Load = UpsertContracts"

definition service_GetLotSize :: "goerr option \<Rightarrow> (Contract list \<Rightarrow> Contract list) \<Rightarrow> contracts \<Rightarrow> string \<Rightarrow> string \<Rightarrow> goerr + int" where
  "service_GetLotSize = GetLotSize"

definition contract_dsn :: "(string \<Rightarrow> string) \<Rightarrow> string" where
  "contract_dsn getenv = env_or getenv [''POSTGRES_DSN''] (''postgres'' @ ''://postgres:postgres@localhost:5432/trading?sslmode=disable'')"

definition contract_health :: json where
  "contract_health = JObj [(''service'', JStr ''contract-master''), (''status'', JStr ''ok'')]"

text \<open>
  The process: open the database, load both token files, serve. The result is the address and the table
  that the endpoints read; a table that could not be written ends the process.
\<close>

definition contract_main ::
    "(string \<Rightarrow> csv_file) \<Rightarrow> (string \<Rightarrow> string) \<Rightarrow> (string \<Rightarrow> goerr + contracts) \<Rightarrow> upsert_env \<Rightarrow> goerr + string \<times> contracts" where
  "contract_main read_csv getenv open_db env = (case open_db (contract_dsn getenv) of
      Inl err \<Rightarrow> Inl err
    | Inr t \<Rightarrow> (case contract_master_start read_csv getenv env t of
        (Some err, _) \<Rightarrow> Inl err
      | (None, t) \<Rightarrow> Inr ('':'' @ env_or getenv [''CONTRACT_MASTER_PORT''] ''8010'', t)))"

section \<open>control-api\<close>

definition ca_run :: "(string \<Rightarrow> string) \<Rightarrow> (string \<Rightarrow> goerr) \<Rightarrow> 'b ca_env \<Rightarrow> string \<Rightarrow> json \<Rightarrow> goerr" where
  "ca_run getenv listenAndServe env base request = listenAndServe (fst (newServer env (ca_Load getenv) base request))"

section \<open>session-manager\<close>

record ServiceConfig =
  sc_Accounts :: "AccountConfig list"

definition sm_LoadConfig :: "(string \<Rightarrow> goerr + string) \<Rightarrow> (string \<Rightarrow> goerr + ServiceConfig) \<Rightarrow> string \<Rightarrow> goerr + ServiceConfig" where
  "sm_LoadConfig readFile unmarshal path = (case readFile path of
      Inl err \<Rightarrow> Inl (GoWrap (''failed to read config file '' @ path @ '': '') err)
    | Inr data \<Rightarrow> (case unmarshal data of
        Inl err \<Rightarrow> Inl (GoWrap ''failed to unmarshal config YAML: '' err)
      | Inr cfg \<Rightarrow> Inr cfg))"

text \<open>
  The process calls \<^verbatim>\<open>manager.NewSessionManager\<close>, which the package \<^verbatim>\<open>manager\<close> does not declare (it has
  \<^verbatim>\<open>New\<close>, on a registry), so the constructor is a parameter.
\<close>

definition session_main ::
    "(string \<Rightarrow> string) \<Rightarrow> (string \<Rightarrow> goerr + string) \<Rightarrow> (string \<Rightarrow> goerr + ServiceConfig) \<Rightarrow> (ServiceConfig \<Rightarrow> goerr + 'm) \<Rightarrow>
     (string \<Rightarrow> goerr option) \<Rightarrow> goerr + string \<times> 'm" where
  "session_main getenv readFile unmarshal newManager listen =
     (let port = (if getenv ''PORT'' = '''' then ''50051'' else getenv ''PORT'');
          configPath = (if getenv ''CONFIG_PATH'' = '''' then ''session-manager.yaml'' else getenv ''CONFIG_PATH'') in
      case sm_LoadConfig readFile unmarshal configPath of
        Inl err \<Rightarrow> Inl err
      | Inr cfg \<Rightarrow> (case newManager cfg of
          Inl err \<Rightarrow> Inl err
        | Inr m \<Rightarrow> (case listen ('':'' @ port) of
            Some err \<Rightarrow> Inl err
          | None \<Rightarrow> Inr ('':'' @ port, m))))"

section \<open>libs/broker-registry/config.go\<close>

definition registry_LoadConfig ::
    "(string \<Rightarrow> goerr + string) \<Rightarrow> (string \<Rightarrow> goerr + (string, BrokerConfig option) gomap option) \<Rightarrow> string \<Rightarrow> goerr + (string, BrokerConfig option) gomap" where
  "registry_LoadConfig readFile unmarshal filePath = (case readFile filePath of
      Inl err \<Rightarrow> Inl (GoWrap ''failed to read config file: '' err)
    | Inr data \<Rightarrow> (case unmarshal data of
        Inl err \<Rightarrow> Inl (GoWrap ''failed to unmarshal config: '' err)
      | Inr brokers \<Rightarrow> Inr (case brokers of None \<Rightarrow> [] | Some m \<Rightarrow> m)))"

section \<open>libs/go-common/events\<close>

datatype topic = TopicOrderUpdates | TopicFillEvents | TopicTradeUpdates | TopicWorkerHeartbeat

definition topic_subject :: "topic \<Rightarrow> string" where
  "topic_subject t = (case t of
      TopicOrderUpdates \<Rightarrow> ''orders.update''
    | TopicFillEvents \<Rightarrow> ''orders.fill''
    | TopicTradeUpdates \<Rightarrow> ''trades.update''
    | TopicWorkerHeartbeat \<Rightarrow> ''workers.heartbeat'')"

definition events_Connect :: "(string \<Rightarrow> string) \<Rightarrow> (string \<Rightarrow> goerr + 'c) \<Rightarrow> goerr + 'c" where
  "events_Connect getenv connect =
     (let natsURL = (if getenv ''NATS_URL'' = '''' then ''nats'' @ ''://127.0.0.1:4222'' else getenv ''NATS_URL'') in
      case connect natsURL of
        Inl err \<Rightarrow> Inl (GoWrap (''failed to connect to NATS at '' @ natsURL @ '': '') err)
      | Inr nc \<Rightarrow> Inr nc)"

definition events_Publish :: "('e \<Rightarrow> goerr + string) \<Rightarrow> (string \<Rightarrow> string \<Rightarrow> goerr option) \<Rightarrow> string \<Rightarrow> 'e \<Rightarrow> goerr option" where
  "events_Publish marshal publish subject event = (case marshal event of
      Inl err \<Rightarrow> Some (GoWrap (''failed to marshal event for subject '' @ subject @ '': '') err)
    | Inr payload \<Rightarrow> (case publish subject payload of
        Some err \<Rightarrow> Some (GoWrap (''failed to publish event to subject '' @ subject @ '': '') err)
      | None \<Rightarrow> None))"

section \<open>snapshot-service/internal/zmq\<close>

record ('k, 'c) Subscriber =
  sb_socket :: 'k
  sb_ws :: "'c ws_server"

definition NewSubscriber ::
    "(goerr + 'k) \<Rightarrow> ('k \<Rightarrow> string \<Rightarrow> goerr option) \<Rightarrow> string \<Rightarrow> 'c ws_server \<Rightarrow> goerr + ('k, 'c) Subscriber" where
  "NewSubscriber newSocket connect endpoint ws = (case newSocket of
      Inl err \<Rightarrow> Inl err
    | Inr socket \<Rightarrow> (case connect socket endpoint of
        Some err \<Rightarrow> Inl err
      | None \<Rightarrow> Inr \<lparr>sb_socket = socket, sb_ws = ws\<rparr>))"

section \<open>Facts\<close>

text \<open>
  A contract master that serves has loaded every row of its files, for whatever the table held before, and
  answers for each of them with the built-in lot size of its symbol.
\<close>

lemma contract_main_loaded:
  assumes "contract_main read_csv getenv open_db env = Inr (address, t')" "open_db (contract_dsn getenv) = Inr t" "table_ok t"
  shows "t' = upsert_all (load_token_files read_csv getenv) t \<and> table_ok t'"
proof -
  have start: "contract_master_start read_csv getenv env t = (None, t')"
    using assms(1,2) by (auto simp: contract_main_def split: prod.splits option.splits)
  then show ?thesis using start_upserts(2) [OF start] table_ok_all [OF assms(3) load_ok] by simp
qed

text \<open>A publication fails only on the document or on the connection, and its error names the subject.\<close>

lemma events_Publish_outcome:
  "events_Publish marshal publish subject event = None \<longleftrightarrow> (\<exists>payload. marshal event = Inr payload \<and> publish subject payload = None)"
  by (auto simp: events_Publish_def split: sum.splits option.splits)

lemma topic_subject_inj: "inj topic_subject"
  by (rule injI) (simp add: topic_subject_def split: topic.splits)

text \<open>The registry never returns a nil map: a file without brokers gives the empty one.\<close>

lemma registry_LoadConfig_empty:
  "readFile path = Inr data \<Longrightarrow> unmarshal data = Inr None \<Longrightarrow> registry_LoadConfig readFile unmarshal path = Inr []"
  by (simp add: registry_LoadConfig_def)

end
